(* ===== verification/Prelude.thy ===== *)
theory Prelude
  imports Main "HOL-Library.List_Lexorder" "HOL-Library.Char_ord"
    "HOL-Library.Product_Lexorder" "HOL-Library.Sublist"
begin

text \<open>
  Shared vocabulary of the development.

  Errors: a Python exception is a value \<open>Exn cls msg\<close>, where \<open>cls\<close> is its class and
  \<open>msg\<close> the text \<open>str(error)\<close> gives. A function that may raise returns a sum \<open>'a res\<close>.
  The class \<open>OutsideModel\<close> is no Python class: it marks an input the model does not
  describe (see the theories that use it), and no theorem reads it as behaviour of the code.

  Effects: an operation on the file system is a program \<open>('s, 'a) prog\<close>, a function from
  the state to a result and the state it leaves. An exception keeps the state reached so
  far, as it does in the code: there is no roll-back unless the code writes one.
\<close>

subsection \<open>Exceptions and results\<close>

datatype exn_class =
    ValueError | FileNotFoundError | TypeError | AttributeError | KeyError
  | RuntimeError | StopIteration | YAMLError | JSONDecodeError | PermissionError | FileExistsError
  | NotADirectoryError | IsADirectoryError | ConnectionError | TimeoutError | OutsideModel

datatype pyexn = Exn (exn_class: exn_class) (exn_msg: string)

type_synonym 'a res = "pyexn + 'a"

definition value_error :: "string \<Rightarrow> 'a res" where
  "value_error m = Inl (Exn ValueError m)"

definition not_found :: "string \<Rightarrow> 'a res" where
  "not_found m = Inl (Exn FileNotFoundError m)"

definition type_error :: "string \<Rightarrow> 'a res" where
  "type_error m = Inl (Exn TypeError m)"

fun rbind :: "'a res \<Rightarrow> ('a \<Rightarrow> 'b res) \<Rightarrow> 'b res" where
  "rbind (Inl e) f = Inl e"
| "rbind (Inr x) f = f x"

definition rguard :: "bool \<Rightarrow> pyexn \<Rightarrow> unit res" where
  "rguard b e = (if b then Inr () else Inl e)"

fun rmap_list :: "('a \<Rightarrow> 'b res) \<Rightarrow> 'a list \<Rightarrow> 'b list res" where
  "rmap_list f [] = Inr []"
| "rmap_list f (x # xs) =
     rbind (f x) (\<lambda>y. rbind (rmap_list f xs) (\<lambda>ys. Inr (y # ys)))"

fun rfold :: "('a \<Rightarrow> 's \<Rightarrow> 's res) \<Rightarrow> 'a list \<Rightarrow> 's \<Rightarrow> 's res" where
  "rfold f [] s = Inr s"
| "rfold f (x # xs) s = rbind (f x s) (rfold f xs)"

definition is_ok :: "'a res \<Rightarrow> bool" where
  "is_ok r = (case r of Inl _ \<Rightarrow> False | Inr _ \<Rightarrow> True)"

named_theorems res_simps \<open>unfolding of the result combinators\<close>

lemmas [res_simps] = value_error_def not_found_def type_error_def rguard_def is_ok_def

lemma rbind_Inr_iff [simp]:
  "rbind r f = Inr y \<longleftrightarrow> (\<exists>x. r = Inr x \<and> f x = Inr y)"
  by (cases r) auto

lemma rbind_Inl_iff:
  "rbind r f = Inl e \<longleftrightarrow> r = Inl e \<or> (\<exists>x. r = Inr x \<and> f x = Inl e)"
  by (cases r) auto

lemma rbind_assoc: "rbind (rbind r f) g = rbind r (\<lambda>x. rbind (f x) g)"
  by (cases r) auto

lemma rbind_Inr_right [simp]: "rbind r Inr = r"
  by (cases r) auto

lemma errors_not_Inr [simp]:
  "value_error m \<noteq> Inr x" "not_found m \<noteq> Inr x" "type_error m \<noteq> Inr x"
  by (simp_all add: res_simps)

lemma rguard_Inr [simp]: "rguard b e = Inr u \<longleftrightarrow> b"
  by (simp add: rguard_def)

lemma rguard_Inl [simp]: "rguard b e = Inl e' \<longleftrightarrow> \<not> b \<and> e' = e"
  by (auto simp: rguard_def)

lemma is_ok_simps [simp]: "is_ok (Inl e) = False" "is_ok (Inr x) = True"
  by (simp_all add: is_ok_def)

lemma is_ok_iff: "is_ok r \<longleftrightarrow> (\<exists>x. r = Inr x)"
  by (cases r) auto

lemma not_is_ok_iff: "\<not> is_ok r \<longleftrightarrow> (\<exists>e. r = Inl e)"
  by (cases r) auto

lemma rmap_list_Inr:
  "rmap_list f xs = Inr ys \<longleftrightarrow> list_all2 (\<lambda>x y. f x = Inr y) xs ys"
  by (induction xs arbitrary: ys) (auto simp: list_all2_Cons1)

lemma rmap_list_pure [simp]: "rmap_list (\<lambda>x. Inr (f x)) xs = Inr (map f xs)"
  by (induction xs) auto

lemma rmap_list_cong_Inr:
  "(\<And>x. x \<in> set xs \<Longrightarrow> f x = Inr (g x)) \<Longrightarrow> rmap_list f xs = Inr (map g xs)"
  by (induction xs) auto

lemma rmap_list_set:
  "rmap_list f xs = Inr ys \<Longrightarrow> y \<in> set ys \<longleftrightarrow> (\<exists>x \<in> set xs. f x = Inr y)"
  by (induction xs arbitrary: ys) auto

lemma rmap_list_ok: "(\<And>x. x \<in> set xs \<Longrightarrow> is_ok (f x)) \<Longrightarrow> is_ok (rmap_list f xs)"
  by (induction xs) (auto simp: is_ok_iff)

lemma rmap_list_length: "rmap_list f xs = Inr ys \<Longrightarrow> length ys = length xs"
  by (induction xs arbitrary: ys) auto

text \<open>An invariant of the fold's step is an invariant of the fold.\<close>

lemma rfold_invariant:
  assumes "rfold f xs s = Inr s'" and "P s"
    and "\<And>x s s'. x \<in> set xs \<Longrightarrow> P s \<Longrightarrow> f x s = Inr s' \<Longrightarrow> P s'"
  shows "P s'"
  using assms by (induction xs arbitrary: s) auto

subsection \<open>Programs over a state\<close>

type_synonym ('s, 'a) prog = "'s \<Rightarrow> 'a res \<times> 's"

definition pret :: "'a \<Rightarrow> ('s, 'a) prog" where
  "pret x = (\<lambda>s. (Inr x, s))"

definition plift :: "'a res \<Rightarrow> ('s, 'a) prog" where
  "plift r = (\<lambda>s. (r, s))"

definition pbind :: "('s, 'a) prog \<Rightarrow> ('a \<Rightarrow> ('s, 'b) prog) \<Rightarrow> ('s, 'b) prog" where
  "pbind m f = (\<lambda>s. case m s of (Inl e, t) \<Rightarrow> (Inl e, t) | (Inr x, t) \<Rightarrow> f x t)"

definition pget :: "('s \<Rightarrow> 'a) \<Rightarrow> ('s, 'a) prog" where
  "pget f = (\<lambda>s. (Inr (f s), s))"

definition pread :: "('s \<Rightarrow> 'a res) \<Rightarrow> ('s, 'a) prog" where
  "pread f = (\<lambda>s. (f s, s))"

definition pmodify :: "('s \<Rightarrow> 's) \<Rightarrow> ('s, unit) prog" where
  "pmodify f = (\<lambda>s. (Inr (), f s))"

text \<open>\<open>try: m except Exception as e: h(e)\<close>\<close>

definition ptry :: "('s, 'a) prog \<Rightarrow> (pyexn \<Rightarrow> ('s, 'a) prog) \<Rightarrow> ('s, 'a) prog" where
  "ptry m h = (\<lambda>s. case m s of (Inl e, t) \<Rightarrow> h e t | (Inr x, t) \<Rightarrow> (Inr x, t))"

text \<open>\<open>try: m finally: f\<close> for a clean-up \<open>f\<close> that does not raise.\<close>

definition pfinally :: "('s, 'a) prog \<Rightarrow> ('s \<Rightarrow> 's) \<Rightarrow> ('s, 'a) prog" where
  "pfinally m f = (\<lambda>s. case m s of (r, t) \<Rightarrow> (r, f t))"

text \<open>\<open>for x in xs: acc = f(x, acc)\<close>\<close>

fun pfold :: "('x \<Rightarrow> 'a \<Rightarrow> ('s, 'a) prog) \<Rightarrow> 'x list \<Rightarrow> 'a \<Rightarrow> ('s, 'a) prog" where
  "pfold f [] a = pret a"
| "pfold f (x # xs) a = pbind (f x a) (pfold f xs)"

named_theorems prog_simps \<open>running the program combinators\<close>

lemma pret_run [simp, prog_simps]: "pret x s = (Inr x, s)"
  by (simp add: pret_def)

lemma plift_run [simp, prog_simps]: "plift r s = (r, s)"
  by (simp add: plift_def)

lemma pget_run [simp, prog_simps]: "pget f s = (Inr (f s), s)"
  by (simp add: pget_def)

lemma pread_run [simp, prog_simps]: "pread f s = (f s, s)"
  by (simp add: pread_def)

lemma pmodify_run [simp, prog_simps]: "pmodify f s = (Inr (), f s)"
  by (simp add: pmodify_def)

lemma pbind_Inr: "m s = (Inr x, t) \<Longrightarrow> pbind m f s = f x t"
  by (simp add: pbind_def)

lemma pbind_Inl: "m s = (Inl e, t) \<Longrightarrow> pbind m f s = (Inl e, t)"
  by (simp add: pbind_def)

lemma pbind_pret [simp, prog_simps]: "pbind (pret x) f s = f x s"
  by (simp add: pbind_def)

lemma pbind_plift_Inr [simp, prog_simps]: "pbind (plift (Inr x)) f s = f x s"
  by (simp add: pbind_def)

lemma pbind_plift_Inl [simp, prog_simps]: "pbind (plift (Inl e)) f s = (Inl e, s)"
  by (simp add: pbind_def)

lemma pbind_pget [simp, prog_simps]: "pbind (pget g) f s = f (g s) s"
  by (simp add: pbind_def)

lemma pbind_pmodify [simp, prog_simps]: "pbind (pmodify g) f s = f () (g s)"
  by (simp add: pbind_def)

text \<open>The result of a sequence that returned: both parts returned.\<close>

lemma pbind_InrE [elim!]:
  assumes "pbind m f s = (Inr y, u)"
  obtains x t where "m s = (Inr x, t)" and "f x t = (Inr y, u)"
  using assms by (auto simp: pbind_def split: prod.splits sum.splits)

lemma pbind_cases [consumes 1, case_names err ok]:
  assumes "pbind m f s = (r, u)"
  obtains (err) e where "m s = (Inl e, u)" and "r = Inl e"
  | (ok) x t where "m s = (Inr x, t)" and "f x t = (r, u)"
  using assms by (auto simp: pbind_def split: prod.splits sum.splits)

subsection \<open>Invariants of programs\<close>

text \<open>
  \<open>keeps P m\<close>: from a state with \<open>P\<close>, the program leaves a state with \<open>P\<close>, whether it
  returns or raises. The rules follow the combinators, so that the invariant of an
  operation is one application of the rules and the facts about its own writes.
\<close>

definition keeps :: "('s \<Rightarrow> bool) \<Rightarrow> ('s, 'a) prog \<Rightarrow> bool" where
  "keeps P m \<longleftrightarrow> (\<forall>s. P s \<longrightarrow> P (snd (m s)))"

named_theorems keeps_intros \<open>rules for invariants of programs\<close>

lemma keepsI: "(\<And>s r t. P s \<Longrightarrow> m s = (r, t) \<Longrightarrow> P t) \<Longrightarrow> keeps P m"
  unfolding keeps_def by (metis prod.collapse)

lemma keepsD: "keeps P m \<Longrightarrow> m s = (r, t) \<Longrightarrow> P s \<Longrightarrow> P t"
  unfolding keeps_def by (metis snd_conv)

lemma keeps_pret [keeps_intros]: "keeps P (pret x)"
  by (simp add: keeps_def)

lemma keeps_Pair [keeps_intros]: "keeps P (Pair r)"
  by (simp add: keeps_def)

lemma keeps_plift [keeps_intros]: "keeps P (plift r)"
  by (simp add: keeps_def)

lemma keeps_pget [keeps_intros]: "keeps P (pget f)"
  by (simp add: keeps_def)

lemma keeps_pread [keeps_intros]: "keeps P (pread f)"
  by (simp add: keeps_def)

lemma keeps_pmodify: "(\<And>s. P s \<Longrightarrow> P (f s)) \<Longrightarrow> keeps P (pmodify f)"
  by (simp add: keeps_def)

lemma keeps_pbind [keeps_intros]:
  assumes "keeps P m" and "\<And>x. keeps P (f x)"
  shows "keeps P (pbind m f)"
proof (rule keepsI)
  fix s r t
  assume P: "P s" and run: "pbind m f s = (r, t)"
  from run show "P t"
    by (cases rule: pbind_cases)
      (use P in \<open>auto dest: keepsD [OF assms(1)] keepsD [OF assms(2)]\<close>)
qed

lemma keeps_ptry [keeps_intros]:
  assumes "keeps P m" and "\<And>e. keeps P (h e)"
  shows "keeps P (ptry m h)"
proof (rule keepsI)
  fix s r t
  assume P: "P s" and run: "ptry m h s = (r, t)"
  obtain r' t' where m: "m s = (r', t')" by fastforce
  from keepsD [OF assms(1) m P] have "P t'" .
  with run m show "P t"
    by (cases r') (auto simp: ptry_def dest: keepsD [OF assms(2)])
qed

lemma keeps_pfinally [keeps_intros]:
  assumes "keeps P m" and "\<And>s. P s \<Longrightarrow> P (f s)"
  shows "keeps P (pfinally m f)"
  using assms unfolding keeps_def pfinally_def by (auto split: prod.splits)

lemma keeps_pfold [keeps_intros]:
  assumes "\<And>x a. keeps P (f x a)"
  shows "keeps P (pfold f xs a)"
  by (induction xs arbitrary: a) (auto intro!: keeps_intros assms)

lemma keeps_if [keeps_intros]:
  "keeps P m \<Longrightarrow> keeps P n \<Longrightarrow> keeps P (if b then m else n)"
  by simp

lemma keeps_case_option [keeps_intros]:
  "keeps P m \<Longrightarrow> (\<And>x. keeps P (f x)) \<Longrightarrow> keeps P (case v of None \<Rightarrow> m | Some x \<Rightarrow> f x)"
  by (cases v) auto

lemma keeps_case_prod [keeps_intros]:
  "(\<And>a b. keeps P (f a b)) \<Longrightarrow> keeps P (case v of (a, b) \<Rightarrow> f a b)"
  by (cases v) auto

lemma keeps_Let [keeps_intros]: "(\<And>x. keeps P (f x)) \<Longrightarrow> keeps P (Let v f)"
  by simp

subsection \<open>Outcomes of programs\<close>

text \<open>
  \<open>ensures P m Q E\<close>: from a state with \<open>P\<close>, the program returns some \<open>x\<close> in a state with
  \<open>Q x\<close> or raises in a state with \<open>E\<close>.
\<close>

definition ensures ::
    "('s \<Rightarrow> bool) \<Rightarrow> ('s, 'a) prog \<Rightarrow> ('a \<Rightarrow> 's \<Rightarrow> bool) \<Rightarrow> ('s \<Rightarrow> bool) \<Rightarrow> bool" where
  "ensures P m Q E \<longleftrightarrow> (\<forall>s. P s \<longrightarrow> (case m s of (Inl e, t) \<Rightarrow> E t | (Inr x, t) \<Rightarrow> Q x t))"

lemma ensures_ok: "ensures P m Q E \<Longrightarrow> P s \<Longrightarrow> m s = (Inr x, t) \<Longrightarrow> Q x t"
  by (fastforce simp: ensures_def)

lemma ensures_err: "ensures P m Q E \<Longrightarrow> P s \<Longrightarrow> m s = (Inl e, t) \<Longrightarrow> E t"
  by (fastforce simp: ensures_def)

lemma ensures_pbind:
  assumes "ensures P m Q E" and "\<And>x. ensures (Q x) (f x) R E"
  shows "ensures P (pbind m f) R E"
  using assms by (fastforce simp: ensures_def pbind_def split: prod.splits sum.splits)

lemma ensures_keeps: "keeps P m \<Longrightarrow> (\<And>s. P s \<Longrightarrow> E s) \<Longrightarrow> ensures P m (\<lambda>_. P) E"
  by (auto simp: ensures_def keeps_def split: prod.splits sum.splits)

lemma ensures_weaken:
  assumes "ensures P m Q E" and "\<And>s. P' s \<Longrightarrow> P s" and "\<And>x s. Q x s \<Longrightarrow> Q' x s" and "\<And>s. E s \<Longrightarrow> E' s"
  shows "ensures P' m Q' E'"
  using assms by (fastforce simp: ensures_def split: prod.splits sum.splits)

lemma ensures_pret: "(\<And>s. P s \<Longrightarrow> Q x s) \<Longrightarrow> ensures P (pret x) Q E"
  by (simp add: ensures_def)

lemma ensures_plift:
  "(\<And>x s. r = Inr x \<Longrightarrow> P s \<Longrightarrow> Q x s) \<Longrightarrow> (\<And>s. P s \<Longrightarrow> E s) \<Longrightarrow> ensures P (plift r) Q E"
  by (cases r) (simp_all add: ensures_def)

lemma ensures_pread:
  "(\<And>x s. P s \<Longrightarrow> f s = Inr x \<Longrightarrow> Q x s) \<Longrightarrow> (\<And>s. P s \<Longrightarrow> E s) \<Longrightarrow> ensures P (pread f) Q E"
  by (auto simp: ensures_def split: sum.splits)

text \<open>
  \<open>guarded P F m\<close>: the program keeps \<open>P\<close>, also when it raises, and what it returns has \<open>F\<close>.
\<close>

definition guarded :: "('s \<Rightarrow> bool) \<Rightarrow> ('a \<Rightarrow> bool) \<Rightarrow> ('s, 'a) prog \<Rightarrow> bool" where
  "guarded P F m \<longleftrightarrow> ensures P m (\<lambda>x s. P s \<and> F x) P"

named_theorems guarded_intros \<open>rules for guarded programs\<close>

lemma guarded_keeps: "keeps P m \<Longrightarrow> guarded P (\<lambda>_. True) m"
  unfolding guarded_def by (auto simp: ensures_def keeps_def split: prod.splits sum.splits)

lemma keeps_guarded: "guarded P F m \<Longrightarrow> keeps P m"
  by (rule keepsI, rename_tac s r t, case_tac r)
    (auto simp: guarded_def dest: ensures_ok ensures_err)

lemma guarded_weaken:
  assumes "guarded P F m" and "\<And>x. F x \<Longrightarrow> G x"
  shows "guarded P G m"
  using assms(1) unfolding guarded_def by (rule ensures_weaken) (simp_all add: assms(2))

lemma guarded_pret [guarded_intros]: "F x \<Longrightarrow> guarded P F (pret x)"
  by (simp add: guarded_def ensures_def)

lemma guarded_plift [guarded_intros]: "(\<And>x. r = Inr x \<Longrightarrow> F x) \<Longrightarrow> guarded P F (plift r)"
  by (cases r) (simp_all add: guarded_def ensures_def)

lemma guarded_pread: "(\<And>s x. P s \<Longrightarrow> f s = Inr x \<Longrightarrow> F x) \<Longrightarrow> guarded P F (pread f)"
  by (auto simp: guarded_def ensures_def split: sum.splits)

lemma guarded_if [guarded_intros]:
  "(b \<Longrightarrow> guarded P F m) \<Longrightarrow> (\<not> b \<Longrightarrow> guarded P F n) \<Longrightarrow> guarded P F (if b then m else n)"
  by simp

lemma guarded_Let [guarded_intros]: "(\<And>x. x = v \<Longrightarrow> guarded P F (f x)) \<Longrightarrow> guarded P F (Let v f)"
  by simp

lemma guarded_case_prod [guarded_intros]:
  "(\<And>a b. v = (a, b) \<Longrightarrow> guarded P F (f a b)) \<Longrightarrow> guarded P F (case v of (a, b) \<Rightarrow> f a b)"
  by (cases v) auto

text \<open>Facts about what was returned so far stay at hand in the next triple.\<close>

lemma ensures_fact: "(F \<Longrightarrow> ensures P m Q E) \<Longrightarrow> ensures (\<lambda>s. P s \<and> F) m Q E"
  by (auto simp: ensures_def)

lemma guarded_ensures:
  assumes "guarded P F m" and "\<And>s. P s \<Longrightarrow> E s" and "\<And>x. F x \<Longrightarrow> ensures P (f x) Q E"
  shows "ensures P (pbind m f) Q E"
proof (rule ensures_pbind)
  show "ensures P m (\<lambda>x s. P s \<and> F x) E"
    using assms(1) unfolding guarded_def by (rule ensures_weaken) (simp_all add: assms(2))
qed (rule ensures_fact [OF assms(3)])

lemma guarded_pbind:
  "guarded P F m \<Longrightarrow> (\<And>x. F x \<Longrightarrow> guarded P G (f x)) \<Longrightarrow> guarded P G (pbind m f)"
  unfolding guarded_def [of P G] by (rule guarded_ensures)

subsection \<open>Lists\<close>

text \<open>\<open>dict.fromkeys(xs)\<close> as a list: the first occurrence of each element, in order.\<close>

fun dedup_acc :: "'a list \<Rightarrow> 'a list \<Rightarrow> 'a list" where
  "dedup_acc seen [] = []"
| "dedup_acc seen (x # xs) =
     (if x \<in> set seen then dedup_acc seen xs else x # dedup_acc (x # seen) xs)"

definition dedup :: "'a list \<Rightarrow> 'a list" where
  "dedup xs = dedup_acc [] xs"

lemma set_dedup_acc: "set (dedup_acc seen xs) = set xs - set seen"
  by (induction seen xs rule: dedup_acc.induct) auto

lemma distinct_dedup_acc: "distinct (dedup_acc seen xs)"
  by (induction seen xs rule: dedup_acc.induct) (auto simp: set_dedup_acc)

lemma set_dedup [simp]: "set (dedup xs) = set xs"
  by (simp add: dedup_def set_dedup_acc)

lemma distinct_dedup [simp]: "distinct (dedup xs)"
  by (simp add: dedup_def distinct_dedup_acc)

text \<open>\<open>sorted({...})\<close>: the elements of a set, given as a list, in order and once each.\<close>

definition sorted_set :: "'a::linorder list \<Rightarrow> 'a list" where
  "sorted_set xs = sort (dedup xs)"

lemma sorted_set_facts [simp]:
  "set (sorted_set xs) = set xs" "distinct (sorted_set xs)" "sorted (sorted_set xs)"
  by (simp_all add: sorted_set_def)

lemma sorted_set_Nil_iff [simp]: "sorted_set xs = [] \<longleftrightarrow> xs = []"
  by (metis set_empty sorted_set_facts(1))

lemma sorted_set_cong: "set xs = set ys \<Longrightarrow> sorted_set xs = sorted_set ys"
  by (rule sorted_distinct_set_unique) simp_all

text \<open>\<open>set(xs) - set(ys)\<close> as a list.\<close>

definition diff_list :: "'a list \<Rightarrow> 'a list \<Rightarrow> 'a list" where
  "diff_list xs ys = filter (\<lambda>x. x \<notin> set ys) xs"

lemma set_diff_list [simp]: "set (diff_list xs ys) = set xs - set ys"
  by (auto simp: diff_list_def)

lemma diff_list_Nil_iff: "diff_list xs ys = [] \<longleftrightarrow> set xs \<subseteq> set ys"
  by (auto simp: diff_list_def filter_empty_conv)

lemma find_Some_iff':
  "find P xs = Some x \<Longrightarrow> x \<in> set xs \<and> P x"
  by (induction xs) (auto split: if_splits)

lemma find_distinct:
  "distinct (map f xs) \<Longrightarrow> x \<in> set xs \<Longrightarrow> find (\<lambda>y. f y = f x) xs = Some x"
  by (induction xs) (auto simp: image_iff)

subsection \<open>Association lists: files and dictionaries\<close>

text \<open>
  A dictionary keeps its insertion order, and so does a directory in the model: both are
  association lists. \<open>al_set\<close> replaces the value of a key in place or appends a new
  entry, as \<open>d[k] = v\<close> does; \<open>al_del\<close> removes a key.
\<close>

fun al_set :: "'k \<Rightarrow> 'v \<Rightarrow> ('k \<times> 'v) list \<Rightarrow> ('k \<times> 'v) list" where
  "al_set k v [] = [(k, v)]"
| "al_set k v ((k', v') # d) = (if k = k' then (k, v) # d else (k', v') # al_set k v d)"

definition al_del :: "'k \<Rightarrow> ('k \<times> 'v) list \<Rightarrow> ('k \<times> 'v) list" where
  "al_del k d = filter (\<lambda>e. fst e \<noteq> k) d"

definition al_merge :: "('k \<times> 'v) list \<Rightarrow> ('k \<times> 'v) list \<Rightarrow> ('k \<times> 'v) list" where
  "al_merge d upd = foldl (\<lambda>d e. al_set (fst e) (snd e) d) d upd"

lemma map_of_al_set [simp]: "map_of (al_set k v d) = (map_of d)(k \<mapsto> v)"
  by (induction k v d rule: al_set.induct) (auto simp: fun_eq_iff)

lemma map_of_al_del [simp]: "map_of (al_del k d) = (map_of d)(k := None)"
  by (induction d) (auto simp: al_del_def fun_eq_iff)

lemma dom_al_set [simp]: "fst ` set (al_set k v d) = insert k (fst ` set d)"
  by (induction k v d rule: al_set.induct) auto

lemma dom_al_del [simp]: "fst ` set (al_del k d) = fst ` set d - {k}"
  by (auto simp: al_del_def)

lemma distinct_al_set [simp]:
  "distinct (map fst (al_set k v d)) = distinct (map fst d)"
proof (induction k v d rule: al_set.induct)
  case (2 k v k' v' d)
  then show ?case by auto
qed simp

lemma distinct_al_del [simp]: "distinct (map fst d) \<Longrightarrow> distinct (map fst (al_del k d))"
  by (induction d) (auto simp: al_del_def)

lemma al_merge_simps [simp]:
  "al_merge d [] = d" "al_merge d (e # es) = al_merge (al_set (fst e) (snd e) d) es"
  by (simp_all add: al_merge_def)

lemma map_of_al_merge:
  "distinct (map fst upd) \<Longrightarrow> map_of (al_merge d upd) = map_of d ++ map_of upd"
proof (induction upd arbitrary: d)
  case (Cons e es)
  have "map_of (al_merge d (e # es)) = (map_of d)(fst e \<mapsto> snd e) ++ map_of es"
    using Cons by simp
  also have "\<dots> = map_of d ++ map_of (e # es)"
  proof
    fix k
    have "k = fst e \<Longrightarrow> map_of es k = None"
      using Cons.prems by (auto simp: map_of_eq_None_iff)
    then show "((map_of d)(fst e \<mapsto> snd e) ++ map_of es) k = (map_of d ++ map_of (e # es)) k"
      by (cases e) (auto simp: map_add_def split: option.splits)
  qed
  finally show ?case .
qed simp

lemma al_merge_lookup:
  "distinct (map fst upd) \<Longrightarrow>
   map_of (al_merge d upd) k = (case map_of upd k of None \<Rightarrow> map_of d k | Some v \<Rightarrow> Some v)"
  by (simp add: map_of_al_merge map_add_def)

end
