(* ===== verification/PyValue.thy ===== *)
theory PyValue
  imports PyStrings
begin

text \<open>
  The values of Python the program passes around as \<open>Any\<close>: what \<open>yaml.safe_load\<close> and
  \<open>json.loads\<close> return and \<open>yaml.safe_dump\<close> takes. A mapping is an association list in
  insertion order whose keys are strings. Floats, dates and mappings with other keys are
  outside the model; a tuple and a list are both a \<open>PList\<close>, as they are once dumped.

  The last part is the vocabulary of the \<open>from_dict\<close> class methods: one reader per shape of
  field, \<open>str(data.get(k, ""))\<close> being \<open>fstr d k\<close> and so on, with the equations that read a
  field back from an updated dictionary.
\<close>

subsection \<open>Values and dictionaries\<close>

datatype pyval =
    PNone
  | PBool bool
  | PInt int
  | PStr string
  | PList "pyval list"
  | PDict "(string \<times> pyval) list"

type_synonym pydict = "(string \<times> pyval) list"

abbreviation dget :: "pydict \<Rightarrow> string \<Rightarrow> pyval option" where
  "dget d k \<equiv> map_of d k"

text \<open>\<open>d.get(k, dflt)\<close>\<close>

definition dget_or :: "pydict \<Rightarrow> string \<Rightarrow> pyval \<Rightarrow> pyval" where
  "dget_or d k dflt = (case dget d k of None \<Rightarrow> dflt | Some v \<Rightarrow> v)"

abbreviation pstrs :: "string list \<Rightarrow> pyval" where
  "pstrs xs \<equiv> PList (map PStr xs)"

fun truthy :: "pyval \<Rightarrow> bool" where
  "truthy PNone = False"
| "truthy (PBool b) = b"
| "truthy (PInt i) = (i \<noteq> 0)"
| "truthy (PStr s) = (s \<noteq> [])"
| "truthy (PList xs) = (xs \<noteq> [])"
| "truthy (PDict d) = (d \<noteq> [])"

text \<open>\<open>v or w\<close>\<close>

definition py_or :: "pyval \<Rightarrow> pyval \<Rightarrow> pyval" where
  "py_or v w = (if truthy v then v else w)"

fun is_dict :: "pyval \<Rightarrow> bool" where
  "is_dict (PDict d) = True"
| "is_dict _ = False"

fun type_name :: "pyval \<Rightarrow> string" where
  "type_name PNone = ''NoneType''"
| "type_name (PBool _) = ''bool''"
| "type_name (PInt _) = ''int''"
| "type_name (PStr _) = ''str''"
| "type_name (PList _) = ''list''"
| "type_name (PDict _) = ''dict''"

subsection \<open>Conversions\<close>

definition hex_digit :: "nat \<Rightarrow> char" where
  "hex_digit n = (if n < 10 then char_of (48 + n) else char_of (87 + n))"

definition printable :: "char \<Rightarrow> bool" where
  "printable c = (let n = of_char c :: nat
     in (32 \<le> n \<and> n \<le> 126) \<or> (161 \<le> n \<and> n \<noteq> 173))"

text \<open>One character inside \<open>repr(s)\<close>, between quotes \<open>q\<close>.\<close>

definition repr_char :: "char \<Rightarrow> char \<Rightarrow> string" where
  "repr_char q c =
     (if c = q \<or> c = CHR 0x5C then [CHR 0x5C, c]
      else if c = CHR 0x0A then [CHR 0x5C, CHR ''n'']
      else if c = CHR 0x0D then [CHR 0x5C, CHR ''r'']
      else if c = CHR 0x09 then [CHR 0x5C, CHR ''t'']
      else if printable c then [c]
      else [CHR 0x5C, CHR ''x'', hex_digit (of_char c div 16), hex_digit (of_char c mod 16)])"

definition repr_str :: "string \<Rightarrow> string" where
  "repr_str s =
     (let q = (if CHR 0x27 \<in> set s \<and> CHR 0x22 \<notin> set s then CHR 0x22 else CHR 0x27)
      in [q] @ concat (map (repr_char q) s) @ [q])"

fun py_repr :: "pyval \<Rightarrow> string"
  and repr_items :: "pyval list \<Rightarrow> string list"
  and repr_entries :: "pydict \<Rightarrow> string list" where
  "py_repr PNone = ''None''"
| "py_repr (PBool b) = (if b then ''True'' else ''False'')"
| "py_repr (PInt i) = int_dec i"
| "py_repr (PStr s) = repr_str s"
| "py_repr (PList xs) = ''['' @ join '', '' (repr_items xs) @ '']''"
| "py_repr (PDict d) = ''{'' @ join '', '' (repr_entries d) @ ''}''"
| "repr_items [] = []"
| "repr_items (x # xs) = py_repr x # repr_items xs"
| "repr_entries [] = []"
| "repr_entries ((k, v) # d) = (repr_str k @ '': '' @ py_repr v) # repr_entries d"

text \<open>\<open>str(v)\<close>\<close>

definition py_str :: "pyval \<Rightarrow> string" where
  "py_str v = (case v of PStr s \<Rightarrow> s | _ \<Rightarrow> py_repr v)"

text \<open>\<open>int(v)\<close>\<close>

definition py_int :: "pyval \<Rightarrow> int res" where
  "py_int v = (case v of
     PInt i \<Rightarrow> Inr i
   | PBool b \<Rightarrow> Inr (if b then 1 else 0)
   | PStr s \<Rightarrow> (case parse_int s of
       Some i \<Rightarrow> Inr i
     | None \<Rightarrow> value_error (''invalid literal for int() with base 10: '' @ repr_str s))
   | _ \<Rightarrow> type_error (''int() argument must be a string, a bytes-like object or a real number, not ''
            @ [CHR 0x27] @ type_name v @ [CHR 0x27]))"

text \<open>The items \<open>for x in v\<close> visits: those of a list, the characters of a string, the keys of a mapping.\<close>

definition py_iter :: "pyval \<Rightarrow> pyval list res" where
  "py_iter v = (case v of
     PList xs \<Rightarrow> Inr xs
   | PStr s \<Rightarrow> Inr (map (\<lambda>c. PStr [c]) s)
   | PDict d \<Rightarrow> Inr (map (\<lambda>e. PStr (fst e)) d)
   | _ \<Rightarrow> type_error ([CHR 0x27] @ type_name v @ [CHR 0x27] @ '' object is not iterable''))"

text \<open>
  \<open>dict(v)\<close> for a mapping, and for the empty list or string. A non-empty list of pairs
  would also convert; that case is outside the model.
\<close>

definition py_dict :: "pyval \<Rightarrow> pydict res" where
  "py_dict v = (case v of
     PDict d \<Rightarrow> Inr d
   | PList [] \<Rightarrow> Inr []
   | PStr [] \<Rightarrow> Inr []
   | PList xs \<Rightarrow> Inl (Exn OutsideModel ''dict() of a list'')
   | PStr s \<Rightarrow> value_error ''dictionary update sequence element #0 has length 1; 2 is required''
   | _ \<Rightarrow> type_error ([CHR 0x27] @ type_name v @ [CHR 0x27] @ '' object is not iterable''))"

text \<open>
  \<open>list(v)\<close> where the dataclass declares the items as strings. A list with an item that is
  no string is outside the model.
\<close>

fun as_strings :: "pyval list \<Rightarrow> string list res" where
  "as_strings [] = Inr []"
| "as_strings (PStr s # xs) = rbind (as_strings xs) (\<lambda>ys. Inr (s # ys))"
| "as_strings (x # xs) = Inl (Exn OutsideModel ''list item that is no string'')"

subsection \<open>Readers of the from_dict methods\<close>

text \<open>\<open>str(data.get(k, dflt))\<close>\<close>

definition fstr_or :: "string \<Rightarrow> pydict \<Rightarrow> string \<Rightarrow> string" where
  "fstr_or dflt d k = py_str (dget_or d k (PStr dflt))"

abbreviation fstr :: "pydict \<Rightarrow> string \<Rightarrow> string" where
  "fstr \<equiv> fstr_or []"

text \<open>\<open>int(data.get(k, dflt))\<close>\<close>

definition fint :: "int \<Rightarrow> pydict \<Rightarrow> string \<Rightarrow> int res" where
  "fint dflt d k = py_int (dget_or d k (PInt dflt))"

text \<open>\<open>bool(data.get(k, dflt))\<close>\<close>

definition fbool :: "bool \<Rightarrow> pydict \<Rightarrow> string \<Rightarrow> bool" where
  "fbool dflt d k = truthy (dget_or d k (PBool dflt))"

text \<open>\<open>data.get(k, []) or []\<close>, iterated\<close>

definition fitems :: "pydict \<Rightarrow> string \<Rightarrow> pyval list res" where
  "fitems d k = py_iter (py_or (dget_or d k (PList [])) (PList []))"

text \<open>\<open>tuple(str(item) for item in data.get(k, []) or [])\<close>\<close>

definition fstrs :: "pydict \<Rightarrow> string \<Rightarrow> string list res" where
  "fstrs d k = rbind (fitems d k) (\<lambda>xs. Inr (map py_str xs))"

text \<open>\<open>list(data.get(k, []) or [])\<close> for a field declared \<open>list[str]\<close>\<close>

definition flist_str :: "pydict \<Rightarrow> string \<Rightarrow> string list res" where
  "flist_str d k = rbind (fitems d k) as_strings"

text \<open>\<open>dict(data.get(k, {}) or {})\<close>\<close>

definition fdict :: "pydict \<Rightarrow> string \<Rightarrow> pydict res" where
  "fdict d k = py_dict (py_or (dget_or d k (PDict [])) (PDict []))"

text \<open>\<open>{str(key): str(value) for key, value in dict(data.get(k, {}) or {}).items()}\<close>\<close>

definition fstr_dict :: "pydict \<Rightarrow> string \<Rightarrow> (string \<times> string) list res" where
  "fstr_dict d k = rbind (fdict d k) (\<lambda>e. Inr (map (\<lambda>(k, v). (k, py_str v)) e))"

text \<open>\<open>tuple(f(item) for item in data.get(k, []) or [] if isinstance(item, dict))\<close>\<close>

fun dict_items :: "pyval list \<Rightarrow> pydict list" where
  "dict_items [] = []"
| "dict_items (PDict d # xs) = d # dict_items xs"
| "dict_items (x # xs) = dict_items xs"

definition fdicts :: "(pydict \<Rightarrow> 'a res) \<Rightarrow> pydict \<Rightarrow> string \<Rightarrow> 'a list res" where
  "fdicts f d k = rbind (fitems d k) (\<lambda>xs. rmap_list f (dict_items xs))"

text \<open>\<open>maybe_text\<close> of the models modules: a non-blank string, stripped, or None.\<close>

definition maybe_text :: "pyval \<Rightarrow> string option" where
  "maybe_text v = (case v of PStr s \<Rightarrow> (if strip s = [] then None else Some (strip s)) | _ \<Rightarrow> None)"

definition maybe_int :: "pyval \<Rightarrow> int option" where
  "maybe_int v = (case v of PInt i \<Rightarrow> Some i | _ \<Rightarrow> None)"

definition opt_str :: "string option \<Rightarrow> pyval" where
  "opt_str v = (case v of None \<Rightarrow> PNone | Some s \<Rightarrow> PStr s)"

definition opt_int :: "int option \<Rightarrow> pyval" where
  "opt_int v = (case v of None \<Rightarrow> PNone | Some i \<Rightarrow> PInt i)"

definition str_dict :: "(string \<times> string) list \<Rightarrow> pyval" where
  "str_dict d = PDict (map (\<lambda>(k, v). (k, PStr v)) d)"

subsection \<open>Facts\<close>

named_theorems codec_simps \<open>reading a field of a dictionary\<close>

lemma dget_or_Some [simp]: "dget d k = Some v \<Longrightarrow> dget_or d k dflt = v"
  by (simp add: dget_or_def)

lemma dget_or_None [simp]: "dget d k = None \<Longrightarrow> dget_or d k dflt = dflt"
  by (simp add: dget_or_def)

lemma py_str_PStr [simp]: "py_str (PStr s) = s"
  by (simp add: py_str_def)

lemma py_int_PInt [simp]: "py_int (PInt i) = Inr i"
  by (simp add: py_int_def)

lemma py_iter_PList [simp]: "py_iter (PList xs) = Inr xs"
  by (simp add: py_iter_def)

lemma py_dict_PDict [simp]: "py_dict (PDict d) = Inr d"
  by (simp add: py_dict_def)

lemma py_or_PList [simp]: "py_or (PList xs) (PList []) = PList xs"
  by (simp add: py_or_def)

lemma py_or_PDict [simp]: "py_or (PDict d) (PDict []) = PDict d"
  by (simp add: py_or_def)

lemma as_strings_map [simp]: "as_strings (map PStr xs) = Inr xs"
  by (induction xs) auto

lemma as_strings_Inr: "as_strings xs = Inr ys \<longleftrightarrow> xs = map PStr ys"
  by (induction xs arbitrary: ys rule: as_strings.induct) (auto simp: Cons_eq_map_conv)

lemma dict_items_map [simp]: "dict_items (map (\<lambda>x. PDict (f x)) xs) = map f xs"
  by (induction xs) auto

lemma map_py_str_PStr [simp]: "map (py_str \<circ> PStr) xs = xs"
  by (simp add: map_idI)

lemma maybe_text_opt_str [simp]:
  "(\<And>s. v = Some s \<Longrightarrow> strip s = s \<and> s \<noteq> []) \<Longrightarrow> maybe_text (opt_str v) = v"
  by (cases v) (auto simp: maybe_text_def opt_str_def)

lemma maybe_text_Some: "maybe_text v = Some s \<Longrightarrow> strip s = s \<and> s \<noteq> []"
  by (auto simp: maybe_text_def split: pyval.splits if_splits)

text \<open>An optional text that \<open>maybe_text\<close> reads back as it is.\<close>

definition plain_opt :: "string option \<Rightarrow> bool" where
  "plain_opt v \<longleftrightarrow> (case v of None \<Rightarrow> True | Some s \<Rightarrow> strip s = s \<and> s \<noteq> [])"

lemma maybe_text_plain [simp]: "plain_opt v \<Longrightarrow> maybe_text (opt_str v) = v"
  by (auto simp: plain_opt_def maybe_text_def opt_str_def split: option.splits)

lemma plain_maybe_text [simp]: "plain_opt (maybe_text v)"
  by (auto simp: plain_opt_def dest: maybe_text_Some split: option.splits)

lemma maybe_int_opt_int [simp]: "maybe_int (opt_int v) = v"
  by (cases v) (simp_all add: maybe_int_def opt_int_def)

text \<open>A field that holds a value of the right shape is read back as it is.\<close>

lemma fstr_or_Some [codec_simps]: "dget d k = Some (PStr s) \<Longrightarrow> fstr_or dflt d k = s"
  by (simp add: fstr_or_def)

lemma fint_Some [codec_simps]: "dget d k = Some (PInt i) \<Longrightarrow> fint dflt d k = Inr i"
  by (simp add: fint_def)

lemma fbool_Some [codec_simps]: "dget d k = Some (PBool b) \<Longrightarrow> fbool dflt d k = b"
  by (simp add: fbool_def)

lemma fitems_Some [codec_simps]: "dget d k = Some (PList xs) \<Longrightarrow> fitems d k = Inr xs"
  by (simp add: fitems_def)

lemma fstrs_Some [codec_simps]: "dget d k = Some (pstrs xs) \<Longrightarrow> fstrs d k = Inr xs"
  by (simp add: fstrs_def fitems_Some)

lemma flist_str_Some [codec_simps]: "dget d k = Some (pstrs xs) \<Longrightarrow> flist_str d k = Inr xs"
  by (simp add: flist_str_def fitems_Some)

lemma fdict_Some [codec_simps]: "dget d k = Some (PDict e) \<Longrightarrow> fdict d k = Inr e"
  by (simp add: fdict_def)

lemma fstr_dict_Some [codec_simps]: "dget d k = Some (str_dict e) \<Longrightarrow> fstr_dict d k = Inr e"
  by (simp add: fstr_dict_def fdict_Some str_dict_def case_prod_beta comp_def)

lemma rmap_list_inverse: "(\<And>x. x \<in> set xs \<Longrightarrow> f (g x) = Inr x) \<Longrightarrow> rmap_list f (map g xs) = Inr xs"
  by (induction xs) auto

lemma fdicts_Some [codec_simps]:
  "dget d k = Some (PList (map (\<lambda>x. PDict (g x)) xs)) \<Longrightarrow> (\<And>x. x \<in> set xs \<Longrightarrow> f (g x) = Inr x) \<Longrightarrow>
   fdicts f d k = Inr xs"
  by (simp add: fdicts_def fitems_Some rmap_list_inverse)

end
