(* ===== verification/QueueModels.thy ===== *)
theory QueueModels
  imports PyValue
begin

text \<open>
  \<open>cloud_queue/models.py\<close>: the records of the manual cloud queue and their conversions to and
  from the mappings that are stored as YAML. Each dataclass is a record whose fields carry a
  short prefix (\<open>rq_\<close> for \<open>CloudQueueRequest\<close>, \<open>rs_\<close> for \<open>CloudQueueResponse\<close>, \<open>qe_\<close> for
  \<open>CloudQueueAuditEvent\<close>). A copy with changed fields, \<open>from_dict({**r.to_dict(), ...})\<close>, is
  \<open>request_with\<close>.
\<close>

subsection \<open>Constants\<close>

definition REQUEST_SCHEMA_VERSION :: int where "REQUEST_SCHEMA_VERSION = 1"
definition RESPONSE_SCHEMA_VERSION :: int where "RESPONSE_SCHEMA_VERSION = 1"

definition QUEUE_STATES :: "string list" where
  "QUEUE_STATES =
     [''new'', ''ready'', ''exported'', ''imported'', ''classified_safe'', ''approval_required'',
      ''validated_safe'', ''validated_failed'', ''approved'', ''rejected'', ''canceled'', ''failed'']"

definition TERMINAL_QUEUE_STATES :: "string list" where
  "TERMINAL_QUEUE_STATES = [''approved'', ''rejected'', ''canceled'', ''failed'']"

subsection \<open>Requests\<close>

record cloud_queue_request =
  rq_request_id :: string
  rq_story :: string
  rq_title :: string
  rq_blocker_type :: string
  rq_details :: string
  rq_state :: string
  rq_prior_state :: string
  rq_batch_id :: string
  rq_request_count :: int
  rq_request_schema_version :: int
  rq_response_schema_version :: int
  rq_requirements :: "string list"
  rq_writable_paths :: "string list"
  rq_dependencies :: "string list"
  rq_context_files :: "string list"
  rq_created_at :: string
  rq_updated_at :: string
  rq_source_task_id :: string
  rq_source_plan_revision :: string
  rq_packet_checksum :: string
  rq_normalized_response_checksum :: string
  rq_approval_checksum :: string
  rq_raw_response_checksum :: string
  rq_classification :: string
  rq_next_action :: string
  rq_redaction_summary :: pydict
  rq_audit_event_ids :: "string list"
  rq_notes :: "string list"

definition request_to_dict :: "cloud_queue_request \<Rightarrow> pydict" where
  "request_to_dict r =
     [(''request_id'', PStr (rq_request_id r)),
      (''story'', PStr (rq_story r)),
      (''title'', PStr (rq_title r)),
      (''blocker_type'', PStr (rq_blocker_type r)),
      (''details'', PStr (rq_details r)),
      (''state'', PStr (rq_state r)),
      (''prior_state'', PStr (rq_prior_state r)),
      (''batch_id'', PStr (rq_batch_id r)),
      (''request_count'', PInt (rq_request_count r)),
      (''request_schema_version'', PInt (rq_request_schema_version r)),
      (''response_schema_version'', PInt (rq_response_schema_version r)),
      (''requirements'', pstrs (rq_requirements r)),
      (''writable_paths'', pstrs (rq_writable_paths r)),
      (''dependencies'', pstrs (rq_dependencies r)),
      (''context_files'', pstrs (rq_context_files r)),
      (''created_at'', PStr (rq_created_at r)),
      (''updated_at'', PStr (rq_updated_at r)),
      (''source_task_id'', PStr (rq_source_task_id r)),
      (''source_plan_revision'', PStr (rq_source_plan_revision r)),
      (''packet_checksum'', PStr (rq_packet_checksum r)),
      (''normalized_response_checksum'', PStr (rq_normalized_response_checksum r)),
      (''approval_checksum'', PStr (rq_approval_checksum r)),
      (''raw_response_checksum'', PStr (rq_raw_response_checksum r)),
      (''classification'', PStr (rq_classification r)),
      (''next_action'', PStr (rq_next_action r)),
      (''redaction_summary'', PDict (rq_redaction_summary r)),
      (''audit_event_ids'', pstrs (rq_audit_event_ids r)),
      (''notes'', pstrs (rq_notes r))]"

definition request_from_dict :: "pydict \<Rightarrow> cloud_queue_request res" where
  "request_from_dict d =
     rbind (py_int (py_or (dget_or d ''request_count'' (PInt 1)) (PInt 1))) (\<lambda>count.
     rbind (fint REQUEST_SCHEMA_VERSION d ''request_schema_version'') (\<lambda>request_schema.
     rbind (fint RESPONSE_SCHEMA_VERSION d ''response_schema_version'') (\<lambda>response_schema.
     rbind (flist_str d ''requirements'') (\<lambda>requirements.
     rbind (flist_str d ''writable_paths'') (\<lambda>writable_paths.
     rbind (flist_str d ''dependencies'') (\<lambda>dependencies.
     rbind (flist_str d ''context_files'') (\<lambda>context_files.
     rbind (fdict d ''redaction_summary'') (\<lambda>redaction_summary.
     rbind (flist_str d ''audit_event_ids'') (\<lambda>audit_event_ids.
     rbind (flist_str d ''notes'') (\<lambda>notes.
     Inr \<lparr>
       rq_request_id = fstr d ''request_id'',
       rq_story = fstr d ''story'',
       rq_title = fstr d ''title'',
       rq_blocker_type = fstr d ''blocker_type'',
       rq_details = fstr d ''details'',
       rq_state = fstr d ''state'',
       rq_prior_state = fstr d ''prior_state'',
       rq_batch_id = fstr d ''batch_id'',
       rq_request_count = count,
       rq_request_schema_version = request_schema,
       rq_response_schema_version = response_schema,
       rq_requirements = requirements,
       rq_writable_paths = writable_paths,
       rq_dependencies = dependencies,
       rq_context_files = context_files,
       rq_created_at = fstr d ''created_at'',
       rq_updated_at = fstr d ''updated_at'',
       rq_source_task_id = fstr d ''source_task_id'',
       rq_source_plan_revision = fstr d ''source_plan_revision'',
       rq_packet_checksum = fstr d ''packet_checksum'',
       rq_normalized_response_checksum = fstr d ''normalized_response_checksum'',
       rq_approval_checksum = fstr d ''approval_checksum'',
       rq_raw_response_checksum = fstr d ''raw_response_checksum'',
       rq_classification = fstr d ''classification'',
       rq_next_action = fstr d ''next_action'',
       rq_redaction_summary = redaction_summary,
       rq_audit_event_ids = audit_event_ids,
       rq_notes = notes\<rparr>))))))))))"

text \<open>\<open>CloudQueueRequest.from_dict({**r.to_dict(), **upd})\<close>\<close>

definition request_with :: "cloud_queue_request \<Rightarrow> pydict \<Rightarrow> cloud_queue_request res" where
  "request_with r upd = request_from_dict (al_merge (request_to_dict r) upd)"

text \<open>
  A request that \<open>from_dict\<close> gives back unchanged: its count is not 0, which \<open>or 1\<close> would
  replace.
\<close>

definition wf_request :: "cloud_queue_request \<Rightarrow> bool" where
  "wf_request r \<longleftrightarrow> rq_request_count r \<noteq> 0"

lemma request_to_dict_get [simp]:
  "dget (request_to_dict r) ''request_id'' = Some (PStr (rq_request_id r))"
  "dget (request_to_dict r) ''story'' = Some (PStr (rq_story r))"
  "dget (request_to_dict r) ''title'' = Some (PStr (rq_title r))"
  "dget (request_to_dict r) ''blocker_type'' = Some (PStr (rq_blocker_type r))"
  "dget (request_to_dict r) ''details'' = Some (PStr (rq_details r))"
  "dget (request_to_dict r) ''state'' = Some (PStr (rq_state r))"
  "dget (request_to_dict r) ''prior_state'' = Some (PStr (rq_prior_state r))"
  "dget (request_to_dict r) ''batch_id'' = Some (PStr (rq_batch_id r))"
  "dget (request_to_dict r) ''request_count'' = Some (PInt (rq_request_count r))"
  "dget (request_to_dict r) ''request_schema_version'' = Some (PInt (rq_request_schema_version r))"
  "dget (request_to_dict r) ''response_schema_version'' = Some (PInt (rq_response_schema_version r))"
  "dget (request_to_dict r) ''requirements'' = Some (pstrs (rq_requirements r))"
  "dget (request_to_dict r) ''writable_paths'' = Some (pstrs (rq_writable_paths r))"
  "dget (request_to_dict r) ''dependencies'' = Some (pstrs (rq_dependencies r))"
  "dget (request_to_dict r) ''context_files'' = Some (pstrs (rq_context_files r))"
  "dget (request_to_dict r) ''created_at'' = Some (PStr (rq_created_at r))"
  "dget (request_to_dict r) ''updated_at'' = Some (PStr (rq_updated_at r))"
  "dget (request_to_dict r) ''source_task_id'' = Some (PStr (rq_source_task_id r))"
  "dget (request_to_dict r) ''source_plan_revision'' = Some (PStr (rq_source_plan_revision r))"
  "dget (request_to_dict r) ''packet_checksum'' = Some (PStr (rq_packet_checksum r))"
  "dget (request_to_dict r) ''normalized_response_checksum'' = Some (PStr (rq_normalized_response_checksum r))"
  "dget (request_to_dict r) ''approval_checksum'' = Some (PStr (rq_approval_checksum r))"
  "dget (request_to_dict r) ''raw_response_checksum'' = Some (PStr (rq_raw_response_checksum r))"
  "dget (request_to_dict r) ''classification'' = Some (PStr (rq_classification r))"
  "dget (request_to_dict r) ''next_action'' = Some (PStr (rq_next_action r))"
  "dget (request_to_dict r) ''redaction_summary'' = Some (PDict (rq_redaction_summary r))"
  "dget (request_to_dict r) ''audit_event_ids'' = Some (pstrs (rq_audit_event_ids r))"
  "dget (request_to_dict r) ''notes'' = Some (pstrs (rq_notes r))"
  by (simp_all add: request_to_dict_def)

lemma request_roundtrip:
  assumes "wf_request r"
  shows "request_from_dict (request_to_dict r) = Inr r"
  using assms
  by (simp add: request_from_dict_def wf_request_def py_or_def codec_simps)

subsection \<open>Responses\<close>

record cloud_queue_response =
  rs_response_id :: string
  rs_request_id :: string
  rs_batch_id :: string
  rs_response_schema_version :: int
  rs_normalized_response :: pydict
  rs_raw_response :: string
  rs_checksum :: string
  rs_decision :: string
  rs_claims :: pydict
  rs_adapter :: string
  rs_source_file :: "string option"

definition response_to_dict :: "cloud_queue_response \<Rightarrow> pydict" where
  "response_to_dict r =
     [(''response_id'', PStr (rs_response_id r)),
      (''request_id'', PStr (rs_request_id r)),
      (''batch_id'', PStr (rs_batch_id r)),
      (''response_schema_version'', PInt (rs_response_schema_version r)),
      (''normalized_response'', PDict (rs_normalized_response r)),
      (''raw_response'', PStr (rs_raw_response r)),
      (''checksum'', PStr (rs_checksum r)),
      (''decision'', PStr (rs_decision r)),
      (''claims'', PDict (rs_claims r)),
      (''adapter'', PStr (rs_adapter r)),
      (''source_file'', PStr (case rs_source_file r of None \<Rightarrow> [] | Some f \<Rightarrow> f))]"

definition response_from_dict :: "pydict \<Rightarrow> string option \<Rightarrow> cloud_queue_response res" where
  "response_from_dict d source_file =
     rbind (fint RESPONSE_SCHEMA_VERSION d ''response_schema_version'') (\<lambda>schema.
     rbind (fdict d ''normalized_response'') (\<lambda>normalized.
     rbind (fdict d ''claims'') (\<lambda>claims.
     Inr \<lparr>rs_response_id = fstr d ''response_id'',
       rs_request_id = fstr d ''request_id'',
       rs_batch_id = fstr d ''batch_id'',
       rs_response_schema_version = schema,
       rs_normalized_response = normalized,
       rs_raw_response = fstr d ''raw_response'',
       rs_checksum = fstr d ''checksum'',
       rs_decision = fstr d ''decision'',
       rs_claims = claims,
       rs_adapter = fstr d ''adapter'',
       rs_source_file = source_file\<rparr>)))"

lemma response_to_dict_get [simp]:
  "dget (response_to_dict r) ''response_id'' = Some (PStr (rs_response_id r))"
  "dget (response_to_dict r) ''request_id'' = Some (PStr (rs_request_id r))"
  "dget (response_to_dict r) ''batch_id'' = Some (PStr (rs_batch_id r))"
  "dget (response_to_dict r) ''response_schema_version'' = Some (PInt (rs_response_schema_version r))"
  "dget (response_to_dict r) ''normalized_response'' = Some (PDict (rs_normalized_response r))"
  "dget (response_to_dict r) ''raw_response'' = Some (PStr (rs_raw_response r))"
  "dget (response_to_dict r) ''checksum'' = Some (PStr (rs_checksum r))"
  "dget (response_to_dict r) ''decision'' = Some (PStr (rs_decision r))"
  "dget (response_to_dict r) ''claims'' = Some (PDict (rs_claims r))"
  "dget (response_to_dict r) ''adapter'' = Some (PStr (rs_adapter r))"
  by (simp_all add: response_to_dict_def)

text \<open>The source file is not read back from the mapping: the caller passes it.\<close>

lemma response_roundtrip:
  "response_from_dict (response_to_dict r) f = Inr (r\<lparr>rs_source_file := f\<rparr>)"
  by (simp add: response_from_dict_def codec_simps)

subsection \<open>Audit events\<close>

record cloud_queue_audit_event =
  qe_event_id :: string
  qe_event_type :: string
  qe_request_id :: string
  qe_batch_id :: string
  qe_prior_state :: string
  qe_new_state :: string
  qe_packet_checksum :: string
  qe_request_count :: int
  qe_timestamp :: string
  qe_details :: pydict

definition audit_event_to_dict :: "cloud_queue_audit_event \<Rightarrow> pydict" where
  "audit_event_to_dict e =
     [(''event_id'', PStr (qe_event_id e)),
      (''event_type'', PStr (qe_event_type e)),
      (''request_id'', PStr (qe_request_id e)),
      (''batch_id'', PStr (qe_batch_id e)),
      (''prior_state'', PStr (qe_prior_state e)),
      (''new_state'', PStr (qe_new_state e)),
      (''packet_checksum'', PStr (qe_packet_checksum e)),
      (''request_count'', PInt (qe_request_count e)),
      (''timestamp'', PStr (qe_timestamp e)),
      (''details'', PDict (qe_details e))]"

subsection \<open>Results\<close>

record cloud_queue_import_result =
  ir_imported_count :: nat
  ir_valid_count :: nat
  ir_invalid_count :: nat
  ir_skipped_count :: nat
  ir_request_ids :: "string list"
  ir_audit_event_ids :: "string list"
  ir_imported_paths :: "string list"
  ir_failed_paths :: "string list"

record cloud_queue_status_result =
  sr_request_count :: nat
  sr_counts_by_state :: "(string \<times> nat) list"
  sr_requests :: "cloud_queue_request list"
  sr_terminal_count :: nat

subsection \<open>Copies with changed fields\<close>

text \<open>
  The copies the services make change only text fields. Each of them reads back as the
  record with these fields replaced, whatever the fields are.
\<close>

lemma request_with_get:
  assumes "distinct (map fst upd)"
  shows "dget (al_merge (request_to_dict r) upd) k =
    (case dget upd k of None \<Rightarrow> dget (request_to_dict r) k | Some v \<Rightarrow> Some v)"
  using assms by (rule al_merge_lookup)

lemmas request_with_simps =
  request_with_def request_from_dict_def request_with_get py_or_def codec_simps

lemma request_with_move:
  assumes "wf_request r"
  shows "request_with r
     [(''prior_state'', PStr p), (''state'', PStr s), (''updated_at'', PStr t), (''next_action'', PStr n)]
   = Inr (r\<lparr>rq_prior_state := p, rq_state := s, rq_updated_at := t, rq_next_action := n\<rparr>)"
  using assms by (simp add: request_with_simps wf_request_def)

end
