(* ===== verification/PyPath.thy ===== *)
theory PyPath
  imports PyStrings
begin

text \<open>
  \<open>pathlib.PurePosixPath\<close> as far as the program uses it: the root of a path, its parts
  (empty components and single dots are dropped, double dots are kept) and \<open>as_posix\<close>.
  \<open>lexical_walk\<close> follows the parts of a relative path from a directory and fails when it
  would climb above it; symbolic links are not followed.
\<close>

definition posix_root :: "string \<Rightarrow> string" where
  "posix_root s =
     (if starts_with ''///'' s then ''/''
      else if starts_with ''//'' s then ''//''
      else if starts_with ''/'' s then ''/'' else [])"

definition posix_tail :: "string \<Rightarrow> string list" where
  "posix_tail s = filter (\<lambda>w. w \<noteq> [] \<and> w \<noteq> ''.'') (split_on (CHR ''/'') s)"

definition posix_parts :: "string \<Rightarrow> string list" where
  "posix_parts s = (if posix_root s = [] then [] else [posix_root s]) @ posix_tail s"

definition is_absolute :: "string \<Rightarrow> bool" where
  "is_absolute s \<longleftrightarrow> posix_root s \<noteq> []"

definition as_posix :: "string \<Rightarrow> string" where
  "as_posix s =
     (if posix_root s = [] \<and> posix_tail s = [] then ''.''
      else posix_root s @ join ''/'' (posix_tail s))"

fun lexical_walk :: "string list \<Rightarrow> string list \<Rightarrow> string list option" where
  "lexical_walk here [] = Some here"
| "lexical_walk here (p # ps) =
     (if p = ''..'' then (case here of [] \<Rightarrow> None | _ # up \<Rightarrow> lexical_walk up ps)
      else lexical_walk (p # here) ps)"

subsection \<open>Facts\<close>

text \<open>A list of names: what \<open>posix_tail\<close> returns.\<close>

definition proper_parts :: "string list \<Rightarrow> bool" where
  "proper_parts ps \<longleftrightarrow> (\<forall>p \<in> set ps. p \<noteq> [] \<and> p \<noteq> ''.'' \<and> CHR ''/'' \<notin> set p)"

lemma proper_posix_tail [simp]: "proper_parts (posix_tail s)"
  by (auto simp: proper_parts_def posix_tail_def dest: split_on_no_sep)

lemma relative_hd: "posix_root s = [] \<longleftrightarrow> \<not> starts_with ''/'' s"
  by (auto simp: posix_root_def starts_with_iff)

lemma join_hd: "proper_parts (p # ps) \<Longrightarrow> \<not> starts_with ''/'' (join ''/'' (p # ps))"
  by (cases p; cases ps) (auto simp: proper_parts_def)

lemma posix_tail_join:
  assumes "proper_parts ps"
  shows "posix_tail (join ''/'' ps) = ps"
proof (cases "ps = []")
  case False
  then have "split_on (CHR ''/'') (join ''/'' ps) = ps"
    using assms by (intro split_on_join) (auto simp: proper_parts_def)
  then show ?thesis using assms by (auto simp: posix_tail_def proper_parts_def filter_id_conv)
qed (simp add: posix_tail_def)

lemma posix_root_join: "proper_parts ps \<Longrightarrow> posix_root (join ''/'' ps) = []"
  by (cases ps) (use join_hd in \<open>auto simp: relative_hd\<close>)

lemma as_posix_join:
  "proper_parts ps \<Longrightarrow> as_posix (join ''/'' ps) = (if ps = [] then ''.'' else join ''/'' ps)"
  by (simp add: as_posix_def posix_root_join posix_tail_join)

lemma as_posix_relative:
  "\<not> is_absolute s \<Longrightarrow> as_posix s = (if posix_tail s = [] then ''.'' else join ''/'' (posix_tail s))"
  by (simp add: as_posix_def is_absolute_def)

lemma posix_dot [simp]: "posix_root ''.'' = []" "posix_tail ''.'' = []"
  by (simp_all add: posix_root_def posix_tail_def)

lemma as_posix_relative_root: "\<not> is_absolute s \<Longrightarrow> posix_root (as_posix s) = []"
  using posix_root_join [OF proper_posix_tail [of s]] by (simp add: as_posix_relative)

lemma posix_tail_as_posix: "\<not> is_absolute s \<Longrightarrow> posix_tail (as_posix s) = posix_tail s"
  by (simp add: as_posix_relative posix_tail_join)

lemma as_posix_idem:
  assumes "\<not> is_absolute s"
  shows "as_posix (as_posix s) = as_posix s"
proof -
  have "\<not> is_absolute (as_posix s)"
    using as_posix_relative_root [OF assms] by (simp add: is_absolute_def)
  then have "as_posix (as_posix s) =
      (if posix_tail (as_posix s) = [] then ''.'' else join ''/'' (posix_tail (as_posix s)))"
    by (rule as_posix_relative)
  then show ?thesis
    by (simp only: posix_tail_as_posix [OF assms] as_posix_relative [OF assms, symmetric])
qed

text \<open>A part in the middle of a joined path is the text between two slashes.\<close>

lemma join_append:
  "xs \<noteq> [] \<Longrightarrow> ys \<noteq> [] \<Longrightarrow> join sep (xs @ ys) = join sep xs @ sep @ join sep ys"
proof (induction sep xs rule: join.induct)
  case (2 sep x)
  then show ?case by (cases ys) auto
qed auto

lemma join_middle:
  "contains (''/'' @ p @ ''/'') (join ''/'' (xs @ p # ys))" if "xs \<noteq> []" "ys \<noteq> []"
proof -
  have "join ''/'' (xs @ p # ys) = join ''/'' xs @ (''/'' @ p @ ''/'') @ join ''/'' ys"
    using that join_append [of "xs" "[p] @ ys" "''/''"] join_append [of "[p]" ys "''/''"] by simp
  then show ?thesis unfolding contains_iff by metis
qed

lemma join_front: "starts_with (p @ ''/'') (join ''/'' (p # ys))" if "ys \<noteq> []"
  using join_append [of "[p]" ys "''/''"] that unfolding starts_with_iff by auto

lemma walk_append:
  "lexical_walk here (ps @ qs) = Option.bind (lexical_walk here ps) (\<lambda>h. lexical_walk h qs)"
  by (induction here ps rule: lexical_walk.induct) (auto split: list.splits)

lemma walk_names: "''..'' \<notin> set ps \<Longrightarrow> lexical_walk here ps = Some (rev ps @ here)"
  by (induction ps arbitrary: here) auto

end
