(* ===== verification/FileStore.thy ===== *)
theory FileStore
  imports PyPath PyValue
begin

text \<open>
  The files of a project. A path is the list of its parts, with double dots kept as
  \<open>pathlib\<close> keeps them; the operating system follows them when a file is opened, which needs
  every directory on the way to exist. A file the program wrote with \<open>yaml.safe_dump\<close> or
  \<open>json.dumps\<close> is the value it was written from, since reading it back gives that value; a
  file somebody else wrote is its text. Symbolic links, permissions, a full disk and other
  processes are not modelled.
\<close>

datatype content =
    Doc pyval
  | Log "pydict list"
  | Text string

type_synonym path = "string list"

record disk =
  fs_files :: "(path \<times> content) list"
  fs_dirs :: "path list"

subsection \<open>Paths\<close>

text \<open>\<open>base / rel\<close>\<close>

definition join_path :: "path \<Rightarrow> string \<Rightarrow> path" where
  "join_path base rel = (if is_absolute rel then posix_tail rel else base @ posix_tail rel)"

text \<open>The place a path leads to, and the directories on the way.\<close>

definition lexical :: "path \<Rightarrow> path" where
  "lexical p = foldl (\<lambda>here c. if c = ''..'' then butlast here else here @ [c]) [] p"

fun parents :: "path \<Rightarrow> path list" where
  "parents [] = []"
| "parents (c # cs) = [] # map (\<lambda>p. c # p) (parents cs)"

text \<open>\<open>path.name\<close>, \<open>path.suffix\<close> and \<open>path.stem\<close> of the last part\<close>

definition last_dot :: "string \<Rightarrow> nat option" where
  "last_dot s = (let t = takeWhile (\<lambda>c. c \<noteq> CHR ''.'') (rev s)
     in if length t < length s then Some (length s - length t - 1) else None)"

definition name_stem :: "string \<Rightarrow> string" where
  "name_stem n = (case last_dot n of
     Some i \<Rightarrow> if 0 < i \<and> i < length n - 1 then take i n else n | None \<Rightarrow> n)"

definition name_suffix :: "string \<Rightarrow> string" where
  "name_suffix n = (case last_dot n of
     Some i \<Rightarrow> if 0 < i \<and> i < length n - 1 then drop i n else [] | None \<Rightarrow> [])"

definition path_name :: "path \<Rightarrow> string" where
  "path_name p = (if p = [] then [] else last p)"

definition path_text :: "path \<Rightarrow> string" where
  "path_text p = CHR ''/'' # join ''/'' p"

subsection \<open>Reading\<close>

fun below :: "path \<Rightarrow> path \<Rightarrow> path option" where
  "below [] p = Some p"
| "below (c # cs) [] = None"
| "below (c # cs) (d # p) = (if c = d then below cs p else None)"

definition fs_is_dir :: "disk \<Rightarrow> path \<Rightarrow> bool" where
  "fs_is_dir d p \<longleftrightarrow> list_ex (\<lambda>q. below p q \<noteq> None) (fs_dirs d)
     \<or> list_ex (\<lambda>e. below p (fst e) \<noteq> None \<and> fst e \<noteq> p) (fs_files d)"

definition reachable :: "disk \<Rightarrow> path \<Rightarrow> bool" where
  "reachable d p \<longleftrightarrow> list_all (\<lambda>q. fs_is_dir d (lexical q)) (parents p)"

definition fs_file :: "disk \<Rightarrow> path \<Rightarrow> content option" where
  "fs_file d p = (if reachable d p then map_of (fs_files d) (lexical p) else None)"

definition fs_exists :: "disk \<Rightarrow> path \<Rightarrow> bool" where
  "fs_exists d p \<longleftrightarrow> fs_file d p \<noteq> None \<or> (reachable d p \<and> fs_is_dir d (lexical p))"

text \<open>The names of the directories and of the files directly inside a directory.\<close>

definition child_dirs :: "disk \<Rightarrow> path \<Rightarrow> string list" where
  "child_dirs d p = dedup
     (concat (map (\<lambda>q. case below p q of Some (c # _) \<Rightarrow> [c] | _ \<Rightarrow> []) (fs_dirs d))
      @ concat (map (\<lambda>e. case below p (fst e) of Some (c # _ # _) \<Rightarrow> [c] | _ \<Rightarrow> []) (fs_files d)))"

definition child_files :: "disk \<Rightarrow> path \<Rightarrow> string list" where
  "child_files d p = dedup
     (concat (map (\<lambda>e. case below p (fst e) of Some [c] \<Rightarrow> [c] | _ \<Rightarrow> []) (fs_files d)))"

subsection \<open>Writing\<close>

definition fs_mkdir :: "path \<Rightarrow> disk \<Rightarrow> disk" where
  "fs_mkdir p d = d\<lparr>fs_dirs := fs_dirs d @ map lexical (parents p @ [p])\<rparr>"

definition fs_write :: "path \<Rightarrow> content \<Rightarrow> disk \<Rightarrow> disk" where
  "fs_write p v d = d\<lparr>fs_files := al_set (lexical p) v (fs_files d)\<rparr>"

definition fs_unlink :: "path \<Rightarrow> disk \<Rightarrow> disk" where
  "fs_unlink p d = d\<lparr>fs_files := al_del (lexical p) (fs_files d)\<rparr>"

subsection \<open>Paths without double dots\<close>

definition plain_path :: "path \<Rightarrow> bool" where
  "plain_path p \<longleftrightarrow> ''..'' \<notin> set p"

definition plain_name :: "string \<Rightarrow> bool" where
  "plain_name s \<longleftrightarrow> s \<noteq> [] \<and> s \<noteq> ''.'' \<and> s \<noteq> ''..'' \<and> CHR ''/'' \<notin> set s"

lemma lexical_fold:
  "''..'' \<notin> set p \<Longrightarrow>
   foldl (\<lambda>here c. if c = ''..'' then butlast here else here @ [c]) here p = here @ p"
  by (induction p arbitrary: here) auto

lemma lexical_plain [simp]: "plain_path p \<Longrightarrow> lexical p = p"
  by (simp add: lexical_def plain_path_def lexical_fold)

lemma plain_path_simps [simp]:
  "plain_path []" "plain_path (c # p) \<longleftrightarrow> c \<noteq> ''..'' \<and> plain_path p"
  "plain_path (p @ q) \<longleftrightarrow> plain_path p \<and> plain_path q"
  by (auto simp: plain_path_def)

lemma plain_not_absolute: "plain_name s \<Longrightarrow> \<not> is_absolute s"
  by (cases s) (auto simp: plain_name_def is_absolute_def relative_hd starts_with_iff)

lemma plain_tail: "plain_name s \<Longrightarrow> posix_tail s = [s]"
  by (simp add: plain_name_def posix_tail_def)

lemma join_plain [simp]: "plain_name s \<Longrightarrow> join_path base s = base @ [s]"
  by (simp add: join_path_def plain_not_absolute plain_tail)

lemma plain_name_file: "CHR ''/'' \<notin> set s \<Longrightarrow> plain_name (s @ ''.yaml'')"
  by (auto simp: plain_name_def Cons_eq_append_conv append_eq_Cons_conv)

lemma plain_name_parts: "plain_name s \<Longrightarrow> plain_path [s]"
  by (simp add: plain_name_def)

lemma below_iff: "below p q = Some r \<longleftrightarrow> q = p @ r"
  by (induction p q rule: below.induct) auto

lemma below_append [simp]: "below p (p @ r) = Some r"
  by (simp add: below_iff)

lemma parents_iff: "q \<in> set (parents p) \<longleftrightarrow> (\<exists>r. r \<noteq> [] \<and> p = q @ r)"
proof (induction p arbitrary: q)
  case (Cons c p)
  then show ?case by (cases q) auto
qed auto

text \<open>A file that is there at the end of a plain path is reachable.\<close>

lemma is_dir_above:
  assumes "map_of (fs_files d) (q @ r) = Some v" and "r \<noteq> []"
  shows "fs_is_dir d q"
proof -
  have "(q @ r, v) \<in> set (fs_files d)" using assms(1) by (rule map_of_SomeD)
  then show ?thesis
    using assms(2) by (auto simp: fs_is_dir_def list_ex_iff intro!: bexI [of _ "(q @ r, v)"])
qed

lemma fs_file_plain [simp]: "plain_path p \<Longrightarrow> fs_file d p = map_of (fs_files d) p"
proof -
  assume p: "plain_path p"
  show ?thesis
  proof (cases "map_of (fs_files d) p")
    case None
    then show ?thesis using p by (simp add: fs_file_def)
  next
    case (Some v)
    have "reachable d p"
      unfolding reachable_def list_all_iff
    proof
      fix q assume "q \<in> set (parents p)"
      then obtain r where r: "r \<noteq> []" "p = q @ r" by (auto simp: parents_iff)
      with p have "lexical q = q" by simp
      with is_dir_above [of d q r v] Some r show "fs_is_dir d (lexical q)" by simp
    qed
    then show ?thesis using p by (simp add: fs_file_def)
  qed
qed

lemma fs_files_write [simp]: "fs_files (fs_write p v d) = al_set (lexical p) v (fs_files d)"
  by (simp add: fs_write_def)

lemma fs_files_unlink [simp]: "fs_files (fs_unlink p d) = al_del (lexical p) (fs_files d)"
  by (simp add: fs_unlink_def)

lemma fs_files_mkdir [simp]: "fs_files (fs_mkdir p d) = fs_files d"
  by (simp add: fs_mkdir_def)

lemma child_files_iff:
  "c \<in> set (child_files d p) \<longleftrightarrow> map_of (fs_files d) (p @ [c]) \<noteq> None"
proof -
  have "c \<in> set (child_files d p) \<longleftrightarrow> (\<exists>e \<in> set (fs_files d). below p (fst e) = Some [c])"
    by (auto simp: child_files_def split: option.splits list.splits; force)
  also have "\<dots> \<longleftrightarrow> p @ [c] \<in> fst ` set (fs_files d)"
    by (force simp: below_iff)
  finally show ?thesis by (simp add: map_of_eq_None_iff)
qed

lemma child_dirs_file:
  "map_of (fs_files d) (p @ c # e # r) = Some v \<Longrightarrow> c \<in> set (child_dirs d p)"
  by (force simp: child_dirs_def below_iff dest!: map_of_SomeD intro!: bexI)

lemma plain_lexical_fold:
  "plain_path here \<Longrightarrow>
   plain_path (foldl (\<lambda>here c. if c = ''..'' then butlast here else here @ [c]) here p)"
proof (induction p arbitrary: here)
  case (Cons c p)
  then show ?case by (auto simp: plain_path_def dest: in_set_butlastD)
qed simp

lemma plain_lexical: "plain_path (lexical p)"
  by (simp add: lexical_def plain_lexical_fold)

text \<open>Every file and directory is kept under the place its path leads to.\<close>

definition plain_disk :: "disk \<Rightarrow> bool" where
  "plain_disk d \<longleftrightarrow> (\<forall>e \<in> set (fs_files d). plain_path (fst e)) \<and> (\<forall>q \<in> set (fs_dirs d). plain_path q)"

lemma set_al_set: "set (al_set k v d) \<subseteq> insert (k, v) (set d)"
  by (induction k v d rule: al_set.induct) auto

lemma plain_disk_ops [simp]:
  "plain_disk d \<Longrightarrow> plain_disk (fs_write p v d)"
  "plain_disk d \<Longrightarrow> plain_disk (fs_unlink p d)"
  "plain_disk d \<Longrightarrow> plain_disk (fs_mkdir p d)"
  using set_al_set [of "lexical p" v "fs_files d"]
  by (auto simp: plain_disk_def fs_write_def fs_unlink_def fs_mkdir_def al_del_def plain_lexical)

lemma child_dirs_cases:
  assumes "c \<in> set (child_dirs d p)"
  shows "\<exists>r. p @ c # r \<in> set (fs_dirs d) \<union> fst ` set (fs_files d)"
proof -
  from assms consider q r where "q \<in> set (fs_dirs d)" "below p q = Some (c # r)"
    | e r where "e \<in> set (fs_files d)" "below p (fst e) = Some (c # r)"
    by (auto simp: child_dirs_def split: option.splits list.splits; metis)
  then show ?thesis
    by cases (auto simp: below_iff intro!: exI image_eqI)
qed

lemma plain_child_dirs:
  "plain_disk d \<Longrightarrow> c \<in> set (child_dirs d p) \<Longrightarrow> plain_path (p @ [c])"
  using child_dirs_cases [of c d p] by (fastforce simp: plain_disk_def)

lemma plain_child_files:
  "plain_disk d \<Longrightarrow> c \<in> set (child_files d p) \<Longrightarrow> plain_path (p @ [c])"
  unfolding child_files_iff plain_disk_def by (metis fst_conv map_of_SomeD option.exhaust)

lemma mkdir_dirs:
  assumes "q \<in> set (fs_dirs (fs_mkdir p d))" and "plain_path p"
  shows "q \<in> set (fs_dirs d) \<or> length q \<le> length p"
proof -
  have "length (lexical r) \<le> length p" if "r \<in> set (parents p @ [p])" for r
  proof -
    from that have "\<exists>t. p = r @ t" by (auto simp: parents_iff)
    with assms(2) show ?thesis by auto
  qed
  with assms(1) show ?thesis by (auto simp: fs_mkdir_def)
qed

lemma not_dir:
  assumes "\<And>q. q \<in> set (fs_dirs d) \<Longrightarrow> length q < length p"
    and "\<And>e. e \<in> set (fs_files d) \<Longrightarrow> length (fst e) \<le> length p"
  shows "\<not> fs_is_dir d p"
proof
  assume "fs_is_dir d p"
  then consider q t where "q \<in> set (fs_dirs d)" "q = p @ t"
    | e t where "e \<in> set (fs_files d)" "fst e = p @ t" "fst e \<noteq> p"
    by (auto simp: fs_is_dir_def list_ex_iff below_iff)
  then show False by cases (use assms in fastforce)+
qed

subsection \<open>One document per identifier\<close>

text \<open>
  The contract of a store of files, and of one that keeps each document in the directory
  named after its state. A document is moved by removing the old file and writing the new
  one; where each identifier had at most one document it still has.
\<close>

locale file_store =
  fixes look :: "'s \<Rightarrow> 'k \<Rightarrow> 'v option"
    and put :: "'k \<Rightarrow> 'v \<Rightarrow> 's \<Rightarrow> 's"
    and del :: "'k \<Rightarrow> 's \<Rightarrow> 's"
    and ok :: "'k \<Rightarrow> bool"
  assumes look_put: "ok k \<Longrightarrow> ok l \<Longrightarrow> look (put k v s) l = (if l = k then Some v else look s l)"
    and look_del: "ok k \<Longrightarrow> ok l \<Longrightarrow> look (del k s) l = (if l = k then None else look s l)"
begin

lemma put_same: "ok k \<Longrightarrow> look (put k v s) k = Some v"
  by (simp add: look_put)

lemma move_look:
  "ok k \<Longrightarrow> ok l \<Longrightarrow> ok m \<Longrightarrow>
   look (put k v (del l s)) m = (if m = k then Some v else if m = l then None else look s m)"
  by (simp add: look_put look_del)

end

locale state_directories = file_store look put del ok
  for look :: "'s \<Rightarrow> 'k \<Rightarrow> 'v option" and put :: "'k \<Rightarrow> 'v \<Rightarrow> 's \<Rightarrow> 's"
    and del :: "'k \<Rightarrow> 's \<Rightarrow> 's" and ok :: "'k \<Rightarrow> bool" +
  fixes key :: "'a \<Rightarrow> 'b \<Rightarrow> 'k" and states :: "'a set" and names :: "'b set"
  assumes key_ok: "a \<in> states \<Longrightarrow> i \<in> names \<Longrightarrow> ok (key a i)"
    and key_inj: "a \<in> states \<Longrightarrow> b \<in> states \<Longrightarrow> i \<in> names \<Longrightarrow> j \<in> names \<Longrightarrow>
      key a i = key b j \<longleftrightarrow> a = b \<and> i = j"
begin

definition single :: "'s \<Rightarrow> bool" where
  "single s \<longleftrightarrow> (\<forall>a \<in> states. \<forall>b \<in> states. \<forall>i \<in> names.
     look s (key a i) \<noteq> None \<and> look s (key b i) \<noteq> None \<longrightarrow> a = b)"

lemma singleD:
  "single s \<Longrightarrow> a \<in> states \<Longrightarrow> b \<in> states \<Longrightarrow> i \<in> names \<Longrightarrow>
   look s (key a i) = Some v \<Longrightarrow> look s (key b i) = Some w \<Longrightarrow> a = b \<and> v = w"
  unfolding single_def by (metis option.distinct(1) option.inject)

lemma single_put_fresh:
  assumes "single s" "a \<in> states" "i \<in> names" "\<And>b. b \<in> states \<Longrightarrow> look s (key b i) = None"
  shows "single (put (key a i) v s)"
proof -
  have "look (put (key a i) v s) (key b j) \<noteq> None \<longleftrightarrow> (if j = i then b = a else look s (key b j) \<noteq> None)"
    if "b \<in> states" "j \<in> names" for b j
    using assms that by (simp add: look_put key_ok key_inj)
  with assms(1) show ?thesis unfolding single_def by metis
qed

lemma single_put_same:
  assumes "single s" "a \<in> states" "i \<in> names" "look s (key a i) \<noteq> None"
  shows "single (put (key a i) v s)"
  using assms unfolding single_def by (simp add: look_put key_ok key_inj) blast

lemma single_del: "single s \<Longrightarrow> ok k \<Longrightarrow> single (del k s)"
  unfolding single_def by (simp add: look_del key_ok) metis

lemma single_move:
  assumes "single s" "a \<in> states" "b \<in> states" "i \<in> names" "look s (key a i) \<noteq> None"
  shows "single (put (key b i) v (del (key a i) s))"
  using assms unfolding single_def by (simp add: move_look key_ok key_inj) blast

end

interpretation disk_files: file_store fs_file fs_write fs_unlink plain_path
  by unfold_locales auto

end
