(* ===== verification/QueueValidation.thy ===== *)
theory QueueValidation
  imports QueueModels FileStore "HOL-Library.Word"
begin

unbundle bit_operations_syntax

text \<open>
  \<open>cloud_queue/validation.py\<close> and \<open>cloud_queue/redaction.py\<close>: what a request identifier, a
  relative path, a response and an archive must look like to be accepted.

  The codecs are not under \<open>src/\<close>: they are the fields of \<open>codecs\<close>, a parameter of the
  functions that use them. An archive is what \<open>ZipFile\<close> reports of it (\<open>None\<close> for a file
  that is no archive). The expansion ratio is compared exactly; the code divides floats,
  which gives the same answer for sizes below two to the 45.
\<close>

subsection \<open>Codecs\<close>

datatype yaml_token = AliasToken | TagToken | OtherToken

text \<open>
  \<open>yaml.scan\<close> is a generator: the tokens it yields and the error it may end with.
  \<open>hashlib.sha256(text.encode()).hexdigest()\<close>, the same of bytes, \<open>yaml.safe_dump(v, sort_keys=...)\<close>,
  \<open>json.dumps(v, sort_keys=True)\<close>, \<open>yaml.scan\<close>, \<open>yaml.safe_load\<close>, \<open>json.loads\<close> and the
  UTF-8 decoder. A byte is a character.
\<close>

record codecs =
  sha256_hex :: "string \<Rightarrow> string"
  sha256_bytes :: "string \<Rightarrow> string"
  yaml_dump :: "bool \<Rightarrow> pyval \<Rightarrow> string"
  json_dumps :: "pyval \<Rightarrow> string"
  yaml_scan :: "string \<Rightarrow> yaml_token list \<times> pyexn option"
  yaml_load :: "string \<Rightarrow> pyval res"
  json_load :: "string \<Rightarrow> pyval res"
  utf8_decode :: "string \<Rightarrow> string option"

subsection \<open>Limits\<close>

definition MAX_ARCHIVE_ENTRIES :: nat where "MAX_ARCHIVE_ENTRIES = 256"
definition MAX_ARCHIVE_BYTES :: nat where "MAX_ARCHIVE_BYTES = 5 * 1024 * 1024"
definition MAX_RESPONSE_BYTES :: nat where "MAX_RESPONSE_BYTES = 512 * 1024"
definition MAX_SINGLE_PATH_LENGTH :: nat where "MAX_SINGLE_PATH_LENGTH = 240"
definition MAX_EXPANSION_RATIO :: nat where "MAX_EXPANSION_RATIO = 120"
definition MAX_REQUESTS_PER_BATCH :: nat where "MAX_REQUESTS_PER_BATCH = 32"

subsection \<open>Identifiers and paths\<close>

definition normalize_request_id :: "string \<Rightarrow> string res" where
  "normalize_request_id request_id =
     (let rid = strip request_id
      in if rid = [] then value_error ''Request ID cannot be empty.''
         else if contains ''/'' rid \<or> contains [CHR 0x5C] rid \<or> contains ''..'' rid
         then value_error (''Request ID cannot contain path separators: '' @ rid)
         else Inr rid)"

definition normalize_relative_path :: "string \<Rightarrow> string res" where
  "normalize_relative_path relative_path =
     (let candidate = replace_char (CHR 0x5C) (CHR ''/'') relative_path;
          parts = posix_parts candidate;
          normalized = as_posix candidate
      in if is_absolute candidate
         then value_error (''Absolute paths are not allowed: '' @ relative_path)
         else if starts_with ''/'' candidate \<or> starts_with ''//'' candidate
         then value_error (''Absolute paths are not allowed: '' @ relative_path)
         else if parts \<noteq> [] \<and> contains '':'' (hd parts)
         then value_error (''Drive-letter paths are not allowed: '' @ relative_path)
         else if starts_with ''../'' normalized \<or> contains ''/../'' normalized \<or> normalized = ''..''
         then value_error (''Path traversal is not allowed: '' @ relative_path)
         else if length normalized > MAX_SINGLE_PATH_LENGTH
         then value_error (''Path is too long: '' @ relative_path)
         else Inr normalized)"

fun normalize_writable_loop :: "string list \<Rightarrow> string list \<Rightarrow> string list res" where
  "normalize_writable_loop normalized [] = Inr normalized"
| "normalize_writable_loop normalized (path # paths) =
     rbind (normalize_relative_path path) (\<lambda>candidate.
       if candidate \<in> set normalized
       then value_error (''Duplicate writable path: '' @ candidate)
       else normalize_writable_loop (normalized @ [candidate]) paths)"

definition normalize_writable_paths :: "string list \<Rightarrow> string list res" where
  "normalize_writable_paths paths = normalize_writable_loop [] paths"

subsection \<open>Schemas\<close>

definition request_schema_is_valid :: "cloud_queue_request \<Rightarrow> unit res" where
  "request_schema_is_valid r =
     (if rq_request_schema_version r \<noteq> REQUEST_SCHEMA_VERSION
      then value_error (''Unsupported request schema version: ''
             @ int_dec (rq_request_schema_version r) @ ''.'')
      else if rq_response_schema_version r \<noteq> RESPONSE_SCHEMA_VERSION
      then value_error (''Unsupported response schema version: ''
             @ int_dec (rq_response_schema_version r) @ ''.'')
      else rbind (normalize_request_id (rq_request_id r)) (\<lambda>_.
           rbind (normalize_writable_paths (rq_writable_paths r)) (\<lambda>_. Inr ())))"

definition response_schema_is_valid :: "pydict \<Rightarrow> unit res" where
  "response_schema_is_valid d =
     rbind (fint RESPONSE_SCHEMA_VERSION d ''response_schema_version'') (\<lambda>v.
     if v \<noteq> RESPONSE_SCHEMA_VERSION then value_error ''Unsupported response schema version.''
     else let rid = strip (fstr d ''request_id'')
          in if rid = [] then value_error ''Response must include request_id.''
             else rbind (normalize_request_id rid) (\<lambda>_. Inr ()))"

subsection \<open>Sensitive names\<close>

text \<open>
  The four patterns have the form \<open>(^|[\\/])BODY$\<close>, ignoring case, where \<open>$\<close> also matches
  before a final newline. \<open>name_starts\<close> are the suffixes that begin at a place where the
  first group can match.
\<close>

fun name_starts :: "string \<Rightarrow> string list" where
  "name_starts [] = []"
| "name_starts (c # s) =
     (if c = CHR ''/'' \<or> c = CHR 0x5C then s # name_starts s else name_starts s)"

definition chomp :: "string \<Rightarrow> string list" where
  "chomp s = s # (if s \<noteq> [] \<and> last s = CHR 0x0A then [butlast s] else [])"

definition env_name :: "string \<Rightarrow> bool" where
  "env_name s \<longleftrightarrow> s = ''.env'' \<or>
     (starts_with ''.env.'' s \<and> drop 5 s \<noteq> [] \<and> CHR 0x0A \<notin> set (drop 5 s))"

definition sensitive_body :: "string \<Rightarrow> bool" where
  "sensitive_body s \<longleftrightarrow> env_name s \<or>
     s \<in> set [''id_rsa'', ''id_rsa.pub'', ''credentials'', ''credentials.json'',
             ''config'', ''config.ini'', ''config.toml'']"

definition is_sensitive_filename :: "string \<Rightarrow> bool" where
  "is_sensitive_filename relative_path =
     (let candidate = lower (replace_char (CHR 0x5C) (CHR ''/'') relative_path)
      in list_ex (\<lambda>s. list_ex sensitive_body (chomp s)) (candidate # name_starts candidate))"

definition redact_path_fragment :: "string \<Rightarrow> string" where
  "redact_path_fragment relative_path =
     (if is_sensitive_filename relative_path then ''[REDACTED:FILENAME]'' else relative_path)"

definition path_looks_safe :: "string \<Rightarrow> bool" where
  "path_looks_safe relative_path =
     (case normalize_relative_path relative_path of
        Inl (Exn ValueError _) \<Rightarrow> False
      | _ \<Rightarrow> \<not> is_sensitive_filename relative_path)"

subsection \<open>Archives\<close>

record zip_info =
  zi_filename :: string
  zi_file_size :: nat
  zi_compress_size :: nat
  zi_external_attr :: "32 word"

text \<open>A file on disk: its size and, if it is an archive, the entries of its directory.\<close>

record archive_file =
  af_name :: string
  af_size :: nat
  af_infos :: "zip_info list option"

definition zip_is_dir :: "zip_info \<Rightarrow> bool" where
  "zip_is_dir i \<longleftrightarrow> ends_with ''/'' (zi_filename i)"

definition S_IFMT :: "32 word \<Rightarrow> 32 word" where
  "S_IFMT mode = mode AND 0xF000"

text \<open>\<open>S_IFLNK\<close>, \<open>S_IFCHR\<close>, \<open>S_IFBLK\<close>, \<open>S_IFIFO\<close> and \<open>S_IFSOCK\<close>\<close>

definition unsupported_types :: "32 word list" where
  "unsupported_types = [0xA000, 0x2000, 0x6000, 0x1000, 0xC000]"

text \<open>The loop over the entries: \<open>seen\<close> holds the keys of the paths met so far.\<close>

fun check_entries :: "zip_info list \<Rightarrow> nat \<Rightarrow> string list \<Rightarrow> nat res" where
  "check_entries [] bytes seen = Inr bytes"
| "check_entries (i # is) bytes seen =
     (if zip_is_dir i then check_entries is bytes seen
      else if zi_file_size i = 0 \<and> zi_compress_size i > 0
      then value_error (''Corrupt archive entry detected: '' @ zi_filename i)
      else if zi_file_size i \<noteq> 0 \<and> zi_compress_size i \<noteq> 0
        \<and> zi_file_size i > MAX_EXPANSION_RATIO * max (zi_compress_size i) 1
      then value_error (''Archive entry expands too much: '' @ zi_filename i)
      else rbind (normalize_relative_path (zi_filename i)) (\<lambda>normalized.
        if lower normalized \<in> set seen
        then value_error (''Duplicate normalized archive path: '' @ zi_filename i)
        else if ends_with ''.zip'' (lower normalized)
        then value_error (''Nested zip archives are not allowed: '' @ zi_filename i)
        else if drop_bit 16 (zi_external_attr i) \<noteq> 0
          \<and> S_IFMT (drop_bit 16 (zi_external_attr i)) \<in> set unsupported_types
        then value_error (''Unsupported archive entry type: '' @ zi_filename i)
        else check_entries is (bytes + zi_file_size i) (lower normalized # seen)))"

definition validate_archive :: "archive_file option \<Rightarrow> string \<Rightarrow> unit res" where
  "validate_archive f path = (case f of
     None \<Rightarrow> not_found (''Archive does not exist: '' @ path)
   | Some a \<Rightarrow>
      if af_size a > MAX_ARCHIVE_BYTES
      then value_error (''File exceeds maximum size of '' @ nat_dec MAX_ARCHIVE_BYTES @ '' bytes: '' @ path)
      else (case af_infos a of
        None \<Rightarrow> value_error (''Archive is corrupt: '' @ path)
      | Some infos \<Rightarrow>
          if infos = [] then value_error ''Archive is empty.''
          else if length infos > MAX_ARCHIVE_ENTRIES
          then value_error (''Archive exceeds maximum entry count: '' @ nat_dec (length infos))
          else rbind (check_entries infos 0 []) (\<lambda>bytes.
            if bytes > MAX_ARCHIVE_BYTES * 8
            then value_error ''Archive expands beyond the permitted total size.''
            else Inr ())))"

subsection \<open>Texts and mappings\<close>

text \<open>The decoded text starts with the code point FEFF when the content starts with its three bytes.\<close>

definition ensure_json_or_yaml_text :: "codecs \<Rightarrow> string \<Rightarrow> string res" where
  "ensure_json_or_yaml_text c content =
     (case utf8_decode c content of
        None \<Rightarrow> value_error ''File is not valid UTF-8.''
      | Some text \<Rightarrow>
          if starts_with [CHR 0xEF, CHR 0xBB, CHR 0xBF] content
          then value_error ''UTF-8 BOM is not allowed.''
          else Inr text)"

fun check_tokens :: "yaml_token list \<Rightarrow> unit res" where
  "check_tokens [] = Inr ()"
| "check_tokens (AliasToken # ts) = value_error ''YAML aliases are not allowed.''"
| "check_tokens (TagToken # ts) = value_error ''YAML tags are not allowed.''"
| "check_tokens (OtherToken # ts) = check_tokens ts"

definition load_mapping_text :: "codecs \<Rightarrow> string \<Rightarrow> pydict res" where
  "load_mapping_text c text =
     rbind (check_tokens (fst (yaml_scan c text))) (\<lambda>_.
     rbind (case snd (yaml_scan c text) of None \<Rightarrow> Inr () | Some e \<Rightarrow> Inl e) (\<lambda>_.
     case yaml_load c text of
       Inl e \<Rightarrow> if exn_class e = YAMLError then value_error (''YAML is invalid: '' @ exn_msg e)
               else Inl e
     | Inr PNone \<Rightarrow> Inr []
     | Inr (PDict d) \<Rightarrow> Inr d
     | Inr _ \<Rightarrow> value_error ''Response file must contain a mapping.''))"

definition load_json_mapping :: "codecs \<Rightarrow> string \<Rightarrow> pydict res" where
  "load_json_mapping c content =
     (case json_load c content of
        Inl e \<Rightarrow> if exn_class e = JSONDecodeError then value_error (''JSON is invalid: '' @ exn_msg e)
               else Inl e
      | Inr (PDict d) \<Rightarrow> Inr d
      | Inr _ \<Rightarrow> value_error ''JSON response must contain an object.'')"

definition load_response_from_mapping ::
    "pydict \<Rightarrow> string option \<Rightarrow> cloud_queue_response res" where
  "load_response_from_mapping mapping source_file =
     rbind (response_from_dict mapping source_file) (\<lambda>response.
     rbind (response_schema_is_valid (response_to_dict response)) (\<lambda>_. Inr response))"

definition ensure_request_count :: "cloud_queue_request list \<Rightarrow> unit res" where
  "ensure_request_count requests =
     (if length requests > MAX_REQUESTS_PER_BATCH
      then value_error (''Batch exceeds maximum request count of '' @ nat_dec MAX_REQUESTS_PER_BATCH @ ''.'')
      else Inr ())"

subsection \<open>Identifiers\<close>

lemma normalize_request_id_ok:
  "normalize_request_id r = Inr q \<longleftrightarrow>
     strip r = q \<and> q \<noteq> [] \<and> \<not> contains ''/'' q \<and> \<not> contains [CHR 0x5C] q \<and> \<not> contains ''..'' q"
  by (auto simp: normalize_request_id_def Let_def simp del: contains.simps)

lemma normalize_request_id_idem:
  "normalize_request_id r = Inr q \<Longrightarrow> normalize_request_id q = Inr q"
  unfolding normalize_request_id_ok using strip_strip by metis

lemma normalize_request_id_error:
  "normalize_request_id r = Inl e \<Longrightarrow> exn_class e = ValueError"
  by (auto simp: normalize_request_id_def Let_def res_simps split: if_splits)

subsection \<open>Relative paths\<close>

lemma starts_with_double: "\<not> starts_with ''/'' s \<Longrightarrow> \<not> starts_with ''//'' s"
  by (auto simp: starts_with_iff)

lemma normalize_relative_path_ok:
  "normalize_relative_path p = Inr q \<longleftrightarrow>
     (let c = replace_char (CHR 0x5C) (CHR ''/'') p
      in as_posix c = q \<and> \<not> is_absolute c
         \<and> (posix_parts c \<noteq> [] \<longrightarrow> \<not> contains '':'' (hd (posix_parts c)))
         \<and> \<not> starts_with ''../'' q \<and> \<not> contains ''/../'' q \<and> q \<noteq> ''..''
         \<and> length q \<le> MAX_SINGLE_PATH_LENGTH)"
  by (auto simp: normalize_relative_path_def Let_def is_absolute_def relative_hd starts_with_double
      simp del: contains.simps)

lemma set_join: "set (join sep ws) \<subseteq> set sep \<union> \<Union> (set ` set ws)"
  by (induction sep ws rule: join.induct) auto

lemma set_split_on: "w \<in> set (split_on sep s) \<Longrightarrow> set w \<subseteq> set s"
proof (induction s arbitrary: w)
  case (Cons c s)
  then show ?case by (cases "split_on sep s") (auto split: if_splits, blast+)
qed simp

lemma set_as_posix_relative:
  assumes "\<not> is_absolute s"
  shows "set (as_posix s) \<subseteq> set s \<union> {CHR ''/'', CHR ''.''}"
proof -
  have "\<Union> (set ` set (posix_tail s)) \<subseteq> set s"
    using set_split_on by (fastforce simp: posix_tail_def)
  then have "set (join ''/'' (posix_tail s)) \<subseteq> set s \<union> {CHR ''/''}"
    using set_join [of "''/''" "posix_tail s"] by fastforce
  then show ?thesis using assms by (auto simp: as_posix_relative)
qed

lemma replace_char_id: "a \<notin> set s \<Longrightarrow> replace_char a b s = s"
  by (induction s) (auto simp: replace_char_def)

lemma backslash_replaced: "CHR 0x5C \<notin> set (replace_char (CHR 0x5C) (CHR ''/'') s)"
  by (auto simp: replace_char_def)

lemma normalized_no_backslash:
  assumes "normalize_relative_path p = Inr q"
  shows "replace_char (CHR 0x5C) (CHR ''/'') q = q"
proof (rule replace_char_id)
  let ?c = "replace_char (CHR 0x5C) (CHR ''/'') p"
  from assms have "q = as_posix ?c" "\<not> is_absolute ?c"
    by (simp_all add: normalize_relative_path_ok Let_def)
  then show "CHR 0x5C \<notin> set q"
    using set_as_posix_relative [of ?c] backslash_replaced [of p] by auto
qed

text \<open>What the accepted form of a path looks like.\<close>

lemma normalized_path:
  assumes "normalize_relative_path p = Inr q"
  shows "posix_root q = []" and "as_posix q = q"
    and "posix_tail q = posix_tail (replace_char (CHR 0x5C) (CHR ''/'') p)"
    and "q = (if posix_tail q = [] then ''.'' else join ''/'' (posix_tail q))"
proof -
  let ?c = "replace_char (CHR 0x5C) (CHR ''/'') p"
  from assms have q: "q = as_posix ?c" and rel: "\<not> is_absolute ?c"
    by (simp_all add: normalize_relative_path_ok Let_def)
  show root: "posix_root q = []" using as_posix_relative_root [OF rel] q by simp
  show "as_posix q = q" using as_posix_idem [OF rel] q by simp
  show tail: "posix_tail q = posix_tail ?c" using posix_tail_as_posix [OF rel] q by simp
  show "q = (if posix_tail q = [] then ''.'' else join ''/'' (posix_tail q))"
    unfolding tail unfolding q by (rule as_posix_relative [OF rel])
qed

lemma normalize_relative_path_idem:
  assumes "normalize_relative_path p = Inr q"
  shows "normalize_relative_path q = Inr q"
proof -
  let ?c = "replace_char (CHR 0x5C) (CHR ''/'') p"
  note q = normalized_path [OF assms] normalized_no_backslash [OF assms]
  have "\<not> is_absolute q" using q(1) by (simp add: is_absolute_def)
  moreover from assms have "posix_parts q = posix_parts ?c"
    using q(1,3) by (simp add: posix_parts_def normalize_relative_path_ok Let_def is_absolute_def)
  ultimately show ?thesis
    using assms q by (simp add: normalize_relative_path_ok Let_def)
qed

text \<open>Double dots occur in an accepted path at its end only, after at least one name.\<close>

lemma normalized_dots:
  assumes "normalize_relative_path p = Inr q" and "posix_tail q = xs @ ''..'' # ys"
  shows "ys = [] \<and> xs \<noteq> []"
proof -
  have q: "q = join ''/'' (xs @ ''..'' # ys)"
    using normalized_path(4) [OF assms(1)] assms(2) by simp
  from assms(1) have no: "\<not> starts_with ''../'' q" "\<not> contains ''/../'' q" "q \<noteq> ''..''"
    by (simp_all add: normalize_relative_path_ok Let_def)
  have "xs \<noteq> []"
  proof
    assume "xs = []"
    with q no(1,3) join_front [of ys "''..''"] show False by (cases ys) auto
  qed
  moreover have "ys = []"
    using join_middle [of xs ys "''..''"] q no(2) \<open>xs \<noteq> []\<close> by auto
  ultimately show ?thesis by blast
qed

lemma normalized_path_walk:
  assumes "normalize_relative_path p = Inr q"
  shows "lexical_walk here (posix_tail q) \<noteq> None"
proof (cases "''..'' \<in> set (posix_tail q)")
  case True
  then obtain xs ys where split: "posix_tail q = xs @ ''..'' # ys" and "''..'' \<notin> set xs"
    by (meson split_list_first)
  with normalized_dots [OF assms split] show ?thesis
    by (cases xs rule: rev_cases) (auto simp: walk_append walk_names)
next
  case False
  then show ?thesis by (simp add: walk_names)
qed

subsection \<open>Archives\<close>

definition regular_entries :: "zip_info list \<Rightarrow> zip_info list" where
  "regular_entries infos = filter (\<lambda>i. \<not> zip_is_dir i) infos"

definition entry_key :: "zip_info \<Rightarrow> string" where
  "entry_key i = lower (projr (normalize_relative_path (zi_filename i)))"

definition entry_ok :: "zip_info \<Rightarrow> bool" where
  "entry_ok i \<longleftrightarrow> is_ok (normalize_relative_path (zi_filename i))
     \<and> (zi_file_size i > 0 \<and> zi_compress_size i > 0 \<longrightarrow>
          zi_file_size i \<le> MAX_EXPANSION_RATIO * zi_compress_size i)
     \<and> (zi_file_size i = 0 \<longrightarrow> zi_compress_size i = 0)
     \<and> \<not> ends_with ''.zip'' (entry_key i)
     \<and> S_IFMT (drop_bit 16 (zi_external_attr i)) \<notin> set unsupported_types"

lemma zero_type: "S_IFMT 0 \<notin> set unsupported_types"
  by (simp add: S_IFMT_def unsupported_types_def)

lemma ratio_bound: "\<not> m * max c (Suc 0) < f \<Longrightarrow> 0 < c \<longrightarrow> f \<le> m * c"
  by (cases c) auto

lemma check_entries_step:
  assumes "check_entries (i # is) bytes seen = Inr t" and "\<not> zip_is_dir i"
  shows "entry_ok i \<and> entry_key i \<notin> set seen
    \<and> check_entries is (bytes + zi_file_size i) (entry_key i # seen) = Inr t"
proof (cases "normalize_relative_path (zi_filename i)")
  case (Inr q)
  have small: "zi_file_size i = 0 \<or> zi_compress_size i = 0
      \<or> \<not> MAX_EXPANSION_RATIO * max (zi_compress_size i) (Suc 0) < zi_file_size i"
    using assms by (simp del: max_less_iff_conj less_max_iff_disj split: if_splits)
  have empty: "zi_file_size i = 0 \<longrightarrow> zi_compress_size i = 0"
    using assms by (cases "zi_file_size i = 0"; cases "zi_compress_size i = 0") simp_all
  have rest: "lower q \<notin> set seen" "\<not> ends_with ''.zip'' (lower q)"
    "S_IFMT (drop_bit 16 (zi_external_attr i)) \<notin> set unsupported_types"
    "check_entries is (bytes + zi_file_size i) (lower q # seen) = Inr t"
    using assms Inr zero_type by (simp_all split: if_splits) metis
  from Inr small empty rest show ?thesis
    using ratio_bound by (auto simp: entry_ok_def entry_key_def)
qed (use assms in \<open>simp split: if_splits\<close>)

lemma check_entries_ok:
  assumes "check_entries infos bytes seen = Inr t"
  shows "(\<forall>i \<in> set (regular_entries infos). entry_ok i \<and> entry_key i \<notin> set seen)
     \<and> distinct (map entry_key (regular_entries infos))
     \<and> t = bytes + sum_list (map zi_file_size (regular_entries infos))"
  using assms
proof (induction infos arbitrary: bytes seen)
  case (Cons i infos)
  show ?case
  proof (cases "zip_is_dir i")
    case True
    then show ?thesis using Cons by (simp add: regular_entries_def)
  next
    case False
    from check_entries_step [OF Cons.prems False] have ok: "entry_ok i \<and> entry_key i \<notin> set seen"
      and rec: "check_entries infos (bytes + zi_file_size i) (entry_key i # seen) = Inr t"
      by simp_all
    from Cons.IH [OF rec] ok False show ?thesis by (auto simp: regular_entries_def)
  qed
qed (simp add: regular_entries_def)

lemma validate_archive_ok:
  assumes "validate_archive (Some a) path = Inr ()"
  obtains infos where "af_infos a = Some infos" and "infos \<noteq> []" and "length infos \<le> 256"
    and "\<forall>i \<in> set (regular_entries infos). entry_ok i"
    and "distinct (map entry_key (regular_entries infos))"
    and "sum_list (map zi_file_size (regular_entries infos)) \<le> 40 * 1024 * 1024"
  using assms check_entries_ok
  by (fastforce simp: validate_archive_def MAX_ARCHIVE_ENTRIES_def MAX_ARCHIVE_BYTES_def
      split: if_splits option.splits)

subsection \<open>Properties\<close>

text \<open>
  C9: a relative path that is accepted stays inside the directory it is resolved in: walking
  its parts from the root of the project never climbs above it, and accepting is stable, the
  accepted form being accepted again as it is.
\<close>

theorem accepted_path_stays_inside:
  assumes "normalize_relative_path p = Inr q"
  shows "lexical_walk [] (posix_tail q) \<noteq> None \<and> normalize_relative_path q = Inr q
    \<and> length q \<le> MAX_SINGLE_PATH_LENGTH"
proof -
  have "length q \<le> MAX_SINGLE_PATH_LENGTH"
    using assms unfolding normalize_relative_path_ok Let_def by blast
  with normalized_path_walk [OF assms] normalize_relative_path_idem [OF assms] show ?thesis
    by blast
qed

theorem accepted_path_stays_inside_witness:
  "lexical_walk [] (posix_tail ''src/app.py'') \<noteq> None"
proof -
  have "normalize_relative_path ''src//./app.py'' = Inr ''src/app.py''"
    by code_simp
  from accepted_path_stays_inside [OF this] show ?thesis by simp
qed

text \<open>
  The check for traversal misses a double dot at the end of a path: such a path is
  accepted although its error text says that traversal is not allowed.
\<close>

theorem trailing_dots_accepted:
  "normalize_relative_path ''a/..'' = Inr ''a/..''
   \<and> lexical_walk [] (posix_tail ''a/..'') = Some []
   \<and> exn_msg (projl (normalize_relative_path ''a/../b'')) = ''Path traversal is not allowed: a/../b''"
  by code_simp

text \<open>
  C10: an archive that is accepted has between 1 and 256 entries and at most 40 MiB of
  content; every file in it has an acceptable path, expands at most 120 times, is no nested
  zip and no link or device, and no two have the same path up to case.
\<close>

theorem accepted_archive_bounded:
  assumes "validate_archive (Some a) path = Inr ()"
  shows "\<exists>infos. af_infos a = Some infos \<and> infos \<noteq> [] \<and> length infos \<le> 256
     \<and> (\<forall>i \<in> set (regular_entries infos). entry_ok i)
     \<and> distinct (map entry_key (regular_entries infos))
     \<and> sum_list (map zi_file_size (regular_entries infos)) \<le> 40 * 1024 * 1024"
  using validate_archive_ok [OF assms] by metis

definition sample_archive :: archive_file where
  "sample_archive = \<lparr>af_name = ''r.zip'', af_size = 400, af_infos = Some
     [\<lparr>zi_filename = ''r/'', zi_file_size = 0, zi_compress_size = 0, zi_external_attr = 0\<rparr>,
      \<lparr>zi_filename = ''r/a.yaml'', zi_file_size = 900, zi_compress_size = 300,
       zi_external_attr = 0\<rparr>]\<rparr>"

lemma sample_path: "normalize_relative_path ''r/a.yaml'' = Inr ''r/a.yaml''"
  by code_simp

lemma sample_keys:
  "ends_with ''/'' ''r/''" "\<not> ends_with ''/'' ''r/a.yaml''"
  "\<not> ends_with ''.zip'' (lower ''r/a.yaml'')"
  by code_simp+

theorem accepted_archive_bounded_witness:
  "\<exists>infos. af_infos sample_archive = Some infos \<and> length infos \<le> 256"
proof -
  have "validate_archive (Some sample_archive) ''r.zip'' = Inr ()"
    using sample_keys
    by (simp add: validate_archive_def sample_archive_def zip_is_dir_def sample_path
        MAX_ARCHIVE_BYTES_def MAX_ARCHIVE_ENTRIES_def MAX_EXPANSION_RATIO_def)
  from accepted_archive_bounded [OF this] show ?thesis by blast
qed

text \<open>
  An accepted request identifier is a plain file name: no separator, no double dot, no
  white space around it; accepting it again gives the same identifier.
\<close>

theorem accepted_request_id_is_file_name:
  "normalize_request_id r = Inr q \<Longrightarrow>
   CHR ''/'' \<notin> set q \<and> q \<noteq> [] \<and> strip q = q \<and> q \<noteq> ''..'' \<and> normalize_request_id q = Inr q"
  using normalize_request_id_idem [of r q] normalize_request_id_ok [of q q] split_list [of "CHR ''/''" q]
  by (auto simp: contains_iff simp del: contains.simps) (metis append_Cons append_Nil)

theorem accepted_request_id_is_file_name_witness: "strip ''CQ-1'' = ''CQ-1''"
proof -
  have "normalize_request_id '' CQ-1 '' = Inr ''CQ-1''" by code_simp
  from accepted_request_id_is_file_name [OF this] show ?thesis by simp
qed

end
