(* ===== verification/QueueClassification.thy ===== *)
theory QueueClassification
  imports QueueValidation
begin

text \<open>
  \<open>cloud_queue/classification.py\<close>: what a response claims is compared with what its request
  asked for, and the differences decide whether the response is safe, needs an approval or
  has failed. A set that is sorted is \<open>sorted_set\<close> of a list of its elements.
\<close>

definition VALIDATED_SAFE :: string where "VALIDATED_SAFE = ''validated_safe''"
definition VALIDATED_FAILED :: string where "VALIDATED_FAILED = ''validated_failed''"
definition APPROVAL_REQUIRED :: string where "APPROVAL_REQUIRED = ''approval_required''"
definition VALIDATION_FAILED :: string where "VALIDATION_FAILED = ''validation_failed''"
definition CLASSIFIED_SAFE :: string where "CLASSIFIED_SAFE = ''classified_safe''"

lemmas class_names = VALIDATED_SAFE_def VALIDATED_FAILED_def APPROVAL_REQUIRED_def
  VALIDATION_FAILED_def CLASSIFIED_SAFE_def

record comparison_result =
  cr_request_id :: string
  cr_classification :: string
  cr_requirement_status :: string
  cr_writable_path_status :: string
  cr_scope_status :: string
  cr_dependency_status :: string
  cr_reason :: string
  cr_safe_to_apply :: bool
  cr_approval_required :: bool
  cr_validation_failed :: bool
  cr_normalized_response_checksum :: string

subsection \<open>The four comparisons\<close>

definition compare_requirements ::
    "cloud_queue_request \<Rightarrow> pydict \<Rightarrow> (string \<times> string list) res" where
  "compare_requirements r claims =
     rbind (fstrs claims ''applicable_requirements'') (\<lambda>applicable.
     rbind (fstrs claims ''removed_requirements'') (\<lambda>removed_items.
     rbind (fstrs claims ''modified_requirements'') (\<lambda>modified_items.
     let missing = sorted_set (diff_list (rq_requirements r) applicable);
         extra = sorted_set (diff_list applicable (rq_requirements r));
         removed = sort removed_items;
         modified = sort modified_items
     in Inr (if removed \<noteq> [] \<or> modified \<noteq> [] \<or> extra \<noteq> []
             then (''changed'', map (\<lambda>i. ''removed:'' @ i) removed
                     @ map (\<lambda>i. ''modified:'' @ i) modified @ map (\<lambda>i. ''unknown:'' @ i) extra)
             else if missing \<noteq> [] then (''missing'', map (\<lambda>i. ''missing:'' @ i) missing)
             else (''preserved'', [])))))"

definition compare_writable_paths ::
    "cloud_queue_request \<Rightarrow> pydict \<Rightarrow> (string \<times> string list) res" where
  "compare_writable_paths r claims =
     rbind (rmap_list normalize_relative_path (rq_writable_paths r)) (\<lambda>expected.
     rbind (fstrs claims ''writable_paths'') (\<lambda>paths.
     rbind (rmap_list normalize_relative_path paths) (\<lambda>claimed.
     let broadened = sorted_set (diff_list claimed expected);
         narrowed = sorted_set (diff_list expected claimed)
     in Inr (if broadened \<noteq> [] then (''broadened'', map (\<lambda>i. ''broadened:'' @ i) broadened)
             else if narrowed \<noteq> [] then (''narrowed'', map (\<lambda>i. ''narrowed:'' @ i) narrowed)
             else (''preserved'', [])))))"

definition scope_key :: "string \<Rightarrow> string" where
  "scope_key s = lower (strip s)"

definition compare_scope ::
    "cloud_queue_request \<Rightarrow> pydict \<Rightarrow> (string \<times> string list) res" where
  "compare_scope r claims =
     rbind (fstrs claims ''scope_changes'') (\<lambda>changes.
     let requested = map scope_key (filter (\<lambda>n. strip n \<noteq> []) (rq_notes r));
         reported = map scope_key changes
     in Inr (if diff_list reported requested \<noteq> []
             then (''changed'', map (\<lambda>i. ''scope:'' @ i) (sorted_set (diff_list reported requested)))
             else if truthy (dget_or claims ''external_service_added'' PNone)
             then (''changed'', [''external_service_added''])
             else if truthy (dget_or claims ''network_access'' PNone)
             then (''changed'', [''network_access''])
             else (''preserved'', [])))"

definition compare_dependencies ::
    "cloud_queue_request \<Rightarrow> pydict \<Rightarrow> string \<times> string list" where
  "compare_dependencies r claims =
     (let dependency_status = fstr_or ''resolved'' claims ''dependency_status''
      in if dependency_status \<notin> {''resolved'', ''blocked'', ''missing''}
         then (''invalid'', [dependency_status])
         else if dependency_status \<noteq> ''resolved'' then (dependency_status, [dependency_status])
         else if rq_dependencies r \<noteq> [] \<and> \<not> truthy (dget_or claims ''resolved_dependencies'' PNone)
         then (''blocked'', [''resolved_dependencies_missing''])
         else (''resolved'', []))"

subsection \<open>Classification\<close>

definition approval_problem :: "string \<Rightarrow> bool" where
  "approval_problem p \<longleftrightarrow> starts_with ''removed:'' p \<or> starts_with ''modified:'' p
     \<or> starts_with ''unknown:'' p \<or> starts_with ''broadened:'' p \<or> starts_with ''scope:'' p"

definition classify_response ::
    "cloud_queue_request \<Rightarrow> cloud_queue_response \<Rightarrow> comparison_result res" where
  "classify_response r response =
     (let claims = rs_claims response in
      rbind (compare_requirements r claims) (\<lambda>(requirement_status, requirement_details).
      rbind (compare_writable_paths r claims) (\<lambda>(writable_status, writable_details).
      rbind (compare_scope r claims) (\<lambda>(scope_status, scope_details).
      let (dependency_status, dependency_details) = compare_dependencies r claims;
          problems = requirement_details @ writable_details @ scope_details @ dependency_details
            @ (if rs_response_schema_version response \<noteq> rq_response_schema_version r
               then [''schema_version_mismatch''] else []);
          (classification, reason, validation_failed, approval_required, safe_to_apply) =
            (if dependency_status \<in> {''blocked'', ''missing'', ''invalid''}
             then (VALIDATION_FAILED, ''Dependency resolution did not succeed.'', True, False, False)
             else if problems \<noteq> [] \<and> list_ex approval_problem problems
             then (APPROVAL_REQUIRED, ''Response changes require operator approval.'', False, True, False)
             else if problems \<noteq> []
             then (VALIDATION_FAILED, ''Response failed independent validation.'', True, False, False)
             else (CLASSIFIED_SAFE, ''Response matched the request and is safe to validate.'',
                   False, False, True));
          decision = upper (rs_decision response);
          safe_to_apply = (if decision = ''APPROVED'' then False else safe_to_apply);
          approval_required = (if decision = ''APPROVED'' then False else approval_required);
          safe_to_apply = (if decision = ''SAFE'' then True else safe_to_apply);
          approval_required = (if decision = ''APPROVAL_REQUIRED'' then True else approval_required)
      in Inr \<lparr>cr_request_id = rq_request_id r,
           cr_classification = classification,
           cr_requirement_status = requirement_status,
           cr_writable_path_status = writable_status,
           cr_scope_status = scope_status,
           cr_dependency_status = dependency_status,
           cr_reason = reason,
           cr_safe_to_apply = safe_to_apply,
           cr_approval_required = approval_required,
           cr_validation_failed = validation_failed,
           cr_normalized_response_checksum = rs_checksum response\<rparr>))))"

subsection \<open>What a safe response claims\<close>

text \<open>The items of a list of claims, and the accepted forms of a list of paths.\<close>

definition claimed :: "pydict \<Rightarrow> string \<Rightarrow> string list" where
  "claimed d k = (case fstrs d k of Inl _ \<Rightarrow> [] | Inr xs \<Rightarrow> xs)"

definition path_forms :: "string list \<Rightarrow> string set" where
  "path_forms ps = {q. \<exists>p \<in> set ps. normalize_relative_path p = Inr q}"

definition claims_match :: "cloud_queue_request \<Rightarrow> pydict \<Rightarrow> bool" where
  "claims_match r claims \<longleftrightarrow>
     set (claimed claims ''applicable_requirements'') = set (rq_requirements r)
     \<and> claimed claims ''removed_requirements'' = []
     \<and> claimed claims ''modified_requirements'' = []
     \<and> path_forms (claimed claims ''writable_paths'') = path_forms (rq_writable_paths r)
     \<and> scope_key ` set (claimed claims ''scope_changes'')
         \<subseteq> scope_key ` {n \<in> set (rq_notes r). strip n \<noteq> []}
     \<and> \<not> truthy (dget_or claims ''external_service_added'' PNone)
     \<and> \<not> truthy (dget_or claims ''network_access'' PNone)
     \<and> fstr_or ''resolved'' claims ''dependency_status'' = ''resolved''
     \<and> (rq_dependencies r \<noteq> [] \<longrightarrow> truthy (dget_or claims ''resolved_dependencies'' PNone))"

lemma sort_Nil_iff [simp]: "sort xs = [] \<longleftrightarrow> xs = []"
  by (metis length_0_conv length_sort)

lemma compare_requirements_ok:
  assumes "compare_requirements r claims = Inr (st, ds)"
  shows "ds = [] \<longleftrightarrow> set (claimed claims ''applicable_requirements'') = set (rq_requirements r)
     \<and> claimed claims ''removed_requirements'' = []
     \<and> claimed claims ''modified_requirements'' = []"
  using assms
  by (auto simp: compare_requirements_def claimed_def diff_list_Nil_iff Let_def split: if_splits)

lemma rmap_path_forms: "rmap_list normalize_relative_path ps = Inr qs \<Longrightarrow> path_forms ps = set qs"
  by (auto simp: path_forms_def rmap_list_set)

lemma compare_writable_ok:
  assumes "compare_writable_paths r claims = Inr (st, ds)"
  shows "ds = [] \<longleftrightarrow> path_forms (claimed claims ''writable_paths'') = path_forms (rq_writable_paths r)"
proof -
  from assms obtain es ps cs where lists: "rmap_list normalize_relative_path (rq_writable_paths r) = Inr es"
      "fstrs claims ''writable_paths'' = Inr ps" "rmap_list normalize_relative_path ps = Inr cs"
    by (auto simp: compare_writable_paths_def)
  with assms have "ds = [] \<longleftrightarrow> set cs \<subseteq> set es \<and> set es \<subseteq> set cs"
    by (cases "set cs \<subseteq> set es"; cases "set es \<subseteq> set cs")
      (auto simp: compare_writable_paths_def Let_def diff_list_Nil_iff)
  with lists show ?thesis
    by (auto simp: claimed_def rmap_path_forms)
qed

lemma compare_scope_ok:
  assumes "compare_scope r claims = Inr (st, ds)"
  shows "ds = [] \<longleftrightarrow> scope_key ` set (claimed claims ''scope_changes'')
         \<subseteq> scope_key ` {n \<in> set (rq_notes r). strip n \<noteq> []}
     \<and> \<not> truthy (dget_or claims ''external_service_added'' PNone)
     \<and> \<not> truthy (dget_or claims ''network_access'' PNone)"
proof -
  from assms obtain xs where xs: "fstrs claims ''scope_changes'' = Inr xs"
    by (auto simp: compare_scope_def)
  with assms show ?thesis
    by (cases "scope_key ` set xs \<subseteq> scope_key ` {n \<in> set (rq_notes r). strip n \<noteq> []}")
      (simp_all add: compare_scope_def claimed_def diff_list_Nil_iff Let_def split: if_splits,
       (elim conjE, hypsubst, simp add: diff_list_Nil_iff)+)
qed

lemma compare_dependencies_ok:
  assumes "compare_dependencies r claims = (st, ds)"
  shows "st \<in> {''resolved'', ''blocked'', ''missing'', ''invalid''}"
    and "ds = [] \<longleftrightarrow> st = ''resolved''"
    and "st = ''resolved'' \<longleftrightarrow> fstr_or ''resolved'' claims ''dependency_status'' = ''resolved''
     \<and> (rq_dependencies r \<noteq> [] \<longrightarrow> truthy (dget_or claims ''resolved_dependencies'' PNone))"
  using assms by (auto simp: compare_dependencies_def Let_def split: if_splits)

lemma class_distinct:
  "CLASSIFIED_SAFE \<noteq> APPROVAL_REQUIRED" "CLASSIFIED_SAFE \<noteq> VALIDATION_FAILED"
  "APPROVAL_REQUIRED \<noteq> VALIDATION_FAILED"
  by (simp_all add: class_names)

lemma classify_cases:
  assumes "classify_response r p = Inr c"
  obtains (blocked) "cr_classification c = VALIDATION_FAILED" "cr_validation_failed c"
      "\<not> claims_match r (rs_claims p)"
    | (approval) "cr_classification c = APPROVAL_REQUIRED" "\<not> cr_validation_failed c"
      "\<not> claims_match r (rs_claims p)"
    | (problem) "cr_classification c = VALIDATION_FAILED" "cr_validation_failed c"
      "\<not> claims_match r (rs_claims p) \<or> rs_response_schema_version p \<noteq> rq_response_schema_version r"
    | (safe) "cr_classification c = CLASSIFIED_SAFE" "\<not> cr_validation_failed c"
      "claims_match r (rs_claims p)" "rs_response_schema_version p = rq_response_schema_version r"
proof -
  from assms obtain s1 d1 s2 d2 s3 d3 where
    parts: "compare_requirements r (rs_claims p) = Inr (s1, d1)"
      "compare_writable_paths r (rs_claims p) = Inr (s2, d2)"
      "compare_scope r (rs_claims p) = Inr (s3, d3)"
    by (auto simp: classify_response_def Let_def)
  obtain s4 d4 where dep: "compare_dependencies r (rs_claims p) = (s4, d4)" by fastforce
  have no_match: "claims_match r (rs_claims p) \<longleftrightarrow> d1 = [] \<and> d2 = [] \<and> d3 = [] \<and> d4 = []"
    using compare_requirements_ok [OF parts(1)] compare_writable_ok [OF parts(2)]
      compare_scope_ok [OF parts(3)] compare_dependencies_ok [OF dep]
    unfolding claims_match_def by argo
  have kinds: "s4 \<in> {''blocked'', ''missing'', ''invalid''} \<longleftrightarrow> d4 \<noteq> []"
    using compare_dependencies_ok(1,2) [OF dep] by auto
  have schema: "\<not> approval_problem ''schema_version_mismatch''"
    by (simp add: approval_problem_def)
  let ?ps = "d1 @ d2 @ d3 @ d4 @ (if rs_response_schema_version p \<noteq> rq_response_schema_version r
      then [''schema_version_mismatch''] else [])"
  consider "d4 \<noteq> []" | "d4 = []" "?ps \<noteq> []" "list_ex approval_problem ?ps"
    | "d4 = []" "?ps \<noteq> []" "\<not> list_ex approval_problem ?ps" | "?ps = []"
    by auto
  then show thesis
  proof cases
    case 1
    with assms parts dep kinds show thesis
      by (intro blocked) (auto simp: classify_response_def Let_def no_match)
  next
    case 2
    then have "d1 @ d2 @ d3 \<noteq> []" using schema by (auto split: if_splits)
    with 2 assms parts dep kinds show thesis
      by (intro approval) (auto simp: classify_response_def Let_def no_match)
  next
    case 3
    with assms parts dep kinds show thesis
      by (intro problem) (auto simp: classify_response_def Let_def no_match split: if_splits)
  next
    case 4
    with assms parts dep kinds show thesis
      by (intro safe) (auto simp: classify_response_def Let_def no_match split: if_splits)
  qed
qed

lemma classification_kinds:
  assumes "classify_response r p = Inr c"
  shows "cr_classification c \<in> {CLASSIFIED_SAFE, APPROVAL_REQUIRED, VALIDATION_FAILED}
    \<and> (cr_validation_failed c \<longleftrightarrow> cr_classification c = VALIDATION_FAILED)"
  using assms by (cases rule: classify_cases) (simp_all add: class_names)

subsection \<open>Properties\<close>

text \<open>
  C7: a response is classified as safe exactly when its claims match the request: the same
  requirements, none removed or modified, the same writable paths, no new scope, no external
  service, no network access, resolved dependencies and the same schema version.
\<close>

theorem classified_safe_iff:
  assumes "classify_response r p = Inr c"
  shows "cr_classification c = CLASSIFIED_SAFE \<longleftrightarrow>
    claims_match r (rs_claims p) \<and> rs_response_schema_version p = rq_response_schema_version r"
  using assms by (cases rule: classify_cases) (auto simp: class_names)

definition sample_request :: cloud_queue_request where
  "sample_request = \<lparr>rq_request_id = ''CQ-1'', rq_story = ''s'', rq_title = ''t'',
     rq_blocker_type = ''local_blocker'', rq_details = ''d'', rq_state = ''exported'',
     rq_prior_state = ''ready'', rq_batch_id = ''b'', rq_request_count = 1,
     rq_request_schema_version = 1, rq_response_schema_version = 1,
     rq_requirements = [''R1''], rq_writable_paths = [], rq_dependencies = [],
     rq_context_files = [], rq_created_at = ''t0'', rq_updated_at = ''t0'', rq_source_task_id = [],
     rq_source_plan_revision = [], rq_packet_checksum = [], rq_normalized_response_checksum = [],
     rq_approval_checksum = [], rq_raw_response_checksum = [], rq_classification = [],
     rq_next_action = [], rq_redaction_summary = [], rq_audit_event_ids = [], rq_notes = []\<rparr>"

definition sample_response :: "string \<Rightarrow> pydict \<Rightarrow> cloud_queue_response" where
  "sample_response decision claims = \<lparr>rs_response_id = ''r'', rs_request_id = ''CQ-1'',
     rs_batch_id = ''b'', rs_response_schema_version = 1, rs_normalized_response = [],
     rs_raw_response = [], rs_checksum = ''c'', rs_decision = decision, rs_claims = claims,
     rs_adapter = ''manual_packet'', rs_source_file = None\<rparr>"

definition sample_safe :: "comparison_result res" where
  "sample_safe = classify_response sample_request
     (sample_response [] [(''applicable_requirements'', pstrs [''R1''])])"

definition sample_blocked :: "comparison_result res" where
  "sample_blocked = classify_response sample_request
     (sample_response ''safe'' [(''dependency_status'', PStr ''blocked'')])"

lemma sample_classes:
  "is_ok sample_safe" "cr_classification (projr sample_safe) = CLASSIFIED_SAFE"
  "is_ok sample_blocked" "cr_classification (projr sample_blocked) = VALIDATION_FAILED"
  by code_simp+

theorem classified_safe_iff_witness:
  "claims_match sample_request [(''applicable_requirements'', pstrs [''R1''])]"
proof -
  obtain c where "sample_safe = Inr c" using sample_classes(1) by (auto simp: is_ok_iff)
  with sample_classes(2) classified_safe_iff [of sample_request _ c] show ?thesis
    by (fastforce simp: sample_safe_def sample_response_def)
qed

text \<open>
  The decision a response states about itself overrides the comparison: one that says
  safe is marked safe to apply whatever its claims are, and no response is marked so unless
  it says safe or was classified as safe.
\<close>

theorem stated_decision_overrides:
  assumes "classify_response r p = Inr c"
  shows "cr_safe_to_apply c \<longleftrightarrow> upper (rs_decision p) = ''SAFE''
    \<or> (cr_classification c = CLASSIFIED_SAFE \<and> upper (rs_decision p) \<noteq> ''APPROVED'')"
proof -
  from assms obtain s1 d1 s2 d2 s3 d3 where
    parts: "compare_requirements r (rs_claims p) = Inr (s1, d1)"
      "compare_writable_paths r (rs_claims p) = Inr (s2, d2)"
      "compare_scope r (rs_claims p) = Inr (s3, d3)"
    by (auto simp: classify_response_def Let_def)
  obtain s4 d4 where dep: "compare_dependencies r (rs_claims p) = (s4, d4)" by fastforce
  from assms [symmetric] parts dep show ?thesis
    by (simp add: classify_response_def Let_def class_names split: if_split_asm)
qed

theorem stated_decision_overrides_witness:
  "cr_validation_failed (projr sample_blocked) \<and> cr_safe_to_apply (projr sample_blocked)"
proof -
  obtain c where c: "sample_blocked = Inr c" using sample_classes(3) by (auto simp: is_ok_iff)
  have "upper ''safe'' = ''SAFE''" by code_simp
  with c sample_classes(4) show ?thesis
    using stated_decision_overrides [of sample_request _ c] classification_kinds [of sample_request _ c]
    by (fastforce simp: sample_blocked_def sample_response_def)
qed

end
