(* ===== verification/Transitions.thy ===== *)
theory Transitions
  imports PyValue
begin

text \<open>
  What the three status tables of the program (cloud queue, cloud batches, cloud
  applications) have in common: a list of states, the successors of each, and a function
  that accepts a pair or raises. The locale states that contract; each table's theory
  interprets it on its own definitions.

  \<open>accepted_path\<close> is the check of a list of states, pair by pair.
\<close>

fun accepted_path :: "(string \<Rightarrow> string \<Rightarrow> unit res) \<Rightarrow> string list \<Rightarrow> bool" where
  "accepted_path v (a # b # p) \<longleftrightarrow> v a b = Inr () \<and> accepted_path v (b # p)"
| "accepted_path v p \<longleftrightarrow> True"

definition closed_except :: "(string \<Rightarrow> string list) \<Rightarrow> string \<Rightarrow> string list \<Rightarrow> bool" where
  "closed_except succs c S \<longleftrightarrow> list_all (\<lambda>x. list_all (\<lambda>y. y = c \<or> y \<in> set S) (succs x)) S"

locale transition_table =
  fixes states :: "string list"
    and succs :: "string \<Rightarrow> string list"
    and validate :: "string \<Rightarrow> string \<Rightarrow> unit res"
  assumes validate_iff: "validate a b = Inr () \<longleftrightarrow> a \<in> set states \<and> b \<in> set (succs a)"
    and succs_closed: "a \<in> set states \<Longrightarrow> set (succs a) \<subseteq> set states"
    and succs_irrefl: "a \<in> set states \<Longrightarrow> a \<notin> set (succs a)"
    and validate_error: "validate a b = Inl e \<Longrightarrow> exn_class e = ValueError"
begin

lemma validate_states: "validate a b = Inr () \<Longrightarrow> a \<in> set states \<and> b \<in> set states \<and> a \<noteq> b"
  using succs_closed succs_irrefl by (auto simp: validate_iff)

text \<open>A state without successors is final: no pair that starts in it is accepted.\<close>

lemma sink_rejects: "succs a = [] \<Longrightarrow> validate a b \<noteq> Inr ()"
  by (simp add: validate_iff)

lemma sink_path:
  assumes "succs a = []" and "accepted_path validate (a # p)"
  shows "p = []"
  using assms by (cases p) (auto simp: validate_iff)

text \<open>
  A list of states whose successors are in the list or are \<open>c\<close>: a path that starts in the
  list and ends outside visits \<open>c\<close>. This is how a state is shown to lie on every path to
  another.
\<close>

lemma on_every_path:
  assumes closed: "closed_except succs c S" and "accepted_path validate p" and "p \<noteq> []"
    and "hd p \<in> set S" and "last p \<notin> set S"
  shows "c \<in> set p"
  using assms(2-5)
proof (induction p rule: induct_list012)
  case (3 a b p)
  from closed 3 have "b = c \<or> b \<in> set S"
    by (auto simp: closed_except_def list_all_iff validate_iff)
  with 3 show ?case by auto
qed auto

lemma path_states:
  assumes "accepted_path validate p" and "length p > 1"
  shows "set p \<subseteq> set states"
  using assms
proof (induction p rule: induct_list012)
  case (3 a b p)
  then show ?case using validate_states by (cases p) auto
qed auto

end

lemma accepted_path_append:
  "accepted_path v (p @ q) \<Longrightarrow> accepted_path v p \<and> accepted_path v q"
proof (induction p rule: induct_list012)
  case (2 a)
  then show ?case by (cases q) auto
qed auto

end
