(* ===== verification/QueueStateMachine.thy ===== *)
theory QueueStateMachine
  imports QueueModels Transitions
begin

text \<open>
  \<open>cloud_queue/state_machine.py\<close>: the states of a cloud queue request, the table of allowed
  transitions and the functions that check a state, a transition and a path.
\<close>

definition QUEUE_TRANSITION_MAP :: "(string \<times> string list) list" where
  "QUEUE_TRANSITION_MAP =
     [(''new'', [''ready'', ''canceled'', ''failed'']),
      (''ready'', [''exported'', ''rejected'', ''canceled'', ''failed'']),
      (''exported'', [''imported'', ''failed'']),
      (''imported'', [''classified_safe'', ''approval_required'', ''validated_safe'', ''validated_failed'', ''failed'']),
      (''classified_safe'', [''validated_safe'', ''approval_required'', ''rejected'', ''imported'']),
      (''approval_required'', [''approved'', ''rejected'', ''validated_failed'', ''imported'']),
      (''validated_safe'', [''canceled'', ''imported'']),
      (''validated_failed'', [''rejected'', ''canceled'', ''imported'']),
      (''approved'', []),
      (''rejected'', []),
      (''canceled'', []),
      (''failed'', [])]"

definition allowed_transitions :: "string \<Rightarrow> string list res" where
  "allowed_transitions s = (case map_of QUEUE_TRANSITION_MAP s of
     None \<Rightarrow> value_error (''Unknown cloud queue state: '' @ s)
   | Some ts \<Rightarrow> Inr ts)"

definition validate_state :: "string \<Rightarrow> unit res" where
  "validate_state s = (if s \<in> set QUEUE_STATES then Inr ()
     else value_error (''Invalid cloud queue state: '' @ s @ ''. Expected one of: ''
            @ join '', '' QUEUE_STATES @ ''.''))"

definition validate_transition :: "string \<Rightarrow> string \<Rightarrow> unit res" where
  "validate_transition current next =
     rbind (validate_state current) (\<lambda>_.
     rbind (validate_state next) (\<lambda>_.
     if current = next
     then value_error (''Repeated state transition is not allowed: '' @ current @ '' -> '' @ next)
     else rbind (allowed_transitions current) (\<lambda>allowed.
       if next \<notin> set allowed
       then value_error (''Invalid cloud queue transition: '' @ current @ '' -> '' @ next
              @ ''. Allowed transitions: '' @ str_or (join '', '' allowed) ''none'' @ ''.'')
       else Inr ())))"

definition is_terminal_state :: "string \<Rightarrow> bool res" where
  "is_terminal_state s =
     rbind (validate_state s) (\<lambda>_. Inr (s \<in> set TERMINAL_QUEUE_STATES))"

text \<open>\<open>zip(result, result[1:])\<close>: the first pair that is not allowed raises.\<close>

fun check_pairs :: "string list \<Rightarrow> unit res" where
  "check_pairs (a # b # p) = rbind (validate_transition a b) (\<lambda>_. check_pairs (b # p))"
| "check_pairs p = Inr ()"

definition normalize_transition_path :: "string list \<Rightarrow> string list res" where
  "normalize_transition_path p = rbind (check_pairs p) (\<lambda>_. Inr p)"

subsection \<open>The table\<close>

definition queue_succs :: "string \<Rightarrow> string list" where
  "queue_succs s = (case map_of QUEUE_TRANSITION_MAP s of None \<Rightarrow> [] | Some ts \<Rightarrow> ts)"

lemma queue_succs_simps [simp]:
  "queue_succs ''new'' = [''ready'', ''canceled'', ''failed'']"
  "queue_succs ''ready'' = [''exported'', ''rejected'', ''canceled'', ''failed'']"
  "queue_succs ''exported'' = [''imported'', ''failed'']"
  "queue_succs ''imported'' = [''classified_safe'', ''approval_required'', ''validated_safe'', ''validated_failed'', ''failed'']"
  "queue_succs ''classified_safe'' = [''validated_safe'', ''approval_required'', ''rejected'', ''imported'']"
  "queue_succs ''approval_required'' = [''approved'', ''rejected'', ''validated_failed'', ''imported'']"
  "queue_succs ''validated_safe'' = [''canceled'', ''imported'']"
  "queue_succs ''validated_failed'' = [''rejected'', ''canceled'', ''imported'']"
  "queue_succs ''approved'' = []"
  "queue_succs ''rejected'' = []"
  "queue_succs ''canceled'' = []"
  "queue_succs ''failed'' = []"
  by (simp_all add: queue_succs_def QUEUE_TRANSITION_MAP_def)

lemma queue_map_keys: "map fst QUEUE_TRANSITION_MAP = QUEUE_STATES"
  by (simp add: QUEUE_TRANSITION_MAP_def QUEUE_STATES_def)

lemma queue_allowed: "s \<in> set QUEUE_STATES \<Longrightarrow> allowed_transitions s = Inr (queue_succs s)"
  by (auto simp: allowed_transitions_def queue_succs_def map_of_eq_None_iff
      simp flip: queue_map_keys split: option.splits)

lemma queue_table_closed:
  "s \<in> set QUEUE_STATES \<Longrightarrow> set (queue_succs s) \<subseteq> set QUEUE_STATES \<and> s \<notin> set (queue_succs s)"
  by (auto simp: QUEUE_STATES_def)

lemma validate_state_ok [simp]: "validate_state s = Inr () \<longleftrightarrow> s \<in> set QUEUE_STATES"
  by (simp add: validate_state_def)

lemma validate_transition_ok:
  "validate_transition a b = Inr () \<longleftrightarrow> a \<in> set QUEUE_STATES \<and> b \<in> set (queue_succs a)"
  using queue_table_closed [of a]
  by (auto simp: validate_transition_def queue_allowed)

lemma validate_transition_error: "validate_transition a b = Inl e \<Longrightarrow> exn_class e = ValueError"
  by (auto simp: validate_transition_def validate_state_def allowed_transitions_def res_simps
      rbind_Inl_iff split: if_splits option.splits)

interpretation queue_table: transition_table QUEUE_STATES queue_succs validate_transition
  using queue_table_closed
  by unfold_locales (auto simp: validate_transition_ok validate_transition_error)

lemma check_pairs_ok: "check_pairs p = Inr () \<longleftrightarrow> accepted_path validate_transition p"
  by (induction p rule: check_pairs.induct) auto

lemma normalize_path_ok:
  "normalize_transition_path p = Inr q \<longleftrightarrow> q = p \<and> accepted_path validate_transition p"
  by (auto simp: normalize_transition_path_def check_pairs_ok)

lemma queue_terminal_sink:
  "s \<in> set QUEUE_STATES \<Longrightarrow> s \<in> set TERMINAL_QUEUE_STATES \<longleftrightarrow> queue_succs s = []"
proof -
  have "list_all (\<lambda>s. (s \<in> set TERMINAL_QUEUE_STATES) = (queue_succs s = [])) QUEUE_STATES"
    by (simp add: QUEUE_STATES_def TERMINAL_QUEUE_STATES_def)
  then show "s \<in> set QUEUE_STATES \<Longrightarrow> s \<in> set TERMINAL_QUEUE_STATES \<longleftrightarrow> queue_succs s = []"
    by (simp add: list_all_iff)
qed

text \<open>The states the code calls terminal are exactly the known states no transition leaves.\<close>

theorem queue_terminal_iff_final:
  "is_terminal_state s = Inr True \<longleftrightarrow>
   s \<in> set QUEUE_STATES \<and> \<not> (\<exists>t. validate_transition s t = Inr ())"
proof -
  have "(\<exists>t. validate_transition s t = Inr ()) \<longleftrightarrow> s \<in> set QUEUE_STATES \<and> queue_succs s \<noteq> []"
    by (simp add: validate_transition_ok) (metis list.set_intros(1) neq_Nil_conv empty_iff set_empty)
  then show ?thesis
    using queue_terminal_sink by (auto simp: is_terminal_state_def)
qed

text \<open>
  A request that starts as new can be approved only after a response was imported for it
  and the response was marked as needing approval: both states lie on every accepted path.
\<close>

theorem approval_needs_review:
  assumes "normalize_transition_path p = Inr q" and "q \<noteq> []"
    and "hd q = ''new''" and "last q = ''approved''"
  shows "''exported'' \<in> set q \<and> ''imported'' \<in> set q \<and> ''approval_required'' \<in> set q"
proof -
  from assms(1) have path: "accepted_path validate_transition q"
    by (simp add: normalize_path_ok)
  note visits = queue_table.on_every_path [OF _ path assms(2)]
  have "''exported'' \<in> set q"
    by (rule visits [of _ "[''new'', ''ready'', ''rejected'', ''canceled'', ''failed'']"])
      (simp_all add: closed_except_def assms)
  moreover have "''imported'' \<in> set q"
    by (rule visits [of _ "[''new'', ''ready'', ''exported'', ''rejected'', ''canceled'', ''failed'']"])
      (simp_all add: closed_except_def assms)
  moreover have "''approval_required'' \<in> set q"
    by (rule visits [of _ "[''new'', ''ready'', ''exported'', ''imported'', ''classified_safe'',
          ''validated_safe'', ''validated_failed'', ''rejected'', ''canceled'', ''failed'']"])
      (simp_all add: closed_except_def assms)
  ultimately show ?thesis by blast
qed

theorem approval_needs_review_witness:
  "''imported'' \<in> set [''new'', ''ready'', ''exported'', ''imported'', ''approval_required'', ''approved'']"
proof -
  let ?q = "[''new'', ''ready'', ''exported'', ''imported'', ''approval_required'', ''approved'']"
  have "normalize_transition_path ?q = Inr ?q"
    by (simp add: normalize_path_ok validate_transition_ok QUEUE_STATES_def)
  from approval_needs_review [OF this] show ?thesis by simp
qed

end
