(* ===== verification/QueueStore.thy ===== *)
theory QueueStore
  imports QueueClassification QueueStateMachine
begin

text \<open>
  \<open>cloud_queue/persistence.py\<close>, \<open>approvals.py\<close>, \<open>imports.py\<close> and \<open>audit.py\<close>: where the queue
  keeps its requests, approvals, imported responses and audit log, and the operations on
  these files.

  A request is the file \<open>requests/<state>/<id>.yaml\<close>. \<open>project\<close> is the resolved path of the
  project. The outside world of an operation is \<open>call_env\<close>: \<open>ce_now k\<close> is what its
  \<open>k\<close>-th call of \<open>now_iso\<close> returns, \<open>ce_ids\<close> the identifiers its event factory returns, if
  it has one. The order in which \<open>iterdir\<close> lists a directory is the order of the model.
\<close>

record call_env =
  ce_now :: "nat \<Rightarrow> string"
  ce_ids :: "(nat \<Rightarrow> string) option"

subsection \<open>Paths\<close>

record cloud_queue_paths =
  qp_root :: path
  qp_requests :: path
  qp_exports :: path
  qp_imports :: path
  qp_audit_log :: path
  qp_approvals :: path

definition queue_paths :: "path \<Rightarrow> cloud_queue_paths" where
  "queue_paths project =
     (let root = project @ [''.agentic'', ''cloud_queue'']
      in \<lparr>qp_root = root, qp_requests = root @ [''requests''], qp_exports = root @ [''exports''],
          qp_imports = root @ [''imports''], qp_audit_log = root @ [''audit.jsonl''],
          qp_approvals = root @ [''approvals'']\<rparr>)"

definition ensure_cloud_queue_dirs :: "path \<Rightarrow> disk \<Rightarrow> disk" where
  "ensure_cloud_queue_dirs project d =
     (let p = queue_paths project
      in fold fs_mkdir [qp_root p, qp_requests p, qp_exports p, qp_imports p, qp_approvals p] d)"

definition request_path :: "path \<Rightarrow> string \<Rightarrow> string option \<Rightarrow> path" where
  "request_path project request_id state =
     (let requests = qp_requests (queue_paths project); filename = request_id @ ''.yaml''
      in case state of
           Some s \<Rightarrow> if s \<noteq> [] then join_path (join_path requests s) filename
                     else join_path requests filename
         | None \<Rightarrow> join_path requests filename)"

definition request_state_path :: "path \<Rightarrow> string \<Rightarrow> string \<Rightarrow> path" where
  "request_state_path project request_id state =
     join_path (join_path (qp_requests (queue_paths project)) state) (request_id @ ''.yaml'')"

subsection \<open>Requests\<close>

definition yaml_value :: "codecs \<Rightarrow> content \<Rightarrow> pyval res" where
  "yaml_value c content = (case content of
     Doc v \<Rightarrow> Inr v
   | Text t \<Rightarrow> yaml_load c t
   | Log _ \<Rightarrow> Inl (Exn OutsideModel ''audit log read as YAML''))"

definition load_request :: "codecs \<Rightarrow> disk \<Rightarrow> path \<Rightarrow> cloud_queue_request res" where
  "load_request c d p = (case fs_file d p of
     None \<Rightarrow> not_found (path_text p)
   | Some content \<Rightarrow> rbind (yaml_value c content) (\<lambda>v. case v of
       PDict m \<Rightarrow> request_from_dict m
     | _ \<Rightarrow> value_error (''Request file must contain a YAML mapping: '' @ path_text p)))"

definition save_request :: "path \<Rightarrow> cloud_queue_request \<Rightarrow> bool \<Rightarrow> (disk, path) prog" where
  "save_request project request allow_overwrite =
     (let p = request_state_path project (rq_request_id request) (rq_state request) in
      pbind (pmodify (ensure_cloud_queue_dirs project)) (\<lambda>_.
      pbind (pmodify (fs_mkdir (butlast p))) (\<lambda>_.
      pbind (pget (\<lambda>d. fs_exists d p)) (\<lambda>there.
      if there \<and> \<not> allow_overwrite
      then plift (value_error (''Request already exists: '' @ path_text p))
      else pbind (pmodify (fs_write p (Doc (PDict (request_to_dict request))))) (\<lambda>_. pret p)))))"

definition move_request ::
    "path \<Rightarrow> cloud_queue_request \<Rightarrow> string \<Rightarrow> bool \<Rightarrow> (disk, path) prog" where
  "move_request project request new_state allow_overwrite =
     (let new_path = request_state_path project (rq_request_id request) new_state;
          old_state = str_or (rq_prior_state request) (rq_state request);
          old_path = request_path project (rq_request_id request) (Some old_state) in
      pbind (pmodify (fs_mkdir (butlast new_path))) (\<lambda>_.
      pbind (pget (\<lambda>d. fs_exists d new_path)) (\<lambda>there.
      if there \<and> \<not> allow_overwrite
      then plift (value_error (''Request already exists in target state: '' @ path_text new_path))
      else pbind (pmodify (\<lambda>d. if fs_exists d old_path \<and> old_path \<noteq> new_path
                               then fs_unlink old_path d else d)) (\<lambda>_.
           pbind (pmodify (fs_write new_path (Doc (PDict (request_to_dict request))))) (\<lambda>_.
           pret new_path)))))"

text \<open>The files of all state directories, in the order \<open>load_requests\<close> visits them.\<close>

definition request_files :: "path \<Rightarrow> disk \<Rightarrow> path list" where
  "request_files project d =
     (let requests = qp_requests (queue_paths project)
      in concat (map (\<lambda>s. map (\<lambda>n. requests @ [s, n])
           (sorted_set (filter (ends_with ''.yaml'')
              (child_files d (requests @ [s]) @ child_dirs d (requests @ [s])))))
           (sorted_set (child_dirs d requests))))"

definition load_requests :: "codecs \<Rightarrow> path \<Rightarrow> (disk, (path \<times> cloud_queue_request) list) prog" where
  "load_requests c project =
     pbind (pmodify (ensure_cloud_queue_dirs project)) (\<lambda>_.
     pread (\<lambda>d. rmap_list (\<lambda>p. rbind (load_request c d p) (\<lambda>r. Inr (p, r)))
                 (request_files project d)))"

subsection \<open>Audit log\<close>

definition checksum_text :: "codecs \<Rightarrow> string \<Rightarrow> string" where
  "checksum_text c text = sha256_hex c text"

definition stable_event_id :: "codecs \<Rightarrow> cloud_queue_audit_event \<Rightarrow> string" where
  "stable_event_id c e = take 16 (sha256_hex c (join ''|''
     [qe_event_type e, qe_request_id e, qe_batch_id e, qe_prior_state e, qe_new_state e,
      qe_packet_checksum e, int_dec (qe_request_count e), qe_timestamp e,
      json_dumps c (PDict (qe_details e))]))"

definition event_id_for ::
    "codecs \<Rightarrow> cloud_queue_audit_event \<Rightarrow> (nat \<Rightarrow> string) option \<Rightarrow> nat \<Rightarrow> string" where
  "event_id_for c e factory k = str_or (qe_event_id e)
     (case factory of Some f \<Rightarrow> f k | None \<Rightarrow> stable_event_id c e)"

definition append_line :: "codecs \<Rightarrow> pydict \<Rightarrow> content option \<Rightarrow> content" where
  "append_line c line old = (case old of
     None \<Rightarrow> Log [line]
   | Some (Log lines) \<Rightarrow> Log (lines @ [line])
   | Some (Text t) \<Rightarrow> Text (t @ json_dumps c (PDict line) @ [CHR 0x0A])
   | Some (Doc v) \<Rightarrow> Text (yaml_dump c False v @ json_dumps c (PDict line) @ [CHR 0x0A]))"

definition append_audit_event ::
    "codecs \<Rightarrow> path \<Rightarrow> cloud_queue_audit_event \<Rightarrow> (nat \<Rightarrow> string) option \<Rightarrow> nat \<Rightarrow> (disk, path) prog" where
  "append_audit_event c project event factory k =
     (let audit_path = qp_audit_log (queue_paths project);
          normalized = event\<lparr>qe_event_id := event_id_for c event factory k\<rparr> in
      pbind (pmodify (ensure_cloud_queue_dirs project)) (\<lambda>_.
      pbind (pmodify (fs_mkdir (butlast audit_path))) (\<lambda>_.
      pbind (pmodify (\<lambda>d. fs_write audit_path
        (append_line c (audit_event_to_dict normalized) (fs_file d audit_path)) d)) (\<lambda>_.
      pret audit_path))))"

definition record_audit_event ::
    "codecs \<Rightarrow> path \<Rightarrow> cloud_queue_audit_event \<Rightarrow> (nat \<Rightarrow> string) option \<Rightarrow> nat \<Rightarrow> (disk, path) prog" where
  "record_audit_event = append_audit_event"

text \<open>\<open>splitlines\<close>, at line feeds; other line boundaries do not occur in dumped JSON.\<close>

definition read_audit_events :: "codecs \<Rightarrow> path \<Rightarrow> disk \<Rightarrow> pyval list res" where
  "read_audit_events c project d = (case fs_file d (qp_audit_log (queue_paths project)) of
     None \<Rightarrow> Inr []
   | Some (Log lines) \<Rightarrow> Inr (map PDict lines)
   | Some (Text t) \<Rightarrow>
       rmap_list (json_load c) (filter (\<lambda>l. strip l \<noteq> []) (split_on (CHR 0x0A) t))
   | Some (Doc v) \<Rightarrow> Inl (Exn OutsideModel ''audit log written as YAML''))"

subsection \<open>Approvals and imported responses\<close>

record approval_record =
  ar_request_id :: string
  ar_normalized_response_checksum :: string
  ar_approved :: bool
  ar_operator_note :: string
  ar_recorded_at :: string
  ar_record_path :: path

definition approval_record_path :: "path \<Rightarrow> string \<Rightarrow> path" where
  "approval_record_path project request_id =
     join_path (qp_approvals (queue_paths project)) (request_id @ ''.yaml'')"

definition record_approval ::
    "path \<Rightarrow> cloud_queue_request \<Rightarrow> string \<Rightarrow> bool \<Rightarrow> string \<Rightarrow> string \<Rightarrow> (disk, approval_record) prog" where
  "record_approval project request checksum approved operator_note recorded_at =
     (let p = approval_record_path project (rq_request_id request);
          payload = [(''request_id'', PStr (rq_request_id request)),
                     (''normalized_response_checksum'', PStr checksum),
                     (''approved'', PBool approved),
                     (''operator_note'', PStr operator_note),
                     (''recorded_at'', PStr recorded_at)] in
      pbind (pmodify (fs_mkdir (butlast p))) (\<lambda>_.
      pbind (pmodify (fs_write p (Doc (PDict payload)))) (\<lambda>_.
      pret \<lparr>ar_request_id = rq_request_id request, ar_normalized_response_checksum = checksum,
            ar_approved = approved, ar_operator_note = operator_note,
            ar_recorded_at = recorded_at, ar_record_path = p\<rparr>)))"

definition load_approval_record :: "codecs \<Rightarrow> disk \<Rightarrow> path \<Rightarrow> pydict res" where
  "load_approval_record c d p = (case fs_file d p of
     None \<Rightarrow> not_found (path_text p)
   | Some content \<Rightarrow> rbind (yaml_value c content) (\<lambda>v. case v of
       PDict m \<Rightarrow> Inr m
     | _ \<Rightarrow> value_error (''Approval record must be a YAML mapping: '' @ path_text p)))"

definition approval_checksum :: "codecs \<Rightarrow> pyval \<Rightarrow> string" where
  "approval_checksum c v = (case v of
     PStr s \<Rightarrow> checksum_text c s | _ \<Rightarrow> checksum_text c (yaml_dump c True v))"

definition imported_response_path :: "path \<Rightarrow> string \<Rightarrow> path" where
  "imported_response_path project request_id =
     join_path (qp_imports (queue_paths project)) (request_id @ ''.yaml'')"

definition save_imported_response :: "path \<Rightarrow> cloud_queue_response \<Rightarrow> (disk, path) prog" where
  "save_imported_response project response =
     (let p = imported_response_path project (rs_request_id response) in
      pbind (pmodify (ensure_cloud_queue_dirs project)) (\<lambda>_.
      pbind (pmodify (fs_mkdir (butlast p))) (\<lambda>_.
      pbind (pmodify (fs_write p (Doc (PDict (response_to_dict response))))) (\<lambda>_. pret p))))"

definition load_imported_response :: "codecs \<Rightarrow> path \<Rightarrow> string \<Rightarrow> (disk, cloud_queue_response) prog" where
  "load_imported_response c project request_id =
     (let p = imported_response_path project request_id in
      pbind (pmodify (ensure_cloud_queue_dirs project)) (\<lambda>_.
      pread (\<lambda>d. case fs_file d p of
        None \<Rightarrow> not_found (''Imported response does not exist: '' @ path_text p)
      | Some content \<Rightarrow> rbind (yaml_value c content) (\<lambda>v. case v of
          PDict m \<Rightarrow> response_from_dict m (Some (path_text p))
        | _ \<Rightarrow> value_error (''Imported response must be a YAML mapping: '' @ path_text p)))))"

subsection \<open>The place of a request\<close>

definition queue_root :: "path \<Rightarrow> path" where
  "queue_root project = project @ [''.agentic'', ''cloud_queue'']"

definition request_key :: "path \<Rightarrow> string \<Rightarrow> string \<Rightarrow> path" where
  "request_key project s i = queue_root project @ [''requests'', s, i @ ''.yaml'']"

lemma queue_paths_simps [simp]:
  "qp_root (queue_paths project) = queue_root project"
  "qp_requests (queue_paths project) = queue_root project @ [''requests'']"
  "qp_exports (queue_paths project) = queue_root project @ [''exports'']"
  "qp_imports (queue_paths project) = queue_root project @ [''imports'']"
  "qp_audit_log (queue_paths project) = queue_root project @ [''audit.jsonl'']"
  "qp_approvals (queue_paths project) = queue_root project @ [''approvals'']"
  by (simp_all add: queue_paths_def queue_root_def Let_def)

lemma plain_queue_root [simp]: "plain_path (queue_root project) = plain_path project"
  by (simp add: queue_root_def)

lemma normalized_id_plain:
  "normalize_request_id r = Inr q \<Longrightarrow> CHR ''/'' \<notin> set q"
  using split_list [of "CHR ''/''" q]
  by (auto simp: normalize_request_id_ok contains_iff simp del: contains.simps)

lemma queue_state_plain: "s \<in> set QUEUE_STATES \<Longrightarrow> plain_name s"
proof -
  have "list_all plain_name QUEUE_STATES"
    by (simp add: QUEUE_STATES_def plain_name_def)
  then show "s \<in> set QUEUE_STATES \<Longrightarrow> plain_name s" by (simp add: list_all_iff)
qed

lemma dots_no_state [simp]: "''..'' \<notin> set QUEUE_STATES"
  by (simp add: QUEUE_STATES_def)

definition request_ids :: "string set" where
  "request_ids = {i. normalize_request_id i = Inr i}"

lemma request_file_name: "i \<in> request_ids \<Longrightarrow> plain_name (i @ ''.yaml'')"
  unfolding request_ids_def using normalized_id_plain plain_name_file by blast

lemma request_paths_key:
  assumes "s \<in> set QUEUE_STATES" and "i \<in> request_ids"
  shows "request_state_path project i s = request_key project s i"
    and "request_path project i (Some s) = request_key project s i"
  using queue_state_plain [OF assms(1)] request_file_name [OF assms(2)]
  by (simp_all add: request_state_path_def request_path_def request_key_def plain_name_def)

lemma plain_request_key:
  "plain_path project \<Longrightarrow> s \<in> set QUEUE_STATES \<Longrightarrow> i \<in> request_ids \<Longrightarrow>
   plain_path (request_key project s i)"
  using queue_state_plain request_file_name by (auto simp: request_key_def plain_name_def)

lemma plain_key_parts:
  "s \<in> set QUEUE_STATES \<Longrightarrow> i \<in> request_ids \<Longrightarrow> plain_path [s, i @ ''.yaml'']"
  using queue_state_plain [of s] request_file_name [of i] by (auto simp: plain_name_def)

text \<open>
  The directories of the queue are the state directories of the contract; the conditions on
  the project's path are part of the set of states.
\<close>

definition states_of :: "path \<Rightarrow> string set" where
  "states_of project = {s \<in> set QUEUE_STATES. plain_path project}"

interpretation queue_dirs: state_directories fs_file fs_write fs_unlink plain_path
    "request_key project" "states_of project" request_ids for project
  by unfold_locales (auto simp: states_of_def plain_request_key request_key_def)

subsection \<open>The invariant of the request files\<close>

text \<open>
  Every request file holds a request with the identifier of its name and the state of its
  directory, and no identifier has two files.
\<close>

definition well_placed :: "string \<Rightarrow> string \<Rightarrow> cloud_queue_request \<Rightarrow> bool" where
  "well_placed s n r \<longleftrightarrow> n = rq_request_id r @ ''.yaml'' \<and> s = rq_state r \<and> wf_request r
     \<and> s \<in> set QUEUE_STATES \<and> rq_request_id r \<in> request_ids"

definition placed :: "codecs \<Rightarrow> path \<Rightarrow> disk \<Rightarrow> bool" where
  "placed c project d \<longleftrightarrow> (\<forall>s n. ends_with ''.yaml'' n
     \<and> fs_file d (queue_root project @ [''requests'', s, n]) \<noteq> None
     \<and> plain_path [s, n] \<longrightarrow>
     (\<exists>r. load_request c d (queue_root project @ [''requests'', s, n]) = Inr r \<and> well_placed s n r))"

definition queue_inv :: "codecs \<Rightarrow> path \<Rightarrow> disk \<Rightarrow> bool" where
  "queue_inv c project d \<longleftrightarrow> plain_path project \<and> plain_disk d
     \<and> placed c project d \<and> queue_dirs.single project d"

lemma load_request_cong:
  "fs_file d p = fs_file e p \<Longrightarrow> load_request c d p = load_request c e p"
  by (simp add: load_request_def)

lemma placed_entry:
  assumes "placed c project d" and "ends_with ''.yaml'' n" and "plain_path [s, n]"
    and "fs_file d (queue_root project @ [''requests'', s, n]) \<noteq> None"
    and "fs_file e (queue_root project @ [''requests'', s, n])
      = fs_file d (queue_root project @ [''requests'', s, n])"
  shows "\<exists>r. load_request c e (queue_root project @ [''requests'', s, n]) = Inr r \<and> well_placed s n r"
  using assms(1-4) load_request_cong [OF assms(5), of c] unfolding placed_def by simp

lemma load_request_file: "load_request c d p = Inr r \<Longrightarrow> fs_file d p \<noteq> None"
  by (auto simp: load_request_def split: option.splits)

lemma load_written:
  "plain_path p \<Longrightarrow> wf_request r \<Longrightarrow>
   load_request c (fs_write p (Doc (PDict (request_to_dict r))) d) p = Inr r"
  by (simp add: load_request_def yaml_value_def request_roundtrip)

lemma request_key_split:
  "queue_root project @ [''requests'', s, n] = request_key project t i \<longleftrightarrow> s = t \<and> n = i @ ''.yaml''"
  by (simp add: request_key_def)

lemma ends_yaml [simp]: "ends_with ''.yaml'' (i @ ''.yaml'')"
  unfolding ends_with_iff by blast

lemma same_files_inv:
  assumes "queue_inv c project d" and "plain_disk e"
    and "\<And>s n. ends_with ''.yaml'' n \<Longrightarrow> plain_path [s, n] \<Longrightarrow>
      fs_file e (queue_root project @ [''requests'', s, n])
      = fs_file d (queue_root project @ [''requests'', s, n])"
  shows "queue_inv c project e"
proof -
  have "placed c project d" using assms(1) by (simp add: queue_inv_def)
  then have "placed c project e"
    unfolding placed_def [of c project e]
    by (intro allI impI, elim conjE) (rule placed_entry, simp_all only: assms(3) not_False_eq_True)
  moreover have "queue_dirs.single project e"
  proof -
    have "fs_file e (request_key project s i) = fs_file d (request_key project s i)"
      if "s \<in> states_of project" "i \<in> request_ids" for s i
      using assms(3) [of "i @ ''.yaml''" s] that plain_key_parts [of s i]
      unfolding request_key_def states_of_def by simp
    with assms(1) show ?thesis unfolding queue_inv_def queue_dirs.single_def by metis
  qed
  ultimately show ?thesis using assms(1,2) by (simp add: queue_inv_def)
qed

text \<open>Writes outside the request files keep the invariant.\<close>

definition request_area :: "path \<Rightarrow> path \<Rightarrow> bool" where
  "request_area project p \<longleftrightarrow> (\<exists>s n. ends_with ''.yaml'' n \<and> p = queue_root project @ [''requests'', s, n])"

lemma inv_mkdir: "queue_inv c project d \<Longrightarrow> queue_inv c project (fs_mkdir p d)"
  by (rule same_files_inv) (auto simp: queue_inv_def)

lemma inv_ensure: "queue_inv c project d \<Longrightarrow> queue_inv c project (ensure_cloud_queue_dirs project d)"
  by (simp add: ensure_cloud_queue_dirs_def inv_mkdir)

lemma inv_write_other:
  "queue_inv c project d \<Longrightarrow> plain_path p \<Longrightarrow> \<not> request_area project p \<Longrightarrow>
   queue_inv c project (fs_write p v d)"
  by (rule same_files_inv) (auto simp: queue_inv_def request_area_def)

lemma ensure_files [simp]: "fs_files (ensure_cloud_queue_dirs project d) = fs_files d"
  by (simp add: ensure_cloud_queue_dirs_def)

text \<open>A request under the invariant is found where its state and identifier say.\<close>

lemma placed_file:
  assumes "queue_inv c project d" and "ends_with ''.yaml'' n" and "plain_path [s, n]"
    and "load_request c d (queue_root project @ [''requests'', s, n]) = Inr r"
  shows "well_placed s n r"
  using assms load_request_file [OF assms(4)]
  unfolding queue_inv_def placed_def by (metis sum.inject(2))

lemma request_files_parts:
  assumes "plain_disk d" and "p \<in> set (request_files project d)"
  obtains s n where "p = queue_root project @ [''requests'', s, n]"
    and "ends_with ''.yaml'' n" and "plain_path [s, n]"
  using assms plain_child_dirs [OF assms(1)] plain_child_files [OF assms(1)]
  by (fastforce simp: request_files_def Let_def)

lemma loaded_request:
  assumes "queue_inv c project d" and "load_requests c project d = (Inr rs, d')" and "(p, r) \<in> set rs"
  shows "p = request_key project (rq_state r) (rq_request_id r) \<and> load_request c d p = Inr r
    \<and> wf_request r \<and> rq_state r \<in> set QUEUE_STATES \<and> rq_request_id r \<in> request_ids
    \<and> d' = ensure_cloud_queue_dirs project d"
proof -
  let ?d = "ensure_cloud_queue_dirs project d"
  have inv: "queue_inv c project ?d" using assms(1) by (rule inv_ensure)
  from assms(2,3) have p: "p \<in> set (request_files project ?d)" "load_request c ?d p = Inr r"
    and d': "d' = ?d"
    by (auto simp: load_requests_def rmap_list_set)
  from inv have "plain_disk ?d" by (simp add: queue_inv_def)
  from request_files_parts [OF this p(1)] obtain s n where
    parts: "p = queue_root project @ [''requests'', s, n]" "ends_with ''.yaml'' n" "plain_path [s, n]" .
  from placed_file [OF inv parts(2,3)] p(2) parts(1) have wp: "well_placed s n r" by blast
  moreover have "fs_file ?d p = fs_file d p"
    using parts(1,3) inv by (simp add: queue_inv_def)
  then have "load_request c d p = Inr r" using p(2) load_request_cong by metis
  ultimately show ?thesis
    using d' parts(1) by (auto simp: well_placed_def request_key_def)
qed

subsection \<open>The operations keep the invariant\<close>

lemma inv_put:
  assumes "queue_inv c project d" and "wf_request r" and "rq_state r \<in> set QUEUE_STATES"
    and "rq_request_id r \<in> request_ids"
    and "queue_dirs.single project (fs_write (request_key project (rq_state r) (rq_request_id r)) (Doc (PDict (request_to_dict r))) d)"
  shows "queue_inv c project (fs_write (request_key project (rq_state r) (rq_request_id r)) (Doc (PDict (request_to_dict r))) d)"
proof -
  let ?k = "request_key project (rq_state r) (rq_request_id r)"
  let ?e = "fs_write ?k (Doc (PDict (request_to_dict r))) d"
  have proj: "plain_path project" using assms(1) by (simp add: queue_inv_def)
  have k: "plain_path ?k" using plain_request_key [OF proj assms(3,4)] .
  have "\<exists>r'. load_request c ?e (queue_root project @ [''requests'', s, n]) = Inr r' \<and> well_placed s n r'"
    if n: "ends_with ''.yaml'' n" "plain_path [s, n]"
      and there: "fs_file ?e (queue_root project @ [''requests'', s, n]) \<noteq> None" for s n
  proof (cases "queue_root project @ [''requests'', s, n] = ?k")
    case True
    then have "s = rq_state r \<and> n = rq_request_id r @ ''.yaml''" by (simp add: request_key_def)
    with assms show ?thesis unfolding True by (simp add: load_written k well_placed_def)
  next
    case False
    then have "fs_file ?e (queue_root project @ [''requests'', s, n])
        = fs_file d (queue_root project @ [''requests'', s, n])"
      using n proj k by simp
    with assms(1) n there show ?thesis
      by (intro placed_entry) (simp_all add: queue_inv_def)
  qed
  then have "placed c project ?e" unfolding placed_def by blast
  with assms(1,5) show ?thesis by (simp add: queue_inv_def)
qed

lemma inv_unlink:
  assumes "queue_inv c project d" and "plain_path p"
  shows "queue_inv c project (fs_unlink p d)"
proof -
  let ?e = "fs_unlink p d"
  have sub: "fs_file ?e q = (if q = p then None else fs_file d q)" if "plain_path q" for q
    using that assms(2) by simp
  have "placed c project ?e"
    unfolding placed_def
  proof (intro allI impI, elim conjE)
    fix s n
    assume n: "ends_with ''.yaml'' n" "plain_path [s, n]"
      and there: "fs_file ?e (queue_root project @ [''requests'', s, n]) \<noteq> None"
    have "plain_path (queue_root project @ [''requests'', s, n])"
      using n assms(1) by (simp add: queue_inv_def)
    then have "fs_file ?e (queue_root project @ [''requests'', s, n])
        = fs_file d (queue_root project @ [''requests'', s, n])"
      using sub there by metis
    with assms(1) n there
    show "\<exists>r. load_request c ?e (queue_root project @ [''requests'', s, n]) = Inr r \<and> well_placed s n r"
      by (intro placed_entry [of c project d]) (simp_all only: queue_inv_def not_False_eq_True)
  qed
  moreover have "queue_dirs.single project ?e"
    using assms queue_dirs.single_del by (simp add: queue_inv_def)
  ultimately show ?thesis using assms(1) by (simp add: queue_inv_def)
qed

subsection \<open>What the operations write\<close>

lemma state_not_empty: "s \<in> set QUEUE_STATES \<Longrightarrow> s \<noteq> []"
  using queue_state_plain by (auto simp: plain_name_def)

text \<open>The files of the queue that a decision touches, up to the request files themselves.\<close>

definition only_changes :: "path set \<Rightarrow> disk \<Rightarrow> disk \<Rightarrow> bool" where
  "only_changes ps d e \<longleftrightarrow> (\<forall>p. plain_path p \<and> p \<notin> ps \<longrightarrow> fs_file e p = fs_file d p)"

lemma only_changes_refl [intro!]: "fs_files e = fs_files d \<Longrightarrow> only_changes ps d e"
  by (simp add: only_changes_def)

lemma only_changes_trans:
  "only_changes ps d e \<Longrightarrow> only_changes qs e f \<Longrightarrow> ps \<union> qs \<subseteq> rs \<Longrightarrow> only_changes rs d f"
  unfolding only_changes_def by (metis UnCI subsetD)

lemma only_changes_write: "plain_path p \<Longrightarrow> p \<in> ps \<Longrightarrow> only_changes ps d (fs_write p v d)"
  by (auto simp: only_changes_def)

lemma inv_load:
  assumes "queue_inv c project d" and "s \<in> set QUEUE_STATES" and "i \<in> request_ids"
    and "load_request c d (request_key project s i) = Inr r"
  shows "rq_state r = s \<and> rq_request_id r = i \<and> wf_request r"
  using placed_file [of c project d "i @ ''.yaml''" s r] assms plain_key_parts [of s i]
  unfolding well_placed_def request_key_def by simp

text \<open>A move: the old file goes, the new one holds the request, and nothing else changes.\<close>

lemma move_request_ok:
  assumes inv: "queue_inv c project d"
    and old: "load_request c d (request_key project s i) = Inr r"
      "s \<in> set QUEUE_STATES" "i \<in> request_ids"
    and new: "rq_prior_state u = s" "rq_request_id u = i" "rq_state u = t" "t \<in> set QUEUE_STATES"
      "wf_request u" "s \<noteq> t"
  obtains e where "move_request project u t True d = (Inr (request_key project t i), e)"
    and "queue_inv c project e"
    and "load_request c e (request_key project t i) = Inr u"
    and "fs_file e (request_key project s i) = None"
    and "only_changes {request_key project s i, request_key project t i} d e"
proof -
  let ?k = "request_key project s i" and ?n = "request_key project t i"
  let ?d = "fs_mkdir (butlast ?n) d"
  let ?e = "fs_write ?n (Doc (PDict (request_to_dict u))) (fs_unlink ?k ?d)"
  have proj: "plain_path project" using inv by (simp add: queue_inv_def)
  have plain: "plain_path ?k" "plain_path ?n"
    using plain_request_key [OF proj] old new by simp_all
  have differ: "?k \<noteq> ?n" using new by (simp add: request_key_def)
  have there: "fs_file d ?k \<noteq> None" by (rule load_request_file [OF old(1)])
  have run: "move_request project u t True d = (Inr ?n, ?e)"
    using new old there differ plain state_not_empty [of s]
    by (simp add: move_request_def Let_def request_paths_key str_or_def fs_exists_def)
  have single: "queue_dirs.single project ?e"
  proof (rule queue_dirs.single_move)
    show "queue_dirs.single project ?d"
      using inv_mkdir [OF inv] by (simp add: queue_inv_def)
    show "fs_file ?d ?k \<noteq> None" using there plain by simp
  qed (use old new proj in \<open>simp_all add: states_of_def\<close>)
  have "queue_inv c project (fs_unlink ?k ?d)"
    by (rule inv_unlink [OF inv_mkdir [OF inv] plain(1)])
  from inv_put [OF this, of u] new old single have "queue_inv c project ?e" by simp
  moreover have "load_request c ?e ?n = Inr u"
    by (rule load_written [OF plain(2) new(5)])
  moreover have "fs_file ?e ?k = None" using plain differ by simp
  moreover have "only_changes {?k, ?n} d ?e"
    using plain by (auto simp: only_changes_def)
  ultimately show thesis using that run by blast
qed

text \<open>The audit log gains one line, and nothing else changes.\<close>

definition audit_path :: "path \<Rightarrow> path" where
  "audit_path project = queue_root project @ [''audit.jsonl'']"

lemma audit_not_request: "\<not> request_area project (audit_path project)"
  by (simp add: request_area_def audit_path_def)

lemma append_audit_ok:
  assumes "queue_inv c project d"
  obtains e where
    "append_audit_event c project event factory k d = (Inr (audit_path project), e)"
    and "queue_inv c project e"
    and "fs_file e (audit_path project) = Some (append_line c
      (audit_event_to_dict (event\<lparr>qe_event_id := event_id_for c event factory k\<rparr>))
      (fs_file d (audit_path project)))"
    and "only_changes {audit_path project} d e"
proof -
  let ?v = "append_line c (audit_event_to_dict (event\<lparr>qe_event_id := event_id_for c event factory k\<rparr>))
      (fs_file d (audit_path project))"
  let ?d = "fs_mkdir (queue_root project) (ensure_cloud_queue_dirs project d)"
  let ?e = "fs_write (audit_path project) ?v ?d"
  have plain: "plain_path (audit_path project)"
    using assms by (simp add: queue_inv_def audit_path_def)
  then have "append_audit_event c project event factory k d = (Inr (audit_path project), ?e)"
    by (simp add: append_audit_event_def Let_def audit_path_def)
  moreover have "queue_inv c project ?e"
    by (rule inv_write_other [OF inv_mkdir [OF inv_ensure [OF assms]] plain audit_not_request])
  moreover have "fs_file ?e (audit_path project) = Some ?v" using plain by simp
  moreover have "only_changes {audit_path project} d ?e" using plain by (simp add: only_changes_def)
  ultimately show thesis using that by blast
qed

lemma record_approval_ok:
  assumes "queue_inv c project d" and "rq_request_id r \<in> request_ids"
  obtains a e where "record_approval project r checksum approved note at d = (Inr a, e)"
    and "queue_inv c project e" and "ar_normalized_response_checksum a = checksum"
    and "only_changes {queue_root project @ [''approvals'', rq_request_id r @ ''.yaml'']} d e"
proof -
  let ?p = "queue_root project @ [''approvals'', rq_request_id r @ ''.yaml'']"
  have name: "plain_name (rq_request_id r @ ''.yaml'')" by (rule request_file_name [OF assms(2)])
  have plain: "plain_path ?p"
    using assms(1) name by (simp add: queue_inv_def plain_name_def)
  have p: "approval_record_path project (rq_request_id r) = ?p"
    using name by (simp add: approval_record_path_def)
  have other: "\<not> request_area project ?p" by (simp add: request_area_def)
  obtain a where "record_approval project r checksum approved note at d
      = (Inr a, fs_write ?p (Doc (PDict [(''request_id'', PStr (rq_request_id r)),
          (''normalized_response_checksum'', PStr checksum), (''approved'', PBool approved),
          (''operator_note'', PStr note), (''recorded_at'', PStr at)])) (fs_mkdir (butlast ?p) d))"
      "ar_normalized_response_checksum a = checksum"
    using p by (simp add: record_approval_def Let_def)
  then show thesis
    using that inv_write_other [OF inv_mkdir [OF assms(1)] plain other] plain
    by (fastforce simp: only_changes_def)
qed

text \<open>The requests with other identifiers stay as they are.\<close>

definition others_kept :: "path \<Rightarrow> disk \<Rightarrow> disk \<Rightarrow> string \<Rightarrow> bool" where
  "others_kept project d e i \<longleftrightarrow> (\<forall>s \<in> set QUEUE_STATES. \<forall>j \<in> request_ids. j \<noteq> i \<longrightarrow>
     fs_file e (request_key project s j) = fs_file d (request_key project s j))"

lemma others_kept_changes:
  assumes "only_changes ps d e" and "plain_path project"
    and "\<And>p. p \<in> ps \<Longrightarrow> (\<exists>s. p = request_key project s i) \<or> \<not> request_area project p"
  shows "others_kept project d e i"
  unfolding others_kept_def
proof (intro ballI impI)
  fix s j assume s: "s \<in> set QUEUE_STATES" "j \<in> request_ids" "j \<noteq> i"
  have "request_area project (request_key project s j)"
    by (auto simp: request_area_def request_key_def)
  moreover have "request_key project s j \<noteq> request_key project t i" for t
    using s(3) by (simp add: request_key_def)
  ultimately have "request_key project s j \<notin> ps" using assms(3) by metis
  then show "fs_file e (request_key project s j) = fs_file d (request_key project s j)"
    using assms(1) plain_request_key [OF assms(2) s(1,2)] by (simp add: only_changes_def)
qed

lemma others_kept_same: "queue_inv c project d \<Longrightarrow> fs_files e = fs_files d \<Longrightarrow> others_kept project d e i"
  by (rule others_kept_changes [of "{}"]) (auto simp: queue_inv_def)

end
