(* ===== verification/QueueService.thy ===== *)
theory QueueService
  imports QueueStore
begin

text \<open>
  \<open>cloud_queue/service.py\<close>: the commands of the queue. Each is a program over the files of
  the project; its parameters are the codecs, the project's path, the results of the calls
  to the clock and to the identifier factory, and the arguments of the function. A default
  of \<open>None\<close> is an option. The \<open>k\<close> of \<open>ce_now env k\<close> numbers the calls of \<open>now_iso\<close> in the order
  of the source text.
\<close>

definition REQUEST_ID_PREFIX :: string where "REQUEST_ID_PREFIX = ''CQ''"
definition EXPORTABLE_STATES :: "string list" where "EXPORTABLE_STATES = [''ready'']"

record create_result =
  cq_request :: cloud_queue_request
  cq_request_path :: path
  cq_created_at :: string
  cq_audit_event_id :: string

record decision_result =
  dr_request :: cloud_queue_request
  dr_request_path :: path
  dr_audit_event_id :: string
  dr_decision :: string
  dr_note :: string

record list_result =
  lr_requests :: "cloud_queue_request list"
  lr_counts_by_state :: "(string \<times> nat) list"

text \<open>\<open>now_iso().replace(':', '').replace('+', '-')\<close>\<close>

definition file_stamp :: "string \<Rightarrow> string" where
  "file_stamp t = replace_char (CHR ''+'') (CHR ''-'') (filter (\<lambda>c. c \<noteq> CHR '':'') t)"

text \<open>\<open>Counter(xs)\<close> as a dictionary\<close>

definition counter :: "string list \<Rightarrow> (string \<times> nat) list" where
  "counter xs = map (\<lambda>x. (x, count_list xs x)) (dedup xs)"

subsection \<open>Looking up\<close>

definition locate_request ::
    "codecs \<Rightarrow> path \<Rightarrow> string \<Rightarrow> (disk, cloud_queue_request \<times> path) prog" where
  "locate_request c project request_id =
     pbind (plift (normalize_request_id request_id)) (\<lambda>normalized.
     pbind (load_requests c project) (\<lambda>loaded.
     case find (\<lambda>(p, r). rq_request_id r = normalized) loaded of
       Some (p, r) \<Rightarrow> pret (r, p)
     | None \<Rightarrow> plift (not_found (''Cloud queue request was not found: '' @ request_id))))"

definition show_cloud_queue_request ::
    "codecs \<Rightarrow> path \<Rightarrow> string \<Rightarrow> (disk, cloud_queue_request \<times> path) prog" where
  "show_cloud_queue_request = locate_request"

definition classify_imported_response ::
    "codecs \<Rightarrow> path \<Rightarrow> string \<Rightarrow> (disk, cloud_queue_request) prog" where
  "classify_imported_response c project request_id =
     pbind (locate_request c project request_id) (\<lambda>(r, p). pret r)"

definition generate_request_id :: "codecs \<Rightarrow> path \<Rightarrow> string \<Rightarrow> (disk, string) prog" where
  "generate_request_id c project now =
     pbind (load_requests c project) (\<lambda>loaded.
     pret (REQUEST_ID_PREFIX @ ''-'' @ file_stamp now @ ''-'' @ zero_pad 3 (length loaded + 1)))"

fun dependencies_loop :: "codecs \<Rightarrow> path \<Rightarrow> string list \<Rightarrow> (disk, bool) prog" where
  "dependencies_loop c project [] = pret True"
| "dependencies_loop c project (i # is) =
     pbind (ptry (pbind (locate_request c project i) (\<lambda>(r, p). pret (Some r)))
       (\<lambda>e. if exn_class e = FileNotFoundError then pret None else plift (Inl e))) (\<lambda>found.
     case found of
       None \<Rightarrow> pret False
     | Some dependency \<Rightarrow>
         if rq_state dependency \<notin> {''validated_safe'', ''approved''} then pret False
         else dependencies_loop c project is)"

definition dependencies_resolved :: "codecs \<Rightarrow> path \<Rightarrow> cloud_queue_request \<Rightarrow> (disk, bool) prog" where
  "dependencies_resolved c project request = dependencies_loop c project (rq_dependencies request)"

definition list_cloud_queue_requests ::
    "codecs \<Rightarrow> path \<Rightarrow> string option \<Rightarrow> (disk, list_result) prog" where
  "list_cloud_queue_requests c project state =
     pbind (load_requests c project) (\<lambda>entries.
     let loaded = map snd entries;
         loaded = (case state of
             Some s \<Rightarrow> if s \<noteq> [] then filter (\<lambda>r. rq_state r = s) loaded else loaded
           | None \<Rightarrow> loaded)
     in pret \<lparr>lr_requests = loaded, lr_counts_by_state = counter (map rq_state loaded)\<rparr>)"

definition cloud_queue_status :: "codecs \<Rightarrow> path \<Rightarrow> (disk, cloud_queue_status_result) prog" where
  "cloud_queue_status c project =
     pbind (load_requests c project) (\<lambda>entries.
     let requests = map snd entries in
     pbind (plift (rmap_list (\<lambda>r. is_terminal_state (rq_state r)) requests)) (\<lambda>terminal.
     pret \<lparr>sr_request_count = length requests,
           sr_counts_by_state = counter (map rq_state requests),
           sr_requests = requests,
           sr_terminal_count = length (filter (\<lambda>b. b) terminal)\<rparr>))"

subsection \<open>Creating\<close>

definition create_cloud_queue_request ::
    "codecs \<Rightarrow> call_env \<Rightarrow> path \<Rightarrow> string \<Rightarrow> string \<Rightarrow> string \<Rightarrow> string \<Rightarrow> string list \<Rightarrow> string list
     \<Rightarrow> string list \<Rightarrow> string list \<Rightarrow> string list \<Rightarrow> string \<Rightarrow> string \<Rightarrow> string option \<Rightarrow> string option
     \<Rightarrow> (disk, create_result) prog" where
  "create_cloud_queue_request c env project story title details blocker_type requirements
     writable_paths dependencies context_files notes source_task_id source_plan_revision
     request_id_factory batch_id_factory =
     pbind (pmodify (ensure_cloud_queue_dirs project)) (\<lambda>_.
     pbind (case request_id_factory of
         Some i \<Rightarrow> pret i | None \<Rightarrow> generate_request_id c project (ce_now env 0)) (\<lambda>raw_id.
     pbind (plift (normalize_request_id raw_id)) (\<lambda>request_id.
     let batch_id = (case batch_id_factory of
           Some b \<Rightarrow> b | None \<Rightarrow> ''batch-'' @ file_stamp (ce_now env 1)) in
     pbind (plift (normalize_writable_paths writable_paths)) (\<lambda>writable.
     pbind (plift (rmap_list normalize_request_id dependencies)) (\<lambda>deps.
     pbind (plift (rmap_list normalize_relative_path context_files)) (\<lambda>context.
     let request = \<lparr>rq_request_id = request_id, rq_story = story, rq_title = title,
           rq_blocker_type = blocker_type, rq_details = details, rq_state = ''ready'',
           rq_prior_state = ''new'', rq_batch_id = batch_id, rq_request_count = 1,
           rq_request_schema_version = REQUEST_SCHEMA_VERSION,
           rq_response_schema_version = RESPONSE_SCHEMA_VERSION,
           rq_requirements = requirements, rq_writable_paths = writable, rq_dependencies = deps,
           rq_context_files = context, rq_created_at = ce_now env 2, rq_updated_at = ce_now env 3,
           rq_source_task_id = source_task_id, rq_source_plan_revision = source_plan_revision,
           rq_packet_checksum = [], rq_normalized_response_checksum = [], rq_approval_checksum = [],
           rq_raw_response_checksum = [], rq_classification = [],
           rq_next_action = ''Ready to export.'', rq_redaction_summary = [],
           rq_audit_event_ids = [], rq_notes = notes\<rparr> in
     pbind (save_request project request False) (\<lambda>_.
     let event = \<lparr>qe_event_id = [], qe_event_type = ''create'', qe_request_id = request_id,
           qe_batch_id = batch_id, qe_prior_state = ''new'', qe_new_state = ''ready'',
           qe_packet_checksum = [], qe_request_count = 1, qe_timestamp = ce_now env 4,
           qe_details = [(''story'', PStr story), (''blocker_type'', PStr blocker_type),
             (''requirements'', pstrs requirements), (''writable_paths'', pstrs writable),
             (''dependencies'', pstrs deps), (''context_files'', pstrs context)]\<rparr>;
         event = event\<lparr>qe_event_id := event_id_for c event (ce_ids env) 0\<rparr> in
     pbind (append_audit_event c project event None 0) (\<lambda>_.
     pbind (plift (request_with request [(''audit_event_ids'', pstrs [qe_event_id event])])) (\<lambda>request.
     pbind (save_request project request True) (\<lambda>_.
     pret \<lparr>cq_request = request,
           cq_request_path = request_state_path project (rq_request_id request) (rq_state request),
           cq_created_at = rq_created_at request,
           cq_audit_event_id = qe_event_id event\<rparr>))))))))))"

subsection \<open>Decisions\<close>

text \<open>
  The last step of each decision: the event gets its identifier, is appended, and the
  updated request is returned with its path.
\<close>

definition conclude ::
    "codecs \<Rightarrow> call_env \<Rightarrow> path \<Rightarrow> cloud_queue_audit_event \<Rightarrow> cloud_queue_request \<Rightarrow> string
     \<Rightarrow> string \<Rightarrow> string \<Rightarrow> string \<Rightarrow> (disk, decision_result) prog" where
  "conclude c env project event updated request_id new_state decision note =
     (let event = event\<lparr>qe_event_id := event_id_for c event (ce_ids env) 0\<rparr> in
      pbind (append_audit_event c project event None 0) (\<lambda>_.
      pret \<lparr>dr_request = updated, dr_request_path = request_state_path project request_id new_state,
            dr_audit_event_id = qe_event_id event, dr_decision = decision, dr_note = note\<rparr>))"

definition decision_event ::
    "string \<Rightarrow> string \<Rightarrow> cloud_queue_request \<Rightarrow> string \<Rightarrow> string \<Rightarrow> pydict \<Rightarrow> cloud_queue_audit_event" where
  "decision_event event_type request_id request new_state now details =
     \<lparr>qe_event_id = [], qe_event_type = event_type, qe_request_id = request_id,
      qe_batch_id = rq_batch_id request, qe_prior_state = rq_state request, qe_new_state = new_state,
      qe_packet_checksum = rq_packet_checksum request, qe_request_count = rq_request_count request,
      qe_timestamp = now, qe_details = details\<rparr>"

definition approve_cloud_queue_request ::
    "codecs \<Rightarrow> call_env \<Rightarrow> path \<Rightarrow> string \<Rightarrow> string option \<Rightarrow> string \<Rightarrow> (disk, decision_result) prog" where
  "approve_cloud_queue_request c env project request_id checksum_value operator_note =
     pbind (locate_request c project request_id) (\<lambda>(request, _).
     if rq_state request \<noteq> APPROVAL_REQUIRED
     then plift (value_error ''Approval is only allowed from approval_required.'')
     else
     let expected = str_or (rq_approval_checksum request) (rq_normalized_response_checksum request);
         actual = (case checksum_value of Some v \<Rightarrow> str_or v expected | None \<Rightarrow> expected) in
     if expected \<noteq> [] \<and> actual \<noteq> [] \<and> expected \<noteq> actual
     then plift (value_error ''Approval checksum does not match the normalized response checksum.'')
     else
     pbind (plift (validate_transition (rq_state request) ''approved'')) (\<lambda>_.
     pbind (plift (request_with request
       [(''prior_state'', PStr (rq_state request)), (''state'', PStr ''approved''),
        (''updated_at'', PStr (ce_now env 0)),
        (''next_action'', PStr ''Approved response is recorded but not applied automatically.''),
        (''classification'', PStr CLASSIFIED_SAFE)])) (\<lambda>updated.
     pbind (move_request project updated ''approved'' True) (\<lambda>_.
     pbind (record_approval project updated (str_or actual expected) True operator_note (ce_now env 1)) (\<lambda>_.
     conclude c env project
       (decision_event ''approve'' request_id request ''approved'' (ce_now env 2)
         [(''normalized_response_checksum'', PStr (str_or actual expected)),
          (''operator_note'', PStr operator_note)])
       updated request_id ''approved'' ''approved'' operator_note)))))"

definition reject_cloud_queue_request ::
    "codecs \<Rightarrow> call_env \<Rightarrow> path \<Rightarrow> string \<Rightarrow> string \<Rightarrow> (disk, decision_result) prog" where
  "reject_cloud_queue_request c env project request_id operator_note =
     pbind (locate_request c project request_id) (\<lambda>(request, _).
     if rq_state request \<in> {''approved'', ''rejected'', ''canceled'', ''failed''}
     then plift (value_error (''Request is already terminal: '' @ rq_state request))
     else
     pbind (plift (validate_transition (rq_state request) ''rejected'')) (\<lambda>_.
     pbind (plift (request_with request
       [(''prior_state'', PStr (rq_state request)), (''state'', PStr ''rejected''),
        (''updated_at'', PStr (ce_now env 0)), (''next_action'', PStr ''Rejected by operator.'')])) (\<lambda>updated.
     pbind (move_request project updated ''rejected'' True) (\<lambda>_.
     conclude c env project
       (decision_event ''reject'' request_id request ''rejected'' (ce_now env 1)
         [(''rejection_reason'', PStr operator_note)])
       updated request_id ''rejected'' ''rejected'' operator_note))))"

definition cancel_cloud_queue_request ::
    "codecs \<Rightarrow> call_env \<Rightarrow> path \<Rightarrow> string \<Rightarrow> string \<Rightarrow> (disk, decision_result) prog" where
  "cancel_cloud_queue_request c env project request_id reason =
     pbind (locate_request c project request_id) (\<lambda>(request, _).
     pbind (plift (is_terminal_state (rq_state request))) (\<lambda>terminal.
     if terminal then plift (value_error (''Request is already terminal: '' @ rq_state request))
     else
     pbind (plift (validate_transition (rq_state request) ''canceled'')) (\<lambda>_.
     pbind (plift (request_with request
       [(''prior_state'', PStr (rq_state request)), (''state'', PStr ''canceled''),
        (''updated_at'', PStr (ce_now env 0)), (''next_action'', PStr ''Canceled by operator.'')])) (\<lambda>updated.
     pbind (move_request project updated ''canceled'' True) (\<lambda>_.
     conclude c env project
       (decision_event ''cancel'' request_id request ''canceled'' (ce_now env 1)
         [(''reason'', PStr reason)])
       updated request_id ''canceled'' ''canceled'' reason)))))"

definition fail_cloud_queue_request ::
    "codecs \<Rightarrow> call_env \<Rightarrow> path \<Rightarrow> string \<Rightarrow> string \<Rightarrow> (disk, decision_result) prog" where
  "fail_cloud_queue_request c env project request_id reason =
     pbind (locate_request c project request_id) (\<lambda>(request, _).
     pbind (plift (is_terminal_state (rq_state request))) (\<lambda>terminal.
     if terminal then plift (value_error (''Request is already terminal: '' @ rq_state request))
     else
     pbind (plift (validate_transition (rq_state request) ''failed'')) (\<lambda>_.
     pbind (plift (request_with request
       [(''prior_state'', PStr (rq_state request)), (''state'', PStr ''failed''),
        (''updated_at'', PStr (ce_now env 0)), (''next_action'', PStr reason)])) (\<lambda>updated.
     pbind (move_request project updated ''failed'' True) (\<lambda>_.
     conclude c env project
       (decision_event ''failure'' request_id request ''failed'' (ce_now env 1)
         [(''reason'', PStr reason)])
       updated request_id ''failed'' ''failed'' reason)))))"

subsection \<open>Looking up, under the invariant\<close>

lemma load_requests_files:
  "load_requests c project d = (r, e) \<Longrightarrow> e = ensure_cloud_queue_dirs project d"
  by (auto simp: load_requests_def)

lemma locate_files:
  assumes "locate_request c project request_id d = (x, e)"
  shows "fs_files e = fs_files d"
  using assms unfolding locate_request_def
  by (cases "normalize_request_id request_id"; cases "load_requests c project d")
    (auto simp: pbind_def dest!: load_requests_files split: sum.splits option.splits)

lemma locate_ok:
  assumes "queue_inv c project d" and "locate_request c project request_id d = (Inr (r, p), e)"
  shows "normalize_request_id request_id = Inr (rq_request_id r)
    \<and> p = request_key project (rq_state r) (rq_request_id r)
    \<and> load_request c e p = Inr r \<and> wf_request r \<and> rq_state r \<in> set QUEUE_STATES
    \<and> rq_request_id r \<in> request_ids \<and> queue_inv c project e"
proof -
  from assms(2) obtain q rs where q: "normalize_request_id request_id = Inr q"
    and rs: "load_requests c project d = (Inr rs, e)"
    and found: "find (\<lambda>(p, r). rq_request_id r = q) rs = Some (p, r)"
    by (auto simp: locate_request_def split: option.splits)
  from found have "(p, r) \<in> set rs" and id: "rq_request_id r = q"
    using find_Some_iff' [OF found] by auto
  from loaded_request [OF assms(1) rs this(1)] have
    at: "p = request_key project (rq_state r) (rq_request_id r)" "load_request c d p = Inr r"
      "wf_request r" "rq_state r \<in> set QUEUE_STATES" "rq_request_id r \<in> request_ids"
      "e = ensure_cloud_queue_dirs project d" by blast+
  have "plain_path p" using assms(1) at by (simp add: queue_inv_def plain_request_key)
  then have "load_request c e p = Inr r"
    using at(2,6) load_request_cong [of d p e c] by simp
  moreover have "queue_inv c project e"
    using inv_ensure [OF assms(1)] at(6) by simp
  ultimately show ?thesis using q id at by blast
qed

subsection \<open>Deciding, under the invariant\<close>

text \<open>What every decision does once it is allowed.\<close>

definition decided ::
    "codecs \<Rightarrow> path \<Rightarrow> cloud_queue_request \<Rightarrow> cloud_queue_request \<Rightarrow> cloud_queue_audit_event
     \<Rightarrow> disk \<Rightarrow> disk \<Rightarrow> bool" where
  "decided c project r u event d e \<longleftrightarrow>
     queue_inv c project e
     \<and> load_request c e (request_key project (rq_state u) (rq_request_id r)) = Inr u
     \<and> fs_file e (request_key project (rq_state r) (rq_request_id r)) = None
     \<and> fs_file e (audit_path project)
         = Some (append_line c (audit_event_to_dict event) (fs_file d (audit_path project)))
     \<and> qe_prior_state event = rq_state r \<and> qe_new_state event = rq_state u
     \<and> qe_request_count event = rq_request_count r
     \<and> others_kept project d e (rq_request_id r)"

lemma conclude_ok:
  assumes "queue_inv c project d"
  obtains res e event' where
    "conclude c env project event u rid t dec note d = (Inr res, e)" and "dr_request res = u"
    and "queue_inv c project e"
    and "fs_file e (audit_path project)
      = Some (append_line c (audit_event_to_dict event') (fs_file d (audit_path project)))"
    and "\<exists>i. event' = event\<lparr>qe_event_id := i\<rparr>"
    and "only_changes {audit_path project} d e"
proof -
  let ?ev = "event\<lparr>qe_event_id := event_id_for c event (ce_ids env) 0\<rparr>"
  let ?ev' = "?ev\<lparr>qe_event_id := event_id_for c ?ev None 0\<rparr>"
  obtain e where e: "append_audit_event c project ?ev None 0 d = (Inr (audit_path project), e)"
    "queue_inv c project e" "fs_file e (audit_path project)
      = Some (append_line c (audit_event_to_dict ?ev') (fs_file d (audit_path project)))"
    "only_changes {audit_path project} d e"
    using append_audit_ok [OF assms, of "?ev" None 0] by blast
  have run: "conclude c env project event u rid t dec note d
      = (Inr \<lparr>dr_request = u, dr_request_path = request_state_path project rid t,
            dr_audit_event_id = qe_event_id ?ev, dr_decision = dec, dr_note = note\<rparr>, e)"
    using e(1) by (simp add: conclude_def Let_def pbind_Inr)
  have "\<exists>i. ?ev' = event\<lparr>qe_event_id := i\<rparr>" by auto
  with that [OF run _ e(2,3) _ e(4)] show thesis by simp
qed

lemma audit_not_key:
  "s \<in> set QUEUE_STATES \<Longrightarrow> audit_path project \<noteq> request_key project s i"
  by (simp add: audit_path_def request_key_def)

lemma load_kept:
  assumes "load_request c d p = Inr r" and "only_changes ps d e" and "plain_path p" and "p \<notin> ps"
  shows "load_request c e p = Inr r"
  using assms load_request_cong unfolding only_changes_def by metis

text \<open>A move followed by the end of a decision.\<close>

lemma move_and_conclude:
  assumes inv: "queue_inv c project d"
    and old: "load_request c d (request_key project (rq_state r) (rq_request_id r)) = Inr r"
      "rq_state r \<in> set QUEUE_STATES" "rq_request_id r \<in> request_ids"
    and new: "rq_prior_state u = rq_state r" "rq_request_id u = rq_request_id r"
      "rq_state u \<in> set QUEUE_STATES" "wf_request u" "rq_state r \<noteq> rq_state u"
    and ev: "qe_prior_state event = rq_state r" "qe_new_state event = rq_state u"
      "qe_request_count event = rq_request_count r"
  obtains res e event' where
    "pbind (move_request project u (rq_state u) True)
       (\<lambda>_. conclude c env project event u rid t dec note) d = (Inr res, e)"
    and "dr_request res = u" and "decided c project r u event' d e"
proof -
  let ?k = "request_key project (rq_state r) (rq_request_id r)"
  let ?n = "request_key project (rq_state u) (rq_request_id r)"
  have proj: "plain_path project" using inv by (simp add: queue_inv_def)
  have plain: "plain_path ?k" "plain_path ?n" "plain_path (audit_path project)"
    using plain_request_key [OF proj] old new proj by (simp_all add: audit_path_def)
  note apart = audit_not_key [OF old(2)] audit_not_key [OF new(3)]
  obtain e where e: "move_request project u (rq_state u) True d = (Inr ?n, e)" "queue_inv c project e"
    "load_request c e ?n = Inr u" "fs_file e ?k = None" "only_changes {?k, ?n} d e"
    using move_request_ok [OF inv old new(1,2) _ new(3,4,5)] by blast
  obtain res f event' where f: "conclude c env project event u rid t dec note e = (Inr res, f)"
    "dr_request res = u" "queue_inv c project f"
    "fs_file f (audit_path project)
      = Some (append_line c (audit_event_to_dict event') (fs_file e (audit_path project)))"
    "\<exists>i. event' = event\<lparr>qe_event_id := i\<rparr>" "only_changes {audit_path project} e f"
    by (rule conclude_ok [OF e(2)])
  have "load_request c f ?n = Inr u"
    using load_kept [OF e(3) f(6) plain(2)] apart by (metis singletonD)
  moreover have "fs_file f ?k = None"
    using f(6) e(4) plain(1) apart unfolding only_changes_def by (metis singletonD)
  moreover have "fs_file e (audit_path project) = fs_file d (audit_path project)"
    using e(5) plain(3) apart unfolding only_changes_def by (metis insertE singletonD)
  moreover have "others_kept project d f (rq_request_id r)"
    by (rule others_kept_changes [OF only_changes_trans [OF e(5) f(6) subset_refl] proj])
      (auto simp: audit_not_request)
  ultimately have "decided c project r u event' d f"
    using f ev by (auto simp: decided_def)
  with e(1) f(1,2) that show thesis by (simp add: pbind_Inr)
qed

text \<open>The copy a decision makes of the request.\<close>

lemma approved_copy:
  assumes "wf_request r"
  shows "request_with r
     [(''prior_state'', PStr p), (''state'', PStr s), (''updated_at'', PStr t), (''next_action'', PStr n),
      (''classification'', PStr k)]
   = Inr (r\<lparr>rq_prior_state := p, rq_state := s, rq_updated_at := t, rq_next_action := n,
             rq_classification := k\<rparr>)"
  using assms by (simp add: request_with_simps wf_request_def)

lemma transition_facts:
  assumes "validate_transition s t = Inr ()"
  shows "s \<in> set QUEUE_STATES \<and> t \<in> set QUEUE_STATES \<and> s \<noteq> t"
  using assms queue_table_closed [of s] by (auto simp: validate_transition_ok)

lemma decided_from:
  assumes "decided c project r u event d e" and "fs_files d = fs_files b"
  shows "decided c project r u event b e"
proof -
  from assms(1) have "plain_path (audit_path project)"
    by (simp add: decided_def queue_inv_def audit_path_def)
  moreover from this have "plain_path project" by (simp add: audit_path_def)
  ultimately show ?thesis
    using assms plain_request_key by (simp add: decided_def others_kept_def)
qed

text \<open>
  The common part of rejecting, cancelling and failing: whatever the update, the event and
  the new state are.
\<close>

definition simple_decision ::
    "codecs \<Rightarrow> call_env \<Rightarrow> path \<Rightarrow> string \<Rightarrow> string \<Rightarrow> string \<Rightarrow> string \<Rightarrow> pydict \<Rightarrow> string
     \<Rightarrow> cloud_queue_request \<Rightarrow> (disk, decision_result) prog" where
  "simple_decision c env project request_id event_type new_state next_action details note request =
     pbind (plift (validate_transition (rq_state request) new_state)) (\<lambda>_.
     pbind (plift (request_with request
       [(''prior_state'', PStr (rq_state request)), (''state'', PStr new_state),
        (''updated_at'', PStr (ce_now env 0)), (''next_action'', PStr next_action)])) (\<lambda>updated.
     pbind (move_request project updated new_state True) (\<lambda>_.
     conclude c env project
       (decision_event event_type request_id request new_state (ce_now env 1) details)
       updated request_id new_state new_state note)))"

lemma move_request_returns: "\<exists>q e. move_request project u t True d = (Inr q, e)"
  by (simp add: move_request_def Let_def)

lemma conclude_returns: "\<exists>res e. conclude c env project ev u rid t dec note d = (Inr res, e)"
  by (simp add: conclude_def append_audit_event_def Let_def pbind_def)

lemma record_approval_returns: "\<exists>a e. record_approval project u k b note at d = (Inr a, e)"
  by (simp add: record_approval_def Let_def)

lemma simple_decision_refused:
  assumes "simple_decision c env project request_id et t na details note r d = (Inl err, e)"
  shows "e = d"
proof (cases "validate_transition (rq_state r) t")
  case (Inr u)
  show ?thesis
  proof (cases "request_with r [(''prior_state'', PStr (rq_state r)), (''state'', PStr t),
      (''updated_at'', PStr (ce_now env 0)), (''next_action'', PStr na)]")
    case (Inr v)
    obtain q d' where "move_request project v t True d = (Inr q, d')"
      using move_request_returns by blast
    moreover obtain res e' where "conclude c env project
        (decision_event et request_id r t (ce_now env 1) details) v request_id t t note d' = (Inr res, e')"
      using conclude_returns by blast
    ultimately show ?thesis
      using assms Inr \<open>validate_transition (rq_state r) t = Inr u\<close>
      by (simp add: simple_decision_def pbind_Inr)
  qed (use assms Inr in \<open>simp add: simple_decision_def\<close>)
qed (use assms in \<open>simp add: simple_decision_def\<close>)

lemma simple_decision_ok:
  assumes inv: "queue_inv c project d"
    and old: "load_request c d (request_key project (rq_state r) (rq_request_id r)) = Inr r"
      "rq_request_id r \<in> request_ids" "wf_request r"
    and run: "simple_decision c env project request_id et t na details note r d = (Inr res, e)"
  shows "validate_transition (rq_state r) t = Inr ()"
    and "dr_request res = r\<lparr>rq_prior_state := rq_state r, rq_state := t,
           rq_updated_at := ce_now env 0, rq_next_action := na\<rparr>"
    and "\<exists>event. decided c project r (dr_request res) event d e"
proof -
  let ?u = "r\<lparr>rq_prior_state := rq_state r, rq_state := t, rq_updated_at := ce_now env 0,
      rq_next_action := na\<rparr>"
  let ?ev = "decision_event et request_id r t (ce_now env 1) details"
  show valid: "validate_transition (rq_state r) t = Inr ()"
    using run by (auto simp: simple_decision_def)
  note facts = transition_facts [OF valid]
  have run': "pbind (move_request project ?u t True)
      (\<lambda>_. conclude c env project ?ev ?u request_id t t note) d = (Inr res, e)"
    using run valid by (simp add: simple_decision_def request_with_move [OF old(3)])
  obtain res' e' event where "pbind (move_request project ?u (rq_state ?u) True)
      (\<lambda>_. conclude c env project ?ev ?u request_id t t note) d = (Inr res', e')"
    "dr_request res' = ?u" "decided c project r ?u event d e'"
    by (rule move_and_conclude [OF inv old(1) _ old(2), of ?u ?ev env request_id t t "note"])
      (use facts old in \<open>simp_all add: wf_request_def decision_event_def\<close>)
  with run' show "dr_request res = ?u" "\<exists>event. decided c project r (dr_request res) event d e"
    by auto
qed

text \<open>A command that looks a request up: it is refused at once, or goes on with the request.\<close>

lemma located_run:
  assumes "queue_inv c project d" and "pbind (locate_request c project request_id) f d = (x, e)"
  obtains (refused) err where "x = Inl err" and "fs_files e = fs_files d"
  | (found) r p d' where "f (r, p) d' = (x, e)" and "fs_files d' = fs_files d"
    and "queue_inv c project d'" and "normalize_request_id request_id = Inr (rq_request_id r)"
    and "load_request c d' (request_key project (rq_state r) (rq_request_id r)) = Inr r"
    and "rq_request_id r \<in> request_ids" and "wf_request r" and "rq_state r \<in> set QUEUE_STATES"
  using assms(2)
proof (cases rule: pbind_cases)
  case (err e')
  then show thesis using locate_files refused by blast
next
  case (ok rp d')
  then obtain r p where rp: "rp = (r, p)" by fastforce
  with ok locate_ok [OF assms(1), of request_id r p d'] locate_files [OF ok(1)] found show thesis
    by auto
qed

lemma reject_unfold:
  "reject_cloud_queue_request c env project request_id note =
     pbind (locate_request c project request_id) (\<lambda>(r, _).
     if rq_state r \<in> {''approved'', ''rejected'', ''canceled'', ''failed''}
     then plift (value_error (''Request is already terminal: '' @ rq_state r))
     else simple_decision c env project request_id ''reject'' ''rejected'' ''Rejected by operator.''
       [(''rejection_reason'', PStr note)] note r)"
  by (simp only: reject_cloud_queue_request_def simple_decision_def)

lemma cancel_unfold:
  "cancel_cloud_queue_request c env project request_id reason =
     pbind (locate_request c project request_id) (\<lambda>(r, _).
     pbind (plift (is_terminal_state (rq_state r))) (\<lambda>terminal.
     if terminal then plift (value_error (''Request is already terminal: '' @ rq_state r))
     else simple_decision c env project request_id ''cancel'' ''canceled'' ''Canceled by operator.''
       [(''reason'', PStr reason)] reason r))"
  by (simp only: cancel_cloud_queue_request_def simple_decision_def)

lemma fail_unfold:
  "fail_cloud_queue_request c env project request_id reason =
     pbind (locate_request c project request_id) (\<lambda>(r, _).
     pbind (plift (is_terminal_state (rq_state r))) (\<lambda>terminal.
     if terminal then plift (value_error (''Request is already terminal: '' @ rq_state r))
     else simple_decision c env project request_id ''failure'' ''failed'' reason
       [(''reason'', PStr reason)] reason r))"
  by (simp only: fail_cloud_queue_request_def simple_decision_def)

subsection \<open>Each decision\<close>

text \<open>
  \<open>decision_made\<close>: the command found the request \<open>r\<close>, the table allows the move to \<open>t\<close>, and the
  disk holds the updated request, one new audit line and no file for the old state.
\<close>

definition decision_made ::
    "codecs \<Rightarrow> path \<Rightarrow> string \<Rightarrow> string \<Rightarrow> cloud_queue_request \<Rightarrow> decision_result \<Rightarrow> disk \<Rightarrow> disk \<Rightarrow> bool" where
  "decision_made c project request_id t r res d e \<longleftrightarrow>
     normalize_request_id request_id = Inr (rq_request_id r)
     \<and> load_request c d (request_key project (rq_state r) (rq_request_id r)) = Inr r
     \<and> validate_transition (rq_state r) t = Inr ()
     \<and> rq_state (dr_request res) = t \<and> rq_request_id (dr_request res) = rq_request_id r
     \<and> (\<exists>event. decided c project r (dr_request res) event d e)"

lemma load_same_files:
  "plain_path p \<Longrightarrow> fs_files d = fs_files e \<Longrightarrow> load_request c d p = load_request c e p"
  by (intro load_request_cong) simp

lemma key_plain_inv:
  "queue_inv c project d \<Longrightarrow> s \<in> set QUEUE_STATES \<Longrightarrow> i \<in> request_ids \<Longrightarrow>
   plain_path (request_key project s i)"
  using plain_request_key by (simp add: queue_inv_def)

lemma simple_decision_made:
  assumes "queue_inv c project d" and "fs_files d' = fs_files d" and "queue_inv c project d'"
    and "normalize_request_id request_id = Inr (rq_request_id r)"
    and "load_request c d' (request_key project (rq_state r) (rq_request_id r)) = Inr r"
    and "rq_request_id r \<in> request_ids" and "wf_request r" and "rq_state r \<in> set QUEUE_STATES"
    and run: "simple_decision c env project request_id et t na details note r d' = (x, e)"
  shows "(\<exists>err. x = Inl err \<and> fs_files e = fs_files d)
    \<or> (\<exists>res. x = Inr res \<and> decision_made c project request_id t r res d e)"
proof (cases x)
  case (Inl err)
  with simple_decision_refused run assms(2) show ?thesis by metis
next
  case (Inr res)
  note ok = simple_decision_ok [OF assms(3,5,6,7) run [unfolded Inr]]
  have "load_request c d (request_key project (rq_state r) (rq_request_id r)) = Inr r"
    using assms(2,5) load_same_files [OF key_plain_inv [OF assms(1,8,6)]] by metis
  moreover obtain event where "decided c project r (dr_request res) event d e"
    using ok(3) decided_from assms(2) by blast
  ultimately show ?thesis using ok Inr assms(4) by (auto simp: decision_made_def)
qed

lemma decision_outcome:
  assumes inv: "queue_inv c project d"
    and run: "pbind (locate_request c project request_id) f d = (x, e)"
    and f: "\<And>r p d' x. f (r, p) d' = (x, e) \<Longrightarrow> (\<exists>err. x = Inl err \<and> e = d') \<or>
      (\<exists>et na details note. simple_decision c env project request_id et t na details note r d' = (x, e))"
  shows "(\<exists>err. x = Inl err \<and> fs_files e = fs_files d)
    \<or> (\<exists>r res. x = Inr res \<and> decision_made c project request_id t r res d e)"
  using inv run
proof (cases rule: located_run)
  case refused
  then show ?thesis by blast
next
  case (found r p d')
  from f [OF found(1)] show ?thesis
    using found(2) simple_decision_made [OF inv found(2-8)] by blast
qed

lemma reject_outcome:
  assumes "queue_inv c project d"
    and "reject_cloud_queue_request c env project request_id note d = (x, e)"
  shows "(\<exists>err. x = Inl err \<and> fs_files e = fs_files d)
    \<or> (\<exists>r res. x = Inr res \<and> decision_made c project request_id ''rejected'' r res d e)"
  by (rule decision_outcome [OF assms(1) assms(2) [unfolded reject_unfold], where env = env])
    (auto simp: res_simps split: if_splits)

lemma cancel_outcome:
  assumes "queue_inv c project d"
    and "cancel_cloud_queue_request c env project request_id note d = (x, e)"
  shows "(\<exists>err. x = Inl err \<and> fs_files e = fs_files d)
    \<or> (\<exists>r res. x = Inr res \<and> decision_made c project request_id ''canceled'' r res d e)"
  by (rule decision_outcome [OF assms(1) assms(2) [unfolded cancel_unfold], where env = env])
    (auto simp: res_simps pbind_def split: if_splits sum.splits)

lemma fail_outcome:
  assumes "queue_inv c project d"
    and "fail_cloud_queue_request c env project request_id note d = (x, e)"
  shows "(\<exists>err. x = Inl err \<and> fs_files e = fs_files d)
    \<or> (\<exists>r res. x = Inr res \<and> decision_made c project request_id ''failed'' r res d e)"
  by (rule decision_outcome [OF assms(1) assms(2) [unfolded fail_unfold], where env = env])
    (auto simp: res_simps pbind_def split: if_splits sum.splits)

text \<open>
  Approving: the checksum the operator gives, if any, is the one recorded with the request,
  if any. The request's own checksum is recorded when the operator gives none.
\<close>

definition bound_checksum :: "cloud_queue_request \<Rightarrow> string" where
  "bound_checksum r = str_or (rq_approval_checksum r) (rq_normalized_response_checksum r)"

definition checksum_agrees :: "cloud_queue_request \<Rightarrow> string option \<Rightarrow> bool" where
  "checksum_agrees r v \<longleftrightarrow> v = None \<or> v = Some [] \<or> bound_checksum r = [] \<or> v = Some (bound_checksum r)"

lemma approve_outcome:
  assumes inv: "queue_inv c project d"
    and run: "approve_cloud_queue_request c env project request_id v note d = (x, e)"
  shows "(\<exists>err. x = Inl err \<and> fs_files e = fs_files d)
    \<or> (\<exists>r res. x = Inr res \<and> decision_made c project request_id ''approved'' r res d e
         \<and> rq_state r = ''approval_required'' \<and> checksum_agrees r v)"
  using inv run [unfolded approve_cloud_queue_request_def]
proof (cases rule: located_run)
  case refused
  then show ?thesis by blast
next
  case (found r p d')
  let ?u = "r\<lparr>rq_prior_state := rq_state r, rq_state := ''approved'', rq_updated_at := ce_now env 0,
      rq_next_action := ''Approved response is recorded but not applied automatically.'',
      rq_classification := CLASSIFIED_SAFE\<rparr>"
  let ?actual = "case v of Some w \<Rightarrow> str_or w (bound_checksum r) | None \<Rightarrow> bound_checksum r"
  let ?sum = "str_or ?actual (bound_checksum r)"
  let ?ev = "decision_event ''approve'' request_id r ''approved'' (ce_now env 2)
         [(''normalized_response_checksum'', PStr ?sum), (''operator_note'', PStr note)]"
  show ?thesis
  proof (cases "rq_state r = APPROVAL_REQUIRED
      \<and> \<not> (bound_checksum r \<noteq> [] \<and> ?actual \<noteq> [] \<and> bound_checksum r \<noteq> ?actual)")
    case False
    with found(1,2) show ?thesis
      by (auto simp: Let_def bound_checksum_def [symmetric] res_simps split: if_splits)
  next
    case True
    have valid: "validate_transition (rq_state r) ''approved'' = Inr ()"
      using True by (simp add: validate_transition_ok APPROVAL_REQUIRED_def QUEUE_STATES_def)
    note tf = transition_facts [OF valid]
    have agrees: "checksum_agrees r v"
      using True by (auto simp: checksum_agrees_def str_or_def split: option.splits if_splits)
    from found(1) True valid have run': "pbind (move_request project ?u ''approved'' True) (\<lambda>_.
        pbind (record_approval project ?u ?sum True note (ce_now env 1)) (\<lambda>_.
        conclude c env project ?ev ?u request_id ''approved'' ''approved'' note)) d' = (x, e)"
      by (simp add: Let_def bound_checksum_def [symmetric] approved_copy [OF found(7)])
    let ?k = "request_key project (rq_state r) (rq_request_id r)"
    let ?n = "request_key project ''approved'' (rq_request_id r)"
    let ?a = "queue_root project @ [''approvals'', rq_request_id r @ ''.yaml'']"
    obtain d1 where d1: "move_request project ?u ''approved'' True d' = (Inr ?n, d1)"
      "queue_inv c project d1" "load_request c d1 ?n = Inr ?u" "fs_file d1 ?k = None"
      "only_changes {?k, ?n} d' d1"
      by (rule move_request_ok [OF found(3,5,8,6), of ?u "''approved''"])
        (use found tf in \<open>simp_all add: wf_request_def\<close>)
    obtain a d2 where d2: "record_approval project ?u ?sum True note (ce_now env 1) d1 = (Inr a, d2)"
      "queue_inv c project d2" "only_changes {?a} d1 d2"
      by (rule record_approval_ok [OF d1(2), of ?u ?sum True "note" "ce_now env 1"])
        (use found(6) in simp_all)
    obtain res d3 event' where d3: "conclude c env project ?ev ?u request_id ''approved'' ''approved'' note d2 = (Inr res, d3)"
      "dr_request res = ?u" "queue_inv c project d3"
      "fs_file d3 (audit_path project)
        = Some (append_line c (audit_event_to_dict event') (fs_file d2 (audit_path project)))"
      "\<exists>i. event' = ?ev\<lparr>qe_event_id := i\<rparr>" "only_changes {audit_path project} d2 d3"
      by (rule conclude_ok [OF d2(2)])
    from run' d1(1) d2(1) d3(1) have x: "x = Inr res" "e = d3" by (simp_all add: pbind_Inr)
    have apart: "?a \<noteq> ?n" "?a \<noteq> ?k" "?a \<noteq> audit_path project"
      by (simp_all add: request_key_def audit_path_def)
    note apart' = audit_not_key [of "rq_state r" project] audit_not_key [of "''approved''" project]
    have plain: "plain_path ?k" "plain_path ?n" "plain_path (audit_path project)"
      using key_plain_inv [OF inv] found tf inv by (simp_all add: audit_path_def queue_inv_def)
    have changes: "only_changes {?a, audit_path project} d1 d3"
      by (rule only_changes_trans [OF d2(3) d3(6)]) simp
    have "load_request c d3 ?n = Inr ?u"
      by (rule load_kept [OF d1(3) changes plain(2)]) (use apart(1) apart'(2) [THEN not_sym] tf in simp)
    moreover have "fs_file d3 ?k = None"
      using changes d1(4) plain(1) apart apart' tf unfolding only_changes_def
      by (metis insertE singletonD)
    moreover have "fs_file d2 (audit_path project) = fs_file d' (audit_path project)"
      using d2(3) d1(5) plain(3) apart apart' tf unfolding only_changes_def
      by (metis insertE singletonD)
    moreover have "others_kept project d' d3 (rq_request_id r)"
      by (rule others_kept_changes [OF only_changes_trans [OF d1(5) changes subset_refl]])
        (use inv in \<open>auto simp: queue_inv_def audit_path_def request_area_def\<close>)
    ultimately have "decided c project r ?u event' d' d3"
      using d3 by (auto simp: decided_def decision_event_def)
    then have "decided c project r (dr_request res) event' d e"
      using decided_from [OF _ found(2)] d3(2) x(2) by simp
    moreover have "load_request c d ?k = Inr r"
      using found(2,5) load_same_files [OF plain(1)] by metis
    ultimately have "decision_made c project request_id ''approved'' r res d e"
      using found(4) valid d3(2) by (auto simp: decision_made_def)
    then show ?thesis using x True agrees by (auto simp: APPROVAL_REQUIRED_def)
  qed
qed

subsection \<open>Creating, under the invariant\<close>

text \<open>No state directory has a file for the identifier.\<close>

definition fresh_id :: "path \<Rightarrow> disk \<Rightarrow> string \<Rightarrow> bool" where
  "fresh_id project d i \<longleftrightarrow> (\<forall>s \<in> set QUEUE_STATES. fs_file d (request_key project s i) = None)"

lemma save_request_run:
  assumes "rq_state r \<in> set QUEUE_STATES" and "rq_request_id r \<in> request_ids"
  shows "save_request project r allow d =
    (let k = request_key project (rq_state r) (rq_request_id r);
         d' = fs_mkdir (butlast k) (ensure_cloud_queue_dirs project d)
     in if fs_exists d' k \<and> \<not> allow
        then (value_error (''Request already exists: '' @ path_text k), d')
        else (Inr k, fs_write k (Doc (PDict (request_to_dict r))) d'))"
  using assms by (simp add: save_request_def Let_def request_paths_key)

lemma audit_ids_copy:
  "wf_request r \<Longrightarrow> request_with r [(''audit_event_ids'', pstrs xs)] = Inr (r\<lparr>rq_audit_event_ids := xs\<rparr>)"
  by (simp add: request_with_simps wf_request_def)

text \<open>The part of \<open>create_cloud_queue_request\<close> after the arguments are checked.\<close>

lemma create_tail:
  assumes inv: "queue_inv c project d" and d': "fs_files d' = fs_files d" "queue_inv c project d'"
    and r: "rq_state r = ''ready''" "rq_request_id r \<in> request_ids" "wf_request r"
    and run: "pbind (save_request project r False) (\<lambda>_.
      pbind (append_audit_event c project event None 0) (\<lambda>_.
      pbind (plift (request_with r [(''audit_event_ids'', pstrs ids)])) (\<lambda>r'.
      pbind (save_request project r' True) (\<lambda>_. pret (f r'))))) d' = (x, e)"
  shows "(\<exists>err. x = Inl err \<and> fs_files e = fs_files d
        \<and> fs_exists (fs_mkdir (butlast (request_key project ''ready'' (rq_request_id r)))
            (ensure_cloud_queue_dirs project d')) (request_key project ''ready'' (rq_request_id r)))
    \<or> (x = Inr (f (r\<lparr>rq_audit_event_ids := ids\<rparr>))
       \<and> fs_file d (request_key project ''ready'' (rq_request_id r)) = None
       \<and> load_request c e (request_key project ''ready'' (rq_request_id r))
           = Inr (r\<lparr>rq_audit_event_ids := ids\<rparr>)
       \<and> others_kept project d e (rq_request_id r)
       \<and> (\<forall>s \<in> set QUEUE_STATES. s \<noteq> ''ready'' \<longrightarrow>
            fs_file e (request_key project s (rq_request_id r)) = fs_file d (request_key project s (rq_request_id r)))
       \<and> (fresh_id project d (rq_request_id r) \<longrightarrow> queue_inv c project e))"
proof -
  let ?k = "request_key project ''ready'' (rq_request_id r)"
  let ?v = "Doc (PDict (request_to_dict r))"
  let ?r = "r\<lparr>rq_audit_event_ids := ids\<rparr>"
  let ?d1 = "fs_mkdir (butlast ?k) (ensure_cloud_queue_dirs project d')"
  let ?d2 = "fs_write ?k ?v ?d1"
  have ready: "''ready'' \<in> set QUEUE_STATES" by (simp add: QUEUE_STATES_def)
  have plain: "plain_path ?k" "plain_path project" "plain_path (audit_path project)"
    using key_plain_inv [OF inv ready r(2)] inv by (simp_all add: queue_inv_def audit_path_def)
  have save: "save_request project r False d' =
      (if fs_exists ?d1 ?k then (value_error (''Request already exists: '' @ path_text ?k), ?d1)
       else (Inr ?k, ?d2))"
    using save_request_run [of r project False d'] ready r by (simp add: Let_def)
  show ?thesis
  proof (cases "fs_exists ?d1 ?k")
    case True
    with run save d'(1) show ?thesis by (auto simp: pbind_def res_simps)
  next
    case False
    then have none: "fs_file d ?k = None"
      using d'(1) plain by (simp add: fs_exists_def)
    let ?line = "append_line c (audit_event_to_dict (event\<lparr>qe_event_id := event_id_for c event None 0\<rparr>))
        (fs_file ?d2 (audit_path project))"
    let ?d3 = "fs_write (audit_path project) ?line
        (fs_mkdir (queue_root project) (ensure_cloud_queue_dirs project ?d2))"
    have audit: "append_audit_event c project event None 0 ?d2 = (Inr (audit_path project), ?d3)"
      using plain by (simp add: append_audit_event_def Let_def audit_path_def)
    let ?d4 = "fs_mkdir (butlast ?k) (ensure_cloud_queue_dirs project ?d3)"
    let ?e = "fs_write ?k (Doc (PDict (request_to_dict ?r))) ?d4"
    have "save_request project ?r True ?d3 = (Inr ?k, ?e)"
      using save_request_run [of ?r project True] ready r by (simp add: Let_def)
    with run save False audit r(3) have x: "x = Inr (f ?r)" "e = ?e"
      by (simp_all add: pbind_Inr audit_ids_copy)
    have load: "load_request c ?e ?k = Inr ?r"
      using load_written [OF plain(1)] r(3) by (simp add: wf_request_def)
    have "queue_inv c project ?e" if fresh: "fresh_id project d (rq_request_id r)"
    proof -
      have inv1: "queue_inv c project ?d1" using inv_mkdir [OF inv_ensure [OF d'(2)]] .
      have "queue_dirs.single project ?d2"
        by (rule queue_dirs.single_put_fresh)
          (use inv1 ready r plain fresh d'(1) key_plain_inv [OF inv _ r(2)] in
            \<open>auto simp: queue_inv_def states_of_def fresh_id_def\<close>)
      then have "queue_inv c project ?d2"
        using inv_put [OF inv1, of r] r ready by simp
      then have inv3: "queue_inv c project ?d3"
        using inv_write_other [OF inv_mkdir [OF inv_ensure] plain(3) audit_not_request] by blast
      then have inv4: "queue_inv c project ?d4" using inv_mkdir inv_ensure by blast
      have "audit_path project \<noteq> ?k" using audit_not_key [OF ready] .
      then have "queue_dirs.single project ?e"
        by (intro queue_dirs.single_put_same)
          (use inv4 ready r plain in \<open>auto simp: queue_inv_def states_of_def\<close>)
      then show ?thesis using inv_put [OF inv4, of ?r] r ready by (simp add: wf_request_def)
    qed
    moreover have "others_kept project d ?e (rq_request_id r)"
    proof (rule others_kept_changes)
      show "only_changes {?k, audit_path project} d ?e"
        using plain d'(1) by (simp add: only_changes_def)
    qed (use plain in \<open>auto simp: audit_not_request\<close>)
    moreover have "\<forall>s \<in> set QUEUE_STATES. s \<noteq> ''ready'' \<longrightarrow>
        fs_file ?e (request_key project s (rq_request_id r)) = fs_file d (request_key project s (rq_request_id r))"
      using plain d'(1) key_plain_inv [OF inv _ r(2)] audit_not_key
      by (simp add: request_key_def audit_path_def)
    ultimately show ?thesis using x none load by blast
  qed
qed

lemma create_outcome:
  assumes inv: "queue_inv c project d"
    and run: "create_cloud_queue_request c env project story title details blocker_type requirements
       writable_paths dependencies context_files notes task revision id_factory batch_factory d = (x, e)"
  shows "(\<exists>err. x = Inl err \<and> fs_files e = fs_files d)
    \<or> (\<exists>res i. x = Inr res \<and> rq_request_id (cq_request res) = i \<and> rq_state (cq_request res) = ''ready''
        \<and> fs_file d (request_key project ''ready'' i) = None
        \<and> load_request c e (request_key project ''ready'' i) = Inr (cq_request res)
        \<and> (case id_factory of Some raw \<Rightarrow> normalize_request_id raw = Inr i | None \<Rightarrow> True)
        \<and> others_kept project d e i
        \<and> (fresh_id project d i \<longrightarrow> queue_inv c project e))"
proof -
  let ?id = "case id_factory of Some i \<Rightarrow> pret i | None \<Rightarrow> generate_request_id c project (ce_now env 0)"
  let ?d0 = "ensure_cloud_queue_dirs project d"
  obtain y d' where id: "?id ?d0 = (y, d')" by fastforce
  have raw: "id_factory = Some i \<Longrightarrow> y = Inr i" for i using id by simp
  have d': "fs_files d' = fs_files d" "queue_inv c project d'"
    using id inv_ensure [OF inv] inv_ensure [OF inv_ensure [OF inv]]
    by (auto simp: generate_request_id_def load_requests_def pbind_def split: option.splits sum.splits)
  show ?thesis
  proof (cases "\<exists>raw i w ds cs. y = Inr raw \<and> normalize_request_id raw = Inr i
      \<and> normalize_writable_paths writable_paths = Inr w
      \<and> rmap_list normalize_request_id dependencies = Inr ds
      \<and> rmap_list normalize_relative_path context_files = Inr cs")
    case False
    have "(\<exists>err. x = Inl err) \<and> e = d'"
    proof (cases y)
      case (Inr raw)
      with False id run show ?thesis
        by (cases "normalize_request_id raw"; cases "normalize_writable_paths writable_paths";
            cases "rmap_list normalize_request_id dependencies";
            cases "rmap_list normalize_relative_path context_files")
          (auto simp: create_cloud_queue_request_def Let_def pbind_Inr)
    qed (use id run in \<open>auto simp: create_cloud_queue_request_def pbind_Inl\<close>)
    with d' show ?thesis by blast
  next
    case True
    then obtain raw i w ds cs where ok: "y = Inr raw" "normalize_request_id raw = Inr i"
      "normalize_writable_paths writable_paths = Inr w"
      "rmap_list normalize_request_id dependencies = Inr ds"
      "rmap_list normalize_relative_path context_files = Inr cs" by blast
    have i: "i \<in> request_ids" using normalize_request_id_idem [OF ok(2)] by (simp add: request_ids_def)
    note tail = create_tail [OF inv d']
    from run ok id have run': "\<exists>r ev ids. rq_state r = ''ready'' \<and> rq_request_id r = i \<and> wf_request r
      \<and> pbind (save_request project r False) (\<lambda>_.
        pbind (append_audit_event c project ev None 0) (\<lambda>_.
        pbind (plift (request_with r [(''audit_event_ids'', pstrs ids)])) (\<lambda>r'.
        pbind (save_request project r' True) (\<lambda>_. pret \<lparr>cq_request = r',
           cq_request_path = request_state_path project (rq_request_id r') (rq_state r'),
           cq_created_at = rq_created_at r', cq_audit_event_id = hd ids\<rparr>)))) d' = (x, e)"
      by (simp add: create_cloud_queue_request_def Let_def pbind_Inr)
        (rule exI, rule conjI [rotated], rule conjI [rotated], rule conjI [rotated], rule exI,
         rule exI [of _ "[_]"], simp, simp_all add: wf_request_def)
    then obtain r ev ids where r: "rq_state r = ''ready''" "rq_request_id r = i" "wf_request r" and
      run'': "pbind (save_request project r False) (\<lambda>_.
        pbind (append_audit_event c project ev None 0) (\<lambda>_.
        pbind (plift (request_with r [(''audit_event_ids'', pstrs ids)])) (\<lambda>r'.
        pbind (save_request project r' True) (\<lambda>_. pret \<lparr>cq_request = r',
           cq_request_path = request_state_path project (rq_request_id r') (rq_state r'),
           cq_created_at = rq_created_at r', cq_audit_event_id = hd ids\<rparr>)))) d' = (x, e)"
      by blast
    from tail [OF r(1) _ r(3) run''] i r ok raw show ?thesis
      by (auto split: option.splits)
  qed
qed

subsection \<open>When the commands succeed\<close>

text \<open>All request files can be read: otherwise every command fails.\<close>

definition readable :: "codecs \<Rightarrow> path \<Rightarrow> disk \<Rightarrow> bool" where
  "readable c project d \<longleftrightarrow> is_ok (fst (load_requests c project d))"

lemma present_file:
  assumes "load_request c d (request_key project s i) = Inr r" and "plain_path (request_key project s i)"
  shows "request_key project s i \<in> set (request_files project d)"
proof -
  let ?R = "queue_root project @ [''requests'']"
  obtain v where v: "map_of (fs_files d) (?R @ s # (i @ ''.yaml'') # []) = Some v"
    using load_request_file [OF assms(1)] assms(2) by (auto simp: request_key_def)
  have "s \<in> set (child_dirs d ?R)" using child_dirs_file [OF v] .
  moreover have "i @ ''.yaml'' \<in> set (child_files d (?R @ [s]))"
    using v by (simp add: child_files_iff)
  ultimately show ?thesis
    by (auto simp: request_files_def Let_def request_key_def intro!: bexI [of _ s] image_eqI [of _ _ "i @ ''.yaml''"])
qed

lemma single_file:
  assumes "queue_inv c project d" and "s \<in> set QUEUE_STATES" "t \<in> set QUEUE_STATES" and "i \<in> request_ids"
    and "load_request c d (request_key project s i) = Inr q"
    and "load_request c d (request_key project t i) = Inr r"
  shows "s = t"
proof -
  obtain v w where "fs_file d (request_key project s i) = Some v" "fs_file d (request_key project t i) = Some w"
    using load_request_file [OF assms(5)] load_request_file [OF assms(6)] by blast
  moreover have "queue_dirs.single project d" using assms(1) unfolding queue_inv_def by blast
  moreover have "s \<in> states_of project" "t \<in> states_of project"
    using assms(1-3) by (simp_all add: queue_inv_def states_of_def)
  ultimately show ?thesis using queue_dirs.singleD [of project d s t i v w] assms(4) by blast
qed

lemma locate_complete:
  assumes inv: "queue_inv c project d" and ok: "readable c project d"
    and r: "load_request c d (request_key project (rq_state r) (rq_request_id r)) = Inr r"
      "rq_state r \<in> set QUEUE_STATES" "normalize_request_id request_id = Inr (rq_request_id r)"
  shows "\<exists>e. locate_request c project request_id d
      = (Inr (r, request_key project (rq_state r) (rq_request_id r)), e)"
proof -
  let ?k = "request_key project (rq_state r) (rq_request_id r)"
  obtain rs e where load: "load_requests c project d = (Inr rs, e)"
    using ok unfolding readable_def is_ok_iff by (metis prod.collapse)
  then have e: "e = ensure_cloud_queue_dirs project d" by (auto simp: load_requests_def)
  have i: "rq_request_id r \<in> request_ids"
    using normalize_request_id_idem [OF r(3)] by (simp add: request_ids_def)
  have k: "plain_path ?k" by (rule key_plain_inv [OF inv r(2) i])
  have "fs_files e = fs_files d" using e by simp
  then have r': "load_request c e ?k = Inr r" by (rule load_same_files [OF k, THEN trans, OF _ r(1)])
  have "?k \<in> set (request_files project e)" by (rule present_file [OF r' k])
  moreover have loaded: "rmap_list (\<lambda>p. rbind (load_request c e p) (\<lambda>r. Inr (p, r))) (request_files project e) = Inr rs"
    using load e by (simp add: load_requests_def)
  moreover have "rbind (load_request c e ?k) (\<lambda>r. Inr (?k, r)) = Inr (?k, r)" using r' by simp
  ultimately have mem: "(?k, r) \<in> set rs"
    unfolding rmap_list_set [OF loaded] by blast
  then have "find (\<lambda>(p, q). rq_request_id q = rq_request_id r) rs \<noteq> None"
    by (auto simp: find_None_iff)
  then obtain p q where found: "find (\<lambda>(p, q). rq_request_id q = rq_request_id r) rs = Some (p, q)" by auto
  from find_Some_iff' [OF found] have q: "(p, q) \<in> set rs" "rq_request_id q = rq_request_id r" by auto
  note at = loaded_request [OF inv load q(1)]
  have lq: "load_request c d (request_key project (rq_state q) (rq_request_id r)) = Inr q"
    using at q(2) by auto
  moreover have "rq_state q = rq_state r"
    by (rule single_file [OF inv _ r(2) i lq r(1)]) (use at in simp)
  ultimately have "q = r" using r(1) by simp
  moreover have "p = ?k" using at q(2) \<open>q = r\<close> by auto
  ultimately show ?thesis
    using r(3) load found by (simp add: locate_request_def pbind_Inr)
qed

lemma simple_decision_returns:
  assumes "validate_transition (rq_state r) t = Inr ()" and "wf_request r"
  shows "\<exists>res e. simple_decision c env project request_id et t na details note r d = (Inr res, e)"
proof -
  let ?u = "r\<lparr>rq_prior_state := rq_state r, rq_state := t, rq_updated_at := ce_now env 0,
      rq_next_action := na\<rparr>"
  obtain q d' where "move_request project ?u t True d = (Inr q, d')"
    using move_request_returns by blast
  moreover obtain res e where "conclude c env project
      (decision_event et request_id r t (ce_now env 1) details) ?u request_id t t note d' = (Inr res, e)"
    using conclude_returns by blast
  ultimately show ?thesis
    using assms by (simp add: simple_decision_def request_with_move pbind_Inr)
qed

text \<open>A request that is on disk, and that a command names.\<close>

definition names_request :: "codecs \<Rightarrow> path \<Rightarrow> disk \<Rightarrow> string \<Rightarrow> cloud_queue_request \<Rightarrow> bool" where
  "names_request c project d request_id r \<longleftrightarrow>
     normalize_request_id request_id = Inr (rq_request_id r) \<and> rq_state r \<in> set QUEUE_STATES
     \<and> load_request c d (request_key project (rq_state r) (rq_request_id r)) = Inr r"

lemma named_located:
  assumes "queue_inv c project d" and "readable c project d" and "names_request c project d request_id r"
  obtains e where "locate_request c project request_id d
      = (Inr (r, request_key project (rq_state r) (rq_request_id r)), e)" and "wf_request r"
proof -
  obtain e where "locate_request c project request_id d
      = (Inr (r, request_key project (rq_state r) (rq_request_id r)), e)"
    using locate_complete [OF assms(1,2)] assms(3) unfolding names_request_def by blast
  moreover from locate_ok [OF assms(1) this] have "wf_request r" by simp
  ultimately show thesis using that by blast
qed

lemma named_unique:
  assumes "queue_inv c project d" and "names_request c project d request_id r"
    and "normalize_request_id request_id = Inr (rq_request_id q)"
    and "load_request c d (request_key project (rq_state q) (rq_request_id q)) = Inr q"
    and "rq_state q \<in> set QUEUE_STATES"
  shows "q = r"
proof -
  have id: "rq_request_id q = rq_request_id r" using assms(2,3) by (simp add: names_request_def)
  have "rq_request_id r \<in> request_ids"
    using normalize_request_id_idem [of request_id "rq_request_id r"] assms(2)
    by (simp add: names_request_def request_ids_def)
  moreover have "load_request c d (request_key project (rq_state q) (rq_request_id r)) = Inr q"
    using assms(4) id by simp
  ultimately have "rq_state q = rq_state r"
    using single_file [OF assms(1,5)] assms(2) unfolding names_request_def by blast
  then show ?thesis using assms(2,4) id by (simp add: names_request_def)
qed

end
