(* ===== verification/QueueImport.thy ===== *)
theory QueueImport
  imports QueueService
begin

text \<open>
  \<open>cloud_queue/importers.py\<close> and \<open>adapters.py\<close>: a response file, or an archive of them, is
  read, bound to its request, classified, and the request moves to the state the
  classification gives.

  The file to import is given by its resolved path, its bytes and, for an archive, its
  members with their bytes; a member whose checksum is wrong is not modelled.
\<close>

text \<open>\<open>Path(filename).name\<close> and \<open>request_id_from_filename\<close>\<close>

definition text_name :: "string \<Rightarrow> string" where
  "text_name s = path_name (posix_tail s)"

definition request_id_from_filename :: "string \<Rightarrow> string" where
  "request_id_from_filename filename =
     (let stem = name_stem (text_name filename)
      in if stem \<noteq> [] \<and> stem \<noteq> filename then stem else [])"

definition list_request_paths :: "path \<Rightarrow> string \<Rightarrow> (disk, path list) prog" where
  "list_request_paths project request_id =
     pbind (pmodify (ensure_cloud_queue_dirs project)) (\<lambda>_.
     pget (\<lambda>d. let root = qp_requests (queue_paths project)
       in filter (fs_exists d)
            (map (\<lambda>s. join_path (root @ [s]) (request_id @ ''.yaml'')) (child_dirs d root))))"

definition append_failed_import_audit ::
    "codecs \<Rightarrow> call_env \<Rightarrow> path \<Rightarrow> string \<Rightarrow> string \<Rightarrow> string \<Rightarrow> string \<Rightarrow> (disk, string) prog" where
  "append_failed_import_audit c env project request_id batch_id packet_checksum reason =
     (let event = \<lparr>qe_event_id = [], qe_event_type = ''failed_import'', qe_request_id = request_id,
           qe_batch_id = batch_id, qe_prior_state = ''imported'', qe_new_state = ''failed'',
           qe_packet_checksum = packet_checksum, qe_request_count = 1, qe_timestamp = ce_now env 4,
           qe_details = [(''reason'', PStr reason)]\<rparr>;
          event = event\<lparr>qe_event_id := event_id_for c event (ce_ids env) 2\<rparr> in
      pbind (append_audit_event c project event None 0) (\<lambda>_. pret (qe_event_id event)))"

subsection \<open>One response\<close>

definition final_state :: "comparison_result \<Rightarrow> string" where
  "final_state comparison =
     (if cr_classification comparison = CLASSIFIED_SAFE then VALIDATED_SAFE
      else if cr_classification comparison = APPROVAL_REQUIRED then APPROVAL_REQUIRED
      else VALIDATED_FAILED)"

text \<open>\<open>str(claims.get(k, own) or own)\<close>\<close>

definition claim_or :: "pydict \<Rightarrow> string \<Rightarrow> string \<Rightarrow> string" where
  "claim_or claims k own = py_str (py_or (dget_or claims k (PStr own)) (PStr own))"

definition import_event ::
    "string \<Rightarrow> string \<Rightarrow> string \<Rightarrow> string \<Rightarrow> string \<Rightarrow> string \<Rightarrow> string \<Rightarrow> pydict \<Rightarrow> cloud_queue_audit_event" where
  "import_event event_type request_id batch_id prior_state new_state packet_checksum now details =
     \<lparr>qe_event_id = [], qe_event_type = event_type, qe_request_id = request_id,
      qe_batch_id = batch_id, qe_prior_state = prior_state, qe_new_state = new_state,
      qe_packet_checksum = packet_checksum, qe_request_count = 1, qe_timestamp = now,
      qe_details = details\<rparr>"

definition import_single_response ::
    "codecs \<Rightarrow> call_env \<Rightarrow> path \<Rightarrow> pydict \<Rightarrow> string \<Rightarrow> string \<Rightarrow> string
     \<Rightarrow> (disk, cloud_queue_import_result) prog" where
  "import_single_response c env project response_data raw_text source_file source_name =
     pbind (plift (response_from_dict response_data (Some source_file))) (\<lambda>response.
     let request_id = str_or (rs_request_id response) (request_id_from_filename source_name) in
     if request_id = []
     then plift (value_error ''Could not determine a request ID from the imported response.'')
     else
     pbind (list_request_paths project request_id) (\<lambda>candidates.
     if candidates = []
     then plift (not_found (''Request not found for imported response: '' @ request_id))
     else
     pbind (pread (\<lambda>d. load_request c d (hd candidates))) (\<lambda>request.
     pbind (plift (classify_response request response)) (\<lambda>comparison.
     let normalized_checksum = checksum_text c (json_dumps c (PDict (rs_normalized_response response)));
         approval_binding = approval_checksum c (PDict (rs_normalized_response response));
         packet_checksum = str_or (rs_checksum response) (checksum_text c raw_text) in
     pbind (save_imported_response project response) (\<lambda>_.
     pbind (plift (request_with request
       [(''prior_state'', PStr (rq_state request)), (''state'', PStr ''imported''),
        (''source_task_id'', PStr (claim_or (rs_claims response) ''source_task_id'' (rq_source_task_id request))),
        (''source_plan_revision'',
           PStr (claim_or (rs_claims response) ''source_plan_revision'' (rq_source_plan_revision request))),
        (''normalized_response_checksum'', PStr normalized_checksum),
        (''approval_checksum'', PStr approval_binding),
        (''raw_response_checksum'', PStr (checksum_text c raw_text)),
        (''packet_checksum'', PStr packet_checksum),
        (''updated_at'', PStr (ce_now env 0)),
        (''next_action'', PStr ''Response imported and awaiting independent classification.'')]))
       (\<lambda>imported_request.
     pbind (plift (validate_transition (rq_state request) ''imported'')) (\<lambda>_.
     pbind (move_request project imported_request ''imported'' True) (\<lambda>_.
     let batch_id = str_or (rs_batch_id response) (rq_batch_id request);
         import_ev = import_event ''import'' request_id batch_id (rq_state request) ''imported''
           packet_checksum (ce_now env 1)
           [(''response_source'', PStr source_file), (''invalid_count'', PInt 0)];
         import_ev = import_ev\<lparr>qe_event_id := event_id_for c import_ev (ce_ids env) 0\<rparr> in
     pbind (append_audit_event c project import_ev None 0) (\<lambda>_.
     pbind (plift (validate_transition ''imported'' (final_state comparison))) (\<lambda>_.
     pbind (plift (request_with imported_request
       [(''prior_state'', PStr ''imported''), (''state'', PStr (final_state comparison)),
        (''classification'', PStr (cr_classification comparison)),
        (''updated_at'', PStr (ce_now env 2)), (''next_action'', PStr (cr_reason comparison))]))
       (\<lambda>classified_request.
     pbind (move_request project classified_request (final_state comparison) True) (\<lambda>_.
     let classify_ev = import_event ''classify'' request_id batch_id ''imported'' (final_state comparison)
           packet_checksum (ce_now env 3)
           [(''classification'', PStr (cr_classification comparison)),
            (''safe_to_apply'', PBool (cr_safe_to_apply comparison)),
            (''approval_required'', PBool (cr_approval_required comparison)),
            (''validation_failed'', PBool (cr_validation_failed comparison)),
            (''response_source'', PStr source_file)];
         classify_ev = classify_ev\<lparr>qe_event_id := event_id_for c classify_ev (ce_ids env) 1\<rparr> in
     pbind (append_audit_event c project classify_ev None 0) (\<lambda>_.
     pret \<lparr>ir_imported_count = 1,
           ir_valid_count = (if cr_validation_failed comparison then 0 else 1),
           ir_invalid_count = (if cr_validation_failed comparison then 1 else 0),
           ir_skipped_count = 0, ir_request_ids = [request_id],
           ir_audit_event_ids = [qe_event_id import_ev, qe_event_id classify_ev],
           ir_imported_paths = [source_file], ir_failed_paths = []\<rparr>)))))))))))))"

subsection \<open>A bundle of responses\<close>

definition no_imports :: cloud_queue_import_result where
  "no_imports = \<lparr>ir_imported_count = 0, ir_valid_count = 0, ir_invalid_count = 0,
     ir_skipped_count = 0, ir_request_ids = [], ir_audit_event_ids = [], ir_imported_paths = [],
     ir_failed_paths = []\<rparr>"

text \<open>The body of the \<open>try\<close>: the identifiers seen so far grow before the import is tried.\<close>

definition member_payload :: "codecs \<Rightarrow> zip_info \<Rightarrow> string \<Rightarrow> (string \<times> pydict) res" where
  "member_payload c member raw_bytes =
     rbind (ensure_json_or_yaml_text c raw_bytes) (\<lambda>raw_text.
     rbind (if ends_with ''.json'' (lower (zi_filename member)) then load_json_mapping c raw_text
            else load_mapping_text c raw_text) (\<lambda>payload. Inr (raw_text, payload)))"

definition import_member ::
    "codecs \<Rightarrow> call_env \<Rightarrow> path \<Rightarrow> zip_info \<Rightarrow> string \<Rightarrow> cloud_queue_import_result \<times> string list
     \<Rightarrow> (disk, cloud_queue_import_result \<times> string list) prog" where
  "import_member c env project member raw_bytes acc =
     (let filename = zi_filename member; (total, seen) = acc;
          total = total\<lparr>ir_imported_count := ir_imported_count total + 1\<rparr>;
          payload = member_payload c member raw_bytes;
          request_id = (case payload of
              Inl _ \<Rightarrow> [] | Inr (_, m) \<Rightarrow> str_or (strip (fstr m ''request_id'')) (request_id_from_filename filename));
          seen' = (if is_ok payload then request_id # seen else seen) in
      ptry
        (pbind (plift payload) (\<lambda>(raw_text, m).
         if request_id \<in> set seen
         then plift (value_error (''Duplicate request ID within one bundle: '' @ request_id))
         else
         pbind (import_single_response c env project m raw_text (as_posix filename) (text_name filename)) (\<lambda>one.
         pret (total\<lparr>ir_valid_count := ir_valid_count total + ir_valid_count one,
                     ir_invalid_count := ir_invalid_count total + ir_invalid_count one,
                     ir_skipped_count := ir_skipped_count total + ir_skipped_count one,
                     ir_request_ids := ir_request_ids total @ ir_request_ids one,
                     ir_imported_paths := ir_imported_paths total @ ir_imported_paths one,
                     ir_failed_paths := ir_failed_paths total @ ir_failed_paths one,
                     ir_audit_event_ids := ir_audit_event_ids total @ ir_audit_event_ids one\<rparr>, seen'))))
        (\<lambda>_.
         let total = total\<lparr>ir_invalid_count := ir_invalid_count total + 1,
                           ir_failed_paths := ir_failed_paths total @ [as_posix filename]\<rparr>;
             request_id = request_id_from_filename filename in
         if request_id = [] then pret (total, seen')
         else pbind (append_failed_import_audit c env project request_id []
                       (sha256_bytes c raw_bytes) ''malformed bundle member'') (\<lambda>event_id.
              pret (total\<lparr>ir_audit_event_ids := ir_audit_event_ids total @ [event_id]\<rparr>, seen'))))"

definition bundle_members :: "(zip_info \<times> string) list \<Rightarrow> (zip_info \<times> string) list" where
  "bundle_members archive =
     filter (\<lambda>(m, _). \<not> zip_is_dir m \<and> \<not> ends_with ''manifest.yaml'' (zi_filename m))
       (sort_key (\<lambda>(m, _). zi_filename m) archive)"

definition import_response_bundle ::
    "codecs \<Rightarrow> (nat \<Rightarrow> call_env) \<Rightarrow> path \<Rightarrow> (zip_info \<times> string) list
     \<Rightarrow> (disk, cloud_queue_import_result) prog" where
  "import_response_bundle c envs project archive =
     pbind (pmodify (ensure_cloud_queue_dirs project)) (\<lambda>_.
     pbind (pfold (\<lambda>(k, m, raw) acc. import_member c (envs k) project m raw acc)
       (zip [0..<length (bundle_members archive)] (bundle_members archive)) (no_imports, [])) (\<lambda>(result, _).
     pret result))"

record import_file =
  if_path :: path
  if_bytes :: string
  if_archive :: "(zip_info \<times> string) list option"

definition import_response_file ::
    "codecs \<Rightarrow> (nat \<Rightarrow> call_env) \<Rightarrow> path \<Rightarrow> import_file option \<Rightarrow> string
     \<Rightarrow> (disk, cloud_queue_import_result) prog" where
  "import_response_file c envs project file file_path =
     pbind (pmodify (ensure_cloud_queue_dirs project)) (\<lambda>_.
     case file of
       None \<Rightarrow> plift (not_found (''Import file does not exist: '' @ file_path))
     | Some f \<Rightarrow>
         let suffix = lower (name_suffix (path_name (if_path f))) in
         if suffix = ''.zip''
         then pbind (plift (validate_archive (Some \<lparr>af_name = path_name (if_path f),
                af_size = length (if_bytes f), af_infos = map_option (map fst) (if_archive f)\<rparr>)
                (path_text (if_path f)))) (\<lambda>_.
              import_response_bundle c envs project (case if_archive f of None \<Rightarrow> [] | Some ms \<Rightarrow> ms))
         else pbind (plift (ensure_json_or_yaml_text c (if_bytes f))) (\<lambda>raw_text.
              pbind (plift (if suffix = ''.json'' then load_json_mapping c raw_text
                            else load_mapping_text c raw_text)) (\<lambda>mapping.
              import_single_response c (envs 0) project mapping raw_text (path_text (if_path f))
                (path_name (if_path f)))))"

subsection \<open>Adapters\<close>

record adapter_result =
  ad_response :: cloud_queue_response
  ad_normalized_text :: string

definition manual_packet_normalize :: "pydict \<Rightarrow> string \<Rightarrow> adapter_result res" where
  "manual_packet_normalize payload raw_text =
     rbind (response_from_dict payload None) (\<lambda>response.
     if rs_response_id response = []
     then value_error ''Manual packet payload must include response_id.''
     else Inr \<lparr>ad_response = response, ad_normalized_text = strip raw_text\<rparr>)"

definition openai_normalize :: "codecs \<Rightarrow> pydict \<Rightarrow> string \<Rightarrow> adapter_result res" where
  "openai_normalize c payload raw_text =
     rbind (response_from_dict
       [(''response_id'', dget_or payload ''id'' (PStr [])),
        (''request_id'', dget_or payload ''request_id'' (PStr [])),
        (''batch_id'', dget_or payload ''batch_id'' (PStr [])),
        (''response_schema_version'', dget_or payload ''response_schema_version'' (PInt 1)),
        (''normalized_response'', dget_or payload ''output'' (PDict [])),
        (''raw_response'', PStr raw_text),
        (''checksum'', PStr (checksum_text c raw_text)),
        (''decision'', dget_or payload ''decision'' (PStr ''SAFE'')),
        (''claims'', dget_or payload ''claims'' (PDict [])),
        (''adapter'', PStr ''openai'')] None) (\<lambda>response.
     Inr \<lparr>ad_response = response, ad_normalized_text = strip raw_text\<rparr>)"

definition gemini_normalize :: "codecs \<Rightarrow> pydict \<Rightarrow> string \<Rightarrow> adapter_result res" where
  "gemini_normalize c payload raw_text =
     rbind (response_from_dict
       [(''response_id'', dget_or payload ''response_id'' (PStr [])),
        (''request_id'', dget_or payload ''request'' (PStr [])),
        (''batch_id'', dget_or payload ''batch'' (PStr [])),
        (''response_schema_version'', dget_or payload ''response_schema_version'' (PInt 1)),
        (''normalized_response'', dget_or payload ''content'' (PDict [])),
        (''raw_response'', PStr raw_text),
        (''checksum'', PStr (checksum_text c raw_text)),
        (''decision'', dget_or payload ''decision'' (PStr ''SAFE'')),
        (''claims'', dget_or payload ''claims'' (PDict [])),
        (''adapter'', PStr ''gemini'')] None) (\<lambda>response.
     Inr \<lparr>ad_response = response, ad_normalized_text = strip raw_text\<rparr>)"

subsection \<open>Importing, under the invariant\<close>

lemma imported_copy:
  assumes "wf_request r"
  shows "request_with r
     [(''prior_state'', PStr p), (''state'', PStr s), (''source_task_id'', PStr a),
      (''source_plan_revision'', PStr b), (''normalized_response_checksum'', PStr n),
      (''approval_checksum'', PStr k), (''raw_response_checksum'', PStr w),
      (''packet_checksum'', PStr q), (''updated_at'', PStr t), (''next_action'', PStr m)]
   = Inr (r\<lparr>rq_prior_state := p, rq_state := s, rq_source_task_id := a, rq_source_plan_revision := b,
       rq_normalized_response_checksum := n, rq_approval_checksum := k, rq_raw_response_checksum := w,
       rq_packet_checksum := q, rq_updated_at := t, rq_next_action := m\<rparr>)"
  using assms by (simp add: request_with_simps wf_request_def)

lemma classified_copy:
  assumes "wf_request r"
  shows "request_with r
     [(''prior_state'', PStr p), (''state'', PStr s), (''classification'', PStr k),
      (''updated_at'', PStr t), (''next_action'', PStr m)]
   = Inr (r\<lparr>rq_prior_state := p, rq_state := s, rq_classification := k, rq_updated_at := t,
       rq_next_action := m\<rparr>)"
  using assms by (simp add: request_with_simps wf_request_def)

lemma imported_to_final: "validate_transition ''imported'' (final_state comparison) = Inr ()"
  by (simp add: validate_transition_ok final_state_def class_names QUEUE_STATES_def)

text \<open>The first candidate that loads is the one file of the identifier.\<close>

lemma candidate_request:
  assumes inv: "queue_inv c project d" and i: "i \<in> request_ids"
    and run: "list_request_paths project i d = (Inr ps, e)" and ps: "ps \<noteq> []"
    and load: "load_request c e (hd ps) = Inr r"
  shows "hd ps = request_key project (rq_state r) i \<and> rq_request_id r = i \<and> wf_request r
    \<and> rq_state r \<in> set QUEUE_STATES \<and> fs_files e = fs_files d \<and> queue_inv c project e"
proof -
  let ?R = "queue_root project @ [''requests'']"
  have e: "e = ensure_cloud_queue_dirs project d" using run by (simp add: list_request_paths_def)
  have inv': "queue_inv c project e" using inv_ensure [OF inv] e by simp
  have "hd ps \<in> set ps" using ps by simp
  then obtain s where s: "s \<in> set (child_dirs e ?R)" "hd ps = join_path (?R @ [s]) (i @ ''.yaml'')"
    using run e by (auto simp: list_request_paths_def Let_def)
  have name: "plain_name (i @ ''.yaml'')" by (rule request_file_name [OF i])
  from plain_child_dirs [OF _ s(1)] inv' have "plain_path (?R @ [s])" by (simp add: queue_inv_def)
  then have plain: "plain_path [s, i @ ''.yaml'']" using name by (simp add: plain_name_def)
  have hd: "hd ps = queue_root project @ [''requests'', s, i @ ''.yaml'']" using s(2) name by simp
  from placed_file [OF inv' ends_yaml plain] load hd have "well_placed s (i @ ''.yaml'') r" by simp
  then show ?thesis using hd e inv' by (auto simp: well_placed_def request_key_def)
qed

definition imports_file :: "path \<Rightarrow> string \<Rightarrow> path" where
  "imports_file project i = queue_root project @ [''imports'', i @ ''.yaml'']"

lemma save_response_ok:
  assumes inv: "queue_inv c project d" and i: "rs_request_id response \<in> request_ids"
  obtains e where "save_imported_response project response d
      = (Inr (imports_file project (rs_request_id response)), e)"
    and "queue_inv c project e"
    and "only_changes {imports_file project (rs_request_id response)} d e"
proof -
  let ?p = "imports_file project (rs_request_id response)"
  have name: "plain_name (rs_request_id response @ ''.yaml'')" by (rule request_file_name [OF i])
  have plain: "plain_path ?p" using inv name by (simp add: imports_file_def queue_inv_def plain_name_def)
  have p: "imported_response_path project (rs_request_id response) = ?p"
    using name by (simp add: imported_response_path_def imports_file_def)
  let ?e = "fs_write ?p (Doc (PDict (response_to_dict response)))
      (fs_mkdir (butlast ?p) (ensure_cloud_queue_dirs project d))"
  have other: "\<not> request_area project ?p" by (simp add: request_area_def imports_file_def)
  have "save_imported_response project response d = (Inr ?p, ?e)"
    by (simp add: save_imported_response_def Let_def p)
  moreover have "queue_inv c project ?e"
    by (rule inv_write_other [OF inv_mkdir [OF inv_ensure [OF inv]] plain other])
  moreover have "only_changes {?p} d ?e" using plain by (simp add: only_changes_def)
  ultimately show thesis using that by blast
qed

text \<open>A move followed by an audit line.\<close>

lemma move_and_audit:
  assumes inv: "queue_inv c project d"
    and old: "load_request c d (request_key project s i) = Inr r"
      "s \<in> set QUEUE_STATES" "i \<in> request_ids"
    and new: "rq_prior_state u = s" "rq_request_id u = i" "rq_state u = t" "t \<in> set QUEUE_STATES"
      "wf_request u" "s \<noteq> t"
  obtains e f line where "move_request project u t True d = (Inr (request_key project t i), e)"
    and "append_audit_event c project event factory k e = (Inr (audit_path project), f)"
    and "queue_inv c project f" and "load_request c f (request_key project t i) = Inr u"
    and "fs_file f (request_key project s i) = None"
    and "fs_file f (audit_path project) = Some (append_line c line (fs_file d (audit_path project)))"
    and "only_changes {request_key project s i, request_key project t i, audit_path project} d f"
proof -
  let ?k = "request_key project s i" and ?n = "request_key project t i"
  obtain e where e: "move_request project u t True d = (Inr ?n, e)" "queue_inv c project e"
    "load_request c e ?n = Inr u" "fs_file e ?k = None" "only_changes {?k, ?n} d e"
    by (rule move_request_ok [OF inv old new])
  obtain f where f: "append_audit_event c project event factory k e = (Inr (audit_path project), f)"
    "queue_inv c project f" "fs_file f (audit_path project) = Some (append_line c
      (audit_event_to_dict (event\<lparr>qe_event_id := event_id_for c event factory k\<rparr>))
      (fs_file e (audit_path project)))" "only_changes {audit_path project} e f"
    by (rule append_audit_ok [OF e(2)])
  have plain: "plain_path ?k" "plain_path ?n" "plain_path (audit_path project)"
    using key_plain_inv [OF inv] old new inv by (simp_all add: audit_path_def queue_inv_def)
  note apart = audit_not_key [OF old(2), of project i] audit_not_key [OF new(4), of project i]
  have "load_request c f ?n = Inr u"
    by (rule load_kept [OF e(3) f(4) plain(2)]) (use apart in simp)
  moreover have "fs_file f ?k = None"
    using f(4) e(4) plain(1) apart unfolding only_changes_def by (metis singletonD)
  moreover have "fs_file e (audit_path project) = fs_file d (audit_path project)"
    using e(5) plain(3) apart unfolding only_changes_def by (metis insertE singletonD)
  moreover have "only_changes {?k, ?n, audit_path project} d f"
    by (rule only_changes_trans [OF e(5) f(4)]) auto
  ultimately show thesis using e(1) f that by simp
qed

text \<open>
  What an import that returns has done: the request was in a state that allows it, it is now
  in the state its classification gives, and the log has two more lines.
\<close>

definition imported ::
    "codecs \<Rightarrow> path \<Rightarrow> cloud_queue_response \<Rightarrow> cloud_queue_request \<Rightarrow> comparison_result
     \<Rightarrow> cloud_queue_request \<Rightarrow> disk \<Rightarrow> disk \<Rightarrow> bool" where
  "imported c project response r comparison u d e \<longleftrightarrow>
     load_request c d (request_key project (rq_state r) (rq_request_id r)) = Inr r
     \<and> validate_transition (rq_state r) ''imported'' = Inr ()
     \<and> classify_response r response = Inr comparison
     \<and> rq_state u = final_state comparison \<and> rq_request_id u = rq_request_id r
     \<and> rq_classification u = cr_classification comparison
     \<and> load_request c e (request_key project (final_state comparison) (rq_request_id r)) = Inr u
     \<and> queue_inv c project e \<and> others_kept project d e (rq_request_id r)
     \<and> (\<exists>line1 line2. fs_file e (audit_path project) = Some (append_line c line2
          (Some (append_line c line1 (fs_file d (audit_path project))))))"

lemma plift_step: "pbind (plift (Inr y)) f = f y"
  by (simp add: fun_eq_iff)

lemma import_tail:
  assumes inv: "queue_inv c project d"
    and old: "load_request c d (request_key project (rq_state r) i) = Inr r"
      "rq_request_id r = i" "i \<in> request_ids"
    and valid: "validate_transition (rq_state r) ''imported'' = Inr ()"
      "validate_transition ''imported'' t = Inr ()"
    and u: "rq_prior_state u = rq_state r" "rq_request_id u = i" "rq_state u = ''imported''" "wf_request u"
    and v: "rq_prior_state v = ''imported''" "rq_request_id v = i" "rq_state v = t" "wf_request v"
  obtains e line1 line2 where "pbind (move_request project u ''imported'' True) (\<lambda>_.
      pbind (append_audit_event c project ev1 None 0) (\<lambda>_.
      pbind (move_request project v t True) (\<lambda>_.
      pbind (append_audit_event c project ev2 None 0) (\<lambda>_. pret g)))) d = (Inr g, e)"
    and "queue_inv c project e" and "load_request c e (request_key project t i) = Inr v"
    and "fs_file e (audit_path project) = Some (append_line c line2
          (Some (append_line c line1 (fs_file d (audit_path project)))))"
    and "only_changes {request_key project (rq_state r) i, request_key project ''imported'' i,
           request_key project t i, audit_path project} d e"
proof -
  note tf = transition_facts [OF valid(1)] transition_facts [OF valid(2)]
  obtain e1 f1 line1 where f1:
    "move_request project u ''imported'' True d = (Inr (request_key project ''imported'' i), e1)"
    "append_audit_event c project ev1 None 0 e1 = (Inr (audit_path project), f1)"
    "queue_inv c project f1" "load_request c f1 (request_key project ''imported'' i) = Inr u"
    "fs_file f1 (audit_path project) = Some (append_line c line1 (fs_file d (audit_path project)))"
    "only_changes {request_key project (rq_state r) i, request_key project ''imported'' i, audit_path project} d f1"
    by (rule move_and_audit [OF inv old(1) _ old(3) u(1,2,3) _ u(4), where event = ev1 and factory = None and k = 0])
      (use tf in simp_all)
  obtain e2 f2 line2 where f2:
    "move_request project v t True f1 = (Inr (request_key project t i), e2)"
    "append_audit_event c project ev2 None 0 e2 = (Inr (audit_path project), f2)"
    "queue_inv c project f2" "load_request c f2 (request_key project t i) = Inr v"
    "fs_file f2 (audit_path project) = Some (append_line c line2 (fs_file f1 (audit_path project)))"
    "only_changes {request_key project ''imported'' i, request_key project t i, audit_path project} f1 f2"
    by (rule move_and_audit [OF f1(3,4) _ old(3) v(1,2,3) _ v(4), where event = ev2 and factory = None and k = 0])
      (use tf in simp_all)
  have aud: "fs_file f2 (audit_path project) = Some (append_line c line2
          (Some (append_line c line1 (fs_file d (audit_path project)))))"
    unfolding f2(5) f1(5) ..
  have chg: "only_changes {request_key project (rq_state r) i, request_key project ''imported'' i,
           request_key project t i, audit_path project} d f2"
    by (rule only_changes_trans [OF f1(6) f2(6)]) auto
  have run: "pbind (move_request project u ''imported'' True) (\<lambda>_.
      pbind (append_audit_event c project ev1 None 0) (\<lambda>_.
      pbind (move_request project v t True) (\<lambda>_.
      pbind (append_audit_event c project ev2 None 0) (\<lambda>_. pret g)))) d = (Inr g, f2)"
    using f1(1,2) f2(1,2) by (simp add: pbind_Inr)
  show thesis by (rule that [OF run f2(3,4) aud chg])
qed

lemma import_steps:
  assumes inv: "queue_inv c project d"
    and response: "response_from_dict data (Some source) = Inr response"
    and id: "rs_request_id response \<in> request_ids"
    and run: "import_single_response c env project data raw source name d = (x, e)"
  shows "(\<exists>err. x = Inl err \<and> only_changes {imports_file project (rs_request_id response)} d e
            \<and> queue_inv c project e)
    \<or> (\<exists>res r comparison u. x = Inr res \<and> rq_request_id r = rs_request_id response
        \<and> imported c project response r comparison u d e)"
proof -
  let ?i = "rs_request_id response" and ?I = "imports_file project (rs_request_id response)"
  have proj: "plain_path project" using inv by (simp add: queue_inv_def)
  have ne: "?i \<noteq> []" using id by (auto simp: request_ids_def normalize_request_id_ok)
  obtain ps d1 where ps: "list_request_paths project ?i d = (Inr ps, d1)"
    by (simp add: list_request_paths_def)
  have d1: "fs_files d1 = fs_files d" "queue_inv c project d1"
    using ps inv_ensure [OF inv] by (auto simp: list_request_paths_def)
  have unchanged: "only_changes {?I} d d1" using d1(1) by (rule only_changes_refl)
  show ?thesis
  proof (cases "ps = [] \<or> \<not> is_ok (load_request c d1 (hd ps))
      \<or> \<not> is_ok (rbind (load_request c d1 (hd ps)) (\<lambda>r. classify_response r response))")
    case True
    then have "(\<exists>err. x = Inl err) \<and> e = d1"
      using run ne ps response
      by (cases "load_request c d1 (hd ps)")
        (auto simp: import_single_response_def Let_def pbind_Inr not_is_ok_iff not_found_def pbind_def
          split: if_splits)
    with unchanged d1(2) show ?thesis by blast
  next
    case False
    then obtain r comparison where r: "ps \<noteq> []" "load_request c d1 (hd ps) = Inr r"
      "classify_response r response = Inr comparison"
      by (auto simp: is_ok_iff)
    from candidate_request [OF inv id ps r(1,2)] have
      cand: "hd ps = request_key project (rq_state r) ?i" "rq_request_id r = ?i" "wf_request r"
        "rq_state r \<in> set QUEUE_STATES" by simp_all
    let ?k = "request_key project (rq_state r) ?i"
    have k: "plain_path ?k" by (rule key_plain_inv [OF inv cand(4) id])
    have loaded: "load_request c d ?k = Inr r"
      using load_same_files [OF k d1(1)] r(2) cand(1) by metis
    obtain d2 where d2: "save_imported_response project response d1 = (Inr ?I, d2)"
      "queue_inv c project d2" "only_changes {?I} d1 d2"
      by (rule save_response_ok [OF d1(2) id])
    have I: "?I \<noteq> request_key project s i" "?I \<noteq> audit_path project" for s i
      by (simp_all add: imports_file_def request_key_def audit_path_def)
    have kept: "load_request c d2 ?k = Inr r"
      by (rule load_kept [OF _ d2(3) k]) (use r(2) cand(1) I(1) [THEN not_sym] in auto)
    have saved: "only_changes {?I} d d2" by (rule only_changes_trans [OF unchanged d2(3)]) simp
    show ?thesis
    proof (cases "validate_transition (rq_state r) ''imported''")
      case (Inl err)
      then have "x = Inl err \<and> e = d2"
        using run ne ps response r d2(1) imported_copy [OF cand(3)]
        by (simp add: import_single_response_def Let_def pbind_Inr)
      with saved d2(2) show ?thesis by blast
    next
      case (Inr u)
      then have valid: "validate_transition (rq_state r) ''imported'' = Inr ()" by simp
      note tf = transition_facts [OF valid] transition_facts [OF imported_to_final [of comparison]]
      define u where "u = r\<lparr>rq_prior_state := rq_state r, rq_state := ''imported'',
          rq_source_task_id := claim_or (rs_claims response) ''source_task_id'' (rq_source_task_id r),
          rq_source_plan_revision :=
            claim_or (rs_claims response) ''source_plan_revision'' (rq_source_plan_revision r),
          rq_normalized_response_checksum :=
            checksum_text c (json_dumps c (PDict (rs_normalized_response response))),
          rq_approval_checksum := approval_checksum c (PDict (rs_normalized_response response)),
          rq_raw_response_checksum := checksum_text c raw,
          rq_packet_checksum := str_or (rs_checksum response) (checksum_text c raw),
          rq_updated_at := ce_now env 0,
          rq_next_action := ''Response imported and awaiting independent classification.''\<rparr>"
      define v where "v = u\<lparr>rq_prior_state := ''imported'', rq_state := final_state comparison,
          rq_classification := cr_classification comparison, rq_updated_at := ce_now env 2,
          rq_next_action := cr_reason comparison\<rparr>"
      have wf: "wf_request u" "wf_request v" using cand(3) by (simp_all add: u_def v_def wf_request_def)
      have "\<exists>ev1 ev2 g. pbind (move_request project u ''imported'' True) (\<lambda>_.
        pbind (append_audit_event c project ev1 None 0) (\<lambda>_.
        pbind (move_request project v (final_state comparison) True) (\<lambda>_.
        pbind (append_audit_event c project ev2 None 0) (\<lambda>_. pret g)))) d2 = (x, e)"
        using run ne ps response r d2(1) valid
        by (simp add: import_single_response_def Let_def pbind_Inr imported_copy [OF cand(3)]
            u_def [symmetric] classified_copy [OF wf(1)] v_def [symmetric] imported_to_final plift_step)
          blast
      then obtain ev1 ev2 g where run': "pbind (move_request project u ''imported'' True) (\<lambda>_.
        pbind (append_audit_event c project ev1 None 0) (\<lambda>_.
        pbind (move_request project v (final_state comparison) True) (\<lambda>_.
        pbind (append_audit_event c project ev2 None 0) (\<lambda>_. pret g)))) d2 = (x, e)" by blast
      obtain f line1 line2 where f: "pbind (move_request project u ''imported'' True) (\<lambda>_.
        pbind (append_audit_event c project ev1 None 0) (\<lambda>_.
        pbind (move_request project v (final_state comparison) True) (\<lambda>_.
        pbind (append_audit_event c project ev2 None 0) (\<lambda>_. pret g)))) d2 = (Inr g, f)"
        "queue_inv c project f" "load_request c f (request_key project (final_state comparison) ?i) = Inr v"
        "fs_file f (audit_path project) = Some (append_line c line2
          (Some (append_line c line1 (fs_file d2 (audit_path project)))))"
        "only_changes {?k, request_key project ''imported'' ?i, request_key project (final_state comparison) ?i,
           audit_path project} d2 f"
        by (rule import_tail [OF d2(2) kept cand(2) id valid imported_to_final, of u v])
          (use cand(2) wf in \<open>simp_all add: u_def v_def\<close>)
      have "fs_file d2 (audit_path project) = fs_file d (audit_path project)"
        using saved I proj unfolding only_changes_def by (simp add: audit_path_def)
      moreover have "rq_state v = final_state comparison" "rq_request_id v = rq_request_id r"
        "rq_classification v = cr_classification comparison" by (simp_all add: u_def v_def)
      moreover have "\<exists>line1 line2. fs_file f (audit_path project) = Some (append_line c line2
          (Some (append_line c line1 (fs_file d (audit_path project)))))"
        using f(4) calculation(1) by auto
      moreover have "others_kept project d f (rq_request_id r)"
        unfolding cand(2)
        by (rule others_kept_changes [OF only_changes_trans [OF saved f(5) subset_refl] proj])
          (auto simp: audit_path_def request_area_def imports_file_def)
      ultimately have "imported c project response r comparison v d f"
        using f(2,3) loaded valid r(3) cand(2) by (simp add: imported_def)
      moreover have "x = Inr g" "e = f" using run' f(1) by simp_all
      ultimately show ?thesis using cand(2) by blast
    qed
  qed
qed

end
