(* ===== verification/QueueExport.thy ===== *)
theory QueueExport
  imports QueueImport
begin

text \<open>
  \<open>cloud_queue/context.py\<close>, \<open>export.py\<close>, the export command of \<open>service.py\<close> and
  \<open>formatting.py\<close>: requests that are ready are packed into an archive together with their
  context, and move to the state exported.

  \<open>redact_text\<close> is a parameter (its twelve regular expressions are not modelled), and so is
  the archive format: \<open>zip_bytes\<close> gives the bytes of an archive of named members. A file of
  a story is read as the text it holds.
\<close>

record redaction_summary =
  rd_filename_count :: nat
  rd_content_count :: nat
  rd_pattern_counts :: "(string \<times> nat) list"

record queue_context =
  cx_story :: string
  cx_title :: string
  cx_details :: string
  cx_requirements :: "string list"
  cx_writable_paths :: "string list"
  cx_dependencies :: "string list"
  cx_blockers :: "string list"
  cx_context_files :: "string list"
  cx_evidence_sections :: "(string \<times> string) list"
  cx_redaction_summary :: redaction_summary

record export_codecs = codecs +
  redact_text :: "string \<Rightarrow> string \<times> redaction_summary"
  zip_bytes :: "(string \<times> string) list \<Rightarrow> string"

definition base_codecs :: "export_codecs \<Rightarrow> codecs" where
  "base_codecs x = codecs.truncate x"

subsection \<open>Context\<close>

fun merge_counts :: "(string \<times> nat) list \<Rightarrow> (string \<times> nat) list \<Rightarrow> (string \<times> nat) list" where
  "merge_counts merged [] = merged"
| "merge_counts merged ((k, v) # second) =
     merge_counts (al_set k ((case map_of merged k of None \<Rightarrow> 0 | Some n \<Rightarrow> n) + v) merged) second"

definition summary_to_dict :: "redaction_summary \<Rightarrow> pydict" where
  "summary_to_dict s =
     [(''filename_count'', PInt (int (rd_filename_count s))),
      (''content_count'', PInt (int (rd_content_count s))),
      (''pattern_counts'', PDict (map (\<lambda>(k, n). (k, PInt (int n))) (rd_pattern_counts s)))]"

definition no_redaction :: redaction_summary where
  "no_redaction = \<lparr>rd_filename_count = 0, rd_content_count = 0, rd_pattern_counts = []\<rparr>"

text \<open>The loop over the context files: names, evidence and summary so far.\<close>

fun context_loop ::
    "export_codecs \<Rightarrow> disk \<Rightarrow> path \<Rightarrow> string list \<Rightarrow> string list \<times> (string \<times> string) list \<times> redaction_summary
     \<Rightarrow> (string list \<times> (string \<times> string) list \<times> redaction_summary) res" where
  "context_loop x d story_path [] acc = Inr acc"
| "context_loop x d story_path (relative # rest) (filenames, evidence, sums) =
     rbind (normalize_relative_path relative) (\<lambda>normalized.
     case fs_file d (join_path story_path normalized) of
       Some (Text content) \<Rightarrow>
         (let (redacted, summary) = redact_text x content
          in context_loop x d story_path rest
               (filenames @ [redact_path_fragment normalized], evidence @ [(normalized, redacted)],
                \<lparr>rd_filename_count = rd_filename_count sums,
                 rd_content_count = rd_content_count sums + rd_content_count summary,
                 rd_pattern_counts = merge_counts (rd_pattern_counts sums) (rd_pattern_counts summary)\<rparr>))
     | Some _ \<Rightarrow> Inl (Exn OutsideModel ''story file written by the program'')
     | None \<Rightarrow> context_loop x d story_path rest (filenames, evidence, sums))"

definition build_context ::
    "export_codecs \<Rightarrow> disk \<Rightarrow> path \<Rightarrow> string \<Rightarrow> string \<Rightarrow> string \<Rightarrow> string list \<Rightarrow> string list
     \<Rightarrow> string list \<Rightarrow> string list \<Rightarrow> string list \<Rightarrow> queue_context res" where
  "build_context x d project story title details requirements writable_paths dependencies blockers
     context_files =
     rbind (context_loop x d (join_path (project @ [''stories'']) story) context_files
       ([], [], no_redaction)) (\<lambda>(filenames, evidence, summary).
     Inr \<lparr>cx_story = story, cx_title = title, cx_details = details, cx_requirements = requirements,
       cx_writable_paths = writable_paths, cx_dependencies = dependencies, cx_blockers = blockers,
       cx_context_files = filenames, cx_evidence_sections = evidence,
       cx_redaction_summary = summary\<rparr>)"

definition newline :: string where "newline = [CHR 0x0A]"

definition format_bullets :: "string list \<Rightarrow> string" where
  "format_bullets items =
     (if items = [] then ''- none'' else join newline (map (\<lambda>i. ''- '' @ i) items))"

definition code_quote :: "string \<Rightarrow> string" where
  "code_quote s = [CHR 0x60] @ s @ [CHR 0x60]"

definition fence :: string where "fence = replicate 3 (CHR 0x60)"

definition format_context_markdown :: "export_codecs \<Rightarrow> queue_context \<Rightarrow> string" where
  "format_context_markdown x cx =
     rstrip (join newline
       ([''# Cloud Queue Request Context'', [], ''- Story: '' @ code_quote (cx_story cx),
         ''- Title: '' @ cx_title cx, [], ''## Details'', [],
         str_or (cx_details cx) ''No details provided.'', [], ''## Requirements'', [],
         format_bullets (cx_requirements cx), [], ''## Writable Paths'', [],
         format_bullets (cx_writable_paths cx), [], ''## Dependencies'', [],
         format_bullets (cx_dependencies cx), [], ''## Blockers'', [],
         format_bullets (cx_blockers cx), []]
        @ (if cx_evidence_sections cx = [] then []
           else [''## Evidence'', []] @ concat (map (\<lambda>(label, content).
             [''### '' @ code_quote label, [], fence @ ''text'',
              rstrip content, fence, []])
             (cx_evidence_sections cx)))
        @ [''## Redaction Summary'', [],
           rstrip (yaml_dump x False (PDict (summary_to_dict (cx_redaction_summary cx)))), []]))
     @ newline"

subsection \<open>Export\<close>

definition request_template :: "cloud_queue_request \<Rightarrow> pydict" where
  "request_template r =
     [(''response_schema_version'', PInt (rq_response_schema_version r)),
      (''response_id'', PStr (rq_request_id r @ ''-response'')),
      (''request_id'', PStr (rq_request_id r)),
      (''batch_id'', PStr (rq_batch_id r)),
      (''decision'', PStr ''SAFE''),
      (''summary'', PStr ''Describe the response here.''),
      (''claims'', PDict
        [(''applicable_requirements'', pstrs (rq_requirements r)),
         (''writable_paths'', pstrs (rq_writable_paths r)),
         (''scope_changes'', PList []),
         (''dependency_status'', PStr ''resolved''),
         (''resolved_dependencies'', pstrs (rq_dependencies r)),
         (''safe_to_apply'', PBool True)]),
      (''normalized_response'', PDict [(''summary'', PStr ''Normalized response content.'')]),
      (''raw_response'', PStr []),
      (''checksum'', PStr []),
      (''adapter'', PStr ''manual_packet'')]"

definition format_export_markdown :: "cloud_queue_request \<Rightarrow> string \<Rightarrow> string \<Rightarrow> string" where
  "format_export_markdown r request_context template_text =
     rstrip (join newline
       [''# Cloud Queue Export'', [],
        ''Manual-first export. Do not call any cloud API automatically.'', [],
        ''Request ID: '' @ code_quote (rq_request_id r), ''Batch ID: '' @ code_quote (rq_batch_id r),
        ''Story: '' @ code_quote (rq_story r), ''State: '' @ code_quote (rq_state r), [],
        ''## Request Context'', [], rstrip request_context, [],
        ''## Exact Response Template'', [], rstrip template_text, [],
        ''## Operator Notes'', [],
        ''- Upload the template manually to ChatGPT, Gemini, or another compatible model.'',
        ''- Return the raw answer without executing it.'',
        ''- Re-import the response for independent validation.'',
        ''- Approved responses are not automatically applied.''])
     @ newline"

definition REQUEST_PACKET_EXPORT_FILENAME :: string where
  "REQUEST_PACKET_EXPORT_FILENAME = ''cloud_queue_export.md''"
definition REQUEST_PACKET_MANIFEST_FILENAME :: string where
  "REQUEST_PACKET_MANIFEST_FILENAME = ''manifest.yaml''"
definition REQUEST_PACKET_TEMPLATE_FILENAME :: string where
  "REQUEST_PACKET_TEMPLATE_FILENAME = ''response_template.yaml''"
definition REQUEST_PACKET_CONTEXT_FILENAME :: string where
  "REQUEST_PACKET_CONTEXT_FILENAME = ''context.md''"

text \<open>
  One request of the loop. Everything that may raise comes before the first member is
  written, so a request contributes all its members or none.
\<close>

definition export_one ::
    "export_codecs \<Rightarrow> call_env \<Rightarrow> path \<Rightarrow> path \<Rightarrow> string \<Rightarrow> nat \<Rightarrow> nat \<Rightarrow> cloud_queue_request
     \<Rightarrow> (disk, (string \<times> string) list) prog" where
  "export_one x env project export_dir batch_id count k request =
     pbind (plift (validate_transition (rq_state request) ''exported'')) (\<lambda>_.
     pbind (plift (request_with request
       [(''prior_state'', PStr (rq_state request)), (''state'', PStr ''exported'')])) (\<lambda>updated.
     pbind (pmodify (fs_write (join_path export_dir (rq_request_id request @ ''.yaml''))
       (Doc (PDict (request_to_dict updated))))) (\<lambda>_.
     pbind (pread (\<lambda>d. build_context x d project (rq_story request) (rq_title request)
       (rq_details request) (rq_requirements request) (rq_writable_paths request)
       (rq_dependencies request) (rq_notes request) (rq_context_files request))) (\<lambda>context.
     let context_text = format_context_markdown x context;
         template = yaml_dump x False (PDict (request_template updated));
         export_markdown = format_export_markdown updated context_text template;
         request_yaml = yaml_dump x False (PDict (request_to_dict updated));
         i = rq_request_id request;
         event = \<lparr>qe_event_id = [], qe_event_type = ''export'', qe_request_id = i,
           qe_batch_id = batch_id, qe_prior_state = rq_state request, qe_new_state = ''exported'',
           qe_packet_checksum = checksum_text (base_codecs x) export_markdown,
           qe_request_count = int count, qe_timestamp = ce_now env k,
           qe_details = [(''member_count'', PInt 4), (''requirements'', pstrs (rq_requirements request)),
             (''writable_paths'', pstrs (rq_writable_paths request))]\<rparr> in
     pbind (append_audit_event (base_codecs x) project event (ce_ids env) k) (\<lambda>_.
     pret [(i @ ''/request.yaml'', request_yaml),
           (i @ ''/'' @ REQUEST_PACKET_CONTEXT_FILENAME, context_text),
           (i @ ''/'' @ REQUEST_PACKET_TEMPLATE_FILENAME, template),
           (i @ ''/'' @ REQUEST_PACKET_EXPORT_FILENAME, export_markdown)])))))"

text \<open>The loop: the members written so far, and the exception that ended it, if any.\<close>

fun export_loop ::
    "export_codecs \<Rightarrow> call_env \<Rightarrow> path \<Rightarrow> path \<Rightarrow> string \<Rightarrow> nat \<Rightarrow> nat \<Rightarrow> cloud_queue_request list
     \<Rightarrow> (string \<times> string) list \<Rightarrow> disk \<Rightarrow> (pyexn option \<times> (string \<times> string) list) \<times> disk" where
  "export_loop x env project export_dir batch_id count k [] members d = ((None, members), d)"
| "export_loop x env project export_dir batch_id count k (r # rs) members d =
     (case export_one x env project export_dir batch_id count k r d of
        (Inl e, d') \<Rightarrow> ((Some e, members), d')
      | (Inr ms, d') \<Rightarrow>
          export_loop x env project export_dir batch_id count (Suc k) rs (members @ ms) d')"

text \<open>The second loop moves the requests.\<close>

fun export_moves ::
    "call_env \<Rightarrow> path \<Rightarrow> string \<Rightarrow> nat \<Rightarrow> cloud_queue_request list \<Rightarrow> (disk, unit) prog" where
  "export_moves env project packet_checksum k [] = pret ()"
| "export_moves env project packet_checksum k (r # rs) =
     pbind (plift (request_with r
       [(''prior_state'', PStr (rq_state r)), (''state'', PStr ''exported''),
        (''packet_checksum'', PStr packet_checksum), (''updated_at'', PStr (ce_now env k))])) (\<lambda>moved.
     pbind (move_request project moved ''exported'' True) (\<lambda>_.
     export_moves env project packet_checksum (Suc k) rs))"

record export_result =
  xr_export_path :: path
  xr_export_markdown_path :: path
  xr_manifest_path :: path
  xr_packet_checksum :: string
  xr_request_ids :: "string list"
  xr_request_count :: nat
  xr_generated_files :: "path list"

definition manifest_dict ::
    "export_codecs \<Rightarrow> string \<Rightarrow> cloud_queue_request list \<Rightarrow> (string \<times> string) list \<Rightarrow> pydict" where
  "manifest_dict x batch_id ordered members =
     [(''schema_version'', PInt 1), (''batch_id'', PStr batch_id),
      (''request_ids'', pstrs (map rq_request_id ordered)),
      (''request_count'', PInt (int (length ordered))),
      (''members'', PList (map (\<lambda>(p, t). PDict [(''path'', PStr p),
         (''checksum'', PStr (checksum_text (base_codecs x) t))]) members))]"

definition export_requests ::
    "export_codecs \<Rightarrow> call_env \<Rightarrow> path \<Rightarrow> cloud_queue_request list \<Rightarrow> string \<Rightarrow> (disk, export_result) prog" where
  "export_requests x env project requests batch_id =
     pbind (plift (ensure_request_count requests)) (\<lambda>_.
     pbind (pmodify (ensure_cloud_queue_dirs project)) (\<lambda>_.
     let ordered = sort_key rq_request_id requests in
     if ordered = [] then plift (value_error ''No ready cloud queue requests were available for export.'')
     else
     let export_dir = join_path (qp_exports (queue_paths project)) batch_id;
         export_path = join_path export_dir (batch_id @ ''.zip'');
         export_markdown_path = join_path export_dir (batch_id @ ''.md'');
         manifest_path = join_path export_dir REQUEST_PACKET_MANIFEST_FILENAME;
         n = length ordered in
     pbind (pmodify (fs_mkdir export_dir)) (\<lambda>_.
     pbind (\<lambda>d. case export_loop x env project export_dir batch_id n 0 ordered [] d of
         ((Some e, members), d') \<Rightarrow> (Inl e, fs_write export_path (Text (zip_bytes x members)) d')
       | ((None, members), d') \<Rightarrow> (Inr members, d')) (\<lambda>members.
     let manifest = manifest_dict x batch_id ordered members;
         archive = zip_bytes x (members @ [(REQUEST_PACKET_MANIFEST_FILENAME, yaml_dump x False (PDict manifest))]);
         packet_checksum = sha256_bytes x archive in
     pbind (pmodify (fs_write export_path (Text archive))) (\<lambda>_.
     pbind (pmodify (fs_write manifest_path
       (Doc (PDict (manifest @ [(''packet_checksum'', PStr packet_checksum)]))))) (\<lambda>_.
     pbind (pmodify (fs_write export_markdown_path (Text (join newline
       [''# Cloud Queue Export Index'', [], ''Batch ID: '' @ code_quote batch_id,
        ''Request count: '' @ nat_dec n, ''Packet checksum: '' @ code_quote packet_checksum, [],
        ''This ZIP archive is the canonical export artifact.''] @ newline)))) (\<lambda>_.
     pbind (export_moves env project packet_checksum n ordered) (\<lambda>_.
     pret \<lparr>xr_export_path = export_path, xr_export_markdown_path = export_markdown_path,
           xr_manifest_path = manifest_path, xr_packet_checksum = packet_checksum,
           xr_request_ids = map rq_request_id ordered, xr_request_count = n,
           xr_generated_files = [export_path, export_markdown_path, manifest_path]\<rparr>))))))))"

text \<open>The requests that are ready, with their dependencies resolved.\<close>

fun select_ready :: "codecs \<Rightarrow> path \<Rightarrow> cloud_queue_request list \<Rightarrow> (disk, cloud_queue_request list) prog" where
  "select_ready c project [] = pret []"
| "select_ready c project (r # rs) =
     pbind (if rq_state r \<in> set EXPORTABLE_STATES then dependencies_resolved c project r else pret False) (\<lambda>ready.
     pbind (select_ready c project rs) (\<lambda>selected.
     pret (if ready then r # selected else selected)))"

definition export_cloud_queue_request ::
    "export_codecs \<Rightarrow> call_env \<Rightarrow> path \<Rightarrow> string option \<Rightarrow> bool \<Rightarrow> (disk, export_result) prog" where
  "export_cloud_queue_request x env project request_id all_ready =
     (let c = base_codecs x in
      pbind (load_requests c project) (\<lambda>loaded.
      pbind (case request_id of
          Some i \<Rightarrow>
            pbind (locate_request c project i) (\<lambda>(request, _).
            pbind (if rq_state request \<in> set EXPORTABLE_STATES
                   then dependencies_resolved c project request else pret False) (\<lambda>ready.
            if \<not> ready then plift (value_error ''Request is not ready for export.'') else pret [request]))
        | None \<Rightarrow>
            if all_ready then select_ready c project (map snd loaded)
            else plift (value_error ''Either request_id or all_ready must be selected for export.'')) (\<lambda>requests.
      if requests = [] then plift (value_error ''No ready requests were available for export.'')
      else export_requests x env project requests
        (str_or (rq_batch_id (hd requests)) (''batch-'' @ file_stamp (ce_now env (2 * length requests)))))))"

subsection \<open>Formatting\<close>

definition format_request :: "cloud_queue_request \<Rightarrow> string" where
  "format_request r = join newline
     ([''Cloud queue request: '' @ rq_request_id r, ''Story: '' @ rq_story r,
       ''State: '' @ rq_state r, ''Prior state: '' @ rq_prior_state r, ''Batch: '' @ rq_batch_id r,
       ''Title: '' @ rq_title r, ''Blocker type: '' @ rq_blocker_type r, [],
       ''Details:'', str_or (rq_details r) ''none'', [],
       ''Requirements:'', format_bullets (rq_requirements r), [],
       ''Writable paths:'', format_bullets (rq_writable_paths r), [],
       ''Dependencies:'', format_bullets (rq_dependencies r)]
      @ (if rq_classification r \<noteq> [] then [[], ''Classification: '' @ rq_classification r] else [])
      @ (if rq_next_action r \<noteq> [] then [[], ''Next action: '' @ rq_next_action r] else []))"

definition format_request_list :: "cloud_queue_request list \<Rightarrow> string" where
  "format_request_list requests =
     (if requests = [] then ''No cloud queue requests found.'' @ newline
      else join newline (''Cloud queue requests:'' # map (\<lambda>r. ''- '' @ rq_request_id r @ '' | state=''
             @ rq_state r @ '' | story='' @ rq_story r @ '' | title='' @ rq_title r) requests) @ newline)"

definition format_status :: "cloud_queue_status_result \<Rightarrow> string" where
  "format_status s = join newline
     ([''Cloud queue status:'', ''Total requests: '' @ nat_dec (sr_request_count s),
       ''Terminal requests: '' @ nat_dec (sr_terminal_count s), [], ''By state:'']
      @ map (\<lambda>(state, n). ''- '' @ state @ '': '' @ nat_dec n) (sr_counts_by_state s)) @ newline"

definition comparison_to_dict :: "comparison_result \<Rightarrow> pydict" where
  "comparison_to_dict k =
     [(''request_id'', PStr (cr_request_id k)), (''classification'', PStr (cr_classification k)),
      (''requirement_status'', PStr (cr_requirement_status k)),
      (''writable_path_status'', PStr (cr_writable_path_status k)),
      (''scope_status'', PStr (cr_scope_status k)),
      (''dependency_status'', PStr (cr_dependency_status k)), (''reason'', PStr (cr_reason k)),
      (''safe_to_apply'', PBool (cr_safe_to_apply k)),
      (''approval_required'', PBool (cr_approval_required k)),
      (''validation_failed'', PBool (cr_validation_failed k)),
      (''normalized_response_checksum'', PStr (cr_normalized_response_checksum k))]"

definition format_classification :: "codecs \<Rightarrow> comparison_result \<Rightarrow> string" where
  "format_classification c k = join newline
     [''Request: '' @ cr_request_id k, ''Classification: '' @ cr_classification k,
      ''Requirement status: '' @ cr_requirement_status k,
      ''Writable path status: '' @ cr_writable_path_status k,
      ''Scope status: '' @ cr_scope_status k, ''Dependency status: '' @ cr_dependency_status k,
      ''Safe to apply: '' @ py_str (PBool (cr_safe_to_apply k)),
      ''Approval required: '' @ py_str (PBool (cr_approval_required k)),
      ''Validation failed: '' @ py_str (PBool (cr_validation_failed k)),
      ''Reason: '' @ cr_reason k, [], json_dumps c (PDict (comparison_to_dict k))] @ newline"

definition format_import_result :: "cloud_queue_import_result \<Rightarrow> string" where
  "format_import_result r = join newline
     ([''Cloud queue import complete:'', ''Imported: '' @ nat_dec (ir_imported_count r),
       ''Valid: '' @ nat_dec (ir_valid_count r), ''Invalid: '' @ nat_dec (ir_invalid_count r),
       ''Skipped: '' @ nat_dec (ir_skipped_count r)]
      @ (if ir_request_ids r = [] then []
         else [[], ''Request IDs:''] @ map (\<lambda>i. ''- '' @ i) (ir_request_ids r))) @ newline"

subsection \<open>What a context shows\<close>

lemma context_loop_names:
  assumes "context_loop x d p files (names, evidence, sums) = Inr (names', evidence', sums')"
    and "names = map (redact_path_fragment \<circ> fst) evidence"
  shows "names' = map (redact_path_fragment \<circ> fst) evidence'
    \<and> rd_filename_count sums' = rd_filename_count sums"
  using assms
proof (induction files arbitrary: names evidence sums)
  case (Cons f files)
  then obtain q where q: "normalize_relative_path f = Inr q" by auto
  show ?case
  proof (cases "fs_file d (join_path p q)")
    case None
    with Cons q show ?thesis by simp
  next
    case (Some content)
    with Cons.prems q obtain t where t: "content = Text t" by (cases content) auto
    obtain red summ where red: "redact_text x t = (red, summ)" by fastforce
    from Cons.prems q Some t red show ?thesis
      by (simp, drule_tac Cons.IH) simp_all
  qed
qed simp

subsection \<open>Properties\<close>

text \<open>
  The list of context files of an export hides the names that look sensitive, but the
  heading of each piece of evidence is the name itself, and the summary that counts redacted
  names is always zero.
\<close>

theorem evidence_headings_not_redacted:
  assumes "build_context x d project story title details reqs paths deps blockers files = Inr cx"
  shows "cx_context_files cx = map redact_path_fragment (map fst (cx_evidence_sections cx))
    \<and> rd_filename_count (cx_redaction_summary cx) = 0"
  using assms context_loop_names [of x d "join_path (project @ [''stories'']) story" files "[]" "[]"]
  by (auto simp: build_context_def no_redaction_def)

definition sample_codecs :: codecs where
  "sample_codecs = \<lparr>sha256_hex = (\<lambda>t. ''h'' @ t), sha256_bytes = (\<lambda>t. ''b'' @ t),
     yaml_dump = (\<lambda>_ v. py_repr v), json_dumps = py_repr, yaml_scan = (\<lambda>_. ([], None)),
     yaml_load = (\<lambda>t. Inr (PStr t)), json_load = (\<lambda>t. Inr (PStr t)), utf8_decode = Some\<rparr>"

definition sample_export :: export_codecs where
  "sample_export = codecs.extend sample_codecs
     \<lparr>redact_text = (\<lambda>t. (t, no_redaction)), zip_bytes = (\<lambda>ms. concat (map snd ms))\<rparr>"

theorem evidence_headings_not_redacted_witness:
  "\<exists>cx. build_context sample_export
      \<lparr>fs_files = [([''p'', ''stories'', ''s'', ''.env''], Text ''A=1'')], fs_dirs = []\<rparr>
      [''p''] ''s'' ''t'' ''d'' [] [] [] [] [''.env''] = Inr cx
    \<and> cx_context_files cx = [''[REDACTED:FILENAME]''] \<and> map fst (cx_evidence_sections cx) = [''.env'']"
proof -
  let ?d = "\<lparr>fs_files = [([''p'', ''stories'', ''s'', ''.env''], Text ''A=1'')], fs_dirs = []\<rparr>"
  have norm: "normalize_relative_path ''.env'' = Inr ''.env''" by code_simp
  have sens: "redact_path_fragment ''.env'' = ''[REDACTED:FILENAME]''" by code_simp
  have plain: "plain_name ''s''" "plain_name ''.env''" by (simp_all add: plain_name_def)
  have redact: "redact_text sample_export t = (t, no_redaction)" for t
    by (simp add: sample_export_def codecs.defs)
  obtain cx where cx: "build_context sample_export ?d [''p''] ''s'' ''t'' ''d'' [] [] [] [] [''.env''] = Inr cx"
    "map fst (cx_evidence_sections cx) = [''.env'']"
    using norm plain redact by (simp add: build_context_def)
  from evidence_headings_not_redacted [OF cx(1)] cx sens show ?thesis by auto
qed

lemma template_claims:
  assumes "response_from_dict (request_template r) f = Inr p"
  shows "claims_match r (rs_claims p) \<and> rs_response_schema_version p = rq_response_schema_version r"
proof -
  have "dget (request_template r) ''claims'' = Some (PDict
        [(''applicable_requirements'', pstrs (rq_requirements r)),
         (''writable_paths'', pstrs (rq_writable_paths r)),
         (''scope_changes'', PList []),
         (''dependency_status'', PStr ''resolved''),
         (''resolved_dependencies'', pstrs (rq_dependencies r)),
         (''safe_to_apply'', PBool True)])"
    "dget (request_template r) ''response_schema_version'' = Some (PInt (rq_response_schema_version r))"
    by (simp_all add: request_template_def)
  with assms have "rs_claims p =
        [(''applicable_requirements'', pstrs (rq_requirements r)),
         (''writable_paths'', pstrs (rq_writable_paths r)),
         (''scope_changes'', PList []),
         (''dependency_status'', PStr ''resolved''),
         (''resolved_dependencies'', pstrs (rq_dependencies r)),
         (''safe_to_apply'', PBool True)]"
    "rs_response_schema_version p = rq_response_schema_version r"
    by (auto simp: response_from_dict_def codec_simps)
  then show ?thesis
    by (simp add: claims_match_def claimed_def fstrs_def fitems_def fstr_or_def)
qed

lemma template_response: "\<exists>p. response_from_dict (request_template r) f = Inr p"
proof -
  have "dget (request_template r) ''normalized_response'' = Some (PDict [(''summary'', PStr ''Normalized response content.'')])"
    "\<exists>claims. dget (request_template r) ''claims'' = Some (PDict claims)"
    "dget (request_template r) ''response_schema_version'' = Some (PInt (rq_response_schema_version r))"
    by (simp_all add: request_template_def)
  then show ?thesis by (auto simp: response_from_dict_def codec_simps)
qed

lemma template_classified:
  assumes "response_from_dict (request_template r) f = Inr p"
    and "rmap_list normalize_relative_path (rq_writable_paths r) = Inr ws"
  shows "\<exists>c. classify_response r p = Inr c"
proof -
  have claims: "rs_claims p =
        [(''applicable_requirements'', pstrs (rq_requirements r)),
         (''writable_paths'', pstrs (rq_writable_paths r)),
         (''scope_changes'', PList []),
         (''dependency_status'', PStr ''resolved''),
         (''resolved_dependencies'', pstrs (rq_dependencies r)),
         (''safe_to_apply'', PBool True)]"
    using assms(1) by (auto simp: response_from_dict_def request_template_def codec_simps)
  have "\<exists>a. compare_requirements r (rs_claims p) = Inr a"
    by (simp add: compare_requirements_def claims fstrs_def fitems_def Let_def)
  moreover have "\<exists>b. compare_writable_paths r (rs_claims p) = Inr b"
    using assms(2) by (simp add: compare_writable_paths_def claims fstrs_def fitems_def Let_def)
  moreover have "\<exists>b. compare_scope r (rs_claims p) = Inr b"
    by (simp add: compare_scope_def claims fstrs_def fitems_def Let_def)
  ultimately show ?thesis
    by (elim exE) (simp add: classify_response_def Let_def split_def)
qed

text \<open>
  C8: a template that is sent back as it was exported is classified as safe, whatever the
  request asks for: the claims are filled in from the request.
\<close>

theorem template_echo_is_safe:
  assumes "rmap_list normalize_relative_path (rq_writable_paths r) = Inr ws"
  shows "\<exists>p c. response_from_dict (request_template r) f = Inr p \<and> classify_response r p = Inr c
    \<and> cr_classification c = CLASSIFIED_SAFE"
proof -
  obtain p where p: "response_from_dict (request_template r) f = Inr p"
    using template_response by blast
  moreover obtain c where c: "classify_response r p = Inr c"
    using template_classified [OF p assms] by blast
  moreover have "cr_classification c = CLASSIFIED_SAFE"
    using c template_claims [OF p] by (cases rule: classify_cases) (auto simp: class_names)
  ultimately show ?thesis by blast
qed

theorem template_echo_is_safe_witness:
  "\<exists>p c. response_from_dict (request_template sample_request) None = Inr p
    \<and> classify_response sample_request p = Inr c \<and> cr_classification c = CLASSIFIED_SAFE"
  by (rule template_echo_is_safe [of _ "[]"]) (simp add: sample_request_def)

end
