(* ===== verification/QueueExportFacts.thy ===== *)
theory QueueExportFacts
  imports QueueExport "HOL-Library.Multiset"
begin

text \<open>
  What an export does to the request files: it keeps the invariant, every exported request
  was ready with its dependencies resolved, and has moved to the state exported.
\<close>

subsection \<open>Programs that leave the request files alone\<close>

definition same_requests :: "codecs \<Rightarrow> path \<Rightarrow> disk \<Rightarrow> disk \<Rightarrow> bool" where
  "same_requests c project d e \<longleftrightarrow> queue_inv c project e
     \<and> (\<forall>s \<in> set QUEUE_STATES. \<forall>i \<in> request_ids.
          fs_file e (request_key project s i) = fs_file d (request_key project s i))"

lemma same_requests_refl: "queue_inv c project d \<Longrightarrow> same_requests c project d d"
  by (simp add: same_requests_def)

lemma same_requests_files:
  "same_requests c project d e \<Longrightarrow> queue_inv c project f \<Longrightarrow> fs_files f = fs_files e \<Longrightarrow>
   same_requests c project d f"
  using key_plain_inv by (simp add: same_requests_def)

lemma same_requests_load:
  "same_requests c project d e \<Longrightarrow> s \<in> set QUEUE_STATES \<Longrightarrow> i \<in> request_ids \<Longrightarrow>
   load_request c e (request_key project s i) = load_request c d (request_key project s i)"
  by (rule load_request_cong) (simp add: same_requests_def)

lemma same_requests_write:
  assumes "same_requests c project d e" and "plain_path p" and "\<not> request_area project p"
  shows "same_requests c project d (fs_write p v e)"
proof -
  have "queue_inv c project (fs_write p v e)"
    using assms inv_write_other by (simp add: same_requests_def)
  moreover have "p \<noteq> request_key project s i" for s i
    using assms(3) by (auto simp: request_area_def request_key_def)
  ultimately show ?thesis
    using assms key_plain_inv [of c project e] by (simp add: same_requests_def) metis
qed

lemma same_requests_mkdir:
  "same_requests c project d e \<Longrightarrow> same_requests c project d (fs_mkdir p e)"
  by (rule same_requests_files) (auto simp: same_requests_def inv_mkdir)

lemma same_requests_ensure:
  "same_requests c project d e \<Longrightarrow> same_requests c project d (ensure_cloud_queue_dirs project e)"
  by (rule same_requests_files) (auto simp: same_requests_def inv_ensure)

lemma keeps_load_requests [keeps_intros]: "keeps (same_requests c project d) (load_requests c project)"
  unfolding load_requests_def by (intro keeps_intros keeps_pmodify same_requests_ensure)

lemma keeps_locate [keeps_intros]: "keeps (same_requests c project d) (locate_request c project i)"
  unfolding locate_request_def by (intro keeps_intros)

lemma keeps_dependencies [keeps_intros]:
  "keeps (same_requests c project d) (dependencies_loop c project is)"
  by (induction "is") (auto intro!: keeps_intros split: option.split prod.split)

lemma keeps_audit [keeps_intros]:
  "keeps (same_requests c project d) (append_audit_event c project event factory k)"
proof (rule keepsI)
  fix e r f
  assume same: "same_requests c project d e" and run: "append_audit_event c project event factory k e = (r, f)"
  then have inv: "queue_inv c project e" by (simp add: same_requests_def)
  obtain g where "append_audit_event c project event factory k e = (Inr (audit_path project), g)"
    "queue_inv c project g" "only_changes {audit_path project} e g"
    by (rule append_audit_ok [OF inv])
  with run same show "same_requests c project d f"
    using key_plain_inv [OF inv] audit_not_key unfolding same_requests_def only_changes_def
    by (auto; metis singletonD)
qed

lemma keeps_select [keeps_intros]: "keeps (same_requests c project d) (select_ready c project rs)"
  by (induction rs) (auto intro!: keeps_intros simp: dependencies_resolved_def)

lemma only_changesD: "only_changes ps d e \<Longrightarrow> plain_path p \<Longrightarrow> p \<notin> ps \<Longrightarrow> fs_file e p = fs_file d p"
  by (simp add: only_changes_def)

subsection \<open>Selection\<close>

definition resolved :: "codecs \<Rightarrow> path \<Rightarrow> disk \<Rightarrow> cloud_queue_request \<Rightarrow> bool" where
  "resolved c project d r \<longleftrightarrow> (\<forall>i \<in> set (rq_dependencies r). \<exists>s \<in> {''validated_safe'', ''approved''}.
     \<exists>q. normalize_request_id i = Inr (rq_request_id q) \<and> rq_state q = s
       \<and> load_request c d (request_key project s (rq_request_id q)) = Inr q)"

lemma dependencies_loop_ok:
  assumes "dependencies_loop c project is d = (Inr True, e)" and "queue_inv c project d" and "i \<in> set is"
  shows "\<exists>s \<in> {''validated_safe'', ''approved''}.
     \<exists>q. normalize_request_id i = Inr (rq_request_id q) \<and> rq_state q = s
       \<and> load_request c d (request_key project s (rq_request_id q)) = Inr q"
  using assms
proof (induction "is" arbitrary: d)
  case (Cons j js)
  obtain y d1 where y: "locate_request c project j d = (y, d1)" by fastforce
  from Cons.prems(1) y obtain q p where q: "y = Inr (q, p)" "rq_state q \<in> {''validated_safe'', ''approved''}"
    and rest: "dependencies_loop c project js d1 = (Inr True, e)"
    by (cases y) (auto simp: pbind_def ptry_def split: if_splits prod.splits)
  note at = locate_ok [OF Cons.prems(2) y [unfolded q(1)]]
  have same: "same_requests c project d d1"
    using keepsD [OF keeps_locate y] same_requests_refl Cons.prems(2) by blast
  show ?case
  proof (cases "i = j")
    case True
    have "load_request c d p = Inr q"
      using same_requests_load [OF same] at by auto
    then show ?thesis using q(2) at True by auto
  next
    case False
    then have "i \<in> set js" using Cons.prems(3) by simp
    with Cons.IH [OF rest _ this] at obtain s q where
      s: "s \<in> {''validated_safe'', ''approved''}" "normalize_request_id i = Inr (rq_request_id q)"
      "rq_state q = s" "load_request c d1 (request_key project s (rq_request_id q)) = Inr q"
      by blast
    have "s \<in> set QUEUE_STATES" using s(1) by (auto simp: QUEUE_STATES_def)
    moreover have "rq_request_id q \<in> request_ids"
      using normalize_request_id_idem [OF s(2)] by (simp add: request_ids_def)
    ultimately have "load_request c d (request_key project s (rq_request_id q)) = Inr q"
      using same_requests_load [OF same] s(4) by simp
    with s show ?thesis by auto
  qed
qed simp

lemma sort_key_facts: "set (sort_key f xs) = set xs" "distinct (map g (sort_key f xs)) = distinct (map g xs)"
proof -
  show "set (sort_key f xs) = set xs" by simp
  have "mset (map g (sort_key f xs)) = mset (map g xs)" by simp
  then show "distinct (map g (sort_key f xs)) = distinct (map g xs)"
    by (metis mset_eq_imp_distinct_iff)
qed

text \<open>A request on disk that is ready: what the selection promises of each request.\<close>

definition ready_on_disk :: "codecs \<Rightarrow> path \<Rightarrow> disk \<Rightarrow> cloud_queue_request \<Rightarrow> bool" where
  "ready_on_disk c project d r \<longleftrightarrow> rq_state r = ''ready'' \<and> wf_request r \<and> rq_request_id r \<in> request_ids
     \<and> load_request c d (request_key project ''ready'' (rq_request_id r)) = Inr r"

lemma select_ready_ok:
  assumes "select_ready c project rs d = (Inr sel, e)" and "queue_inv c project d"
  shows "set sel \<subseteq> set rs
    \<and> (distinct (map f (filter (\<lambda>r. rq_state r = ''ready'') rs)) \<longrightarrow> distinct (map f sel))
    \<and> (\<forall>r \<in> set sel. rq_state r = ''ready'' \<and> resolved c project d r)"
  using assms
proof (induction rs arbitrary: d sel)
  case (Cons r rs)
  from Cons.prems(1) obtain ready d1 rest where
    first: "(if rq_state r \<in> set EXPORTABLE_STATES then dependencies_resolved c project r else pret False) d
      = (Inr ready, d1)"
    and rest: "select_ready c project rs d1 = (Inr rest, e)"
    and sel: "sel = (if ready then r # rest else rest)"
    by auto
  have same: "same_requests c project d d1"
    using first same_requests_refl [OF Cons.prems(2)]
      keepsD [OF keeps_dependencies, of c project "rq_dependencies r"]
    by (auto simp: dependencies_resolved_def split: if_splits)
  then have inv: "queue_inv c project d1" by (simp add: same_requests_def)
  have carry: "resolved c project d q" if "resolved c project d1 q" for q
    unfolding resolved_def
  proof
    fix i assume "i \<in> set (rq_dependencies q)"
    with that obtain s w where s: "s \<in> {''validated_safe'', ''approved''}"
      "normalize_request_id i = Inr (rq_request_id w)" "rq_state w = s"
      "load_request c d1 (request_key project s (rq_request_id w)) = Inr w"
      unfolding resolved_def by blast
    have "s \<in> set QUEUE_STATES" using s(1) by (auto simp: QUEUE_STATES_def)
    moreover have "rq_request_id w \<in> request_ids"
      using normalize_request_id_idem [OF s(2)] by (simp add: request_ids_def)
    ultimately show "\<exists>s \<in> {''validated_safe'', ''approved''}. \<exists>q. normalize_request_id i = Inr (rq_request_id q)
        \<and> rq_state q = s \<and> load_request c d (request_key project s (rq_request_id q)) = Inr q"
      using same_requests_load [OF same] s by metis
  qed
  note IH = Cons.IH [OF rest inv]
  have "ready \<Longrightarrow> rq_state r = ''ready'' \<and> resolved c project d r"
    using first dependencies_loop_ok [of c project "rq_dependencies r" d d1] Cons.prems(2)
    by (auto simp: EXPORTABLE_STATES_def dependencies_resolved_def resolved_def split: if_splits)
  with IH carry sel show ?case by auto
qed simp

text \<open>The moves: each request in turn, each from its own place.\<close>

lemma exported_copy:
  assumes "wf_request r"
  shows "request_with r
     [(''prior_state'', PStr p), (''state'', PStr s), (''packet_checksum'', PStr q), (''updated_at'', PStr t)]
   = Inr (r\<lparr>rq_prior_state := p, rq_state := s, rq_packet_checksum := q, rq_updated_at := t\<rparr>)"
  using assms by (simp add: request_with_simps wf_request_def)

lemma key_eq_iff [simp]: "request_key project s i = request_key project t j \<longleftrightarrow> s = t \<and> i = j"
  by (simp add: request_key_def)

definition moved_out :: "codecs \<Rightarrow> path \<Rightarrow> string \<Rightarrow> disk \<Rightarrow> string \<Rightarrow> bool" where
  "moved_out c project packet e i \<longleftrightarrow>
     (\<exists>u. load_request c e (request_key project ''exported'' i) = Inr u \<and> rq_state u = ''exported''
        \<and> rq_packet_checksum u = packet)
     \<and> fs_file e (request_key project ''ready'' i) = None"

lemma export_moves_ok:
  assumes "queue_inv c project d" and "\<forall>r \<in> set rs. ready_on_disk c project d r"
    and "distinct (map rq_request_id rs)"
  shows "\<exists>e. export_moves env project packet k rs d = (Inr (), e) \<and> queue_inv c project e
    \<and> (\<forall>r \<in> set rs. moved_out c project packet e (rq_request_id r))
    \<and> only_changes {request_key project s (rq_request_id r) |s r. r \<in> set rs} d e"
  using assms
proof (induction rs arbitrary: d k)
  case Nil
  then show ?case by auto
next
  case (Cons r rs)
  let ?i = "rq_request_id r"
  let ?u = "r\<lparr>rq_prior_state := rq_state r, rq_state := ''exported'', rq_packet_checksum := packet,
      rq_updated_at := ce_now env k\<rparr>"
  have states: "''ready'' \<in> set QUEUE_STATES" "''exported'' \<in> set QUEUE_STATES"
    by (simp_all add: QUEUE_STATES_def)
  from Cons.prems(2) have r: "rq_state r = ''ready''" "wf_request r" "?i \<in> request_ids"
    "load_request c d (request_key project ''ready'' ?i) = Inr r"
    by (simp_all add: ready_on_disk_def)
  obtain d1 where d1: "move_request project ?u ''exported'' True d = (Inr (request_key project ''exported'' ?i), d1)"
    "queue_inv c project d1" "load_request c d1 (request_key project ''exported'' ?i) = Inr ?u"
    "fs_file d1 (request_key project ''ready'' ?i) = None"
    "only_changes {request_key project ''ready'' ?i, request_key project ''exported'' ?i} d d1"
    by (rule move_request_ok [OF Cons.prems(1) r(4) states(1) r(3), of ?u "''exported''"])
      (use r states in \<open>simp_all add: wf_request_def\<close>)
  have other: "?i \<noteq> rq_request_id q" if "q \<in> set rs" for q
    using Cons.prems(3) that by (metis distinct.simps(2) list.simps(9) image_eqI set_map)
  have "\<forall>q \<in> set rs. ready_on_disk c project d1 q"
  proof
    fix q assume q: "q \<in> set rs"
    with Cons.prems(2) have rd: "ready_on_disk c project d q" by simp
    then have "plain_path (request_key project ''ready'' (rq_request_id q))"
      using key_plain_inv [OF Cons.prems(1) states(1)] by (simp add: ready_on_disk_def)
    with rd load_kept [OF _ d1(5)] other [OF q] show "ready_on_disk c project d1 q"
      by (simp add: ready_on_disk_def)
  qed
  from Cons.IH [OF d1(2) this, of "Suc k"] Cons.prems(3) obtain e where
    e: "export_moves env project packet (Suc k) rs d1 = (Inr (), e)" "queue_inv c project e"
      "\<forall>q \<in> set rs. moved_out c project packet e (rq_request_id q)"
      "only_changes {request_key project s (rq_request_id q) |s q. q \<in> set rs} d1 e"
    by auto
  have untouched: "request_key project s ?i \<notin> {request_key project s (rq_request_id q) |s q. q \<in> set rs}" for s
    using other by auto
  have plain: "plain_path (request_key project s ?i)" if "s \<in> set QUEUE_STATES" for s
    using key_plain_inv [OF Cons.prems(1) that r(3)] .
  have "load_request c e (request_key project ''exported'' ?i) = Inr ?u"
    by (rule load_kept [OF d1(3) e(4) plain [OF states(2)] untouched])
  moreover have "fs_file e (request_key project ''ready'' ?i) = None"
    using only_changesD [OF e(4) plain [OF states(1)] untouched] d1(4) by simp
  ultimately have "moved_out c project packet e ?i" by (simp add: moved_out_def)
  moreover have "only_changes {request_key project s (rq_request_id q) |s q. q \<in> set (r # rs)} d e"
    by (rule only_changes_trans [OF d1(5) e(4)]) auto
  moreover have "export_moves env project packet k (r # rs) d = (Inr (), e)"
    using d1(1) e(1) by (simp add: exported_copy [OF r(2)] pbind_Inr)
  ultimately show ?case using e(2,3) by auto
qed

subsection \<open>The whole export\<close>

lemma export_file_plain:
  assumes "queue_inv c project d" and "plain_name b" and "plain_name n"
  shows "plain_path (queue_root project @ [''exports'', b, n])
    \<and> \<not> request_area project (queue_root project @ [''exports'', b, n])"
  using assms by (simp add: queue_inv_def plain_name_def request_area_def)

lemma keeps_export_write:
  assumes "plain_name b" and "plain_name n"
  shows "keeps (same_requests c project d) (pmodify (fs_write (queue_root project @ [''exports'', b, n]) v))"
proof (rule keeps_pmodify)
  fix s assume same: "same_requests c project d s"
  then have "queue_inv c project s" by (simp add: same_requests_def)
  from export_file_plain [OF this assms] same_requests_write [OF same]
  show "same_requests c project d (fs_write (queue_root project @ [''exports'', b, n]) v s)" by blast
qed

lemma keeps_export_one:
  assumes "plain_name b" and "rq_request_id r \<in> request_ids"
  shows "keeps (same_requests (base_codecs x) project d)
    (export_one x env project (queue_root project @ [''exports'', b]) b n k r)"
  using assms keeps_export_write [OF assms(1) request_file_name [OF assms(2)]]
  by (auto simp: export_one_def Let_def request_file_name intro!: keeps_intros)

lemma keeps_export_loop:
  assumes "plain_name b" and "\<forall>r \<in> set rs. rq_request_id r \<in> request_ids"
    and "same_requests (base_codecs x) project d e"
    and "export_loop x env project (queue_root project @ [''exports'', b]) b n k rs ms e = (y, f)"
  shows "same_requests (base_codecs x) project d f"
  using assms
proof (induction rs arbitrary: k ms e)
  case (Cons r rs)
  obtain z g where z: "export_one x env project (queue_root project @ [''exports'', b]) b n k r e = (z, g)"
    by fastforce
  have "same_requests (base_codecs x) project d g"
    using keepsD [OF keeps_export_one z] Cons.prems by simp
  with Cons z show ?case by (cases z) auto
qed simp

lemma export_requests_ok:
  assumes inv: "queue_inv (base_codecs x) project d" and b: "plain_name b"
    and rs: "\<forall>r \<in> set rs. ready_on_disk (base_codecs x) project d r" "distinct (map rq_request_id rs)"
    and run: "export_requests x env project rs b d = (Inr res, e)"
  shows "queue_inv (base_codecs x) project e \<and> set (xr_request_ids res) = rq_request_id ` set rs
    \<and> (\<forall>i \<in> set (xr_request_ids res). moved_out (base_codecs x) project (xr_packet_checksum res) e i)
    \<and> (\<forall>i \<in> request_ids - set (xr_request_ids res). \<forall>s \<in> set QUEUE_STATES.
         fs_file e (request_key project s i) = fs_file d (request_key project s i))"
proof -
  let ?c = "base_codecs x" and ?o = "sort_key rq_request_id rs"
  let ?X = "queue_root project @ [''exports'', b]"
  let ?P = "same_requests ?c project d"
  have names: "plain_name (b @ ''.zip'')" "plain_name (b @ ''.md'')"
    "plain_name REQUEST_PACKET_MANIFEST_FILENAME"
    using b by (auto simp: plain_name_def REQUEST_PACKET_MANIFEST_FILENAME_def
        Cons_eq_append_conv append_eq_Cons_conv)
  have paths: "join_path (queue_root project @ [''exports'']) b = ?X"
    "join_path ?X (b @ ''.zip'') = queue_root project @ [''exports'', b, b @ ''.zip'']"
    "join_path ?X (b @ ''.md'') = queue_root project @ [''exports'', b, b @ ''.md'']"
    "join_path ?X REQUEST_PACKET_MANIFEST_FILENAME
      = queue_root project @ [''exports'', b, REQUEST_PACKET_MANIFEST_FILENAME]"
    using b names by simp_all
  let ?d0 = "fs_mkdir ?X (ensure_cloud_queue_dirs project d)"
  have P0: "?P ?d0" by (intro same_requests_mkdir same_requests_ensure same_requests_refl inv)
  obtain oe ms d1 where loop: "export_loop x env project ?X b (length ?o) 0 ?o [] ?d0 = ((oe, ms), d1)"
    by (metis prod.exhaust)
  have P1: "?P d1"
    by (rule keeps_export_loop [OF b _ P0 loop]) (use rs in \<open>simp add: ready_on_disk_def\<close>)
  let ?manifest = "manifest_dict x b ?o ms"
  let ?archive = "zip_bytes x (ms @ [(REQUEST_PACKET_MANIFEST_FILENAME, yaml_dump x False (PDict ?manifest))])"
  define packet where "packet = sha256_bytes x ?archive"
  define index where "index = Text (join newline
       [''# Cloud Queue Export Index'', [], ''Batch ID: '' @ code_quote b,
        ''Request count: '' @ nat_dec (length ?o), ''Packet checksum: '' @ code_quote packet, [],
        ''This ZIP archive is the canonical export artifact.''] @ newline)"
  define d2 where "d2 = fs_write (queue_root project @ [''exports'', b, b @ ''.md'']) index
      (fs_write (queue_root project @ [''exports'', b, REQUEST_PACKET_MANIFEST_FILENAME])
        (Doc (PDict (?manifest @ [(''packet_checksum'', PStr packet)])))
        (fs_write (queue_root project @ [''exports'', b, b @ ''.zip'']) (Text ?archive) d1))"
  have "oe = None" using run loop
    by (auto simp: export_requests_def Let_def paths split: option.splits if_splits)
  then have moves: "export_moves env project packet (length ?o) ?o d2 = (Inr (), e)"
    and res: "xr_packet_checksum res = packet" "xr_request_ids res = map rq_request_id ?o"
    using run loop
    by (auto simp: export_requests_def Let_def paths packet_def index_def d2_def split: if_splits)
  have inv1: "queue_inv ?c project d1" using P1 by (simp add: same_requests_def)
  have P2: "?P d2"
    unfolding d2_def
    by (intro same_requests_write P1 conjunct1 [OF export_file_plain [OF inv1 b]]
        conjunct2 [OF export_file_plain [OF inv1 b]] names)
  have ready: "''ready'' \<in> set QUEUE_STATES" by (simp add: QUEUE_STATES_def)
  have "\<forall>r \<in> set ?o. ready_on_disk ?c project d2 r"
    using rs(1) same_requests_load [OF P2 ready] by (simp add: ready_on_disk_def)
  moreover have "queue_inv ?c project d2" using P2 by (simp add: same_requests_def)
  ultimately obtain f where f: "export_moves env project packet (length ?o) ?o d2 = (Inr (), f)"
    "queue_inv ?c project f" "\<forall>r \<in> set ?o. moved_out ?c project packet f (rq_request_id r)"
    "only_changes {request_key project s (rq_request_id r) |s r. r \<in> set ?o} d2 f"
    using export_moves_ok [of ?c project d2 ?o] rs(2)
    by (simp only: sort_key_facts(2)) blast
  with moves have e: "f = e" by simp
  have "fs_file e (request_key project s i) = fs_file d (request_key project s i)"
    if "i \<in> request_ids - set (xr_request_ids res)" "s \<in> set QUEUE_STATES" for s i
  proof -
    have "fs_file e (request_key project s i) = fs_file d2 (request_key project s i)"
      by (rule only_changesD [OF f(4) [unfolded e]])
        (use that key_plain_inv [OF inv that(2)] res in auto)
    then show ?thesis using P2 that by (simp add: same_requests_def)
  qed
  with e f res show ?thesis by auto
qed

subsection \<open>The export command\<close>

lemma request_files_distinct: "distinct (request_files project d)"
proof -
  let ?R = "queue_root project @ [''requests'']"
  have "distinct (concat (map (\<lambda>s. map (\<lambda>n. ?R @ [s, n]) (f s)) xs))"
    if "distinct xs" "\<And>s. distinct (f s)" for f xs
    using that by (induction xs) (auto simp: distinct_map inj_on_def)
  then show ?thesis by (simp add: request_files_def Let_def)
qed

lemma loaded_ready:
  assumes "queue_inv c project d" and "load_requests c project d = (Inr rs, e)"
    and "r \<in> set (map snd rs)" and "rq_state r = ''ready''"
  shows "ready_on_disk c project d r"
  using assms loaded_request [OF assms(1,2)] by (force simp: ready_on_disk_def)

lemma loaded_paths:
  assumes "load_requests c project d = (Inr rs, e)"
  shows "distinct (map fst rs)"
proof -
  have "rmap_list (\<lambda>p. rbind (load_request c e p) (\<lambda>r. Inr (p, r))) ps = Inr rs \<Longrightarrow> map fst rs = ps" for ps
    by (induction ps arbitrary: rs) auto
  with assms request_files_distinct show ?thesis by (auto simp: load_requests_def)
qed

lemma ready_distinct:
  assumes inv: "queue_inv c project d" and load: "load_requests c project d = (Inr rs, e)"
  shows "distinct (map rq_request_id (filter (\<lambda>r. rq_state r = ''ready'') (map snd rs)))"
proof -
  have "distinct (map rq_request_id (filter (\<lambda>r. rq_state r = ''ready'') (map snd qs)))"
    if "set qs \<subseteq> set rs" "distinct (map fst qs)" for qs
    using that
  proof (induction qs)
    case (Cons q qs)
    obtain p r where q: "q = (p, r)" by fastforce
    have "rq_request_id r \<noteq> rq_request_id r'" if r': "(p', r') \<in> set qs" "rq_state r = ''ready''"
        "rq_state r' = ''ready''" for p' r'
    proof
      assume "rq_request_id r = rq_request_id r'"
      then have "p = p'"
        using loaded_request [OF inv load, of p r] loaded_request [OF inv load, of p' r'] r' Cons.prems q
        by auto
      with r' Cons.prems(2) q show False by force
    qed
    with Cons q show ?case by (auto; blast)
  qed simp
  with loaded_paths [OF load] show ?thesis by blast
qed

text \<open>What the command selects.\<close>

definition exportable :: "codecs \<Rightarrow> path \<Rightarrow> disk \<Rightarrow> cloud_queue_request list \<Rightarrow> bool" where
  "exportable c project d rs \<longleftrightarrow> rs \<noteq> [] \<and> distinct (map rq_request_id rs)
     \<and> (\<forall>r \<in> set rs. ready_on_disk c project d r \<and> resolved c project d r)"

lemma same_resolved:
  assumes "same_requests c project d e" and "resolved c project e r"
  shows "resolved c project d r"
  unfolding resolved_def
proof
  fix i assume "i \<in> set (rq_dependencies r)"
  with assms(2) obtain s w where s: "s \<in> {''validated_safe'', ''approved''}"
    "normalize_request_id i = Inr (rq_request_id w)" "rq_state w = s"
    "load_request c e (request_key project s (rq_request_id w)) = Inr w"
    unfolding resolved_def by blast
  have "s \<in> set QUEUE_STATES" using s(1) by (auto simp: QUEUE_STATES_def)
  moreover have "rq_request_id w \<in> request_ids"
    using normalize_request_id_idem [OF s(2)] by (simp add: request_ids_def)
  ultimately show "\<exists>s \<in> {''validated_safe'', ''approved''}. \<exists>q. normalize_request_id i = Inr (rq_request_id q)
      \<and> rq_state q = s \<and> load_request c d (request_key project s (rq_request_id q)) = Inr q"
    using same_requests_load [OF assms(1)] s by metis
qed

lemma same_ready:
  "same_requests c project d e \<Longrightarrow> ready_on_disk c project e r \<longleftrightarrow> ready_on_disk c project d r"
  using same_requests_load [of c project d e "''ready''" "rq_request_id r"]
  by (auto simp: ready_on_disk_def QUEUE_STATES_def)

lemma select_one:
  assumes inv: "queue_inv c project d"
    and run: "pbind (locate_request c project i) (\<lambda>(r, _).
        pbind (if rq_state r \<in> set EXPORTABLE_STATES then dependencies_resolved c project r else pret False)
          (\<lambda>ready. if \<not> ready then plift (value_error m) else pret [r])) d = (Inr rs, e)"
  shows "exportable c project d rs \<and> same_requests c project d e"
proof -
  from run obtain r p d1 where loc: "locate_request c project i d = (Inr (r, p), d1)"
    and rest: "pbind (if rq_state r \<in> set EXPORTABLE_STATES then dependencies_resolved c project r else pret False)
          (\<lambda>ready. if \<not> ready then plift (value_error m) else pret [r]) d1 = (Inr rs, e)"
    by (auto simp del: plift_run simp: pbind_def [of "locate_request c project i"]
        split: prod.splits sum.splits)
  note at = locate_ok [OF inv loc]
  have same1: "same_requests c project d d1"
    using keepsD [OF keeps_locate loc] same_requests_refl [OF inv] by blast
  from rest have ready: "rq_state r = ''ready''" "dependencies_loop c project (rq_dependencies r) d1 = (Inr True, e)"
    "rs = [r]"
    by (auto simp: EXPORTABLE_STATES_def dependencies_resolved_def split: if_splits)
  have same: "same_requests c project d e"
    using keepsD [OF keeps_dependencies ready(2) same1] .
  have "resolved c project d1 r"
    using dependencies_loop_ok [OF ready(2)] at by (simp add: resolved_def)
  moreover have "ready_on_disk c project d1 r"
    using at ready(1) by (auto simp: ready_on_disk_def)
  ultimately show ?thesis
    using ready(3) same same_resolved [OF same1] same_ready [OF same1] by (simp add: exportable_def)
qed

lemma select_all:
  assumes inv: "queue_inv c project d" and load: "load_requests c project d = (Inr entries, d1)"
    and run: "select_ready c project (map snd entries) d1 = (Inr rs, e)" and ne: "rs \<noteq> []"
  shows "exportable c project d rs \<and> same_requests c project d e"
proof -
  have same1: "same_requests c project d d1"
    using keepsD [OF keeps_load_requests load] same_requests_refl [OF inv] by blast
  then have inv1: "queue_inv c project d1" by (simp add: same_requests_def)
  have same: "same_requests c project d e"
    using keepsD [OF keeps_select run same1] .
  note sel = select_ready_ok [OF run inv1, of rq_request_id]
  have "\<forall>r \<in> set rs. ready_on_disk c project d r \<and> resolved c project d r"
  proof
    fix r assume "r \<in> set rs"
    with sel have "r \<in> set (map snd entries)" "rq_state r = ''ready''" "resolved c project d1 r"
      by blast+
    then show "ready_on_disk c project d r \<and> resolved c project d r"
      using loaded_ready [OF inv load] same_resolved [OF same1] by blast
  qed
  moreover have "distinct (map rq_request_id rs)"
    using sel ready_distinct [OF inv load] by blast
  ultimately show ?thesis using same ne by (simp add: exportable_def)
qed

lemma exportable_same:
  assumes "exportable c project d rs" and "same_requests c project d e"
  shows "(\<forall>r \<in> set rs. ready_on_disk c project e r) \<and> distinct (map rq_request_id rs)"
  using assms same_ready by (auto simp: exportable_def)

lemma exported_batch:
  assumes "exportable c project d rs" and "\<And>r. ready_on_disk c project d r \<Longrightarrow> plain_name (rq_batch_id r)"
  shows "str_or (rq_batch_id (hd rs)) b = rq_batch_id (hd rs) \<and> plain_name (rq_batch_id (hd rs))"
  using assms by (auto simp: exportable_def str_or_def plain_name_def)

lemma export_outcome:
  assumes inv: "queue_inv (base_codecs x) project d"
    and batches: "\<And>r. ready_on_disk (base_codecs x) project d r \<Longrightarrow> plain_name (rq_batch_id r)"
    and run: "export_cloud_queue_request x env project request_id all_ready d = (Inr res, e)"
  shows "queue_inv (base_codecs x) project e \<and>
    (\<forall>i \<in> set (xr_request_ids res).
       (\<exists>r. rq_request_id r = i \<and> ready_on_disk (base_codecs x) project d r
          \<and> resolved (base_codecs x) project d r)
       \<and> moved_out (base_codecs x) project (xr_packet_checksum res) e i) \<and>
    (\<forall>i \<in> request_ids - set (xr_request_ids res). \<forall>s \<in> set QUEUE_STATES.
         fs_file e (request_key project s i) = fs_file d (request_key project s i))"
proof -
  let ?c = "base_codecs x"
  from run obtain entries d1 rs d2 where load: "load_requests ?c project d = (Inr entries, d1)"
    and sel: "(case request_id of
          Some i \<Rightarrow>
            pbind (locate_request ?c project i) (\<lambda>(request, _).
            pbind (if rq_state request \<in> set EXPORTABLE_STATES
                   then dependencies_resolved ?c project request else pret False) (\<lambda>ready.
            if \<not> ready then plift (value_error ''Request is not ready for export.'') else pret [request]))
        | None \<Rightarrow>
            if all_ready then select_ready ?c project (map snd entries)
            else plift (value_error ''Either request_id or all_ready must be selected for export.'')) d1
          = (Inr rs, d2)"
    and rest: "(if rs = [] then plift (value_error ''No ready requests were available for export.'')
      else export_requests x env project rs
        (str_or (rq_batch_id (hd rs)) (''batch-'' @ file_stamp (ce_now env (2 * length rs))))) d2 = (Inr res, e)"
    unfolding export_cloud_queue_request_def Let_def by (elim pbind_InrE) blast
  have same1: "same_requests ?c project d d1"
    using keepsD [OF keeps_load_requests load] same_requests_refl [OF inv] by blast
  have inv1: "queue_inv ?c project d1" using same1 by (simp add: same_requests_def)
  have "exportable ?c project d rs \<and> same_requests ?c project d d2"
  proof (cases request_id)
    case None
    with sel select_all [OF inv load] rest show ?thesis by (auto split: if_splits)
  next
    case (Some i)
    from select_one [OF inv1 sel [unfolded Some option.case]]
    have "exportable ?c project d1 rs" "same_requests ?c project d1 d2" by simp_all
    then show ?thesis
      using same1 same_resolved [OF same1] same_ready [OF same1]
      by (auto simp: exportable_def same_requests_def)
  qed
  then have ex: "exportable ?c project d rs" and same: "same_requests ?c project d d2" by simp_all
  have inv2: "queue_inv ?c project d2" using same by (simp add: same_requests_def)
  from exported_batch [OF ex batches] rest ex
  have "export_requests x env project rs (rq_batch_id (hd rs)) d2 = (Inr res, e)" "plain_name (rq_batch_id (hd rs))"
    by (auto simp: exportable_def split: if_splits)
  note ok = export_requests_ok [OF inv2 this(2) _ _ this(1)]
  from exportable_same [OF ex same] ok have
    finished: "queue_inv ?c project e" "set (xr_request_ids res) = rq_request_id ` set rs"
      "\<forall>i \<in> set (xr_request_ids res). moved_out ?c project (xr_packet_checksum res) e i"
      "\<forall>i \<in> request_ids - set (xr_request_ids res). \<forall>s \<in> set QUEUE_STATES.
         fs_file e (request_key project s i) = fs_file d2 (request_key project s i)"
    by simp_all
  from finished(2) ex have "\<forall>i \<in> set (xr_request_ids res). \<exists>r. rq_request_id r = i
      \<and> ready_on_disk ?c project d r \<and> resolved ?c project d r"
    by (auto simp: exportable_def)
  with finished same show ?thesis by (simp add: same_requests_def)
qed


end
