(* ===== verification/QueueSystem.thy ===== *)
theory QueueSystem
  imports QueueExportFacts
begin

text \<open>
  The queue as a state machine over the files of a project: its commands, the disks they
  lead to, and what holds of every disk that can be reached.
\<close>

subsection \<open>Decisions as commands\<close>

datatype queue_command =
    Approve string "string option" string
  | Reject string string
  | Cancel string string
  | Fail string string

fun run_command :: "codecs \<Rightarrow> call_env \<Rightarrow> path \<Rightarrow> queue_command \<Rightarrow> (disk, decision_result) prog" where
  "run_command c env project (Approve i v note) = approve_cloud_queue_request c env project i v note"
| "run_command c env project (Reject i note) = reject_cloud_queue_request c env project i note"
| "run_command c env project (Cancel i reason) = cancel_cloud_queue_request c env project i reason"
| "run_command c env project (Fail i reason) = fail_cloud_queue_request c env project i reason"

fun command_id :: "queue_command \<Rightarrow> string" where
  "command_id (Approve i v note) = i"
| "command_id (Reject i note) = i"
| "command_id (Cancel i reason) = i"
| "command_id (Fail i reason) = i"

fun command_target :: "queue_command \<Rightarrow> string" where
  "command_target (Approve i v note) = ''approved''"
| "command_target (Reject i note) = ''rejected''"
| "command_target (Cancel i reason) = ''canceled''"
| "command_target (Fail i reason) = ''failed''"

text \<open>When a decision about a request is allowed.\<close>

fun command_allowed :: "queue_command \<Rightarrow> cloud_queue_request \<Rightarrow> bool" where
  "command_allowed (Approve i v note) r \<longleftrightarrow> rq_state r = ''approval_required'' \<and> checksum_agrees r v"
| "command_allowed cmd r \<longleftrightarrow> validate_transition (rq_state r) (command_target cmd) = Inr ()"

lemma run_command_outcome:
  assumes "queue_inv c project d" and "run_command c env project cmd d = (x, e)"
  shows "(\<exists>err. x = Inl err \<and> fs_files e = fs_files d)
    \<or> (\<exists>r res. x = Inr res \<and> decision_made c project (command_id cmd) (command_target cmd) r res d e
         \<and> command_allowed cmd r)"
proof (cases cmd)
  case (Approve i v m)
  with assms approve_outcome [of c project d env i v m x e] show ?thesis by simp
next
  case (Reject i m)
  with assms reject_outcome [of c project d env i m x e] show ?thesis
    by (simp add: decision_made_def) blast
next
  case (Cancel i m)
  with assms cancel_outcome [of c project d env i m x e] show ?thesis
    by (simp add: decision_made_def) blast
next
  case (Fail i m)
  with assms fail_outcome [of c project d env i m x e] show ?thesis
    by (simp add: decision_made_def) blast
qed

text \<open>A terminal request has no allowed transition, so the earlier guards refuse nothing more.\<close>

lemma valid_not_terminal:
  assumes "validate_transition s t = Inr ()"
  shows "is_terminal_state s = Inr False" and "s \<notin> {''approved'', ''rejected'', ''canceled'', ''failed''}"
proof -
  have known: "s \<in> set QUEUE_STATES" and "queue_succs s \<noteq> []"
    using assms by (auto simp: validate_transition_ok)
  then have "s \<notin> set TERMINAL_QUEUE_STATES" using queue_terminal_sink by blast
  with known show "is_terminal_state s = Inr False" "s \<notin> {''approved'', ''rejected'', ''canceled'', ''failed''}"
    by (simp_all add: is_terminal_state_def TERMINAL_QUEUE_STATES_def)
qed

lemma approve_complete:
  assumes inv: "queue_inv c project d" and ok: "readable c project d"
    and r: "names_request c project d request_id r"
    and allowed: "rq_state r = ''approval_required''" "checksum_agrees r v"
  shows "\<exists>res e. approve_cloud_queue_request c env project request_id v note d = (Inr res, e)"
proof -
  obtain d1 where loc: "locate_request c project request_id d
      = (Inr (r, request_key project (rq_state r) (rq_request_id r)), d1)" and wf: "wf_request r"
    by (rule named_located [OF inv ok r])
  let ?actual = "case v of Some w \<Rightarrow> str_or w (bound_checksum r) | None \<Rightarrow> bound_checksum r"
  let ?sum = "str_or ?actual (bound_checksum r)"
  let ?u = "r\<lparr>rq_prior_state := rq_state r, rq_state := ''approved'', rq_updated_at := ce_now env 0,
      rq_next_action := ''Approved response is recorded but not applied automatically.'',
      rq_classification := CLASSIFIED_SAFE\<rparr>"
  have same: "\<not> (bound_checksum r \<noteq> [] \<and> ?actual \<noteq> [] \<and> bound_checksum r \<noteq> ?actual)"
    using allowed(2) by (auto simp: checksum_agrees_def str_or_def split: option.splits)
  have valid: "validate_transition (rq_state r) ''approved'' = Inr ()"
    using allowed(1) by (simp add: validate_transition_ok QUEUE_STATES_def)
  obtain q d2 where m: "move_request project ?u ''approved'' True d1 = (Inr q, d2)"
    using move_request_returns by blast
  obtain a d3 where a: "record_approval project ?u ?sum True note (ce_now env 1) d2 = (Inr a, d3)"
    using record_approval_returns by blast
  obtain res d4 where "conclude c env project
      (decision_event ''approve'' request_id r ''approved'' (ce_now env 2)
         [(''normalized_response_checksum'', PStr ?sum), (''operator_note'', PStr note)])
      ?u request_id ''approved'' ''approved'' note d3 = (Inr res, d4)"
    using conclude_returns by blast
  then have "approve_cloud_queue_request c env project request_id v note d = (Inr res, d4)"
    using loc m a same allowed(1) valid
    by (simp add: approve_cloud_queue_request_def pbind_Inr Let_def bound_checksum_def [symmetric]
        approved_copy [OF wf] APPROVAL_REQUIRED_def)
  then show ?thesis by blast
qed

lemma simple_complete:
  assumes inv: "queue_inv c project d" and ok: "readable c project d"
    and r: "names_request c project d request_id r"
  shows "validate_transition (rq_state r) ''rejected'' = Inr () \<Longrightarrow>
      \<exists>res e. reject_cloud_queue_request c env project request_id note d = (Inr res, e)"
    and "validate_transition (rq_state r) ''canceled'' = Inr () \<Longrightarrow>
      \<exists>res e. cancel_cloud_queue_request c env project request_id note d = (Inr res, e)"
    and "validate_transition (rq_state r) ''failed'' = Inr () \<Longrightarrow>
      \<exists>res e. fail_cloud_queue_request c env project request_id note d = (Inr res, e)"
proof -
  obtain d1 where loc: "locate_request c project request_id d
      = (Inr (r, request_key project (rq_state r) (rq_request_id r)), d1)" and wf: "wf_request r"
    by (rule named_located [OF inv ok r])
  note run = simple_decision_returns [OF _ wf]
  show "validate_transition (rq_state r) ''rejected'' = Inr () \<Longrightarrow>
      \<exists>res e. reject_cloud_queue_request c env project request_id note d = (Inr res, e)"
    using run valid_not_terminal(2) [of "rq_state r"] loc by (auto simp: reject_unfold pbind_Inr)
  show "validate_transition (rq_state r) ''canceled'' = Inr () \<Longrightarrow>
      \<exists>res e. cancel_cloud_queue_request c env project request_id note d = (Inr res, e)"
    using run valid_not_terminal(1) [of "rq_state r"] loc by (simp add: cancel_unfold pbind_Inr)
  show "validate_transition (rq_state r) ''failed'' = Inr () \<Longrightarrow>
      \<exists>res e. fail_cloud_queue_request c env project request_id note d = (Inr res, e)"
    using run valid_not_terminal(1) [of "rq_state r"] loc by (simp add: fail_unfold pbind_Inr)
qed

lemma run_command_complete:
  assumes "queue_inv c project d" and "readable c project d"
    and "names_request c project d (command_id cmd) r" and "command_allowed cmd r"
  shows "\<exists>res e. run_command c env project cmd d = (Inr res, e)"
  using assms approve_complete simple_complete by (cases cmd) auto

subsection \<open>A disk with one request\<close>

definition one_request_disk :: "path \<Rightarrow> cloud_queue_request \<Rightarrow> disk" where
  "one_request_disk project r = \<lparr>fs_files =
     [(request_key project (rq_state r) (rq_request_id r), Doc (PDict (request_to_dict r)))], fs_dirs = []\<rparr>"

definition storable :: "path \<Rightarrow> cloud_queue_request \<Rightarrow> bool" where
  "storable project r \<longleftrightarrow> plain_path project \<and> wf_request r \<and> rq_state r \<in> set QUEUE_STATES
     \<and> rq_request_id r \<in> request_ids"

lemma one_request_file:
  "fs_files (one_request_disk project r) =
     [(request_key project (rq_state r) (rq_request_id r), Doc (PDict (request_to_dict r)))]"
  by (simp add: one_request_disk_def)

lemma one_request_load:
  assumes "storable project r"
  shows "load_request c (one_request_disk project r) (request_key project (rq_state r) (rq_request_id r)) = Inr r"
  using assms plain_request_key
  by (simp add: load_request_def storable_def one_request_file yaml_value_def request_roundtrip)

lemma one_request_inv:
  assumes "storable project r"
  shows "queue_inv c project (one_request_disk project r)"
proof -
  let ?d = "one_request_disk project r" and ?k = "request_key project (rq_state r) (rq_request_id r)"
  have plain: "plain_path ?k" "plain_path project"
    using assms plain_request_key by (simp_all add: storable_def)
  have only: "fs_file ?d p \<noteq> None \<Longrightarrow> plain_path p \<Longrightarrow> p = ?k" for p
    by (simp add: one_request_file split: if_splits)
  have "plain_disk ?d" using plain by (simp add: plain_disk_def one_request_disk_def)
  moreover have "placed c project ?d"
    unfolding placed_def
  proof (intro allI impI, elim conjE)
    fix s n
    assume "fs_file ?d (queue_root project @ [''requests'', s, n]) \<noteq> None" "plain_path [s, n]"
    then have "queue_root project @ [''requests'', s, n] = ?k" using only plain by simp
    then show "\<exists>q. load_request c ?d (queue_root project @ [''requests'', s, n]) = Inr q \<and> well_placed s n q"
      using one_request_load [OF assms] assms by (auto simp: well_placed_def storable_def request_key_def)
  qed
  moreover have "queue_dirs.single project ?d"
    unfolding queue_dirs.single_def
  proof (intro ballI impI, elim conjE)
    fix a b i
    assume "a \<in> states_of project" "b \<in> states_of project" "i \<in> request_ids"
      and "fs_file ?d (request_key project a i) \<noteq> None" "fs_file ?d (request_key project b i) \<noteq> None"
    moreover from this have "plain_path (request_key project a i)" "plain_path (request_key project b i)"
      using plain_request_key by (simp_all only: states_of_def mem_Collect_eq)
    ultimately have "request_key project a i = ?k" "request_key project b i = ?k"
      using only by blast+
    then show "a = b" by simp
  qed
  ultimately show ?thesis using plain by (simp add: queue_inv_def)
qed

lemma ensured_dirs:
  assumes "plain_path project" and "q \<in> set (fs_dirs (ensure_cloud_queue_dirs project d))"
  shows "q \<in> set (fs_dirs d) \<or> length q \<le> length project + 3"
  using assms
  by (auto simp: ensure_cloud_queue_dirs_def dest!: mkdir_dirs) (simp_all add: queue_root_def)

lemma one_request_readable_at:
  assumes "storable project r" and files: "fs_files e = fs_files (one_request_disk project r)"
    and dirs: "\<And>q. q \<in> set (fs_dirs e) \<Longrightarrow> length q \<le> length project + 3"
  shows "readable c project e"
proof -
  let ?d = "ensure_cloud_queue_dirs project e"
  let ?k = "request_key project (rq_state r) (rq_request_id r)"
  let ?R = "queue_root project @ [''requests'']"
  have plain: "plain_path ?k" "plain_path project"
    using assms plain_request_key by (simp_all add: storable_def)
  have "p = ?k" if p: "p \<in> set (request_files project ?d)" for p
  proof -
    from p obtain s n where sn: "p = ?R @ [s, n]" "n \<in> set (child_files ?d (?R @ [s])) \<or> n \<in> set (child_dirs ?d (?R @ [s]))"
      by (auto simp: request_files_def Let_def)
    from sn(2) show "p = ?k"
    proof
      assume "n \<in> set (child_files ?d (?R @ [s]))"
      then show ?thesis by (auto simp: child_files_iff one_request_file files sn(1) split: if_splits)
    next
      assume "n \<in> set (child_dirs ?d (?R @ [s]))"
      then obtain t where "(?R @ [s]) @ n # t \<in> set (fs_dirs ?d) \<union> fst ` set (fs_files ?d)"
        using child_dirs_cases by blast
      moreover have "(?R @ [s]) @ n # t \<notin> set (fs_dirs ?d)"
        using ensured_dirs [OF plain(2)] dirs by (fastforce simp: queue_root_def)
      ultimately have "(?R @ [s]) @ n # t = ?k" by (auto simp: one_request_file files)
      then show ?thesis by (simp add: sn(1) request_key_def)
    qed
  qed
  moreover have "load_request c ?d ?k = Inr r"
    by (rule load_same_files [OF plain(1), THEN trans, OF _ one_request_load [OF assms(1)]]) (simp add: files)
  ultimately have "is_ok (rmap_list (\<lambda>p. rbind (load_request c ?d p) (\<lambda>r. Inr (p, r))) (request_files project ?d))"
    by (intro rmap_list_ok) (auto simp: is_ok_iff)
  then show ?thesis by (simp add: readable_def load_requests_def)
qed

lemma one_request_readable:
  "storable project r \<Longrightarrow> readable c project (one_request_disk project r)"
  by (rule one_request_readable_at) (simp_all add: one_request_disk_def)

lemma one_request_named:
  "storable project r \<Longrightarrow> names_request c project (one_request_disk project r) (rq_request_id r) r"
  using one_request_load by (simp add: names_request_def storable_def request_ids_def)

lemma one_request_dirs:
  assumes "storable project r" and "fs_files e = fs_files (one_request_disk project r)"
    and "\<And>q. q \<in> set (fs_dirs e) \<Longrightarrow> length q < length project + 5" and "length p = length project + 5"
    and "plain_path p"
  shows "fs_exists e p \<longleftrightarrow> p = request_key project (rq_state r) (rq_request_id r)"
proof -
  let ?k = "request_key project (rq_state r) (rq_request_id r)"
  have "below p q = None" if "q \<in> set (fs_dirs e)" for q
    using assms(3) [OF that] assms(4) by (cases "below p q") (auto simp: below_iff)
  moreover have "below p ?k = None \<or> ?k = p"
  proof (cases "below p ?k")
    case (Some a)
    then have k: "?k = p @ a" by (simp add: below_iff)
    then have "length ?k = length p + length a" by simp
    then show ?thesis using assms(4) k by (simp add: request_key_def queue_root_def)
  qed simp
  ultimately have "\<not> fs_is_dir e p"
    unfolding fs_is_dir_def list_ex_iff assms(2) one_request_file by simp
  then show ?thesis
    unfolding fs_exists_def fs_file_plain [OF assms(5)] lexical_plain [OF assms(5)] assms(2)
      one_request_file by simp
qed

lemma singleton_list:
  assumes "distinct xs" and "a \<in> set xs" and "\<forall>b \<in> set xs. b = a"
  shows "xs = [a]"
proof (cases xs)
  case (Cons b ys)
  with assms have "b = a" "a \<notin> set ys" "\<forall>c \<in> set ys. c = a" by auto
  then have "ys = []" by (cases ys) auto
  with Cons \<open>b = a\<close> show ?thesis by simp
qed (use assms in simp)

lemma one_ensured_dirs:
  "storable project r \<Longrightarrow>
   q \<in> set (fs_dirs (ensure_cloud_queue_dirs project (one_request_disk project r))) \<Longrightarrow>
   length q \<le> length project + 3"
  using ensured_dirs [of project q "one_request_disk project r"]
  by (auto simp: storable_def one_request_disk_def)

lemma create_start:
  assumes "normalize_request_id i = Inr i"
    and "create_cloud_queue_request c env project story title details blocker_type reqs [] [] []
      notes task revision (Some i) batch_factory d = (x, e)"
  shows "\<exists>u ev ids. rq_state u = ''ready'' \<and> rq_request_id u = i \<and> wf_request u
    \<and> pbind (save_request project u False) (\<lambda>_.
        pbind (append_audit_event c project ev None 0) (\<lambda>_.
        pbind (plift (request_with u [(''audit_event_ids'', pstrs ids)])) (\<lambda>r'.
        pbind (save_request project r' True) (\<lambda>_. pret \<lparr>cq_request = r',
           cq_request_path = request_state_path project (rq_request_id r') (rq_state r'),
           cq_created_at = rq_created_at r', cq_audit_event_id = hd ids\<rparr>)))) (ensure_cloud_queue_dirs project d) = (x, e)"
  using assms
  by (simp add: create_cloud_queue_request_def Let_def normalize_writable_paths_def)
    (rule exI, rule conjI [rotated], rule conjI [rotated], rule conjI [rotated], rule exI,
     rule exI [of _ "[_]"], simp, simp_all add: wf_request_def)

lemma one_request_candidates:
  assumes st: "storable project r"
  shows "list_request_paths project (rq_request_id r) (one_request_disk project r)
    = (Inr [request_key project (rq_state r) (rq_request_id r)],
       ensure_cloud_queue_dirs project (one_request_disk project r))"
proof -
  let ?d = "ensure_cloud_queue_dirs project (one_request_disk project r)"
  let ?R = "queue_root project @ [''requests'']" and ?i = "rq_request_id r"
  let ?k = "request_key project (rq_state r) ?i"
  have plain: "plain_path ?k" "plain_path project" "plain_name (?i @ ''.yaml'')"
    using st plain_request_key request_file_name by (simp_all add: storable_def)
  have only: "c = rq_state r" if "c \<in> set (child_dirs ?d ?R)" for c
  proof -
    from child_dirs_cases [OF that] obtain t where
      t: "?R @ c # t \<in> set (fs_dirs ?d) \<union> fst ` set (fs_files ?d)" by blast
    have "?R @ c # t \<notin> set (fs_dirs ?d)"
      using one_ensured_dirs [OF st] by (fastforce simp: queue_root_def)
    with t show ?thesis by (simp add: one_request_file request_key_def)
  qed
  have "rq_state r \<in> set (child_dirs ?d ?R)"
    by (rule child_dirs_file [where e = "?i @ ''.yaml''" and r = "[]" and v = "Doc (PDict (request_to_dict r))"])
      (simp add: one_request_file request_key_def)
  moreover have "distinct (child_dirs ?d ?R)" by (simp add: child_dirs_def)
  ultimately have "child_dirs ?d ?R = [rq_state r]"
    using only by (intro singleton_list) blast+
  moreover have "fs_exists ?d ?k" using plain(1) by (simp add: fs_exists_def one_request_file)
  ultimately show ?thesis
    using plain(3) by (simp add: list_request_paths_def Let_def request_key_def)
qed

subsection \<open>Steps of the queue\<close>

text \<open>
  One call of a command, whatever it returns. A new request has an identifier no state
  directory knows; an imported response names its request by an accepted identifier; the
  batch names of the requests to export are plain names.
\<close>

inductive queue_step :: "export_codecs \<Rightarrow> path \<Rightarrow> disk \<Rightarrow> disk \<Rightarrow> bool" for x project where
  decide: "run_command (base_codecs x) env project cmd d = (y, e) \<Longrightarrow> queue_step x project d e"
| create: "create_cloud_queue_request (base_codecs x) env project story title details blocker_type reqs
     paths deps files notes task revision id_factory batch_factory d = (y, e) \<Longrightarrow>
   (\<And>res. y = Inr res \<Longrightarrow> fresh_id project d (rq_request_id (cq_request res))) \<Longrightarrow>
   queue_step x project d e"
| import_one: "import_single_response (base_codecs x) env project data raw source name d = (y, e) \<Longrightarrow>
   (\<And>p. response_from_dict data (Some source) = Inr p \<Longrightarrow> rs_request_id p \<in> request_ids) \<Longrightarrow>
   queue_step x project d e"
| export: "export_cloud_queue_request x env project request_id all_ready d = (Inr res, e) \<Longrightarrow>
   (\<And>r. ready_on_disk (base_codecs x) project d r \<Longrightarrow> plain_name (rq_batch_id r)) \<Longrightarrow>
   queue_step x project d e"

inductive_cases queue_stepE: "queue_step x project d e"

text \<open>What a step does to the request with one identifier.\<close>

definition step_moves :: "codecs \<Rightarrow> path \<Rightarrow> disk \<Rightarrow> disk \<Rightarrow> string \<Rightarrow> bool" where
  "step_moves c project d e i \<longleftrightarrow>
     (\<forall>s \<in> set QUEUE_STATES. fs_file e (request_key project s i) = fs_file d (request_key project s i))
     \<or> fresh_id project d i
     \<or> (\<exists>s t r. validate_transition s t = Inr () \<and> load_request c d (request_key project s i) = Inr r)"

lemma same_files_moves:
  "queue_inv c project d \<Longrightarrow> fs_files e = fs_files d \<Longrightarrow> i \<in> request_ids \<Longrightarrow> step_moves c project d e i"
  using key_plain_inv by (simp add: step_moves_def)

lemma others_moves:
  assumes "others_kept project d e j" and "i \<in> request_ids"
    and "i = j \<Longrightarrow> step_moves c project d e i"
  shows "step_moves c project d e i"
  using assms by (cases "i = j") (auto simp: step_moves_def others_kept_def)

lemma import_fails_early:
  "response_from_dict data (Some source) = Inl err \<Longrightarrow>
   import_single_response c env project data raw source name d = (Inl err, d)"
  by (simp add: import_single_response_def)

text \<open>Every program of the queue keeps files and directories under plain paths.\<close>

lemma keeps_plain_writes [keeps_intros]:
  "keeps plain_disk (pmodify (fs_mkdir p))"
  "keeps plain_disk (pmodify (fs_write p v))"
  "keeps plain_disk (pmodify (ensure_cloud_queue_dirs project))"
  "keeps plain_disk (pmodify (\<lambda>d. fs_write p (f d) d))"
  "keeps plain_disk (pmodify (\<lambda>d. if g d then fs_unlink p d else d))"
  by (auto intro!: keeps_pmodify simp: ensure_cloud_queue_dirs_def)

lemma keeps_plain_store [keeps_intros]:
  "keeps plain_disk (load_requests c project)"
  "keeps plain_disk (save_request project r b)"
  "keeps plain_disk (move_request project r s b)"
  "keeps plain_disk (append_audit_event c project event factory k)"
  "keeps plain_disk (record_approval project r checksum b note at)"
  unfolding load_requests_def save_request_def move_request_def append_audit_event_def
    record_approval_def by (intro keeps_intros)+

lemma keeps_plain_service [keeps_intros]:
  "keeps plain_disk (locate_request c project i)"
  "keeps plain_disk (generate_request_id c project now)"
  "keeps plain_disk (conclude c env project event u i t dec note)"
  unfolding locate_request_def generate_request_id_def conclude_def by (intro keeps_intros)+

lemma keeps_plain_simple [keeps_intros]:
  "keeps plain_disk (simple_decision c env project i et t na details note r)"
  unfolding simple_decision_def by (intro keeps_intros)

lemma keeps_plain_commands: "keeps plain_disk (run_command c env project cmd)"
  by (cases cmd) (simp_all only: run_command.simps reject_unfold cancel_unfold fail_unfold
    approve_cloud_queue_request_def, (intro keeps_intros)+)

lemma keeps_plain_create:
  "keeps plain_disk (create_cloud_queue_request c env project story title details blocker_type reqs
     paths deps files notes task revision id_factory batch_factory)"
  unfolding create_cloud_queue_request_def by (intro keeps_intros)

lemma same_plain_inv:
  "queue_inv c project d \<Longrightarrow> fs_files e = fs_files d \<Longrightarrow> plain_disk e \<Longrightarrow> queue_inv c project e"
  by (rule same_files_inv) (auto simp: queue_inv_def)

lemma step_facts:
  assumes "queue_step x project d e" and inv: "queue_inv (base_codecs x) project d"
  shows "queue_inv (base_codecs x) project e \<and> (\<forall>i \<in> request_ids. step_moves (base_codecs x) project d e i)"
  using assms(1)
proof (cases rule: queue_step.cases)
  case (decide env cmd y)
  from run_command_outcome [OF inv decide] show ?thesis
  proof (elim disjE exE conjE)
    fix err assume same: "fs_files e = fs_files d"
    have "plain_disk e" using keepsD [OF keeps_plain_commands decide] inv by (simp add: queue_inv_def)
    with same_plain_inv [OF inv same] same_files_moves [OF inv same] show ?thesis by blast
  next
    fix r res
    assume made: "decision_made (base_codecs x) project (command_id cmd) (command_target cmd) r res d e"
    then obtain u event where dec: "decided (base_codecs x) project r u event d e"
      by (auto simp: decision_made_def)
    have "step_moves (base_codecs x) project d e i" if "i \<in> request_ids" for i
      by (rule others_moves [OF _ that, of _ _ _ "rq_request_id r"])
        (use dec made in \<open>auto simp: decided_def decision_made_def step_moves_def\<close>)
    with dec show ?thesis by (simp add: decided_def)
  qed
next
  case (create env story title details blocker_type reqs paths deps files remarks task revision id_factory batch_factory y)
  from create_outcome [OF inv create(1)] show ?thesis
  proof (elim disjE exE conjE)
    fix err assume same: "fs_files e = fs_files d"
    have "plain_disk e" using keepsD [OF keeps_plain_create create(1)] inv by (simp add: queue_inv_def)
    with same_plain_inv [OF inv same] same_files_moves [OF inv same] show ?thesis by blast
  next
    fix res i
    assume y: "y = Inr res" "rq_request_id (cq_request res) = i" "others_kept project d e i"
      "fresh_id project d i \<longrightarrow> queue_inv (base_codecs x) project e"
    then have fresh: "fresh_id project d i" using create(2) by blast
    have "step_moves (base_codecs x) project d e j" if "j \<in> request_ids" for j
      by (rule others_moves [OF y(3) that]) (use fresh in \<open>simp add: step_moves_def\<close>)
    with fresh y(4) show ?thesis by blast
  qed
next
  case (import_one env data raw source name y)
  show ?thesis
  proof (cases "response_from_dict data (Some source)")
    case (Inl err)
    with import_fails_early import_one(1) have "e = d" by (metis prod.inject)
    then show ?thesis using inv by (simp add: step_moves_def)
  next
    case (Inr p)
    from import_steps [OF inv Inr import_one(2) [OF Inr] import_one(1)] show ?thesis
    proof (elim disjE exE conjE)
      fix err assume e: "only_changes {imports_file project (rs_request_id p)} d e"
        "queue_inv (base_codecs x) project e"
      have "step_moves (base_codecs x) project d e i" if "i \<in> request_ids" for i
        using only_changesD [OF e(1)] key_plain_inv [OF inv _ that]
        by (simp add: step_moves_def imports_file_def request_key_def)
      with e(2) show ?thesis by blast
    next
      fix res r k u
      assume "imported (base_codecs x) project p r k u d e"
      then have imp: "others_kept project d e (rq_request_id r)" "queue_inv (base_codecs x) project e"
        "validate_transition (rq_state r) ''imported'' = Inr ()"
        "load_request (base_codecs x) d (request_key project (rq_state r) (rq_request_id r)) = Inr r"
        by (simp_all add: imported_def)
      have "step_moves (base_codecs x) project d e i" if "i \<in> request_ids" for i
        by (rule others_moves [OF imp(1) that]) (use imp in \<open>auto simp: step_moves_def\<close>)
      with imp show ?thesis by blast
    qed
  qed
next
  case (export env request_id all_ready res)
  let ?c = "base_codecs x"
  note out = export_outcome [OF inv export(2) export(1)]
  have "step_moves ?c project d e i" if i: "i \<in> request_ids" for i
  proof (cases "i \<in> set (xr_request_ids res)")
    case True
    with out obtain r where "rq_request_id r = i" "ready_on_disk ?c project d r" by blast
    then have "load_request ?c d (request_key project ''ready'' i) = Inr r"
      by (auto simp: ready_on_disk_def)
    moreover have "validate_transition ''ready'' ''exported'' = Inr ()"
      by (simp add: validate_transition_ok QUEUE_STATES_def)
    ultimately show ?thesis unfolding step_moves_def by blast
  next
    case False
    with out i show ?thesis by (simp add: step_moves_def)
  qed
  with out show ?thesis by blast
qed

lemma steps_inv:
  "(queue_step x project)\<^sup>*\<^sup>* d e \<Longrightarrow> queue_inv (base_codecs x) project d \<Longrightarrow>
   queue_inv (base_codecs x) project e"
  by (induction rule: rtranclp_induct) (use step_facts in auto)

lemma inv_empty: "plain_path project \<Longrightarrow> queue_inv c project \<lparr>fs_files = [], fs_dirs = []\<rparr>"
  by (simp add: queue_inv_def placed_def plain_disk_def queue_dirs.single_def fs_file_def)

lemma inv_one_place:
  assumes "queue_inv c project d" "s \<in> set QUEUE_STATES" "t \<in> set QUEUE_STATES" "i \<in> request_ids"
    and "fs_file d (request_key project s i) \<noteq> None" "fs_file d (request_key project t i) \<noteq> None"
  shows "s = t"
proof -
  have "queue_dirs.single project d" using assms(1) unfolding queue_inv_def by blast
  moreover have "s \<in> states_of project" "t \<in> states_of project"
    using assms(1-3) by (simp_all add: queue_inv_def states_of_def)
  ultimately show ?thesis using assms(4-6) unfolding queue_dirs.single_def by blast
qed

lemma moves_unallowed:
  assumes "step_moves c project d e i" and "queue_inv c project d" and "i \<in> request_ids"
    and "s \<in> set TERMINAL_QUEUE_STATES" and "load_request c d (request_key project s i) = Inr r"
  shows "load_request c e (request_key project s i) = Inr r"
proof -
  have "list_all (\<lambda>s. s \<in> set QUEUE_STATES) TERMINAL_QUEUE_STATES"
    by (simp add: TERMINAL_QUEUE_STATES_def QUEUE_STATES_def)
  then have s: "s \<in> set QUEUE_STATES" using assms(4) by (simp add: list_all_iff)
  from assms(1) consider (kept) "fs_file e (request_key project s i) = fs_file d (request_key project s i)"
    | (fresh) "fresh_id project d i"
    | (move) t u q where "validate_transition t u = Inr ()" "load_request c d (request_key project t i) = Inr q"
    unfolding step_moves_def using s by blast
  then show ?thesis
  proof cases
    case kept
    then show ?thesis using load_request_cong [OF kept] assms(5) by simp
  next
    case fresh
    then show ?thesis using load_request_file [OF assms(5)] s by (simp add: fresh_id_def)
  next
    case move
    from transition_facts [OF move(1)] have "t \<in> set QUEUE_STATES" by simp
    from single_file [OF assms(2) this s assms(3) move(2) assms(5)] have "t = s" .
    with valid_not_terminal(2) [OF move(1)] assms(4) show ?thesis
      by (simp add: TERMINAL_QUEUE_STATES_def)
  qed
qed

lemma steps_terminal:
  assumes "(queue_step x project)\<^sup>*\<^sup>* d e" and "queue_inv (base_codecs x) project d"
    and "i \<in> request_ids" and "s \<in> set TERMINAL_QUEUE_STATES"
    and "load_request (base_codecs x) d (request_key project s i) = Inr r"
  shows "load_request (base_codecs x) e (request_key project s i) = Inr r"
  using assms(1)
proof (induction rule: rtranclp_induct)
  case base
  then show ?case by (rule assms(5))
next
  case (step f g)
  have "queue_inv (base_codecs x) project f" by (rule steps_inv [OF step(1) assms(2)])
  with step_facts [OF step(2)] moves_unallowed step.IH assms(3,4) show ?case by blast
qed

subsection \<open>Properties\<close>




lemma sample_storable:
  "s \<in> set QUEUE_STATES \<Longrightarrow> storable [''p''] (sample_request\<lparr>rq_state := s\<rparr>)"
proof -
  have "normalize_request_id ''CQ-1'' = Inr ''CQ-1''" by code_simp
  then show "s \<in> set QUEUE_STATES \<Longrightarrow> storable [''p''] (sample_request\<lparr>rq_state := s\<rparr>)"
    by (simp add: storable_def sample_request_def wf_request_def request_ids_def)
qed


text \<open>
  C3: a decision succeeds exactly when it is allowed: approving needs the state
  approval_required and a checksum that agrees with the recorded one, rejecting, canceling
  and failing need a transition of the table. All request files must be readable.
\<close>

theorem decision_succeeds_iff:
  assumes "queue_inv c project d" and "readable c project d"
    and "names_request c project d (command_id cmd) r"
  shows "is_ok (fst (run_command c env project cmd d)) \<longleftrightarrow> command_allowed cmd r"
proof
  obtain x e where run: "run_command c env project cmd d = (x, e)" by fastforce
  assume "is_ok (fst (run_command c env project cmd d))"
  with run run_command_outcome [OF assms(1) run] obtain q res where
    made: "decision_made c project (command_id cmd) (command_target cmd) q res d e" "command_allowed cmd q"
    by auto
  then have "rq_state q \<in> set QUEUE_STATES"
    using transition_facts by (auto simp: decision_made_def)
  with named_unique [OF assms(1,3)] made show "command_allowed cmd r"
    by (auto simp: decision_made_def)
next
  assume "command_allowed cmd r"
  with run_command_complete [OF assms] show "is_ok (fst (run_command c env project cmd d))"
    by (auto simp: is_ok_iff) (metis fst_conv)
qed

theorem decision_succeeds_iff_witness:
  "\<not> is_ok (fst (run_command sample_codecs \<lparr>ce_now = (\<lambda>_. ''t''), ce_ids = None\<rparr> [''p'']
      (Approve ''CQ-1'' None ''ok'') (one_request_disk [''p''] sample_request)))
   \<and> is_ok (fst (run_command sample_codecs \<lparr>ce_now = (\<lambda>_. ''t''), ce_ids = None\<rparr> [''p'']
      (Fail ''CQ-1'' ''lost'') (one_request_disk [''p''] sample_request)))"
proof -
  have st: "storable [''p''] sample_request"
    using sample_storable [of "''exported''"] by (simp add: QUEUE_STATES_def sample_request_def)
  have id: "rq_request_id sample_request = ''CQ-1''" "rq_state sample_request = ''exported''"
    by (simp_all add: sample_request_def)
  note named = one_request_named [OF st, of sample_codecs, unfolded id]
  note iff = decision_succeeds_iff [OF one_request_inv [OF st] one_request_readable [OF st], where r = sample_request]
  show ?thesis
    by (subst iff, simp add: named, subst iff, simp add: named)
      (simp add: id validate_transition_ok QUEUE_STATES_def)
qed

text \<open>
  C4: a decision is made as a whole or not at all: a refused command changes no file; one
  that returns has moved the request from its old place to the directory of the new state,
  with exactly one new line in the audit log, and left all other requests alone.
\<close>

theorem decision_all_or_nothing:
  assumes "queue_inv c project d" and "run_command c env project cmd d = (x, e)"
  shows "(\<exists>err. x = Inl err \<and> fs_files e = fs_files d)
    \<or> (\<exists>r res event. x = Inr res \<and> decided c project r (dr_request res) event d e
         \<and> rq_state (dr_request res) = command_target cmd
         \<and> load_request c d (request_key project (rq_state r) (rq_request_id r)) = Inr r)"
  using run_command_outcome [OF assms] unfolding decision_made_def by blast

theorem decision_all_or_nothing_witness:
  "\<exists>res e r event. run_command sample_codecs \<lparr>ce_now = (\<lambda>_. ''t''), ce_ids = None\<rparr> [''p'']
      (Fail ''CQ-1'' ''lost'') (one_request_disk [''p''] sample_request) = (Inr res, e)
    \<and> decided sample_codecs [''p''] r (dr_request res) event (one_request_disk [''p''] sample_request) e
    \<and> rq_state (dr_request res) = ''failed''"
proof -
  let ?env = "\<lparr>ce_now = (\<lambda>_. ''t''), ce_ids = None\<rparr>"
  have st: "storable [''p''] sample_request"
    using sample_storable [of "''exported''"] by (simp add: QUEUE_STATES_def sample_request_def)
  have id: "rq_request_id sample_request = ''CQ-1''" "rq_state sample_request = ''exported''"
    by (simp_all add: sample_request_def)
  obtain res e where run: "run_command sample_codecs ?env [''p'']
      (Fail ''CQ-1'' ''lost'') (one_request_disk [''p''] sample_request) = (Inr res, e)"
    using run_command_complete [OF one_request_inv [OF st] one_request_readable [OF st], of sample_codecs
        "Fail ''CQ-1'' ''lost''" sample_request ?env] one_request_named [OF st, of sample_codecs] id
    by (auto simp: validate_transition_ok QUEUE_STATES_def)
  from decision_all_or_nothing [OF one_request_inv [OF st] run] run show ?thesis by auto
qed

text \<open>
  An import that the state of its request forbids raises, but only after it has
  overwritten the stored response of that request: the check of the transition comes after
  the write. Here the request is the only one of its project.
\<close>

theorem refused_import_overwrites:
  assumes "storable project r" and "validate_transition (rq_state r) ''imported'' = Inl err"
    and "response_from_dict data (Some source) = Inr response"
    and "rs_request_id response = rq_request_id r"
    and "classify_response r response = Inr comparison"
  shows "\<exists>e. import_single_response c env project data raw source name (one_request_disk project r)
      = (Inl err, e)
    \<and> fs_file e (imports_file project (rq_request_id r)) = Some (Doc (PDict (response_to_dict response)))"
proof -
  let ?d = "ensure_cloud_queue_dirs project (one_request_disk project r)"
  let ?i = "rq_request_id r" and ?I = "imports_file project (rq_request_id r)"
  note cand = one_request_candidates [OF assms(1)]
  have i: "?i \<in> request_ids" "?i \<noteq> []" and wf: "wf_request r" and proj: "plain_path project"
    using assms(1) by (auto simp: storable_def request_ids_def normalize_request_id_ok)
  have name: "plain_name (?i @ ''.yaml'')" by (rule request_file_name [OF i(1)])
  have load: "load_request c ?d (request_key project (rq_state r) ?i) = Inr r"
    using assms(1) plain_request_key
    by (intro load_same_files [THEN trans, OF _ _ one_request_load [OF assms(1)]])
      (simp_all add: storable_def)
  let ?e = "fs_write ?I (Doc (PDict (response_to_dict response))) (fs_mkdir (butlast ?I) (ensure_cloud_queue_dirs project ?d))"
  have "save_imported_response project response ?d = (Inr ?I, ?e)"
    using name by (simp add: save_imported_response_def Let_def imported_response_path_def
        imports_file_def assms(4))
  then have "import_single_response c env project data raw source name (one_request_disk project r) = (Inl err, ?e)"
    using cand load i assms(2-5) imported_copy [OF wf]
    by (simp add: import_single_response_def Let_def pbind_Inr)
  moreover have "plain_path ?I" using proj name by (simp add: imports_file_def plain_name_def)
  ultimately show ?thesis by simp
qed

theorem refused_import_overwrites_witness:
  "\<exists>e err. import_single_response sample_codecs \<lparr>ce_now = (\<lambda>_. ''t''), ce_ids = None\<rparr> [''p'']
      (response_to_dict (sample_response [] [(''applicable_requirements'', pstrs [''R1''])])) ''raw'' ''f'' ''f''
      (one_request_disk [''p''] (sample_request\<lparr>rq_state := ''approved''\<rparr>)) = (Inl err, e)
    \<and> fs_file e (imports_file [''p''] ''CQ-1'') \<noteq> None"
proof -
  let ?r = "sample_request\<lparr>rq_state := ''approved''\<rparr>"
  let ?p = "sample_response [] [(''applicable_requirements'', pstrs [''R1''])]"
  have st: "storable [''p''] ?r" by (rule sample_storable) (simp add: QUEUE_STATES_def)
  have id: "rq_request_id ?r = ''CQ-1''" by (simp add: sample_request_def)
  obtain err where err: "validate_transition (rq_state ?r) ''imported'' = Inl err"
  proof (cases "validate_transition (rq_state ?r) ''imported''")
    case (Inr u)
    then have "validate_transition ''approved'' ''imported'' = Inr ()" by simp
    then show thesis unfolding validate_transition_ok by simp
  qed
  have same_class: "classify_response ?r q = classify_response sample_request q" for q
  proof -
    have "compare_requirements ?r cl = compare_requirements sample_request cl"
      "compare_writable_paths ?r cl = compare_writable_paths sample_request cl"
      "compare_scope ?r cl = compare_scope sample_request cl"
      "compare_dependencies ?r cl = compare_dependencies sample_request cl" for cl
      by (simp_all add: compare_requirements_def compare_writable_paths_def compare_scope_def
          compare_dependencies_def)
    then show ?thesis by (simp add: classify_response_def)
  qed
  obtain k where k: "classify_response ?r ?p = Inr k"
    using sample_classes(1) unfolding same_class sample_safe_def is_ok_iff by blast
  have k': "classify_response ?r (?p\<lparr>rs_source_file := Some ''f''\<rparr>) = Inr k"
    using k by (simp add: classify_response_def sample_response_def)
  from refused_import_overwrites [OF st err response_roundtrip _ k'] id show ?thesis
    by (fastforce simp: sample_response_def)
qed



text \<open>
  Creating a request checks only the directory of ready requests: with an identifier that
  is in use in another state it succeeds, and the identifier then has two files.
\<close>

theorem create_duplicates_identifier:
  assumes "storable project r" and "rq_state r \<noteq> ''ready''"
  shows "\<exists>res e. create_cloud_queue_request c env project story title details blocker_type reqs [] [] []
      notes task revision (Some (rq_request_id r)) batch_factory (one_request_disk project r) = (Inr res, e)
    \<and> fs_file e (request_key project (rq_state r) (rq_request_id r)) \<noteq> None
    \<and> fs_file e (request_key project ''ready'' (rq_request_id r)) \<noteq> None"
proof -
  let ?disk = "one_request_disk project r" and ?i = "rq_request_id r"
  let ?d = "ensure_cloud_queue_dirs project ?disk" and ?n = "request_key project ''ready'' (rq_request_id r)"
  have inv: "queue_inv c project ?disk" by (rule one_request_inv [OF assms(1)])
  have i: "?i \<in> request_ids" and known: "rq_state r \<in> set QUEUE_STATES" and proj: "plain_path project"
    using assms(1) by (simp_all add: storable_def)
  have ready: "''ready'' \<in> set QUEUE_STATES" by (simp add: QUEUE_STATES_def)
  have norm: "normalize_request_id ?i = Inr ?i" using i by (simp add: request_ids_def)
  have plain: "plain_path ?n" by (rule plain_request_key [OF proj ready i])
  let ?e = "fs_mkdir (butlast ?n) (ensure_cloud_queue_dirs project ?d)"
  have short: "length q < length project + 5" if "q \<in> set (fs_dirs ?e)" for q
  proof -
    have "plain_path (butlast ?n)" using plain by (simp add: request_key_def butlast_append)
    from mkdir_dirs [OF that this] ensured_dirs [OF proj, of q ?d] one_ensured_dirs [OF assms(1), of q]
    show ?thesis by (auto simp: request_key_def queue_root_def butlast_append)
  qed
  have free: "\<not> fs_exists ?e ?n"
    using one_request_dirs [OF assms(1) _ short, of ?e ?n] plain assms(2)
    by (simp add: request_key_def queue_root_def)
  obtain x e where run: "create_cloud_queue_request c env project story title details blocker_type reqs [] [] []
      notes task revision (Some ?i) batch_factory ?disk = (x, e)" by fastforce
  then obtain u ev ids where u: "rq_state u = ''ready''" "rq_request_id u = ?i" "wf_request u"
    and tail: "pbind (save_request project u False) (\<lambda>_.
        pbind (append_audit_event c project ev None 0) (\<lambda>_.
        pbind (plift (request_with u [(''audit_event_ids'', pstrs ids)])) (\<lambda>r'.
        pbind (save_request project r' True) (\<lambda>_. pret \<lparr>cq_request = r',
           cq_request_path = request_state_path project (rq_request_id r') (rq_state r'),
           cq_created_at = rq_created_at r', cq_audit_event_id = hd ids\<rparr>)))) ?d = (x, e)"
    using create_start [OF norm run] by blast
  have outcome: "is_ok x"
    "load_request c e ?n = Inr (u\<lparr>rq_audit_event_ids := ids\<rparr>)"
    "fs_file e (request_key project (rq_state r) ?i) = fs_file ?disk (request_key project (rq_state r) ?i)"
    using create_tail [OF inv _ inv_ensure [OF inv] u(1) _ u(3) tail] free i assms(2) known
    unfolding u(2) by auto
  have "fs_file ?disk (request_key project (rq_state r) ?i) \<noteq> None"
    using plain_request_key [OF proj known i] by (simp add: one_request_file)
  with run outcome load_request_file [OF outcome(2)] show ?thesis by (auto simp: is_ok_iff)
qed

theorem create_duplicates_identifier_witness:
  "\<exists>res e. create_cloud_queue_request sample_codecs \<lparr>ce_now = (\<lambda>_. ''t''), ce_ids = None\<rparr> [''p'']
      ''s'' ''t'' ''d'' ''b'' [] [] [] [] [] [] [] (Some ''CQ-1'') None (one_request_disk [''p''] sample_request)
      = (Inr res, e)
    \<and> fs_file e (request_key [''p''] ''exported'' ''CQ-1'') \<noteq> None
    \<and> fs_file e (request_key [''p''] ''ready'' ''CQ-1'') \<noteq> None"
proof -
  have st: "storable [''p''] sample_request" "rq_state sample_request = ''exported''"
      "rq_request_id sample_request = ''CQ-1''"
    using sample_storable [of "''exported''"] by (simp_all add: QUEUE_STATES_def sample_request_def)
  show ?thesis using create_duplicates_identifier [OF st(1)] st by simp
qed

text \<open>Programs that always return.\<close>

definition returns :: "('s, 'a) prog \<Rightarrow> bool" where
  "returns m \<longleftrightarrow> (\<forall>d. \<exists>x e. m d = (Inr x, e))"

lemma returns_basic: "returns (pret x)" "returns (plift (Inr x))" "returns (pmodify g)" "returns (pget h)"
  by (simp_all add: returns_def)

lemma returns_pbind: "returns m \<Longrightarrow> (\<And>x. returns (f x)) \<Longrightarrow> returns (pbind m f)"
  unfolding returns_def by (metis pbind_Inr)

lemma returns_pread: "(\<And>d. is_ok (g d)) \<Longrightarrow> returns (pread g)"
  by (simp add: returns_def pread_def is_ok_iff; metis)

lemma returns_append: "returns (append_audit_event c project ev factory k)"
  by (simp add: returns_def append_audit_event_def Let_def)

lemmas returns_intros = returns_basic returns_pbind returns_append

lemma export_copy:
  assumes "wf_request r"
  shows "request_with r [(''prior_state'', PStr p), (''state'', PStr s)]
   = Inr (r\<lparr>rq_prior_state := p, rq_state := s\<rparr>)"
  using assms by (simp add: request_with_simps wf_request_def)

text \<open>A ready request without context files can be exported.\<close>

lemma export_one_returns:
  assumes "wf_request r" and "rq_state r = ''ready''" and "rq_context_files r = []"
  shows "returns (export_one x env project dir b n k r)"
proof -
  have "validate_transition ''ready'' ''exported'' = Inr ()"
    by (simp add: validate_transition_ok QUEUE_STATES_def)
  then show ?thesis
    unfolding export_one_def Let_def
    by (simp add: assms export_copy [OF assms(1)])
      (intro returns_intros returns_pread; simp add: build_context_def is_ok_iff)
qed

lemma move_returns: "returns (move_request project r s True)"
  unfolding move_request_def Let_def by simp (intro returns_intros)

lemma export_single_complete:
  assumes "wf_request r" and "rq_state r = ''ready''" and "rq_context_files r = []"
  shows "returns (export_requests x env project [r] b)"
proof -
  have loop: "returns (\<lambda>d. case export_loop x env project dir b (Suc 0) 0 [r] [] d of
         ((Some e, members), d') \<Rightarrow> (Inl e, fs_write q (Text (zip_bytes x members)) d')
       | ((None, members), d') \<Rightarrow> (Inr members, d'))" for dir q
    unfolding returns_def
  proof
    fix d
    obtain ms e where "export_one x env project dir b (Suc 0) 0 r d = (Inr ms, e)"
      using export_one_returns [OF assms] unfolding returns_def by blast
    then show "\<exists>y e. (case export_loop x env project dir b (Suc 0) 0 [r] [] d of
         ((Some e, members), d') \<Rightarrow> (Inl e, fs_write q (Text (zip_bytes x members)) d')
       | ((None, members), d') \<Rightarrow> (Inr members, d')) = (Inr y, e)" by simp
  qed
  have moves: "returns (export_moves env project packet k [r])" for packet k
    by (simp add: exported_copy [OF assms(1)]) (intro returns_intros move_returns)
  show ?thesis
    unfolding export_requests_def Let_def
    by (simp add: ensure_request_count_def MAX_REQUESTS_PER_BATCH_def)
      (intro returns_intros loop [simplified] moves [simplified])
qed


end
