(* ===== verification/BatchStateMachine.thy ===== *)
theory BatchStateMachine
  imports Transitions
begin

text \<open>
  \<open>cloud_batch/state_machine.py\<close>: the statuses of a batch, the table of allowed transitions and
  the functions that check a status and a transition.
\<close>

definition BATCH_STATUSES :: "string list" where
  "BATCH_STATUSES =
     [''draft'', ''ready'', ''exported'', ''awaiting_responses'', ''responses_imported'',
      ''validation_partial'', ''validation_complete'', ''planning'', ''planned'',
      ''applying'', ''partially_applied'', ''applied'', ''resume_pending'',
      ''resuming'', ''partially_resumed'', ''resumed'', ''partially_failed'',
      ''failed'', ''rollback_pending'', ''rolling_back'', ''partially_rolled_back'',
      ''rolled_back'', ''cancelled'', ''superseded'']"

definition BATCH_TERMINAL_STATUSES :: "string list" where
  "BATCH_TERMINAL_STATUSES =
     [''applied'', ''resumed'', ''failed'', ''rolled_back'', ''cancelled'', ''superseded'']"

definition BATCH_TRANSITION_MAP :: "(string \<times> string list) list" where
  "BATCH_TRANSITION_MAP =
     [(''draft'', [''ready'', ''cancelled'', ''superseded'']),
      (''ready'', [''exported'', ''cancelled'', ''superseded'']),
      (''exported'', [''awaiting_responses'', ''cancelled'', ''superseded'']),
      (''awaiting_responses'', [''responses_imported'', ''validation_partial'', ''cancelled'', ''superseded'']),
      (''responses_imported'', [''validation_partial'', ''validation_complete'', ''cancelled'', ''superseded'']),
      (''validation_partial'', [''validation_complete'', ''planning'', ''cancelled'', ''superseded'']),
      (''validation_complete'', [''planning'', ''cancelled'', ''superseded'']),
      (''planning'', [''planned'', ''failed'', ''cancelled'', ''superseded'']),
      (''planned'', [''applying'', ''resume_pending'', ''rollback_pending'', ''cancelled'', ''superseded'']),
      (''applying'', [''partially_applied'', ''applied'', ''failed'', ''rollback_pending'', ''cancelled'']),
      (''partially_applied'', [''applying'', ''applied'', ''failed'', ''rollback_pending'', ''cancelled'']),
      (''applied'', [''resume_pending'', ''rollback_pending'', ''superseded'']),
      (''resume_pending'', [''resuming'', ''cancelled'', ''superseded'']),
      (''resuming'', [''partially_resumed'', ''resumed'', ''partially_failed'', ''failed'', ''cancelled'']),
      (''partially_resumed'', [''resuming'', ''resumed'', ''partially_failed'', ''failed'', ''cancelled'']),
      (''resumed'', [''rollback_pending'', ''superseded'']),
      (''partially_failed'', [''planning'', ''retry_pending'', ''rollback_pending'', ''cancelled'']),
      (''failed'', [''retry_pending'', ''rollback_pending'', ''cancelled'', ''superseded'']),
      (''rollback_pending'', [''rolling_back'', ''cancelled'']),
      (''rolling_back'', [''partially_rolled_back'', ''rolled_back'', ''failed'']),
      (''partially_rolled_back'', [''rolling_back'', ''rolled_back'', ''failed'', ''cancelled'']),
      (''rolled_back'', []),
      (''cancelled'', []),
      (''superseded'', [])]"

definition allowed_batch_transitions :: "string \<Rightarrow> string list res" where
  "allowed_batch_transitions s = (case map_of BATCH_TRANSITION_MAP s of
     None \<Rightarrow> value_error (''Unknown batch state: '' @ s)
   | Some ts \<Rightarrow> Inr ts)"

definition validate_batch_status :: "string \<Rightarrow> unit res" where
  "validate_batch_status s = (if s \<in> set BATCH_STATUSES then Inr ()
     else value_error (''Invalid batch state: '' @ s @ ''. Expected one of: ''
            @ join '', '' BATCH_STATUSES @ ''.''))"

definition validate_batch_transition :: "string \<Rightarrow> string \<Rightarrow> unit res" where
  "validate_batch_transition current next =
     rbind (validate_batch_status current) (\<lambda>_.
     rbind (validate_batch_status next) (\<lambda>_.
     if current = next
     then value_error (''Repeated batch state transition is not allowed: '' @ current @ '' -> '' @ next)
     else rbind (allowed_batch_transitions current) (\<lambda>allowed.
       if next \<notin> set allowed
       then value_error (''Invalid batch transition: '' @ current @ '' -> '' @ next
              @ ''. Allowed transitions: '' @ str_or (join '', '' allowed) ''none'' @ ''.'')
       else Inr ())))"

definition is_terminal_batch_state :: "string \<Rightarrow> bool res" where
  "is_terminal_batch_state s = rbind (validate_batch_status s) (\<lambda>_. Inr (s \<in> set BATCH_TERMINAL_STATUSES))"

subsection \<open>The table\<close>

definition batch_succs :: "string \<Rightarrow> string list" where
  "batch_succs s = (case map_of BATCH_TRANSITION_MAP s of None \<Rightarrow> [] | Some ts \<Rightarrow> filter (\<lambda>t. t \<in> set BATCH_STATUSES) ts)"

lemma batch_succs_simps [simp]:
  "batch_succs ''draft'' = [''ready'', ''cancelled'', ''superseded'']"
  "batch_succs ''ready'' = [''exported'', ''cancelled'', ''superseded'']"
  "batch_succs ''exported'' = [''awaiting_responses'', ''cancelled'', ''superseded'']"
  "batch_succs ''awaiting_responses'' = [''responses_imported'', ''validation_partial'', ''cancelled'', ''superseded'']"
  "batch_succs ''responses_imported'' = [''validation_partial'', ''validation_complete'', ''cancelled'', ''superseded'']"
  "batch_succs ''validation_partial'' = [''validation_complete'', ''planning'', ''cancelled'', ''superseded'']"
  "batch_succs ''validation_complete'' = [''planning'', ''cancelled'', ''superseded'']"
  "batch_succs ''planning'' = [''planned'', ''failed'', ''cancelled'', ''superseded'']"
  "batch_succs ''planned'' = [''applying'', ''resume_pending'', ''rollback_pending'', ''cancelled'', ''superseded'']"
  "batch_succs ''applying'' = [''partially_applied'', ''applied'', ''failed'', ''rollback_pending'', ''cancelled'']"
  "batch_succs ''partially_applied'' = [''applying'', ''applied'', ''failed'', ''rollback_pending'', ''cancelled'']"
  "batch_succs ''applied'' = [''resume_pending'', ''rollback_pending'', ''superseded'']"
  "batch_succs ''resume_pending'' = [''resuming'', ''cancelled'', ''superseded'']"
  "batch_succs ''resuming'' = [''partially_resumed'', ''resumed'', ''partially_failed'', ''failed'', ''cancelled'']"
  "batch_succs ''partially_resumed'' = [''resuming'', ''resumed'', ''partially_failed'', ''failed'', ''cancelled'']"
  "batch_succs ''resumed'' = [''rollback_pending'', ''superseded'']"
  "batch_succs ''partially_failed'' = [''planning'', ''rollback_pending'', ''cancelled'']"
  "batch_succs ''failed'' = [''rollback_pending'', ''cancelled'', ''superseded'']"
  "batch_succs ''rollback_pending'' = [''rolling_back'', ''cancelled'']"
  "batch_succs ''rolling_back'' = [''partially_rolled_back'', ''rolled_back'', ''failed'']"
  "batch_succs ''partially_rolled_back'' = [''rolling_back'', ''rolled_back'', ''failed'', ''cancelled'']"
  "batch_succs ''rolled_back'' = []"
  "batch_succs ''cancelled'' = []"
  "batch_succs ''superseded'' = []"
  by (simp_all add: batch_succs_def BATCH_TRANSITION_MAP_def BATCH_STATUSES_def)

lemma batch_map_keys: "map fst BATCH_TRANSITION_MAP = BATCH_STATUSES"
  by (simp add: BATCH_TRANSITION_MAP_def BATCH_STATUSES_def)

lemma batch_allowed:
  "s \<in> set BATCH_STATUSES \<Longrightarrow> \<exists>ts. allowed_batch_transitions s = Inr ts \<and> batch_succs s = filter (\<lambda>t. t \<in> set BATCH_STATUSES) ts"
  by (auto simp: allowed_batch_transitions_def batch_succs_def map_of_eq_None_iff
      simp flip: batch_map_keys split: option.splits)

lemma batch_table_closed:
  "s \<in> set BATCH_STATUSES \<Longrightarrow> set (batch_succs s) \<subseteq> set BATCH_STATUSES \<and> s \<notin> set (batch_succs s)"
proof -
  have "list_all (\<lambda>s. set (batch_succs s) \<subseteq> set BATCH_STATUSES \<and> s \<notin> set (batch_succs s)) BATCH_STATUSES"
    by (simp add: BATCH_STATUSES_def)
  then show "s \<in> set BATCH_STATUSES \<Longrightarrow> set (batch_succs s) \<subseteq> set BATCH_STATUSES \<and> s \<notin> set (batch_succs s)"
    by (simp add: list_all_iff)
qed

lemma validate_batch_status_ok [simp]: "validate_batch_status s = Inr () \<longleftrightarrow> s \<in> set BATCH_STATUSES"
  by (simp add: validate_batch_status_def)

lemma validate_batch_transition_ok:
  "validate_batch_transition a b = Inr () \<longleftrightarrow> a \<in> set BATCH_STATUSES \<and> b \<in> set (batch_succs a)"
  using batch_table_closed [of a] batch_allowed [of a]
  by (force simp: validate_batch_transition_def)

lemma validate_batch_transition_error: "validate_batch_transition a b = Inl e \<Longrightarrow> exn_class e = ValueError"
  by (auto simp: validate_batch_transition_def validate_batch_status_def allowed_batch_transitions_def res_simps
      rbind_Inl_iff split: if_splits option.splits)

interpretation batch_table: transition_table BATCH_STATUSES batch_succs validate_batch_transition
  using batch_table_closed
  by unfold_locales (auto simp: validate_batch_transition_ok validate_batch_transition_error)

text \<open>
  The table offers \<open>retry_pending\<close> to a failed and to a partially failed batch, but it is
  no status: the check refuses every transition to it.
\<close>

theorem retry_pending_unreachable:
  "allowed_batch_transitions ''failed'' = Inr [''retry_pending'', ''rollback_pending'', ''cancelled'', ''superseded'']
   \<and> exn_msg (projl (validate_batch_transition ''failed'' ''retry_pending'')) =
     ''Invalid batch state: retry_pending. Expected one of: '' @ join '', '' BATCH_STATUSES @ ''.''
   \<and> (\<forall>s. validate_batch_transition s ''retry_pending'' \<noteq> Inr ())"
proof -
  have "''retry_pending'' \<notin> set BATCH_STATUSES" by (simp add: BATCH_STATUSES_def)
  then have "validate_batch_transition s ''retry_pending'' \<noteq> Inr ()" for s
    using batch_table.validate_states by blast
  moreover have "exn_msg (projl (validate_batch_transition ''failed'' ''retry_pending'')) =
      ''Invalid batch state: retry_pending. Expected one of: '' @ join '', '' BATCH_STATUSES @ ''.''"
    using \<open>''retry_pending'' \<notin> set BATCH_STATUSES\<close>
    by (simp add: validate_batch_transition_def validate_batch_status_def value_error_def)
      (simp add: BATCH_STATUSES_def)
  ultimately show ?thesis
    by (simp add: allowed_batch_transitions_def BATCH_TRANSITION_MAP_def)
qed

text \<open>A batch goes from draft to rolled back only through its plan: planning, planned, a rollback
  request and the roll-back itself lie on every path the table accepts.\<close>

theorem batch_rollback_path:
  assumes path: "accepted_path validate_batch_transition p" and "p \<noteq> []"
    and "hd p = ''draft''" and "last p = ''rolled_back''"
  shows "''planning'' \<in> set p \<and> ''rollback_pending'' \<in> set p \<and> ''rolling_back'' \<in> set p"
proof -
  note visits = batch_table.on_every_path [OF _ path assms(2)]
  let ?early = "[''draft'', ''ready'', ''exported'', ''awaiting_responses'', ''responses_imported'',
    ''validation_partial'', ''validation_complete'', ''cancelled'', ''superseded'']"
  let ?mid = "[''planning'', ''planned'', ''applying'', ''partially_applied'', ''applied'',
    ''resume_pending'', ''resuming'', ''partially_resumed'', ''resumed'', ''partially_failed'',
    ''failed''] @ ?early"
  have "''planning'' \<in> set p"
    by (rule visits [of _ ?early]) (simp_all add: closed_except_def assms)
  moreover have "''rollback_pending'' \<in> set p"
    by (rule visits [of _ ?mid]) (simp_all add: closed_except_def assms)
  moreover have "''rolling_back'' \<in> set p"
    by (rule visits [of _ "''rollback_pending'' # ?mid"]) (simp_all add: closed_except_def assms)
  ultimately show ?thesis by blast
qed

theorem batch_rollback_path_witness:
  "''planning'' \<in> set [''draft'', ''ready'', ''exported'', ''awaiting_responses'', ''validation_partial'',
     ''planning'', ''planned'', ''rollback_pending'', ''rolling_back'', ''rolled_back'']"
  by (rule batch_rollback_path [THEN conjunct1])
    (simp_all add: validate_batch_transition_ok BATCH_STATUSES_def)

end
