(* ===== verification/BatchModels.thy ===== *)
theory BatchModels
  imports BatchStateMachine PyValue
begin

text \<open>
  \<open>cloud_batch/models.py\<close>: the records of a batch, each with \<open>to_dict\<close>, \<open>from_dict\<close> and the
  lemma that reading back what was written gives the record; then the checks of a whole
  record. A dataclass is a record with the same fields; a tuple is a list. A record holds
  what the dataclass can hold, so the round trip asks for what YAML cannot keep apart: an
  optional text is not blank and has no surrounding blanks, and the dependency map is in the
  order in which it is written.
\<close>

definition BATCH_SCHEMA_VERSION :: int where "BATCH_SCHEMA_VERSION = 1"
definition ATTEMPT_SCHEMA_VERSION :: int where "ATTEMPT_SCHEMA_VERSION = 1"
definition BATCH_TYPE_CLOUD_QUEUE_ORCHESTRATION :: string where
  "BATCH_TYPE_CLOUD_QUEUE_ORCHESTRATION = ''cloud_queue_orchestration''"

subsection \<open>The dependency map\<close>

definition fmap_strs :: "pydict \<Rightarrow> string \<Rightarrow> (string \<times> string list) list res" where
  "fmap_strs d k = rbind (fdict d k) (rmap_list (\<lambda>(k, v).
     rbind (py_iter (py_or v (PList []))) (\<lambda>xs. Inr (k, map py_str xs))))"

lemma fmap_strs_Some [codec_simps]:
  "dget d k = Some (PDict (map (\<lambda>(k, v). (k, pstrs v)) m)) \<Longrightarrow> fmap_strs d k = Inr m"
  unfolding fmap_strs_def by (simp add: fdict_Some) (rule rmap_list_inverse; auto)

lemma fdicts_raw [codec_simps]: "dget d k = Some (PList (map PDict xs)) \<Longrightarrow> fdicts Inr d k = Inr xs"
  using fdicts_Some [of d k "\<lambda>x. x" xs Inr] by simp

lemma sort_key_sorted [simp]: "sorted (map fst m) \<Longrightarrow> sort_key fst m = m"
  by (rule sort_key_id_if_sorted)

subsection \<open>Records\<close>

record execution_policy =
  ep_manual_cloud_only :: bool
  ep_automatic_apply_enabled :: bool
  ep_automatic_resume_enabled :: bool
  ep_max_concurrency :: int
  ep_max_retry_attempts :: int
  ep_packet_size_limit_bytes :: int
  ep_response_bundle_limit_bytes :: int
  ep_request_limit :: int

definition execution_policy_to_dict :: "execution_policy \<Rightarrow> pydict" where
  "execution_policy_to_dict x =
     [(''manual_cloud_only'', PBool (ep_manual_cloud_only x)),
      (''automatic_apply_enabled'', PBool (ep_automatic_apply_enabled x)),
      (''automatic_resume_enabled'', PBool (ep_automatic_resume_enabled x)),
      (''max_concurrency'', PInt (ep_max_concurrency x)),
      (''max_retry_attempts'', PInt (ep_max_retry_attempts x)),
      (''packet_size_limit_bytes'', PInt (ep_packet_size_limit_bytes x)),
      (''response_bundle_limit_bytes'', PInt (ep_response_bundle_limit_bytes x)),
      (''request_limit'', PInt (ep_request_limit x))]"

definition execution_policy_from_dict :: "pydict \<Rightarrow> execution_policy res" where
  "execution_policy_from_dict d =
     rbind (fint 1 d ''max_concurrency'') (\<lambda>max_concurrency'.
     rbind (fint 3 d ''max_retry_attempts'') (\<lambda>max_retry_attempts'.
     rbind (fint 5242880 d ''packet_size_limit_bytes'') (\<lambda>packet_size_limit_bytes'.
     rbind (fint 5242880 d ''response_bundle_limit_bytes'') (\<lambda>response_bundle_limit_bytes'.
     rbind (fint 32 d ''request_limit'') (\<lambda>request_limit'.
     Inr \<lparr>ep_manual_cloud_only = fbool True d ''manual_cloud_only'',
       ep_automatic_apply_enabled = fbool False d ''automatic_apply_enabled'',
       ep_automatic_resume_enabled = fbool False d ''automatic_resume_enabled'',
       ep_max_concurrency = max_concurrency',
       ep_max_retry_attempts = max_retry_attempts',
       ep_packet_size_limit_bytes = packet_size_limit_bytes',
       ep_response_bundle_limit_bytes = response_bundle_limit_bytes',
       ep_request_limit = request_limit'\<rparr>)))))"

lemma execution_policy_get [simp]:
  "dget (execution_policy_to_dict x) ''manual_cloud_only'' = Some (PBool (ep_manual_cloud_only x))"
  "dget (execution_policy_to_dict x) ''automatic_apply_enabled'' = Some (PBool (ep_automatic_apply_enabled x))"
  "dget (execution_policy_to_dict x) ''automatic_resume_enabled'' = Some (PBool (ep_automatic_resume_enabled x))"
  "dget (execution_policy_to_dict x) ''max_concurrency'' = Some (PInt (ep_max_concurrency x))"
  "dget (execution_policy_to_dict x) ''max_retry_attempts'' = Some (PInt (ep_max_retry_attempts x))"
  "dget (execution_policy_to_dict x) ''packet_size_limit_bytes'' = Some (PInt (ep_packet_size_limit_bytes x))"
  "dget (execution_policy_to_dict x) ''response_bundle_limit_bytes'' = Some (PInt (ep_response_bundle_limit_bytes x))"
  "dget (execution_policy_to_dict x) ''request_limit'' = Some (PInt (ep_request_limit x))"
  by (simp_all add: execution_policy_to_dict_def)

lemma execution_policy_roundtrip [codec_simps]: "execution_policy_from_dict (execution_policy_to_dict x) = Inr x"
  by (simp add: execution_policy_from_dict_def codec_simps)

record batch_dependency_graph =
  bg_schema_version :: int
  bg_batch_id :: string
  bg_node_ids :: "string list"
  bg_dependency_map :: "(string \<times> string list) list"
  bg_topological_order :: "string list"
  bg_ready_set :: "string list"
  bg_checksum :: string

definition batch_dependency_graph_to_dict :: "batch_dependency_graph \<Rightarrow> pydict" where
  "batch_dependency_graph_to_dict x =
     [(''schema_version'', PInt (bg_schema_version x)),
      (''batch_id'', PStr (bg_batch_id x)),
      (''node_ids'', pstrs (bg_node_ids x)),
      (''dependency_map'', PDict (map (\<lambda>(k, v). (k, pstrs v)) (sort_key fst (bg_dependency_map x)))),
      (''topological_order'', pstrs (bg_topological_order x)),
      (''ready_set'', pstrs (bg_ready_set x)),
      (''checksum'', PStr (bg_checksum x))]"

definition batch_dependency_graph_from_dict :: "pydict \<Rightarrow> batch_dependency_graph res" where
  "batch_dependency_graph_from_dict d =
     rbind (fint BATCH_SCHEMA_VERSION d ''schema_version'') (\<lambda>schema_version'.
     rbind (fstrs d ''node_ids'') (\<lambda>node_ids'.
     rbind (fmap_strs d ''dependency_map'') (\<lambda>dependency_map'.
     rbind (fstrs d ''topological_order'') (\<lambda>topological_order'.
     rbind (fstrs d ''ready_set'') (\<lambda>ready_set'.
     Inr \<lparr>bg_schema_version = schema_version',
       bg_batch_id = fstr d ''batch_id'',
       bg_node_ids = node_ids',
       bg_dependency_map = dependency_map',
       bg_topological_order = topological_order',
       bg_ready_set = ready_set',
       bg_checksum = fstr d ''checksum''\<rparr>)))))"

definition wf_batch_dependency_graph :: "batch_dependency_graph \<Rightarrow> bool" where
  "wf_batch_dependency_graph x \<longleftrightarrow> sorted (map fst (bg_dependency_map x))"

lemma batch_dependency_graph_get [simp]:
  "dget (batch_dependency_graph_to_dict x) ''schema_version'' = Some (PInt (bg_schema_version x))"
  "dget (batch_dependency_graph_to_dict x) ''batch_id'' = Some (PStr (bg_batch_id x))"
  "dget (batch_dependency_graph_to_dict x) ''node_ids'' = Some (pstrs (bg_node_ids x))"
  "dget (batch_dependency_graph_to_dict x) ''dependency_map'' = Some (PDict (map (\<lambda>(k, v). (k, pstrs v)) (sort_key fst (bg_dependency_map x))))"
  "dget (batch_dependency_graph_to_dict x) ''topological_order'' = Some (pstrs (bg_topological_order x))"
  "dget (batch_dependency_graph_to_dict x) ''ready_set'' = Some (pstrs (bg_ready_set x))"
  "dget (batch_dependency_graph_to_dict x) ''checksum'' = Some (PStr (bg_checksum x))"
  by (simp_all add: batch_dependency_graph_to_dict_def)

lemma batch_dependency_graph_roundtrip [codec_simps]:
  assumes "wf_batch_dependency_graph x"
  shows "batch_dependency_graph_from_dict (batch_dependency_graph_to_dict x) = Inr x"
  using assms by (simp add: batch_dependency_graph_from_dict_def wf_batch_dependency_graph_def codec_simps)

record batch_item =
  bi_item_id :: string
  bi_request_id :: string
  bi_response_id :: string
  bi_status :: string
  bi_dependencies :: "string list"
  bi_writable_paths :: "string list"
  bi_request_checksum :: string
  bi_response_checksum :: string
  bi_approval_checksum :: string
  bi_plan_checksum :: string
  bi_application_id :: string
  bi_revision_id :: string
  bi_lease_id :: string
  bi_attempt_ids :: "string list"
  bi_notes :: "string list"
  bi_result :: pydict

definition batch_item_to_dict :: "batch_item \<Rightarrow> pydict" where
  "batch_item_to_dict x =
     [(''item_id'', PStr (bi_item_id x)),
      (''request_id'', PStr (bi_request_id x)),
      (''response_id'', PStr (bi_response_id x)),
      (''status'', PStr (bi_status x)),
      (''dependencies'', pstrs (bi_dependencies x)),
      (''writable_paths'', pstrs (bi_writable_paths x)),
      (''request_checksum'', PStr (bi_request_checksum x)),
      (''response_checksum'', PStr (bi_response_checksum x)),
      (''approval_checksum'', PStr (bi_approval_checksum x)),
      (''plan_checksum'', PStr (bi_plan_checksum x)),
      (''application_id'', PStr (bi_application_id x)),
      (''revision_id'', PStr (bi_revision_id x)),
      (''lease_id'', PStr (bi_lease_id x)),
      (''attempt_ids'', pstrs (bi_attempt_ids x)),
      (''notes'', pstrs (bi_notes x)),
      (''result'', PDict (bi_result x))]"

definition batch_item_from_dict :: "pydict \<Rightarrow> batch_item res" where
  "batch_item_from_dict d =
     rbind (fstrs d ''dependencies'') (\<lambda>dependencies'.
     rbind (fstrs d ''writable_paths'') (\<lambda>writable_paths'.
     rbind (fstrs d ''attempt_ids'') (\<lambda>attempt_ids'.
     rbind (fstrs d ''notes'') (\<lambda>notes'.
     rbind (fdict d ''result'') (\<lambda>result'.
     Inr \<lparr>bi_item_id = fstr d ''item_id'',
       bi_request_id = fstr d ''request_id'',
       bi_response_id = fstr d ''response_id'',
       bi_status = fstr_or ''draft'' d ''status'',
       bi_dependencies = dependencies',
       bi_writable_paths = writable_paths',
       bi_request_checksum = fstr d ''request_checksum'',
       bi_response_checksum = fstr d ''response_checksum'',
       bi_approval_checksum = fstr d ''approval_checksum'',
       bi_plan_checksum = fstr d ''plan_checksum'',
       bi_application_id = fstr d ''application_id'',
       bi_revision_id = fstr d ''revision_id'',
       bi_lease_id = fstr d ''lease_id'',
       bi_attempt_ids = attempt_ids',
       bi_notes = notes',
       bi_result = result'\<rparr>)))))"

lemma batch_item_get [simp]:
  "dget (batch_item_to_dict x) ''item_id'' = Some (PStr (bi_item_id x))"
  "dget (batch_item_to_dict x) ''request_id'' = Some (PStr (bi_request_id x))"
  "dget (batch_item_to_dict x) ''response_id'' = Some (PStr (bi_response_id x))"
  "dget (batch_item_to_dict x) ''status'' = Some (PStr (bi_status x))"
  "dget (batch_item_to_dict x) ''dependencies'' = Some (pstrs (bi_dependencies x))"
  "dget (batch_item_to_dict x) ''writable_paths'' = Some (pstrs (bi_writable_paths x))"
  "dget (batch_item_to_dict x) ''request_checksum'' = Some (PStr (bi_request_checksum x))"
  "dget (batch_item_to_dict x) ''response_checksum'' = Some (PStr (bi_response_checksum x))"
  "dget (batch_item_to_dict x) ''approval_checksum'' = Some (PStr (bi_approval_checksum x))"
  "dget (batch_item_to_dict x) ''plan_checksum'' = Some (PStr (bi_plan_checksum x))"
  "dget (batch_item_to_dict x) ''application_id'' = Some (PStr (bi_application_id x))"
  "dget (batch_item_to_dict x) ''revision_id'' = Some (PStr (bi_revision_id x))"
  "dget (batch_item_to_dict x) ''lease_id'' = Some (PStr (bi_lease_id x))"
  "dget (batch_item_to_dict x) ''attempt_ids'' = Some (pstrs (bi_attempt_ids x))"
  "dget (batch_item_to_dict x) ''notes'' = Some (pstrs (bi_notes x))"
  "dget (batch_item_to_dict x) ''result'' = Some (PDict (bi_result x))"
  by (simp_all add: batch_item_to_dict_def)

lemma batch_item_roundtrip [codec_simps]: "batch_item_from_dict (batch_item_to_dict x) = Inr x"
  by (simp add: batch_item_from_dict_def codec_simps)

record execution_wave =
  ew_wave_id :: string
  ew_phase :: string
  ew_item_ids :: "string list"
  ew_blocked_by :: "string list"
  ew_prerequisites :: "string list"
  ew_checksum :: string

definition execution_wave_to_dict :: "execution_wave \<Rightarrow> pydict" where
  "execution_wave_to_dict x =
     [(''wave_id'', PStr (ew_wave_id x)),
      (''phase'', PStr (ew_phase x)),
      (''item_ids'', pstrs (ew_item_ids x)),
      (''blocked_by'', pstrs (ew_blocked_by x)),
      (''prerequisites'', pstrs (ew_prerequisites x)),
      (''checksum'', PStr (ew_checksum x))]"

definition execution_wave_from_dict :: "pydict \<Rightarrow> execution_wave res" where
  "execution_wave_from_dict d =
     rbind (fstrs d ''item_ids'') (\<lambda>item_ids'.
     rbind (fstrs d ''blocked_by'') (\<lambda>blocked_by'.
     rbind (fstrs d ''prerequisites'') (\<lambda>prerequisites'.
     Inr \<lparr>ew_wave_id = fstr d ''wave_id'',
       ew_phase = fstr d ''phase'',
       ew_item_ids = item_ids',
       ew_blocked_by = blocked_by',
       ew_prerequisites = prerequisites',
       ew_checksum = fstr d ''checksum''\<rparr>)))"

lemma execution_wave_get [simp]:
  "dget (execution_wave_to_dict x) ''wave_id'' = Some (PStr (ew_wave_id x))"
  "dget (execution_wave_to_dict x) ''phase'' = Some (PStr (ew_phase x))"
  "dget (execution_wave_to_dict x) ''item_ids'' = Some (pstrs (ew_item_ids x))"
  "dget (execution_wave_to_dict x) ''blocked_by'' = Some (pstrs (ew_blocked_by x))"
  "dget (execution_wave_to_dict x) ''prerequisites'' = Some (pstrs (ew_prerequisites x))"
  "dget (execution_wave_to_dict x) ''checksum'' = Some (PStr (ew_checksum x))"
  by (simp_all add: execution_wave_to_dict_def)

lemma execution_wave_roundtrip [codec_simps]: "execution_wave_from_dict (execution_wave_to_dict x) = Inr x"
  by (simp add: execution_wave_from_dict_def codec_simps)

record attempt_record =
  at_schema_version :: int
  at_attempt_id :: string
  at_batch_id :: string
  at_phase :: string
  at_created_at :: string
  at_item_ids :: "string list"
  at_previous_attempt_id :: "string option"
  at_checksum :: string
  at_details :: pydict

definition attempt_record_to_dict :: "attempt_record \<Rightarrow> pydict" where
  "attempt_record_to_dict x =
     [(''schema_version'', PInt (at_schema_version x)),
      (''attempt_id'', PStr (at_attempt_id x)),
      (''batch_id'', PStr (at_batch_id x)),
      (''phase'', PStr (at_phase x)),
      (''created_at'', PStr (at_created_at x)),
      (''item_ids'', pstrs (at_item_ids x)),
      (''previous_attempt_id'', opt_str (at_previous_attempt_id x)),
      (''checksum'', PStr (at_checksum x)),
      (''details'', PDict (at_details x))]"

definition attempt_record_from_dict :: "pydict \<Rightarrow> attempt_record res" where
  "attempt_record_from_dict d =
     rbind (fint ATTEMPT_SCHEMA_VERSION d ''schema_version'') (\<lambda>schema_version'.
     rbind (fstrs d ''item_ids'') (\<lambda>item_ids'.
     rbind (fdict d ''details'') (\<lambda>details'.
     Inr \<lparr>at_schema_version = schema_version',
       at_attempt_id = fstr d ''attempt_id'',
       at_batch_id = fstr d ''batch_id'',
       at_phase = fstr d ''phase'',
       at_created_at = fstr d ''created_at'',
       at_item_ids = item_ids',
       at_previous_attempt_id = maybe_text (dget_or d ''previous_attempt_id'' PNone),
       at_checksum = fstr d ''checksum'',
       at_details = details'\<rparr>)))"

definition wf_attempt_record :: "attempt_record \<Rightarrow> bool" where
  "wf_attempt_record x \<longleftrightarrow> plain_opt (at_previous_attempt_id x)"

lemma attempt_record_get [simp]:
  "dget (attempt_record_to_dict x) ''schema_version'' = Some (PInt (at_schema_version x))"
  "dget (attempt_record_to_dict x) ''attempt_id'' = Some (PStr (at_attempt_id x))"
  "dget (attempt_record_to_dict x) ''batch_id'' = Some (PStr (at_batch_id x))"
  "dget (attempt_record_to_dict x) ''phase'' = Some (PStr (at_phase x))"
  "dget (attempt_record_to_dict x) ''created_at'' = Some (PStr (at_created_at x))"
  "dget (attempt_record_to_dict x) ''item_ids'' = Some (pstrs (at_item_ids x))"
  "dget (attempt_record_to_dict x) ''previous_attempt_id'' = Some (opt_str (at_previous_attempt_id x))"
  "dget (attempt_record_to_dict x) ''checksum'' = Some (PStr (at_checksum x))"
  "dget (attempt_record_to_dict x) ''details'' = Some (PDict (at_details x))"
  by (simp_all add: attempt_record_to_dict_def)

lemma attempt_record_roundtrip [codec_simps]:
  assumes "wf_attempt_record x"
  shows "attempt_record_from_dict (attempt_record_to_dict x) = Inr x"
  using assms by (simp add: attempt_record_from_dict_def wf_attempt_record_def codec_simps)

record progress_summary =
  pg_total :: int
  pg_pending :: int
  pg_running :: int
  pg_succeeded :: int
  pg_failed :: int
  pg_blocked :: int
  pg_skipped :: int
  pg_cancelled :: int

definition progress_summary_to_dict :: "progress_summary \<Rightarrow> pydict" where
  "progress_summary_to_dict x =
     [(''total'', PInt (pg_total x)),
      (''pending'', PInt (pg_pending x)),
      (''running'', PInt (pg_running x)),
      (''succeeded'', PInt (pg_succeeded x)),
      (''failed'', PInt (pg_failed x)),
      (''blocked'', PInt (pg_blocked x)),
      (''skipped'', PInt (pg_skipped x)),
      (''cancelled'', PInt (pg_cancelled x))]"

definition progress_summary_from_dict :: "pydict \<Rightarrow> progress_summary res" where
  "progress_summary_from_dict d =
     rbind (fint 0 d ''total'') (\<lambda>total'.
     rbind (fint 0 d ''pending'') (\<lambda>pending'.
     rbind (fint 0 d ''running'') (\<lambda>running'.
     rbind (fint 0 d ''succeeded'') (\<lambda>succeeded'.
     rbind (fint 0 d ''failed'') (\<lambda>failed'.
     rbind (fint 0 d ''blocked'') (\<lambda>blocked'.
     rbind (fint 0 d ''skipped'') (\<lambda>skipped'.
     rbind (fint 0 d ''cancelled'') (\<lambda>cancelled'.
     Inr \<lparr>pg_total = total',
       pg_pending = pending',
       pg_running = running',
       pg_succeeded = succeeded',
       pg_failed = failed',
       pg_blocked = blocked',
       pg_skipped = skipped',
       pg_cancelled = cancelled'\<rparr>))))))))"

lemma progress_summary_get [simp]:
  "dget (progress_summary_to_dict x) ''total'' = Some (PInt (pg_total x))"
  "dget (progress_summary_to_dict x) ''pending'' = Some (PInt (pg_pending x))"
  "dget (progress_summary_to_dict x) ''running'' = Some (PInt (pg_running x))"
  "dget (progress_summary_to_dict x) ''succeeded'' = Some (PInt (pg_succeeded x))"
  "dget (progress_summary_to_dict x) ''failed'' = Some (PInt (pg_failed x))"
  "dget (progress_summary_to_dict x) ''blocked'' = Some (PInt (pg_blocked x))"
  "dget (progress_summary_to_dict x) ''skipped'' = Some (PInt (pg_skipped x))"
  "dget (progress_summary_to_dict x) ''cancelled'' = Some (PInt (pg_cancelled x))"
  by (simp_all add: progress_summary_to_dict_def)

lemma progress_summary_roundtrip [codec_simps]: "progress_summary_from_dict (progress_summary_to_dict x) = Inr x"
  by (simp add: progress_summary_from_dict_def codec_simps)

record item_result =
  ires_item_id :: string
  ires_outcome :: string
  ires_message :: string
  ires_request_checksum :: string
  ires_response_checksum :: string
  ires_approval_checksum :: string
  ires_plan_checksum :: string
  ires_application_id :: string
  ires_revision_id :: string
  ires_lease_ids :: "string list"
  ires_attempt_id :: string
  ires_details :: pydict

definition item_result_to_dict :: "item_result \<Rightarrow> pydict" where
  "item_result_to_dict x =
     [(''item_id'', PStr (ires_item_id x)),
      (''outcome'', PStr (ires_outcome x)),
      (''message'', PStr (ires_message x)),
      (''request_checksum'', PStr (ires_request_checksum x)),
      (''response_checksum'', PStr (ires_response_checksum x)),
      (''approval_checksum'', PStr (ires_approval_checksum x)),
      (''plan_checksum'', PStr (ires_plan_checksum x)),
      (''application_id'', PStr (ires_application_id x)),
      (''revision_id'', PStr (ires_revision_id x)),
      (''lease_ids'', pstrs (ires_lease_ids x)),
      (''attempt_id'', PStr (ires_attempt_id x)),
      (''details'', PDict (ires_details x))]"

definition item_result_from_dict :: "pydict \<Rightarrow> item_result res" where
  "item_result_from_dict d =
     rbind (fstrs d ''lease_ids'') (\<lambda>lease_ids'.
     rbind (fdict d ''details'') (\<lambda>details'.
     Inr \<lparr>ires_item_id = fstr d ''item_id'',
       ires_outcome = fstr d ''outcome'',
       ires_message = fstr d ''message'',
       ires_request_checksum = fstr d ''request_checksum'',
       ires_response_checksum = fstr d ''response_checksum'',
       ires_approval_checksum = fstr d ''approval_checksum'',
       ires_plan_checksum = fstr d ''plan_checksum'',
       ires_application_id = fstr d ''application_id'',
       ires_revision_id = fstr d ''revision_id'',
       ires_lease_ids = lease_ids',
       ires_attempt_id = fstr d ''attempt_id'',
       ires_details = details'\<rparr>))"

lemma item_result_get [simp]:
  "dget (item_result_to_dict x) ''item_id'' = Some (PStr (ires_item_id x))"
  "dget (item_result_to_dict x) ''outcome'' = Some (PStr (ires_outcome x))"
  "dget (item_result_to_dict x) ''message'' = Some (PStr (ires_message x))"
  "dget (item_result_to_dict x) ''request_checksum'' = Some (PStr (ires_request_checksum x))"
  "dget (item_result_to_dict x) ''response_checksum'' = Some (PStr (ires_response_checksum x))"
  "dget (item_result_to_dict x) ''approval_checksum'' = Some (PStr (ires_approval_checksum x))"
  "dget (item_result_to_dict x) ''plan_checksum'' = Some (PStr (ires_plan_checksum x))"
  "dget (item_result_to_dict x) ''application_id'' = Some (PStr (ires_application_id x))"
  "dget (item_result_to_dict x) ''revision_id'' = Some (PStr (ires_revision_id x))"
  "dget (item_result_to_dict x) ''lease_ids'' = Some (pstrs (ires_lease_ids x))"
  "dget (item_result_to_dict x) ''attempt_id'' = Some (PStr (ires_attempt_id x))"
  "dget (item_result_to_dict x) ''details'' = Some (PDict (ires_details x))"
  by (simp_all add: item_result_to_dict_def)

lemma item_result_roundtrip [codec_simps]: "item_result_from_dict (item_result_to_dict x) = Inr x"
  by (simp add: item_result_from_dict_def codec_simps)

record batch_result =
  bres_batch_id :: string
  bres_status :: string
  bres_progress :: progress_summary
  bres_item_results :: "item_result list"
  bres_attempt_ids :: "string list"
  bres_checksum :: string
  bres_details :: pydict

definition batch_result_to_dict :: "batch_result \<Rightarrow> pydict" where
  "batch_result_to_dict x =
     [(''batch_id'', PStr (bres_batch_id x)),
      (''status'', PStr (bres_status x)),
      (''progress'', PDict (progress_summary_to_dict (bres_progress x))),
      (''item_results'', PList (map (\<lambda>y. PDict (item_result_to_dict y)) (bres_item_results x))),
      (''attempt_ids'', pstrs (bres_attempt_ids x)),
      (''checksum'', PStr (bres_checksum x)),
      (''details'', PDict (bres_details x))]"

definition batch_result_from_dict :: "pydict \<Rightarrow> batch_result res" where
  "batch_result_from_dict d =
     rbind (rbind (fdict d ''progress'') progress_summary_from_dict) (\<lambda>progress'.
     rbind (fdicts item_result_from_dict d ''item_results'') (\<lambda>item_results'.
     rbind (fstrs d ''attempt_ids'') (\<lambda>attempt_ids'.
     rbind (fdict d ''details'') (\<lambda>details'.
     Inr \<lparr>bres_batch_id = fstr d ''batch_id'',
       bres_status = fstr_or ''draft'' d ''status'',
       bres_progress = progress',
       bres_item_results = item_results',
       bres_attempt_ids = attempt_ids',
       bres_checksum = fstr d ''checksum'',
       bres_details = details'\<rparr>))))"

lemma batch_result_get [simp]:
  "dget (batch_result_to_dict x) ''batch_id'' = Some (PStr (bres_batch_id x))"
  "dget (batch_result_to_dict x) ''status'' = Some (PStr (bres_status x))"
  "dget (batch_result_to_dict x) ''progress'' = Some (PDict (progress_summary_to_dict (bres_progress x)))"
  "dget (batch_result_to_dict x) ''item_results'' = Some (PList (map (\<lambda>y. PDict (item_result_to_dict y)) (bres_item_results x)))"
  "dget (batch_result_to_dict x) ''attempt_ids'' = Some (pstrs (bres_attempt_ids x))"
  "dget (batch_result_to_dict x) ''checksum'' = Some (PStr (bres_checksum x))"
  "dget (batch_result_to_dict x) ''details'' = Some (PDict (bres_details x))"
  by (simp_all add: batch_result_to_dict_def)

lemma batch_result_roundtrip [codec_simps]: "batch_result_from_dict (batch_result_to_dict x) = Inr x"
  by (simp add: batch_result_from_dict_def codec_simps)

record lock_record =
  lk_schema_version :: int
  lk_lock_id :: string
  lk_batch_id :: string
  lk_operation :: string
  lk_holder :: string
  lk_created_at :: string
  lk_expires_at :: "string option"
  lk_checksum :: string

definition lock_record_to_dict :: "lock_record \<Rightarrow> pydict" where
  "lock_record_to_dict x =
     [(''schema_version'', PInt (lk_schema_version x)),
      (''lock_id'', PStr (lk_lock_id x)),
      (''batch_id'', PStr (lk_batch_id x)),
      (''operation'', PStr (lk_operation x)),
      (''holder'', PStr (lk_holder x)),
      (''created_at'', PStr (lk_created_at x)),
      (''expires_at'', opt_str (lk_expires_at x)),
      (''checksum'', PStr (lk_checksum x))]"

definition lock_record_from_dict :: "pydict \<Rightarrow> lock_record res" where
  "lock_record_from_dict d =
     rbind (fint BATCH_SCHEMA_VERSION d ''schema_version'') (\<lambda>schema_version'.
     Inr \<lparr>lk_schema_version = schema_version',
       lk_lock_id = fstr d ''lock_id'',
       lk_batch_id = fstr d ''batch_id'',
       lk_operation = fstr d ''operation'',
       lk_holder = fstr d ''holder'',
       lk_created_at = fstr d ''created_at'',
       lk_expires_at = maybe_text (dget_or d ''expires_at'' PNone),
       lk_checksum = fstr d ''checksum''\<rparr>)"

definition wf_lock_record :: "lock_record \<Rightarrow> bool" where
  "wf_lock_record x \<longleftrightarrow> plain_opt (lk_expires_at x)"

lemma lock_record_get [simp]:
  "dget (lock_record_to_dict x) ''schema_version'' = Some (PInt (lk_schema_version x))"
  "dget (lock_record_to_dict x) ''lock_id'' = Some (PStr (lk_lock_id x))"
  "dget (lock_record_to_dict x) ''batch_id'' = Some (PStr (lk_batch_id x))"
  "dget (lock_record_to_dict x) ''operation'' = Some (PStr (lk_operation x))"
  "dget (lock_record_to_dict x) ''holder'' = Some (PStr (lk_holder x))"
  "dget (lock_record_to_dict x) ''created_at'' = Some (PStr (lk_created_at x))"
  "dget (lock_record_to_dict x) ''expires_at'' = Some (opt_str (lk_expires_at x))"
  "dget (lock_record_to_dict x) ''checksum'' = Some (PStr (lk_checksum x))"
  by (simp_all add: lock_record_to_dict_def)

lemma lock_record_roundtrip [codec_simps]:
  assumes "wf_lock_record x"
  shows "lock_record_from_dict (lock_record_to_dict x) = Inr x"
  using assms by (simp add: lock_record_from_dict_def wf_lock_record_def codec_simps)

record recovery_record =
  rv_schema_version :: int
  rv_batch_id :: string
  rv_created_at :: string
  rv_findings :: "string list"
  rv_recommended_actions :: "string list"
  rv_reconciled :: bool
  rv_checksum :: string
  rv_details :: pydict

definition recovery_record_to_dict :: "recovery_record \<Rightarrow> pydict" where
  "recovery_record_to_dict x =
     [(''schema_version'', PInt (rv_schema_version x)),
      (''batch_id'', PStr (rv_batch_id x)),
      (''created_at'', PStr (rv_created_at x)),
      (''findings'', pstrs (rv_findings x)),
      (''recommended_actions'', pstrs (rv_recommended_actions x)),
      (''reconciled'', PBool (rv_reconciled x)),
      (''checksum'', PStr (rv_checksum x)),
      (''details'', PDict (rv_details x))]"

definition recovery_record_from_dict :: "pydict \<Rightarrow> recovery_record res" where
  "recovery_record_from_dict d =
     rbind (fint BATCH_SCHEMA_VERSION d ''schema_version'') (\<lambda>schema_version'.
     rbind (fstrs d ''findings'') (\<lambda>findings'.
     rbind (fstrs d ''recommended_actions'') (\<lambda>recommended_actions'.
     rbind (fdict d ''details'') (\<lambda>details'.
     Inr \<lparr>rv_schema_version = schema_version',
       rv_batch_id = fstr d ''batch_id'',
       rv_created_at = fstr d ''created_at'',
       rv_findings = findings',
       rv_recommended_actions = recommended_actions',
       rv_reconciled = fbool False d ''reconciled'',
       rv_checksum = fstr d ''checksum'',
       rv_details = details'\<rparr>))))"

lemma recovery_record_get [simp]:
  "dget (recovery_record_to_dict x) ''schema_version'' = Some (PInt (rv_schema_version x))"
  "dget (recovery_record_to_dict x) ''batch_id'' = Some (PStr (rv_batch_id x))"
  "dget (recovery_record_to_dict x) ''created_at'' = Some (PStr (rv_created_at x))"
  "dget (recovery_record_to_dict x) ''findings'' = Some (pstrs (rv_findings x))"
  "dget (recovery_record_to_dict x) ''recommended_actions'' = Some (pstrs (rv_recommended_actions x))"
  "dget (recovery_record_to_dict x) ''reconciled'' = Some (PBool (rv_reconciled x))"
  "dget (recovery_record_to_dict x) ''checksum'' = Some (PStr (rv_checksum x))"
  "dget (recovery_record_to_dict x) ''details'' = Some (PDict (rv_details x))"
  by (simp_all add: recovery_record_to_dict_def)

lemma recovery_record_roundtrip [codec_simps]: "recovery_record_from_dict (recovery_record_to_dict x) = Inr x"
  by (simp add: recovery_record_from_dict_def codec_simps)

record orchestration_plan =
  op_schema_version :: int
  op_batch_id :: string
  op_plan_id :: string
  op_batch_type :: string
  op_created_at :: string
  op_item_ids :: "string list"
  op_items :: "batch_item list"
  op_dependency_graph :: batch_dependency_graph
  op_execution_policy :: execution_policy
  op_execution_waves :: "execution_wave list"
  op_conflict_graph :: "pydict list"
  op_expected_revision_chain :: "string list"
  op_checksums :: "(string \<times> string) list"
  op_progress :: progress_summary
  op_status :: string
  op_dry_run :: bool
  op_details :: pydict

definition orchestration_plan_to_dict :: "orchestration_plan \<Rightarrow> pydict" where
  "orchestration_plan_to_dict x =
     [(''schema_version'', PInt (op_schema_version x)),
      (''batch_id'', PStr (op_batch_id x)),
      (''plan_id'', PStr (op_plan_id x)),
      (''batch_type'', PStr (op_batch_type x)),
      (''created_at'', PStr (op_created_at x)),
      (''item_ids'', pstrs (op_item_ids x)),
      (''items'', PList (map (\<lambda>y. PDict (batch_item_to_dict y)) (op_items x))),
      (''dependency_graph'', PDict (batch_dependency_graph_to_dict (op_dependency_graph x))),
      (''execution_policy'', PDict (execution_policy_to_dict (op_execution_policy x))),
      (''execution_waves'', PList (map (\<lambda>y. PDict (execution_wave_to_dict y)) (op_execution_waves x))),
      (''conflict_graph'', PList (map PDict (op_conflict_graph x))),
      (''expected_revision_chain'', pstrs (op_expected_revision_chain x)),
      (''checksums'', str_dict (op_checksums x)),
      (''progress'', PDict (progress_summary_to_dict (op_progress x))),
      (''status'', PStr (op_status x)),
      (''dry_run'', PBool (op_dry_run x)),
      (''details'', PDict (op_details x))]"

definition orchestration_plan_from_dict :: "pydict \<Rightarrow> orchestration_plan res" where
  "orchestration_plan_from_dict d =
     rbind (fint BATCH_SCHEMA_VERSION d ''schema_version'') (\<lambda>schema_version'.
     rbind (fstrs d ''item_ids'') (\<lambda>item_ids'.
     rbind (fdicts batch_item_from_dict d ''items'') (\<lambda>items'.
     rbind (rbind (fdict d ''dependency_graph'') batch_dependency_graph_from_dict) (\<lambda>dependency_graph'.
     rbind (rbind (fdict d ''execution_policy'') execution_policy_from_dict) (\<lambda>execution_policy'.
     rbind (fdicts execution_wave_from_dict d ''execution_waves'') (\<lambda>execution_waves'.
     rbind (fdicts Inr d ''conflict_graph'') (\<lambda>conflict_graph'.
     rbind (fstrs d ''expected_revision_chain'') (\<lambda>expected_revision_chain'.
     rbind (fstr_dict d ''checksums'') (\<lambda>checksums'.
     rbind (rbind (fdict d ''progress'') progress_summary_from_dict) (\<lambda>progress'.
     rbind (fdict d ''details'') (\<lambda>details'.
     Inr \<lparr>op_schema_version = schema_version',
       op_batch_id = fstr d ''batch_id'',
       op_plan_id = fstr d ''plan_id'',
       op_batch_type = fstr_or ''cloud_queue_orchestration'' d ''batch_type'',
       op_created_at = fstr d ''created_at'',
       op_item_ids = item_ids',
       op_items = items',
       op_dependency_graph = dependency_graph',
       op_execution_policy = execution_policy',
       op_execution_waves = execution_waves',
       op_conflict_graph = conflict_graph',
       op_expected_revision_chain = expected_revision_chain',
       op_checksums = checksums',
       op_progress = progress',
       op_status = fstr_or ''planned'' d ''status'',
       op_dry_run = fbool False d ''dry_run'',
       op_details = details'\<rparr>)))))))))))"

definition wf_orchestration_plan :: "orchestration_plan \<Rightarrow> bool" where
  "wf_orchestration_plan x \<longleftrightarrow> wf_batch_dependency_graph (op_dependency_graph x)"

lemma orchestration_plan_get [simp]:
  "dget (orchestration_plan_to_dict x) ''schema_version'' = Some (PInt (op_schema_version x))"
  "dget (orchestration_plan_to_dict x) ''batch_id'' = Some (PStr (op_batch_id x))"
  "dget (orchestration_plan_to_dict x) ''plan_id'' = Some (PStr (op_plan_id x))"
  "dget (orchestration_plan_to_dict x) ''batch_type'' = Some (PStr (op_batch_type x))"
  "dget (orchestration_plan_to_dict x) ''created_at'' = Some (PStr (op_created_at x))"
  "dget (orchestration_plan_to_dict x) ''item_ids'' = Some (pstrs (op_item_ids x))"
  "dget (orchestration_plan_to_dict x) ''items'' = Some (PList (map (\<lambda>y. PDict (batch_item_to_dict y)) (op_items x)))"
  "dget (orchestration_plan_to_dict x) ''dependency_graph'' = Some (PDict (batch_dependency_graph_to_dict (op_dependency_graph x)))"
  "dget (orchestration_plan_to_dict x) ''execution_policy'' = Some (PDict (execution_policy_to_dict (op_execution_policy x)))"
  "dget (orchestration_plan_to_dict x) ''execution_waves'' = Some (PList (map (\<lambda>y. PDict (execution_wave_to_dict y)) (op_execution_waves x)))"
  "dget (orchestration_plan_to_dict x) ''conflict_graph'' = Some (PList (map PDict (op_conflict_graph x)))"
  "dget (orchestration_plan_to_dict x) ''expected_revision_chain'' = Some (pstrs (op_expected_revision_chain x))"
  "dget (orchestration_plan_to_dict x) ''checksums'' = Some (str_dict (op_checksums x))"
  "dget (orchestration_plan_to_dict x) ''progress'' = Some (PDict (progress_summary_to_dict (op_progress x)))"
  "dget (orchestration_plan_to_dict x) ''status'' = Some (PStr (op_status x))"
  "dget (orchestration_plan_to_dict x) ''dry_run'' = Some (PBool (op_dry_run x))"
  "dget (orchestration_plan_to_dict x) ''details'' = Some (PDict (op_details x))"
  by (simp_all add: orchestration_plan_to_dict_def)

lemma orchestration_plan_roundtrip [codec_simps]:
  assumes "wf_orchestration_plan x"
  shows "orchestration_plan_from_dict (orchestration_plan_to_dict x) = Inr x"
  using assms by (simp add: orchestration_plan_from_dict_def wf_orchestration_plan_def codec_simps)

record batch_record =
  br_schema_version :: int
  br_batch_id :: string
  br_batch_type :: string
  br_created_at :: string
  br_status :: string
  br_item_ids :: "string list"
  br_items :: "batch_item list"
  br_dependency_graph :: batch_dependency_graph
  br_execution_policy :: execution_policy
  br_progress :: progress_summary
  br_results :: batch_result
  br_checksums :: "(string \<times> string) list"
  br_attempts :: "attempt_record list"
  br_audits :: "string list"
  br_latest_plan_id :: string
  br_latest_attempt_id :: string
  br_notes :: "string list"

definition batch_record_to_dict :: "batch_record \<Rightarrow> pydict" where
  "batch_record_to_dict x =
     [(''schema_version'', PInt (br_schema_version x)),
      (''batch_id'', PStr (br_batch_id x)),
      (''batch_type'', PStr (br_batch_type x)),
      (''created_at'', PStr (br_created_at x)),
      (''status'', PStr (br_status x)),
      (''item_ids'', pstrs (br_item_ids x)),
      (''items'', PList (map (\<lambda>y. PDict (batch_item_to_dict y)) (br_items x))),
      (''dependency_graph'', PDict (batch_dependency_graph_to_dict (br_dependency_graph x))),
      (''execution_policy'', PDict (execution_policy_to_dict (br_execution_policy x))),
      (''progress'', PDict (progress_summary_to_dict (br_progress x))),
      (''results'', PDict (batch_result_to_dict (br_results x))),
      (''checksums'', str_dict (br_checksums x)),
      (''attempts'', PList (map (\<lambda>y. PDict (attempt_record_to_dict y)) (br_attempts x))),
      (''audits'', pstrs (br_audits x)),
      (''latest_plan_id'', PStr (br_latest_plan_id x)),
      (''latest_attempt_id'', PStr (br_latest_attempt_id x)),
      (''notes'', pstrs (br_notes x))]"

definition batch_record_from_dict :: "pydict \<Rightarrow> batch_record res" where
  "batch_record_from_dict d =
     rbind (fint BATCH_SCHEMA_VERSION d ''schema_version'') (\<lambda>schema_version'.
     rbind (fstrs d ''item_ids'') (\<lambda>item_ids'.
     rbind (fdicts batch_item_from_dict d ''items'') (\<lambda>items'.
     rbind (rbind (fdict d ''dependency_graph'') batch_dependency_graph_from_dict) (\<lambda>dependency_graph'.
     rbind (rbind (fdict d ''execution_policy'') execution_policy_from_dict) (\<lambda>execution_policy'.
     rbind (rbind (fdict d ''progress'') progress_summary_from_dict) (\<lambda>progress'.
     rbind (rbind (fdict d ''results'') batch_result_from_dict) (\<lambda>results'.
     rbind (fstr_dict d ''checksums'') (\<lambda>checksums'.
     rbind (fdicts attempt_record_from_dict d ''attempts'') (\<lambda>attempts'.
     rbind (fstrs d ''audits'') (\<lambda>audits'.
     rbind (fstrs d ''notes'') (\<lambda>notes'.
     Inr \<lparr>br_schema_version = schema_version',
       br_batch_id = fstr d ''batch_id'',
       br_batch_type = fstr_or ''cloud_queue_orchestration'' d ''batch_type'',
       br_created_at = fstr d ''created_at'',
       br_status = fstr_or ''draft'' d ''status'',
       br_item_ids = item_ids',
       br_items = items',
       br_dependency_graph = dependency_graph',
       br_execution_policy = execution_policy',
       br_progress = progress',
       br_results = results',
       br_checksums = checksums',
       br_attempts = attempts',
       br_audits = audits',
       br_latest_plan_id = fstr d ''latest_plan_id'',
       br_latest_attempt_id = fstr d ''latest_attempt_id'',
       br_notes = notes'\<rparr>)))))))))))"

definition wf_batch_record :: "batch_record \<Rightarrow> bool" where
  "wf_batch_record x \<longleftrightarrow> wf_batch_dependency_graph (br_dependency_graph x)
     \<and> (\<forall>y \<in> set (br_attempts x). wf_attempt_record y)"

lemma batch_record_get [simp]:
  "dget (batch_record_to_dict x) ''schema_version'' = Some (PInt (br_schema_version x))"
  "dget (batch_record_to_dict x) ''batch_id'' = Some (PStr (br_batch_id x))"
  "dget (batch_record_to_dict x) ''batch_type'' = Some (PStr (br_batch_type x))"
  "dget (batch_record_to_dict x) ''created_at'' = Some (PStr (br_created_at x))"
  "dget (batch_record_to_dict x) ''status'' = Some (PStr (br_status x))"
  "dget (batch_record_to_dict x) ''item_ids'' = Some (pstrs (br_item_ids x))"
  "dget (batch_record_to_dict x) ''items'' = Some (PList (map (\<lambda>y. PDict (batch_item_to_dict y)) (br_items x)))"
  "dget (batch_record_to_dict x) ''dependency_graph'' = Some (PDict (batch_dependency_graph_to_dict (br_dependency_graph x)))"
  "dget (batch_record_to_dict x) ''execution_policy'' = Some (PDict (execution_policy_to_dict (br_execution_policy x)))"
  "dget (batch_record_to_dict x) ''progress'' = Some (PDict (progress_summary_to_dict (br_progress x)))"
  "dget (batch_record_to_dict x) ''results'' = Some (PDict (batch_result_to_dict (br_results x)))"
  "dget (batch_record_to_dict x) ''checksums'' = Some (str_dict (br_checksums x))"
  "dget (batch_record_to_dict x) ''attempts'' = Some (PList (map (\<lambda>y. PDict (attempt_record_to_dict y)) (br_attempts x)))"
  "dget (batch_record_to_dict x) ''audits'' = Some (pstrs (br_audits x))"
  "dget (batch_record_to_dict x) ''latest_plan_id'' = Some (PStr (br_latest_plan_id x))"
  "dget (batch_record_to_dict x) ''latest_attempt_id'' = Some (PStr (br_latest_attempt_id x))"
  "dget (batch_record_to_dict x) ''notes'' = Some (pstrs (br_notes x))"
  by (simp_all add: batch_record_to_dict_def)

lemma batch_record_roundtrip [codec_simps]:
  assumes "wf_batch_record x"
  shows "batch_record_from_dict (batch_record_to_dict x) = Inr x"
  using assms by (simp add: batch_record_from_dict_def wf_batch_record_def codec_simps)

end
