(* ===== verification/BatchValidation.thy ===== *)
theory BatchValidation
  imports BatchModels
begin

text \<open>
  The checks of \<open>cloud_batch/models.py\<close>: checksums, the execution policy and whole batch
  records, and the updates \<open>type(x).from_dict({**x.to_dict(), ...})\<close> the services make.
\<close>

subsection \<open>Checks\<close>

definition validate_supported_batch_type :: "string \<Rightarrow> unit res" where
  "validate_supported_batch_type t =
     (if t \<noteq> BATCH_TYPE_CLOUD_QUEUE_ORCHESTRATION then value_error (''Unsupported batch type: '' @ t)
      else Inr ())"

definition validate_status :: "string \<Rightarrow> unit res" where
  "validate_status s =
     (if s \<notin> set BATCH_STATUSES then value_error (''Invalid batch status: '' @ s) else Inr ())"

definition validate_checksum :: "string \<Rightarrow> unit res" where
  "validate_checksum checksum =
     (if checksum = [] then Inr ()
      else let stripped = strip checksum;
               normalized = (if starts_with ''sha256:'' stripped then drop (length ''sha256:'') stripped
                             else stripped)
           in if length normalized \<noteq> 64 \<or> (\<exists>ch \<in> set (lower normalized). ch \<notin> set ''0123456789abcdef'')
              then value_error (''Malformed checksum: '' @ checksum)
              else Inr ())"

definition policy_limits :: "execution_policy \<Rightarrow> (string \<times> int) list" where
  "policy_limits p =
     [(''max_concurrency'', ep_max_concurrency p), (''max_retry_attempts'', ep_max_retry_attempts p),
      (''packet_size_limit_bytes'', ep_packet_size_limit_bytes p),
      (''response_bundle_limit_bytes'', ep_response_bundle_limit_bytes p),
      (''request_limit'', ep_request_limit p)]"

definition validate_execution_policy :: "execution_policy \<Rightarrow> unit res" where
  "validate_execution_policy p =
     (if \<not> ep_manual_cloud_only p then value_error ''Batch execution must remain manual-cloud-only.''
      else if ep_automatic_apply_enabled p then value_error ''Automatic batch apply must remain disabled.''
      else if ep_automatic_resume_enabled p then value_error ''Automatic batch resume must remain disabled.''
      else rfold (\<lambda>(field_name, value) _.
             if value \<le> 0 then value_error (''Invalid execution policy limit: '' @ field_name) else Inr ())
           (policy_limits p) ())"

definition ExecutionPolicy_default :: execution_policy where
  "ExecutionPolicy_default = \<lparr>ep_manual_cloud_only = True, ep_automatic_apply_enabled = False,
     ep_automatic_resume_enabled = False, ep_max_concurrency = 1, ep_max_retry_attempts = 3,
     ep_packet_size_limit_bytes = 5242880, ep_response_bundle_limit_bytes = 5242880, ep_request_limit = 32\<rparr>"

text \<open>The loop over the items, with the request identifiers seen so far.\<close>

fun validate_items :: "batch_item list \<Rightarrow> string list \<Rightarrow> unit res" where
  "validate_items [] seen = Inr ()"
| "validate_items (i # is) seen =
     (if bi_request_id i \<in> set seen
      then value_error ''Duplicate request IDs are not allowed in a batch.''
      else
        rbind (validate_checksum (bi_request_checksum i)) (\<lambda>_.
        rbind (validate_checksum (bi_response_checksum i)) (\<lambda>_.
        rbind (validate_checksum (bi_approval_checksum i)) (\<lambda>_.
        rbind (validate_checksum (bi_plan_checksum i)) (\<lambda>_.
        rbind (validate_status (bi_status i)) (\<lambda>_.
        validate_items is (bi_request_id i # seen)))))))"

definition validate_dependencies :: "string list \<Rightarrow> (string \<times> string list) list \<Rightarrow> unit res" where
  "validate_dependencies item_ids dependencies =
     rfold (\<lambda>(item_id, required) _.
       if item_id \<notin> set item_ids
       then value_error (''Dependency graph references unknown item: '' @ item_id)
       else rfold (\<lambda>dependency _.
              if dependency \<notin> set item_ids then value_error (''Missing dependency: '' @ dependency)
              else Inr ()) required ()) dependencies ()"

definition get_str :: "(string \<times> string) list \<Rightarrow> string \<Rightarrow> string" where
  "get_str d k = (case map_of d k of None \<Rightarrow> [] | Some v \<Rightarrow> v)"

definition validate_batch_record :: "batch_record \<Rightarrow> unit res" where
  "validate_batch_record r =
     (if br_schema_version r \<noteq> BATCH_SCHEMA_VERSION
      then value_error (''Unsupported batch schema version: '' @ int_dec (br_schema_version r))
      else
        rbind (validate_supported_batch_type (br_batch_type r)) (\<lambda>_.
        rbind (validate_status (br_status r)) (\<lambda>_.
        rbind (validate_execution_policy (br_execution_policy r)) (\<lambda>_.
        rbind (validate_checksum (get_str (br_checksums r) ''batch_record'')) (\<lambda>_.
        rbind (validate_checksum (bres_checksum (br_results r))) (\<lambda>_.
        if \<not> distinct (br_item_ids r)
        then value_error ''Duplicate batch item IDs are not allowed.''
        else if length (br_items r) \<noteq> length (br_item_ids r)
        then value_error ''Batch item IDs and item records must match.''
        else
        rbind (validate_items (br_items r) []) (\<lambda>_.
        validate_dependencies (br_item_ids r) (bg_dependency_map (br_dependency_graph r)))))))))"

subsection \<open>What a checked record satisfies\<close>

lemma rfold_check:
  "rfold (\<lambda>x _. f x) xs () = Inr () \<longleftrightarrow> (\<forall>x \<in> set xs. f x = Inr ())"
  by (induction xs) auto

lemma rfold_check_pairs:
  "rfold (\<lambda>(a, b) _. f a b) xs () = Inr () \<longleftrightarrow> (\<forall>(a, b) \<in> set xs. f a b = Inr ())"
  by (induction xs) auto

lemma validate_status_ok [simp]: "validate_status s = Inr () \<longleftrightarrow> s \<in> set BATCH_STATUSES"
  by (simp add: validate_status_def)

lemma validate_items_ok:
  "validate_items is seen = Inr () \<longleftrightarrow>
     distinct (map bi_request_id is) \<and> set (map bi_request_id is) \<inter> set seen = {} \<and>
     (\<forall>i \<in> set is. (\<forall>k \<in> {bi_request_checksum i, bi_response_checksum i, bi_approval_checksum i,
        bi_plan_checksum i}. validate_checksum k = Inr ()) \<and> bi_status i \<in> set BATCH_STATUSES)"
proof (induction "is" arbitrary: seen)
  case (Cons i "is")
  then show ?case by (auto simp: image_iff)
qed simp

lemma validate_dependencies_ok:
  "validate_dependencies ids deps = Inr () \<longleftrightarrow>
     (\<forall>(i, required) \<in> set deps. i \<in> set ids \<and> set required \<subseteq> set ids)"
  unfolding validate_dependencies_def rfold_check_pairs
  by (auto simp: rfold_check subset_iff split: if_splits)

text \<open>The limits and switches of a policy that is accepted.\<close>

definition manual_policy :: "execution_policy \<Rightarrow> bool" where
  "manual_policy p \<longleftrightarrow> ep_manual_cloud_only p \<and> \<not> ep_automatic_apply_enabled p
     \<and> \<not> ep_automatic_resume_enabled p \<and> (\<forall>v \<in> set (map snd (policy_limits p)). 0 < v)"

lemma validate_policy_ok: "validate_execution_policy p = Inr () \<longleftrightarrow> manual_policy p"
  by (auto simp: validate_execution_policy_def manual_policy_def policy_limits_def)

text \<open>An item in a known state whose checksums are empty or well formed.\<close>

definition item_well_formed :: "batch_item \<Rightarrow> bool" where
  "item_well_formed i \<longleftrightarrow> bi_status i \<in> set BATCH_STATUSES
     \<and> validate_checksum (bi_request_checksum i) = Inr () \<and> validate_checksum (bi_response_checksum i) = Inr ()
     \<and> validate_checksum (bi_approval_checksum i) = Inr () \<and> validate_checksum (bi_plan_checksum i) = Inr ()"


subsection \<open>Updates\<close>

definition batch_item_with :: "batch_item \<Rightarrow> pydict \<Rightarrow> batch_item res" where
  "batch_item_with i upd = batch_item_from_dict (al_merge (batch_item_to_dict i) upd)"

definition batch_record_with :: "batch_record \<Rightarrow> pydict \<Rightarrow> batch_record res" where
  "batch_record_with r upd = batch_record_from_dict (al_merge (batch_record_to_dict r) upd)"

lemma batch_item_with_get:
  "distinct (map fst upd) \<Longrightarrow> dget (al_merge (batch_item_to_dict i) upd) k =
     (case map_of upd k of None \<Rightarrow> dget (batch_item_to_dict i) k | Some v \<Rightarrow> Some v)"
  by (rule al_merge_lookup)

lemma batch_record_with_get:
  "distinct (map fst upd) \<Longrightarrow> dget (al_merge (batch_record_to_dict r) upd) k =
     (case map_of upd k of None \<Rightarrow> dget (batch_record_to_dict r) k | Some v \<Rightarrow> Some v)"
  by (rule al_merge_lookup)

lemmas batch_item_with_simps = batch_item_with_def batch_item_from_dict_def batch_item_with_get codec_simps

lemmas batch_record_with_simps =
  batch_record_with_def batch_record_from_dict_def batch_record_with_get wf_batch_record_def codec_simps

end
