(* ===== verification/BatchGraph.thy ===== *)
theory BatchGraph
  imports BatchValidation
begin

text \<open>
  \<open>cloud_batch/graph.py\<close>: the dependency graph of a batch. The depth-first search for cycles
  and the loops over worklists run on fuel, one more than the number of items; the lemmas
  show that this is enough, so that running out (\<open>RuntimeError\<close>, Python's
  \<open>RecursionError\<close> is one) never happens. A set of nodes is a list here: the code only tests
  membership and emptiness or sorts it. Python's own recursion limit is not modelled.
\<close>

type_synonym node_graph = "(string \<times> string list) list"

definition edges_of :: "node_graph \<Rightarrow> string \<Rightarrow> string list" where
  "edges_of g n = (case map_of g n of None \<Rightarrow> [] | Some ds \<Rightarrow> ds)"

text \<open>\<open>{item.item_id: f(item) for item in items}\<close>\<close>

definition item_dict :: "(batch_item \<Rightarrow> 'a) \<Rightarrow> batch_item list \<Rightarrow> (string \<times> 'a) list" where
  "item_dict f items = al_merge [] (map (\<lambda>i. (bi_item_id i, f i)) items)"

subsection \<open>Cycles\<close>

record dfs_state =
  df_seen :: "string list"
  df_on_stack :: "string list"
  df_stack :: "string list"
  df_cycles :: "string list list"

definition record_cycle :: "string \<Rightarrow> dfs_state \<Rightarrow> dfs_state" where
  "record_cycle n s = (if n \<in> set (df_stack s)
     then s\<lparr>df_cycles := df_cycles s @ [dropWhile (\<lambda>m. m \<noteq> n) (df_stack s) @ [n]]\<rparr> else s)"

definition enter_node :: "string \<Rightarrow> dfs_state \<Rightarrow> dfs_state" where
  "enter_node n s = s\<lparr>df_seen := n # df_seen s, df_on_stack := n # df_on_stack s, df_stack := df_stack s @ [n]\<rparr>"

definition leave_node :: "string \<Rightarrow> dfs_state \<Rightarrow> dfs_state" where
  "leave_node n s = s\<lparr>df_stack := butlast (df_stack s), df_on_stack := remove1 n (df_on_stack s)\<rparr>"

fun visit :: "nat \<Rightarrow> node_graph \<Rightarrow> string \<Rightarrow> dfs_state \<Rightarrow> dfs_state option"
  and visit_all :: "nat \<Rightarrow> node_graph \<Rightarrow> string list \<Rightarrow> dfs_state \<Rightarrow> dfs_state option" where
  "visit 0 g n s = None"
| "visit (Suc f) g n s =
     (if n \<in> set (df_on_stack s) then Some (record_cycle n s)
      else if n \<in> set (df_seen s) then Some s
      else case visit_all f g (edges_of g n) (enter_node n s) of
             None \<Rightarrow> None | Some t \<Rightarrow> Some (leave_node n t))"
| "visit_all f g [] s = Some s"
| "visit_all f g (n # ns) s = (case visit f g n s of None \<Rightarrow> None | Some t \<Rightarrow> visit_all f g ns t)"

definition detect_dependency_cycles :: "batch_item list \<Rightarrow> string list list res" where
  "detect_dependency_cycles items =
     (let graph = item_dict bi_dependencies items in
      case visit_all (Suc (length items)) graph (sort (map fst graph))
             \<lparr>df_seen = [], df_on_stack = [], df_stack = [], df_cycles = []\<rparr> of
        None \<Rightarrow> Inl (Exn RuntimeError ''maximum recursion depth exceeded'')
      | Some s \<Rightarrow> Inr (df_cycles s))"

definition validate_batch_dependency_graph :: "batch_item list \<Rightarrow> unit res" where
  "validate_batch_dependency_graph items =
     (let ids = map bi_item_id items in
      if \<not> distinct ids then value_error ''Duplicate batch item IDs are not allowed.''
      else
        rbind (rfold (\<lambda>i _. rfold (\<lambda>dependency _.
                 if dependency \<notin> set ids then value_error (''Missing dependency: '' @ dependency) else Inr ())
               (bi_dependencies i) ()) items ()) (\<lambda>_.
        rbind (detect_dependency_cycles items) (\<lambda>cycles.
        if cycles \<noteq> [] then value_error ''Dependency graph contains a cycle.'' else Inr ())))"

subsection \<open>Orders and ready sets\<close>

definition reverse_edges :: "node_graph \<Rightarrow> node_graph" where
  "reverse_edges graph =
     foldl (\<lambda>r (node, deps). foldl (\<lambda>r d. al_set d (edges_of r d @ [node]) r) r deps)
       (map (\<lambda>(n, _). (n, [])) graph) graph"

text \<open>The dependents of a node lose it; those with nothing left are ready.\<close>

fun release :: "string \<Rightarrow> string list \<Rightarrow> node_graph \<Rightarrow> string list \<Rightarrow> node_graph \<times> string list" where
  "release node [] remaining ready = (remaining, ready)"
| "release node (m # ms) remaining ready =
     (let left = removeAll node (edges_of remaining m)
      in release node ms (al_set m left remaining) (if left = [] then ready @ [m] else ready))"

fun order_loop :: "nat \<Rightarrow> node_graph \<Rightarrow> string list \<Rightarrow> string list \<Rightarrow> node_graph \<Rightarrow> string list option" where
  "order_loop fuel reversed [] order remaining = Some order"
| "order_loop 0 reversed (n # ns) order remaining = None"
| "order_loop (Suc f) reversed (n # ns) order remaining =
     (let (remaining', ready) = release n (sorted_set (edges_of reversed n)) remaining ns
      in order_loop f reversed ready (order @ [n]) remaining')"

definition batch_dependency_topological_order :: "batch_item list \<Rightarrow> string list res" where
  "batch_dependency_topological_order items =
     rbind (validate_batch_dependency_graph items) (\<lambda>_.
     let graph = item_dict (\<lambda>i. dedup (bi_dependencies i)) items;
         reversed = reverse_edges graph;
         ready = sort (map fst (filter (\<lambda>(_, deps). deps = []) graph))
     in case order_loop (length items) reversed ready [] graph of
          None \<Rightarrow> Inl (Exn RuntimeError ''maximum recursion depth exceeded'')
        | Some order \<Rightarrow>
            if length order \<noteq> length items then value_error ''Dependency graph contains a cycle.''
            else Inr order)"

definition stable_scheduling_order :: "batch_item list \<Rightarrow> string list res" where
  "stable_scheduling_order items = batch_dependency_topological_order items"

definition batch_dependency_ready_set :: "batch_item list \<Rightarrow> string list \<Rightarrow> string list" where
  "batch_dependency_ready_set items completed =
     (let item_ids = map bi_item_id items in
      map bi_item_id (filter (\<lambda>i. bi_item_id i \<notin> set completed
          \<and> \<not> (\<exists>d \<in> set (bi_dependencies i). d \<notin> set item_ids)
          \<and> (\<forall>d \<in> set (bi_dependencies i). d \<in> set completed))
        (sort_key bi_item_id items)))"

definition dependency_blocking_map :: "batch_item list \<Rightarrow> string list \<Rightarrow> (string \<times> string list) list" where
  "dependency_blocking_map items failed_items =
     foldl (\<lambda>blocking i.
        let blockers = sort (filter (\<lambda>d. d \<in> set failed_items) (bi_dependencies i))
        in if blockers \<noteq> [] then al_set (bi_item_id i) blockers blocking else blocking)
       [] items"

text \<open>
  One pass of \<open>propagate_terminal_states\<close>, and the passes until nothing changes: each pass
  that changes something marks another item.
\<close>

definition FAILED_STATES :: "string list" where
  "FAILED_STATES = [''failed'', ''cancelled'', ''superseded'']"

definition propagate_pass ::
    "batch_item list \<Rightarrow> (string \<times> string) list \<Rightarrow> (string \<times> string) list \<times> bool" where
  "propagate_pass items propagated =
     foldl (\<lambda>(p, changed) i.
        if map_of p (bi_item_id i) \<noteq> None then (p, changed)
        else if \<exists>d \<in> set (bi_dependencies i). \<exists>s \<in> set FAILED_STATES. map_of p d = Some s
        then (al_set (bi_item_id i) ''blocked'' p, True)
        else (p, changed))
       (propagated, False) items"

fun propagate_loop :: "nat \<Rightarrow> batch_item list \<Rightarrow> (string \<times> string) list \<Rightarrow> (string \<times> string) list option" where
  "propagate_loop 0 items p = None"
| "propagate_loop (Suc f) items p =
     (let (p', changed) = propagate_pass items p
      in if changed then propagate_loop f items p' else Some p')"

definition propagate_terminal_states ::
    "batch_item list \<Rightarrow> (string \<times> string) list \<Rightarrow> (string \<times> string) list res" where
  "propagate_terminal_states items terminal_states =
     (case propagate_loop (Suc (length items)) items terminal_states of
        None \<Rightarrow> Inl (Exn RuntimeError ''maximum recursion depth exceeded'')
      | Some p \<Rightarrow> Inr p)"

subsection \<open>Dependencies first\<close>

text \<open>\<open>deps_first e seen xs\<close>: every node of the list comes after the nodes it depends on.\<close>

fun deps_first :: "(string \<Rightarrow> string list) \<Rightarrow> string list \<Rightarrow> string list \<Rightarrow> bool" where
  "deps_first e seen [] = True"
| "deps_first e seen (x # xs) = (set (e x) \<subseteq> set seen \<and> deps_first e (x # seen) xs)"

lemma deps_first_append:
  "deps_first e seen (xs @ ys) \<longleftrightarrow> deps_first e seen xs \<and> deps_first e (rev xs @ seen) ys"
  by (induction xs arbitrary: seen) auto

lemma deps_first_mono:
  "deps_first e seen xs \<Longrightarrow> set seen \<subseteq> set seen' \<Longrightarrow> deps_first e seen' xs"
proof (induction xs arbitrary: seen seen')
  case (Cons x xs)
  have "deps_first e (x # seen') xs"
    by (rule Cons.IH [of "x # seen"]) (use Cons.prems in auto)
  then show ?case using Cons.prems by auto
qed simp

lemma deps_first_snoc: "deps_first e [] (xs @ [x]) \<longleftrightarrow> deps_first e [] xs \<and> set (e x) \<subseteq> set xs"
  by (simp add: deps_first_append)

lemma deps_first_closed: "deps_first e [] xs \<Longrightarrow> x \<in> set xs \<Longrightarrow> set (e x) \<subseteq> set xs"
  by (induction xs rule: rev_induct) (auto simp: deps_first_snoc)

definition node_index :: "string list \<Rightarrow> string \<Rightarrow> nat" where
  "node_index xs x = length (takeWhile (\<lambda>y. y \<noteq> x) xs)"

lemma takeWhile_split: "x \<notin> set front \<Longrightarrow> takeWhile (\<lambda>z. z \<noteq> x) (front @ x # rest) = front"
  by (induction front) auto

lemma deps_first_index:
  assumes "deps_first e [] xs" and "x \<in> set xs" and "y \<in> set (e x)"
  shows "node_index xs y < node_index xs x"
proof -
  obtain front rest where split: "xs = front @ x # rest" "x \<notin> set front"
    using split_list_first [OF assms(2)] by blast
  from assms(1) have "y \<in> set front" using assms(3) by (auto simp: split(1) deps_first_append)
  then obtain a b where front: "front = a @ y # b" "y \<notin> set a" using split_list_first by metis
  have "takeWhile (\<lambda>z. z \<noteq> x) xs = front" using split takeWhile_split by simp
  moreover have "takeWhile (\<lambda>z. z \<noteq> y) xs = a" using split(1) front takeWhile_split by simp
  ultimately show ?thesis using front by (simp add: node_index_def)
qed

definition depends :: "(string \<Rightarrow> string list) \<Rightarrow> (string \<times> string) set" where
  "depends e = {(a, b). b \<in> set (e a)}"

lemma deps_first_acyclic:
  assumes "deps_first e [] xs" and "\<And>x. x \<notin> set xs \<Longrightarrow> e x = []"
  shows "acyclic (depends e)"
proof -
  have "(depends e)\<inverse> \<subseteq> measure (node_index xs)"
    using deps_first_index [OF assms(1)] assms(2) by (fastforce simp: depends_def)
  then have "wf ((depends e)\<inverse>)" using wf_subset wf_measure by blast
  then show ?thesis by (metis acyclic_converse wf_acyclic)
qed

subsection \<open>The search finds the cycles\<close>

definition search_ok :: "dfs_state \<Rightarrow> bool" where
  "search_ok s \<longleftrightarrow> set (df_on_stack s) = set (df_stack s) \<and> set (df_stack s) \<subseteq> set (df_seen s)"

definition search_kept :: "dfs_state \<Rightarrow> dfs_state \<Rightarrow> bool" where
  "search_kept s t \<longleftrightarrow> df_stack t = df_stack s \<and> df_on_stack t = df_on_stack s
     \<and> set (df_seen s) \<subseteq> set (df_seen t) \<and> (\<exists>cs. df_cycles t = df_cycles s @ cs)"

lemma search_kept_trans: "search_kept s t \<Longrightarrow> search_kept t u \<Longrightarrow> search_kept s u"
  by (auto simp: search_kept_def)

lemma search_kept_refl [simp]: "search_kept s s" "search_kept s (record_cycle n s)"
  by (simp_all add: search_kept_def record_cycle_def)

lemma search_kept_leave: "search_kept (enter_node n s) t \<Longrightarrow> search_kept s (leave_node n t)"
  by (auto simp: search_kept_def enter_node_def leave_node_def)

lemma visit_kept:
  "visit f g n s = Some t \<Longrightarrow> search_kept s t"
  "visit_all f g ns s = Some t \<Longrightarrow> search_kept s t"
proof (induction f g n s and f g ns s arbitrary: t and t rule: visit_visit_all.induct)
  case (2 f g n s)
  then show ?case by (auto split: if_splits option.splits intro: search_kept_leave)
next
  case (4 f g n ns s)
  then show ?case by (auto split: option.splits intro: search_kept_trans)
qed auto

text \<open>The fuel is enough.\<close>

lemma visit_returns:
  "card (set (map fst g) - set (df_seen s)) < f \<Longrightarrow> \<exists>t. visit f g n s = Some t"
proof (induction f arbitrary: n s)
  case (Suc f)
  have all: "\<exists>t. visit_all f g ns s = Some t" if "card (set (map fst g) - set (df_seen s)) < f" for ns s
    using that
  proof (induction ns arbitrary: s)
    case (Cons m ms)
    obtain t where t: "visit f g m s = Some t" using Suc.IH Cons.prems by blast
    then have "set (map fst g) - set (df_seen t) \<subseteq> set (map fst g) - set (df_seen s)"
      using visit_kept(1) by (fastforce simp: search_kept_def)
    then have "card (set (map fst g) - set (df_seen t)) < f"
      using Cons.prems by (meson card_mono finite_Diff finite_set le_less_trans)
    with Cons.IH t show ?case by simp
  qed simp
  show ?case
  proof (cases "n \<in> set (map fst g) - set (df_seen s)")
    case True
    then have "set (map fst g) - set (df_seen (enter_node n s)) \<subset> set (map fst g) - set (df_seen s)"
      by (auto simp: enter_node_def)
    then have "card (set (map fst g) - set (df_seen (enter_node n s))) < f"
      using Suc.prems by (meson finite_Diff finite_set less_Suc_eq_le order_less_le_trans psubset_card_mono)
    with all [of "enter_node n s" "edges_of g n"] show ?thesis by auto
  next
    case False
    then have "n \<in> set (df_seen s) \<or> edges_of g n = []"
      by (force simp: edges_of_def dest: map_of_SomeD split: option.splits)
    then show ?thesis by auto
  qed
qed simp

lemma visit_all_returns:
  "card (set (map fst g) - set (df_seen s)) < f \<Longrightarrow> \<exists>t. visit_all f g ns s = Some t"
proof (induction ns arbitrary: s)
  case (Cons m ms)
  obtain t where t: "visit f g m s = Some t" using visit_returns Cons.prems by blast
  then have "set (map fst g) - set (df_seen t) \<subseteq> set (map fst g) - set (df_seen s)"
    using visit_kept(1) by (fastforce simp: search_kept_def)
  then have "card (set (map fst g) - set (df_seen t)) < f"
    using Cons.prems by (meson card_mono finite_Diff finite_set le_less_trans)
  with Cons.IH t show ?case by simp
qed simp

abbreviation graph_edges :: "node_graph \<Rightarrow> (string \<times> string) set" where
  "graph_edges g \<equiv> depends (edges_of g)"

lemma path_reaches:
  "successively (\<lambda>a b. b \<in> set (e a)) (x # ys @ [y]) \<Longrightarrow> (x, y) \<in> (depends e)\<^sup>+"
proof (induction ys arbitrary: x)
  case Nil
  then show ?case by (auto simp: depends_def)
next
  case (Cons z zs)
  then have "(x, z) \<in> depends e" "(z, y) \<in> (depends e)\<^sup>+" by (auto simp: depends_def)
  then show ?case by (rule trancl_into_trancl2)
qed

text \<open>Every recorded cycle is one: without cycles nothing is recorded.\<close>

lemma visit_sound:
  shows "acyclic (graph_edges g) \<Longrightarrow> visit f g n s = Some t \<Longrightarrow> set (df_on_stack s) = set (df_stack s) \<Longrightarrow>
      successively (\<lambda>a b. b \<in> set (edges_of g a)) (df_stack s @ [n]) \<Longrightarrow> df_cycles t = df_cycles s"
    and "acyclic (graph_edges g) \<Longrightarrow> visit_all f g ns s = Some t \<Longrightarrow> set (df_on_stack s) = set (df_stack s) \<Longrightarrow>
      (\<And>n. n \<in> set ns \<Longrightarrow> successively (\<lambda>a b. b \<in> set (edges_of g a)) (df_stack s @ [n])) \<Longrightarrow>
      df_cycles t = df_cycles s"
proof (induction f g n s and f g ns s arbitrary: t and t rule: visit_visit_all.induct)
  case (2 f g n s)
  have "n \<notin> set (df_stack s)"
  proof
    assume "n \<in> set (df_stack s)"
    then obtain xs ys where "df_stack s = xs @ n # ys" by (meson split_list)
    with 2(5) have "(n, n) \<in> (graph_edges g)\<^sup>+"
      using path_reaches [of "edges_of g" n ys n] by (simp add: successively_append_iff)
    with 2(2) show False by (simp add: acyclic_def)
  qed
  moreover have "df_cycles u = df_cycles s"
    if "n \<notin> set (df_stack s)" "n \<notin> set (df_seen s)" "visit_all f g (edges_of g n) (enter_node n s) = Some u" for u
    using "2.IH" [of u] that 2(2,4,5) by (auto simp: enter_node_def successively_append_iff)
  ultimately show ?case using 2(3,4) by (auto simp: leave_node_def split: if_splits option.splits)
next
  case (4 f g n ns s)
  from 4(4) obtain u where u: "visit f g n s = Some u" "visit_all f g ns u = Some t"
    by (auto split: option.splits)
  have kept: "df_stack u = df_stack s" "df_on_stack u = df_on_stack s"
    using visit_kept(1) [OF u(1)] by (simp_all add: search_kept_def)
  have "df_cycles u = df_cycles s"
    by (rule "4.IH"(1) [OF 4(3) u(1) 4(5)]) (simp add: 4(6))
  moreover have "df_cycles t = df_cycles u"
    by (rule "4.IH"(2) [OF u(1) 4(3) u(2)]) (simp_all add: kept 4(5,6))
  ultimately show ?case by simp
qed auto

text \<open>Without recorded cycles the finished nodes can be listed with dependencies first.\<close>

definition finished :: "dfs_state \<Rightarrow> string set" where
  "finished s = set (df_seen s) - set (df_on_stack s)"

definition search_sorted :: "node_graph \<Rightarrow> dfs_state \<Rightarrow> bool" where
  "search_sorted g s \<longleftrightarrow> search_ok s \<and> (\<exists>xs. set xs = finished s \<and> deps_first (edges_of g) [] xs)"

lemma search_sorted_enter:
  assumes "search_sorted g s" and "n \<notin> set (df_seen s)"
  shows "search_sorted g (enter_node n s)" "finished (enter_node n s) = finished s"
proof -
  show same: "finished (enter_node n s) = finished s"
    using assms by (auto simp: finished_def enter_node_def)
  show "search_sorted g (enter_node n s)"
    using assms unfolding search_sorted_def same by (auto simp: search_ok_def enter_node_def)
qed

lemma search_sorted_leave:
  assumes "search_sorted g t" and kept: "search_kept (enter_node n s) t"
    and "set (edges_of g n) \<subseteq> finished t" and "search_ok s" and "n \<notin> set (df_seen s)"
  shows "search_sorted g (leave_node n t)" "finished (leave_node n t) = insert n (finished t)"
proof -
  have on: "df_on_stack t = n # df_on_stack s" "df_stack t = df_stack s @ [n]" "n \<in> set (df_seen t)"
    "set (df_seen s) \<subseteq> set (df_seen t)"
    using kept by (auto simp: search_kept_def enter_node_def)
  show fin: "finished (leave_node n t) = insert n (finished t)"
    using on assms(4,5) by (auto simp: finished_def leave_node_def search_ok_def)
  from assms(1) obtain xs where xs: "set xs = finished t" "deps_first (edges_of g) [] xs"
    by (auto simp: search_sorted_def)
  then have "set (xs @ [n]) = finished (leave_node n t)" "deps_first (edges_of g) [] (xs @ [n])"
    using fin assms(3) by (auto simp: deps_first_snoc)
  moreover have "search_ok (leave_node n t)"
    using on assms(4) by (auto simp: search_ok_def leave_node_def)
  ultimately show "search_sorted g (leave_node n t)" unfolding search_sorted_def by blast
qed

lemma visit_complete:
  shows "visit f g n s = Some t \<Longrightarrow> df_cycles t = [] \<Longrightarrow> search_sorted g s \<Longrightarrow>
      search_sorted g t \<and> n \<in> finished t \<and> finished s \<subseteq> finished t"
    and "visit_all f g ns s = Some t \<Longrightarrow> df_cycles t = [] \<Longrightarrow> search_sorted g s \<Longrightarrow>
      search_sorted g t \<and> set ns \<subseteq> finished t \<and> finished s \<subseteq> finished t"
proof (induction f g n s and f g ns s arbitrary: t and t rule: visit_visit_all.induct)
  case (2 f g n s)
  have ok: "search_ok s" using 2(4) by (simp add: search_sorted_def)
  show ?case
  proof (cases "n \<in> set (df_on_stack s)")
    case True
    then have "df_cycles t \<noteq> []" using 2(2) ok by (auto simp: record_cycle_def search_ok_def)
    with 2(3) show ?thesis by simp
  next
    case new: False
    show ?thesis
    proof (cases "n \<in> set (df_seen s)")
      case True
      with new 2 show ?thesis by (auto simp: finished_def)
    next
      case False
      from 2(2) new False obtain u where u: "visit_all f g (edges_of g n) (enter_node n s) = Some u"
        "t = leave_node n u" by (auto split: option.splits)
      have cyc: "df_cycles u = []" using 2(3) u(2) by (simp add: leave_node_def)
      note entered = search_sorted_enter [OF 2(4) False]
      from "2.IH" [OF new False u(1) cyc entered(1)] entered(2)
      have *: "search_sorted g u" "set (edges_of g n) \<subseteq> finished u" "finished s \<subseteq> finished u" by auto
      have "search_kept (enter_node n s) u" using visit_kept(2) u(1) by blast
      from search_sorted_leave [OF *(1) this *(2) ok False] *(3) u(2) show ?thesis by auto
    qed
  qed
next
  case (4 f g n ns s)
  from 4(3) obtain u where u: "visit f g n s = Some u" "visit_all f g ns u = Some t"
    by (auto split: option.splits)
  have "df_cycles u = []" using visit_kept(2) [OF u(2)] 4(4) by (auto simp: search_kept_def)
  from "4.IH"(1) [OF u(1) this 4(5)] have u': "search_sorted g u" "n \<in> finished u" "finished s \<subseteq> finished u"
    by simp_all
  from "4.IH"(2) [OF u(1,2) 4(4) u'(1)] u' show ?case by auto
qed auto

subsection \<open>Item dictionaries\<close>

lemma al_merge_distinct:
  "distinct (map fst xs) \<Longrightarrow> fst ` set d \<inter> fst ` set xs = {} \<Longrightarrow> al_merge d xs = d @ xs"
proof (induction xs arbitrary: d)
  case (Cons x xs)
  have "al_set (fst x) (snd x) d = d @ [x]" if "fst x \<notin> fst ` set d"
    using that by (induction d) auto
  with Cons show ?case by (auto simp: Int_def)
qed simp

lemma item_dict_distinct:
  "distinct (map bi_item_id items) \<Longrightarrow> item_dict f items = map (\<lambda>i. (bi_item_id i, f i)) items"
  by (simp add: item_dict_def al_merge_distinct comp_def)

lemma item_dict_keys: "set (map fst (item_dict f items)) = set (map bi_item_id items)"
proof -
  have "fst ` set (al_merge d xs) = fst ` set d \<union> fst ` set xs" for d and xs :: "(string \<times> 'a) list"
    by (induction xs arbitrary: d) auto
  then show ?thesis by (force simp: item_dict_def)
qed

lemma length_item_dict: "card (set (map fst (item_dict f items))) \<le> length items"
  unfolding item_dict_keys by (metis card_length length_map)

text \<open>The dependencies of the item with a given identifier.\<close>

definition deps_of :: "batch_item list \<Rightarrow> string \<Rightarrow> string list" where
  "deps_of items = edges_of (item_dict bi_dependencies items)"

text \<open>From an empty state, over all nodes, the search returns and finds the cycles.\<close>

lemma search_decides:
  assumes "card (set (map fst g)) < f" and "set (map fst g) \<subseteq> set ns"
  obtains t where "visit_all f g ns \<lparr>df_seen = [], df_on_stack = [], df_stack = [], df_cycles = []\<rparr> = Some t"
    and "df_cycles t = [] \<longleftrightarrow> acyclic (graph_edges g)"
proof -
  let ?s = "\<lparr>df_seen = [], df_on_stack = [], df_stack = [], df_cycles = []\<rparr>"
  obtain t where t: "visit_all f g ns ?s = Some t"
    using visit_all_returns [of g ?s f ns] assms(1) by auto
  have "search_sorted g ?s" by (auto simp: search_sorted_def search_ok_def finished_def)
  have "acyclic (graph_edges g)" if "df_cycles t = []"
  proof -
    from visit_complete(2) [OF t that \<open>search_sorted g ?s\<close>] obtain xs where
      xs: "set xs = finished t" "deps_first (edges_of g) [] xs" "set ns \<subseteq> finished t"
      by (auto simp: search_sorted_def)
    have "edges_of g x = []" if "x \<notin> set xs" for x
      using that xs assms(2) by (force simp: edges_of_def dest: map_of_SomeD split: option.splits)
    with xs(2) show ?thesis by (rule deps_first_acyclic)
  qed
  moreover have "df_cycles t = []" if "acyclic (graph_edges g)"
    using visit_sound(2) [OF that t] by simp
  ultimately show thesis using that t by blast
qed

lemma cycles_returns:
  obtains cs where "detect_dependency_cycles items = Inr cs"
    and "cs = [] \<longleftrightarrow> acyclic (depends (deps_of items))"
proof -
  let ?g = "item_dict bi_dependencies items"
  have "card (set (map fst ?g)) < Suc (length items)"
    using length_item_dict [of bi_dependencies items] by simp
  from search_decides [OF this, of "sort (map fst ?g)"] obtain t where
    "visit_all (Suc (length items)) ?g (sort (map fst ?g))
       \<lparr>df_seen = [], df_on_stack = [], df_stack = [], df_cycles = []\<rparr> = Some t"
    "df_cycles t = [] \<longleftrightarrow> acyclic (graph_edges ?g)" by auto
  then show thesis
    by (intro that [of "df_cycles t"]) (simp_all add: detect_dependency_cycles_def Let_def deps_of_def)
qed

subsection \<open>Valid graphs\<close>

definition known_deps :: "batch_item list \<Rightarrow> bool" where
  "known_deps items \<longleftrightarrow> list_all (\<lambda>i. set (bi_dependencies i) \<subseteq> set (map bi_item_id items)) items"

text \<open>What makes a batch schedulable.\<close>

definition schedulable :: "batch_item list \<Rightarrow> bool" where
  "schedulable items \<longleftrightarrow> distinct (map bi_item_id items) \<and> known_deps items
     \<and> acyclic (depends (deps_of items))"

lemma rfold_check_nested:
  "rfold (\<lambda>i. rfold (\<lambda>x _. f x) (g i)) xs () = Inr () \<longleftrightarrow> (\<forall>i \<in> set xs. \<forall>x \<in> set (g i). f x = Inr ())"
  by (induction xs) (auto simp: rfold_check)

lemma validate_graph_ok: "validate_batch_dependency_graph items = Inr () \<longleftrightarrow> schedulable items"
proof -
  obtain cs where "detect_dependency_cycles items = Inr cs" "cs = [] \<longleftrightarrow> acyclic (depends (deps_of items))"
    by (rule cycles_returns)
  then show ?thesis
    by (auto simp: validate_batch_dependency_graph_def schedulable_def known_deps_def Let_def
        rfold_check_nested list_all_iff subset_iff)
qed

lemma map_of_keyed:
  "distinct (map key xs) \<Longrightarrow> i \<in> set xs \<Longrightarrow> map_of (map (\<lambda>i. (key i, f i)) xs) (key i) = Some (f i)"
  by (induction xs) (auto simp: image_iff)

lemma deps_of_item:
  "distinct (map bi_item_id items) \<Longrightarrow> i \<in> set items \<Longrightarrow> deps_of items (bi_item_id i) = bi_dependencies i"
  by (simp add: deps_of_def item_dict_distinct edges_of_def map_of_keyed)

lemma deps_of_none: "x \<notin> set (map bi_item_id items) \<Longrightarrow> deps_of items x = []"
  using item_dict_keys [of bi_dependencies items]
  by (force simp: deps_of_def edges_of_def dest: map_of_SomeD split: option.splits)

subsection \<open>The worklist\<close>

lemma edges_of_set [simp]: "edges_of (al_set k v g) n = (if n = k then v else edges_of g n)"
  by (simp add: edges_of_def)

lemma release_result:
  "distinct ms \<Longrightarrow> release n ms remaining ready = (remaining', ready') \<Longrightarrow>
   (\<forall>m. edges_of remaining' m = (if m \<in> set ms then removeAll n (edges_of remaining m) else edges_of remaining m))
   \<and> ready' = ready @ filter (\<lambda>m. removeAll n (edges_of remaining m) = []) ms"
proof (induction n ms remaining ready rule: release.induct)
  case (2 n m ms remaining ready)
  let ?left = "removeAll n (edges_of remaining m)"
  from 2 have "(\<forall>k. edges_of remaining' k = (if k \<in> set ms then removeAll n (edges_of (al_set m ?left remaining) k)
        else edges_of (al_set m ?left remaining) k))
     \<and> ready' = (if ?left = [] then ready @ [m] else ready)
        @ filter (\<lambda>k. removeAll n (edges_of (al_set m ?left remaining) k) = []) ms"
    by (simp add: Let_def)
  moreover have "filter (\<lambda>k. removeAll n (edges_of (al_set m ?left remaining) k) = []) ms
      = filter (\<lambda>k. removeAll n (edges_of remaining k) = []) ms"
    using 2(2) by (intro filter_cong) auto
  ultimately show ?case using 2(2) by auto
qed simp

text \<open>The state of the loop: who is ordered, who is ready and what is left of the others.\<close>

definition order_inv ::
    "string set \<Rightarrow> (string \<Rightarrow> string list) \<Rightarrow> string list \<Rightarrow> string list \<Rightarrow> node_graph \<Rightarrow> bool" where
  "order_inv nodes e ready order remaining \<longleftrightarrow>
     distinct (order @ ready) \<and> set (order @ ready) \<subseteq> nodes \<and> deps_first e [] order
     \<and> (\<forall>m \<in> nodes. set (edges_of remaining m) = set (e m) - set order)
     \<and> (\<forall>m \<in> nodes. m \<in> set order \<union> set ready \<longleftrightarrow> set (e m) \<subseteq> set order)"

lemma order_inv_step:
  assumes inv: "order_inv nodes e (n # ns) order remaining"
    and rel: "release n ms remaining ns = (remaining', ready)"
    and ms: "distinct ms" "set ms = {m \<in> nodes. n \<in> set (e m)}"
  shows "order_inv nodes e ready (order @ [n]) remaining'"
proof -
  have n: "n \<in> nodes" "n \<notin> set order" "n \<notin> set ns" "set (e n) \<subseteq> set order"
    using inv by (auto simp: order_inv_def)
  have left: "set (edges_of remaining m) = set (e m) - set order" if "m \<in> nodes" for m
    using inv that by (simp add: order_inv_def)
  have iff: "m = n \<or> m \<in> set order \<or> m \<in> set ns \<longleftrightarrow> set (e m) \<subseteq> set order" if "m \<in> nodes" for m
    using inv that by (simp add: order_inv_def)
  from release_result [OF ms(1) rel] have
    rem: "\<And>m. edges_of remaining' m = (if m \<in> set ms then removeAll n (edges_of remaining m) else edges_of remaining m)"
    and ready: "ready = ns @ filter (\<lambda>m. removeAll n (edges_of remaining m) = []) ms"
    by blast+
  have new: "removeAll n (edges_of remaining m) = [] \<longleftrightarrow> set (e m) \<subseteq> insert n (set order)" if "m \<in> nodes" for m
    using left [OF that] by (auto simp: removeAll_filter_not_eq filter_empty_conv)
  have fresh: "m \<notin> set order \<and> m \<noteq> n \<and> m \<notin> set ns" if "m \<in> set ms" for m
    using that ms(2) iff [of m] n(2) by auto
  have set_ready: "set ready = set ns \<union> {m \<in> set ms. set (e m) \<subseteq> insert n (set order)}"
    using ready new ms(2) by auto
  have "distinct ((order @ [n]) @ ready)"
    using inv fresh ms(1) unfolding ready by (auto simp: order_inv_def)
  moreover have "set ((order @ [n]) @ ready) \<subseteq> nodes"
    using inv ms(2) set_ready by (auto simp: order_inv_def)
  moreover have "deps_first e [] (order @ [n])"
    using inv n(4) by (simp add: order_inv_def deps_first_snoc)
  moreover have "\<forall>m \<in> nodes. set (edges_of remaining' m) = set (e m) - set (order @ [n])"
    using left rem ms(2) by auto
  moreover have "\<forall>m \<in> nodes. m \<in> set (order @ [n]) \<union> set ready \<longleftrightarrow> set (e m) \<subseteq> set (order @ [n])"
  proof
    fix m assume m: "m \<in> nodes"
    show "m \<in> set (order @ [n]) \<union> set ready \<longleftrightarrow> set (e m) \<subseteq> set (order @ [n])"
    proof (cases "n \<in> set (e m)")
      case True
      then have "m \<in> set ms" using m ms(2) by simp
      with fresh set_ready show ?thesis by auto
    next
      case False
      then have "m \<notin> set ms" "set (e m) \<subseteq> insert n (set order) \<longleftrightarrow> set (e m) \<subseteq> set order"
        using ms(2) by auto
      with iff [OF m] set_ready show ?thesis by auto
    qed
  qed
  ultimately show ?thesis unfolding order_inv_def by blast
qed

lemma order_loop_returns:
  assumes "finite nodes" and rev: "\<And>n. set (edges_of reversed n) = {m \<in> nodes. n \<in> set (e m)}"
  shows "order_inv nodes e ready order remaining \<Longrightarrow> card nodes \<le> fuel + length order \<Longrightarrow>
    \<exists>result remaining'. order_loop fuel reversed ready order remaining = Some result
      \<and> order_inv nodes e [] result remaining'"
proof (induction fuel arbitrary: ready order remaining)
  case 0
  have "distinct (order @ ready)" "set (order @ ready) \<subseteq> nodes" using 0(1) by (auto simp: order_inv_def)
  then have "length (order @ ready) \<le> card nodes"
    using card_mono [OF assms(1)] by (metis distinct_card)
  with 0 show ?case by (cases ready) auto
next
  case (Suc fuel)
  show ?case
  proof (cases ready)
    case Nil
    with Suc.prems show ?thesis by auto
  next
    case (Cons n ns)
    obtain remaining' ready' where rel: "release n (sorted_set (edges_of reversed n)) remaining ns = (remaining', ready')"
      by fastforce
    have "order_inv nodes e ready' (order @ [n]) remaining'"
      by (rule order_inv_step [OF Suc.prems(1) [unfolded Cons] rel]) (simp_all add: rev)
    from Suc.IH [OF this] Suc.prems(2) rel show ?thesis by (simp add: Cons)
  qed
qed

subsection \<open>The order\<close>

lemma reverse_inner:
  "set (edges_of (foldl (\<lambda>r d. al_set d (edges_of r d @ [node]) r) r deps) d)
   = set (edges_of r d) \<union> {n. n = node \<and> d \<in> set deps}"
  by (induction deps arbitrary: r) auto

lemma reverse_edges_set:
  "set (edges_of (reverse_edges graph) d) = {n. \<exists>deps. (n, deps) \<in> set graph \<and> d \<in> set deps}"
proof -
  have "set (edges_of (foldl (\<lambda>r (node, deps). foldl (\<lambda>r d. al_set d (edges_of r d @ [node]) r) r deps) r g) d)
      = set (edges_of r d) \<union> {n. \<exists>deps. (n, deps) \<in> set g \<and> d \<in> set deps}" for r g
    by (induction g arbitrary: r) (auto simp: reverse_inner)
  moreover have "edges_of (map (\<lambda>(n, _). (n, [])) g) d = []" for g :: node_graph
    by (induction g) (auto simp: edges_of_def)
  ultimately show ?thesis by (simp add: reverse_edges_def)
qed

lemma order_loop_items:
  assumes ids: "distinct (map bi_item_id items)"
  defines "graph \<equiv> item_dict (\<lambda>i. dedup (bi_dependencies i)) items"
  shows "\<exists>order remaining. order_loop (length items) (reverse_edges graph)
      (sort (map fst (filter (\<lambda>(_, deps). deps = []) graph))) [] graph = Some order
    \<and> order_inv (set (map bi_item_id items)) (deps_of items) [] order remaining"
proof (rule order_loop_returns)
  let ?ids = "set (map bi_item_id items)" and ?ready = "sort (map fst (filter (\<lambda>(_, deps). deps = []) graph))"
  have graph: "graph = map (\<lambda>i. (bi_item_id i, dedup (bi_dependencies i))) items"
    unfolding graph_def by (rule item_dict_distinct [OF ids])
  have e: "edges_of graph (bi_item_id i) = dedup (bi_dependencies i)" if "i \<in> set items" for i
    using map_of_keyed [OF ids that, of "\<lambda>i. dedup (bi_dependencies i)"] by (simp add: graph edges_of_def)
  show "set (edges_of (reverse_edges graph) n) = {m \<in> ?ids. n \<in> set (deps_of items m)}" for n
    unfolding reverse_edges_set graph using deps_of_item [OF ids] by (auto simp: image_iff)
  have ready: "set ?ready = {m \<in> ?ids. deps_of items m = []}"
    using deps_of_item [OF ids] by (auto simp: graph image_iff) (metis set_dedup set_empty)+
  have "distinct (map fst (filter (\<lambda>(_, deps). deps = []) graph))"
    using ids by (auto simp: graph distinct_map inj_on_def filter_map)
  then have "distinct ?ready" by simp
  then show "order_inv ?ids (deps_of items) ?ready [] graph"
    using ready e deps_of_item [OF ids] by (auto simp: order_inv_def)
qed (use card_length [of "map bi_item_id items"] in simp_all)

lemma acyclic_ordered:
  assumes "order_inv (set ids) e [] order remaining" and "acyclic (depends e)"
    and known: "\<And>x. x \<in> set ids \<Longrightarrow> set (e x) \<subseteq> set ids" and none: "\<And>x. x \<notin> set ids \<Longrightarrow> e x = []"
  shows "set order = set ids"
proof (rule ccontr)
  assume "set order \<noteq> set ids"
  with assms(1) have rest: "set ids - set order \<noteq> {}" by (auto simp: order_inv_def)
  have "depends e \<subseteq> set ids \<times> set ids"
    using known none by (force simp: depends_def)
  then have "finite (depends e)" by (rule finite_subset) simp
  then have "wf ((depends e)\<inverse>)" using finite_acyclic_wf_converse assms(2) by blast
  from wfE_min' [OF this rest] obtain x where x: "x \<in> set ids" "x \<notin> set order"
    "\<And>y. y \<in> set (e x) \<Longrightarrow> y \<notin> set ids - set order" by (auto simp: depends_def)
  with known [OF x(1)] have "set (e x) \<subseteq> set order" by auto
  with assms(1) x(1,2) show False by (auto simp: order_inv_def)
qed

lemma topological_order_complete:
  assumes ok: "schedulable items"
  obtains order where "batch_dependency_topological_order items = Inr order"
    and "distinct order" and "set order = set (map bi_item_id items)"
    and "deps_first (deps_of items) [] order"
proof -
  have ids: "distinct (map bi_item_id items)" using ok by (simp add: schedulable_def)
  obtain order remaining where loop: "order_loop (length items)
      (reverse_edges (item_dict (\<lambda>i. dedup (bi_dependencies i)) items))
      (sort (map fst (filter (\<lambda>(_, deps). deps = []) (item_dict (\<lambda>i. dedup (bi_dependencies i)) items)))) []
      (item_dict (\<lambda>i. dedup (bi_dependencies i)) items) = Some order"
    and inv: "order_inv (set (map bi_item_id items)) (deps_of items) [] order remaining"
    using order_loop_items [OF ids] by blast
  have "set (deps_of items x) \<subseteq> set (map bi_item_id items)" if "x \<in> set (map bi_item_id items)" for x
    using that ok deps_of_item [OF ids] by (force simp: schedulable_def known_deps_def list_all_iff)
  then have all: "set order = set (map bi_item_id items)"
    using acyclic_ordered [OF inv] ok deps_of_none by (auto simp: schedulable_def)
  have "distinct order" "deps_first (deps_of items) [] order" using inv by (auto simp: order_inv_def)
  moreover have "length order = length items"
    using distinct_card [OF \<open>distinct order\<close>] distinct_card [OF ids] all by simp
  then have "batch_dependency_topological_order items = Inr order"
    using ok loop by (simp add: batch_dependency_topological_order_def validate_graph_ok [THEN iffD2] Let_def)
  ultimately show thesis using that all by blast
qed

lemma topological_order_ok:
  assumes "batch_dependency_topological_order items = Inr order"
  shows "schedulable items \<and> distinct order \<and> set order = set (map bi_item_id items)
    \<and> deps_first (deps_of items) [] order"
proof -
  from assms have "schedulable items"
    by (simp add: batch_dependency_topological_order_def validate_graph_ok split: option.splits if_splits)
  with topological_order_complete assms show ?thesis by (metis Inr_inject)
qed

text \<open>
  C11: the scheduling order exists exactly for batches with distinct items, known
  dependencies and no cycle; it then lists every item once, each after its dependencies.
\<close>

theorem topological_order_iff:
  "(is_ok (batch_dependency_topological_order items) \<longleftrightarrow> schedulable items) \<and>
   (case batch_dependency_topological_order items of
      Inl err \<Rightarrow> True
    | Inr order \<Rightarrow> distinct order \<and> set order = set (map bi_item_id items)
        \<and> deps_first (deps_of items) [] order)"
proof -
  have "is_ok (batch_dependency_topological_order items) \<longleftrightarrow> schedulable items"
    by (metis is_ok_iff topological_order_complete topological_order_ok)
  then show ?thesis by (auto split: sum.split dest: topological_order_ok)
qed

text \<open>
  The search reports a cycle exactly when the dependencies have one, and it always
  ends: its recursion is never deeper than one more than the number of items.
\<close>

theorem cycle_search_decides:
  "\<exists>cs. detect_dependency_cycles items = Inr cs \<and> (cs = [] \<longleftrightarrow> acyclic (depends (deps_of items)))"
  by (metis cycles_returns)

subsection \<open>Ready items\<close>

lemma ready_set_iff:
  "x \<in> set (batch_dependency_ready_set items completed) \<longleftrightarrow>
     (\<exists>i \<in> set items. bi_item_id i = x \<and> x \<notin> set completed
        \<and> set (bi_dependencies i) \<subseteq> set (map bi_item_id items) \<inter> set completed)"
  by (auto simp: batch_dependency_ready_set_def Let_def)

text \<open>
  A batch that can be scheduled never starves: as long as an item is missing from the
  completed ones, some item is ready.
\<close>

theorem some_item_ready:
  assumes "schedulable items" and "i \<in> set items" and "bi_item_id i \<notin> set completed"
  shows "batch_dependency_ready_set items completed \<noteq> []"
proof -
  have ids: "distinct (map bi_item_id items)" using assms(1) by (simp add: schedulable_def)
  obtain order where order: "set order = set (map bi_item_id items)" "deps_first (deps_of items) [] order"
    using topological_order_complete [OF assms(1)] by metis
  have "\<exists>x \<in> set order. x \<notin> set completed" using assms(2,3) order(1) by auto
  then obtain xs x ys where split: "order = xs @ x # ys" "x \<notin> set completed" "\<forall>y \<in> set xs. y \<in> set completed"
    using split_list_first_propE [of order "\<lambda>x. x \<notin> set completed"] by metis
  then have "x \<in> set (map bi_item_id items)" using order(1) by auto
  then obtain j where j: "j \<in> set items" "bi_item_id j = x" by auto
  have "set (bi_dependencies j) \<subseteq> set xs"
    using order(2) deps_of_item [OF ids j(1)] j(2) by (simp add: split(1) deps_first_append)
  then have "x \<in> set (batch_dependency_ready_set items completed)"
    using j split order(1) unfolding ready_set_iff by (intro bexI [of _ j]) auto
  then show ?thesis by auto
qed

definition sample_item :: "string \<Rightarrow> string list \<Rightarrow> batch_item" where
  "sample_item i deps = \<lparr>bi_item_id = i, bi_request_id = i, bi_response_id = [], bi_status = ''exported'',
     bi_dependencies = deps, bi_writable_paths = [], bi_request_checksum = [], bi_response_checksum = [],
     bi_approval_checksum = [], bi_plan_checksum = [], bi_application_id = [], bi_revision_id = [],
     bi_lease_id = [], bi_attempt_ids = [], bi_notes = [], bi_result = []\<rparr>"

lemma sample_items_schedulable: "schedulable [sample_item ''a'' [], sample_item ''b'' [''a'']]"
proof -
  have "batch_dependency_topological_order [sample_item ''a'' [], sample_item ''b'' [''a'']] = Inr [''a'', ''b'']"
    by code_simp
  then show ?thesis using topological_order_ok by blast
qed

theorem some_item_ready_witness:
  "batch_dependency_ready_set [sample_item ''a'' [], sample_item ''b'' [''a'']] [''a''] \<noteq> []"
  by (rule some_item_ready [OF sample_items_schedulable, of "sample_item ''b'' [''a'']"])
    (simp_all add: sample_item_def)

subsection \<open>Blocked items\<close>

text \<open>An item with a dependency that failed, was cancelled or superseded.\<close>

definition hit :: "(string \<times> string) list \<Rightarrow> batch_item \<Rightarrow> bool" where
  "hit p i \<longleftrightarrow> (\<exists>d \<in> set (bi_dependencies i). \<exists>s \<in> set FAILED_STATES. map_of p d = Some s)"

definition blocked_once :: "batch_item list \<Rightarrow> (string \<times> string) list \<Rightarrow> string \<Rightarrow> string option" where
  "blocked_once items p x = (case map_of p x of
     Some s \<Rightarrow> Some s
   | None \<Rightarrow> if \<exists>i \<in> set items. bi_item_id i = x \<and> hit p i then Some ''blocked'' else None)"

lemma hit_blocked:
  assumes "map_of p x = None"
  shows "hit (al_set x ''blocked'' p) i \<longleftrightarrow> hit p i"
proof -
  have "map_of (al_set x ''blocked'' p) d = Some s \<longleftrightarrow> map_of p d = Some s" if "s \<in> set FAILED_STATES" for d s
    using that assms by (auto simp: FAILED_STATES_def)
  then show ?thesis unfolding hit_def by metis
qed

lemma propagate_pass_step:
  "foldl (\<lambda>(p, changed) i.
        if map_of p (bi_item_id i) \<noteq> None then (p, changed)
        else if \<exists>d \<in> set (bi_dependencies i). \<exists>s \<in> set FAILED_STATES. map_of p d = Some s
        then (al_set (bi_item_id i) ''blocked'' p, True)
        else (p, changed)) (p, c) items = (p', c') \<Longrightarrow>
   (\<forall>x. map_of p' x = blocked_once items p x) \<and> (\<forall>i. hit p' i \<longleftrightarrow> hit p i)
   \<and> (c' \<longleftrightarrow> c \<or> (\<exists>i \<in> set items. map_of p (bi_item_id i) = None \<and> hit p i))"
  unfolding hit_def [symmetric]
proof (induction items arbitrary: p c)
  case Nil
  then show ?case by (auto simp: blocked_once_def split: option.split)
next
  case (Cons i items)
  show ?case
  proof (cases "map_of p (bi_item_id i) = None \<and> hit p i")
    case True
    let ?q = "al_set (bi_item_id i) ''blocked'' p"
    from True Cons.prems have "foldl (\<lambda>(p, changed) i. if map_of p (bi_item_id i) \<noteq> None then (p, changed)
        else if hit p i then (al_set (bi_item_id i) ''blocked'' p, True) else (p, changed)) (?q, True) items = (p', c')"
      by simp
    note IH = Cons.IH [OF this]
    have "blocked_once items ?q x = blocked_once (i # items) p x" for x
      using True hit_blocked [of p "bi_item_id i"] by (auto simp: blocked_once_def split: option.split)
    with IH True hit_blocked [of p "bi_item_id i"] show ?thesis by auto
  next
    case False
    with Cons.prems have "foldl (\<lambda>(p, changed) i. if map_of p (bi_item_id i) \<noteq> None then (p, changed)
        else if hit p i then (al_set (bi_item_id i) ''blocked'' p, True) else (p, changed)) (p, c) items = (p', c')"
      by (auto split: if_splits)
    note IH = Cons.IH [OF this]
    have "blocked_once items p x = blocked_once (i # items) p x" for x
      using False by (auto simp: blocked_once_def split: option.split)
    with IH False show ?thesis by auto
  qed
qed

lemma propagate_result:
  obtains p where "propagate_terminal_states items t = Inr p" and "\<And>x. map_of p x = blocked_once items t x"
proof -
  obtain p c where pass: "propagate_pass items t = (p, c)" by fastforce
  note first = propagate_pass_step [OF pass [unfolded propagate_pass_def]]
  obtain q d where pass': "propagate_pass items p = (q, d)" by fastforce
  note second = propagate_pass_step [OF pass' [unfolded propagate_pass_def]]
  have "map_of p (bi_item_id i) \<noteq> None \<or> \<not> hit p i" if "i \<in> set items" for i
    using first that by (auto simp: blocked_once_def split: option.splits)
  with second have d: "\<not> d" by auto
  have q: "map_of q x = map_of p x" for x
    using second first by (auto simp: blocked_once_def split: option.splits)
  show thesis
  proof (cases c)
    case True
    with first have "items \<noteq> []" by auto
    then obtain m where "length items = Suc m" by (cases items) auto
    with pass pass' True d have "propagate_terminal_states items t = Inr q"
      by (simp add: propagate_terminal_states_def)
    with that q first show ?thesis by auto
  next
    case False
    with pass have "propagate_terminal_states items t = Inr p"
      by (simp add: propagate_terminal_states_def)
    with that first show ?thesis by blast
  qed
qed

text \<open>
  The propagation of terminal states always ends, and it reaches one step only: an item
  is blocked exactly when one of its own dependencies failed, was cancelled or superseded.
  An item that waits for a blocked one is left open, since \<open>blocked\<close> is not among the states
  the loop looks for.
\<close>

theorem propagation_is_one_step:
  "\<exists>p. propagate_terminal_states items t = Inr p \<and> map_of p = blocked_once items t"
proof -
  obtain p where p: "propagate_terminal_states items t = Inr p" "\<And>x. map_of p x = blocked_once items t x"
    using propagate_result [of items t] by blast
  from p(2) have "map_of p = blocked_once items t" by (rule ext)
  with p(1) show ?thesis by blast
qed

end
