(* ===== verification/BatchScheduling.thy ===== *)
theory BatchScheduling
  imports BatchGraph QueueStore
begin

text \<open>
  The pure parts of batch planning: \<open>cloud_batch/progress.py\<close> (the counts and the status of
  a batch), \<open>conflicts.py\<close> (pairs of items that must not run together) and the waves and
  groups of \<open>planning.py\<close>.
\<close>

subsection \<open>Progress\<close>

definition count_status :: "batch_item list \<Rightarrow> string list \<Rightarrow> int" where
  "count_status items statuses = int (length (filter (\<lambda>i. bi_status i \<in> set statuses) items))"

definition PENDING :: "string list" where
  "PENDING = [''draft'', ''ready'', ''exported'', ''awaiting_responses'']"

definition RUNNING :: "string list" where
  "RUNNING = [''planning'', ''applying'', ''resuming'', ''rollback_pending'', ''rolling_back'']"

definition BLOCKED :: "string list" where
  "BLOCKED = [''validation_partial'', ''planned'', ''partially_applied'', ''partially_resumed'',
     ''partially_rolled_back'']"

definition derive_batch_progress :: "batch_item list \<Rightarrow> progress_summary" where
  "derive_batch_progress items = \<lparr>pg_total = int (length items),
     pg_pending = count_status items PENDING, pg_running = count_status items RUNNING,
     pg_succeeded = count_status items [''applied'', ''resumed''],
     pg_failed = count_status items [''failed'', ''partially_failed''],
     pg_blocked = count_status items BLOCKED,
     pg_skipped = count_status items [''superseded''], pg_cancelled = count_status items [''cancelled'']\<rparr>"

definition derive_batch_status :: "progress_summary \<Rightarrow> item_result list \<Rightarrow> string" where
  "derive_batch_status p item_results =
     (let resumed = (\<exists>r \<in> set item_results. ires_outcome r = ''resumed'');
          open_items = pg_blocked p \<noteq> 0 \<or> pg_pending p \<noteq> 0 \<or> pg_running p \<noteq> 0 in
      if pg_total p = 0 then ''draft''
      else if pg_cancelled p = pg_total p then ''cancelled''
      else if pg_succeeded p = pg_total p then (if resumed then ''resumed'' else ''applied'')
      else if pg_failed p = pg_total p then ''failed''
      else if pg_succeeded p \<noteq> 0 \<and> pg_failed p \<noteq> 0
      then (if resumed then ''partially_resumed'' else ''partially_failed'')
      else if pg_succeeded p \<noteq> 0 \<and> open_items
      then (if resumed then ''partially_resumed'' else ''partially_applied'')
      else if pg_failed p \<noteq> 0 \<and> open_items then ''partially_failed''
      else if pg_pending p \<noteq> 0 \<or> pg_running p \<noteq> 0 then ''planned''
      else ''validation_complete'')"

definition derive_batch_result :: "string \<Rightarrow> batch_item list \<Rightarrow> item_result list \<Rightarrow> batch_result" where
  "derive_batch_result batch_id items item_results =
     (let progress = derive_batch_progress items in
      \<lparr>bres_batch_id = batch_id, bres_status = derive_batch_status progress item_results,
       bres_progress = progress, bres_item_results = item_results,
       bres_attempt_ids = sorted_set (filter (\<lambda>a. a \<noteq> []) (map ires_attempt_id item_results)),
       bres_checksum = [], bres_details = []\<rparr>)"

text \<open>The statuses that no count includes.\<close>

definition UNCOUNTED :: "string list" where
  "UNCOUNTED = filter (\<lambda>s. s \<notin> set (PENDING @ RUNNING @ BLOCKED @ [''applied'', ''resumed'', ''failed'',
     ''partially_failed'', ''superseded'', ''cancelled''])) BATCH_STATUSES"

lemma count_status_simps [simp]:
  "count_status [] ss = 0"
  "count_status (i # is) ss = (if bi_status i \<in> set ss then 1 else 0) + count_status is ss"
  by (simp_all add: count_status_def)

lemma count_status_bounds: "0 \<le> count_status items ss" "count_status items ss \<le> int (length items)"
  by (simp_all add: count_status_def)

lemma count_status_all:
  "count_status items ss = int (length items) \<longleftrightarrow> (\<forall>i \<in> set items. bi_status i \<in> set ss)"
proof (induction items)
  case (Cons i items)
  then show ?case using count_status_bounds(2) [of items ss] by auto
qed simp

lemma count_status_zero: "count_status items ss = 0 \<longleftrightarrow> (\<forall>i \<in> set items. bi_status i \<notin> set ss)"
  by (simp add: count_status_def filter_empty_conv)

text \<open>
  The counts of a batch do not add up to its total: an item whose response was imported,
  whose validation is complete, that waits for its resume or was rolled back is in none of
  them.
\<close>

theorem progress_buckets:
  assumes "list_all (\<lambda>i. bi_status i \<in> set BATCH_STATUSES) items"
  shows "let p = derive_batch_progress items in
    pg_total p = pg_pending p + pg_running p + pg_succeeded p + pg_failed p + pg_blocked p
      + pg_skipped p + pg_cancelled p + count_status items UNCOUNTED
    \<and> UNCOUNTED = [''responses_imported'', ''validation_complete'', ''resume_pending'', ''rolled_back'']"
proof -
  have lists: "UNCOUNTED = [''responses_imported'', ''validation_complete'', ''resume_pending'', ''rolled_back'']"
    by (simp add: UNCOUNTED_def PENDING_def RUNNING_def BLOCKED_def BATCH_STATUSES_def)
  have "int (length items) = count_status items PENDING + count_status items RUNNING
      + count_status items [''applied'', ''resumed''] + count_status items [''failed'', ''partially_failed'']
      + count_status items BLOCKED + count_status items [''superseded''] + count_status items [''cancelled'']
      + count_status items UNCOUNTED"
    using assms
  proof (induction items)
    case (Cons i items)
    have "bi_status i \<in> set BATCH_STATUSES" using Cons.prems by simp
    then have "(1::int) = (if bi_status i \<in> set PENDING then 1 else 0) + (if bi_status i \<in> set RUNNING then 1 else 0)
        + (if bi_status i \<in> {''applied'', ''resumed''} then 1 else 0)
        + (if bi_status i \<in> {''failed'', ''partially_failed''} then 1 else 0)
        + (if bi_status i \<in> set BLOCKED then 1 else 0) + (if bi_status i \<in> {''superseded''} then 1 else 0)
        + (if bi_status i \<in> {''cancelled''} then 1 else 0) + (if bi_status i \<in> set UNCOUNTED then 1 else 0)"
      unfolding lists PENDING_def RUNNING_def BLOCKED_def BATCH_STATUSES_def list.set
      by (elim insertE emptyE) simp_all
    with Cons show ?case by simp
  qed simp
  with lists show ?thesis by (simp add: derive_batch_progress_def)
qed

theorem progress_buckets_witness:
  "let p = derive_batch_progress [(sample_item ''a'' [])\<lparr>bi_status := ''rolled_back''\<rparr>] in
    pg_total p = pg_pending p + pg_running p + pg_succeeded p + pg_failed p + pg_blocked p
      + pg_skipped p + pg_cancelled p
      + count_status [(sample_item ''a'' [])\<lparr>bi_status := ''rolled_back''\<rparr>] UNCOUNTED
    \<and> UNCOUNTED = [''responses_imported'', ''validation_complete'', ''resume_pending'', ''rolled_back'']"
  by (rule progress_buckets) (simp add: BATCH_STATUSES_def)

text \<open>
  A batch counts as applied or resumed exactly when it has items and each of them was
  applied or resumed; one without items is a draft, one whose items were all rolled back is
  reported as validated.
\<close>

theorem batch_success_iff:
  "(bres_status (derive_batch_result b items results) \<in> {''applied'', ''resumed''} \<longleftrightarrow>
      items \<noteq> [] \<and> list_all (\<lambda>i. bi_status i \<in> {''applied'', ''resumed''}) items)
   \<and> bres_status (derive_batch_result b [] results) = ''draft''
   \<and> bres_status (derive_batch_result b [(sample_item ''a'' [])\<lparr>bi_status := ''rolled_back''\<rparr>] results)
      = ''validation_complete''"
proof -
  have "bres_status (derive_batch_result b items results) \<in> {''applied'', ''resumed''} \<longleftrightarrow>
      items \<noteq> [] \<and> list_all (\<lambda>i. bi_status i \<in> {''applied'', ''resumed''}) items"
  proof (cases "items = []")
    case False
    then obtain i where i: "i \<in> set items" by (cases items) auto
    have one: "count_status items [s] = int (length items) \<Longrightarrow> bi_status i = s" for s
      using i count_status_all [of items "[s]"] by auto
    show ?thesis
      using False count_status_all [of items "[''applied'', ''resumed'']"] i one [of "''cancelled''"]
      by (auto simp: derive_batch_result_def derive_batch_status_def derive_batch_progress_def Let_def
          list_all_iff split: if_splits)
  qed (simp add: derive_batch_result_def derive_batch_status_def derive_batch_progress_def Let_def)
  then show ?thesis
    by (simp add: derive_batch_result_def derive_batch_status_def derive_batch_progress_def Let_def
        PENDING_def RUNNING_def BLOCKED_def)
qed

subsection \<open>Conflicts\<close>

record conflict_edge =
  ce_left_item_id :: string
  ce_right_item_id :: string
  ce_reason :: string
  ce_severity :: string
  ce_details :: pydict

definition conflict_edge_to_dict :: "conflict_edge \<Rightarrow> pydict" where
  "conflict_edge_to_dict e =
     [(''left_item_id'', PStr (ce_left_item_id e)), (''right_item_id'', PStr (ce_right_item_id e)),
      (''reason'', PStr (ce_reason e)), (''severity'', PStr (ce_severity e)),
      (''details'', PDict (ce_details e))]"

record conflict_result =
  cf_conflicts :: "conflict_edge list"
  cf_writable_path_overlaps :: "conflict_edge list"
  cf_revision_conflicts :: "conflict_edge list"
  cf_requirements_conflicts :: "conflict_edge list"
  cf_architecture_conflicts :: "conflict_edge list"
  cf_source_revision_conflicts :: "conflict_edge list"

definition has_conflicts :: "conflict_result \<Rightarrow> bool" where
  "has_conflicts r \<longleftrightarrow> cf_conflicts r \<noteq> []"

text \<open>\<open>_paths_conflict\<close> of \<open>conflicts.py\<close>\<close>

definition parts_conflict :: "string \<Rightarrow> string \<Rightarrow> bool" where
  "parts_conflict left right =
     (let left_parts = posix_parts left; right_parts = posix_parts right;
          min_len = min (length left_parts) (length right_parts)
      in take min_len left_parts = take min_len right_parts
         \<or> starts_with (rstrip_chars ''/*'' right) left \<or> starts_with (rstrip_chars ''/*'' left) right)"

definition path_overlap :: "string list \<Rightarrow> string list \<Rightarrow> string list" where
  "path_overlap left right =
     dedup (concat (map (\<lambda>l. concat (map (\<lambda>r.
       if parts_conflict l r then [as_posix l, as_posix r] else []) right)) left))"

definition same_revision_family :: "string \<Rightarrow> string \<Rightarrow> bool" where
  "same_revision_family left right \<longleftrightarrow>
     takeWhile (\<lambda>c. c \<noteq> CHR ''-'') left = takeWhile (\<lambda>c. c \<noteq> CHR ''-'') right"

definition plain_edge :: "batch_item \<Rightarrow> batch_item \<Rightarrow> string \<Rightarrow> conflict_edge" where
  "plain_edge left right reason = \<lparr>ce_left_item_id = bi_item_id left, ce_right_item_id = bi_item_id right,
     ce_reason = reason, ce_severity = ''blocked'', ce_details = []\<rparr>"

definition overlap_edges :: "batch_item \<Rightarrow> batch_item \<Rightarrow> conflict_edge list" where
  "overlap_edges left right =
     (let overlap = path_overlap (bi_writable_paths left) (bi_writable_paths right) in
      if overlap = [] then []
      else [(plain_edge left right (''overlapping writable paths: '' @ join '', '' overlap))
              \<lparr>ce_details := [(''overlap'', pstrs overlap)]\<rparr>])"

definition same_edges :: "(batch_item \<Rightarrow> string) \<Rightarrow> string \<Rightarrow> batch_item \<Rightarrow> batch_item \<Rightarrow> conflict_edge list" where
  "same_edges key reason left right =
     (if key left \<noteq> [] \<and> key right \<noteq> [] \<and> key left = key right then [plain_edge left right reason] else [])"

definition revision_edges :: "batch_item \<Rightarrow> batch_item \<Rightarrow> conflict_edge list" where
  "revision_edges left right =
     (if bi_revision_id left \<noteq> [] \<and> bi_revision_id right \<noteq> [] \<and> bi_revision_id left \<noteq> bi_revision_id right
         \<and> same_revision_family (bi_revision_id left) (bi_revision_id right)
      then [plain_edge left right ''competing source revision assumptions''] else [])"

text \<open>The pairs the two nested loops visit.\<close>

fun item_pairs :: "'a list \<Rightarrow> ('a \<times> 'a) list" where
  "item_pairs [] = []"
| "item_pairs (x # xs) = map (Pair x) xs @ item_pairs xs"

definition detect_batch_conflicts :: "batch_item list \<Rightarrow> conflict_result" where
  "detect_batch_conflicts items =
     (let pairs = item_pairs items;
          collect = (\<lambda>f. concat (map (\<lambda>(l, r). f l r) pairs));
          request = same_edges bi_request_checksum ''same-task modification conflict'';
          response = same_edges bi_response_checksum ''one application invalidating another'';
          approval = same_edges bi_approval_checksum ''requirement mapping conflict'' in
      \<lparr>cf_conflicts = collect (\<lambda>l r. overlap_edges l r @ request l r @ response l r @ approval l r
           @ revision_edges l r),
       cf_writable_path_overlaps = collect overlap_edges,
       cf_revision_conflicts = collect request,
       cf_requirements_conflicts = collect approval,
       cf_architecture_conflicts = collect response,
       cf_source_revision_conflicts = collect revision_edges\<rparr>)"

subsection \<open>Waves\<close>

text \<open>\<open>_path_conflict\<close> of \<open>planning.py\<close>\<close>

definition path_conflict :: "string \<Rightarrow> string \<Rightarrow> bool" where
  "path_conflict left right \<longleftrightarrow> left = right \<or> starts_with (rstrip_chars ''/*'' right) left
     \<or> starts_with (rstrip_chars ''/*'' left) right"

text \<open>\<open>next(candidate for candidate in items if candidate.item_id == i)\<close>\<close>

definition next_item :: "batch_item list \<Rightarrow> string \<Rightarrow> batch_item res" where
  "next_item items i = (case find (\<lambda>c. bi_item_id c = i) items of
     None \<Rightarrow> Inl (Exn StopIteration []) | Some c \<Rightarrow> Inr c)"

definition items_overlap :: "batch_item \<Rightarrow> batch_item \<Rightarrow> bool" where
  "items_overlap item other \<longleftrightarrow> (\<exists>l \<in> set (bi_writable_paths item). \<exists>r \<in> set (bi_writable_paths other).
     path_conflict l r)"

fun has_path_overlap :: "string list \<Rightarrow> batch_item \<Rightarrow> batch_item list \<Rightarrow> bool res" where
  "has_path_overlap [] item items = Inr False"
| "has_path_overlap (g # gs) item items =
     rbind (next_item items g) (\<lambda>other.
     if items_overlap item other then Inr True else has_path_overlap gs item items)"

text \<open>The first layer without an overlap takes the item.\<close>

fun place_item :: "batch_item list \<Rightarrow> batch_item \<Rightarrow> string list list \<Rightarrow> string list list res" where
  "place_item items item [] = Inr [[bi_item_id item]]"
| "place_item items item (layer # layers) =
     rbind (has_path_overlap layer item items) (\<lambda>overlap.
     if overlap then rbind (place_item items item layers) (\<lambda>rest. Inr (layer # rest))
     else Inr ((layer @ [bi_item_id item]) # layers))"

definition item_layers :: "batch_item list \<Rightarrow> string list list res" where
  "item_layers items =
     rbind (batch_dependency_topological_order items) (\<lambda>order.
     rfold (\<lambda>i layers. rbind (next_item items i) (\<lambda>item. place_item items item layers)) order [])"

definition make_wave :: "codecs \<Rightarrow> string \<Rightarrow> string \<Rightarrow> nat \<Rightarrow> string list \<Rightarrow> execution_wave" where
  "make_wave c batch_id phase index layer =
     \<lparr>ew_wave_id = batch_id @ ''-'' @ phase @ ''-'' @ zero_pad 2 index, ew_phase = phase,
      ew_item_ids = layer, ew_blocked_by = [], ew_prerequisites = [],
      ew_checksum = checksum_text c (yaml_dump c True
        (PDict [(''phase'', PStr phase), (''item_ids'', pstrs layer)]))\<rparr>"

definition number_waves :: "codecs \<Rightarrow> string \<Rightarrow> string \<Rightarrow> string list list \<Rightarrow> execution_wave list" where
  "number_waves c batch_id phase layers =
     map (\<lambda>(index, layer). make_wave c batch_id phase index layer) (zip [1..<Suc (length layers)] layers)"

definition build_execution_waves :: "codecs \<Rightarrow> string \<Rightarrow> batch_item list \<Rightarrow> execution_wave list res" where
  "build_execution_waves c batch_id items =
     rbind (item_layers items) (\<lambda>layers.
     Inr (concat (map (\<lambda>phase. number_waves c batch_id phase layers)
       [''validation'', ''preparation'', ''commit'', ''resume''])))"

definition build_resume_groups :: "codecs \<Rightarrow> string \<Rightarrow> batch_item list \<Rightarrow> execution_wave list res" where
  "build_resume_groups c batch_id items =
     rbind (item_layers items) (\<lambda>groups. Inr (number_waves c batch_id ''resume'' groups))"

subsection \<open>What the waves promise\<close>

definition item_of :: "batch_item list \<Rightarrow> string \<Rightarrow> batch_item" where
  "item_of items i = the (find (\<lambda>c. bi_item_id c = i) items)"

text \<open>No item of a wave shares a path with an earlier one of the wave.\<close>

definition conflict_free :: "batch_item list \<Rightarrow> string list \<Rightarrow> bool" where
  "conflict_free items layer \<longleftrightarrow> sorted_wrt (\<lambda>a b. \<not> items_overlap (item_of items b) (item_of items a)) layer"

lemma next_item_known:
  "i \<in> set (map bi_item_id items) \<Longrightarrow> next_item items i = Inr (item_of items i) \<and> bi_item_id (item_of items i) = i"
  by (induction items) (auto simp: next_item_def item_of_def)

lemma has_path_overlap_known:
  "set layer \<subseteq> set (map bi_item_id items) \<Longrightarrow>
   has_path_overlap layer item items = Inr (\<exists>g \<in> set layer. items_overlap item (item_of items g))"
proof (induction layer)
  case (Cons g layer)
  then have "next_item items g = Inr (item_of items g)" using next_item_known by simp
  with Cons show ?case by simp
qed simp

definition layers_ok :: "batch_item list \<Rightarrow> string list list \<Rightarrow> bool" where
  "layers_ok items layers \<longleftrightarrow> distinct (concat layers) \<and> set (concat layers) \<subseteq> set (map bi_item_id items)
     \<and> list_all (conflict_free items) layers"

lemma place_item_ok:
  assumes "layers_ok items layers" and "i \<in> set (map bi_item_id items)" and "i \<notin> set (concat layers)"
  shows "\<exists>layers'. place_item items (item_of items i) layers = Inr layers' \<and> layers_ok items layers'
    \<and> set (concat layers') = insert i (set (concat layers))"
  using assms
proof (induction layers)
  case Nil
  then show ?case using next_item_known by (simp add: layers_ok_def conflict_free_def)
next
  case (Cons layer layers)
  have id: "bi_item_id (item_of items i) = i" using Cons.prems(2) next_item_known by blast
  have known: "set layer \<subseteq> set (map bi_item_id items)" using Cons.prems(1) by (auto simp: layers_ok_def)
  show ?case
  proof (cases "\<exists>g \<in> set layer. items_overlap (item_of items i) (item_of items g)")
    case True
    from Cons obtain layers' where l: "place_item items (item_of items i) layers = Inr layers'"
      "layers_ok items layers'" "set (concat layers') = insert i (set (concat layers))"
      by (auto simp: layers_ok_def)
    with True Cons.prems has_path_overlap_known [OF known] show ?thesis
      by (auto simp: layers_ok_def)
  next
    case False
    with Cons.prems has_path_overlap_known [OF known] id show ?thesis
      by (auto simp: layers_ok_def conflict_free_def sorted_wrt_append)
  qed
qed

lemma item_layers_ok:
  "(is_ok (item_layers items) \<longleftrightarrow> schedulable items) \<and>
   (case item_layers items of
      Inl err \<Rightarrow> True
    | Inr layers \<Rightarrow> layers_ok items layers \<and> set (concat layers) = set (map bi_item_id items))"
proof (cases "schedulable items")
  case True
  then obtain order where order: "batch_dependency_topological_order items = Inr order" "distinct order"
    "set order = set (map bi_item_id items)"
    using topological_order_complete by metis
  have "\<exists>layers'. rfold (\<lambda>i layers. rbind (next_item items i) (\<lambda>item. place_item items item layers)) xs layers
      = Inr layers' \<and> layers_ok items layers' \<and> set (concat layers') = set (concat layers) \<union> set xs"
    if "layers_ok items layers" "distinct xs" "set xs \<subseteq> set (map bi_item_id items)"
      "set xs \<inter> set (concat layers) = {}" for xs layers
    using that
  proof (induction xs arbitrary: layers)
    case (Cons i xs)
    then have i: "i \<in> set (map bi_item_id items)" "i \<notin> set (concat layers)" by auto
    from place_item_ok [OF Cons.prems(1) i] obtain next_layers where
      n: "place_item items (item_of items i) layers = Inr next_layers" "layers_ok items next_layers"
        "set (concat next_layers) = insert i (set (concat layers))" by blast
    have "set xs \<inter> set (concat next_layers) = {}" using Cons.prems(2,4) unfolding n(3) by auto
    with Cons.IH [OF n(2)] Cons.prems(2,3) obtain final where
      f: "rfold (\<lambda>i layers. rbind (next_item items i) (\<lambda>item. place_item items item layers)) xs next_layers = Inr final"
        "layers_ok items final" "set (concat final) = set (concat next_layers) \<union> set xs" by auto
    have "next_item items i = Inr (item_of items i)" using next_item_known i(1) by blast
    with f n show ?case by auto
  qed auto
  from this [of "[]" order] order have "\<exists>layers. item_layers items = Inr layers \<and> layers_ok items layers
      \<and> set (concat layers) = set (map bi_item_id items)"
    by (auto simp: item_layers_def layers_ok_def)
  then show ?thesis using True by auto
next
  case False
  then have "\<not> is_ok (batch_dependency_topological_order items)"
    using topological_order_ok by (auto simp: is_ok_iff)
  then show ?thesis using False by (auto simp: item_layers_def not_is_ok_iff)
qed

lemma filter_number_waves:
  "map ew_item_ids (filter (\<lambda>w. ew_phase w = phase) (number_waves c b p layers)) = (if p = phase then layers else [])"
proof -
  have "map ew_item_ids (filter (\<lambda>w. ew_phase w = phase)
      (map (\<lambda>(index, layer). make_wave c b p index layer) (zip ns ls)))
      = (if p = phase then map snd (zip ns ls) else [])" for ns ls
    by (induction ns ls rule: list_induct2') (auto simp: make_wave_def)
  then show ?thesis by (simp add: number_waves_def del: upt_Suc)
qed

lemma commit_waves:
  "map_option (\<lambda>waves. map ew_item_ids (filter (\<lambda>w. ew_phase w = ''commit'') waves))
     (case build_execution_waves c b items of Inl e \<Rightarrow> None | Inr w \<Rightarrow> Some w)
   = (case item_layers items of Inl e \<Rightarrow> None | Inr layers \<Rightarrow> Some layers)"
  by (auto simp: build_execution_waves_def filter_number_waves split: sum.split)

text \<open>
  C12: the commit waves contain every item of a schedulable batch exactly once, and no two
  items of one wave write overlapping paths; a batch that cannot be scheduled has no waves.
\<close>

theorem waves_partition_items:
  "case build_execution_waves c b items of
     Inl err \<Rightarrow> \<not> schedulable items
   | Inr waves \<Rightarrow> schedulable items \<and>
       (let commit = map ew_item_ids (filter (\<lambda>w. ew_phase w = ''commit'') waves) in
        distinct (concat commit) \<and> set (concat commit) = set (map bi_item_id items)
        \<and> list_all (conflict_free items) commit)"
proof (cases "item_layers items")
  case (Inl err)
  then show ?thesis using item_layers_ok [of items] by (simp add: build_execution_waves_def)
next
  case (Inr layers)
  then obtain waves where waves: "build_execution_waves c b items = Inr waves"
    by (simp add: build_execution_waves_def)
  with commit_waves [of c b items] Inr
  have "map ew_item_ids (filter (\<lambda>w. ew_phase w = ''commit'') waves) = layers" by simp
  with waves Inr item_layers_ok [of items] show ?thesis by (simp add: layers_ok_def)
qed

text \<open>
  The waves do not respect the dependencies: with an item \<open>b\<close> that shares a path with
  \<open>a\<close>, and an item \<open>c\<close> that depends on \<open>b\<close>, the commit wave of \<open>c\<close> comes before that of
  its dependency.
\<close>

theorem wave_before_dependency:
  "let items = [(sample_item ''a'' [])\<lparr>bi_writable_paths := [''src/x'']\<rparr>,
                (sample_item ''b'' [])\<lparr>bi_writable_paths := [''src/x'']\<rparr>,
                (sample_item ''c'' [''b''])\<lparr>bi_writable_paths := [''src/y'']\<rparr>] in
   map_option (\<lambda>waves. map ew_item_ids (filter (\<lambda>w. ew_phase w = ''commit'') waves))
     (case build_execution_waves c bid items of Inl e \<Rightarrow> None | Inr w \<Rightarrow> Some w)
   = Some [[''a'', ''c''], [''b'']]"
proof -
  have "item_layers [(sample_item ''a'' [])\<lparr>bi_writable_paths := [''src/x'']\<rparr>,
                (sample_item ''b'' [])\<lparr>bi_writable_paths := [''src/x'']\<rparr>,
                (sample_item ''c'' [''b''])\<lparr>bi_writable_paths := [''src/y'']\<rparr>] = Inr [[''a'', ''c''], [''b'']]"
    by code_simp
  then show ?thesis by (simp add: Let_def commit_waves)
qed

subsection \<open>What the conflicts promise\<close>

lemma item_pairs_iff:
  "(a, b) \<in> set (item_pairs xs) \<longleftrightarrow> (\<exists>us vs ws. xs = us @ a # vs @ b # ws)"
proof (induction xs)
  case (Cons x xs)
  have "(\<exists>us vs ws. x # xs = us @ a # vs @ b # ws) \<longleftrightarrow>
      (x = a \<and> b \<in> set xs) \<or> (\<exists>us vs ws. xs = us @ a # vs @ b # ws)"
    by (auto simp: in_set_conv_decomp Cons_eq_append_conv) metis
  with Cons show ?case by auto
qed simp

lemma path_overlap_Nil:
  "path_overlap left right = [] \<longleftrightarrow> (\<forall>l \<in> set left. \<forall>r \<in> set right. \<not> parts_conflict l r)"
proof -
  have "path_overlap left right = [] \<longleftrightarrow> set (path_overlap left right) = {}" by simp
  then show ?thesis unfolding path_overlap_def by auto
qed

text \<open>
  Two items are reported for overlapping paths exactly when one stands before the other
  in the batch and two of their paths conflict; every reported pair blocks.
\<close>

theorem overlaps_reported_iff:
  "(\<exists>e \<in> set (cf_writable_path_overlaps (detect_batch_conflicts items)).
      ce_left_item_id e = l \<and> ce_right_item_id e = r \<and> ce_severity e = ''blocked'')
   \<longleftrightarrow> (\<exists>us a vs b ws. items = us @ a # vs @ b # ws \<and> bi_item_id a = l \<and> bi_item_id b = r
      \<and> (\<exists>p \<in> set (bi_writable_paths a). \<exists>q \<in> set (bi_writable_paths b). parts_conflict p q))"
proof -
  have edge: "(\<exists>e \<in> set (overlap_edges a b). ce_left_item_id e = l \<and> ce_right_item_id e = r \<and> ce_severity e = ''blocked'')
      \<longleftrightarrow> bi_item_id a = l \<and> bi_item_id b = r
        \<and> (\<exists>p \<in> set (bi_writable_paths a). \<exists>q \<in> set (bi_writable_paths b). parts_conflict p q)" for a b
    using path_overlap_Nil [of "bi_writable_paths a" "bi_writable_paths b"]
    by (auto simp: overlap_edges_def plain_edge_def Let_def)
  have "(\<exists>e \<in> set (cf_writable_path_overlaps (detect_batch_conflicts items)).
      ce_left_item_id e = l \<and> ce_right_item_id e = r \<and> ce_severity e = ''blocked'')
    \<longleftrightarrow> (\<exists>a b. (a, b) \<in> set (item_pairs items) \<and> (\<exists>e \<in> set (overlap_edges a b).
      ce_left_item_id e = l \<and> ce_right_item_id e = r \<and> ce_severity e = ''blocked''))"
    by (auto simp: detect_batch_conflicts_def Let_def)
  then show ?thesis unfolding edge item_pairs_iff by blast
qed

end
