(* ===== verification/DocStore.thy ===== *)
theory DocStore
  imports QueueStore
begin

text \<open>
  What the stores of \<open>cloud_batch/persistence.py\<close> and \<open>cloud_application/persistence.py\<close>
  share: a document is one YAML mapping per file, written atomically (to a temporary file
  that then replaces the old one, of which the net effect is modelled) and read back through
  its \<open>from_dict\<close>. The locale states what a store promises; each kind of document
  interprets it.
\<close>

definition write_yaml :: "path \<Rightarrow> pyval \<Rightarrow> disk \<Rightarrow> disk" where
  "write_yaml p v d = fs_write p (Doc v) (fs_mkdir (butlast p) d)"

text \<open>\<open>yaml.safe_load(path.read_text())\<close>, which must be a mapping, as a record.\<close>

definition read_mapping :: "codecs \<Rightarrow> string \<Rightarrow> (pydict \<Rightarrow> 'a res) \<Rightarrow> path \<Rightarrow> disk \<Rightarrow> 'a res" where
  "read_mapping c what dec p d = (case fs_file d p of
     None \<Rightarrow> not_found (path_text p)
   | Some content \<Rightarrow> rbind (yaml_value c content) (\<lambda>v. case v of
       PDict m \<Rightarrow> dec m
     | _ \<Rightarrow> value_error (what @ path_text p)))"

text \<open>An append to a log of JSON lines, and what its readers get.\<close>

definition append_log :: "codecs \<Rightarrow> path \<Rightarrow> pydict \<Rightarrow> disk \<Rightarrow> disk" where
  "append_log c p line d =
     (let e = fs_mkdir (butlast p) d in fs_write p (append_line c line (fs_file e p)) e)"

definition read_log :: "codecs \<Rightarrow> path \<Rightarrow> disk \<Rightarrow> pyval list res" where
  "read_log c p d = (case fs_file d p of
     None \<Rightarrow> Inr []
   | Some (Log lines) \<Rightarrow> Inr (map PDict lines)
   | Some (Text t) \<Rightarrow> rmap_list (json_load c) (filter (\<lambda>l. strip l \<noteq> []) (split_on (CHR 0x0A) t))
   | Some (Doc v) \<Rightarrow> Inl (Exn OutsideModel ''log written as YAML''))"

lemma write_yaml_files [simp]: "fs_files (write_yaml p v d) = al_set (lexical p) (Doc v) (fs_files d)"
  by (simp add: write_yaml_def)

lemma append_log_files [simp]:
  "plain_path p \<Longrightarrow> fs_files (append_log c p l d) = al_set p (append_line c l (map_of (fs_files d) p)) (fs_files d)"
  by (simp add: append_log_def Let_def)

lemma read_mapping_cong: "fs_file d p = fs_file e p \<Longrightarrow> read_mapping c w dec p d = read_mapping c w dec p e"
  by (simp add: read_mapping_def)

locale document_store =
  fixes place :: "'i \<Rightarrow> path" and id_of :: "'a \<Rightarrow> 'i" and enc :: "'a \<Rightarrow> pydict"
    and dec :: "pydict \<Rightarrow> 'a res" and wf :: "'a \<Rightarrow> bool"
  assumes dec_enc: "wf x \<Longrightarrow> dec (enc x) = Inr x"
begin

text \<open>What was saved is read back, and other documents stay as they are.\<close>

lemma read_saved:
  "wf x \<Longrightarrow> plain_path (place (id_of x)) \<Longrightarrow>
   read_mapping c w dec (place (id_of x)) (write_yaml (place (id_of x)) (PDict (enc x)) d) = Inr x"
  by (simp add: read_mapping_def yaml_value_def dec_enc)

lemma read_other:
  "plain_path p \<Longrightarrow> plain_path (place (id_of x)) \<Longrightarrow> p \<noteq> place (id_of x) \<Longrightarrow>
   read_mapping c w dec p (write_yaml (place (id_of x)) (PDict (enc x)) d) = read_mapping c w dec p d"
  by (simp add: read_mapping_def)

lemma read_after_log:
  "plain_path p \<Longrightarrow> plain_path q \<Longrightarrow> p \<noteq> q \<Longrightarrow>
   read_mapping c w dec p (append_log c q l d) = read_mapping c w dec p d"
  by (simp add: read_mapping_def)

end

end
