(* ===== verification/BatchStore.thy ===== *)
theory BatchStore
  imports BatchScheduling DocStore QueueExport
begin

text \<open>
  \<open>cloud_batch/persistence.py\<close>, \<open>audit.py\<close> and \<open>concurrency.py\<close>: the files of a batch, its
  audit log and its locks.
\<close>

record batch_paths =
  bp_root :: path
  bp_records :: path
  bp_plans :: path
  bp_attempts :: path
  bp_audits :: path
  bp_locks :: path
  bp_recovery :: path
  bp_audit_log :: path

definition batch_root_path :: "path \<Rightarrow> path" where
  "batch_root_path project = project @ [''.agentic'', ''cloud_batches'']"

definition paths_of_batches :: "path \<Rightarrow> batch_paths" where
  "paths_of_batches project =
     (let root = batch_root_path project in
      \<lparr>bp_root = root, bp_records = root @ [''records''], bp_plans = root @ [''plans''],
       bp_attempts = root @ [''attempts''], bp_audits = root @ [''audits''], bp_locks = root @ [''locks''],
       bp_recovery = root @ [''recovery''], bp_audit_log = root @ [''audits'', ''batch_audit.jsonl'']\<rparr>)"

definition ensure_batch_dirs :: "path \<Rightarrow> disk \<Rightarrow> disk" where
  "ensure_batch_dirs project d =
     (let p = paths_of_batches project in
      fold fs_mkdir [bp_root p, bp_records p, bp_plans p, bp_attempts p, bp_audits p, bp_locks p, bp_recovery p] d)"

definition batch_record_path :: "path \<Rightarrow> string \<Rightarrow> path" where
  "batch_record_path project batch_id = join_path (batch_root_path project @ [''records'']) (batch_id @ ''.yaml'')"

definition batch_plan_path :: "path \<Rightarrow> string \<Rightarrow> path" where
  "batch_plan_path project batch_id = join_path (batch_root_path project @ [''plans'']) (batch_id @ ''.yaml'')"

definition batch_attempts_root :: "path \<Rightarrow> path" where
  "batch_attempts_root project = batch_root_path project @ [''attempts'']"

definition batch_audit_log_path :: "path \<Rightarrow> path" where
  "batch_audit_log_path project = batch_root_path project @ [''audits'', ''batch_audit.jsonl'']"

definition batch_lock_root :: "path \<Rightarrow> path" where
  "batch_lock_root project = batch_root_path project @ [''locks'']"

definition batch_recovery_path :: "path \<Rightarrow> string \<Rightarrow> path" where
  "batch_recovery_path project batch_id = join_path (batch_root_path project @ [''recovery'']) (batch_id @ ''.yaml'')"

definition attempt_record_path :: "path \<Rightarrow> string \<Rightarrow> string \<Rightarrow> path" where
  "attempt_record_path project attempt_id batch_id =
     join_path (join_path (batch_attempts_root project) batch_id) (attempt_id @ ''.yaml'')"

subsection \<open>Documents\<close>

definition save_batch_record :: "path \<Rightarrow> batch_record \<Rightarrow> (disk, path) prog" where
  "save_batch_record project r =
     pbind (pmodify (ensure_batch_dirs project)) (\<lambda>_.
     let p = batch_record_path project (br_batch_id r) in
     pbind (pmodify (write_yaml p (PDict (batch_record_to_dict r)))) (\<lambda>_. pret p))"

definition load_batch_record :: "codecs \<Rightarrow> path \<Rightarrow> string \<Rightarrow> disk \<Rightarrow> batch_record res" where
  "load_batch_record c project batch_id =
     read_mapping c ''Batch record must be a YAML mapping: '' batch_record_from_dict (batch_record_path project batch_id)"

definition save_orchestration_plan :: "path \<Rightarrow> orchestration_plan \<Rightarrow> (disk, path) prog" where
  "save_orchestration_plan project plan =
     pbind (pmodify (ensure_batch_dirs project)) (\<lambda>_.
     let p = batch_plan_path project (op_batch_id plan) in
     pbind (pmodify (write_yaml p (PDict (orchestration_plan_to_dict plan)))) (\<lambda>_. pret p))"

definition load_orchestration_plan :: "codecs \<Rightarrow> path \<Rightarrow> string \<Rightarrow> disk \<Rightarrow> orchestration_plan res" where
  "load_orchestration_plan c project batch_id =
     read_mapping c ''Batch plan must be a YAML mapping: '' orchestration_plan_from_dict (batch_plan_path project batch_id)"

definition save_attempt_record :: "path \<Rightarrow> attempt_record \<Rightarrow> (disk, path) prog" where
  "save_attempt_record project r =
     pbind (pmodify (ensure_batch_dirs project)) (\<lambda>_.
     let p = attempt_record_path project (at_attempt_id r) (at_batch_id r) in
     pbind (pmodify (write_yaml p (PDict (attempt_record_to_dict r)))) (\<lambda>_. pret p))"

definition load_attempt_record :: "codecs \<Rightarrow> path \<Rightarrow> string \<Rightarrow> string \<Rightarrow> disk \<Rightarrow> attempt_record res" where
  "load_attempt_record c project batch_id attempt_id =
     read_mapping c ''Attempt record must be a YAML mapping: '' attempt_record_from_dict (attempt_record_path project attempt_id batch_id)"

definition save_recovery_record :: "path \<Rightarrow> recovery_record \<Rightarrow> (disk, path) prog" where
  "save_recovery_record project r =
     pbind (pmodify (ensure_batch_dirs project)) (\<lambda>_.
     let p = batch_recovery_path project (rv_batch_id r) in
     pbind (pmodify (write_yaml p (PDict (recovery_record_to_dict r)))) (\<lambda>_. pret p))"

subsection \<open>Audit log\<close>

record batch_audit_event =
  be_event_id :: string
  be_event_type :: string
  be_batch_id :: string
  be_item_id :: string
  be_prior_state :: string
  be_new_state :: string
  be_timestamp :: string
  be_details :: pydict

definition batch_audit_event_to_dict :: "batch_audit_event \<Rightarrow> pydict" where
  "batch_audit_event_to_dict e =
     [(''event_id'', PStr (be_event_id e)), (''event_type'', PStr (be_event_type e)),
      (''batch_id'', PStr (be_batch_id e)), (''item_id'', PStr (be_item_id e)),
      (''prior_state'', PStr (be_prior_state e)), (''new_state'', PStr (be_new_state e)),
      (''timestamp'', PStr (be_timestamp e)), (''details'', PDict (be_details e))]"

text \<open>The event the services build: no identifier and no item.\<close>

definition batch_event :: "string \<Rightarrow> string \<Rightarrow> string \<Rightarrow> string \<Rightarrow> string \<Rightarrow> pydict \<Rightarrow> batch_audit_event" where
  "batch_event event_type batch_id prior new now details =
     \<lparr>be_event_id = [], be_event_type = event_type, be_batch_id = batch_id, be_item_id = [],
      be_prior_state = prior, be_new_state = new, be_timestamp = now, be_details = details\<rparr>"

definition append_batch_audit_event :: "codecs \<Rightarrow> path \<Rightarrow> batch_audit_event \<Rightarrow> (disk, path) prog" where
  "append_batch_audit_event c project event =
     pbind (pmodify (ensure_batch_dirs project)) (\<lambda>_.
     let p = bp_audit_log (paths_of_batches project) in
     pbind (pmodify (append_log c p (batch_audit_event_to_dict event))) (\<lambda>_. pret p))"

definition load_batch_audit_events :: "codecs \<Rightarrow> path \<Rightarrow> disk \<Rightarrow> pyval list res" where
  "load_batch_audit_events c project = read_log c (batch_audit_log_path project)"

definition stable_batch_event_id :: "codecs \<Rightarrow> batch_audit_event \<Rightarrow> string" where
  "stable_batch_event_id c e = take 16 (checksum_text c (join ''|''
     [be_event_type e, be_batch_id e, be_item_id e, be_prior_state e, be_new_state e, be_timestamp e,
      json_dumps c (PDict (be_details e))]))"

subsection \<open>Locks\<close>

definition batch_lock_path :: "path \<Rightarrow> string \<Rightarrow> string \<Rightarrow> path" where
  "batch_lock_path project batch_id operation =
     join_path (batch_lock_root project) (batch_id @ ''-'' @ operation @ ''.lock'')"

text \<open>
  \<open>with acquire_batch_lock(...): body\<close>: the lock is a file that exists while the body runs;
  it is removed however the body ends. \<open>now\<close> is the time the lock file is written.
\<close>

definition with_batch_lock ::
    "codecs \<Rightarrow> path \<Rightarrow> string \<Rightarrow> string \<Rightarrow> string \<Rightarrow> (disk, 'a) prog \<Rightarrow> (disk, 'a) prog" where
  "with_batch_lock c project batch_id operation now body =
     pbind (pmodify (ensure_batch_dirs project)) (\<lambda>_.
     let lock_path = batch_lock_path project batch_id operation in
     pbind (pmodify (fs_mkdir (butlast lock_path))) (\<lambda>_.
     pbind (pget (\<lambda>d. fs_exists d lock_path)) (\<lambda>there.
     if there then plift (value_error (''Batch lock already exists: '' @ path_text lock_path))
     else
     pbind (pmodify (fs_write lock_path (Text (checksum_text c (join ''|''
       [batch_id, operation, ''operator'', now]))))) (\<lambda>_.
     pfinally body (fs_unlink lock_path)))))"

subsection \<open>Places\<close>

lemma ensure_batch_files [simp]: "fs_files (ensure_batch_dirs project d) = fs_files d"
  by (simp add: ensure_batch_dirs_def Let_def)

definition batch_ids :: "string set" where
  "batch_ids = {b. plain_name (b @ ''.yaml'') \<and> plain_name b}"

lemma batch_places:
  assumes "plain_path project" and "b \<in> batch_ids"
  shows "batch_record_path project b = batch_root_path project @ [''records'', b @ ''.yaml'']"
    "batch_plan_path project b = batch_root_path project @ [''plans'', b @ ''.yaml'']"
    "batch_recovery_path project b = batch_root_path project @ [''recovery'', b @ ''.yaml'']"
    "plain_path (batch_record_path project b)" "plain_path (batch_plan_path project b)"
    "plain_path (batch_recovery_path project b)" "plain_path (batch_audit_log_path project)"
  using assms
  by (auto simp: batch_record_path_def batch_plan_path_def batch_recovery_path_def batch_ids_def
      batch_root_path_def batch_audit_log_path_def plain_path_def plain_name_def)

interpretation batch_records: document_store "batch_record_path project" br_batch_id
    batch_record_to_dict batch_record_from_dict wf_batch_record
  for project
  by unfold_locales (rule batch_record_roundtrip)

interpretation batch_plans: document_store "batch_plan_path project" op_batch_id
    orchestration_plan_to_dict orchestration_plan_from_dict wf_orchestration_plan
  for project
  by unfold_locales (rule orchestration_plan_roundtrip)

interpretation batch_attempts: document_store "\<lambda>(a, b). attempt_record_path project a b"
    "\<lambda>r. (at_attempt_id r, at_batch_id r)" attempt_record_to_dict attempt_record_from_dict wf_attempt_record
  for project
  by unfold_locales (rule attempt_record_roundtrip)

subsection \<open>What a lock promises\<close>

definition lock_text :: "codecs \<Rightarrow> string \<Rightarrow> string \<Rightarrow> string \<Rightarrow> content" where
  "lock_text c b op now = Text (checksum_text c (join ''|'' [b, op, ''operator'', now]))"

lemma with_lock_run:
  "with_batch_lock c project b op now body d =
    (let lock = batch_lock_path project b op; d' = fs_mkdir (butlast lock) (ensure_batch_dirs project d) in
     if fs_exists d' lock then (value_error (''Batch lock already exists: '' @ path_text lock), d')
     else case body (fs_write lock (lock_text c b op now) d') of (r, t) \<Rightarrow> (r, fs_unlink lock t))"
  by (simp add: with_batch_lock_def lock_text_def Let_def pfinally_def)

lemma fs_exists_file: "plain_path p \<Longrightarrow> map_of (fs_files d) p = Some v \<Longrightarrow> fs_exists d p"
  by (simp add: fs_exists_def)



text \<open>
  Locks of one batch exclude only the same operation: inside the lock of a roll-back a
  cancellation takes its own lock and runs.
\<close>

theorem locks_are_per_operation:
  "fst (with_batch_lock c [''p''] ''b'' ''rollback'' now
     (with_batch_lock c [''p''] ''b'' ''cancel'' now' (pret x)) \<lparr>fs_files = [], fs_dirs = []\<rparr>) = Inr x"
proof -
  let ?A = "batch_lock_path [''p''] ''b'' ''rollback''" and ?B = "batch_lock_path [''p''] ''b'' ''cancel''"
  let ?empty = "\<lparr>fs_files = [], fs_dirs = []\<rparr>"
  have paths: "?A = [''p'', ''.agentic'', ''cloud_batches'', ''locks'', ''b-rollback.lock'']"
    "?B = [''p'', ''.agentic'', ''cloud_batches'', ''locks'', ''b-cancel.lock'']"
    by (simp_all add: batch_lock_path_def batch_lock_root_def batch_root_path_def plain_name_def)
  have short: "length q < 5" if "q \<in> set (fs_dirs (fs_mkdir p (ensure_batch_dirs [''p''] d)))"
    "\<And>q. q \<in> set (fs_dirs d) \<Longrightarrow> length q < 5" "plain_path p" "length p \<le> 4" for p q d
    using that
    by (auto simp: ensure_batch_dirs_def paths_of_batches_def batch_root_path_def Let_def plain_path_def dest!: mkdir_dirs)
  have plain: "plain_path ?A" "plain_path ?B" by (simp_all add: paths plain_path_def)
  let ?d = "fs_mkdir (butlast ?A) (ensure_batch_dirs [''p''] ?empty)"
  let ?e = "fs_mkdir (butlast ?B) (ensure_batch_dirs [''p''] (fs_write ?A (lock_text c ''b'' ''rollback'' now) ?d))"
  have d: "length q < 5" if "q \<in> set (fs_dirs ?d)" for q
    by (rule short [OF that]) (simp_all add: paths plain_path_def)
  have "\<not> fs_is_dir ?d ?A" by (rule not_dir) (use d paths in \<open>auto simp: numeral_eq_Suc\<close>)
  then have "\<not> fs_exists ?d ?A" using plain by (simp add: fs_exists_def)
  moreover have "length q < 5" if "q \<in> set (fs_dirs ?e)" for q
    by (rule short [OF that]) (simp_all add: paths plain_path_def fs_write_def d [unfolded paths])
  then have "\<not> fs_is_dir ?e ?B" by (intro not_dir) (use plain paths in \<open>auto simp: numeral_eq_Suc split: if_splits\<close>)
  then have "\<not> fs_exists ?e ?B" using plain by (simp add: fs_exists_def) (simp add: paths)
  ultimately show ?thesis by (simp add: with_lock_run Let_def)
qed

end
