(* ===== verification/BatchOps.thy ===== *)
theory BatchOps
  imports BatchStore
begin

text \<open>
  The operations of an operator on a whole batch: \<open>cloud_batch/retry.py\<close>,
  \<open>cancellation.py\<close>, \<open>recovery.py\<close> and the formatting of the records. Each reads the record of
  the batch, writes it back (a recovery writes its own report) and appends one audit event.
\<close>

subsection \<open>Retry\<close>

record retry_result =
  rr_batch_id :: string
  rr_attempt_id :: string
  rr_prior_attempt_ids :: "string list"
  rr_status :: string

text \<open>
  A dataclass object where a dictionary is expected: \<open>BatchRecord.from_dict\<close> only asks
  whether it is a dictionary, which it is not.
\<close>

definition object_value :: pyval where "object_value = PStr ''<object>''"

definition retry_attempt :: "codecs \<Rightarrow> string \<Rightarrow> string \<Rightarrow> string \<Rightarrow> batch_record \<Rightarrow> attempt_record" where
  "retry_attempt c now batch_id reason record =
     (let attempt_id = batch_id @ ''-attempt-'' @ zero_pad 2 (length (br_attempts record) + 1) in
      \<lparr>at_schema_version = 1, at_attempt_id = attempt_id, at_batch_id = batch_id,
       at_phase = ''retry'', at_created_at = now, at_item_ids = br_item_ids record,
       at_previous_attempt_id =
         (if br_latest_attempt_id record = [] then None else Some (br_latest_attempt_id record)),
       at_checksum = checksum_text c (join ''|'' [batch_id, attempt_id, reason]),
       at_details = [(''reason'', PStr reason),
         (''prior_attempt_ids'', pstrs (map at_attempt_id (br_attempts record)))]\<rparr>)"

definition retry_batch :: "codecs \<Rightarrow> call_env \<Rightarrow> path \<Rightarrow> string \<Rightarrow> string \<Rightarrow> (disk, retry_result) prog" where
  "retry_batch c env project batch_id reason =
     pbind (pread (load_batch_record c project batch_id)) (\<lambda>record.
     let attempt = retry_attempt c (ce_now env 0) batch_id reason record;
         attempt_id = at_attempt_id attempt in
     pbind (save_attempt_record project attempt) (\<lambda>_.
     pbind (append_batch_audit_event c project
       (batch_event ''batch_retry'' batch_id (br_status record) ''planned'' (ce_now env 1)
         [(''attempt_id'', PStr attempt_id), (''reason'', PStr reason)])) (\<lambda>_.
     pbind (plift (batch_record_with record
       [(''latest_attempt_id'', PStr attempt_id),
        (''attempts'', PList (map (\<lambda>_. object_value) (br_attempts record @ [attempt]))),
        (''status'', PStr ''planned'')])) (\<lambda>updated.
     pbind (save_batch_record project updated) (\<lambda>_.
     pret \<lparr>rr_batch_id = batch_id, rr_attempt_id = attempt_id, rr_prior_attempt_ids = map at_attempt_id (br_attempts record),
           rr_status = ''planned''\<rparr>)))))"

subsection \<open>Cancellation\<close>

record cancellation_result =
  cn_batch_id :: string
  cn_cancelled_item_ids :: "string list"
  cn_preserved_item_ids :: "string list"
  cn_status :: string

definition PRESERVED_STATUSES :: "string list" where
  "PRESERVED_STATUSES = [''applied'', ''resumed'', ''failed'', ''rolled_back'']"

definition cancel_item :: "batch_item \<Rightarrow> batch_item res" where
  "cancel_item i = (if bi_status i \<in> set PRESERVED_STATUSES then Inr i
     else batch_item_with i [(''status'', PStr ''cancelled'')])"

definition cancel_batch :: "codecs \<Rightarrow> call_env \<Rightarrow> path \<Rightarrow> string \<Rightarrow> string \<Rightarrow> (disk, cancellation_result) prog" where
  "cancel_batch c env project batch_id reason =
     pbind (pread (load_batch_record c project batch_id)) (\<lambda>record.
     let preserved = map bi_item_id (filter (\<lambda>i. bi_status i \<in> set PRESERVED_STATUSES) (br_items record));
         cancelled = map bi_item_id (filter (\<lambda>i. bi_status i \<notin> set PRESERVED_STATUSES) (br_items record)) in
     pbind (plift (rmap_list cancel_item (br_items record))) (\<lambda>updated_items.
     pbind (plift (batch_record_with record
       [(''status'', PStr ''cancelled''),
        (''items'', PList (map (\<lambda>i. PDict (batch_item_to_dict i)) updated_items)),
        (''progress'', PDict (al_merge (progress_summary_to_dict (br_progress record))
           [(''cancelled'', PInt (pg_cancelled (br_progress record) + int (length cancelled)))]))])) (\<lambda>updated.
     pbind (save_batch_record project updated) (\<lambda>_.
     pbind (append_batch_audit_event c project
       (batch_event ''batch_cancel'' batch_id (br_status record) ''cancelled'' (ce_now env 0)
         [(''reason'', PStr reason), (''cancelled_item_ids'', pstrs cancelled)])) (\<lambda>_.
     pret \<lparr>cn_batch_id = batch_id, cn_cancelled_item_ids = cancelled, cn_preserved_item_ids = preserved,
           cn_status = ''cancelled''\<rparr>)))))"

subsection \<open>Recovery\<close>

record batch_recovery_result =
  rc_batch_id :: string
  rc_findings :: "string list"
  rc_recommended_actions :: "string list"
  rc_reconciled :: bool

definition recover_batch :: "codecs \<Rightarrow> call_env \<Rightarrow> path \<Rightarrow> string \<Rightarrow> (disk, batch_recovery_result) prog" where
  "recover_batch c env project batch_id =
     pbind (pread (load_batch_record c project batch_id)) (\<lambda>record.
     let diverged = bres_status (br_results record) \<noteq> br_status record;
         unsigned = get_str (br_checksums record) ''batch_record'' = [];
         findings = (if diverged then [''batch result status diverged from batch record status''] else [])
           @ (if unsigned then [''missing batch record checksum''] else []);
         actions = (if diverged then [''align batch result and batch record status''] else [])
           @ (if unsigned then [''recompute batch checksum''] else []);
         reconciled = (findings = []);
         recovery = \<lparr>rv_schema_version = 1, rv_batch_id = batch_id, rv_created_at = ce_now env 0,
           rv_findings = findings, rv_recommended_actions = actions, rv_reconciled = reconciled,
           rv_checksum = checksum_text c (join ''|'' [batch_id, py_str (pstrs findings),
             py_str (pstrs actions), py_str (PBool reconciled)]),
           rv_details = [(''status'', PStr (br_status record))]\<rparr> in
     pbind (save_recovery_record project recovery) (\<lambda>_.
     pbind (append_batch_audit_event c project
       (batch_event ''batch_recovery'' batch_id (br_status record) (br_status record) (ce_now env 1)
         [(''findings'', pstrs findings), (''reconciled'', PBool reconciled)])) (\<lambda>_.
     pret \<lparr>rc_batch_id = batch_id, rc_findings = findings, rc_recommended_actions = actions,
           rc_reconciled = reconciled\<rparr>)))"

subsection \<open>Formatting\<close>

definition format_batch_record :: "batch_record \<Rightarrow> string" where
  "format_batch_record r = join newline
     [''Batch: '' @ br_batch_id r, ''Type: '' @ br_batch_type r, ''Status: '' @ br_status r,
      ''Created: '' @ br_created_at r, ''Items: '' @ nat_dec (length (br_items r)),
      ''Progress: '' @ int_dec (pg_total (br_progress r)) @ '' total / ''
        @ int_dec (pg_succeeded (br_progress r)) @ '' succeeded / ''
        @ int_dec (pg_failed (br_progress r)) @ '' failed'',
      ''Plan: '' @ str_or (br_latest_plan_id r) ''none'',
      ''Attempt: '' @ str_or (br_latest_attempt_id r) ''none'']"

definition format_batch_status :: "batch_record list \<Rightarrow> string" where
  "format_batch_status records = join newline (''Batch status:'' #
     map (\<lambda>r. ''- '' @ br_batch_id r @ '' | '' @ br_status r @ '' | items='' @ nat_dec (length (br_items r)))
       records) @ newline"

definition format_batch_result :: "batch_result \<Rightarrow> string" where
  "format_batch_result r = (let p = bres_progress r in join newline
     ([''Batch result: '' @ bres_batch_id r, ''Status: '' @ bres_status r,
       ''Progress: total='' @ int_dec (pg_total p) @ '' succeeded='' @ int_dec (pg_succeeded p)
         @ '' failed='' @ int_dec (pg_failed p) @ '' blocked='' @ int_dec (pg_blocked p)
         @ '' cancelled='' @ int_dec (pg_cancelled p)]
      @ (if bres_item_results r = [] then []
         else ''Items:'' # map (\<lambda>i. ''- '' @ ires_item_id i @ '': '' @ ires_outcome i @ '' ('' @ ires_message i
                @ '')'') (bres_item_results r))) @ newline)"

definition format_orchestration_plan :: "orchestration_plan \<Rightarrow> string" where
  "format_orchestration_plan p = join newline
     [''Batch plan: '' @ op_batch_id p, ''Plan ID: '' @ op_plan_id p, ''Status: '' @ op_status p,
      ''Items: '' @ nat_dec (length (op_items p)), ''Waves: '' @ nat_dec (length (op_execution_waves p)),
      ''Checksum: '' @ get_str (op_checksums p) ''plan'']"

definition format_recovery_record :: "codecs \<Rightarrow> recovery_record \<Rightarrow> string" where
  "format_recovery_record c r = join newline
     ([''Batch recovery: '' @ rv_batch_id r, ''Reconciled: '' @ py_str (PBool (rv_reconciled r)), ''Findings:'']
      @ map (\<lambda>f. ''- '' @ f) (rv_findings r)
      @ [[], json_dumps c (PDict (recovery_record_to_dict r))])"

subsection \<open>What the operations promise\<close>

lemma saved_record_loads:
  assumes "plain_path project" and "br_batch_id r \<in> batch_ids" and "wf_batch_record r"
    and "save_batch_record project r d = (Inr p, e)"
  shows "load_batch_record c project (br_batch_id r) e = Inr r"
proof -
  have "e = write_yaml (batch_record_path project (br_batch_id r)) (PDict (batch_record_to_dict r))
      (ensure_batch_dirs project d)"
    using assms(4) by (auto simp: save_batch_record_def Let_def)
  then show ?thesis
    unfolding load_batch_record_def
    using batch_records.read_saved [OF assms(3), of project] batch_places(4) [OF assms(1,2)] by simp
qed

lemma logged_record_loads:
  assumes "plain_path project" and "b \<in> batch_ids" and "append_batch_audit_event c' project ev d = (x, e)"
  shows "load_batch_record c project b e = load_batch_record c project b d"
proof -
  have "e = append_log c' (batch_audit_log_path project) (batch_audit_event_to_dict ev) (ensure_batch_dirs project d)"
    using assms(3)
    by (auto simp: append_batch_audit_event_def batch_audit_log_path_def paths_of_batches_def Let_def)
  moreover have "batch_record_path project b \<noteq> batch_audit_log_path project"
    using batch_places(1) [OF assms(1,2)] by (simp add: batch_audit_log_path_def)
  ultimately show ?thesis
    unfolding load_batch_record_def
    by (intro read_mapping_cong) (simp add: batch_places(4,7) [OF assms(1,2)])
qed

text \<open>
  A record that is stored is read back as it was: every field, the items, the graph,
  the policy, the results and the attempts, from any disk it is saved on.
\<close>

theorem batch_record_persists:
  assumes "plain_path project" and "br_batch_id r \<in> batch_ids" and "wf_batch_record r"
  shows "\<exists>p e. save_batch_record project r d = (Inr p, e)
    \<and> load_batch_record c project (br_batch_id r) e = Inr r"
proof -
  obtain p e where "save_batch_record project r d = (Inr p, e)"
    by (simp add: save_batch_record_def Let_def)
  with saved_record_loads [OF assms] show ?thesis by blast
qed

definition sample_graph :: batch_dependency_graph where
  "sample_graph = \<lparr>bg_schema_version = 1, bg_batch_id = ''b'', bg_node_ids = [''a''],
     bg_dependency_map = [(''a'', [])], bg_topological_order = [''a''], bg_ready_set = [''a''], bg_checksum = []\<rparr>"

definition sample_batch :: "batch_item list \<Rightarrow> batch_record" where
  "sample_batch items = \<lparr>br_schema_version = 1, br_batch_id = ''b'',
     br_batch_type = BATCH_TYPE_CLOUD_QUEUE_ORCHESTRATION, br_created_at = ''t'', br_status = ''exported'',
     br_item_ids = map bi_item_id items, br_items = items, br_dependency_graph = sample_graph,
     br_execution_policy = ExecutionPolicy_default, br_progress = derive_batch_progress items,
     br_results = derive_batch_result ''b'' items [], br_checksums = [], br_attempts = [], br_audits = [],
     br_latest_plan_id = [], br_latest_attempt_id = [], br_notes = []\<rparr>"

lemma sample_batch_ok:
  "wf_batch_record (sample_batch items)" "br_batch_id (sample_batch items) = ''b''" "''b'' \<in> batch_ids"
  "plain_path [''p'']"
  by (simp_all add: sample_batch_def wf_batch_record_def wf_batch_dependency_graph_def sample_graph_def
      batch_ids_def plain_name_def plain_path_def)

theorem batch_record_persists_witness:
  "\<exists>p e. save_batch_record [''p''] (sample_batch [sample_item ''a'' []]) \<lparr>fs_files = [], fs_dirs = []\<rparr> = (Inr p, e)
    \<and> load_batch_record sample_codecs [''p''] (br_batch_id (sample_batch [sample_item ''a'' []])) e
      = Inr (sample_batch [sample_item ''a'' []])"
  by (rule batch_record_persists) (simp_all add: sample_batch_ok)

lemma no_dicts: "dict_items (map (\<lambda>_. object_value) xs) = []"
  by (induction xs) (simp_all add: object_value_def)

lemma objects_skipped:
  assumes "dget d k = Some (PList (map (\<lambda>_. object_value) xs))"
  shows "fdicts f d k = Inr []"
  using assms by (simp add: fdicts_def fitems_Some no_dicts del: map_replicate_const)

lemma retry_update:
  assumes "wf_batch_record r"
  shows "batch_record_with r
     [(''latest_attempt_id'', PStr a), (''attempts'', PList (map (\<lambda>_. object_value) xs)), (''status'', PStr s)]
   = Inr (r\<lparr>br_status := s, br_attempts := [], br_latest_attempt_id := a\<rparr>)"
proof -
  let ?d = "al_set ''status'' (PStr s) (al_set ''attempts'' (PList (map (\<lambda>_. object_value) xs))
    (al_set ''latest_attempt_id'' (PStr a) (batch_record_to_dict r)))"
  have "dget ?d ''attempts'' = Some (PList (map (\<lambda>_. object_value) xs))"
    by (simp del: map_replicate_const)
  then have "fdicts attempt_record_from_dict ?d ''attempts'' = Inr []"
    by (rule objects_skipped)
  with assms show ?thesis
    by (simp add: batch_record_with_simps del: map_replicate_const)
qed

text \<open>
  A retry forgets the attempts: the attempt it builds is handed over as an object where
  \<open>from_dict\<close> keeps dictionaries only, so the record is stored without any attempt, and the
  next retry uses the number one again, the name of the attempt file that is already there.
\<close>

theorem retry_forgets_attempts:
  assumes "plain_path project" and "b \<in> batch_ids"
    and "load_batch_record c project b d = Inr r" and "wf_batch_record r" and "br_batch_id r = b"
  shows "\<exists>res e. retry_batch c env project b reason d = (Inr res, e)
    \<and> load_batch_record c project b e = Inr (r\<lparr>br_status := ''planned'', br_attempts := [],
         br_latest_attempt_id := rr_attempt_id res\<rparr>)
    \<and> (\<forall>env' reason' res' e'. retry_batch c env' project b reason' e = (Inr res', e') \<longrightarrow>
         rr_attempt_id res' = b @ ''-attempt-01'')"
proof -
  let ?a = "retry_attempt c (ce_now env 0) b reason r"
  let ?id = "at_attempt_id ?a"
  let ?u = "r\<lparr>br_status := ''planned'', br_attempts := [], br_latest_attempt_id := ?id\<rparr>"
  obtain p1 d1 where d1: "save_attempt_record project ?a d = (Inr p1, d1)"
    by (simp add: save_attempt_record_def Let_def)
  obtain p2 d2 where d2: "append_batch_audit_event c project (batch_event ''batch_retry'' b (br_status r) ''planned''
      (ce_now env 1) [(''attempt_id'', PStr ?id), (''reason'', PStr reason)]) d1 = (Inr p2, d2)"
    by (simp add: append_batch_audit_event_def Let_def)
  obtain p3 d3 where d3: "save_batch_record project ?u d2 = (Inr p3, d3)"
    by (simp add: save_batch_record_def Let_def)
  have run: "retry_batch c env project b reason d = (Inr \<lparr>rr_batch_id = b, rr_attempt_id = ?id,
      rr_prior_attempt_ids = map at_attempt_id (br_attempts r), rr_status = ''planned''\<rparr>, d3)"
    unfolding retry_batch_def Let_def pbind_def pread_run assms(3) prod.case sum.case d1 d2
      retry_update [OF assms(4)] plift_run d3 by simp
  have "wf_batch_record ?u" using assms(4) by (simp add: wf_batch_record_def)
  then have loaded: "load_batch_record c project b d3 = Inr ?u"
    using saved_record_loads [OF assms(1) _ _ d3] assms(2,5) by simp
  have "rr_attempt_id res' = b @ ''-attempt-01''"
    if "retry_batch c env' project b reason' d3 = (Inr res', e')" for env' reason' res' e'
  proof -
    from that loaded have "rr_attempt_id res' = b @ ''-attempt-'' @ zero_pad 2 1"
      by (auto simp: retry_batch_def retry_attempt_def Let_def)
    moreover have "zero_pad 2 1 = ''01''" by code_simp
    ultimately show ?thesis by simp
  qed
  with run loaded show ?thesis by auto
qed

theorem retry_forgets_attempts_witness:
  "\<exists>d res e. load_batch_record sample_codecs [''p''] ''b'' d = Inr (sample_batch [])
    \<and> retry_batch sample_codecs \<lparr>ce_now = (\<lambda>_. ''t''), ce_ids = None\<rparr> [''p''] ''b'' ''again'' d = (Inr res, e)
    \<and> load_batch_record sample_codecs [''p''] ''b'' e = Inr ((sample_batch [])\<lparr>br_status := ''planned'',
         br_attempts := [], br_latest_attempt_id := rr_attempt_id res\<rparr>)"
proof -
  obtain p d where "save_batch_record [''p''] (sample_batch []) \<lparr>fs_files = [], fs_dirs = []\<rparr> = (Inr p, d)"
    by (simp add: save_batch_record_def Let_def)
  then have "load_batch_record sample_codecs [''p''] ''b'' d = Inr (sample_batch [])"
    using saved_record_loads [of "[''p'']" "sample_batch []"] by (simp add: sample_batch_ok)
  from retry_forgets_attempts [OF _ _ this] this show ?thesis by (simp add: sample_batch_ok) blast
qed

lemma cancel_item_ok:
  "cancel_item i = Inr (if bi_status i \<in> set PRESERVED_STATUSES then i else i\<lparr>bi_status := ''cancelled''\<rparr>)"
  by (simp add: cancel_item_def batch_item_with_simps)

definition cancelled_record :: "batch_record \<Rightarrow> batch_record" where
  "cancelled_record r = r\<lparr>br_status := ''cancelled'',
     br_items := map (\<lambda>i. if bi_status i \<in> set PRESERVED_STATUSES then i else i\<lparr>bi_status := ''cancelled''\<rparr>) (br_items r),
     br_progress := (br_progress r)\<lparr>pg_cancelled := pg_cancelled (br_progress r)
       + int (length (filter (\<lambda>i. bi_status i \<notin> set PRESERVED_STATUSES) (br_items r)))\<rparr>\<rparr>"

lemma progress_with_cancelled:
  "progress_summary_from_dict (al_set ''cancelled'' (PInt n) (progress_summary_to_dict p)) = Inr (p\<lparr>pg_cancelled := n\<rparr>)"
  by (simp add: progress_summary_from_dict_def codec_simps)

lemma cancel_update:
  assumes "wf_batch_record r" and "rmap_list cancel_item (br_items r) = Inr items"
  shows "batch_record_with r
     [(''status'', PStr ''cancelled''), (''items'', PList (map (\<lambda>i. PDict (batch_item_to_dict i)) items)),
      (''progress'', PDict (al_merge (progress_summary_to_dict (br_progress r)) [(''cancelled'', PInt n)]))]
   = Inr (r\<lparr>br_status := ''cancelled'', br_items := items, br_progress := (br_progress r)\<lparr>pg_cancelled := n\<rparr>\<rparr>)"
  using assms(1) by (simp add: batch_record_with_simps progress_with_cancelled)

lemma cancel_runs:
  assumes "plain_path project" and "b \<in> batch_ids"
    and "load_batch_record c project b d = Inr r" and "wf_batch_record r" and "br_batch_id r = b"
  obtains res e where "cancel_batch c env project b reason d = (Inr res, e)"
    and "load_batch_record c project b e = Inr (cancelled_record r)"
    and "cn_preserved_item_ids res = map bi_item_id (filter (\<lambda>i. bi_status i \<in> set PRESERVED_STATUSES) (br_items r))"
proof -
  have items: "rmap_list cancel_item (br_items r) = Inr (br_items (cancelled_record r))"
    unfolding cancelled_record_def by (simp add: cancel_item_ok rmap_list_cong_Inr)
  let ?u = "cancelled_record r"
  let ?cancelled = "map bi_item_id (filter (\<lambda>i. bi_status i \<notin> set PRESERVED_STATUSES) (br_items r))"
  obtain p1 d1 where d1: "save_batch_record project ?u d = (Inr p1, d1)"
    by (simp add: save_batch_record_def Let_def)
  obtain p2 d2 where d2: "append_batch_audit_event c project (batch_event ''batch_cancel'' b (br_status r) ''cancelled''
      (ce_now env 0) [(''reason'', PStr reason), (''cancelled_item_ids'', pstrs ?cancelled)]) d1 = (Inr p2, d2)"
    by (simp add: append_batch_audit_event_def Let_def)
  have "batch_record_with r
     [(''status'', PStr ''cancelled''), (''items'', PList (map (\<lambda>i. PDict (batch_item_to_dict i)) (br_items ?u))),
      (''progress'', PDict (al_merge (progress_summary_to_dict (br_progress r))
         [(''cancelled'', PInt (pg_cancelled (br_progress r) + int (length ?cancelled)))]))] = Inr ?u"
    unfolding cancel_update [OF assms(4) items] by (simp add: cancelled_record_def)
  then have run: "cancel_batch c env project b reason d = (Inr \<lparr>cn_batch_id = b, cn_cancelled_item_ids = ?cancelled,
      cn_preserved_item_ids = map bi_item_id (filter (\<lambda>i. bi_status i \<in> set PRESERVED_STATUSES) (br_items r)),
      cn_status = ''cancelled''\<rparr>, d2)"
    using assms(3) d1 d2 by (simp add: cancel_batch_def Let_def pbind_def items)
  have "wf_batch_record ?u" "br_batch_id ?u = b"
    using assms(4,5) by (simp_all add: wf_batch_record_def cancelled_record_def)
  then have "load_batch_record c project b d1 = Inr ?u"
    using saved_record_loads [OF assms(1) _ _ d1] assms(2) by simp
  then have "load_batch_record c project b d2 = Inr ?u"
    using logged_record_loads [OF assms(1,2) d2] by simp
  with run show thesis using that by simp
qed

lemma open_after_cancel:
  "filter (\<lambda>i. bi_status i \<notin> set PRESERVED_STATUSES)
     (map (\<lambda>i. if bi_status i \<in> set PRESERVED_STATUSES then i else i\<lparr>bi_status := ''cancelled''\<rparr>) items)
   = map (\<lambda>i. i\<lparr>bi_status := ''cancelled''\<rparr>) (filter (\<lambda>i. bi_status i \<notin> set PRESERVED_STATUSES) items)"
  by (induction items) (auto simp: PRESERVED_STATUSES_def)

text \<open>
  A cancellation keeps the items that were applied, resumed, failed or rolled back and
  cancels all others; but it adds their number to the count of cancelled items each time, so
  that cancelling a batch twice counts its open items twice.
\<close>

theorem cancel_twice_counts_twice:
  assumes "plain_path project" and "b \<in> batch_ids"
    and "load_batch_record c project b d = Inr r" and "wf_batch_record r" and "br_batch_id r = b"
  shows "\<exists>res e res' e'. cancel_batch c env project b reason d = (Inr res, e)
    \<and> load_batch_record c project b e = Inr (cancelled_record r)
    \<and> cancel_batch c env' project b reason' e = (Inr res', e')
    \<and> map_option (\<lambda>u. pg_cancelled (br_progress u)) (case load_batch_record c project b e' of Inl _ \<Rightarrow> None | Inr u \<Rightarrow> Some u)
      = Some (pg_cancelled (br_progress r)
          + 2 * int (length (filter (\<lambda>i. bi_status i \<notin> set PRESERVED_STATUSES) (br_items r))))"
proof -
  obtain res e where first: "cancel_batch c env project b reason d = (Inr res, e)"
    "load_batch_record c project b e = Inr (cancelled_record r)"
    by (rule cancel_runs [OF assms])
  have "wf_batch_record (cancelled_record r)" "br_batch_id (cancelled_record r) = b"
    using assms(4,5) by (simp_all add: wf_batch_record_def cancelled_record_def)
  from cancel_runs [OF assms(1,2) first(2) this] obtain res' e' where
    second: "cancel_batch c env' project b reason' e = (Inr res', e')"
    "load_batch_record c project b e' = Inr (cancelled_record (cancelled_record r))"
    by metis
  have "filter (\<lambda>i. bi_status i \<notin> set PRESERVED_STATUSES) (br_items (cancelled_record r))
      = map (\<lambda>i. i\<lparr>bi_status := ''cancelled''\<rparr>) (filter (\<lambda>i. bi_status i \<notin> set PRESERVED_STATUSES) (br_items r))"
    unfolding cancelled_record_def by (simp add: open_after_cancel)
  then have "pg_cancelled (br_progress (cancelled_record (cancelled_record r))) = pg_cancelled (br_progress r)
      + 2 * int (length (filter (\<lambda>i. bi_status i \<notin> set PRESERVED_STATUSES) (br_items r)))"
    by (simp add: cancelled_record_def [of "cancelled_record r"]) (simp add: cancelled_record_def)
  with first second show ?thesis by auto
qed

theorem cancel_twice_counts_twice_witness:
  "\<exists>d res e. load_batch_record sample_codecs [''p''] ''b'' d = Inr (sample_batch [sample_item ''a'' []])
    \<and> cancel_batch sample_codecs \<lparr>ce_now = (\<lambda>_. ''t''), ce_ids = None\<rparr> [''p''] ''b'' ''stop'' d = (Inr res, e)
    \<and> load_batch_record sample_codecs [''p''] ''b'' e = Inr (cancelled_record (sample_batch [sample_item ''a'' []]))"
proof -
  obtain p d where "save_batch_record [''p''] (sample_batch [sample_item ''a'' []]) \<lparr>fs_files = [], fs_dirs = []\<rparr> = (Inr p, d)"
    by (simp add: save_batch_record_def Let_def)
  then have "load_batch_record sample_codecs [''p''] ''b'' d = Inr (sample_batch [sample_item ''a'' []])"
    using saved_record_loads [of "[''p'']" "sample_batch [sample_item ''a'' []]"] by (simp add: sample_batch_ok)
  from cancel_twice_counts_twice [OF _ _ this, of "\<lparr>ce_now = (\<lambda>_. ''t''), ce_ids = None\<rparr>" "''stop''"] this
  show ?thesis by (simp add: sample_batch_ok) blast
qed

end
