(* ===== verification/AppStateMachine.thy ===== *)
theory AppStateMachine
  imports Transitions
begin

text \<open>
  \<open>cloud_application/state_machine.py\<close>: the states of an application of a cloud response, the
  table of allowed transitions and the functions that check a state and a transition.
\<close>

definition APPLICATION_STATES :: "string list" where
  "APPLICATION_STATES =
     [''application_planned'', ''application_validation_failed'', ''ready_to_apply'',
      ''applying'', ''applied'', ''resume_pending'', ''resuming'', ''resumed'',
      ''resume_failed'', ''rollback_available'', ''rolling_back'', ''rolled_back'',
      ''rollback_failed'', ''superseded'', ''cancelled'']"

definition TERMINAL_APPLICATION_STATES :: "string list" where
  "TERMINAL_APPLICATION_STATES =
     [''applied'', ''resumed'', ''resume_failed'', ''rolled_back'', ''rollback_failed'',
      ''superseded'', ''cancelled'']"

definition APPLICATION_TRANSITION_MAP :: "(string \<times> string list) list" where
  "APPLICATION_TRANSITION_MAP =
     [(''application_planned'', [''application_validation_failed'', ''ready_to_apply'', ''cancelled'']),
      (''application_validation_failed'', [''application_planned'', ''cancelled'']),
      (''ready_to_apply'', [''applying'', ''cancelled'']),
      (''applying'', [''applied'', ''application_validation_failed'', ''rollback_available'',
        ''resume_failed'']),
      (''applied'', [''resume_pending'', ''superseded'', ''rollback_available'', ''rolling_back'']),
      (''resume_pending'', [''resuming'', ''cancelled'', ''rolling_back'']),
      (''resuming'', [''resumed'', ''resume_failed'']),
      (''resumed'', [''rollback_available'', ''superseded'', ''rolling_back'']),
      (''resume_failed'', [''rollback_available'', ''cancelled'']),
      (''rollback_available'', [''rolling_back'', ''superseded'']),
      (''rolling_back'', [''rolled_back'', ''rollback_failed'']),
      (''rolled_back'', []),
      (''rollback_failed'', []),
      (''superseded'', []),
      (''cancelled'', [])]"

definition allowed_application_transitions :: "string \<Rightarrow> string list res" where
  "allowed_application_transitions s = (case map_of APPLICATION_TRANSITION_MAP s of
     None \<Rightarrow> value_error (''Unknown application state: '' @ s)
   | Some ts \<Rightarrow> Inr ts)"

definition validate_application_state :: "string \<Rightarrow> unit res" where
  "validate_application_state s = (if s \<in> set APPLICATION_STATES then Inr ()
     else value_error (''Invalid application state: '' @ s @ ''. Expected one of: ''
            @ join '', '' APPLICATION_STATES @ ''.''))"

definition validate_application_transition :: "string \<Rightarrow> string \<Rightarrow> unit res" where
  "validate_application_transition current next =
     rbind (validate_application_state current) (\<lambda>_.
     rbind (validate_application_state next) (\<lambda>_.
     if current = next
     then value_error (''Repeated application state transition is not allowed: '' @ current @ '' -> '' @ next)
     else rbind (allowed_application_transitions current) (\<lambda>allowed.
       if next \<notin> set allowed
       then value_error (''Invalid application transition: '' @ current @ '' -> '' @ next
              @ ''. Allowed transitions: '' @ str_or (join '', '' allowed) ''none'' @ ''.'')
       else Inr ())))"

definition is_terminal_application_state :: "string \<Rightarrow> bool res" where
  "is_terminal_application_state s = rbind (validate_application_state s) (\<lambda>_. Inr (s \<in> set TERMINAL_APPLICATION_STATES))"

subsection \<open>The table\<close>

definition application_succs :: "string \<Rightarrow> string list" where
  "application_succs s = (case map_of APPLICATION_TRANSITION_MAP s of None \<Rightarrow> [] | Some ts \<Rightarrow> ts)"

lemma application_succs_simps [simp]:
  "application_succs ''application_planned'' = [''application_validation_failed'', ''ready_to_apply'', ''cancelled'']"
  "application_succs ''application_validation_failed'' = [''application_planned'', ''cancelled'']"
  "application_succs ''ready_to_apply'' = [''applying'', ''cancelled'']"
  "application_succs ''applying'' = [''applied'', ''application_validation_failed'', ''rollback_available'',
      ''resume_failed'']"
  "application_succs ''applied'' = [''resume_pending'', ''superseded'', ''rollback_available'', ''rolling_back'']"
  "application_succs ''resume_pending'' = [''resuming'', ''cancelled'', ''rolling_back'']"
  "application_succs ''resuming'' = [''resumed'', ''resume_failed'']"
  "application_succs ''resumed'' = [''rollback_available'', ''superseded'', ''rolling_back'']"
  "application_succs ''resume_failed'' = [''rollback_available'', ''cancelled'']"
  "application_succs ''rollback_available'' = [''rolling_back'', ''superseded'']"
  "application_succs ''rolling_back'' = [''rolled_back'', ''rollback_failed'']"
  "application_succs ''rolled_back'' = []"
  "application_succs ''rollback_failed'' = []"
  "application_succs ''superseded'' = []"
  "application_succs ''cancelled'' = []"
  by (simp_all add: application_succs_def APPLICATION_TRANSITION_MAP_def)

lemma application_map_keys: "map fst APPLICATION_TRANSITION_MAP = APPLICATION_STATES"
  by (simp add: APPLICATION_TRANSITION_MAP_def APPLICATION_STATES_def)

lemma application_allowed:
  "s \<in> set APPLICATION_STATES \<Longrightarrow> \<exists>ts. allowed_application_transitions s = Inr ts \<and> application_succs s = ts"
  by (auto simp: allowed_application_transitions_def application_succs_def map_of_eq_None_iff
      simp flip: application_map_keys split: option.splits)

lemma application_table_closed:
  "s \<in> set APPLICATION_STATES \<Longrightarrow> set (application_succs s) \<subseteq> set APPLICATION_STATES \<and> s \<notin> set (application_succs s)"
proof -
  have "list_all (\<lambda>s. set (application_succs s) \<subseteq> set APPLICATION_STATES \<and> s \<notin> set (application_succs s)) APPLICATION_STATES"
    by (simp add: APPLICATION_STATES_def)
  then show "s \<in> set APPLICATION_STATES \<Longrightarrow> set (application_succs s) \<subseteq> set APPLICATION_STATES \<and> s \<notin> set (application_succs s)"
    by (simp add: list_all_iff)
qed

lemma validate_application_state_ok [simp]: "validate_application_state s = Inr () \<longleftrightarrow> s \<in> set APPLICATION_STATES"
  by (simp add: validate_application_state_def)

lemma validate_application_transition_ok:
  "validate_application_transition a b = Inr () \<longleftrightarrow> a \<in> set APPLICATION_STATES \<and> b \<in> set (application_succs a)"
  using application_table_closed [of a] application_allowed [of a]
  by (force simp: validate_application_transition_def)

lemma validate_application_transition_error: "validate_application_transition a b = Inl e \<Longrightarrow> exn_class e = ValueError"
  by (auto simp: validate_application_transition_def validate_application_state_def allowed_application_transitions_def res_simps
      rbind_Inl_iff split: if_splits option.splits)

interpretation application_table: transition_table APPLICATION_STATES application_succs validate_application_transition
  using application_table_closed
  by unfold_locales (auto simp: validate_application_transition_ok validate_application_transition_error)

text \<open>An application that was only planned is rolled back only after it was made ready, applied
  and rolled back step by step.\<close>

theorem application_rollback_path:
  assumes path: "accepted_path validate_application_transition p" and "p \<noteq> []"
    and "hd p = ''application_planned''" and "last p = ''rolled_back''"
  shows "''ready_to_apply'' \<in> set p \<and> ''applying'' \<in> set p \<and> ''rolling_back'' \<in> set p"
proof -
  note visits = application_table.on_every_path [OF _ path assms(2)]
  let ?early = "[''application_planned'', ''application_validation_failed'', ''cancelled'']"
  have "''ready_to_apply'' \<in> set p"
    by (rule visits [of _ ?early]) (simp_all add: closed_except_def assms)
  moreover have "''applying'' \<in> set p"
    by (rule visits [of _ "''ready_to_apply'' # ?early"]) (simp_all add: closed_except_def assms)
  moreover have "''rolling_back'' \<in> set p"
    by (rule visits [of _ "[''ready_to_apply'', ''applying'', ''applied'', ''rollback_available'',
        ''resume_pending'', ''resuming'', ''resumed'', ''resume_failed'', ''superseded''] @ ?early"])
      (simp_all add: closed_except_def assms)
  ultimately show ?thesis by blast
qed

theorem application_rollback_path_witness:
  "''applying'' \<in> set [''application_planned'', ''ready_to_apply'', ''applying'', ''applied'',
     ''rolling_back'', ''rolled_back'']"
  by (rule application_rollback_path [THEN conjunct2, THEN conjunct1])
    (simp_all add: validate_application_transition_ok APPLICATION_STATES_def)

end
