(* ===== verification/AppModels.thy ===== *)
theory AppModels
  imports AppStateMachine PyPath PyValue
begin

text \<open>
  \<open>cloud_application/models.py\<close>: the tasks of a runtime plan, its revisions and the pointer to
  the active one, the applications with their plans, and the leases, publications and
  transactions; each with \<open>to_dict\<close>, \<open>from_dict\<close> and the lemma that reading back what was
  written gives the record. A dataclass is a record with the same fields; a tuple is a list.
\<close>

definition APPLICATION_SCHEMA_VERSION :: int where "APPLICATION_SCHEMA_VERSION = 1"
definition REVISION_SCHEMA_VERSION :: int where "REVISION_SCHEMA_VERSION = 1"
definition ACTIVE_POINTER_SCHEMA_VERSION :: int where "ACTIVE_POINTER_SCHEMA_VERSION = 1"
definition LEASE_SCHEMA_VERSION :: int where "LEASE_SCHEMA_VERSION = 1"
definition TRANSACTION_SCHEMA_VERSION :: int where "TRANSACTION_SCHEMA_VERSION = 1"

definition SUPPORTED_APPLICATION_OPERATIONS :: "string list" where
  "SUPPORTED_APPLICATION_OPERATIONS = [''replace_task_with_subtasks'', ''update_task_metadata'']"

definition TRANSACTION_PHASES :: "string list" where
  "TRANSACTION_PHASES = [''prepared'', ''revision_written'', ''revision_validated'', ''revision_published'',
     ''pointer_updated'', ''application_updated'', ''audit_completed'', ''committed'', ''failed'']"

subsection \<open>Readers of nested mappings\<close>

text \<open>\<open>data.get(k) or {}\<close> whose \<open>get\<close> is called next\<close>

definition fsub :: "pydict \<Rightarrow> string \<Rightarrow> pydict res" where
  "fsub d k = (let v = dget_or d k PNone in
     if truthy v then
       (case v of PDict e \<Rightarrow> Inr e
        | _ \<Rightarrow> Inl (Exn AttributeError ([CHR 0x27] @ type_name v @ [CHR 0x27] @ '' object has no attribute ''
                 @ [CHR 0x27] @ ''get'' @ [CHR 0x27])))
     else Inr [])"

text \<open>\<open>v if isinstance(v, dict) else {}\<close>\<close>

definition dict_or_empty :: "pyval \<Rightarrow> pydict" where
  "dict_or_empty v = (case v of PDict d \<Rightarrow> d | _ \<Rightarrow> [])"

lemma fsub_Some [codec_simps]: "dget d k = Some (PDict e) \<Longrightarrow> fsub d k = Inr e"
  by (simp add: fsub_def Let_def)

lemma dict_or_empty_PDict [codec_simps]: "dict_or_empty (PDict d) = d"
  by (simp add: dict_or_empty_def)

text \<open>\<open>Path(str(v)) if v else None\<close> and \<open>str(path) if path else ""\<close>\<close>

definition plain_path_text :: "string option \<Rightarrow> bool" where
  "plain_path_text v \<longleftrightarrow> (case v of None \<Rightarrow> True | Some p \<Rightarrow> p \<noteq> [] \<and> as_posix p = p)"

definition opt_path :: "string option \<Rightarrow> pyval" where
  "opt_path v = PStr (case v of None \<Rightarrow> [] | Some p \<Rightarrow> p)"

definition read_opt_path :: "pyval \<Rightarrow> string option" where
  "read_opt_path v = (if truthy v then Some (as_posix (py_str v)) else None)"

lemma read_path_text [codec_simps]: "plain_path_text v \<Longrightarrow> read_opt_path (opt_path v) = v"
  by (auto simp: plain_path_text_def read_opt_path_def opt_path_def split: option.splits)

subsection \<open>Keyword arguments\<close>

text \<open>
  \<open>ApplicationSafety(**d)\<close>: every field must be there and no other key; the values are taken
  as they are. A value that is no truth value is outside the model.
\<close>

definition SAFETY_FIELDS :: "string list" where
  "SAFETY_FIELDS = [''canonical_blueprint_modified'', ''writable_paths_expanded'', ''requirements_removed'',
     ''external_services_added'', ''network_access_added'', ''deployment_added'']"

definition quoted :: "string \<Rightarrow> string" where
  "quoted s = [CHR 0x27] @ s @ [CHR 0x27]"

fun listed :: "string list \<Rightarrow> string" where
  "listed [] = []"
| "listed [a] = quoted a"
| "listed [a, b] = quoted a @ '' and '' @ quoted b"
| "listed xs = join '', '' (map quoted (butlast xs)) @ '', and '' @ quoted (last xs)"

definition kw_bool :: "pydict \<Rightarrow> string \<Rightarrow> bool res" where
  "kw_bool d k = (case dget d k of Some (PBool b) \<Rightarrow> Inr b
     | _ \<Rightarrow> Inl (Exn OutsideModel ''field that is no truth value''))"

definition check_keywords :: "pydict \<Rightarrow> unit res" where
  "check_keywords d =
     (let unknown = filter (\<lambda>k. k \<notin> set SAFETY_FIELDS) (map fst d);
          missing = filter (\<lambda>k. k \<notin> fst ` set d) SAFETY_FIELDS in
      if unknown \<noteq> [] then
        type_error (''ApplicationSafety.__init__() got an unexpected keyword argument '' @ quoted (hd unknown))
      else if missing \<noteq> [] then
        type_error (''ApplicationSafety.__init__() missing '' @ nat_dec (length missing)
          @ '' required positional argument'' @ (if length missing = 1 then [] else ''s'') @ '': '' @ listed missing)
      else Inr ())"

lemma kw_bool_Some [codec_simps]: "dget d k = Some (PBool b) \<Longrightarrow> kw_bool d k = Inr b"
  by (simp add: kw_bool_def)

subsection \<open>Records\<close>

record task_snapshot =
  ts_task_id :: string
  ts_title :: string
  ts_role :: string
  ts_depends_on :: "string list"
  ts_requirement_ids :: "string list"
  ts_required_context :: "string list"
  ts_writable_paths :: "string list"
  ts_expected_outputs :: "string list"
  ts_validation_steps :: "string list"
  ts_token_estimate :: "int option"
  ts_usable_input_tokens :: "int option"
  ts_status :: string
  ts_source_task_id :: "string option"
  ts_superseded_by :: "string list"
  ts_history :: "string list"

definition task_snapshot_to_dict :: "task_snapshot \<Rightarrow> pydict" where
  "task_snapshot_to_dict x =
     [(''task_id'', PStr (ts_task_id x)),
      (''title'', PStr (ts_title x)),
      (''role'', PStr (ts_role x)),
      (''depends_on'', pstrs (ts_depends_on x)),
      (''requirement_ids'', pstrs (ts_requirement_ids x)),
      (''required_context'', pstrs (ts_required_context x)),
      (''writable_paths'', pstrs (ts_writable_paths x)),
      (''expected_outputs'', pstrs (ts_expected_outputs x)),
      (''validation_steps'', pstrs (ts_validation_steps x)),
      (''token_estimate'', opt_int (ts_token_estimate x)),
      (''usable_input_tokens'', opt_int (ts_usable_input_tokens x)),
      (''status'', PStr (ts_status x)),
      (''source_task_id'', opt_str (ts_source_task_id x)),
      (''superseded_by'', pstrs (ts_superseded_by x)),
      (''history'', pstrs (ts_history x))]"

definition task_snapshot_from_dict :: "pydict \<Rightarrow> task_snapshot res" where
  "task_snapshot_from_dict d =
     rbind (fstrs d ''depends_on'') (\<lambda>depends_on'.
     rbind (fstrs d ''requirement_ids'') (\<lambda>requirement_ids'.
     rbind (fstrs d ''required_context'') (\<lambda>required_context'.
     rbind (fstrs d ''writable_paths'') (\<lambda>writable_paths'.
     rbind (fstrs d ''expected_outputs'') (\<lambda>expected_outputs'.
     rbind (fstrs d ''validation_steps'') (\<lambda>validation_steps'.
     rbind (fstrs d ''superseded_by'') (\<lambda>superseded_by'.
     rbind (fstrs d ''history'') (\<lambda>history'.
     Inr \<lparr>ts_task_id = fstr d ''task_id'',
       ts_title = fstr d ''title'',
       ts_role = fstr d ''role'',
       ts_depends_on = depends_on',
       ts_requirement_ids = requirement_ids',
       ts_required_context = required_context',
       ts_writable_paths = writable_paths',
       ts_expected_outputs = expected_outputs',
       ts_validation_steps = validation_steps',
       ts_token_estimate = maybe_int (dget_or d ''token_estimate'' PNone),
       ts_usable_input_tokens = maybe_int (dget_or d ''usable_input_tokens'' PNone),
       ts_status = fstr_or ''pending'' d ''status'',
       ts_source_task_id = maybe_text (dget_or d ''source_task_id'' PNone),
       ts_superseded_by = superseded_by',
       ts_history = history'\<rparr>))))))))"

definition wf_task_snapshot :: "task_snapshot \<Rightarrow> bool" where
  "wf_task_snapshot x \<longleftrightarrow> plain_opt (ts_source_task_id x)"

lemma task_snapshot_get [simp]:
  "dget (task_snapshot_to_dict x) ''task_id'' = Some (PStr (ts_task_id x))"
  "dget (task_snapshot_to_dict x) ''title'' = Some (PStr (ts_title x))"
  "dget (task_snapshot_to_dict x) ''role'' = Some (PStr (ts_role x))"
  "dget (task_snapshot_to_dict x) ''depends_on'' = Some (pstrs (ts_depends_on x))"
  "dget (task_snapshot_to_dict x) ''requirement_ids'' = Some (pstrs (ts_requirement_ids x))"
  "dget (task_snapshot_to_dict x) ''required_context'' = Some (pstrs (ts_required_context x))"
  "dget (task_snapshot_to_dict x) ''writable_paths'' = Some (pstrs (ts_writable_paths x))"
  "dget (task_snapshot_to_dict x) ''expected_outputs'' = Some (pstrs (ts_expected_outputs x))"
  "dget (task_snapshot_to_dict x) ''validation_steps'' = Some (pstrs (ts_validation_steps x))"
  "dget (task_snapshot_to_dict x) ''token_estimate'' = Some (opt_int (ts_token_estimate x))"
  "dget (task_snapshot_to_dict x) ''usable_input_tokens'' = Some (opt_int (ts_usable_input_tokens x))"
  "dget (task_snapshot_to_dict x) ''status'' = Some (PStr (ts_status x))"
  "dget (task_snapshot_to_dict x) ''source_task_id'' = Some (opt_str (ts_source_task_id x))"
  "dget (task_snapshot_to_dict x) ''superseded_by'' = Some (pstrs (ts_superseded_by x))"
  "dget (task_snapshot_to_dict x) ''history'' = Some (pstrs (ts_history x))"
  by (simp_all add: task_snapshot_to_dict_def)

lemma task_snapshot_roundtrip [codec_simps]:
  assumes "wf_task_snapshot x"
  shows "task_snapshot_from_dict (task_snapshot_to_dict x) = Inr x"
  using assms by (simp add: task_snapshot_from_dict_def wf_task_snapshot_def codec_simps)

record task_change =
  tc_task_id :: string
  tc_change_type :: string
  tc_prior_status :: string
  tc_new_status :: string
  tc_summary :: string

definition task_change_to_dict :: "task_change \<Rightarrow> pydict" where
  "task_change_to_dict x =
     [(''task_id'', PStr (tc_task_id x)),
      (''change_type'', PStr (tc_change_type x)),
      (''prior_status'', PStr (tc_prior_status x)),
      (''new_status'', PStr (tc_new_status x)),
      (''summary'', PStr (tc_summary x))]"

definition task_change_from_dict :: "pydict \<Rightarrow> task_change res" where
  "task_change_from_dict d =
     Inr \<lparr>tc_task_id = fstr d ''task_id'',
       tc_change_type = fstr d ''change_type'',
       tc_prior_status = fstr d ''prior_status'',
       tc_new_status = fstr d ''new_status'',
       tc_summary = fstr d ''summary''\<rparr>"

lemma task_change_get [simp]:
  "dget (task_change_to_dict x) ''task_id'' = Some (PStr (tc_task_id x))"
  "dget (task_change_to_dict x) ''change_type'' = Some (PStr (tc_change_type x))"
  "dget (task_change_to_dict x) ''prior_status'' = Some (PStr (tc_prior_status x))"
  "dget (task_change_to_dict x) ''new_status'' = Some (PStr (tc_new_status x))"
  "dget (task_change_to_dict x) ''summary'' = Some (PStr (tc_summary x))"
  by (simp_all add: task_change_to_dict_def)

lemma task_change_roundtrip [codec_simps]: "task_change_from_dict (task_change_to_dict x) = Inr x"
  by (simp add: task_change_from_dict_def codec_simps)

record dependency_change =
  dc_task_id :: string
  dc_prior_dependencies :: "string list"
  dc_new_dependencies :: "string list"
  dc_summary :: string

definition dependency_change_to_dict :: "dependency_change \<Rightarrow> pydict" where
  "dependency_change_to_dict x =
     [(''task_id'', PStr (dc_task_id x)),
      (''prior_dependencies'', pstrs (dc_prior_dependencies x)),
      (''new_dependencies'', pstrs (dc_new_dependencies x)),
      (''summary'', PStr (dc_summary x))]"

definition dependency_change_from_dict :: "pydict \<Rightarrow> dependency_change res" where
  "dependency_change_from_dict d =
     rbind (fstrs d ''prior_dependencies'') (\<lambda>prior_dependencies'.
     rbind (fstrs d ''new_dependencies'') (\<lambda>new_dependencies'.
     Inr \<lparr>dc_task_id = fstr d ''task_id'',
       dc_prior_dependencies = prior_dependencies',
       dc_new_dependencies = new_dependencies',
       dc_summary = fstr d ''summary''\<rparr>))"

lemma dependency_change_get [simp]:
  "dget (dependency_change_to_dict x) ''task_id'' = Some (PStr (dc_task_id x))"
  "dget (dependency_change_to_dict x) ''prior_dependencies'' = Some (pstrs (dc_prior_dependencies x))"
  "dget (dependency_change_to_dict x) ''new_dependencies'' = Some (pstrs (dc_new_dependencies x))"
  "dget (dependency_change_to_dict x) ''summary'' = Some (PStr (dc_summary x))"
  by (simp_all add: dependency_change_to_dict_def)

lemma dependency_change_roundtrip [codec_simps]: "dependency_change_from_dict (dependency_change_to_dict x) = Inr x"
  by (simp add: dependency_change_from_dict_def codec_simps)

record requirement_mapping =
  rm_requirement_id :: string
  rm_task_ids :: "string list"
  rm_source :: string

definition requirement_mapping_to_dict :: "requirement_mapping \<Rightarrow> pydict" where
  "requirement_mapping_to_dict x =
     [(''requirement_id'', PStr (rm_requirement_id x)),
      (''task_ids'', pstrs (rm_task_ids x)),
      (''source'', PStr (rm_source x))]"

definition requirement_mapping_from_dict :: "pydict \<Rightarrow> requirement_mapping res" where
  "requirement_mapping_from_dict d =
     rbind (fstrs d ''task_ids'') (\<lambda>task_ids'.
     Inr \<lparr>rm_requirement_id = fstr d ''requirement_id'',
       rm_task_ids = task_ids',
       rm_source = fstr_or ''application'' d ''source''\<rparr>)"

lemma requirement_mapping_get [simp]:
  "dget (requirement_mapping_to_dict x) ''requirement_id'' = Some (PStr (rm_requirement_id x))"
  "dget (requirement_mapping_to_dict x) ''task_ids'' = Some (pstrs (rm_task_ids x))"
  "dget (requirement_mapping_to_dict x) ''source'' = Some (PStr (rm_source x))"
  by (simp_all add: requirement_mapping_to_dict_def)

lemma requirement_mapping_roundtrip [codec_simps]: "requirement_mapping_from_dict (requirement_mapping_to_dict x) = Inr x"
  by (simp add: requirement_mapping_from_dict_def codec_simps)

record rollback_metadata =
  rb_prior_revision_id :: string
  rb_prior_revision_checksum :: string
  rb_rollback_reason :: string
  rb_created_at :: string
  rb_application_id :: string

definition rollback_metadata_to_dict :: "rollback_metadata \<Rightarrow> pydict" where
  "rollback_metadata_to_dict x =
     [(''prior_revision_id'', PStr (rb_prior_revision_id x)),
      (''prior_revision_checksum'', PStr (rb_prior_revision_checksum x)),
      (''rollback_reason'', PStr (rb_rollback_reason x)),
      (''created_at'', PStr (rb_created_at x)),
      (''application_id'', PStr (rb_application_id x))]"

definition rollback_metadata_from_dict :: "pydict \<Rightarrow> rollback_metadata res" where
  "rollback_metadata_from_dict d =
     Inr \<lparr>rb_prior_revision_id = fstr d ''prior_revision_id'',
       rb_prior_revision_checksum = fstr d ''prior_revision_checksum'',
       rb_rollback_reason = fstr d ''rollback_reason'',
       rb_created_at = fstr d ''created_at'',
       rb_application_id = fstr d ''application_id''\<rparr>"

lemma rollback_metadata_get [simp]:
  "dget (rollback_metadata_to_dict x) ''prior_revision_id'' = Some (PStr (rb_prior_revision_id x))"
  "dget (rollback_metadata_to_dict x) ''prior_revision_checksum'' = Some (PStr (rb_prior_revision_checksum x))"
  "dget (rollback_metadata_to_dict x) ''rollback_reason'' = Some (PStr (rb_rollback_reason x))"
  "dget (rollback_metadata_to_dict x) ''created_at'' = Some (PStr (rb_created_at x))"
  "dget (rollback_metadata_to_dict x) ''application_id'' = Some (PStr (rb_application_id x))"
  by (simp_all add: rollback_metadata_to_dict_def)

lemma rollback_metadata_roundtrip [codec_simps]: "rollback_metadata_from_dict (rollback_metadata_to_dict x) = Inr x"
  by (simp add: rollback_metadata_from_dict_def codec_simps)

record execution_lease =
  el_schema_version :: int
  el_lease_id :: string
  el_task_id :: string
  el_execution_attempt_id :: string
  el_runtime_revision_id :: string
  el_runtime_revision_checksum :: string
  el_local_model :: string
  el_writable_paths :: "string list"
  el_start_timestamp :: string
  el_lease_state :: string
  el_expiry_timestamp :: "string option"
  el_heartbeat_timestamp :: "string option"
  el_completion_checksum :: "string option"
  el_failure_reason :: "string option"

definition execution_lease_to_dict :: "execution_lease \<Rightarrow> pydict" where
  "execution_lease_to_dict x =
     [(''schema_version'', PInt (el_schema_version x)),
      (''lease_id'', PStr (el_lease_id x)),
      (''task_id'', PStr (el_task_id x)),
      (''execution_attempt_id'', PStr (el_execution_attempt_id x)),
      (''runtime_revision_id'', PStr (el_runtime_revision_id x)),
      (''runtime_revision_checksum'', PStr (el_runtime_revision_checksum x)),
      (''local_model'', PStr (el_local_model x)),
      (''writable_paths'', pstrs (el_writable_paths x)),
      (''start_timestamp'', PStr (el_start_timestamp x)),
      (''lease_state'', PStr (el_lease_state x)),
      (''expiry_timestamp'', opt_str (el_expiry_timestamp x)),
      (''heartbeat_timestamp'', opt_str (el_heartbeat_timestamp x)),
      (''completion_checksum'', opt_str (el_completion_checksum x)),
      (''failure_reason'', opt_str (el_failure_reason x))]"

definition execution_lease_from_dict :: "pydict \<Rightarrow> execution_lease res" where
  "execution_lease_from_dict d =
     rbind (fint LEASE_SCHEMA_VERSION d ''schema_version'') (\<lambda>schema_version'.
     rbind (fstrs d ''writable_paths'') (\<lambda>writable_paths'.
     Inr \<lparr>el_schema_version = schema_version',
       el_lease_id = fstr d ''lease_id'',
       el_task_id = fstr d ''task_id'',
       el_execution_attempt_id = fstr d ''execution_attempt_id'',
       el_runtime_revision_id = fstr d ''runtime_revision_id'',
       el_runtime_revision_checksum = fstr d ''runtime_revision_checksum'',
       el_local_model = fstr d ''local_model'',
       el_writable_paths = writable_paths',
       el_start_timestamp = fstr d ''start_timestamp'',
       el_lease_state = fstr_or ''active'' d ''lease_state'',
       el_expiry_timestamp = maybe_text (dget_or d ''expiry_timestamp'' PNone),
       el_heartbeat_timestamp = maybe_text (dget_or d ''heartbeat_timestamp'' PNone),
       el_completion_checksum = maybe_text (dget_or d ''completion_checksum'' PNone),
       el_failure_reason = maybe_text (dget_or d ''failure_reason'' PNone)\<rparr>))"

definition wf_execution_lease :: "execution_lease \<Rightarrow> bool" where
  "wf_execution_lease x \<longleftrightarrow> plain_opt (el_expiry_timestamp x)
     \<and> plain_opt (el_heartbeat_timestamp x)
     \<and> plain_opt (el_completion_checksum x)
     \<and> plain_opt (el_failure_reason x)"

lemma execution_lease_get [simp]:
  "dget (execution_lease_to_dict x) ''schema_version'' = Some (PInt (el_schema_version x))"
  "dget (execution_lease_to_dict x) ''lease_id'' = Some (PStr (el_lease_id x))"
  "dget (execution_lease_to_dict x) ''task_id'' = Some (PStr (el_task_id x))"
  "dget (execution_lease_to_dict x) ''execution_attempt_id'' = Some (PStr (el_execution_attempt_id x))"
  "dget (execution_lease_to_dict x) ''runtime_revision_id'' = Some (PStr (el_runtime_revision_id x))"
  "dget (execution_lease_to_dict x) ''runtime_revision_checksum'' = Some (PStr (el_runtime_revision_checksum x))"
  "dget (execution_lease_to_dict x) ''local_model'' = Some (PStr (el_local_model x))"
  "dget (execution_lease_to_dict x) ''writable_paths'' = Some (pstrs (el_writable_paths x))"
  "dget (execution_lease_to_dict x) ''start_timestamp'' = Some (PStr (el_start_timestamp x))"
  "dget (execution_lease_to_dict x) ''lease_state'' = Some (PStr (el_lease_state x))"
  "dget (execution_lease_to_dict x) ''expiry_timestamp'' = Some (opt_str (el_expiry_timestamp x))"
  "dget (execution_lease_to_dict x) ''heartbeat_timestamp'' = Some (opt_str (el_heartbeat_timestamp x))"
  "dget (execution_lease_to_dict x) ''completion_checksum'' = Some (opt_str (el_completion_checksum x))"
  "dget (execution_lease_to_dict x) ''failure_reason'' = Some (opt_str (el_failure_reason x))"
  by (simp_all add: execution_lease_to_dict_def)

lemma execution_lease_roundtrip [codec_simps]:
  assumes "wf_execution_lease x"
  shows "execution_lease_from_dict (execution_lease_to_dict x) = Inr x"
  using assms by (simp add: execution_lease_from_dict_def wf_execution_lease_def codec_simps)

record task_publication_record =
  tp_schema_version :: int
  tp_task_id :: string
  tp_lease_id :: string
  tp_execution_attempt_id :: string
  tp_revision_id :: string
  tp_revision_checksum :: string
  tp_result_artifact_path :: string
  tp_result_checksum :: string
  tp_validation_status :: string
  tp_publication_timestamp :: string
  tp_failure_reason :: "string option"

definition task_publication_record_to_dict :: "task_publication_record \<Rightarrow> pydict" where
  "task_publication_record_to_dict x =
     [(''schema_version'', PInt (tp_schema_version x)),
      (''task_id'', PStr (tp_task_id x)),
      (''lease_id'', PStr (tp_lease_id x)),
      (''execution_attempt_id'', PStr (tp_execution_attempt_id x)),
      (''revision_id'', PStr (tp_revision_id x)),
      (''revision_checksum'', PStr (tp_revision_checksum x)),
      (''result_artifact_path'', PStr (tp_result_artifact_path x)),
      (''result_checksum'', PStr (tp_result_checksum x)),
      (''validation_status'', PStr (tp_validation_status x)),
      (''publication_timestamp'', PStr (tp_publication_timestamp x)),
      (''failure_reason'', opt_str (tp_failure_reason x))]"

definition task_publication_record_from_dict :: "pydict \<Rightarrow> task_publication_record res" where
  "task_publication_record_from_dict d =
     rbind (fint TRANSACTION_SCHEMA_VERSION d ''schema_version'') (\<lambda>schema_version'.
     Inr \<lparr>tp_schema_version = schema_version',
       tp_task_id = fstr d ''task_id'',
       tp_lease_id = fstr d ''lease_id'',
       tp_execution_attempt_id = fstr d ''execution_attempt_id'',
       tp_revision_id = fstr d ''revision_id'',
       tp_revision_checksum = fstr d ''revision_checksum'',
       tp_result_artifact_path = fstr d ''result_artifact_path'',
       tp_result_checksum = fstr d ''result_checksum'',
       tp_validation_status = fstr d ''validation_status'',
       tp_publication_timestamp = fstr d ''publication_timestamp'',
       tp_failure_reason = maybe_text (dget_or d ''failure_reason'' PNone)\<rparr>)"

definition wf_task_publication_record :: "task_publication_record \<Rightarrow> bool" where
  "wf_task_publication_record x \<longleftrightarrow> plain_opt (tp_failure_reason x)"

lemma task_publication_record_get [simp]:
  "dget (task_publication_record_to_dict x) ''schema_version'' = Some (PInt (tp_schema_version x))"
  "dget (task_publication_record_to_dict x) ''task_id'' = Some (PStr (tp_task_id x))"
  "dget (task_publication_record_to_dict x) ''lease_id'' = Some (PStr (tp_lease_id x))"
  "dget (task_publication_record_to_dict x) ''execution_attempt_id'' = Some (PStr (tp_execution_attempt_id x))"
  "dget (task_publication_record_to_dict x) ''revision_id'' = Some (PStr (tp_revision_id x))"
  "dget (task_publication_record_to_dict x) ''revision_checksum'' = Some (PStr (tp_revision_checksum x))"
  "dget (task_publication_record_to_dict x) ''result_artifact_path'' = Some (PStr (tp_result_artifact_path x))"
  "dget (task_publication_record_to_dict x) ''result_checksum'' = Some (PStr (tp_result_checksum x))"
  "dget (task_publication_record_to_dict x) ''validation_status'' = Some (PStr (tp_validation_status x))"
  "dget (task_publication_record_to_dict x) ''publication_timestamp'' = Some (PStr (tp_publication_timestamp x))"
  "dget (task_publication_record_to_dict x) ''failure_reason'' = Some (opt_str (tp_failure_reason x))"
  by (simp_all add: task_publication_record_to_dict_def)

lemma task_publication_record_roundtrip [codec_simps]:
  assumes "wf_task_publication_record x"
  shows "task_publication_record_from_dict (task_publication_record_to_dict x) = Inr x"
  using assms by (simp add: task_publication_record_from_dict_def wf_task_publication_record_def codec_simps)

record transaction_record =
  tx_schema_version :: int
  tx_transaction_id :: string
  tx_application_id :: string
  tx_source_revision_id :: string
  tx_source_revision_checksum :: string
  tx_proposed_revision_id :: string
  tx_proposed_revision_checksum :: string
  tx_expected_active_pointer :: string
  tx_phase :: string
  tx_artifact_paths :: "string list"
  tx_created_at :: string
  tx_updated_at :: string
  tx_recovery_action :: string
  tx_details :: pydict

definition transaction_record_to_dict :: "transaction_record \<Rightarrow> pydict" where
  "transaction_record_to_dict x =
     [(''schema_version'', PInt (tx_schema_version x)),
      (''transaction_id'', PStr (tx_transaction_id x)),
      (''application_id'', PStr (tx_application_id x)),
      (''source_revision_id'', PStr (tx_source_revision_id x)),
      (''source_revision_checksum'', PStr (tx_source_revision_checksum x)),
      (''proposed_revision_id'', PStr (tx_proposed_revision_id x)),
      (''proposed_revision_checksum'', PStr (tx_proposed_revision_checksum x)),
      (''expected_active_pointer'', PStr (tx_expected_active_pointer x)),
      (''phase'', PStr (tx_phase x)),
      (''artifact_paths'', pstrs (tx_artifact_paths x)),
      (''created_at'', PStr (tx_created_at x)),
      (''updated_at'', PStr (tx_updated_at x)),
      (''recovery_action'', PStr (tx_recovery_action x)),
      (''details'', PDict (tx_details x))]"

definition transaction_record_from_dict :: "pydict \<Rightarrow> transaction_record res" where
  "transaction_record_from_dict d =
     rbind (fint TRANSACTION_SCHEMA_VERSION d ''schema_version'') (\<lambda>schema_version'.
     rbind (fstrs d ''artifact_paths'') (\<lambda>artifact_paths'.
     rbind (fdict d ''details'') (\<lambda>details'.
     Inr \<lparr>tx_schema_version = schema_version',
       tx_transaction_id = fstr d ''transaction_id'',
       tx_application_id = fstr d ''application_id'',
       tx_source_revision_id = fstr d ''source_revision_id'',
       tx_source_revision_checksum = fstr d ''source_revision_checksum'',
       tx_proposed_revision_id = fstr d ''proposed_revision_id'',
       tx_proposed_revision_checksum = fstr d ''proposed_revision_checksum'',
       tx_expected_active_pointer = fstr d ''expected_active_pointer'',
       tx_phase = fstr d ''phase'',
       tx_artifact_paths = artifact_paths',
       tx_created_at = fstr d ''created_at'',
       tx_updated_at = fstr d ''updated_at'',
       tx_recovery_action = fstr d ''recovery_action'',
       tx_details = details'\<rparr>)))"

lemma transaction_record_get [simp]:
  "dget (transaction_record_to_dict x) ''schema_version'' = Some (PInt (tx_schema_version x))"
  "dget (transaction_record_to_dict x) ''transaction_id'' = Some (PStr (tx_transaction_id x))"
  "dget (transaction_record_to_dict x) ''application_id'' = Some (PStr (tx_application_id x))"
  "dget (transaction_record_to_dict x) ''source_revision_id'' = Some (PStr (tx_source_revision_id x))"
  "dget (transaction_record_to_dict x) ''source_revision_checksum'' = Some (PStr (tx_source_revision_checksum x))"
  "dget (transaction_record_to_dict x) ''proposed_revision_id'' = Some (PStr (tx_proposed_revision_id x))"
  "dget (transaction_record_to_dict x) ''proposed_revision_checksum'' = Some (PStr (tx_proposed_revision_checksum x))"
  "dget (transaction_record_to_dict x) ''expected_active_pointer'' = Some (PStr (tx_expected_active_pointer x))"
  "dget (transaction_record_to_dict x) ''phase'' = Some (PStr (tx_phase x))"
  "dget (transaction_record_to_dict x) ''artifact_paths'' = Some (pstrs (tx_artifact_paths x))"
  "dget (transaction_record_to_dict x) ''created_at'' = Some (PStr (tx_created_at x))"
  "dget (transaction_record_to_dict x) ''updated_at'' = Some (PStr (tx_updated_at x))"
  "dget (transaction_record_to_dict x) ''recovery_action'' = Some (PStr (tx_recovery_action x))"
  "dget (transaction_record_to_dict x) ''details'' = Some (PDict (tx_details x))"
  by (simp_all add: transaction_record_to_dict_def)

lemma transaction_record_roundtrip [codec_simps]: "transaction_record_from_dict (transaction_record_to_dict x) = Inr x"
  by (simp add: transaction_record_from_dict_def codec_simps)

record application_audit_event =
  ae_event_id :: string
  ae_event_type :: string
  ae_application_id :: string
  ae_request_id :: string
  ae_prior_state :: string
  ae_new_state :: string
  ae_timestamp :: string
  ae_details :: pydict

definition application_audit_event_to_dict :: "application_audit_event \<Rightarrow> pydict" where
  "application_audit_event_to_dict x =
     [(''event_id'', PStr (ae_event_id x)),
      (''event_type'', PStr (ae_event_type x)),
      (''application_id'', PStr (ae_application_id x)),
      (''request_id'', PStr (ae_request_id x)),
      (''prior_state'', PStr (ae_prior_state x)),
      (''new_state'', PStr (ae_new_state x)),
      (''timestamp'', PStr (ae_timestamp x)),
      (''details'', PDict (ae_details x))]"

definition application_audit_event_from_dict :: "pydict \<Rightarrow> application_audit_event res" where
  "application_audit_event_from_dict d =
     rbind (fdict d ''details'') (\<lambda>details'.
     Inr \<lparr>ae_event_id = fstr d ''event_id'',
       ae_event_type = fstr d ''event_type'',
       ae_application_id = fstr d ''application_id'',
       ae_request_id = fstr d ''request_id'',
       ae_prior_state = fstr d ''prior_state'',
       ae_new_state = fstr d ''new_state'',
       ae_timestamp = fstr d ''timestamp'',
       ae_details = details'\<rparr>)"

lemma application_audit_event_get [simp]:
  "dget (application_audit_event_to_dict x) ''event_id'' = Some (PStr (ae_event_id x))"
  "dget (application_audit_event_to_dict x) ''event_type'' = Some (PStr (ae_event_type x))"
  "dget (application_audit_event_to_dict x) ''application_id'' = Some (PStr (ae_application_id x))"
  "dget (application_audit_event_to_dict x) ''request_id'' = Some (PStr (ae_request_id x))"
  "dget (application_audit_event_to_dict x) ''prior_state'' = Some (PStr (ae_prior_state x))"
  "dget (application_audit_event_to_dict x) ''new_state'' = Some (PStr (ae_new_state x))"
  "dget (application_audit_event_to_dict x) ''timestamp'' = Some (PStr (ae_timestamp x))"
  "dget (application_audit_event_to_dict x) ''details'' = Some (PDict (ae_details x))"
  by (simp_all add: application_audit_event_to_dict_def)

lemma application_audit_event_roundtrip [codec_simps]: "application_audit_event_from_dict (application_audit_event_to_dict x) = Inr x"
  by (simp add: application_audit_event_from_dict_def codec_simps)

record application_source =
  so_request_type :: string
  so_response_classification :: string
  so_source_task_id :: string
  so_source_plan_revision :: string

definition application_source_to_dict :: "application_source \<Rightarrow> pydict" where
  "application_source_to_dict x =
     [(''request_type'', PStr (so_request_type x)),
      (''response_classification'', PStr (so_response_classification x)),
      (''source_task_id'', PStr (so_source_task_id x)),
      (''source_plan_revision'', PStr (so_source_plan_revision x))]"

definition application_source_from_dict :: "pydict \<Rightarrow> application_source res" where
  "application_source_from_dict d =
     Inr \<lparr>so_request_type = fstr d ''request_type'',
       so_response_classification = fstr d ''response_classification'',
       so_source_task_id = fstr d ''source_task_id'',
       so_source_plan_revision = fstr d ''source_plan_revision''\<rparr>"

lemma application_source_get [simp]:
  "dget (application_source_to_dict x) ''request_type'' = Some (PStr (so_request_type x))"
  "dget (application_source_to_dict x) ''response_classification'' = Some (PStr (so_response_classification x))"
  "dget (application_source_to_dict x) ''source_task_id'' = Some (PStr (so_source_task_id x))"
  "dget (application_source_to_dict x) ''source_plan_revision'' = Some (PStr (so_source_plan_revision x))"
  by (simp_all add: application_source_to_dict_def)

lemma application_source_roundtrip [codec_simps]: "application_source_from_dict (application_source_to_dict x) = Inr x"
  by (simp add: application_source_from_dict_def codec_simps)

record application_operation =
  ao_operation_type :: string
  ao_affected_task_ids :: "string list"
  ao_proposed_task_ids :: "string list"
  ao_preserved_requirement_ids :: "string list"
  ao_dependency_changes :: "dependency_change list"
  ao_writable_paths :: "string list"
  ao_expected_outputs :: "string list"
  ao_validation_steps :: "string list"

definition application_operation_to_dict :: "application_operation \<Rightarrow> pydict" where
  "application_operation_to_dict x =
     [(''operation_type'', PStr (ao_operation_type x)),
      (''affected_task_ids'', pstrs (ao_affected_task_ids x)),
      (''proposed_task_ids'', pstrs (ao_proposed_task_ids x)),
      (''preserved_requirement_ids'', pstrs (ao_preserved_requirement_ids x)),
      (''dependency_changes'', PList (map (\<lambda>y. PDict (dependency_change_to_dict y)) (ao_dependency_changes x))),
      (''writable_paths'', pstrs (ao_writable_paths x)),
      (''expected_outputs'', pstrs (ao_expected_outputs x)),
      (''validation_steps'', pstrs (ao_validation_steps x))]"

definition application_operation_from_dict :: "pydict \<Rightarrow> application_operation res" where
  "application_operation_from_dict d =
     rbind (fstrs d ''affected_task_ids'') (\<lambda>affected_task_ids'.
     rbind (fstrs d ''proposed_task_ids'') (\<lambda>proposed_task_ids'.
     rbind (fstrs d ''preserved_requirement_ids'') (\<lambda>preserved_requirement_ids'.
     rbind (fdicts dependency_change_from_dict d ''dependency_changes'') (\<lambda>dependency_changes'.
     rbind (fstrs d ''writable_paths'') (\<lambda>writable_paths'.
     rbind (fstrs d ''expected_outputs'') (\<lambda>expected_outputs'.
     rbind (fstrs d ''validation_steps'') (\<lambda>validation_steps'.
     Inr \<lparr>ao_operation_type = fstr d ''operation_type'',
       ao_affected_task_ids = affected_task_ids',
       ao_proposed_task_ids = proposed_task_ids',
       ao_preserved_requirement_ids = preserved_requirement_ids',
       ao_dependency_changes = dependency_changes',
       ao_writable_paths = writable_paths',
       ao_expected_outputs = expected_outputs',
       ao_validation_steps = validation_steps'\<rparr>)))))))"

lemma application_operation_get [simp]:
  "dget (application_operation_to_dict x) ''operation_type'' = Some (PStr (ao_operation_type x))"
  "dget (application_operation_to_dict x) ''affected_task_ids'' = Some (pstrs (ao_affected_task_ids x))"
  "dget (application_operation_to_dict x) ''proposed_task_ids'' = Some (pstrs (ao_proposed_task_ids x))"
  "dget (application_operation_to_dict x) ''preserved_requirement_ids'' = Some (pstrs (ao_preserved_requirement_ids x))"
  "dget (application_operation_to_dict x) ''dependency_changes'' = Some (PList (map (\<lambda>y. PDict (dependency_change_to_dict y)) (ao_dependency_changes x)))"
  "dget (application_operation_to_dict x) ''writable_paths'' = Some (pstrs (ao_writable_paths x))"
  "dget (application_operation_to_dict x) ''expected_outputs'' = Some (pstrs (ao_expected_outputs x))"
  "dget (application_operation_to_dict x) ''validation_steps'' = Some (pstrs (ao_validation_steps x))"
  by (simp_all add: application_operation_to_dict_def)

lemma application_operation_roundtrip [codec_simps]: "application_operation_from_dict (application_operation_to_dict x) = Inr x"
  by (simp add: application_operation_from_dict_def codec_simps)

record application_safety =
  sf_canonical_blueprint_modified :: bool
  sf_writable_paths_expanded :: bool
  sf_requirements_removed :: bool
  sf_external_services_added :: bool
  sf_network_access_added :: bool
  sf_deployment_added :: bool

definition application_safety_to_dict :: "application_safety \<Rightarrow> pydict" where
  "application_safety_to_dict x =
     [(''canonical_blueprint_modified'', PBool (sf_canonical_blueprint_modified x)),
      (''writable_paths_expanded'', PBool (sf_writable_paths_expanded x)),
      (''requirements_removed'', PBool (sf_requirements_removed x)),
      (''external_services_added'', PBool (sf_external_services_added x)),
      (''network_access_added'', PBool (sf_network_access_added x)),
      (''deployment_added'', PBool (sf_deployment_added x))]"

definition application_safety_from_dict :: "pydict \<Rightarrow> application_safety res" where
  "application_safety_from_dict d =
     rbind (check_keywords d) (\<lambda>_.
     rbind (kw_bool d ''canonical_blueprint_modified'') (\<lambda>canonical_blueprint_modified'.
     rbind (kw_bool d ''writable_paths_expanded'') (\<lambda>writable_paths_expanded'.
     rbind (kw_bool d ''requirements_removed'') (\<lambda>requirements_removed'.
     rbind (kw_bool d ''external_services_added'') (\<lambda>external_services_added'.
     rbind (kw_bool d ''network_access_added'') (\<lambda>network_access_added'.
     rbind (kw_bool d ''deployment_added'') (\<lambda>deployment_added'.
     Inr \<lparr>sf_canonical_blueprint_modified = canonical_blueprint_modified',
       sf_writable_paths_expanded = writable_paths_expanded',
       sf_requirements_removed = requirements_removed',
       sf_external_services_added = external_services_added',
       sf_network_access_added = network_access_added',
       sf_deployment_added = deployment_added'\<rparr>)))))))"

lemma application_safety_get [simp]:
  "dget (application_safety_to_dict x) ''canonical_blueprint_modified'' = Some (PBool (sf_canonical_blueprint_modified x))"
  "dget (application_safety_to_dict x) ''writable_paths_expanded'' = Some (PBool (sf_writable_paths_expanded x))"
  "dget (application_safety_to_dict x) ''requirements_removed'' = Some (PBool (sf_requirements_removed x))"
  "dget (application_safety_to_dict x) ''external_services_added'' = Some (PBool (sf_external_services_added x))"
  "dget (application_safety_to_dict x) ''network_access_added'' = Some (PBool (sf_network_access_added x))"
  "dget (application_safety_to_dict x) ''deployment_added'' = Some (PBool (sf_deployment_added x))"
  by (simp_all add: application_safety_to_dict_def)

lemma application_safety_keywords [simp]: "check_keywords (application_safety_to_dict x) = Inr ()"
  by (simp add: check_keywords_def application_safety_to_dict_def SAFETY_FIELDS_def)

lemma application_safety_roundtrip [codec_simps]: "application_safety_from_dict (application_safety_to_dict x) = Inr x"
  by (simp add: application_safety_from_dict_def codec_simps)

record resume_eligibility =
  re_eligible :: bool
  re_resume_from_task_ids :: "string list"
  re_blocked_dependents :: "string list"
  re_previously_completed_tasks :: "string list"
  re_reasons :: "string list"
  re_manual_holds :: "string list"

definition resume_eligibility_to_dict :: "resume_eligibility \<Rightarrow> pydict" where
  "resume_eligibility_to_dict x =
     [(''eligible'', PBool (re_eligible x)),
      (''resume_from_task_ids'', pstrs (re_resume_from_task_ids x)),
      (''blocked_dependents'', pstrs (re_blocked_dependents x)),
      (''previously_completed_tasks'', pstrs (re_previously_completed_tasks x)),
      (''reasons'', pstrs (re_reasons x)),
      (''manual_holds'', pstrs (re_manual_holds x))]"

definition resume_eligibility_from_dict :: "pydict \<Rightarrow> resume_eligibility res" where
  "resume_eligibility_from_dict d =
     rbind (fstrs d ''resume_from_task_ids'') (\<lambda>resume_from_task_ids'.
     rbind (fstrs d ''blocked_dependents'') (\<lambda>blocked_dependents'.
     rbind (fstrs d ''previously_completed_tasks'') (\<lambda>previously_completed_tasks'.
     rbind (fstrs d ''reasons'') (\<lambda>reasons'.
     rbind (fstrs d ''manual_holds'') (\<lambda>manual_holds'.
     Inr \<lparr>re_eligible = fbool False d ''eligible'',
       re_resume_from_task_ids = resume_from_task_ids',
       re_blocked_dependents = blocked_dependents',
       re_previously_completed_tasks = previously_completed_tasks',
       re_reasons = reasons',
       re_manual_holds = manual_holds'\<rparr>)))))"

lemma resume_eligibility_get [simp]:
  "dget (resume_eligibility_to_dict x) ''eligible'' = Some (PBool (re_eligible x))"
  "dget (resume_eligibility_to_dict x) ''resume_from_task_ids'' = Some (pstrs (re_resume_from_task_ids x))"
  "dget (resume_eligibility_to_dict x) ''blocked_dependents'' = Some (pstrs (re_blocked_dependents x))"
  "dget (resume_eligibility_to_dict x) ''previously_completed_tasks'' = Some (pstrs (re_previously_completed_tasks x))"
  "dget (resume_eligibility_to_dict x) ''reasons'' = Some (pstrs (re_reasons x))"
  "dget (resume_eligibility_to_dict x) ''manual_holds'' = Some (pstrs (re_manual_holds x))"
  by (simp_all add: resume_eligibility_to_dict_def)

lemma resume_eligibility_roundtrip [codec_simps]: "resume_eligibility_from_dict (resume_eligibility_to_dict x) = Inr x"
  by (simp add: resume_eligibility_from_dict_def codec_simps)

record application_record =
  an_schema_version :: int
  an_application_id :: string
  an_request_id :: string
  an_request_checksum :: string
  an_response_checksum :: string
  an_approval_checksum :: "string option"
  an_status :: string
  an_created_at :: string
  an_source :: application_source
  an_application :: application_operation
  an_safety :: application_safety
  an_resume :: resume_eligibility
  an_plan_checksum :: string
  an_revision_id :: "string option"
  an_revision_checksum :: "string option"
  an_active_revision_id :: "string option"
  an_rollback_available :: bool
  an_notes :: "string list"
  an_audit_event_ids :: "string list"

definition application_record_to_dict :: "application_record \<Rightarrow> pydict" where
  "application_record_to_dict x =
     [(''schema_version'', PInt (an_schema_version x)),
      (''application_id'', PStr (an_application_id x)),
      (''request_id'', PStr (an_request_id x)),
      (''request_checksum'', PStr (an_request_checksum x)),
      (''response_checksum'', PStr (an_response_checksum x)),
      (''approval_checksum'', opt_str (an_approval_checksum x)),
      (''status'', PStr (an_status x)),
      (''created_at'', PStr (an_created_at x)),
      (''source'', PDict (application_source_to_dict (an_source x))),
      (''application'', PDict (application_operation_to_dict (an_application x))),
      (''safety'', PDict (application_safety_to_dict (an_safety x))),
      (''resume'', PDict (resume_eligibility_to_dict (an_resume x))),
      (''plan_checksum'', PStr (an_plan_checksum x)),
      (''revision_id'', opt_str (an_revision_id x)),
      (''revision_checksum'', opt_str (an_revision_checksum x)),
      (''active_revision_id'', opt_str (an_active_revision_id x)),
      (''rollback_available'', PBool (an_rollback_available x)),
      (''notes'', pstrs (an_notes x)),
      (''audit_event_ids'', pstrs (an_audit_event_ids x))]"

definition application_record_from_dict :: "pydict \<Rightarrow> application_record res" where
  "application_record_from_dict d =
     rbind (fint APPLICATION_SCHEMA_VERSION d ''schema_version'') (\<lambda>schema_version'.
     rbind (rbind (fsub d ''source'') application_source_from_dict) (\<lambda>source'.
     rbind (application_operation_from_dict (dict_or_empty (dget_or d ''application'' PNone))) (\<lambda>application'.
     rbind (rbind (fdict d ''safety'') application_safety_from_dict) (\<lambda>safety'.
     rbind (rbind (fsub d ''resume'') resume_eligibility_from_dict) (\<lambda>resume'.
     rbind (fstrs d ''notes'') (\<lambda>notes'.
     rbind (fstrs d ''audit_event_ids'') (\<lambda>audit_event_ids'.
     Inr \<lparr>an_schema_version = schema_version',
       an_application_id = fstr d ''application_id'',
       an_request_id = fstr d ''request_id'',
       an_request_checksum = fstr d ''request_checksum'',
       an_response_checksum = fstr d ''response_checksum'',
       an_approval_checksum = maybe_text (dget_or d ''approval_checksum'' PNone),
       an_status = fstr_or ''application_planned'' d ''status'',
       an_created_at = fstr d ''created_at'',
       an_source = source',
       an_application = application',
       an_safety = safety',
       an_resume = resume',
       an_plan_checksum = fstr d ''plan_checksum'',
       an_revision_id = maybe_text (dget_or d ''revision_id'' PNone),
       an_revision_checksum = maybe_text (dget_or d ''revision_checksum'' PNone),
       an_active_revision_id = maybe_text (dget_or d ''active_revision_id'' PNone),
       an_rollback_available = fbool False d ''rollback_available'',
       an_notes = notes',
       an_audit_event_ids = audit_event_ids'\<rparr>)))))))"

definition wf_application_record :: "application_record \<Rightarrow> bool" where
  "wf_application_record x \<longleftrightarrow> plain_opt (an_approval_checksum x)
     \<and> plain_opt (an_revision_id x)
     \<and> plain_opt (an_revision_checksum x)
     \<and> plain_opt (an_active_revision_id x)"

lemma application_record_get [simp]:
  "dget (application_record_to_dict x) ''schema_version'' = Some (PInt (an_schema_version x))"
  "dget (application_record_to_dict x) ''application_id'' = Some (PStr (an_application_id x))"
  "dget (application_record_to_dict x) ''request_id'' = Some (PStr (an_request_id x))"
  "dget (application_record_to_dict x) ''request_checksum'' = Some (PStr (an_request_checksum x))"
  "dget (application_record_to_dict x) ''response_checksum'' = Some (PStr (an_response_checksum x))"
  "dget (application_record_to_dict x) ''approval_checksum'' = Some (opt_str (an_approval_checksum x))"
  "dget (application_record_to_dict x) ''status'' = Some (PStr (an_status x))"
  "dget (application_record_to_dict x) ''created_at'' = Some (PStr (an_created_at x))"
  "dget (application_record_to_dict x) ''source'' = Some (PDict (application_source_to_dict (an_source x)))"
  "dget (application_record_to_dict x) ''application'' = Some (PDict (application_operation_to_dict (an_application x)))"
  "dget (application_record_to_dict x) ''safety'' = Some (PDict (application_safety_to_dict (an_safety x)))"
  "dget (application_record_to_dict x) ''resume'' = Some (PDict (resume_eligibility_to_dict (an_resume x)))"
  "dget (application_record_to_dict x) ''plan_checksum'' = Some (PStr (an_plan_checksum x))"
  "dget (application_record_to_dict x) ''revision_id'' = Some (opt_str (an_revision_id x))"
  "dget (application_record_to_dict x) ''revision_checksum'' = Some (opt_str (an_revision_checksum x))"
  "dget (application_record_to_dict x) ''active_revision_id'' = Some (opt_str (an_active_revision_id x))"
  "dget (application_record_to_dict x) ''rollback_available'' = Some (PBool (an_rollback_available x))"
  "dget (application_record_to_dict x) ''notes'' = Some (pstrs (an_notes x))"
  "dget (application_record_to_dict x) ''audit_event_ids'' = Some (pstrs (an_audit_event_ids x))"
  by (simp_all add: application_record_to_dict_def)

lemma application_record_roundtrip [codec_simps]:
  assumes "wf_application_record x"
  shows "application_record_from_dict (application_record_to_dict x) = Inr x"
  using assms by (simp add: application_record_from_dict_def wf_application_record_def codec_simps)

record application_plan =
  ap_schema_version :: int
  ap_application_id :: string
  ap_request_id :: string
  ap_request_checksum :: string
  ap_response_checksum :: string
  ap_approval_checksum :: "string option"
  ap_source_revision_id :: string
  ap_source_revision_checksum :: string
  ap_proposed_revision_id :: string
  ap_operation_type :: string
  ap_source_task_snapshot :: task_snapshot
  ap_proposed_tasks :: "task_snapshot list"
  ap_requirement_mapping :: "requirement_mapping list"
  ap_dependency_changes :: "dependency_change list"
  ap_writable_path_diff :: "string list"
  ap_context_budget_validation :: pydict
  ap_expected_outputs :: "string list"
  ap_validation_steps :: "string list"
  ap_affected_completed_tasks :: "string list"
  ap_affected_pending_tasks :: "string list"
  ap_resume_candidates :: "string list"
  ap_rollback_target :: string
  ap_preconditions :: "string list"
  ap_predicted_side_effects :: "string list"
  ap_plan_checksum :: string
  ap_created_at :: string
  ap_application_record_path :: "string option"
  ap_dry_run :: bool

definition application_plan_to_dict :: "application_plan \<Rightarrow> pydict" where
  "application_plan_to_dict x =
     [(''schema_version'', PInt (ap_schema_version x)),
      (''application_id'', PStr (ap_application_id x)),
      (''request_id'', PStr (ap_request_id x)),
      (''request_checksum'', PStr (ap_request_checksum x)),
      (''response_checksum'', PStr (ap_response_checksum x)),
      (''approval_checksum'', opt_str (ap_approval_checksum x)),
      (''source_revision_id'', PStr (ap_source_revision_id x)),
      (''source_revision_checksum'', PStr (ap_source_revision_checksum x)),
      (''proposed_revision_id'', PStr (ap_proposed_revision_id x)),
      (''operation_type'', PStr (ap_operation_type x)),
      (''source_task_snapshot'', PDict (task_snapshot_to_dict (ap_source_task_snapshot x))),
      (''proposed_tasks'', PList (map (\<lambda>y. PDict (task_snapshot_to_dict y)) (ap_proposed_tasks x))),
      (''requirement_mapping'', PList (map (\<lambda>y. PDict (requirement_mapping_to_dict y)) (ap_requirement_mapping x))),
      (''dependency_changes'', PList (map (\<lambda>y. PDict (dependency_change_to_dict y)) (ap_dependency_changes x))),
      (''writable_path_diff'', pstrs (ap_writable_path_diff x)),
      (''context_budget_validation'', PDict (ap_context_budget_validation x)),
      (''expected_outputs'', pstrs (ap_expected_outputs x)),
      (''validation_steps'', pstrs (ap_validation_steps x)),
      (''affected_completed_tasks'', pstrs (ap_affected_completed_tasks x)),
      (''affected_pending_tasks'', pstrs (ap_affected_pending_tasks x)),
      (''resume_candidates'', pstrs (ap_resume_candidates x)),
      (''rollback_target'', PStr (ap_rollback_target x)),
      (''preconditions'', pstrs (ap_preconditions x)),
      (''predicted_side_effects'', pstrs (ap_predicted_side_effects x)),
      (''plan_checksum'', PStr (ap_plan_checksum x)),
      (''created_at'', PStr (ap_created_at x)),
      (''application_record_path'', opt_path (ap_application_record_path x)),
      (''dry_run'', PBool (ap_dry_run x))]"

definition application_plan_from_dict :: "pydict \<Rightarrow> application_plan res" where
  "application_plan_from_dict d =
     rbind (fint APPLICATION_SCHEMA_VERSION d ''schema_version'') (\<lambda>schema_version'.
     rbind (rbind (fdict d ''source_task_snapshot'') task_snapshot_from_dict) (\<lambda>source_task_snapshot'.
     rbind (fdicts task_snapshot_from_dict d ''proposed_tasks'') (\<lambda>proposed_tasks'.
     rbind (fdicts requirement_mapping_from_dict d ''requirement_mapping'') (\<lambda>requirement_mapping'.
     rbind (fdicts dependency_change_from_dict d ''dependency_changes'') (\<lambda>dependency_changes'.
     rbind (fstrs d ''writable_path_diff'') (\<lambda>writable_path_diff'.
     rbind (fdict d ''context_budget_validation'') (\<lambda>context_budget_validation'.
     rbind (fstrs d ''expected_outputs'') (\<lambda>expected_outputs'.
     rbind (fstrs d ''validation_steps'') (\<lambda>validation_steps'.
     rbind (fstrs d ''affected_completed_tasks'') (\<lambda>affected_completed_tasks'.
     rbind (fstrs d ''affected_pending_tasks'') (\<lambda>affected_pending_tasks'.
     rbind (fstrs d ''resume_candidates'') (\<lambda>resume_candidates'.
     rbind (fstrs d ''preconditions'') (\<lambda>preconditions'.
     rbind (fstrs d ''predicted_side_effects'') (\<lambda>predicted_side_effects'.
     Inr \<lparr>ap_schema_version = schema_version',
       ap_application_id = fstr d ''application_id'',
       ap_request_id = fstr d ''request_id'',
       ap_request_checksum = fstr d ''request_checksum'',
       ap_response_checksum = fstr d ''response_checksum'',
       ap_approval_checksum = maybe_text (dget_or d ''approval_checksum'' PNone),
       ap_source_revision_id = fstr d ''source_revision_id'',
       ap_source_revision_checksum = fstr d ''source_revision_checksum'',
       ap_proposed_revision_id = fstr d ''proposed_revision_id'',
       ap_operation_type = fstr d ''operation_type'',
       ap_source_task_snapshot = source_task_snapshot',
       ap_proposed_tasks = proposed_tasks',
       ap_requirement_mapping = requirement_mapping',
       ap_dependency_changes = dependency_changes',
       ap_writable_path_diff = writable_path_diff',
       ap_context_budget_validation = context_budget_validation',
       ap_expected_outputs = expected_outputs',
       ap_validation_steps = validation_steps',
       ap_affected_completed_tasks = affected_completed_tasks',
       ap_affected_pending_tasks = affected_pending_tasks',
       ap_resume_candidates = resume_candidates',
       ap_rollback_target = fstr d ''rollback_target'',
       ap_preconditions = preconditions',
       ap_predicted_side_effects = predicted_side_effects',
       ap_plan_checksum = fstr d ''plan_checksum'',
       ap_created_at = fstr d ''created_at'',
       ap_application_record_path = read_opt_path (dget_or d ''application_record_path'' PNone),
       ap_dry_run = fbool False d ''dry_run''\<rparr>))))))))))))))"

definition wf_application_plan :: "application_plan \<Rightarrow> bool" where
  "wf_application_plan x \<longleftrightarrow> plain_opt (ap_approval_checksum x)
     \<and> wf_task_snapshot (ap_source_task_snapshot x)
     \<and> (\<forall>y \<in> set (ap_proposed_tasks x). wf_task_snapshot y)
     \<and> plain_path_text (ap_application_record_path x)"

lemma application_plan_get [simp]:
  "dget (application_plan_to_dict x) ''schema_version'' = Some (PInt (ap_schema_version x))"
  "dget (application_plan_to_dict x) ''application_id'' = Some (PStr (ap_application_id x))"
  "dget (application_plan_to_dict x) ''request_id'' = Some (PStr (ap_request_id x))"
  "dget (application_plan_to_dict x) ''request_checksum'' = Some (PStr (ap_request_checksum x))"
  "dget (application_plan_to_dict x) ''response_checksum'' = Some (PStr (ap_response_checksum x))"
  "dget (application_plan_to_dict x) ''approval_checksum'' = Some (opt_str (ap_approval_checksum x))"
  "dget (application_plan_to_dict x) ''source_revision_id'' = Some (PStr (ap_source_revision_id x))"
  "dget (application_plan_to_dict x) ''source_revision_checksum'' = Some (PStr (ap_source_revision_checksum x))"
  "dget (application_plan_to_dict x) ''proposed_revision_id'' = Some (PStr (ap_proposed_revision_id x))"
  "dget (application_plan_to_dict x) ''operation_type'' = Some (PStr (ap_operation_type x))"
  "dget (application_plan_to_dict x) ''source_task_snapshot'' = Some (PDict (task_snapshot_to_dict (ap_source_task_snapshot x)))"
  "dget (application_plan_to_dict x) ''proposed_tasks'' = Some (PList (map (\<lambda>y. PDict (task_snapshot_to_dict y)) (ap_proposed_tasks x)))"
  "dget (application_plan_to_dict x) ''requirement_mapping'' = Some (PList (map (\<lambda>y. PDict (requirement_mapping_to_dict y)) (ap_requirement_mapping x)))"
  "dget (application_plan_to_dict x) ''dependency_changes'' = Some (PList (map (\<lambda>y. PDict (dependency_change_to_dict y)) (ap_dependency_changes x)))"
  "dget (application_plan_to_dict x) ''writable_path_diff'' = Some (pstrs (ap_writable_path_diff x))"
  "dget (application_plan_to_dict x) ''context_budget_validation'' = Some (PDict (ap_context_budget_validation x))"
  "dget (application_plan_to_dict x) ''expected_outputs'' = Some (pstrs (ap_expected_outputs x))"
  "dget (application_plan_to_dict x) ''validation_steps'' = Some (pstrs (ap_validation_steps x))"
  "dget (application_plan_to_dict x) ''affected_completed_tasks'' = Some (pstrs (ap_affected_completed_tasks x))"
  "dget (application_plan_to_dict x) ''affected_pending_tasks'' = Some (pstrs (ap_affected_pending_tasks x))"
  "dget (application_plan_to_dict x) ''resume_candidates'' = Some (pstrs (ap_resume_candidates x))"
  "dget (application_plan_to_dict x) ''rollback_target'' = Some (PStr (ap_rollback_target x))"
  "dget (application_plan_to_dict x) ''preconditions'' = Some (pstrs (ap_preconditions x))"
  "dget (application_plan_to_dict x) ''predicted_side_effects'' = Some (pstrs (ap_predicted_side_effects x))"
  "dget (application_plan_to_dict x) ''plan_checksum'' = Some (PStr (ap_plan_checksum x))"
  "dget (application_plan_to_dict x) ''created_at'' = Some (PStr (ap_created_at x))"
  "dget (application_plan_to_dict x) ''application_record_path'' = Some (opt_path (ap_application_record_path x))"
  "dget (application_plan_to_dict x) ''dry_run'' = Some (PBool (ap_dry_run x))"
  by (simp_all add: application_plan_to_dict_def)

lemma application_plan_roundtrip [codec_simps]:
  assumes "wf_application_plan x"
  shows "application_plan_from_dict (application_plan_to_dict x) = Inr x"
  using assms by (simp add: application_plan_from_dict_def wf_application_plan_def codec_simps)

record runtime_plan_revision =
  rp_schema_version :: int
  rp_revision_id :: string
  rp_parent_revision_id :: "string option"
  rp_application_id :: string
  rp_created_at :: string
  rp_task_graph :: "task_snapshot list"
  rp_task_statuses :: "(string \<times> string) list"
  rp_requirement_mappings :: "requirement_mapping list"
  rp_dependency_mappings :: "dependency_change list"
  rp_graph_checksum :: string
  rp_revision_checksum :: string
  rp_change_summary :: "string list"
  rp_rollback_metadata :: rollback_metadata
  rp_audit_event_ids :: "string list"

definition runtime_plan_revision_to_dict :: "runtime_plan_revision \<Rightarrow> pydict" where
  "runtime_plan_revision_to_dict x =
     [(''schema_version'', PInt (rp_schema_version x)),
      (''revision_id'', PStr (rp_revision_id x)),
      (''parent_revision_id'', opt_str (rp_parent_revision_id x)),
      (''application_id'', PStr (rp_application_id x)),
      (''created_at'', PStr (rp_created_at x)),
      (''task_graph'', PList (map (\<lambda>y. PDict (task_snapshot_to_dict y)) (rp_task_graph x))),
      (''task_statuses'', str_dict (rp_task_statuses x)),
      (''requirement_mappings'', PList (map (\<lambda>y. PDict (requirement_mapping_to_dict y)) (rp_requirement_mappings x))),
      (''dependency_mappings'', PList (map (\<lambda>y. PDict (dependency_change_to_dict y)) (rp_dependency_mappings x))),
      (''graph_checksum'', PStr (rp_graph_checksum x)),
      (''revision_checksum'', PStr (rp_revision_checksum x)),
      (''change_summary'', pstrs (rp_change_summary x)),
      (''rollback_metadata'', PDict (rollback_metadata_to_dict (rp_rollback_metadata x))),
      (''audit_event_ids'', pstrs (rp_audit_event_ids x))]"

definition runtime_plan_revision_from_dict :: "pydict \<Rightarrow> runtime_plan_revision res" where
  "runtime_plan_revision_from_dict d =
     rbind (fint REVISION_SCHEMA_VERSION d ''schema_version'') (\<lambda>schema_version'.
     rbind (fdicts task_snapshot_from_dict d ''task_graph'') (\<lambda>task_graph'.
     rbind (fstr_dict d ''task_statuses'') (\<lambda>task_statuses'.
     rbind (fdicts requirement_mapping_from_dict d ''requirement_mappings'') (\<lambda>requirement_mappings'.
     rbind (fdicts dependency_change_from_dict d ''dependency_mappings'') (\<lambda>dependency_mappings'.
     rbind (fstrs d ''change_summary'') (\<lambda>change_summary'.
     rbind (rbind (fdict d ''rollback_metadata'') rollback_metadata_from_dict) (\<lambda>rollback_metadata'.
     rbind (fstrs d ''audit_event_ids'') (\<lambda>audit_event_ids'.
     Inr \<lparr>rp_schema_version = schema_version',
       rp_revision_id = fstr d ''revision_id'',
       rp_parent_revision_id = maybe_text (dget_or d ''parent_revision_id'' PNone),
       rp_application_id = fstr d ''application_id'',
       rp_created_at = fstr d ''created_at'',
       rp_task_graph = task_graph',
       rp_task_statuses = task_statuses',
       rp_requirement_mappings = requirement_mappings',
       rp_dependency_mappings = dependency_mappings',
       rp_graph_checksum = fstr d ''graph_checksum'',
       rp_revision_checksum = fstr d ''revision_checksum'',
       rp_change_summary = change_summary',
       rp_rollback_metadata = rollback_metadata',
       rp_audit_event_ids = audit_event_ids'\<rparr>))))))))"

definition wf_runtime_plan_revision :: "runtime_plan_revision \<Rightarrow> bool" where
  "wf_runtime_plan_revision x \<longleftrightarrow> plain_opt (rp_parent_revision_id x)
     \<and> (\<forall>y \<in> set (rp_task_graph x). wf_task_snapshot y)"

lemma runtime_plan_revision_get [simp]:
  "dget (runtime_plan_revision_to_dict x) ''schema_version'' = Some (PInt (rp_schema_version x))"
  "dget (runtime_plan_revision_to_dict x) ''revision_id'' = Some (PStr (rp_revision_id x))"
  "dget (runtime_plan_revision_to_dict x) ''parent_revision_id'' = Some (opt_str (rp_parent_revision_id x))"
  "dget (runtime_plan_revision_to_dict x) ''application_id'' = Some (PStr (rp_application_id x))"
  "dget (runtime_plan_revision_to_dict x) ''created_at'' = Some (PStr (rp_created_at x))"
  "dget (runtime_plan_revision_to_dict x) ''task_graph'' = Some (PList (map (\<lambda>y. PDict (task_snapshot_to_dict y)) (rp_task_graph x)))"
  "dget (runtime_plan_revision_to_dict x) ''task_statuses'' = Some (str_dict (rp_task_statuses x))"
  "dget (runtime_plan_revision_to_dict x) ''requirement_mappings'' = Some (PList (map (\<lambda>y. PDict (requirement_mapping_to_dict y)) (rp_requirement_mappings x)))"
  "dget (runtime_plan_revision_to_dict x) ''dependency_mappings'' = Some (PList (map (\<lambda>y. PDict (dependency_change_to_dict y)) (rp_dependency_mappings x)))"
  "dget (runtime_plan_revision_to_dict x) ''graph_checksum'' = Some (PStr (rp_graph_checksum x))"
  "dget (runtime_plan_revision_to_dict x) ''revision_checksum'' = Some (PStr (rp_revision_checksum x))"
  "dget (runtime_plan_revision_to_dict x) ''change_summary'' = Some (pstrs (rp_change_summary x))"
  "dget (runtime_plan_revision_to_dict x) ''rollback_metadata'' = Some (PDict (rollback_metadata_to_dict (rp_rollback_metadata x)))"
  "dget (runtime_plan_revision_to_dict x) ''audit_event_ids'' = Some (pstrs (rp_audit_event_ids x))"
  by (simp_all add: runtime_plan_revision_to_dict_def)

lemma runtime_plan_revision_roundtrip [codec_simps]:
  assumes "wf_runtime_plan_revision x"
  shows "runtime_plan_revision_from_dict (runtime_plan_revision_to_dict x) = Inr x"
  using assms by (simp add: runtime_plan_revision_from_dict_def wf_runtime_plan_revision_def codec_simps)

record active_revision_pointer =
  pt_schema_version :: int
  pt_active_revision_id :: string
  pt_active_revision_checksum :: string
  pt_previous_revision_id :: "string option"
  pt_update_timestamp :: string
  pt_application_id :: string

definition active_revision_pointer_to_dict :: "active_revision_pointer \<Rightarrow> pydict" where
  "active_revision_pointer_to_dict x =
     [(''schema_version'', PInt (pt_schema_version x)),
      (''active_revision_id'', PStr (pt_active_revision_id x)),
      (''active_revision_checksum'', PStr (pt_active_revision_checksum x)),
      (''previous_revision_id'', opt_str (pt_previous_revision_id x)),
      (''update_timestamp'', PStr (pt_update_timestamp x)),
      (''application_id'', PStr (pt_application_id x))]"

definition active_revision_pointer_from_dict :: "pydict \<Rightarrow> active_revision_pointer res" where
  "active_revision_pointer_from_dict d =
     rbind (fint ACTIVE_POINTER_SCHEMA_VERSION d ''schema_version'') (\<lambda>schema_version'.
     Inr \<lparr>pt_schema_version = schema_version',
       pt_active_revision_id = fstr d ''active_revision_id'',
       pt_active_revision_checksum = fstr d ''active_revision_checksum'',
       pt_previous_revision_id = maybe_text (dget_or d ''previous_revision_id'' PNone),
       pt_update_timestamp = fstr d ''update_timestamp'',
       pt_application_id = fstr d ''application_id''\<rparr>)"

definition wf_active_revision_pointer :: "active_revision_pointer \<Rightarrow> bool" where
  "wf_active_revision_pointer x \<longleftrightarrow> plain_opt (pt_previous_revision_id x)"

lemma active_revision_pointer_get [simp]:
  "dget (active_revision_pointer_to_dict x) ''schema_version'' = Some (PInt (pt_schema_version x))"
  "dget (active_revision_pointer_to_dict x) ''active_revision_id'' = Some (PStr (pt_active_revision_id x))"
  "dget (active_revision_pointer_to_dict x) ''active_revision_checksum'' = Some (PStr (pt_active_revision_checksum x))"
  "dget (active_revision_pointer_to_dict x) ''previous_revision_id'' = Some (opt_str (pt_previous_revision_id x))"
  "dget (active_revision_pointer_to_dict x) ''update_timestamp'' = Some (PStr (pt_update_timestamp x))"
  "dget (active_revision_pointer_to_dict x) ''application_id'' = Some (PStr (pt_application_id x))"
  by (simp_all add: active_revision_pointer_to_dict_def)

lemma active_revision_pointer_roundtrip [codec_simps]:
  assumes "wf_active_revision_pointer x"
  shows "active_revision_pointer_from_dict (active_revision_pointer_to_dict x) = Inr x"
  using assms by (simp add: active_revision_pointer_from_dict_def wf_active_revision_pointer_def codec_simps)

end
