(* ===== verification/AppValidation.thy ===== *)
theory AppValidation
  imports AppModels BatchGraph QueueStore QueueClassification
begin

text \<open>
  \<open>cloud_application/validation.py\<close>: which requests may be applied, and the checks of the
  tasks that a response proposes. The depth-first search of \<open>validate_dependency_graph\<close>
  raises at the first cycle; it is shown to agree with the search of the batch graph, which
  collects the cycles.
\<close>

subsection \<open>Eligibility\<close>

definition VALIDATED_SAFE_SOURCE :: string where "VALIDATED_SAFE_SOURCE = ''validated_safe''"
definition APPROVAL_REQUIRED_SOURCE :: string where "APPROVAL_REQUIRED_SOURCE = ''approval_required''"
definition REQUEST_STATUS_REJECTED :: "string list" where
  "REQUEST_STATUS_REJECTED = [''validation_failed'', ''rejected'', ''cancelled'', ''failed'', ''canceled'']"
definition SENSITIVE_PATH_TOKENS :: "string list" where
  "SENSITIVE_PATH_TOKENS = [''.git'', ''.env'', ''credentials'', ''secrets'', ''private'']"
definition LOCAL_CONTEXT_LIMIT :: int where "LOCAL_CONTEXT_LIMIT = 120000"

record eligibility_result =
  eg_eligible :: bool
  eg_request_id :: string
  eg_source_kind :: string
  eg_reason :: string
  eg_request_checksum :: string
  eg_response_checksum :: string
  eg_approval_checksum :: "string option"
  eg_eligible_for_approval :: bool

definition canonical_request_checksum :: "codecs \<Rightarrow> cloud_queue_request \<Rightarrow> string" where
  "canonical_request_checksum c r = checksum_text c (yaml_dump c True (PDict
     [(''request_id'', PStr (rq_request_id r)), (''story'', PStr (rq_story r)), (''title'', PStr (rq_title r)),
      (''blocker_type'', PStr (rq_blocker_type r)), (''details'', PStr (rq_details r)),
      (''state'', PStr (rq_state r)), (''prior_state'', PStr (rq_prior_state r)),
      (''batch_id'', PStr (rq_batch_id r)), (''request_count'', PInt (rq_request_count r)),
      (''request_schema_version'', PInt (rq_request_schema_version r)),
      (''response_schema_version'', PInt (rq_response_schema_version r)),
      (''requirements'', pstrs (rq_requirements r)), (''writable_paths'', pstrs (rq_writable_paths r)),
      (''dependencies'', pstrs (rq_dependencies r)), (''context_files'', pstrs (rq_context_files r)),
      (''packet_checksum'', PStr (rq_packet_checksum r)),
      (''normalized_response_checksum'', PStr (rq_normalized_response_checksum r)),
      (''approval_checksum'', PStr (rq_approval_checksum r)),
      (''raw_response_checksum'', PStr (rq_raw_response_checksum r)),
      (''classification'', PStr (rq_classification r)), (''next_action'', PStr (rq_next_action r))]))"

definition canonical_response_checksum :: "cloud_queue_request \<Rightarrow> string" where
  "canonical_response_checksum r = str_or (rq_normalized_response_checksum r) (rq_raw_response_checksum r)"

definition text_or_none :: "string \<Rightarrow> string option" where
  "text_or_none s = (if s = [] then None else Some s)"

definition validate_eligibility ::
    "codecs \<Rightarrow> cloud_queue_request \<Rightarrow> pydict option \<Rightarrow> eligibility_result res" where
  "validate_eligibility c request approval_record =
     (let result = (\<lambda>eligible kind reason approval for_approval.
            Inr \<lparr>eg_eligible = eligible, eg_request_id = rq_request_id request, eg_source_kind = kind,
              eg_reason = reason, eg_request_checksum = canonical_request_checksum c request,
              eg_response_checksum = canonical_response_checksum request,
              eg_approval_checksum = approval, eg_eligible_for_approval = for_approval\<rparr>);
          response_checksum = canonical_response_checksum request;
          approval_checksum = text_or_none (rq_approval_checksum request) in
      if rq_state request \<in> set REQUEST_STATUS_REJECTED then
        result False (str_or (rq_classification request) ''unknown'')
          (''Request is not eligible in state '' @ rq_state request @ ''.'') approval_checksum False
      else if rq_state request = VALIDATED_SAFE
          \<and> rq_classification request \<in> {CLASSIFIED_SAFE, VALIDATED_SAFE} then
        (if rq_packet_checksum request = [] then
           result False VALIDATED_SAFE_SOURCE ''Validated-safe request does not have a request checksum.''
             approval_checksum False
         else if response_checksum = [] then
           result False VALIDATED_SAFE_SOURCE ''Validated-safe request does not have a response checksum.''
             approval_checksum False
         else result True VALIDATED_SAFE_SOURCE ''Validated-safe response is eligible.'' approval_checksum False)
      else if rq_state request \<noteq> ''approved'' \<and> rq_classification request = APPROVAL_REQUIRED then
        result False APPROVAL_REQUIRED_SOURCE
          ''Approval-required response needs explicit approval before application.'' approval_checksum True
      else if rq_state request = ''approved'' then
        (case approval_record of
           None \<Rightarrow> value_error ''Approval-required response is missing an approval record.''
         | Some a \<Rightarrow>
             let record_response_checksum = fstr a ''normalized_response_checksum'';
                 expected = str_or (rq_approval_checksum request) response_checksum in
             if fstr a ''request_id'' \<noteq> rq_request_id request then
               value_error ''Approval record does not match the request.''
             else if \<not> fbool False a ''approved'' then value_error ''Approval record is not approved.''
             else if record_response_checksum \<noteq> expected then
               value_error ''Approval checksum does not match the normalized response checksum.''
             else result True APPROVAL_REQUIRED_SOURCE ''Approved response is eligible.''
               (Some (str_or (rq_approval_checksum request) record_response_checksum)) True)
      else value_error (''Request is not eligible for application in state '' @ rq_state request @ ''.''))"

subsection \<open>Checks of plans and paths\<close>

definition validate_application_state_boundaries :: "application_plan \<Rightarrow> unit res" where
  "validate_application_state_boundaries plan =
     (if ap_operation_type plan \<notin> set SUPPORTED_APPLICATION_OPERATIONS
      then value_error (''Unsupported application operation: '' @ ap_operation_type plan)
      else if ap_plan_checksum plan = [] then value_error ''Application plan checksum is missing.''
      else Inr ())"

definition check_writable_path :: "string \<Rightarrow> unit res" where
  "check_writable_path path =
     (if posix_parts path = [] then value_error ''Writable path cannot be empty.''
      else if list_ex (\<lambda>token. contains token (lower path)) SENSITIVE_PATH_TOKENS
      then value_error (''Writable path is unsafe: '' @ path)
      else if starts_with ''../'' path \<or> starts_with ''./'' path \<or> contains ''/../'' path
      then value_error (''Writable path traversal is not allowed: '' @ path)
      else if starts_with ''/'' path \<or> starts_with ''//'' path \<or> contains '':'' path
      then value_error (''Absolute writable path is not allowed: '' @ path)
      else Inr ())"

definition validate_writable_paths_exact :: "string list \<Rightarrow> string list \<Rightarrow> string list res" where
  "validate_writable_paths_exact approved_paths proposed_paths =
     rbind (rmap_list normalize_relative_path approved_paths) (\<lambda>approved.
     rbind (rmap_list normalize_relative_path proposed_paths) (\<lambda>proposed.
     if sort approved \<noteq> sort proposed then
       (if diff_list proposed approved \<noteq> []
        then value_error ''Application expands writable paths beyond the approved scope.''
        else value_error ''Application narrows writable paths without matching approval.'')
     else rbind (rfold (\<lambda>path _. check_writable_path path) proposed ()) (\<lambda>_. Inr proposed)))"

definition paths_overlap :: "string \<Rightarrow> string \<Rightarrow> bool" where
  "paths_overlap left right =
     (let left_parts = posix_parts left; right_parts = posix_parts right;
          shortest = min (length left_parts) (length right_parts)
      in take shortest left_parts = take shortest right_parts)"

definition add_path :: "string \<Rightarrow> string list \<Rightarrow> string list res" where
  "add_path path paths =
     rbind (normalize_relative_path path) (\<lambda>normalized.
     case find (\<lambda>existing. paths_overlap existing normalized) paths of
       Some existing \<Rightarrow> value_error (''Unsafe overlapping writes detected: '' @ existing @ '' and '' @ normalized)
     | None \<Rightarrow> Inr (paths @ [normalized]))"

definition validate_path_overlap :: "task_snapshot list \<Rightarrow> unit res" where
  "validate_path_overlap tasks =
     rbind (rfold (\<lambda>task. rfold add_path (ts_writable_paths task)) tasks []) (\<lambda>_. Inr ())"

subsection \<open>The dependency graph of tasks\<close>

text \<open>
  \<open>visit\<close>: the finished and the open nodes, an error at a cycle. \<open>task_map[i].depends_on\<close> is
  \<open>edges_of\<close>: the tasks have distinct identifiers and known dependencies by then. The fuel
  is one more than the number of tasks.
\<close>

fun walk :: "nat \<Rightarrow> node_graph \<Rightarrow> string \<Rightarrow> string list \<times> string list \<Rightarrow> (string list \<times> string list) res"
  and walk_all :: "nat \<Rightarrow> node_graph \<Rightarrow> string list \<Rightarrow> string list \<times> string list \<Rightarrow> (string list \<times> string list) res" where
  "walk 0 g n s = Inl (Exn RuntimeError ''maximum recursion depth exceeded'')"
| "walk (Suc f) g n s =
     (if n \<in> set (fst s) then Inr s
      else if n \<in> set (snd s) then value_error (''Dependency cycle detected: '' @ n)
      else rbind (walk_all f g (edges_of g n) (fst s, n # snd s)) (\<lambda>t.
        Inr (n # fst t, remove1 n (snd t))))"
| "walk_all f g [] s = Inr s"
| "walk_all f g (n # ns) s = rbind (walk f g n s) (walk_all f g ns)"

definition task_edges :: "task_snapshot list \<Rightarrow> node_graph" where
  "task_edges tasks = map (\<lambda>t. (ts_task_id t, ts_depends_on t)) tasks"

definition validate_dependency_graph :: "task_snapshot list \<Rightarrow> unit res" where
  "validate_dependency_graph tasks =
     (let task_ids = map ts_task_id tasks in
      if \<not> distinct task_ids then value_error ''Task IDs must be unique.''
      else
        rbind (rfold (\<lambda>task. rfold (\<lambda>dependency _.
            if dependency \<notin> set task_ids then value_error (''Missing dependency: '' @ dependency) else Inr ())
          (ts_depends_on task)) tasks ()) (\<lambda>_.
        rbind (walk_all (Suc (length tasks)) (task_edges tasks) task_ids ([], [])) (\<lambda>_. Inr ())))"

subsection \<open>Budgets, requirements and scope\<close>

definition validate_context_budget :: "task_snapshot \<Rightarrow> int \<Rightarrow> unit res" where
  "validate_context_budget task limit =
     (case ts_token_estimate task of
        None \<Rightarrow> value_error (''Missing context budget estimate for task '' @ ts_task_id task @ ''.'')
      | Some estimate \<Rightarrow>
          (case ts_usable_input_tokens task of
             None \<Rightarrow> value_error (''Missing usable input budget for task '' @ ts_task_id task @ ''.'')
           | Some tokens \<Rightarrow>
               let usable = (if tokens = 0 then limit else tokens) in
               if estimate > usable
               then value_error (''Task '' @ ts_task_id task @ '' exceeds the local context limit.'')
               else if usable > limit
               then value_error (''Task '' @ ts_task_id task @ '' exceeds the configured local context limit.'')
               else Inr ()))"

definition validate_requirement_coverage ::
    "task_snapshot \<Rightarrow> task_snapshot list \<Rightarrow> string list \<Rightarrow> unit res" where
  "validate_requirement_coverage source_task proposed_tasks required =
     (let proposed = sorted_set (concat (map ts_requirement_ids proposed_tasks));
          missing = filter (\<lambda>r. r \<notin> set proposed) required in
      if missing \<noteq> [] then value_error (''Missing applicable requirements: '' @ join '', '' missing)
      else if ts_requirement_ids source_task \<noteq> [] \<and> \<not> set (ts_requirement_ids source_task) \<subseteq> set proposed
      then value_error ''Source-task coverage was dropped.''
      else Inr ())"

definition validate_requirement_drift :: "string list \<Rightarrow> string list \<Rightarrow> unit res" where
  "validate_requirement_drift current_requirements imported_requirements =
     (if sort current_requirements \<noteq> sort imported_requirements
      then value_error ''Requirement drift detected since import.'' else Inr ())"

definition validate_no_canonical_mutation :: "application_plan \<Rightarrow> unit res" where
  "validate_no_canonical_mutation plan =
     (if ts_task_id (ap_source_task_snapshot plan) = []
      then value_error ''Source task snapshot is missing a task ID.'' else Inr ())"

definition validate_approval_scope :: "pydict \<Rightarrow> string list \<Rightarrow> string list \<Rightarrow> unit res" where
  "validate_approval_scope approval_record proposed_paths proposed_requirements =
     rbind (fstrs approval_record ''approved_writable_paths'') (\<lambda>raw_paths.
     rbind (rmap_list normalize_relative_path raw_paths) (\<lambda>approved_paths.
     rbind (fstrs approval_record ''approved_requirements'') (\<lambda>approved_requirements.
     if approved_paths \<noteq> [] \<and> sort approved_paths \<noteq> sort proposed_paths
     then value_error ''Approved writable paths do not exactly match the proposed application.''
     else if approved_requirements \<noteq> [] \<and> sort approved_requirements \<noteq> sort proposed_requirements
     then value_error ''Approved scope does not exactly match the proposed application.''
     else Inr ())))"

definition validate_active_pointer :: "active_revision_pointer \<Rightarrow> string \<Rightarrow> string \<Rightarrow> unit res" where
  "validate_active_pointer pointer expected_revision_id expected_revision_checksum =
     (if pt_active_revision_id pointer \<noteq> expected_revision_id
      then value_error ''Active revision pointer does not match the expected revision.''
      else if pt_active_revision_checksum pointer \<noteq> expected_revision_checksum
      then value_error ''Active revision pointer checksum does not match the expected revision.''
      else Inr ())"

subsection \<open>Who is eligible\<close>

text \<open>
  C18: a request may be applied exactly when it is validated as safe and carries the checksums
  of its packet and of its response, or when it is approved and its approval record names it,
  approves it and is bound to the checksum of the response.
\<close>

theorem eligible_iff:
  "(\<exists>e. validate_eligibility c r a = Inr e \<and> eg_eligible e) \<longleftrightarrow>
     (rq_state r = ''validated_safe'' \<and> rq_classification r \<in> {''classified_safe'', ''validated_safe''}
        \<and> rq_packet_checksum r \<noteq> [] \<and> canonical_response_checksum r \<noteq> [])
   \<or> (rq_state r = ''approved'' \<and> (\<exists>d. a = Some d \<and> fstr d ''request_id'' = rq_request_id r
        \<and> fbool False d ''approved''
        \<and> fstr d ''normalized_response_checksum''
          = str_or (rq_approval_checksum r) (canonical_response_checksum r)))"
proof -
  consider (safe) "rq_state r = ''validated_safe''" | (approved) "rq_state r = ''approved''"
    | (other) "rq_state r \<noteq> ''validated_safe''" "rq_state r \<noteq> ''approved''" by blast
  then show ?thesis
  proof cases
    case safe
    then show ?thesis
      by (simp add: validate_eligibility_def Let_def REQUEST_STATUS_REJECTED_def VALIDATED_SAFE_def
          CLASSIFIED_SAFE_def APPROVAL_REQUIRED_def)
  next
    case approved
    then show ?thesis
      by (cases a) (simp_all add: validate_eligibility_def Let_def REQUEST_STATUS_REJECTED_def VALIDATED_SAFE_def)
  next
    case other
    then show ?thesis by (simp add: validate_eligibility_def Let_def VALIDATED_SAFE_def)
  qed
qed

subsection \<open>The two searches agree\<close>

definition same_search :: "dfs_state \<Rightarrow> string list \<times> string list \<Rightarrow> bool" where
  "same_search s v \<longleftrightarrow> snd v = df_on_stack s \<and> set (fst v) = finished s \<and> search_ok s"

lemma same_search_enter:
  "same_search s v \<Longrightarrow> n \<notin> set (df_seen s) \<Longrightarrow> same_search (enter_node n s) (fst v, n # snd v)"
  by (auto simp: same_search_def finished_def search_ok_def enter_node_def)

lemma same_search_leave:
  assumes "same_search t v'" and "search_kept (enter_node n s) t" and "search_ok s" and "n \<notin> set (df_seen s)"
  shows "same_search (leave_node n t) (n # fst v', remove1 n (snd v'))"
  using assms by (auto simp: same_search_def finished_def search_ok_def search_kept_def enter_node_def leave_node_def)

lemma walk_agrees:
  shows "visit f g n s = Some t \<Longrightarrow> same_search s v \<Longrightarrow>
      (if df_cycles t = df_cycles s then \<exists>w. walk f g n v = Inr w \<and> same_search t w
       else \<exists>m. walk f g n v = value_error m)"
    and "visit_all f g ns s = Some t \<Longrightarrow> same_search s v \<Longrightarrow>
      (if df_cycles t = df_cycles s then \<exists>w. walk_all f g ns v = Inr w \<and> same_search t w
       else \<exists>m. walk_all f g ns v = value_error m)"
proof (induction f g n s and f g ns s arbitrary: t v and t v rule: visit_visit_all.induct)
  case (2 f g n s)
  have same: "snd v = df_on_stack s" "set (fst v) = set (df_seen s) - set (df_on_stack s)" "search_ok s"
    using 2(3) by (auto simp: same_search_def finished_def)
  show ?case
  proof (cases "n \<in> set (df_seen s)")
    case True
    have "df_cycles (record_cycle n s) \<noteq> df_cycles s" if "n \<in> set (df_on_stack s)"
      using that same(3) by (simp add: record_cycle_def search_ok_def)
    then show ?thesis using True same 2(2,3) by (cases v) (auto split: if_splits)
  next
    case False
    then have new: "n \<notin> set (df_on_stack s)" using same(3) by (auto simp: search_ok_def)
    with 2(2) False obtain u where u: "visit_all f g (edges_of g n) (enter_node n s) = Some u"
      "t = leave_node n u" by (auto split: option.splits)
    have kept: "search_kept (enter_node n s) u" using visit_kept(2) u(1) by blast
    have cyc: "df_cycles t = df_cycles u" "df_cycles (enter_node n s) = df_cycles s"
      using u(2) by (simp_all add: leave_node_def enter_node_def)
    have not: "n \<notin> set (fst v)" "n \<notin> set (snd v)" using False new same by auto
    from "2.IH" [OF new False u(1) same_search_enter [OF 2(3) False]]
    show ?thesis
      using not cyc u(2) same_search_leave [OF _ kept same(3) False]
      by (auto simp: res_simps split: if_splits)
  qed
next
  case (4 f g n ns s)
  from 4(3) obtain u where u: "visit f g n s = Some u" "visit_all f g ns u = Some t"
    by (auto split: option.splits)
  obtain cs ds where cs: "df_cycles u = df_cycles s @ cs" "df_cycles t = df_cycles u @ ds"
    using visit_kept(1) [OF u(1)] visit_kept(2) [OF u(2)] by (auto simp: search_kept_def)
  note first = "4.IH"(1) [OF u(1) 4(4)]
  show ?case
  proof (cases "cs = []")
    case True
    with first cs obtain w where w: "walk f g n v = Inr w" "same_search u w" by auto
    from "4.IH"(2) [OF u(1,2) w(2)] show ?thesis using w(1) cs True by (auto split: if_splits)
  next
    case False
    with first cs show ?thesis by (auto simp: res_simps)
  qed
qed auto

text \<open>What makes a task graph sound.\<close>

definition sound_tasks :: "task_snapshot list \<Rightarrow> bool" where
  "sound_tasks tasks \<longleftrightarrow> distinct (map ts_task_id tasks)
     \<and> list_all (\<lambda>t. set (ts_depends_on t) \<subseteq> set (map ts_task_id tasks)) tasks
     \<and> acyclic (graph_edges (task_edges tasks))"

lemma walk_decides:
  "(if acyclic (graph_edges (task_edges tasks))
    then \<exists>w. walk_all (Suc (length tasks)) (task_edges tasks) (map ts_task_id tasks) ([], []) = Inr w
    else \<exists>m. walk_all (Suc (length tasks)) (task_edges tasks) (map ts_task_id tasks) ([], []) = value_error m)"
proof -
  have keys: "map fst (task_edges tasks) = map ts_task_id tasks" by (simp add: task_edges_def)
  have "card (set (map fst (task_edges tasks))) < Suc (length tasks)"
    unfolding keys by (metis card_length le_imp_less_Suc length_map)
  from search_decides [OF this, of "map ts_task_id tasks"] keys obtain t where
    t: "visit_all (Suc (length tasks)) (task_edges tasks) (map ts_task_id tasks)
       \<lparr>df_seen = [], df_on_stack = [], df_stack = [], df_cycles = []\<rparr> = Some t"
    "df_cycles t = [] \<longleftrightarrow> acyclic (graph_edges (task_edges tasks))" by auto
  have "same_search \<lparr>df_seen = [], df_on_stack = [], df_stack = [], df_cycles = []\<rparr> ([], [])"
    by (simp add: same_search_def finished_def search_ok_def)
  from walk_agrees(2) [OF t(1) this] t(2) show ?thesis by (auto split: if_splits)
qed

lemma rfold_errors:
  "(\<And>x. x \<in> set xs \<Longrightarrow> f x () = Inr () \<or> (\<exists>m. f x () = value_error m)) \<Longrightarrow>
   rfold f xs () = Inr () \<or> (\<exists>m. rfold f xs () = value_error m)"
  by (induction xs) (fastforce simp: res_simps)+

lemma validate_tasks_result:
  "validate_dependency_graph tasks = Inr () \<or> (\<exists>m. validate_dependency_graph tasks = value_error m)"
proof -
  let ?f = "\<lambda>d (u::unit). if d \<notin> set (map ts_task_id tasks) then value_error (''Missing dependency: '' @ d) else Inr ()"
  have "rfold (\<lambda>t. rfold ?f (ts_depends_on t)) tasks () = Inr ()
      \<or> (\<exists>m. rfold (\<lambda>t. rfold ?f (ts_depends_on t)) tasks () = value_error m)"
    by (intro rfold_errors) auto
  then show ?thesis
    using walk_decides [of tasks]
    by (auto simp: validate_dependency_graph_def Let_def res_simps split: if_splits)
qed

lemma validate_tasks_ok [simp]: "validate_dependency_graph tasks = Inr () \<longleftrightarrow> sound_tasks tasks"
  using walk_decides [of tasks]
  by (auto simp: validate_dependency_graph_def sound_tasks_def Let_def rfold_check_nested list_all_iff subset_iff
      errors_not_Inr [symmetric] split: if_splits)

text \<open>
  The tasks of a plan are accepted exactly when their identifiers are distinct, their
  dependencies known and free of cycles; otherwise the check raises a \<open>ValueError\<close>: it never
  recurses for ever.
\<close>

theorem task_graph_accepted_iff:
  "\<exists>m. validate_dependency_graph tasks = (if sound_tasks tasks then Inr () else value_error m)"
  using validate_tasks_result [of tasks] by auto

subsection \<open>Disjoint paths\<close>

lemma paths_overlap_iff:
  "paths_overlap a b \<longleftrightarrow> prefix (posix_parts a) (posix_parts b) \<or> prefix (posix_parts b) (posix_parts a)"
proof -
  have take: "xs = take (length xs) ys \<longleftrightarrow> prefix xs ys" for xs ys :: "string list"
    by (metis append_eq_conv_conj prefix_def take_is_prefix)
  have "take (min (length xs) (length ys)) xs = take (min (length xs) (length ys)) ys
      \<longleftrightarrow> prefix xs ys \<or> prefix ys xs" for xs ys :: "string list"
  proof (cases "length xs \<le> length ys")
    case True
    then have "prefix ys xs \<Longrightarrow> prefix xs ys" by (auto simp: prefix_def)
    with True take [of xs ys] show ?thesis by (auto simp: min_def)
  next
    case False
    then have "\<not> prefix xs ys" by (auto dest: prefix_length_le)
    with False take [of ys xs] show ?thesis by (auto simp: min_def)
  qed
  then show ?thesis by (simp add: paths_overlap_def Let_def)
qed

lemma add_path_ok:
  "add_path p ps = Inr qs \<longleftrightarrow> (\<exists>n. normalize_relative_path p = Inr n \<and> qs = ps @ [n]
     \<and> (\<forall>e \<in> set ps. \<not> paths_overlap e n))"
  by (auto simp: add_path_def find_None_iff split: option.splits dest: find_Some_iff')

lemma rfold_concat: "rfold (\<lambda>t. rfold f (g t)) xs s = rfold f (concat (map g xs)) s"
proof -
  have app: "rfold f (xs @ ys) s = rbind (rfold f xs s) (rfold f ys)" for xs ys s
  proof (induction xs arbitrary: s)
    case (Cons x xs)
    then show ?case by (cases "f x s") simp_all
  qed simp
  show ?thesis
  proof (induction xs arbitrary: s)
    case (Cons x xs)
    then show ?case by (cases "rfold f (g x) s") (simp_all add: app)
  qed simp
qed

lemma add_paths_ok:
  "rfold add_path ps qs = Inr rs \<longleftrightarrow> (\<exists>ns. rmap_list normalize_relative_path ps = Inr ns \<and> rs = qs @ ns
     \<and> sorted_wrt (\<lambda>a b. \<not> paths_overlap a b) ns \<and> (\<forall>e \<in> set qs. \<forall>n \<in> set ns. \<not> paths_overlap e n))"
proof (induction ps arbitrary: qs)
  case (Cons p ps)
  show ?case
  proof
    assume "rfold add_path (p # ps) qs = Inr rs"
    then obtain n where n: "normalize_relative_path p = Inr n" "\<forall>e \<in> set qs. \<not> paths_overlap e n"
      "rfold add_path ps (qs @ [n]) = Inr rs" by (auto simp: add_path_ok)
    from n(3) obtain ns where "rmap_list normalize_relative_path ps = Inr ns" "rs = (qs @ [n]) @ ns"
      "sorted_wrt (\<lambda>a b. \<not> paths_overlap a b) ns" "\<forall>e \<in> set (qs @ [n]). \<forall>m \<in> set ns. \<not> paths_overlap e m"
      unfolding Cons.IH by blast
    with n show "\<exists>ns. rmap_list normalize_relative_path (p # ps) = Inr ns \<and> rs = qs @ ns
      \<and> sorted_wrt (\<lambda>a b. \<not> paths_overlap a b) ns \<and> (\<forall>e \<in> set qs. \<forall>n \<in> set ns. \<not> paths_overlap e n)"
      by (intro exI [of _ "n # ns"]) auto
  next
    assume "\<exists>ns. rmap_list normalize_relative_path (p # ps) = Inr ns \<and> rs = qs @ ns
      \<and> sorted_wrt (\<lambda>a b. \<not> paths_overlap a b) ns \<and> (\<forall>e \<in> set qs. \<forall>n \<in> set ns. \<not> paths_overlap e n)"
    then obtain n ns where ns: "normalize_relative_path p = Inr n" "rmap_list normalize_relative_path ps = Inr ns"
      "rs = qs @ n # ns" "sorted_wrt (\<lambda>a b. \<not> paths_overlap a b) (n # ns)"
      "\<forall>e \<in> set qs. \<forall>m \<in> set (n # ns). \<not> paths_overlap e m" by auto
    then have "rfold add_path ps (qs @ [n]) = Inr rs" unfolding Cons.IH by auto
    moreover have "add_path p qs = Inr (qs @ [n])" using ns by (auto simp: add_path_ok)
    ultimately show "rfold add_path (p # ps) qs = Inr rs" by simp
  qed
qed auto

text \<open>
  The writable paths of the tasks are accepted exactly when each is an accepted relative
  path and no two of them, of one task or of two, are equal or stand above each other.
\<close>

theorem path_overlap_accepted_iff:
  "validate_path_overlap tasks = Inr () \<longleftrightarrow>
     (\<exists>ns. rmap_list normalize_relative_path (concat (map ts_writable_paths tasks)) = Inr ns
        \<and> sorted_wrt (\<lambda>a b. \<not> prefix (posix_parts a) (posix_parts b) \<and> \<not> prefix (posix_parts b) (posix_parts a)) ns)"
  unfolding validate_path_overlap_def rfold_concat
  by (auto simp: add_paths_ok paths_overlap_iff)

subsection \<open>The scope of an approval\<close>

text \<open>
  The scope of an approval is never checked: the record the queue writes has neither
  approved paths nor approved requirements, so every proposed scope passes.
\<close>

theorem approval_scope_unchecked:
  assumes "plain_path (approval_record_path project (rq_request_id r))"
    and "record_approval project r checksum approved note now d = (Inr a, e)"
  shows "\<exists>m. load_approval_record c e (approval_record_path project (rq_request_id r)) = Inr m
    \<and> (\<forall>paths requirements. validate_approval_scope m paths requirements = Inr ())"
proof -
  let ?p = "approval_record_path project (rq_request_id r)"
  let ?m = "[(''request_id'', PStr (rq_request_id r)), (''normalized_response_checksum'', PStr checksum),
    (''approved'', PBool approved), (''operator_note'', PStr note), (''recorded_at'', PStr now)]"
  from assms(2) have "e = fs_write ?p (Doc (PDict ?m)) (fs_mkdir (butlast ?p) d)"
    by (auto simp: record_approval_def Let_def)
  with assms(1) have "load_approval_record c e ?p = Inr ?m"
    by (simp add: load_approval_record_def yaml_value_def)
  moreover have "validate_approval_scope ?m paths requirements = Inr ()" for paths requirements
    by (simp add: validate_approval_scope_def fstrs_def fitems_def dget_or_def)
  ultimately show ?thesis by blast
qed

theorem approval_scope_unchecked_witness:
  "\<exists>a e. record_approval [''p''] sample_request ''h'' True [] ''t'' \<lparr>fs_files = [], fs_dirs = []\<rparr> = (Inr a, e)
    \<and> (\<forall>c. \<exists>m. load_approval_record c e (approval_record_path [''p''] (rq_request_id sample_request)) = Inr m
    \<and> (\<forall>paths requirements. validate_approval_scope m paths requirements = Inr ()))"
proof -
  obtain a e where run: "record_approval [''p''] sample_request ''h'' True [] ''t'' \<lparr>fs_files = [], fs_dirs = []\<rparr> = (Inr a, e)"
    by (simp add: record_approval_def Let_def)
  have "plain_path (approval_record_path [''p''] (rq_request_id sample_request))"
    by code_simp
  from approval_scope_unchecked [OF this run] run show ?thesis by blast
qed

end
