(* ===== verification/AppGraph.thy ===== *)
theory AppGraph
  imports AppValidation
begin

text \<open>
  \<open>cloud_application/graph.py\<close>: the task graph of a runtime plan after a response replaced a
  task by subtasks or updated it in place, and what changed.
\<close>

subsection \<open>Tasks\<close>

text \<open>\<open>TaskSnapshot.from_dict({**task.to_dict(), **upd})\<close>\<close>

definition task_with :: "task_snapshot \<Rightarrow> pydict \<Rightarrow> task_snapshot res" where
  "task_with task upd = task_snapshot_from_dict (al_merge (task_snapshot_to_dict task) upd)"

text \<open>\<open>{task.task_id: task for task in tasks}\<close>\<close>

definition task_dict :: "task_snapshot list \<Rightarrow> (string \<times> task_snapshot) list" where
  "task_dict tasks = al_merge [] (map (\<lambda>t. (ts_task_id t, t)) tasks)"

definition task_or :: "(string \<times> task_snapshot) list \<Rightarrow> string \<Rightarrow> task_snapshot \<Rightarrow> task_snapshot" where
  "task_or tasks i dflt = (case map_of tasks i of None \<Rightarrow> dflt | Some t \<Rightarrow> t)"

definition source_of :: "task_snapshot \<Rightarrow> task_snapshot \<Rightarrow> string" where
  "source_of task source_task = (case ts_source_task_id task of
     None \<Rightarrow> ts_task_id source_task | Some s \<Rightarrow> str_or s (ts_task_id source_task))"

definition normalize_proposed_task :: "task_snapshot \<Rightarrow> task_snapshot \<Rightarrow> task_snapshot res" where
  "normalize_proposed_task source_task task = task_with task
     [(''depends_on'', pstrs (filter (\<lambda>d. d \<noteq> ts_task_id source_task) (ts_depends_on task))),
      (''source_task_id'', PStr (source_of task source_task)),
      (''history'', pstrs (dedup (ts_task_id source_task # ts_history task)))]"

definition normalize_metadata_update_task :: "task_snapshot \<Rightarrow> task_snapshot \<Rightarrow> task_snapshot res" where
  "normalize_metadata_update_task source_task task = task_with task
     [(''source_task_id'', PStr (source_of source_task source_task)),
      (''history'', pstrs (dedup (ts_history source_task @ [ts_task_id source_task] @ ts_history task)))]"

definition terminal_proposed_task_ids :: "task_snapshot list \<Rightarrow> string list" where
  "terminal_proposed_task_ids proposed =
     (let dependent_ids = concat (map ts_depends_on proposed)
      in map ts_task_id (filter (\<lambda>t. ts_task_id t \<notin> set dependent_ids) proposed))"

definition rewire_dependencies :: "string list \<Rightarrow> string \<Rightarrow> string list \<Rightarrow> string list" where
  "rewire_dependencies dependencies source_task_id replacement_ids =
     (if source_task_id \<notin> set dependencies then dependencies
      else foldl (\<lambda>rewired dependency.
             if dependency \<noteq> source_task_id then rewired @ [dependency]
             else foldl (\<lambda>rewired r. if r \<in> set rewired then rewired else rewired @ [r]) rewired replacement_ids)
           [] dependencies)"

definition recalculate_task ::
    "task_snapshot \<Rightarrow> string list \<Rightarrow> task_snapshot list \<Rightarrow> string \<Rightarrow> task_snapshot res" where
  "recalculate_task task rewritten_depends revised_tasks source_task_id =
     (if rewritten_depends = ts_depends_on task then Inr task
      else if ts_status task \<in> {''completed'', ''superseded''} then Inr task
      else
        let revised_map = task_dict revised_tasks;
            new_status =
              (if rewritten_depends \<noteq> []
                  \<and> (\<forall>d \<in> set rewritten_depends. ts_status (task_or revised_map d task) = ''completed'')
               then ''ready''
               else if ts_status task = ''ready'' \<and> source_task_id \<in> set (ts_depends_on task) then ''blocked''
               else ts_status task)
        in task_with task [(''depends_on'', pstrs rewritten_depends), (''status'', PStr new_status)])"

subsection \<open>The revised graph\<close>

definition replaced_in_place :: "task_snapshot \<Rightarrow> task_snapshot list \<Rightarrow> bool" where
  "replaced_in_place source_task proposed \<longleftrightarrow>
     length proposed = 1 \<and> ts_task_id (hd proposed) = ts_task_id source_task"

definition supersede_task :: "task_snapshot \<Rightarrow> string list \<Rightarrow> task_snapshot res" where
  "supersede_task task replacement_ids = task_with task
     [(''status'', PStr ''superseded''), (''writable_paths'', pstrs []),
      (''superseded_by'', pstrs replacement_ids),
      (''history'', pstrs (dedup (ts_history task @ [ts_task_id task])))]"

text \<open>One existing task in the loop: what it adds to the revised tasks.\<close>

definition revise_task ::
    "string \<Rightarrow> string list \<Rightarrow> task_snapshot list \<Rightarrow> task_snapshot \<Rightarrow> task_snapshot list \<Rightarrow> task_snapshot list res" where
  "revise_task source_id replacement_ids normalized_proposed task revised =
     (if ts_task_id task = source_id then
        rbind (supersede_task task replacement_ids) (\<lambda>superseded.
        Inr (revised @ superseded # normalized_proposed))
      else
        rbind (recalculate_task task (rewire_dependencies (ts_depends_on task) source_id replacement_ids)
                 revised source_id) (\<lambda>task'.
        Inr (revised @ [task'])))"

definition check_revised :: "task_snapshot \<Rightarrow> task_snapshot list \<Rightarrow> task_snapshot list \<Rightarrow> task_snapshot list res" where
  "check_revised source_task existing revised =
     (if ts_task_id source_task \<notin> ts_task_id ` set existing
      then value_error (''Source task was not found in the active runtime revision: '' @ ts_task_id source_task)
      else
        rbind (validate_dependency_graph revised) (\<lambda>_.
        rbind (validate_path_overlap revised) (\<lambda>_. Inr revised)))"

definition build_revised_task_graph ::
    "task_snapshot \<Rightarrow> task_snapshot list \<Rightarrow> task_snapshot list \<Rightarrow> task_snapshot list res" where
  "build_revised_task_graph source_task proposed existing =
     (if existing = [] then Inr (source_task # proposed)
      else
        let existing_ids = map ts_task_id existing;
            proposed_ids = map ts_task_id proposed;
            source_id = ts_task_id source_task in
        if \<not> distinct existing_ids then value_error ''Task IDs must be unique in the source revision.''
        else if \<not> distinct proposed_ids
        then value_error ''Duplicate task IDs are not allowed in the proposed revision.''
        else if replaced_in_place source_task proposed then
          rbind (normalize_metadata_update_task source_task (hd proposed)) (\<lambda>updated.
          check_revised source_task existing
            (map (\<lambda>t. if ts_task_id t = source_id then updated else t) existing))
        else
          let collisions = sort (filter (\<lambda>i. i \<noteq> source_id \<and> i \<in> set existing_ids) proposed_ids) in
          if collisions \<noteq> []
          then value_error (''Proposed task IDs already exist in the runtime revision: '' @ join '', '' collisions)
          else
            rbind (rmap_list (normalize_proposed_task source_task) proposed) (\<lambda>normalized.
            rbind (rfold (revise_task source_id (terminal_proposed_task_ids proposed) normalized) existing [])
              (check_revised source_task existing)))"

subsection \<open>What changed\<close>

record runtime_graph_diff =
  gd_source_task_id :: string
  gd_affected_completed_tasks :: "string list"
  gd_affected_pending_tasks :: "string list"
  gd_resume_candidates :: "string list"
  gd_dependency_changes :: "dependency_change list"
  gd_requirement_mappings :: "requirement_mapping list"
  gd_task_changes :: "task_change list"
  gd_writable_path_diff :: "string list"
  gd_revised_tasks :: "task_snapshot list"

definition build_task_changes :: "task_snapshot \<Rightarrow> task_snapshot list \<Rightarrow> task_change list" where
  "build_task_changes source_task proposed =
     (let source_id = ts_task_id source_task in
      if replaced_in_place source_task proposed then
        [\<lparr>tc_task_id = source_id, tc_change_type = ''updated'', tc_prior_status = ts_status source_task,
          tc_new_status = ts_status (hd proposed), tc_summary = source_id @ '' updated in place''\<rparr>]
      else
        \<lparr>tc_task_id = source_id, tc_change_type = ''superseded'', tc_prior_status = ts_status source_task,
         tc_new_status = ''superseded'',
         tc_summary = source_id @ '' superseded by '' @ join '', '' (map ts_task_id proposed)\<rparr>
        # map (\<lambda>t. \<lparr>tc_task_id = ts_task_id t, tc_change_type = ''added'', tc_prior_status = [],
              tc_new_status = ts_status t,
              tc_summary = ts_task_id t @ '' added to the replacement graph''\<rparr>) proposed)"

definition dependency_changes_of ::
    "task_snapshot list \<Rightarrow> task_snapshot list \<Rightarrow> task_snapshot list \<Rightarrow> dependency_change list" where
  "dependency_changes_of proposed existing revised =
     (let existing_by_id = task_dict existing; proposed_ids = map ts_task_id proposed;
          prior = (\<lambda>t. ts_depends_on (task_or existing_by_id (ts_task_id t) t)) in
      map (\<lambda>t. \<lparr>dc_task_id = ts_task_id t, dc_prior_dependencies = prior t, dc_new_dependencies = ts_depends_on t,
             dc_summary = (if ts_task_id t \<notin> set proposed_ids then ''dependency rewired after task replacement''
                           else ''new task dependencies'')\<rparr>)
        (filter (\<lambda>t. ts_task_id t \<in> set proposed_ids \<or> prior t \<noteq> ts_depends_on t) revised))"

definition requirement_mappings_of :: "task_snapshot list \<Rightarrow> requirement_mapping list" where
  "requirement_mappings_of tasks =
     map (\<lambda>r. \<lparr>rm_requirement_id = r,
            rm_task_ids = map ts_task_id (filter (\<lambda>t. r \<in> set (ts_requirement_ids t)) tasks),
            rm_source = ''application''\<rparr>)
       (sorted_set (concat (map ts_requirement_ids tasks)))"

definition diff_runtime_graph ::
    "task_snapshot \<Rightarrow> task_snapshot list \<Rightarrow> task_snapshot list \<Rightarrow> runtime_graph_diff res" where
  "diff_runtime_graph source_task proposed existing =
     rbind (build_revised_task_graph source_task proposed existing) (\<lambda>revised.
     Inr \<lparr>gd_source_task_id = ts_task_id source_task,
       gd_affected_completed_tasks = map ts_task_id (filter (\<lambda>t. ts_status t = ''completed'') revised),
       gd_affected_pending_tasks = map ts_task_id (filter (\<lambda>t. ts_status t \<noteq> ''completed'') revised),
       gd_resume_candidates = map ts_task_id (filter (\<lambda>t. ts_status t = ''ready'') revised),
       gd_dependency_changes = dependency_changes_of proposed existing revised,
       gd_requirement_mappings = requirement_mappings_of revised,
       gd_task_changes = build_task_changes source_task proposed,
       gd_writable_path_diff = sorted_set (concat (map ts_writable_paths proposed)),
       gd_revised_tasks = revised\<rparr>)"

subsection \<open>Revisions\<close>

definition build_runtime_graph_revision ::
    "codecs \<Rightarrow> string \<Rightarrow> string option \<Rightarrow> string \<Rightarrow> string \<Rightarrow> task_snapshot list \<Rightarrow>
     requirement_mapping list \<Rightarrow> dependency_change list \<Rightarrow> string list \<Rightarrow> rollback_metadata \<Rightarrow>
     string list \<Rightarrow> runtime_plan_revision res" where
  "build_runtime_graph_revision c revision_id parent_revision_id application_id created_at tasks
     requirement_mappings dependency_changes change_summary rollback_metadata audit_event_ids =
     rbind (validate_dependency_graph tasks) (\<lambda>_.
     rbind (validate_path_overlap tasks) (\<lambda>_.
     let revision = \<lparr>rp_schema_version = 1, rp_revision_id = revision_id,
           rp_parent_revision_id = parent_revision_id, rp_application_id = application_id,
           rp_created_at = created_at, rp_task_graph = tasks,
           rp_task_statuses = al_merge [] (map (\<lambda>t. (ts_task_id t, ts_status t)) tasks),
           rp_requirement_mappings = requirement_mappings, rp_dependency_mappings = dependency_changes,
           rp_graph_checksum = checksum_text c (yaml_dump c True
             (PList (map (\<lambda>t. PDict (task_snapshot_to_dict t)) tasks))),
           rp_revision_checksum = [], rp_change_summary = change_summary,
           rp_rollback_metadata = rollback_metadata, rp_audit_event_ids = audit_event_ids\<rparr>
     in runtime_plan_revision_from_dict (al_set ''revision_checksum''
          (PStr (checksum_text c (yaml_dump c True (PDict (runtime_plan_revision_to_dict revision)))))
          (runtime_plan_revision_to_dict revision))))"

subsection \<open>What the helpers return\<close>

lemma normalize_proposed_result:
  "normalize_proposed_task src t = Inr (t\<lparr>ts_depends_on := filter (\<lambda>d. d \<noteq> ts_task_id src) (ts_depends_on t),
     ts_source_task_id := maybe_text (PStr (source_of t src)), ts_history := dedup (ts_task_id src # ts_history t)\<rparr>)"
  by (simp add: normalize_proposed_task_def task_with_def task_snapshot_from_dict_def codec_simps)

lemma supersede_result:
  "supersede_task t ids = Inr (t\<lparr>ts_status := ''superseded'', ts_writable_paths := [], ts_superseded_by := ids,
     ts_source_task_id := maybe_text (opt_str (ts_source_task_id t)),
     ts_history := dedup (ts_history t @ [ts_task_id t])\<rparr>)"
  by (simp add: supersede_task_def task_with_def task_snapshot_from_dict_def codec_simps
      fstrs_Some [where xs = "[]", simplified])

lemma task_with_depends:
  "task_with t [(''depends_on'', pstrs ds), (''status'', PStr s)] =
     Inr (t\<lparr>ts_depends_on := ds, ts_status := s, ts_source_task_id := maybe_text (opt_str (ts_source_task_id t))\<rparr>)"
  by (simp add: task_with_def task_snapshot_from_dict_def codec_simps)

definition closed_task :: "task_snapshot \<Rightarrow> bool" where
  "closed_task t \<longleftrightarrow> ts_status t \<in> {''completed'', ''superseded''}"

lemma recalculate_result:
  obtains t' where "recalculate_task t ds revised s = Inr t'"
    and "ts_task_id t' = ts_task_id t" "ts_writable_paths t' = ts_writable_paths t"
    and "ts_requirement_ids t' = ts_requirement_ids t"
    and "closed_task t \<longrightarrow> t' = t" "\<not> closed_task t \<longrightarrow> ts_depends_on t' = ds"
  by (rule that [of "if ds = ts_depends_on t \<or> closed_task t then t
        else t\<lparr>ts_depends_on := ds, ts_status := (if ds \<noteq> []
              \<and> (\<forall>d \<in> set ds. ts_status (task_or (task_dict revised) d t) = ''completed'') then ''ready''
            else if ts_status t = ''ready'' \<and> s \<in> set (ts_depends_on t) then ''blocked'' else ts_status t),
          ts_source_task_id := maybe_text (opt_str (ts_source_task_id t))\<rparr>"])
    (auto simp: recalculate_task_def Let_def task_with_depends closed_task_def)

lemma set_add_new:
  "set (foldl (\<lambda>rewired r. if r \<in> set rewired then rewired else rewired @ [r]) xs ids) = set xs \<union> set ids"
  by (induction ids arbitrary: xs) auto

lemma set_rewire:
  "set (rewire_dependencies ds s ids) = (if s \<in> set ds then set ds - {s} \<union> set ids else set ds)"
proof -
  have "set (foldl (\<lambda>rewired d. if d \<noteq> s then rewired @ [d]
        else foldl (\<lambda>rewired r. if r \<in> set rewired then rewired else rewired @ [r]) rewired ids) xs ds)
      = set xs \<union> (set ds - {s}) \<union> (if s \<in> set ds then set ids else {})" for xs
    by (induction ds arbitrary: xs) (auto simp: set_add_new)
  from this [of "[]"] show ?thesis by (simp add: rewire_dependencies_def)
qed

subsection \<open>The loop over the existing tasks\<close>

text \<open>What becomes of one existing task.\<close>

definition revised_as ::
    "string \<Rightarrow> string list \<Rightarrow> task_snapshot list \<Rightarrow> task_snapshot \<Rightarrow> task_snapshot list \<Rightarrow> bool" where
  "revised_as s ids added t block \<longleftrightarrow>
     (if ts_task_id t = s then
        \<exists>u. block = u # added \<and> ts_task_id u = s \<and> ts_status u = ''superseded'' \<and> ts_writable_paths u = []
          \<and> ts_depends_on u = ts_depends_on t \<and> ts_requirement_ids u = ts_requirement_ids t
      else
        \<exists>u. block = [u] \<and> ts_task_id u = ts_task_id t \<and> ts_writable_paths u = ts_writable_paths t
          \<and> ts_requirement_ids u = ts_requirement_ids t \<and> (closed_task t \<longrightarrow> u = t)
          \<and> (\<not> closed_task t \<longrightarrow> ts_depends_on u = rewire_dependencies (ts_depends_on t) s ids))"

lemma revise_task_result:
  obtains block where "revise_task s ids added t revised = Inr (revised @ block)" and "revised_as s ids added t block"
proof (cases "ts_task_id t = s")
  case True
  then show thesis
    by (intro that) (auto simp: revise_task_def supersede_result revised_as_def)
next
  case False
  obtain u where "recalculate_task t (rewire_dependencies (ts_depends_on t) s ids) revised s = Inr u"
    "ts_task_id u = ts_task_id t" "ts_writable_paths u = ts_writable_paths t"
    "ts_requirement_ids u = ts_requirement_ids t" "closed_task t \<longrightarrow> u = t"
    "\<not> closed_task t \<longrightarrow> ts_depends_on u = rewire_dependencies (ts_depends_on t) s ids"
    by (rule recalculate_result [of t "rewire_dependencies (ts_depends_on t) s ids" revised s])
  with False show thesis
    by (intro that [of "[u]"]) (auto simp: revise_task_def revised_as_def)
qed

lemma revise_loop_result:
  obtains blocks where "rfold (revise_task s ids added) existing revised = Inr (revised @ concat blocks)"
    and "list_all2 (revised_as s ids added) existing blocks"
proof (induction existing arbitrary: revised thesis)
  case Nil
  then show ?case by simp
next
  case (Cons t ts)
  obtain block where block: "revise_task s ids added t revised = Inr (revised @ block)" "revised_as s ids added t block"
    by (rule revise_task_result)
  obtain blocks where "rfold (revise_task s ids added) ts (revised @ block) = Inr ((revised @ block) @ concat blocks)"
    "list_all2 (revised_as s ids added) ts blocks" by (rule Cons.IH)
  with block show ?case by (intro Cons.prems [of "block # blocks"]) auto
qed

lemma revised_blocks:
  assumes "list_all2 (revised_as s ids added) existing blocks"
  shows "u \<in> set (concat blocks) \<Longrightarrow> \<exists>t \<in> set existing. \<exists>block \<in> set blocks. revised_as s ids added t block \<and> u \<in> set block"
    and "t \<in> set existing \<Longrightarrow> \<exists>block \<in> set blocks. revised_as s ids added t block"
  using assms by (induction rule: list_all2_induct) auto

lemma task_edge_iff:
  assumes "distinct (map ts_task_id tasks)"
  shows "(a, b) \<in> graph_edges (task_edges tasks) \<longleftrightarrow> (\<exists>t \<in> set tasks. ts_task_id t = a \<and> b \<in> set (ts_depends_on t))"
proof -
  have "edges_of (task_edges tasks) (ts_task_id t) = ts_depends_on t" if "t \<in> set tasks" for t
    using assms that by (simp add: edges_of_def task_edges_def map_of_keyed)
  moreover have "edges_of (task_edges tasks) a = []" if "a \<notin> set (map ts_task_id tasks)"
    using that by (force simp: edges_of_def task_edges_def dest: map_of_SomeD split: option.splits)
  ultimately show ?thesis by (fastforce simp: depends_def)
qed

subsection \<open>A task replaced by subtasks\<close>

lemma replaced_run:
  assumes "existing \<noteq> []" and "\<not> replaced_in_place src proposed"
    and "build_revised_task_graph src proposed existing = Inr revised"
  obtains added blocks where "rmap_list (normalize_proposed_task src) proposed = Inr added"
    and "revised = concat blocks"
    and "list_all2 (revised_as (ts_task_id src) (terminal_proposed_task_ids proposed) added) existing blocks"
    and "ts_task_id src \<in> ts_task_id ` set existing" "sound_tasks revised" "validate_path_overlap revised = Inr ()"
proof -
  from assms obtain added graph where *: "rmap_list (normalize_proposed_task src) proposed = Inr added"
    "rfold (revise_task (ts_task_id src) (terminal_proposed_task_ids proposed) added) existing [] = Inr graph"
    "check_revised src existing graph = Inr revised"
    by (auto simp: build_revised_task_graph_def Let_def split: if_splits)
  obtain blocks where "rfold (revise_task (ts_task_id src) (terminal_proposed_task_ids proposed) added) existing []
      = Inr ([] @ concat blocks)"
    "list_all2 (revised_as (ts_task_id src) (terminal_proposed_task_ids proposed) added) existing blocks"
    by (rule revise_loop_result)
  with * show thesis
    by (intro that) (auto simp: check_revised_def split: if_splits)
qed

lemma normalize_all: "rmap_list (normalize_proposed_task src) proposed
  = Inr (map (\<lambda>t. t\<lparr>ts_depends_on := filter (\<lambda>d. d \<noteq> ts_task_id src) (ts_depends_on t),
     ts_source_task_id := maybe_text (PStr (source_of t src)), ts_history := dedup (ts_task_id src # ts_history t)\<rparr>) proposed)"
  by (rule rmap_list_cong_Inr) (rule normalize_proposed_result)

lemma added_tasks:
  assumes "rmap_list (normalize_proposed_task src) proposed = Inr added"
  shows "map ts_task_id added = map ts_task_id proposed"
    and "a \<in> set added \<Longrightarrow> \<exists>p \<in> set proposed. ts_task_id a = ts_task_id p
      \<and> ts_depends_on a = filter (\<lambda>d. d \<noteq> ts_task_id src) (ts_depends_on p)"
proof -
  have "added = map (\<lambda>t. t\<lparr>ts_depends_on := filter (\<lambda>d. d \<noteq> ts_task_id src) (ts_depends_on t),
     ts_source_task_id := maybe_text (PStr (source_of t src)), ts_history := dedup (ts_task_id src # ts_history t)\<rparr>) proposed"
    using assms by (simp add: normalize_all)
  then show "map ts_task_id added = map ts_task_id proposed"
    and "a \<in> set added \<Longrightarrow> \<exists>p \<in> set proposed. ts_task_id a = ts_task_id p
      \<and> ts_depends_on a = filter (\<lambda>d. d \<noteq> ts_task_id src) (ts_depends_on p)"
    by (auto simp: comp_def)
qed


text \<open>The identifiers of the new graph.\<close>

lemma revised_ids:
  assumes "list_all2 (revised_as s ids added) existing blocks"
  shows "map ts_task_id (concat blocks)
    = concat (map (\<lambda>t. if ts_task_id t = s then s # map ts_task_id added else [ts_task_id t]) existing)"
  using assms by (induction rule: list_all2_induct) (auto simp: revised_as_def)

lemma distinct_replaced:
  "distinct ids \<Longrightarrow> distinct new \<Longrightarrow> set new \<inter> set ids = {} \<Longrightarrow>
   distinct (concat (map (\<lambda>i. if i = s then s # new else [i]) ids))"
  by (induction ids) (auto split: if_splits)

lemma sound_edges:
  assumes "sound_tasks tasks"
  shows "acyclic {(ts_task_id t, d) | t d. t \<in> set tasks \<and> d \<in> set (ts_depends_on t)}"
    and "finite {(ts_task_id t, d) | t d. t \<in> set tasks \<and> d \<in> set (ts_depends_on t)}"
proof -
  have "graph_edges (task_edges tasks) = {(ts_task_id t, d) | t d. t \<in> set tasks \<and> d \<in> set (ts_depends_on t)}"
    using assms by (auto simp: task_edge_iff sound_tasks_def)
  then show "acyclic {(ts_task_id t, d) | t d. t \<in> set tasks \<and> d \<in> set (ts_depends_on t)}"
    using assms by (simp add: sound_tasks_def)
  have "{(ts_task_id t, d) | t d. t \<in> set tasks \<and> d \<in> set (ts_depends_on t)}
      = (\<Union>t \<in> set tasks. Pair (ts_task_id t) ` set (ts_depends_on t))" by auto
  then show "finite {(ts_task_id t, d) | t d. t \<in> set tasks \<and> d \<in> set (ts_depends_on t)}" by simp
qed

text \<open>
  Two acyclic relations stay acyclic when the second one, on new nodes, takes the place of a
  node of the first.
\<close>

lemma acyclic_replaced:
  assumes "acyclic R" "finite R" "acyclic S" "finite S"
    and "\<And>a b. (a, b) \<in> T \<Longrightarrow> (f a, f b) \<in> R \<or> (f a = f b \<and> (a, b) \<in> S)"
  shows "acyclic T"
proof -
  have "wf (R\<inverse> <*lex*> S\<inverse>)"
    using assms(1-4) by (simp add: finite_acyclic_wf_converse wf_lex_prod)
  then have "wf (inv_image (R\<inverse> <*lex*> S\<inverse>) (\<lambda>a. (f a, a)))" by simp
  moreover have "T\<inverse> \<subseteq> inv_image (R\<inverse> <*lex*> S\<inverse>) (\<lambda>a. (f a, a))"
    by (auto simp: in_inv_image dest!: assms(5))
  ultimately have "wf (T\<inverse>)" using wf_subset by blast
  then show ?thesis by (metis acyclic_converse wf_acyclic)
qed

text \<open>
  Only overlapping paths can refuse a replacement: a sound graph and sound new tasks with
  new identifiers always give a sound graph, whatever the dependencies of the replaced task
  and of its dependents are.
\<close>

theorem replacement_keeps_soundness:
  assumes old: "sound_tasks existing" and new: "sound_tasks proposed"
    and src: "ts_task_id src \<in> ts_task_id ` set existing"
    and fresh: "ts_task_id ` set proposed \<inter> ts_task_id ` set existing = {}"
  shows "\<exists>revised. sound_tasks revised \<and>
    build_revised_task_graph src proposed existing = rbind (validate_path_overlap revised) (\<lambda>_. Inr revised)"
proof -
  let ?s = "ts_task_id src" and ?ids = "terminal_proposed_task_ids proposed"
  let ?R = "{(ts_task_id t, d) | t d. t \<in> set existing \<and> d \<in> set (ts_depends_on t)}"
  let ?S = "{(ts_task_id t, d) | t d. t \<in> set proposed \<and> d \<in> set (ts_depends_on t)}"
  obtain added where added: "rmap_list (normalize_proposed_task src) proposed = Inr added"
    by (simp add: normalize_all)
  obtain blocks where loop: "rfold (revise_task ?s ?ids added) existing [] = Inr ([] @ concat blocks)"
    and blocks: "list_all2 (revised_as ?s ?ids added) existing blocks"
    by (rule revise_loop_result)
  let ?rev = "concat blocks"
  note ra = revised_blocks [OF blocks] and ad = added_tasks [OF added]
  have dist: "distinct (map ts_task_id existing)" "distinct (map ts_task_id proposed)"
    using old new by (simp_all add: sound_tasks_def)
  have ids: "map ts_task_id ?rev
      = concat (map (\<lambda>i. if i = ?s then ?s # map ts_task_id proposed else [i]) (map ts_task_id existing))"
    unfolding revised_ids [OF blocks] ad(1) by (simp add: comp_def)
  have "distinct (map ts_task_id ?rev)"
    unfolding ids by (rule distinct_replaced) (use dist fresh in auto)
  have idset: "set (map ts_task_id ?rev) = ts_task_id ` set existing \<union> ts_task_id ` set proposed"
    unfolding ids using src by auto
  have known: "d \<in> ts_task_id ` set existing" if "t \<in> set existing" "d \<in> set (ts_depends_on t)" for t d
    using old that by (auto simp: sound_tasks_def list_all_iff)
  have known': "d \<in> ts_task_id ` set proposed" if "p \<in> set proposed" "d \<in> set (ts_depends_on p)" for p d
    using new that by (auto simp: sound_tasks_def list_all_iff)
  have terminal: "d \<in> ts_task_id ` set proposed" if "d \<in> set ?ids" for d
    using that by (auto simp: terminal_proposed_task_ids_def Let_def)
  let ?f = "\<lambda>i. if i \<in> ts_task_id ` set proposed then ?s else i"
  have edge: "(?f (ts_task_id u), ?f d) \<in> ?R \<or> (?f (ts_task_id u) = ?f d \<and> (ts_task_id u, d) \<in> ?S)"
    and there: "d \<in> ts_task_id ` set existing \<union> ts_task_id ` set proposed"
    if u: "u \<in> set ?rev" "d \<in> set (ts_depends_on u)" for u d
  proof -
    obtain t b where t: "t \<in> set existing" "revised_as ?s ?ids added t b" "u \<in> set b"
      using ra(1) [OF u(1)] by blast
    consider (added) "u \<in> set added" | (kept) "ts_task_id u = ts_task_id t" "d \<in> set (ts_depends_on t)"
      | (rewired) "ts_task_id u = ts_task_id t" "?s \<in> set (ts_depends_on t)" "d \<in> set ?ids"
      using t(2,3) u(2) by (auto simp: revised_as_def set_rewire split: if_splits)
    then have "((?f (ts_task_id u), ?f d) \<in> ?R \<or> (?f (ts_task_id u) = ?f d \<and> (ts_task_id u, d) \<in> ?S))
        \<and> d \<in> ts_task_id ` set existing \<union> ts_task_id ` set proposed"
    proof cases
      case added
      then obtain p where "p \<in> set proposed" "ts_task_id u = ts_task_id p" "d \<in> set (ts_depends_on p)"
        using ad(2) u(2) by fastforce
      with known' [of p d] show ?thesis by auto
    next
      case kept
      with known [OF t(1) kept(2)] t(1) fresh show ?thesis by (auto simp: disjoint_iff)
    next
      case rewired
      with terminal [of d] t(1) fresh show ?thesis by (auto simp: disjoint_iff)
    qed
    then show "(?f (ts_task_id u), ?f d) \<in> ?R \<or> (?f (ts_task_id u) = ?f d \<and> (ts_task_id u, d) \<in> ?S)"
      and "d \<in> ts_task_id ` set existing \<union> ts_task_id ` set proposed" by simp_all
  qed
  have "acyclic (graph_edges (task_edges ?rev))"
  proof (rule acyclic_replaced [OF sound_edges [OF old] sound_edges [OF new]])
    fix a b assume "(a, b) \<in> graph_edges (task_edges ?rev)"
    then obtain u where "u \<in> set ?rev" "ts_task_id u = a" "b \<in> set (ts_depends_on u)"
      using task_edge_iff [OF \<open>distinct (map ts_task_id ?rev)\<close>] by blast
    with edge [of u b] show "(?f a, ?f b) \<in> ?R \<or> (?f a = ?f b \<and> (a, b) \<in> ?S)" by (simp only:)
  qed
  then have sound: "sound_tasks ?rev"
    using \<open>distinct (map ts_task_id ?rev)\<close> there idset by (auto simp: sound_tasks_def list_all_iff)
  have "existing \<noteq> []" "\<not> replaced_in_place src proposed"
    using src fresh by (auto simp: replaced_in_place_def length_Suc_conv)
  moreover have "filter (\<lambda>i. i \<noteq> ?s \<and> i \<in> set (map ts_task_id existing)) (map ts_task_id proposed) = []"
    using fresh by (auto simp: filter_empty_conv)
  ultimately have "build_revised_task_graph src proposed existing
      = rbind (validate_path_overlap ?rev) (\<lambda>_. Inr ?rev)"
    using dist src validate_tasks_ok [THEN iffD2, OF sound] added loop
    by (simp add: build_revised_task_graph_def Let_def check_revised_def del: validate_tasks_ok)
  with sound show ?thesis by blast
qed

definition sample_task :: "string \<Rightarrow> string list \<Rightarrow> string list \<Rightarrow> task_snapshot" where
  "sample_task i deps paths = \<lparr>ts_task_id = i, ts_title = i, ts_role = ''backend'', ts_depends_on = deps,
     ts_requirement_ids = [''R1''], ts_required_context = [], ts_writable_paths = paths, ts_expected_outputs = [''o''],
     ts_validation_steps = [''v''], ts_token_estimate = Some 10, ts_usable_input_tokens = Some 100,
     ts_status = ''ready'', ts_source_task_id = None, ts_superseded_by = [], ts_history = []\<rparr>"

definition sample_graph_tasks :: "task_snapshot list" where
  "sample_graph_tasks = [sample_task ''a'' [] [''x''], sample_task ''b'' [''a''] [''y'']]"

definition sample_subtasks :: "task_snapshot list" where
  "sample_subtasks = [sample_task ''a1'' [] [''x/1''], sample_task ''a2'' [''a1''] [''x/2'']]"

lemma sample_tasks_sound: "sound_tasks sample_graph_tasks" "sound_tasks sample_subtasks"
proof -
  have "validate_dependency_graph sample_graph_tasks = Inr ()" "validate_dependency_graph sample_subtasks = Inr ()"
    by code_simp+
  then show "sound_tasks sample_graph_tasks" "sound_tasks sample_subtasks" by simp_all
qed

theorem replacement_keeps_soundness_witness:
  "\<exists>revised. sound_tasks revised \<and>
    build_revised_task_graph (sample_task ''a'' [] [''x'']) sample_subtasks sample_graph_tasks
      = rbind (validate_path_overlap revised) (\<lambda>_. Inr revised)"
  by (rule replacement_keeps_soundness [OF sample_tasks_sound])
    (simp_all add: sample_graph_tasks_def sample_subtasks_def sample_task_def)


end
