(* ===== verification/AppStore.thy ===== *)
theory AppStore
  imports AppValidation DocStore
begin

text \<open>
  \<open>cloud_application/persistence.py\<close>, \<open>transactions.py\<close>, \<open>audit.py\<close> and \<open>publication.py\<close>:
  where applications, plans, revisions, the active pointer, leases, publications and
  transactions are kept, and the gate a result passes before it is published.
\<close>

subsection \<open>Paths\<close>

definition application_root_path :: "path \<Rightarrow> path" where
  "application_root_path project = project @ [''.agentic'', ''cloud_applications'']"

definition runtime_plan_path :: "path \<Rightarrow> path" where
  "runtime_plan_path project = project @ [''.agentic'', ''runtime_plans'']"

definition application_path :: "path \<Rightarrow> string \<Rightarrow> path" where
  "application_path project application_id =
     join_path (application_root_path project @ [''applications'']) (application_id @ ''.yaml'')"

definition application_plan_path :: "path \<Rightarrow> string \<Rightarrow> path" where
  "application_plan_path project application_id =
     join_path (application_root_path project @ [''plans'']) (application_id @ ''.yaml'')"

definition application_audit_log_path :: "path \<Rightarrow> path" where
  "application_audit_log_path project = application_root_path project @ [''audits'', ''application_audit.jsonl'']"

definition application_recovery_path :: "path \<Rightarrow> path" where
  "application_recovery_path project = application_root_path project @ [''recovery'', ''recovery.yaml'']"

definition revision_path :: "path \<Rightarrow> string \<Rightarrow> path" where
  "revision_path project revision_id =
     join_path (runtime_plan_path project @ [''revisions'']) (revision_id @ ''.yaml'')"

definition active_pointer_path :: "path \<Rightarrow> path" where
  "active_pointer_path project = runtime_plan_path project @ [''active.yaml'']"

definition transaction_root_path :: "path \<Rightarrow> path" where
  "transaction_root_path project = runtime_plan_path project @ [''transactions'']"

definition lease_root_path :: "path \<Rightarrow> path" where
  "lease_root_path project = project @ [''.agentic'', ''execution_leases'']"

definition publication_root_path :: "path \<Rightarrow> path" where
  "publication_root_path project = lease_root_path project @ [''publications'']"

definition transaction_path :: "path \<Rightarrow> string \<Rightarrow> path" where
  "transaction_path project transaction_id =
     join_path (transaction_root_path project) (transaction_id @ ''.yaml'')"

definition runtime_active_pointer_path :: "path \<Rightarrow> path" where
  "runtime_active_pointer_path project = active_pointer_path project"

definition execution_lease_path :: "path \<Rightarrow> string \<Rightarrow> path" where
  "execution_lease_path project lease_id = join_path (lease_root_path project) (lease_id @ ''.yaml'')"

definition publication_path :: "path \<Rightarrow> string \<Rightarrow> path" where
  "publication_path project lease_id = join_path (publication_root_path project) (lease_id @ ''.yaml'')"

definition quarantine_path :: "path \<Rightarrow> string \<Rightarrow> path" where
  "quarantine_path project lease_id =
     join_path (lease_root_path project @ [''quarantine'']) (lease_id @ ''.yaml'')"

definition ensure_cloud_application_dirs :: "path \<Rightarrow> disk \<Rightarrow> disk" where
  "ensure_cloud_application_dirs project d =
     (let root = application_root_path project; plans = runtime_plan_path project in
      fold fs_mkdir [root, root @ [''applications''], root @ [''plans''], root @ [''audits''],
        root @ [''recovery''], plans, plans @ [''revisions''], transaction_root_path project,
        lease_root_path project, publication_root_path project] d)"

subsection \<open>Documents\<close>

definition load_yaml_mapping :: "codecs \<Rightarrow> (pydict \<Rightarrow> 'a res) \<Rightarrow> path \<Rightarrow> disk \<Rightarrow> 'a res" where
  "load_yaml_mapping c dec p d = read_mapping c ''Expected a YAML mapping: '' dec p d"

text \<open>What every \<open>save_\<close> function does with its path and mapping.\<close>

definition save_document :: "path \<Rightarrow> path \<Rightarrow> pydict \<Rightarrow> (disk, path) prog" where
  "save_document project p m =
     pbind (pmodify (ensure_cloud_application_dirs project)) (\<lambda>_.
     pbind (pmodify (write_yaml p (PDict m))) (\<lambda>_. pret p))"

definition save_application_record :: "path \<Rightarrow> application_record \<Rightarrow> (disk, path) prog" where
  "save_application_record project r =
     save_document project (application_path project (an_application_id r)) (application_record_to_dict r)"

definition load_application_record :: "codecs \<Rightarrow> path \<Rightarrow> disk \<Rightarrow> application_record res" where
  "load_application_record c p d = load_yaml_mapping c application_record_from_dict p d"

definition save_application_plan :: "path \<Rightarrow> application_plan \<Rightarrow> (disk, path) prog" where
  "save_application_plan project r =
     save_document project (application_plan_path project (ap_application_id r)) (application_plan_to_dict r)"

definition load_application_plan :: "codecs \<Rightarrow> path \<Rightarrow> disk \<Rightarrow> application_plan res" where
  "load_application_plan c p d = load_yaml_mapping c application_plan_from_dict p d"

definition save_runtime_revision :: "path \<Rightarrow> runtime_plan_revision \<Rightarrow> (disk, path) prog" where
  "save_runtime_revision project r =
     save_document project (revision_path project (rp_revision_id r)) (runtime_plan_revision_to_dict r)"

definition load_runtime_revision :: "codecs \<Rightarrow> path \<Rightarrow> disk \<Rightarrow> runtime_plan_revision res" where
  "load_runtime_revision c p d = load_yaml_mapping c runtime_plan_revision_from_dict p d"

definition save_transaction_record :: "path \<Rightarrow> transaction_record \<Rightarrow> (disk, path) prog" where
  "save_transaction_record project r =
     save_document project (transaction_path project (tx_transaction_id r)) (transaction_record_to_dict r)"

definition load_transaction_record :: "codecs \<Rightarrow> path \<Rightarrow> disk \<Rightarrow> transaction_record res" where
  "load_transaction_record c p d = load_yaml_mapping c transaction_record_from_dict p d"

definition save_active_pointer :: "path \<Rightarrow> active_revision_pointer \<Rightarrow> (disk, path) prog" where
  "save_active_pointer project r =
     save_document project (active_pointer_path project) (active_revision_pointer_to_dict r)"

definition load_active_pointer :: "codecs \<Rightarrow> path \<Rightarrow> disk \<Rightarrow> active_revision_pointer res" where
  "load_active_pointer c p d = load_yaml_mapping c active_revision_pointer_from_dict p d"

definition save_execution_lease :: "path \<Rightarrow> execution_lease \<Rightarrow> (disk, path) prog" where
  "save_execution_lease project r =
     save_document project (execution_lease_path project (el_lease_id r)) (execution_lease_to_dict r)"

definition load_execution_lease :: "codecs \<Rightarrow> path \<Rightarrow> disk \<Rightarrow> execution_lease res" where
  "load_execution_lease c p d = load_yaml_mapping c execution_lease_from_dict p d"

definition save_task_publication_record :: "path \<Rightarrow> task_publication_record \<Rightarrow> (disk, path) prog" where
  "save_task_publication_record project r =
     save_document project (publication_path project (tp_lease_id r)) (task_publication_record_to_dict r)"

definition load_task_publication_record :: "codecs \<Rightarrow> path \<Rightarrow> disk \<Rightarrow> task_publication_record res" where
  "load_task_publication_record c p d = load_yaml_mapping c task_publication_record_from_dict p d"

text \<open>\<open>sorted(root.glob("*.yaml"))\<close>\<close>

definition yaml_files :: "path \<Rightarrow> disk \<Rightarrow> path list" where
  "yaml_files root d = map (\<lambda>n. root @ [n])
     (sorted_set (filter (ends_with ''.yaml'') (child_files d root @ child_dirs d root)))"

definition load_runtime_revisions :: "codecs \<Rightarrow> path \<Rightarrow> disk \<Rightarrow> runtime_plan_revision list res" where
  "load_runtime_revisions c project d =
     (let root = runtime_plan_path project @ [''revisions''] in
      if \<not> fs_exists d root then Inr []
      else rmap_list (\<lambda>p. load_runtime_revision c p d) (yaml_files root d))"

definition load_task_publication_records :: "codecs \<Rightarrow> path \<Rightarrow> disk \<Rightarrow> task_publication_record list res" where
  "load_task_publication_records c project d =
     (let root = publication_root_path project in
      if \<not> fs_exists d root then Inr []
      else rmap_list (\<lambda>p. load_task_publication_record c p d) (yaml_files root d))"

definition load_execution_leases :: "codecs \<Rightarrow> path \<Rightarrow> disk \<Rightarrow> execution_lease list res" where
  "load_execution_leases c project d =
     (let root = lease_root_path project in
      if \<not> fs_exists d root then Inr []
      else rmap_list (\<lambda>p. load_execution_lease c p d) (yaml_files root d))"

definition normalized_yaml_checksum :: "codecs \<Rightarrow> pyval \<Rightarrow> string" where
  "normalized_yaml_checksum c payload = checksum_text c (yaml_dump c True payload)"

text \<open>The truth value of an optional text.\<close>

definition has_text :: "string option \<Rightarrow> bool" where
  "has_text v = (case v of None \<Rightarrow> False | Some s \<Rightarrow> s \<noteq> [])"

subsection \<open>Transactions\<close>

definition create_transaction_record ::
    "string \<Rightarrow> string \<Rightarrow> string \<Rightarrow> string \<Rightarrow> string \<Rightarrow> string \<Rightarrow> string \<Rightarrow> string \<Rightarrow> string \<Rightarrow>
     string list \<Rightarrow> string \<Rightarrow> pydict \<Rightarrow> transaction_record" where
  "create_transaction_record transaction_id application_id source_revision_id source_revision_checksum
     proposed_revision_id proposed_revision_checksum expected_active_pointer created_at updated_at
     artifact_paths recovery_action details =
     \<lparr>tx_schema_version = 1, tx_transaction_id = transaction_id, tx_application_id = application_id,
      tx_source_revision_id = source_revision_id, tx_source_revision_checksum = source_revision_checksum,
      tx_proposed_revision_id = proposed_revision_id, tx_proposed_revision_checksum = proposed_revision_checksum,
      tx_expected_active_pointer = expected_active_pointer, tx_phase = ''prepared'',
      tx_artifact_paths = artifact_paths, tx_created_at = created_at, tx_updated_at = updated_at,
      tx_recovery_action = recovery_action, tx_details = details\<rparr>"

text \<open>\<open>details or record.details\<close>: an empty or missing mapping keeps the old one.\<close>

definition save_transaction_phase ::
    "path \<Rightarrow> transaction_record \<Rightarrow> string \<Rightarrow> string \<Rightarrow> string list option \<Rightarrow> pydict \<Rightarrow>
     (disk, transaction_record) prog" where
  "save_transaction_phase project record phase updated_at artifact_paths details =
     pbind (plift (transaction_record_from_dict (al_merge (transaction_record_to_dict record)
       [(''phase'', PStr phase), (''updated_at'', PStr updated_at),
        (''artifact_paths'', pstrs (case artifact_paths of None \<Rightarrow> tx_artifact_paths record | Some ps \<Rightarrow> ps)),
        (''details'', PDict (if details = [] then tx_details record else details)),
        (''recovery_action'', PStr (tx_recovery_action record))]))) (\<lambda>updated.
     pbind (save_transaction_record project updated) (\<lambda>_. pret updated))"

definition load_transaction :: "codecs \<Rightarrow> path \<Rightarrow> string \<Rightarrow> disk \<Rightarrow> transaction_record res" where
  "load_transaction c project transaction_id = load_transaction_record c (transaction_path project transaction_id)"

subsection \<open>Audit log\<close>

definition record_application_audit_event ::
    "codecs \<Rightarrow> path \<Rightarrow> application_audit_event \<Rightarrow> string option \<Rightarrow> (disk, path) prog" where
  "record_application_audit_event c project event made_id =
     pbind (pmodify (ensure_cloud_application_dirs project)) (\<lambda>_.
     let normalized = event\<lparr>ae_event_id := str_or (ae_event_id event)
           (case made_id of None \<Rightarrow> ae_event_id event | Some i \<Rightarrow> i)\<rparr>;
         p = application_audit_log_path project in
     pbind (pmodify (append_log c p (application_audit_event_to_dict normalized))) (\<lambda>_. pret p))"

definition load_application_audit_events :: "codecs \<Rightarrow> path \<Rightarrow> (disk, pyval list) prog" where
  "load_application_audit_events c project =
     pbind (pmodify (ensure_cloud_application_dirs project)) (\<lambda>_.
     pread (read_log c (application_audit_log_path project)))"

end
