(* ===== verification/AppPlanning.thy ===== *)
theory AppPlanning
  imports AppGraph AppStore
begin

text \<open>
  \<open>cloud_application/planning.py\<close>: the active state of the runtime plan, and what a response
  proposes to do with the task a request stands for.
\<close>

subsection \<open>The active state\<close>

record runtime_state =
  rst_pointer :: active_revision_pointer
  rst_revision :: runtime_plan_revision

record planned_application =
  pn_operation :: application_operation
  pn_proposed_tasks :: "task_snapshot list"
  pn_diff :: runtime_graph_diff
  pn_response_requirements :: "string list"
  pn_response_writable_paths :: "string list"
  pn_operation_type :: string

definition load_active_runtime_state :: "codecs \<Rightarrow> path \<Rightarrow> disk \<Rightarrow> runtime_state res" where
  "load_active_runtime_state c project d =
     (let pointer_path = runtime_active_pointer_path project in
      if \<not> fs_exists d pointer_path
      then not_found (''Active runtime pointer does not exist: '' @ path_text pointer_path)
      else
        rbind (load_active_pointer c pointer_path d) (\<lambda>pointer.
        let revision_file = revision_path project (pt_active_revision_id pointer) in
        if \<not> fs_exists d revision_file
        then not_found (''Active runtime revision does not exist: '' @ path_text revision_file)
        else
          rbind (load_runtime_revision c revision_file d) (\<lambda>revision.
          rbind (validate_active_pointer pointer (rp_revision_id revision) (rp_revision_checksum revision)) (\<lambda>_.
          Inr \<lparr>rst_pointer = pointer, rst_revision = revision\<rparr>))))"

definition resolve_source_task :: "runtime_state \<Rightarrow> cloud_queue_request \<Rightarrow> task_snapshot res" where
  "resolve_source_task state request =
     (if strip (rq_source_task_id request) = []
      then value_error ''Cloud queue request does not identify a source task.''
      else if rq_source_plan_revision request \<noteq> []
          \<and> rq_source_plan_revision request \<noteq> rp_revision_id (rst_revision state)
      then value_error ''Request source revision does not match the active revision.''
      else case find (\<lambda>t. ts_task_id t = rq_source_task_id request) (rp_task_graph (rst_revision state)) of
        None \<Rightarrow> not_found (''Source task was not found in the active runtime revision: '' @ rq_source_task_id request)
      | Some task \<Rightarrow>
          if ts_status task \<in> {''superseded'', ''cancelled'', ''canceled''}
          then value_error ''Source task is no longer eligible for application.''
          else Inr task)"

definition supported_operation_type :: "cloud_queue_response \<Rightarrow> string res" where
  "supported_operation_type response =
     (let operation_type = str_or (strip (fstr_or ''replace_task_with_subtasks'' (rs_claims response) ''operation_type''))
            ''replace_task_with_subtasks'' in
      if operation_type \<notin> set SUPPORTED_APPLICATION_OPERATIONS
      then value_error (''Unsupported application operation: '' @ operation_type)
      else Inr operation_type)"

subsection \<open>Proposed tasks\<close>

text \<open>\<open>data.get(k, []) or dflt\<close> as the texts of its items\<close>

definition items_or :: "pydict \<Rightarrow> string \<Rightarrow> string list \<Rightarrow> string list res" where
  "items_or d k dflt =
     rbind (py_iter (py_or (dget_or d k (PList [])) (pstrs dflt))) (\<lambda>xs. Inr (map py_str xs))"

definition REQUIRED_TASK_KEYS :: "string list" where
  "REQUIRED_TASK_KEYS = [''task_id'', ''title'', ''role'', ''depends_on'', ''requirement_ids'', ''required_context'',
     ''writable_paths'', ''expected_outputs'', ''validation_steps'', ''token_estimate'', ''usable_input_tokens'']"

definition bracketed :: "string \<Rightarrow> string" where
  "bracketed s = ''proposed_tasks['' @ s @ '']''"

definition stripped_items :: "pydict \<Rightarrow> string \<Rightarrow> string list res" where
  "stripped_items d k = rbind (fstrs d k) (\<lambda>xs. Inr (map strip xs))"

definition build_subtask :: "task_snapshot \<Rightarrow> nat \<Rightarrow> pydict \<Rightarrow> task_snapshot res" where
  "build_subtask source_task index entry =
     (let missing_keys = sort (filter (\<lambda>k. k \<notin> fst ` set entry) REQUIRED_TASK_KEYS) in
      if missing_keys \<noteq> []
      then value_error (bracketed (nat_dec index) @ '' is missing required fields: '' @ join '', '' missing_keys)
      else
        let task_id = strip (fstr entry ''task_id''); title = strip (fstr entry ''title'');
            role = strip (fstr_or (ts_role source_task) entry ''role'') in
        rbind (stripped_items entry ''requirement_ids'') (\<lambda>requirement_ids.
        rbind (stripped_items entry ''depends_on'') (\<lambda>depends_on.
        rbind (stripped_items entry ''required_context'') (\<lambda>required_context.
        rbind (rbind (fstrs entry ''writable_paths'') (rmap_list normalize_relative_path)) (\<lambda>writable_paths.
        rbind (stripped_items entry ''expected_outputs'') (\<lambda>expected_outputs.
        rbind (stripped_items entry ''validation_steps'') (\<lambda>validation_steps.
        let token_estimate = dget_or entry ''token_estimate'' PNone;
            usable_input_tokens = dget_or entry ''usable_input_tokens'' PNone in
        if task_id = [] then value_error ''proposed_tasks entries require a task_id.''
        else if title = [] then value_error ''proposed_tasks entries require a title.''
        else if requirement_ids = [] then value_error (bracketed task_id @ '' requires requirement_ids.'')
        else if index > 1 \<and> depends_on = [] then value_error (bracketed task_id @ '' requires dependencies.'')
        else if writable_paths = [] then value_error (bracketed task_id @ '' requires writable_paths.'')
        else if expected_outputs = [] then value_error (bracketed task_id @ '' requires expected_outputs.'')
        else if validation_steps = [] then value_error (bracketed task_id @ '' requires validation_steps.'')
        else if token_estimate = PNone then value_error (bracketed task_id @ '' requires token_estimate.'')
        else if usable_input_tokens = PNone then value_error (bracketed task_id @ '' requires usable_input_tokens.'')
        else
          rbind (py_int token_estimate) (\<lambda>estimate.
          rbind (py_int usable_input_tokens) (\<lambda>usable.
          Inr \<lparr>ts_task_id = task_id, ts_title = title, ts_role = str_or role (ts_role source_task),
            ts_depends_on = depends_on, ts_requirement_ids = requirement_ids,
            ts_required_context = required_context, ts_writable_paths = writable_paths,
            ts_expected_outputs = expected_outputs, ts_validation_steps = validation_steps,
            ts_token_estimate = Some estimate, ts_usable_input_tokens = Some usable,
            ts_status = fstr_or ''ready'' entry ''status'', ts_source_task_id = Some (ts_task_id source_task),
            ts_superseded_by = [], ts_history = [ts_task_id source_task]\<rparr>)))))))))"

fun build_subtasks :: "task_snapshot \<Rightarrow> nat \<Rightarrow> pyval list \<Rightarrow> task_snapshot list res" where
  "build_subtasks source_task index [] = Inr []"
| "build_subtasks source_task index (entry # entries) =
     (case entry of
        PDict e \<Rightarrow>
          rbind (build_subtask source_task index e) (\<lambda>task.
          rbind (build_subtasks source_task (Suc index) entries) (\<lambda>tasks. Inr (task # tasks)))
      | _ \<Rightarrow> value_error (bracketed (nat_dec index) @ '' must be a mapping.''))"

definition build_subtask_children :: "cloud_queue_response \<Rightarrow> task_snapshot \<Rightarrow> task_snapshot list res" where
  "build_subtask_children response source_task =
     (case dget (rs_claims response) ''proposed_tasks'' of
        Some (PList (entry # entries)) \<Rightarrow>
          rbind (build_subtasks source_task 1 (entry # entries)) (\<lambda>proposed.
          if \<not> distinct (map ts_task_id proposed)
          then value_error ''Duplicate task IDs are not allowed in the proposed revision.''
          else Inr proposed)
      | _ \<Rightarrow> value_error ''replace_task_with_subtasks requires explicit proposed_tasks.'')"

definition ALLOWED_METADATA_KEYS :: "string list" where
  "ALLOWED_METADATA_KEYS = [''title'', ''role'', ''required_context'', ''writable_paths'', ''expected_outputs'',
     ''validation_steps'', ''token_estimate'', ''usable_input_tokens'', ''depends_on'', ''requirement_ids'']"

definition stripped_items_or :: "pydict \<Rightarrow> string \<Rightarrow> string list \<Rightarrow> string list res" where
  "stripped_items_or d k dflt = rbind (items_or d k dflt) (\<lambda>xs. Inr (map strip xs))"

definition build_metadata_update_task :: "cloud_queue_response \<Rightarrow> task_snapshot \<Rightarrow> task_snapshot list res" where
  "build_metadata_update_task response source_task =
     (case dget (rs_claims response) ''task_metadata'' of
        Some (PDict (entry # entries)) \<Rightarrow>
          let metadata = entry # entries;
              disallowed = filter (\<lambda>k. k \<notin> set ALLOWED_METADATA_KEYS) (map fst metadata) in
          if disallowed \<noteq> []
          then value_error (''update_task_metadata contains unsupported fields: '' @ join '', '' (sort disallowed))
          else
            rbind (stripped_items_or metadata ''required_context'' (ts_required_context source_task)) (\<lambda>context.
            rbind (rbind (items_or metadata ''writable_paths'' (ts_writable_paths source_task))
                     (rmap_list normalize_relative_path)) (\<lambda>paths.
            rbind (stripped_items_or metadata ''expected_outputs'' (ts_expected_outputs source_task)) (\<lambda>outputs.
            rbind (stripped_items_or metadata ''validation_steps'' (ts_validation_steps source_task)) (\<lambda>steps.
            rbind (task_with source_task
              [(''title'', PStr (str_or (strip (fstr_or (ts_title source_task) metadata ''title'')) (ts_title source_task))),
               (''role'', PStr (str_or (strip (fstr_or (ts_role source_task) metadata ''role'')) (ts_role source_task))),
               (''required_context'', pstrs context), (''writable_paths'', pstrs paths),
               (''expected_outputs'', pstrs outputs), (''validation_steps'', pstrs steps),
               (''token_estimate'', dget_or metadata ''token_estimate'' (opt_int (ts_token_estimate source_task))),
               (''usable_input_tokens'',
                  dget_or metadata ''usable_input_tokens'' (opt_int (ts_usable_input_tokens source_task))),
               (''depends_on'', pstrs (ts_depends_on source_task)),
               (''requirement_ids'', pstrs (ts_requirement_ids source_task)),
               (''status'', PStr (ts_status source_task)),
               (''source_task_id'', PStr (source_of source_task source_task)),
               (''history'', pstrs (if ts_history source_task = [] then [ts_task_id source_task]
                                    else ts_history source_task))]) (\<lambda>updated.
            Inr [updated])))))
      | _ \<Rightarrow> value_error ''update_task_metadata requires task_metadata.'')"

subsection \<open>The plan\<close>

text \<open>The checks of \<open>build_planned_application\<close>, in their order.\<close>

definition check_proposal ::
    "cloud_queue_request \<Rightarrow> task_snapshot \<Rightarrow> task_snapshot list \<Rightarrow> string list \<Rightarrow> string list \<Rightarrow> unit res" where
  "check_proposal request source_task proposed response_requirements response_writable_paths =
     rbind (validate_dependency_graph proposed) (\<lambda>_.
     rbind (validate_path_overlap proposed) (\<lambda>_.
     rbind (validate_requirement_coverage source_task proposed (rq_requirements request)) (\<lambda>_.
     rbind (validate_requirement_drift (rq_requirements request) response_requirements) (\<lambda>_.
     rbind (validate_writable_paths_exact (rq_writable_paths request) response_writable_paths) (\<lambda>_.
     rfold (\<lambda>task _. validate_context_budget task LOCAL_CONTEXT_LIMIT) proposed ())))))"

definition build_planned_application ::
    "cloud_queue_request \<Rightarrow> cloud_queue_response \<Rightarrow> task_snapshot \<Rightarrow> runtime_state \<Rightarrow> planned_application res" where
  "build_planned_application request response source_task state =
     rbind (supported_operation_type response) (\<lambda>operation_type.
     rbind (items_or (rs_claims response) ''applicable_requirements'' (rq_requirements request)) (\<lambda>response_requirements.
     rbind (rbind (items_or (rs_claims response) ''writable_paths'' (rq_writable_paths request))
              (rmap_list normalize_relative_path)) (\<lambda>response_writable_paths.
     rbind (if operation_type = ''replace_task_with_subtasks'' then build_subtask_children response source_task
            else build_metadata_update_task response source_task) (\<lambda>proposed.
     if proposed = [] then value_error ''Proposed tasks are required for application planning.''
     else
     rbind (check_proposal request source_task proposed response_requirements response_writable_paths) (\<lambda>_.
     rbind (diff_runtime_graph source_task proposed (rp_task_graph (rst_revision state))) (\<lambda>diff.
     rbind (items_or (rs_claims response) ''expected_outputs'' (ts_expected_outputs source_task)) (\<lambda>expected_outputs.
     rbind (items_or (rs_claims response) ''validation_steps'' (ts_validation_steps source_task)) (\<lambda>validation_steps.
     Inr \<lparr>pn_operation = \<lparr>ao_operation_type = operation_type, ao_affected_task_ids = [ts_task_id source_task],
            ao_proposed_task_ids = map ts_task_id proposed, ao_preserved_requirement_ids = rq_requirements request,
            ao_dependency_changes = gd_dependency_changes diff, ao_writable_paths = gd_writable_path_diff diff,
            ao_expected_outputs = expected_outputs, ao_validation_steps = validation_steps\<rparr>,
          pn_proposed_tasks = proposed, pn_diff = diff, pn_response_requirements = response_requirements,
          pn_response_writable_paths = response_writable_paths, pn_operation_type = operation_type\<rparr>))))))))"

subsection \<open>What a plan promises\<close>

lemma budget_ok:
  "validate_context_budget t limit = Inr () \<Longrightarrow> 0 < limit \<Longrightarrow>
   \<exists>e u. ts_token_estimate t = Some e \<and> ts_usable_input_tokens t = Some u \<and> e \<le> limit \<and> u \<le> limit
     \<and> (u \<noteq> 0 \<longrightarrow> e \<le> u)"
  by (auto simp: validate_context_budget_def Let_def split: option.splits if_splits)

lemma coverage_ok:
  "validate_requirement_coverage src proposed required = Inr () \<longleftrightarrow>
   set required \<union> set (ts_requirement_ids src) \<subseteq> \<Union> (set (map (set \<circ> ts_requirement_ids) proposed))"
  by (auto simp: validate_requirement_coverage_def Let_def filter_empty_conv split: if_splits)

lemma exact_paths_ok:
  "validate_writable_paths_exact approved proposed = Inr ps \<Longrightarrow>
   rmap_list normalize_relative_path proposed = Inr ps
   \<and> (\<exists>qs. rmap_list normalize_relative_path approved = Inr qs \<and> sort qs = sort ps)"
  by (auto simp: validate_writable_paths_exact_def split: if_splits)

lemma planned_facts:
  assumes "build_planned_application request response src state = Inr p"
  shows "pn_proposed_tasks p \<noteq> []"
    and "check_proposal request src (pn_proposed_tasks p) (pn_response_requirements p) (pn_response_writable_paths p) = Inr ()"
    and "diff_runtime_graph src (pn_proposed_tasks p) (rp_task_graph (rst_revision state)) = Inr (pn_diff p)"
  using assms by (auto simp: build_planned_application_def split: if_splits)

text \<open>
  C20: a plan that is accepted proposes at least one task; the proposed tasks form a sound
  graph, cover every requirement of the request and of the task they replace, and fit the
  local context; the requirements and the paths that the response states are the approved
  ones.
\<close>

theorem planned_application_checked:
  assumes "build_planned_application request response src state = Inr p"
  shows "pn_proposed_tasks p \<noteq> [] \<and> sound_tasks (pn_proposed_tasks p)
    \<and> set (rq_requirements request) \<union> set (ts_requirement_ids src)
        \<subseteq> \<Union> (set (map (set \<circ> ts_requirement_ids) (pn_proposed_tasks p)))
    \<and> sort (pn_response_requirements p) = sort (rq_requirements request)
    \<and> (\<forall>t \<in> set (pn_proposed_tasks p). \<exists>e u. ts_token_estimate t = Some e \<and> ts_usable_input_tokens t = Some u
         \<and> e \<le> 120000 \<and> u \<le> 120000 \<and> (u \<noteq> 0 \<longrightarrow> e \<le> u))
    \<and> (\<exists>qs ps. rmap_list normalize_relative_path (rq_writable_paths request) = Inr qs
         \<and> rmap_list normalize_relative_path (pn_response_writable_paths p) = Inr ps \<and> sort qs = sort ps)"
proof -
  note facts = planned_facts [OF assms]
  from facts(2) obtain ps where ps: "validate_writable_paths_exact (rq_writable_paths request) (pn_response_writable_paths p) = Inr ps"
    and drift: "validate_requirement_drift (rq_requirements request) (pn_response_requirements p) = Inr ()"
    and coverage: "validate_requirement_coverage src (pn_proposed_tasks p) (rq_requirements request) = Inr ()"
    and sound: "sound_tasks (pn_proposed_tasks p)"
    and budget: "\<forall>t \<in> set (pn_proposed_tasks p). validate_context_budget t LOCAL_CONTEXT_LIMIT = Inr ()"
    by (auto simp: check_proposal_def rfold_check)
  have "sort (pn_response_requirements p) = sort (rq_requirements request)"
    using drift by (simp add: validate_requirement_drift_def split: if_splits)
  moreover have "\<forall>t \<in> set (pn_proposed_tasks p). \<exists>e u. ts_token_estimate t = Some e \<and> ts_usable_input_tokens t = Some u
      \<and> e \<le> 120000 \<and> u \<le> 120000 \<and> (u \<noteq> 0 \<longrightarrow> e \<le> u)"
    using budget budget_ok [of _ LOCAL_CONTEXT_LIMIT] by (simp add: LOCAL_CONTEXT_LIMIT_def)
  moreover have "set (rq_requirements request) \<union> set (ts_requirement_ids src)
      \<subseteq> \<Union> (set (map (set \<circ> ts_requirement_ids) (pn_proposed_tasks p)))"
    using coverage unfolding coverage_ok .
  ultimately show ?thesis
    using facts(1) sound exact_paths_ok [OF ps] by blast
qed

definition task_claim :: "string \<Rightarrow> string list \<Rightarrow> string list \<Rightarrow> pyval" where
  "task_claim i deps paths = PDict
     [(''task_id'', PStr i), (''title'', PStr i), (''role'', PStr ''backend''), (''depends_on'', pstrs deps),
      (''requirement_ids'', pstrs [''R1'']), (''required_context'', pstrs []), (''writable_paths'', pstrs paths),
      (''expected_outputs'', pstrs [''o'']), (''validation_steps'', pstrs [''v'']),
      (''token_estimate'', PInt 10), (''usable_input_tokens'', PInt 100)]"

definition source_request :: cloud_queue_request where
  "source_request = sample_request\<lparr>rq_writable_paths := [''src/a''], rq_source_task_id := ''a''\<rparr>"

definition source_pointer :: "string \<Rightarrow> active_revision_pointer" where
  "source_pointer i = \<lparr>pt_schema_version = 1, pt_active_revision_id = i, pt_active_revision_checksum = ''h'',
     pt_previous_revision_id = None, pt_update_timestamp = ''t'', pt_application_id = ''x''\<rparr>"

definition source_revision :: "string \<Rightarrow> string option \<Rightarrow> task_snapshot list \<Rightarrow> runtime_plan_revision" where
  "source_revision i parent tasks = \<lparr>rp_schema_version = 1, rp_revision_id = i, rp_parent_revision_id = parent,
     rp_application_id = ''x'', rp_created_at = ''t'', rp_task_graph = tasks, rp_task_statuses = [],
     rp_requirement_mappings = [], rp_dependency_mappings = [], rp_graph_checksum = [], rp_revision_checksum = ''h'',
     rp_change_summary = [], rp_rollback_metadata = \<lparr>rb_prior_revision_id = [], rb_prior_revision_checksum = ''h'',
       rb_rollback_reason = [], rb_created_at = [], rb_application_id = []\<rparr>, rp_audit_event_ids = []\<rparr>"

definition source_state :: runtime_state where
  "source_state = \<lparr>rst_pointer = source_pointer ''r1'',
     rst_revision = source_revision ''r1'' None [sample_task ''a'' [] [''src/a''], sample_task ''b'' [''a''] [''y'']]\<rparr>"

definition escaping_plan :: "planned_application res" where
  "escaping_plan = build_planned_application source_request
     (sample_response [] [(''writable_paths'', pstrs [''src/a'']),
        (''proposed_tasks'', PList [task_claim ''a1'' [] [''.git/hooks/post-commit'']])])
     (sample_task ''a'' [] [''src/a'']) source_state"

text \<open>
  The paths of the proposed tasks are compared with nothing: for a request approved for
  \<open>src/a\<close>, a response that states this path but proposes a task writing a hook of the
  repository is planned, and the task of the new graph may write it.
\<close>

theorem proposed_paths_unchecked:
  "case escaping_plan of
     Inl err \<Rightarrow> False
   | Inr p \<Rightarrow> rq_writable_paths source_request = [''src/a'']
       \<and> pn_response_writable_paths p = [''src/a'']
       \<and> ao_writable_paths (pn_operation p) = [''.git/hooks/post-commit'']
       \<and> map ts_writable_paths (gd_revised_tasks (pn_diff p)) = [[], [''.git/hooks/post-commit''], [''y'']]"
  by code_simp

theorem planned_application_checked_witness:
  "\<exists>p. escaping_plan = Inr p \<and> sound_tasks (pn_proposed_tasks p) \<and> pn_proposed_tasks p \<noteq> []"
proof -
  have "is_ok escaping_plan" by code_simp
  then obtain p where p: "escaping_plan = Inr p" by (auto simp: is_ok_iff)
  then show ?thesis
    using planned_application_checked [of source_request _ _ source_state p] by (auto simp: escaping_plan_def)
qed

end
