(* ===== verification/AppService.thy ===== *)
theory AppService
  imports AppPlanning QueueService QueueExport
begin

text \<open>
  \<open>cloud_application/service.py\<close>, first part: the service with its factories, the audit
  trail, the transitions of an application, and \<open>plan_apply\<close>, which plans a response and
  makes a new revision of the runtime plan the active one, recorded as a transaction.

  The state of a run is the disk and the number of calls so far: the \<open>k\<close>-th call of the clock
  returns \<open>se_now env k\<close>, and the factories of identifiers share the other counter.
\<close>

subsection \<open>The service and its world\<close>

record world =
  w_disk :: disk
  w_clock :: nat
  w_ids :: nat

record application_transaction_hooks =
  hk_fail_on_plan_write :: bool
  hk_fail_on_revision_write :: bool
  hk_fail_on_revision_validation :: bool
  hk_fail_on_publish :: bool
  hk_fail_on_pointer_update :: bool
  hk_fail_on_audit_write :: bool
  hk_fail_on_status_update :: bool
  hk_fail_after_pointer_update :: bool

record application_service =
  se_now :: "nat \<Rightarrow> string"
  se_application_id :: "nat \<Rightarrow> string"
  se_revision_id :: "nat \<Rightarrow> string"
  se_lease_id :: "nat \<Rightarrow> string"
  se_attempt_id :: "nat \<Rightarrow> string"
  se_event_id :: "nat \<Rightarrow> string"
  se_hooks :: application_transaction_hooks

definition on_disk :: "(disk, 'a) prog \<Rightarrow> (world, 'a) prog" where
  "on_disk m = (\<lambda>w. case m (w_disk w) of (r, d) \<Rightarrow> (r, w\<lparr>w_disk := d\<rparr>))"

definition now_call :: "application_service \<Rightarrow> (world, string) prog" where
  "now_call env = (\<lambda>w. (Inr (se_now env (w_clock w)), w\<lparr>w_clock := Suc (w_clock w)\<rparr>))"

definition id_call :: "(nat \<Rightarrow> string) \<Rightarrow> (world, string) prog" where
  "id_call factory = (\<lambda>w. (Inr (factory (w_ids w)), w\<lparr>w_ids := Suc (w_ids w)\<rparr>))"

definition raise_error :: "string \<Rightarrow> ('s, 'a) prog" where
  "raise_error m = plift (Inl (Exn RuntimeError m))"

subsection \<open>Audit trail and transitions\<close>

definition record_audit ::
    "codecs \<Rightarrow> application_service \<Rightarrow> path \<Rightarrow> string \<Rightarrow> application_record option \<Rightarrow> cloud_queue_request option \<Rightarrow>
     string \<Rightarrow> string \<Rightarrow> pydict \<Rightarrow> (world, string) prog" where
  "record_audit c env project event_type application request prior_state new_state details =
     (if hk_fail_on_audit_write (se_hooks env) then raise_error ''Injected failure during audit write.''
      else
        pbind (id_call (se_event_id env)) (\<lambda>event_id.
        pbind (now_call env) (\<lambda>timestamp.
        let event = \<lparr>ae_event_id = event_id, ae_event_type = event_type,
              ae_application_id = (case application of None \<Rightarrow> [] | Some a \<Rightarrow> an_application_id a),
              ae_request_id = (case request of None \<Rightarrow> [] | Some r \<Rightarrow> rq_request_id r),
              ae_prior_state = prior_state, ae_new_state = new_state, ae_timestamp = timestamp,
              ae_details = details\<rparr> in
        pbind (on_disk (record_application_audit_event c project event None)) (\<lambda>_. pret event_id))))"

text \<open>\<open>ApplicationRecord.from_dict({**application.to_dict(), **upd})\<close>\<close>

definition application_with :: "application_record \<Rightarrow> pydict \<Rightarrow> application_record res" where
  "application_with a upd = application_record_from_dict (al_merge (application_record_to_dict a) upd)"

definition transition_application ::
    "codecs \<Rightarrow> application_service \<Rightarrow> path \<Rightarrow> application_record \<Rightarrow> string \<Rightarrow> cloud_queue_request option \<Rightarrow>
     pydict \<Rightarrow> (world, application_record) prog" where
  "transition_application c env project application next_state request details =
     pbind (plift (validate_application_transition (an_status application) next_state)) (\<lambda>_.
     pbind (plift (application_with application
       [(''status'', PStr next_state), (''audit_event_ids'', pstrs (an_audit_event_ids application)),
        (''notes'', pstrs (an_notes application))])) (\<lambda>updated.
     pbind (on_disk (save_application_record project updated)) (\<lambda>_.
     pbind (record_audit c env project ''transition'' (Some updated) request (an_status application) next_state details)
       (\<lambda>_. pret updated))))"

subsection \<open>Loading\<close>

definition svc_load_request :: "codecs \<Rightarrow> path \<Rightarrow> string \<Rightarrow> (world, cloud_queue_request) prog" where
  "svc_load_request c project request_id =
     pbind (on_disk (show_cloud_queue_request c project request_id)) (\<lambda>(r, p). pret r)"

definition load_request_and_response ::
    "codecs \<Rightarrow> path \<Rightarrow> string \<Rightarrow> (world, cloud_queue_request \<times> cloud_queue_response) prog" where
  "load_request_and_response c project request_id =
     pbind (svc_load_request c project request_id) (\<lambda>request.
     pbind (on_disk (load_imported_response c project request_id)) (\<lambda>response.
     if rs_request_id response \<noteq> request_id
     then plift (value_error ''Imported response does not match the requested application.'')
     else pret (request, response)))"

definition load_approval_record_if_present ::
    "codecs \<Rightarrow> path \<Rightarrow> cloud_queue_request \<Rightarrow> (world, pydict option) prog" where
  "load_approval_record_if_present c project request =
     (let p = approval_record_path project (rq_request_id request) in
      pbind (pget (\<lambda>w. fs_exists (w_disk w) p)) (\<lambda>there.
      if \<not> there then pret None
      else pbind (pread (\<lambda>w. load_approval_record c (w_disk w) p)) (\<lambda>m. pret (Some m))))"

definition load_revision :: "codecs \<Rightarrow> path \<Rightarrow> string \<Rightarrow> (world, runtime_plan_revision) prog" where
  "load_revision c project revision_id =
     (if revision_id = [] then plift (not_found ''Revision ID is missing.'')
      else pread (\<lambda>w. load_runtime_revision c (revision_path project revision_id) (w_disk w)))"

text \<open>
  The preview reads the request itself: the first file of that name anywhere below the
  requests. An identifier that \<open>rglob\<close> would read as a pattern is outside the model.
\<close>

definition request_files_below :: "path \<Rightarrow> string \<Rightarrow> disk \<Rightarrow> path list" where
  "request_files_below root name d =
     sorted_set (filter (\<lambda>p. below root p \<noteq> None \<and> p \<noteq> root \<and> last p = name) (map fst (fs_files d)))"

definition load_first_request ::
    "codecs \<Rightarrow> string \<Rightarrow> path list \<Rightarrow> disk \<Rightarrow> cloud_queue_request option res" where
  "load_first_request c normalized files d =
     foldr (\<lambda>p later.
       rbind (load_request c d p) (\<lambda>r. if rq_request_id r = normalized then Inr (Some r) else later)) files (Inr None)"

definition load_request_preview :: "codecs \<Rightarrow> path \<Rightarrow> string \<Rightarrow> disk \<Rightarrow> cloud_queue_request res" where
  "load_request_preview c project request_id d =
     (let root = qp_requests (queue_paths project); normalized = strip request_id in
      if normalized = [] then not_found ''Cloud queue request was not found: ''
      else if \<not> fs_exists d root then not_found (''Cloud queue request was not found: '' @ request_id)
      else if set normalized \<inter> set ''*?[/'' \<noteq> {} then Inl (Exn OutsideModel ''identifier that is a pattern'')
      else rbind (load_first_request c normalized (request_files_below root (normalized @ ''.yaml'') d) d) (\<lambda>found.
        case found of
          Some r \<Rightarrow> Inr r
        | None \<Rightarrow> not_found (''Cloud queue request was not found: '' @ request_id)))"

definition load_imported_response_preview :: "codecs \<Rightarrow> path \<Rightarrow> string \<Rightarrow> disk \<Rightarrow> cloud_queue_response res" where
  "load_imported_response_preview c project request_id d =
     (let p = imported_response_path project request_id in
      case fs_file d p of
        None \<Rightarrow> not_found (''Imported response does not exist: '' @ path_text p)
      | Some content \<Rightarrow> rbind (yaml_value c content) (\<lambda>v. case v of
          PDict m \<Rightarrow> response_from_dict m (Some (path_text p))
        | _ \<Rightarrow> value_error (''Imported response must be a YAML mapping: '' @ path_text p)))"

definition load_request_and_response_preview ::
    "codecs \<Rightarrow> path \<Rightarrow> string \<Rightarrow> disk \<Rightarrow> (cloud_queue_request \<times> cloud_queue_response) res" where
  "load_request_and_response_preview c project request_id d =
     rbind (load_request_preview c project request_id d) (\<lambda>request.
     rbind (load_imported_response_preview c project request_id d) (\<lambda>response.
     if rs_request_id response \<noteq> request_id
     then value_error ''Imported response does not match the requested application.''
     else Inr (request, response)))"

text \<open>The raw YAML value of an approval; one that is neither a mapping nor empty is outside the model.\<close>

definition load_approval_record_preview :: "codecs \<Rightarrow> path \<Rightarrow> cloud_queue_request \<Rightarrow> disk \<Rightarrow> pydict option res" where
  "load_approval_record_preview c project request d =
     (let p = approval_record_path project (rq_request_id request) in
      if \<not> fs_exists d p then Inr None
      else case fs_file d p of
        None \<Rightarrow> not_found (path_text p)
      | Some content \<Rightarrow> rbind (yaml_value c content) (\<lambda>v. case v of
          PDict m \<Rightarrow> Inr (Some m)
        | PNone \<Rightarrow> Inr None
        | _ \<Rightarrow> Inl (Exn OutsideModel ''approval record that is no mapping'')))"

subsection \<open>Planning\<close>

definition SAFE_APPLICATION :: application_safety where
  "SAFE_APPLICATION = \<lparr>sf_canonical_blueprint_modified = False, sf_writable_paths_expanded = False,
     sf_requirements_removed = False, sf_external_services_added = False, sf_network_access_added = False,
     sf_deployment_added = False\<rparr>"

definition resume_eligibility_placeholder :: "task_snapshot \<Rightarrow> task_snapshot list \<Rightarrow> resume_eligibility" where
  "resume_eligibility_placeholder source_task proposed =
     \<lparr>re_eligible = False,
      re_resume_from_task_ids = map ts_task_id (filter (\<lambda>t. ts_status t = ''ready'') proposed),
      re_blocked_dependents = [], re_previously_completed_tasks = [ts_task_id source_task],
      re_reasons = [''resume eligibility is computed after apply''], re_manual_holds = []\<rparr>"

definition build_application_record ::
    "application_service \<Rightarrow> string \<Rightarrow> cloud_queue_request \<Rightarrow> cloud_queue_response \<Rightarrow> eligibility_result \<Rightarrow>
     task_snapshot \<Rightarrow> task_snapshot list \<Rightarrow> runtime_graph_diff \<Rightarrow> string \<Rightarrow> (world, application_record) prog" where
  "build_application_record env application_id request response eligibility source_task proposed diff active_revision_id =
     pbind (plift (items_or (rs_claims response) ''expected_outputs'' (ts_expected_outputs source_task))) (\<lambda>outputs.
     pbind (plift (flist_str (rs_claims response) ''validation_steps'')) (\<lambda>steps.
     pbind (now_call env) (\<lambda>created_at.
     let class_or_state = str_or (rq_classification request) (rq_state request) in
     pret \<lparr>an_schema_version = 1, an_application_id = application_id, an_request_id = rq_request_id request,
       an_request_checksum = eg_request_checksum eligibility,
       an_response_checksum = eg_response_checksum eligibility,
       an_approval_checksum = eg_approval_checksum eligibility, an_status = ''application_planned'',
       an_created_at = created_at,
       an_source = \<lparr>so_request_type = class_or_state, so_response_classification = class_or_state,
         so_source_task_id = ts_task_id source_task, so_source_plan_revision = active_revision_id\<rparr>,
       an_application = \<lparr>ao_operation_type = fstr_or ''replace_task_with_subtasks'' (rs_claims response) ''operation_type'',
         ao_affected_task_ids = [ts_task_id source_task], ao_proposed_task_ids = map ts_task_id proposed,
         ao_preserved_requirement_ids = rq_requirements request,
         ao_dependency_changes = gd_dependency_changes diff, ao_writable_paths = gd_writable_path_diff diff,
         ao_expected_outputs = outputs, ao_validation_steps = steps\<rparr>,
       an_safety = SAFE_APPLICATION, an_resume = resume_eligibility_placeholder source_task proposed,
       an_plan_checksum = [], an_revision_id = None, an_revision_checksum = None,
       an_active_revision_id = None, an_rollback_available = False, an_notes = [], an_audit_event_ids = []\<rparr>)))"

definition build_application_plan ::
    "codecs \<Rightarrow> application_service \<Rightarrow> application_record \<Rightarrow> cloud_queue_request \<Rightarrow> cloud_queue_response \<Rightarrow>
     eligibility_result \<Rightarrow> string \<Rightarrow> task_snapshot \<Rightarrow> task_snapshot list \<Rightarrow> runtime_graph_diff \<Rightarrow>
     string \<Rightarrow> string \<Rightarrow> bool \<Rightarrow> (world, application_plan) prog" where
  "build_application_plan c env application request response eligibility proposed_revision_id source_task
     proposed diff active_revision_id active_revision_checksum dry_run =
     pbind (plift (flist_str (rs_claims response) ''expected_outputs'')) (\<lambda>outputs.
     pbind (plift (flist_str (rs_claims response) ''validation_steps'')) (\<lambda>steps.
     pbind (now_call env) (\<lambda>created_at.
     let operation_type = ao_operation_type (an_application application);
         plan = \<lparr>ap_schema_version = 1, ap_application_id = an_application_id application,
           ap_request_id = rq_request_id request, ap_request_checksum = eg_request_checksum eligibility,
           ap_response_checksum = eg_response_checksum eligibility,
           ap_approval_checksum = eg_approval_checksum eligibility, ap_source_revision_id = active_revision_id,
           ap_source_revision_checksum = active_revision_checksum, ap_proposed_revision_id = proposed_revision_id,
           ap_operation_type = operation_type, ap_source_task_snapshot = source_task,
           ap_proposed_tasks = proposed, ap_requirement_mapping = gd_requirement_mappings diff,
           ap_dependency_changes = gd_dependency_changes diff, ap_writable_path_diff = gd_writable_path_diff diff,
           ap_context_budget_validation =
             [(''usable_input_tokens'', opt_int (ts_usable_input_tokens source_task)),
              (''token_estimate'', opt_int (ts_token_estimate source_task))],
           ap_expected_outputs = outputs, ap_validation_steps = steps,
           ap_affected_completed_tasks = gd_affected_completed_tasks diff,
           ap_affected_pending_tasks = gd_affected_pending_tasks diff,
           ap_resume_candidates = gd_resume_candidates diff, ap_rollback_target = active_revision_id,
           ap_preconditions = [operation_type],
           ap_predicted_side_effects = [''supersede source task'', ''preserve canonical blueprint''],
           ap_plan_checksum = [], ap_created_at = created_at, ap_application_record_path = None,
           ap_dry_run = dry_run\<rparr> in
     plift (application_plan_from_dict (al_set ''plan_checksum''
       (PStr (normalized_yaml_checksum c (PDict (application_plan_to_dict plan)))) (application_plan_to_dict plan))))))"

text \<open>What planning found out, before anything is written.\<close>

record prepared_application =
  pp_request :: cloud_queue_request
  pp_response :: cloud_queue_response
  pp_state :: runtime_state
  pp_source_task :: task_snapshot
  pp_planned :: planned_application
  pp_application :: application_record
  pp_plan :: application_plan

text \<open>
  The part \<open>plan_apply\<close> and its preview share. The only field the check of the draft plan
  reads is its source task; building it calls the clock once.
\<close>

definition prepare_application ::
    "codecs \<Rightarrow> application_service \<Rightarrow> path \<Rightarrow> cloud_queue_request \<Rightarrow> cloud_queue_response \<Rightarrow> pydict option \<Rightarrow>
     (world, prepared_application) prog" where
  "prepare_application c env project request response approval =
     pbind (plift (validate_eligibility c request approval)) (\<lambda>eligibility.
     if \<not> eg_eligible eligibility then plift (value_error (eg_reason eligibility)) else
     pbind (pread (\<lambda>w. load_active_runtime_state c project (w_disk w))) (\<lambda>state.
     pbind (plift (resolve_source_task state request)) (\<lambda>source_task.
     pbind (plift (build_planned_application request response source_task state)) (\<lambda>planned.
     pbind (case approval of
         Some a \<Rightarrow> if rq_classification request = APPROVAL_REQUIRED
           then plift (validate_approval_scope a (rq_writable_paths request) (rq_requirements request)) else pret ()
       | None \<Rightarrow> pret ()) (\<lambda>_.
     pbind (now_call env) (\<lambda>_.
     if ts_task_id source_task = [] then plift (value_error ''Source task snapshot is missing a task ID.'') else
     pbind (id_call (se_application_id env)) (\<lambda>application_id.
     pbind (id_call (se_revision_id env)) (\<lambda>proposed_revision_id.
     let diff = pn_diff planned; proposed = pn_proposed_tasks planned; revision = rst_revision state in
     pbind (build_application_record env application_id request response eligibility source_task proposed diff
              (rp_revision_id revision)) (\<lambda>application.
     pbind (build_application_plan c env application request response eligibility proposed_revision_id source_task
              proposed diff (rp_revision_id revision) (rp_revision_checksum revision) True) (\<lambda>plan.
     pbind (plift (validate_application_state_boundaries plan)) (\<lambda>_.
     pbind (plift (application_with application [(''plan_checksum'', PStr (ap_plan_checksum plan))])) (\<lambda>application.
     pret \<lparr>pp_request = request, pp_response = response, pp_state = state, pp_source_task = source_task,
       pp_planned = planned, pp_application = application, pp_plan = plan\<rparr>))))))))))))"

record plan_apply_result =
  pr_application :: application_record
  pr_plan :: application_plan
  pr_dry_run :: bool
  pr_active_revision_id :: "string option"
  pr_active_revision_checksum :: "string option"
  pr_application_path :: path
  pr_plan_path :: path
  pr_revision_path :: "path option"
  pr_pointer_path :: "path option"
  pr_audit_event_ids :: "string list"

definition terminal_summary :: "plan_apply_result \<Rightarrow> string" where
  "terminal_summary r = join newline
     ([''Application '' @ an_application_id (pr_application r) @ '': '' @ an_status (pr_application r),
       ''Request: '' @ an_request_id (pr_application r), ''Plan: '' @ ap_plan_checksum (pr_plan r),
       ''Dry run: '' @ py_str (PBool (pr_dry_run r))]
      @ (case pr_revision_path r of None \<Rightarrow> [] | Some p \<Rightarrow> [''Revision: '' @ path_text p])
      @ (case pr_pointer_path r of None \<Rightarrow> [] | Some p \<Rightarrow> [''Active pointer: '' @ path_text p]))"

definition preview_plan_apply :: "codecs \<Rightarrow> application_service \<Rightarrow> path \<Rightarrow> string \<Rightarrow> (world, plan_apply_result) prog" where
  "preview_plan_apply c env project request_id =
     pbind (pread (\<lambda>w. load_request_and_response_preview c project request_id (w_disk w))) (\<lambda>(request, response).
     pbind (pread (\<lambda>w. load_approval_record_preview c project request (w_disk w))) (\<lambda>approval.
     pbind (prepare_application c env project request response approval) (\<lambda>p.
     let application_id = an_application_id (pp_application p); revision = rst_revision (pp_state p) in
     pret \<lparr>pr_application = pp_application p, pr_plan = pp_plan p, pr_dry_run = True,
       pr_active_revision_id = Some (rp_revision_id revision),
       pr_active_revision_checksum = Some (rp_revision_checksum revision),
       pr_application_path = application_path project application_id,
       pr_plan_path = application_plan_path project application_id,
       pr_revision_path = None, pr_pointer_path = None, pr_audit_event_ids = []\<rparr>)))"

subsection \<open>Applying\<close>

definition build_resume_eligibility :: "runtime_plan_revision \<Rightarrow> application_record \<Rightarrow> resume_eligibility" where
  "build_resume_eligibility revision application =
     (let with_status = (\<lambda>s. map ts_task_id (filter (\<lambda>t. ts_status t = s) (rp_task_graph revision)));
          ready = with_status ''ready'';
          eligible = (ready \<noteq> [] \<and> an_status application \<in> {''applied'', ''resume_pending'', ''resumed''}) in
      \<lparr>re_eligible = eligible, re_resume_from_task_ids = ready, re_blocked_dependents = with_status ''blocked'',
       re_previously_completed_tasks = with_status ''completed'',
       re_reasons = (if eligible then [] else [''active revision must be applied before resume.'']),
       re_manual_holds = []\<rparr>)"

definition save_phase ::
    "application_service \<Rightarrow> path \<Rightarrow> transaction_record \<Rightarrow> string \<Rightarrow> string list option \<Rightarrow> pydict \<Rightarrow>
     (world, transaction_record) prog" where
  "save_phase env project transaction phase artifact_paths details =
     pbind (now_call env) (\<lambda>updated_at.
     on_disk (save_transaction_phase project transaction phase updated_at artifact_paths details))"

text \<open>An injected failure: the transaction is marked as failed, then the run stops.\<close>

definition injected_failure ::
    "application_service \<Rightarrow> path \<Rightarrow> transaction_record \<Rightarrow> bool \<Rightarrow> string \<Rightarrow> string \<Rightarrow> (world, unit) prog" where
  "injected_failure env project transaction hook reason message =
     (if hook then
        pbind (save_phase env project transaction ''failed'' None [(''reason'', PStr reason)]) (\<lambda>_.
        raise_error message)
      else pret ())"

definition start_transaction ::
    "codecs \<Rightarrow> application_service \<Rightarrow> path \<Rightarrow> prepared_application \<Rightarrow>
     (world, application_record \<times> transaction_record) prog" where
  "start_transaction c env project p =
     (let application = pp_application p; plan = pp_plan p; state = pp_state p; revision = rst_revision state;
          transaction_id = ''txn-'' @ an_application_id application in
      pbind (now_call env) (\<lambda>created_at.
      pbind (now_call env) (\<lambda>updated_at.
      let transaction = create_transaction_record transaction_id (an_application_id application)
            (rp_revision_id revision) (rp_revision_checksum revision) (ap_proposed_revision_id plan)
            (ap_plan_checksum plan) (pt_active_revision_id (rst_pointer state)) created_at updated_at []
            ''reconcile transaction by re-running apply or recover''
            [(''plan_checksum'', PStr (ap_plan_checksum plan))] in
      pbind (on_disk (save_transaction_record project transaction)) (\<lambda>_.
      pbind (injected_failure env project transaction (hk_fail_on_plan_write (se_hooks env)) ''plan_write''
               ''Injected failure during plan persistence.'') (\<lambda>_.
      pbind (transition_application c env project application ''applying'' (Some (pp_request p))
               [(''transaction_id'', PStr transaction_id), (''plan_checksum'', PStr (ap_plan_checksum plan))]) (\<lambda>application.
      pbind (save_phase env project transaction ''prepared'' None
               [(''application_status'', PStr (an_status application))]) (\<lambda>transaction.
      pret (application, transaction))))))))"

definition publish_revision ::
    "codecs \<Rightarrow> application_service \<Rightarrow> path \<Rightarrow> prepared_application \<Rightarrow> application_record \<Rightarrow> transaction_record \<Rightarrow>
     string list \<Rightarrow> (world, runtime_plan_revision \<times> path \<times> transaction_record) prog" where
  "publish_revision c env project p application transaction audit_ids =
     (let plan = pp_plan p; diff = pn_diff (pp_planned p); source_id = ts_task_id (pp_source_task p) in
      pbind (injected_failure env project transaction (hk_fail_on_revision_write (se_hooks env)) ''revision_write''
               ''Injected failure during proposed revision write.'') (\<lambda>_.
      pbind (now_call env) (\<lambda>created_at.
      pbind (now_call env) (\<lambda>rollback_created_at.
      pbind (plift (build_runtime_graph_revision c (ap_proposed_revision_id plan) (Some (ap_source_revision_id plan))
               (an_application_id application) created_at (gd_revised_tasks diff) (gd_requirement_mappings diff)
               (gd_dependency_changes diff)
               [source_id @ (if replaced_in_place (pp_source_task p) (pn_proposed_tasks (pp_planned p))
                             then '' updated'' else '' superseded'')]
               \<lparr>rb_prior_revision_id = ap_source_revision_id plan,
                rb_prior_revision_checksum = ap_source_revision_checksum plan,
                rb_rollback_reason = ''explicit rollback availability'', rb_created_at = rollback_created_at,
                rb_application_id = an_application_id application\<rparr> audit_ids)) (\<lambda>proposed_revision.
      pbind (plift (transaction_record_from_dict (al_set ''proposed_revision_checksum''
               (PStr (rp_revision_checksum proposed_revision)) (transaction_record_to_dict transaction)))) (\<lambda>transaction.
      pbind (on_disk (save_transaction_record project transaction)) (\<lambda>_.
      pbind (save_phase env project transaction ''revision_written'' None
               [(''revision_id'', PStr (rp_revision_id proposed_revision))]) (\<lambda>transaction.
      pbind (injected_failure env project transaction (hk_fail_on_revision_validation (se_hooks env))
               ''revision_validation'' ''Injected failure during revision validation.'') (\<lambda>_.
      pbind (plift (validate_dependency_graph (rp_task_graph proposed_revision))) (\<lambda>_.
      pbind (save_phase env project transaction ''revision_validated'' None
               [(''revision_id'', PStr (rp_revision_id proposed_revision))]) (\<lambda>transaction.
      pbind (injected_failure env project transaction (hk_fail_on_publish (se_hooks env)) ''publish''
               ''Injected failure during revision publish.'') (\<lambda>_.
      pbind (on_disk (save_runtime_revision project proposed_revision)) (\<lambda>revision_file.
      pbind (save_phase env project transaction ''revision_published'' (Some [path_text revision_file])
               [(''revision_path'', PStr (path_text revision_file))]) (\<lambda>transaction.
      pret (proposed_revision, revision_file, transaction)))))))))))))))"

definition update_pointer ::
    "codecs \<Rightarrow> application_service \<Rightarrow> path \<Rightarrow> application_plan \<Rightarrow> string \<Rightarrow> runtime_plan_revision \<Rightarrow> transaction_record \<Rightarrow>
     (world, transaction_record) prog" where
  "update_pointer c env project plan application_id proposed_revision transaction =
     pbind (pread (\<lambda>w. load_active_pointer c (runtime_active_pointer_path project) (w_disk w))) (\<lambda>current.
     pbind (plift (validate_active_pointer current (ap_source_revision_id plan) (ap_source_revision_checksum plan))) (\<lambda>_.
     pbind (injected_failure env project transaction (hk_fail_on_pointer_update (se_hooks env)) ''pointer_update''
              ''Injected failure during active pointer update.'') (\<lambda>_.
     pbind (now_call env) (\<lambda>now.
     pbind (on_disk (save_active_pointer project
       \<lparr>pt_schema_version = 1, pt_active_revision_id = rp_revision_id proposed_revision,
        pt_active_revision_checksum = rp_revision_checksum proposed_revision,
        pt_previous_revision_id = Some (ap_source_revision_id plan), pt_update_timestamp = now,
        pt_application_id = application_id\<rparr>)) (\<lambda>_.
     pbind (save_phase env project transaction ''pointer_updated'' None
              [(''active_revision_id'', PStr (rp_revision_id proposed_revision))]) (\<lambda>transaction.
     pbind (injected_failure env project transaction (hk_fail_after_pointer_update (se_hooks env))
              ''after_pointer_update'' ''Injected failure after pointer update.'') (\<lambda>_.
     pbind (injected_failure env project transaction (hk_fail_on_status_update (se_hooks env)) ''status_update''
              ''Injected failure updating application status.'') (\<lambda>_.
     pret transaction))))))))"

definition commit_application ::
    "codecs \<Rightarrow> application_service \<Rightarrow> path \<Rightarrow> application_record \<Rightarrow> application_plan \<Rightarrow> cloud_queue_request \<Rightarrow>
     runtime_plan_revision \<Rightarrow> transaction_record \<Rightarrow> string list \<Rightarrow> (world, application_record) prog" where
  "commit_application c env project application plan request revision transaction audit_ids =
     (let revision_id = rp_revision_id revision; detail = [(''revision_id'', PStr revision_id)] in
      pbind (transition_application c env project application ''applied'' (Some request) detail) (\<lambda>application.
      pbind (plift (application_with application
        [(''revision_id'', PStr revision_id), (''revision_checksum'', PStr (rp_revision_checksum revision)),
         (''active_revision_id'', PStr revision_id), (''rollback_available'', PBool True),
         (''plan_checksum'', PStr (ap_plan_checksum plan))])) (\<lambda>application.
      pbind (plift (application_with application [(''status'', PStr ''applied'')])) (\<lambda>projection.
      pbind (plift (application_with application
        [(''resume'', PDict (resume_eligibility_to_dict (build_resume_eligibility revision projection)))])) (\<lambda>application.
      pbind (on_disk (save_application_record project application)) (\<lambda>_.
      pbind (save_phase env project transaction ''application_updated'' None
               [(''application_status'', PStr (an_status application))]) (\<lambda>transaction.
      pbind (record_audit c env project ''apply'' (Some application) (Some request) ''applying'' ''applied'' detail) (\<lambda>_.
      pbind (save_phase env project transaction ''audit_completed'' None
               [(''audit_event_ids'', pstrs audit_ids)]) (\<lambda>transaction.
      pbind (if re_eligible (an_resume application) then
          pbind (transition_application c env project application ''resume_pending'' (Some request) detail) (\<lambda>application.
          pbind (on_disk (save_application_record project application)) (\<lambda>_.
          pbind (record_audit c env project ''resume_eligible'' (Some application) (Some request) ''applied''
                   ''resume_pending''
                   [(''resume_from_task_ids'', pstrs (re_resume_from_task_ids (an_resume application)))]) (\<lambda>_.
          pret application)))
        else pret application) (\<lambda>application.
      pbind (save_phase env project transaction ''committed'' None
               [(''application_status'', PStr (an_status application))]) (\<lambda>_.
      pret application)))))))))))"

definition apply_plan ::
    "codecs \<Rightarrow> application_service \<Rightarrow> path \<Rightarrow> prepared_application \<Rightarrow> string list \<Rightarrow> (world, plan_apply_result) prog" where
  "apply_plan c env project p audit_ids =
     (let plan = pp_plan p in
      pbind (start_transaction c env project p) (\<lambda>(application, transaction).
      pbind (publish_revision c env project p application transaction audit_ids) (\<lambda>(revision, revision_file, transaction).
      pbind (update_pointer c env project plan (an_application_id application) revision transaction) (\<lambda>transaction.
      pbind (commit_application c env project application plan (pp_request p) revision transaction audit_ids) (\<lambda>application.
      pret \<lparr>pr_application = application, pr_plan = plan, pr_dry_run = False,
        pr_active_revision_id = Some (rp_revision_id revision),
        pr_active_revision_checksum = Some (rp_revision_checksum revision),
        pr_application_path = application_path project (an_application_id application),
        pr_plan_path = application_plan_path project (an_application_id application),
        pr_revision_path = Some revision_file, pr_pointer_path = Some (active_pointer_path project),
        pr_audit_event_ids = audit_ids\<rparr>)))))"

definition plan_apply ::
    "codecs \<Rightarrow> application_service \<Rightarrow> path \<Rightarrow> string \<Rightarrow> bool \<Rightarrow> (world, plan_apply_result) prog" where
  "plan_apply c env project request_id dry_run =
     (if dry_run then preview_plan_apply c env project request_id
      else
        pbind (on_disk (pmodify (ensure_cloud_application_dirs project))) (\<lambda>_.
        pbind (load_request_and_response c project request_id) (\<lambda>(request, response).
        pbind (load_approval_record_if_present c project request) (\<lambda>approval.
        pbind (prepare_application c env project request response approval) (\<lambda>p.
        let application = pp_application p; plan = pp_plan p in
        pbind (on_disk (save_application_record project application)) (\<lambda>_.
        pbind (on_disk (save_application_plan project plan)) (\<lambda>_.
        pbind (record_audit c env project ''application_planned'' (Some application) (Some request) ''new''
                 (an_status application) [(''dry_run'', PBool dry_run)]) (\<lambda>audit_id.
        pbind (transition_application c env project application ''ready_to_apply'' (Some request)
                 [(''plan_checksum'', PStr (ap_plan_checksum plan))]) (\<lambda>application.
        pbind (on_disk (save_application_record project application)) (\<lambda>_.
        apply_plan c env project (p\<lparr>pp_application := application\<rparr>) [audit_id]))))))))))"

end
