(* ===== verification/AppPublication.thy ===== *)
theory AppPublication
  imports AppPlanning QueueExport
begin

text \<open>
  \<open>cloud_application/publication.py\<close>: the gate that a result passes before it is published,
  with \<open>fnmatch.fnmatchcase\<close>, which decides whether a file is inside the leased paths.
\<close>

subsection \<open>Shell patterns\<close>

text \<open>The inside of a character class: single characters and ranges; an empty range is dropped.\<close>

fun class_has :: "string \<Rightarrow> char \<Rightarrow> bool" where
  "class_has [] c = False"
| "class_has (a # r) c =
     (case r of
        m # b # r' \<Rightarrow> if m = CHR ''-'' then (a \<le> c \<and> c \<le> b) \<or> class_has r' c else c = a \<or> class_has r c
      | _ \<Rightarrow> c = a \<or> class_has r c)"

text \<open>
  What follows an opening bracket: the class, whether it is negated, and the rest; none when
  no bracket closes it. A closing bracket in the first place belongs to the class.
\<close>

definition split_class :: "string \<Rightarrow> (bool \<times> string \<times> string) option" where
  "split_class p =
     (let negated = (p \<noteq> [] \<and> hd p = CHR ''!'');
          body = (if negated then tl p else p);
          first = take 1 body;
          inside = first @ takeWhile (\<lambda>c. c \<noteq> CHR '']'') (drop 1 body);
          rest = dropWhile (\<lambda>c. c \<noteq> CHR '']'') (drop 1 body)
      in if rest = [] then None else Some (negated, inside, tl rest))"

lemma split_class_shorter: "split_class p = Some (n, i, r) \<Longrightarrow> length r < length p"
  using length_dropWhile_le [of "\<lambda>c. c \<noteq> CHR '']''" "drop 1 (if p \<noteq> [] \<and> hd p = CHR ''!'' then tl p else p)"]
  by (cases p) (auto simp: split_class_def Let_def neq_Nil_conv split: if_splits)

function fnmatchcase :: "string \<Rightarrow> string \<Rightarrow> bool" where
  "fnmatchcase [] pat = list_all (\<lambda>p. p = CHR ''*'') pat"
| "fnmatchcase (c # s) [] = False"
| "fnmatchcase (c # s) (p # pat) =
     (if p = CHR ''*'' then fnmatchcase (c # s) pat \<or> fnmatchcase s (p # pat)
      else if p = CHR ''?'' then fnmatchcase s pat
      else if p = CHR ''['' then
        (case split_class pat of
           None \<Rightarrow> c = p \<and> fnmatchcase s pat
         | Some (negated, inside, rest) \<Rightarrow> class_has inside c \<noteq> negated \<and> fnmatchcase s rest)
      else c = p \<and> fnmatchcase s pat)"
  by pat_completeness auto
termination
  by (relation "measure (\<lambda>(s, p). length s + length p)") (auto dest: split_class_shorter)

subsection \<open>The gate\<close>

definition checksum_bytes :: "codecs \<Rightarrow> string \<Rightarrow> string" where
  "checksum_bytes c payload = sha256_bytes c payload"

text \<open>The bytes of a file: those of its text, of the dumped value or of the dumped lines.\<close>

definition content_bytes :: "codecs \<Rightarrow> content \<Rightarrow> string" where
  "content_bytes c content = (case content of
     Text t \<Rightarrow> t
   | Doc v \<Rightarrow> yaml_dump c False v
   | Log lines \<Rightarrow> concat (map (\<lambda>l. json_dumps c (PDict l) @ [CHR 0x0A]) lines))"

definition path_within_writable_scope :: "path \<Rightarrow> path \<Rightarrow> string list \<Rightarrow> bool" where
  "path_within_writable_scope project result_path writable_paths =
     (case below (lexical project) (lexical result_path) of
        None \<Rightarrow> False
      | Some relative \<Rightarrow> list_ex (fnmatchcase (if relative = [] then ''.'' else join ''/'' relative)) writable_paths)"

definition find_task :: "string \<Rightarrow> task_snapshot list \<Rightarrow> task_snapshot option" where
  "find_task i tasks = find (\<lambda>t. ts_task_id t = i) tasks"

definition validate_publication_gate ::
    "codecs \<Rightarrow> path \<Rightarrow> task_publication_record \<Rightarrow> execution_lease \<Rightarrow> active_revision_pointer \<Rightarrow>
     runtime_plan_revision \<Rightarrow> task_snapshot \<Rightarrow> path \<Rightarrow> string \<Rightarrow> disk \<Rightarrow> unit res" where
  "validate_publication_gate c project publication lease pointer revision task result_path result_bytes d =
     (if el_lease_state lease \<noteq> ''active'' then value_error ''Lease is not active.''
      else if el_lease_id lease \<noteq> tp_lease_id publication
      then value_error ''Publication lease does not match the active lease.''
      else if el_task_id lease \<noteq> tp_task_id publication
      then value_error ''Lease task does not match the publication task.''
      else if el_execution_attempt_id lease \<noteq> tp_execution_attempt_id publication
      then value_error ''Execution attempt does not match the active lease.''
      else if el_runtime_revision_id lease \<noteq> tp_revision_id publication
      then value_error ''Publication revision does not match the active lease.''
      else if el_runtime_revision_checksum lease \<noteq> tp_revision_checksum publication
      then value_error ''Lease revision checksum does not match the publication revision.''
      else if has_text (el_completion_checksum lease)
      then value_error ''Lease result has already been published.''
      else if tp_revision_id publication \<noteq> pt_active_revision_id pointer
      then value_error ''Publication revision does not match the active revision.''
      else if tp_revision_checksum publication \<noteq> pt_active_revision_checksum pointer
      then value_error ''Publication revision checksum does not match the active revision.''
      else if tp_result_checksum publication \<noteq> checksum_bytes c result_bytes
      then value_error ''Publication result checksum does not match the result bytes.''
      else if tp_result_checksum publication = [] then value_error ''Result checksum is missing.''
      else if \<not> fs_exists d result_path
      then not_found (''Result path does not exist: '' @ path_text result_path)
      else if fs_exists d (publication_path project (el_lease_id lease))
      then value_error ''Result has already been published for this lease.''
      else
        rbind (load_execution_leases c project d) (\<lambda>leases.
        if el_lease_id lease \<notin> el_lease_id ` set (filter (\<lambda>l. el_lease_state l = ''active'') leases)
        then value_error ''Lease is no longer active.''
        else case find_task (tp_task_id publication) (rp_task_graph revision) of
          None \<Rightarrow> value_error ''Task does not exist in the active revision.''
        | Some task_in_revision \<Rightarrow>
            if ts_status task_in_revision \<noteq> ''ready'' then value_error ''Task status does not permit publication.''
            else if ts_task_id task \<noteq> tp_task_id publication
            then value_error ''Task does not match the publication task.''
            else if \<not> set (ts_writable_paths task) \<subseteq> set (el_writable_paths lease)
            then value_error ''Task writable paths do not match the lease.''
            else if \<not> path_within_writable_scope project result_path (el_writable_paths lease)
            then value_error ''Result path is outside the leased writable paths.''
            else if tp_validation_status publication \<noteq> ''passed''
            then value_error ''Publication validation status does not permit publication.''
            else Inr ()))"

definition save_publication_record :: "path \<Rightarrow> task_publication_record \<Rightarrow> (disk, path) prog" where
  "save_publication_record project record = save_task_publication_record project record"

definition load_publication_records :: "codecs \<Rightarrow> path \<Rightarrow> disk \<Rightarrow> task_publication_record list res" where
  "load_publication_records = load_task_publication_records"

subsection \<open>What the gate promises\<close>

lemma ensure_application_files [simp]: "fs_files (ensure_cloud_application_dirs project d) = fs_files d"
  by (simp add: ensure_cloud_application_dirs_def Let_def)

lemma save_document_run [simp]:
  "save_document project p m d = (Inr p, write_yaml p (PDict m) (ensure_cloud_application_dirs project d))"
  by (simp add: save_document_def)

text \<open>A star matches everything, also slashes: \<open>tasks/t/**\<close> is every file below \<open>tasks/t\<close>.\<close>

lemma fnmatch_star [simp]: "fnmatchcase s [CHR ''*'']"
  by (induction s) simp_all

lemma fnmatch_prefix:
  "list_all (\<lambda>c. c \<notin> {CHR ''*'', CHR ''?'', CHR ''[''}) p \<Longrightarrow> fnmatchcase (p @ s) (p @ q) \<longleftrightarrow> fnmatchcase s q"
  by (induction p) auto

text \<open>
  C21: a result is published only from a lease that is active in the store, for the active
  revision and a ready task, with the checksum of its bytes and inside the project at a path
  the lease covers; and only once: after its publication is saved the gate stays closed for
  the lease, whatever is presented.
\<close>

theorem publication_gate_guards:
  assumes plain: "plain_path (publication_path project (el_lease_id lease))"
    and ok: "validate_publication_gate c project pub lease pointer revision task result bytes d = Inr ()"
    and saved: "save_publication_record project pub d = (Inr p, e)"
  shows "(\<exists>leases. load_execution_leases c project d = Inr leases
        \<and> (\<exists>l \<in> set leases. el_lease_id l = el_lease_id lease \<and> el_lease_state l = ''active''))
    \<and> el_runtime_revision_id lease = pt_active_revision_id pointer
    \<and> (\<exists>t \<in> set (rp_task_graph revision). ts_task_id t = el_task_id lease \<and> ts_status t = ''ready'')
    \<and> tp_result_checksum pub = sha256_bytes c bytes
    \<and> (\<exists>r pattern. lexical result = lexical project @ r \<and> pattern \<in> set (el_writable_paths lease)
        \<and> fnmatchcase (if r = [] then ''.'' else join ''/'' r) pattern)
    \<and> (\<forall>pub' pointer' revision' task' result' bytes'.
        \<not> is_ok (validate_publication_gate c project pub' lease pointer' revision' task' result' bytes' e))"
proof -
  have scope: "\<exists>r pattern. lexical result = lexical project @ r \<and> pattern \<in> set (el_writable_paths lease)
      \<and> fnmatchcase (if r = [] then ''.'' else join ''/'' r) pattern"
    if "path_within_writable_scope project result (el_writable_paths lease)"
  proof -
    from that obtain r where r: "below (lexical project) (lexical result) = Some r"
      "list_ex (fnmatchcase (if r = [] then ''.'' else join ''/'' r)) (el_writable_paths lease)"
      by (simp add: path_within_writable_scope_def split: option.splits)
    then obtain pattern where "pattern \<in> set (el_writable_paths lease)"
      "fnmatchcase (if r = [] then ''.'' else join ''/'' r) pattern"
      unfolding list_ex_iff by blast
    moreover have "lexical result = lexical project @ r" using r(1) by (simp only: below_iff)
    ultimately show ?thesis by blast
  qed
  have same: "el_lease_id lease = tp_lease_id pub"
    using ok by (simp add: validate_publication_gate_def split: if_splits)
  have "e = write_yaml (publication_path project (tp_lease_id pub)) (PDict (task_publication_record_to_dict pub))
      (ensure_cloud_application_dirs project d)"
    using saved by (auto simp: save_publication_record_def save_task_publication_record_def)
  then have "fs_exists e (publication_path project (el_lease_id lease))"
    using plain same by (simp add: fs_exists_def)
  then have closed: "\<not> is_ok (validate_publication_gate c project pub' lease pointer' revision' task' result' bytes' e)"
    for pub' pointer' revision' task' result' bytes'
    by (auto simp: validate_publication_gate_def res_simps)
  have "\<exists>leases. load_execution_leases c project d = Inr leases
      \<and> el_lease_id lease \<in> el_lease_id ` set (filter (\<lambda>l. el_lease_state l = ''active'') leases)"
    using ok by (simp add: validate_publication_gate_def split: if_splits)
  then have active: "\<exists>leases. load_execution_leases c project d = Inr leases
      \<and> (\<exists>l \<in> set leases. el_lease_id l = el_lease_id lease \<and> el_lease_state l = ''active'')" by auto
  have revision: "el_runtime_revision_id lease = pt_active_revision_id pointer"
    and checksum: "tp_result_checksum pub = sha256_bytes c bytes" and task: "el_task_id lease = tp_task_id pub"
    using ok by (simp_all add: validate_publication_gate_def checksum_bytes_def split: if_splits)
  obtain t where "find_task (tp_task_id pub) (rp_task_graph revision) = Some t" "ts_status t = ''ready''"
    and inside: "path_within_writable_scope project result (el_writable_paths lease)"
    using ok by (auto simp: validate_publication_gate_def split: if_splits option.splits)
  then have "\<exists>t \<in> set (rp_task_graph revision). ts_task_id t = el_task_id lease \<and> ts_status t = ''ready''"
    using task by (auto simp: find_task_def dest!: find_Some_iff')
  with active revision checksum scope [OF inside] closed show ?thesis by blast
qed

definition sample_lease :: execution_lease where
  "sample_lease = \<lparr>el_schema_version = 1, el_lease_id = ''l'', el_task_id = ''a'', el_execution_attempt_id = ''n'',
     el_runtime_revision_id = ''r1'', el_runtime_revision_checksum = ''h'', el_local_model = ''m'',
     el_writable_paths = [''out/**''], el_start_timestamp = ''t'', el_lease_state = ''active'',
     el_expiry_timestamp = None, el_heartbeat_timestamp = None, el_completion_checksum = None,
     el_failure_reason = None\<rparr>"

definition sample_publication :: task_publication_record where
  "sample_publication = \<lparr>tp_schema_version = 1, tp_task_id = ''a'', tp_lease_id = ''l'', tp_execution_attempt_id = ''n'',
     tp_revision_id = ''r1'', tp_revision_checksum = ''h'', tp_result_artifact_path = ''out/x'',
     tp_result_checksum = ''bok'', tp_validation_status = ''passed'', tp_publication_timestamp = ''t'',
     tp_failure_reason = None\<rparr>"

definition lease_disk :: disk where
  "lease_disk = \<lparr>fs_files = [([''p'', ''.agentic'', ''execution_leases'', ''l.yaml''], Doc (PDict (execution_lease_to_dict sample_lease))),
     ([''p'', ''out'', ''x''], Text ''ok'')], fs_dirs = []\<rparr>"

theorem publication_gate_guards_witness:
  "\<exists>e. save_publication_record [''p''] sample_publication lease_disk = (Inr (publication_path [''p''] ''l''), e)
    \<and> \<not> is_ok (validate_publication_gate sample_codecs [''p''] sample_publication sample_lease (source_pointer ''r1'')
        (source_revision ''r1'' None [sample_task ''a'' [] []]) (sample_task ''a'' [] []) [''p'', ''out'', ''x''] ''ok'' e)"
proof -
  have plain: "plain_path (publication_path [''p''] (el_lease_id sample_lease))" by code_simp
  have ok: "validate_publication_gate sample_codecs [''p''] sample_publication sample_lease (source_pointer ''r1'')
      (source_revision ''r1'' None [sample_task ''a'' [] []]) (sample_task ''a'' [] []) [''p'', ''out'', ''x''] ''ok'' lease_disk = Inr ()"
    by code_simp
  obtain p e where saved: "save_publication_record [''p''] sample_publication lease_disk = (Inr p, e)"
    by (simp add: save_publication_record_def save_task_publication_record_def)
  then have "p = publication_path [''p''] ''l''"
    by (simp add: save_publication_record_def save_task_publication_record_def sample_publication_def)
  with publication_gate_guards [OF plain ok saved] saved show ?thesis by blast
qed

end
