(* ===== verification/AppServiceFacts.thy ===== *)
theory AppServiceFacts
  imports AppService AppPublication
begin

text \<open>
  What \<open>plan_apply\<close> does to a project: at every moment the active pointer and the revision it
  names belong together, and the run switches from the old pair to the new one in one step.
\<close>

declare only_changes_refl [rule del]

subsection \<open>Rules for the service\<close>

definition of_disk :: "(disk \<Rightarrow> bool) \<Rightarrow> world \<Rightarrow> bool" where
  "of_disk P w \<longleftrightarrow> P (w_disk w)"

lemma guarded_on_disk: "guarded P F m \<Longrightarrow> guarded (of_disk P) F (on_disk m)"
  by (fastforce simp: guarded_def ensures_def on_disk_def of_disk_def split: prod.splits sum.splits)

lemma keeps_on_disk [keeps_intros]: "keeps P m \<Longrightarrow> keeps (of_disk P) (on_disk m)"
  by (auto simp: keeps_def on_disk_def of_disk_def split: prod.splits)

lemma keeps_calls [keeps_intros]:
  "keeps (of_disk P) (now_call env)" "keeps (of_disk P) (id_call f)" "keeps P' (raise_error m)"
  by (simp_all add: keeps_def now_call_def id_call_def raise_error_def of_disk_def)

lemma guarded_id_call: "guarded (of_disk P) (\<lambda>i. \<exists>k. i = f k) (id_call f)"
  by (auto simp: guarded_def ensures_def id_call_def of_disk_def)

lemma ensures_on_disk: "ensures P m Q E \<Longrightarrow> ensures (of_disk P) (on_disk m) (\<lambda>x. of_disk (Q x)) (of_disk E)"
  by (fastforce simp: ensures_def on_disk_def of_disk_def split: prod.splits sum.splits)

definition slash_free :: "string \<Rightarrow> bool" where
  "slash_free s \<longleftrightarrow> CHR ''/'' \<notin> set s"

lemma slash_free_file [simp]: "slash_free s \<Longrightarrow> plain_name (s @ ''.yaml'')"
  by (simp add: slash_free_def plain_name_file)

lemma slash_free_append [simp]: "slash_free (s @ t) \<longleftrightarrow> slash_free s \<and> slash_free t"
  by (auto simp: slash_free_def)

lemma slash_free_Cons [simp]: "slash_free []" "slash_free (c # s) \<longleftrightarrow> c \<noteq> CHR ''/'' \<and> slash_free s"
  by (auto simp: slash_free_def)

text \<open>The files of applications and of transactions, apart from the revisions and the pointer.\<close>

definition app_area :: "path \<Rightarrow> path set" where
  "app_area project = {application_root_path project @ r | r. True} \<union> {transaction_root_path project @ r | r. True}"

text \<open>A property of disks that no write to these files changes.\<close>

definition area_stable :: "path \<Rightarrow> (disk \<Rightarrow> bool) \<Rightarrow> bool" where
  "area_stable project P \<longleftrightarrow> (\<forall>d e. P d \<and> only_changes (app_area project) d e \<longrightarrow> P e)"

lemma only_changes_file:
  "plain_path p \<Longrightarrow> p \<in> ps \<Longrightarrow> fs_files e = al_set p v (fs_files d) \<Longrightarrow> only_changes ps d e"
  by (auto simp: only_changes_def)

lemma area_stable_changes: "app_area project \<subseteq> ps \<Longrightarrow> area_stable project (only_changes ps d)"
  unfolding area_stable_def by (meson only_changes_trans order_refl sup.bounded_iff)

lemma area_stable_file:
  "plain_path p \<Longrightarrow> p \<notin> app_area project \<Longrightarrow> area_stable project (\<lambda>d. map_of (fs_files d) p = v)"
  by (auto simp: area_stable_def only_changes_def)

lemma area_stable_conj:
  "area_stable project P \<Longrightarrow> area_stable project Q \<Longrightarrow> area_stable project (\<lambda>d. P d \<and> Q d)"
  unfolding area_stable_def by blast

lemma app_paths:
  assumes "plain_path project" and "slash_free i"
  shows "plain_path (application_path project i)" "application_path project i \<in> app_area project"
    "plain_path (application_plan_path project i)" "application_plan_path project i \<in> app_area project"
    "plain_path (transaction_path project i)" "transaction_path project i \<in> app_area project"
    "plain_path (application_audit_log_path project)" "application_audit_log_path project \<in> app_area project"
    "plain_path (revision_path project i)" "revision_path project i \<notin> app_area project"
    "plain_path (active_pointer_path project)" "active_pointer_path project \<notin> app_area project"
    "active_pointer_path project \<noteq> revision_path project i"
  using assms plain_name_parts [OF slash_free_file [OF assms(2)]]
  by (simp_all add: application_path_def application_plan_path_def transaction_path_def revision_path_def
      application_audit_log_path_def active_pointer_path_def app_area_def application_root_path_def
      transaction_root_path_def runtime_plan_path_def)

text \<open>Every save keeps what does not depend on its own file.\<close>

lemma area_stableD:
  "area_stable project P \<Longrightarrow> P d \<Longrightarrow> plain_path p \<Longrightarrow> p \<in> app_area project \<Longrightarrow>
   fs_files e = al_set p v (fs_files d) \<Longrightarrow> P e"
  unfolding area_stable_def using only_changes_file by blast

lemma keeps_save:
  "area_stable project P \<Longrightarrow> plain_path p \<Longrightarrow> p \<in> app_area project \<Longrightarrow> keeps P (save_document project p m)"
  by (simp add: keeps_def area_stableD)

lemma area_stable_dirs: "area_stable project P \<Longrightarrow> P d \<Longrightarrow> fs_files e = fs_files d \<Longrightarrow> P e"
  unfolding area_stable_def by (blast intro: only_changes_refl)

lemma keeps_dirs:
  "area_stable project P \<Longrightarrow> keeps P (pmodify (ensure_cloud_application_dirs p))"
  "area_stable project P \<Longrightarrow> keeps P (pmodify (ensure_cloud_queue_dirs p))"
  by (rule keeps_pmodify, erule area_stable_dirs, simp_all)+

lemma keeps_log:
  assumes "plain_path project" and stable: "area_stable project P"
  shows "keeps P (record_application_audit_event c project e i)"
proof -
  note log = app_paths(7,8) [OF assms(1) slash_free_Cons(1)]
  have "P (append_log c (application_audit_log_path project) l d)" if "P d" for l d
    by (rule area_stableD [OF stable that log]) (simp add: log)
  then show ?thesis
    unfolding record_application_audit_event_def Let_def
    by (intro keeps_pbind keeps_dirs [OF stable] keeps_pmodify keeps_pret)
qed

subsection \<open>What the records keep\<close>

lemma dget_merge_other: "k \<notin> fst ` set upd \<Longrightarrow> dget (al_merge d upd) k = dget d k"
  by (induction upd arbitrary: d) auto

lemma application_with_id:
  "application_with a upd = Inr b \<Longrightarrow> ''application_id'' \<notin> fst ` set upd \<Longrightarrow>
   an_application_id b = an_application_id a"
  by (auto simp: application_with_def application_record_from_dict_def dget_merge_other codec_simps)

lemma application_with_status:
  "application_with a upd = Inr b \<Longrightarrow> ''status'' \<notin> fst ` set upd \<Longrightarrow> an_status b = an_status a"
  by (auto simp: application_with_def application_record_from_dict_def dget_merge_other codec_simps)

lemma transaction_phase_result:
  "transaction_record_from_dict (al_merge (transaction_record_to_dict r)
      [(''phase'', PStr phase), (''updated_at'', PStr t), (''artifact_paths'', pstrs ps), (''details'', PDict m),
       (''recovery_action'', PStr (tx_recovery_action r))]) =
   Inr (r\<lparr>tx_phase := phase, tx_updated_at := t, tx_artifact_paths := ps, tx_details := m\<rparr>)"
  by (simp add: transaction_record_from_dict_def codec_simps)

lemma transaction_checksum_result:
  "transaction_record_from_dict (al_set ''proposed_revision_checksum'' (PStr s) (transaction_record_to_dict r)) =
   Inr (r\<lparr>tx_proposed_revision_checksum := s\<rparr>)"
  by (simp add: transaction_record_from_dict_def codec_simps)

subsection \<open>Guarded operations\<close>

lemmas guarded_disk = guarded_keeps [OF keeps_on_disk]

lemma guarded_now: "guarded (of_disk P) (\<lambda>_. True) (now_call env)"
  by (rule guarded_keeps) (rule keeps_calls)

lemma guarded_plift_eq: "guarded P (\<lambda>x. r = Inr x) (plift r)"
  by (rule guarded_plift)

lemma guarded_raise: "guarded P F (raise_error m)"
  by (simp add: guarded_def ensures_def raise_error_def)

lemma keeps_loaders:
  assumes "area_stable project P"
  shows "keeps (of_disk P) (svc_load_request c project i)"
    "keeps (of_disk P) (load_request_and_response c project i)"
    "keeps (of_disk P) (load_approval_record_if_present c project q)"
  unfolding load_request_and_response_def svc_load_request_def show_cloud_queue_request_def locate_request_def
    load_requests_def load_imported_response_def load_approval_record_if_present_def Let_def
  by (intro keeps_intros keeps_dirs [OF assms])+

lemma guarded_application:
  assumes "plain_path project" and stable: "area_stable project P" and "slash_free (an_application_id a)"
  shows "guarded (of_disk P) (\<lambda>_. True) (on_disk (save_application_record project a))"
  unfolding save_application_record_def
  by (intro guarded_disk keeps_save stable) (simp_all add: app_paths [OF assms(1,3)])

lemma guarded_application_plan:
  assumes "plain_path project" and stable: "area_stable project P" and "slash_free (ap_application_id a)"
  shows "guarded (of_disk P) (\<lambda>_. True) (on_disk (save_application_plan project a))"
  unfolding save_application_plan_def
  by (intro guarded_disk keeps_save stable) (simp_all add: app_paths [OF assms(1,3)])

lemma guarded_transaction:
  assumes "plain_path project" and stable: "area_stable project P" and "slash_free (tx_transaction_id t)"
  shows "guarded (of_disk P) (\<lambda>_. True) (on_disk (save_transaction_record project t))"
  unfolding save_transaction_record_def
  by (intro guarded_disk keeps_save stable) (simp_all add: app_paths [OF assms(1,3)])

lemma guarded_audit:
  "plain_path project \<Longrightarrow> area_stable project P \<Longrightarrow> guarded (of_disk P) (\<lambda>_. True) (record_audit c env project t a r p n m)"
  unfolding record_audit_def Let_def
  by (intro guarded_keeps keeps_if keeps_pbind keeps_calls keeps_on_disk keeps_log keeps_pret)

lemma guarded_transition:
  assumes plain: "plain_path project" and stable: "area_stable project P" and a: "slash_free (an_application_id a)"
  shows "guarded (of_disk P) (\<lambda>b. an_application_id b = an_application_id a)
    (transition_application c env project a next r m)"
  unfolding transition_application_def
  by (intro guarded_pbind [OF guarded_plift_eq] guarded_pbind [OF guarded_application [OF plain stable]]
      guarded_pbind [OF guarded_audit [OF plain stable]] guarded_pret)
    (use a application_with_id in force)+

lemma guarded_phase:
  assumes "plain_path project" and stable: "area_stable project P" and "slash_free (tx_transaction_id t)"
  shows "guarded (of_disk P) (\<lambda>u. tx_transaction_id u = tx_transaction_id t)
    (save_phase env project t phase paths details)"
proof -
  have "keeps P (save_transaction_record project u)"
    if "tx_transaction_id u = tx_transaction_id t" for u
    unfolding save_transaction_record_def
    by (intro keeps_save stable) (simp_all add: that app_paths [OF assms(1,3)])
  then have "guarded P (\<lambda>u. tx_transaction_id u = tx_transaction_id t)
      (save_transaction_phase project t phase now paths details)" for now
    unfolding save_transaction_phase_def transaction_phase_result
    by (intro guarded_pbind [OF guarded_plift] guarded_pbind [OF guarded_keeps] guarded_pret) auto
  then show ?thesis
    unfolding save_phase_def by (intro guarded_pbind [OF guarded_now] guarded_on_disk)
qed

lemma guarded_failure:
  "plain_path project \<Longrightarrow> area_stable project P \<Longrightarrow> slash_free (tx_transaction_id t) \<Longrightarrow>
   guarded (of_disk P) (\<lambda>_. \<not> hook) (injected_failure env project t hook reason message)"
  unfolding injected_failure_def
  by (intro guarded_if guarded_pbind [OF guarded_phase] guarded_raise guarded_pret) auto

lemma guarded_start:
  assumes "plain_path project" and stable: "area_stable project P" and "slash_free (an_application_id (pp_application p))"
  shows "guarded (of_disk P)
    (\<lambda>(a, t). an_application_id a = an_application_id (pp_application p)
        \<and> tx_transaction_id t = ''txn-'' @ an_application_id (pp_application p))
    (start_transaction c env project p)"
  unfolding start_transaction_def Let_def
  by (intro guarded_pbind [OF guarded_now] guarded_pbind [OF guarded_transaction] guarded_pbind [OF guarded_failure]
      guarded_pbind [OF guarded_transition] guarded_pbind [OF guarded_phase] guarded_pret)
    (simp_all add: assms create_transaction_record_def)

end
