(* ===== verification/AppAtomicity.thy ===== *)
theory AppAtomicity
  imports AppServiceFacts
begin

text \<open>
  The active state of the runtime plan across \<open>plan_apply\<close>: whatever fails, wherever a hook
  stops the run, the pointer names a complete revision, the old one or the new one.
\<close>

subsection \<open>Revisions that are read back\<close>

lemma fdicts_all:
  "fdicts f d k = Inr xs \<Longrightarrow> (\<And>e x. f e = Inr x \<Longrightarrow> P x) \<Longrightarrow> x \<in> set xs \<Longrightarrow> P x"
  by (auto simp: fdicts_def rmap_list_set)

lemma task_from_dict_wf: "task_snapshot_from_dict d = Inr t \<Longrightarrow> wf_task_snapshot t"
  by (auto simp: task_snapshot_from_dict_def wf_task_snapshot_def)

lemma revision_from_dict_wf: "runtime_plan_revision_from_dict d = Inr r \<Longrightarrow> wf_runtime_plan_revision r"
  by (auto simp: runtime_plan_revision_from_dict_def wf_runtime_plan_revision_def
      dest: fdicts_all [where P = wf_task_snapshot] intro: task_from_dict_wf)

lemma revision_from_dict_fields:
  assumes "runtime_plan_revision_from_dict d = Inr r"
  shows "rp_revision_id r = fstr d ''revision_id''"
    "rbind (fdict d ''rollback_metadata'') rollback_metadata_from_dict = Inr (rp_rollback_metadata r)"
  using assms by (auto simp: runtime_plan_revision_from_dict_def)

lemma built_revision:
  assumes "build_runtime_graph_revision c rid parent aid t tasks rms dcs summary rb ids = Inr r"
  shows "rp_revision_id r = rid" "rp_rollback_metadata r = rb" "wf_runtime_plan_revision r"
  using assms
  by (auto simp: build_runtime_graph_revision_def Let_def codec_simps revision_from_dict_wf
      dest: revision_from_dict_fields)

definition stored_revision :: "path \<Rightarrow> runtime_plan_revision \<Rightarrow> disk \<Rightarrow> bool" where
  "stored_revision project r d \<longleftrightarrow>
     map_of (fs_files d) (revision_path project (rp_revision_id r)) = Some (Doc (PDict (runtime_plan_revision_to_dict r)))"

definition stored_pointer :: "path \<Rightarrow> active_revision_pointer \<Rightarrow> disk \<Rightarrow> bool" where
  "stored_pointer project p d \<longleftrightarrow>
     map_of (fs_files d) (active_pointer_path project) = Some (Doc (PDict (active_revision_pointer_to_dict p)))"

lemma stored_stable:
  assumes "plain_path project" and "slash_free (rp_revision_id r)"
  shows "area_stable project (stored_revision project r)" "area_stable project (stored_pointer project p)"
  unfolding stored_revision_def stored_pointer_def
  by (intro area_stable_file app_paths [OF assms])+

lemma loaded_exists: "plain_path p \<Longrightarrow> load_yaml_mapping c dec p d = Inr x \<Longrightarrow> fs_exists d p"
  by (auto simp: load_yaml_mapping_def read_mapping_def fs_exists_def split: option.splits)

text \<open>The active state is a pointer and the revision it names.\<close>

lemma active_state_iff:
  assumes "plain_path project" and "slash_free (pt_active_revision_id (rst_pointer st))"
  shows "load_active_runtime_state c project d = Inr st \<longleftrightarrow>
    load_active_pointer c (active_pointer_path project) d = Inr (rst_pointer st)
    \<and> load_runtime_revision c (revision_path project (pt_active_revision_id (rst_pointer st))) d = Inr (rst_revision st)
    \<and> validate_active_pointer (rst_pointer st) (rp_revision_id (rst_revision st))
        (rp_revision_checksum (rst_revision st)) = Inr ()"
proof
  assume "load_active_runtime_state c project d = Inr st"
  then show "load_active_pointer c (active_pointer_path project) d = Inr (rst_pointer st)
    \<and> load_runtime_revision c (revision_path project (pt_active_revision_id (rst_pointer st))) d = Inr (rst_revision st)
    \<and> validate_active_pointer (rst_pointer st) (rp_revision_id (rst_revision st))
        (rp_revision_checksum (rst_revision st)) = Inr ()"
    by (auto simp: load_active_runtime_state_def Let_def runtime_active_pointer_path_def split: if_splits)
next
  assume loads: "load_active_pointer c (active_pointer_path project) d = Inr (rst_pointer st)
    \<and> load_runtime_revision c (revision_path project (pt_active_revision_id (rst_pointer st))) d = Inr (rst_revision st)
    \<and> validate_active_pointer (rst_pointer st) (rp_revision_id (rst_revision st))
        (rp_revision_checksum (rst_revision st)) = Inr ()"
  then have "fs_exists d (active_pointer_path project)"
    "fs_exists d (revision_path project (pt_active_revision_id (rst_pointer st)))"
    using app_paths(9,11) [OF assms] unfolding load_active_pointer_def load_runtime_revision_def
    by (blast intro: loaded_exists)+
  with loads show "load_active_runtime_state c project d = Inr st"
    by (simp add: load_active_runtime_state_def Let_def runtime_active_pointer_path_def)
qed

lemma pointer_names_revision:
  "validate_active_pointer p i s = Inr () \<longleftrightarrow>
   pt_active_revision_id p = i \<and> pt_active_revision_checksum p = s"
  by (auto simp: validate_active_pointer_def)

lemma active_state_ids:
  "load_active_runtime_state c project d = Inr st \<Longrightarrow>
   pt_active_revision_id (rst_pointer st) = rp_revision_id (rst_revision st)
   \<and> pt_active_revision_checksum (rst_pointer st) = rp_revision_checksum (rst_revision st)"
  by (auto simp: load_active_runtime_state_def pointer_names_revision Let_def split: if_splits)

text \<open>A stored pointer and the revision it names are the active state.\<close>

lemma pointer_read_back:
  "active_revision_pointer_from_dict (active_revision_pointer_to_dict p) =
   Inr (p\<lparr>pt_previous_revision_id := maybe_text (opt_str (pt_previous_revision_id p))\<rparr>)"
  by (simp add: active_revision_pointer_from_dict_def codec_simps)

definition names_revision :: "active_revision_pointer \<Rightarrow> runtime_plan_revision \<Rightarrow> bool" where
  "names_revision p r \<longleftrightarrow> pt_active_revision_id p = rp_revision_id r
     \<and> pt_active_revision_checksum p = rp_revision_checksum r"

lemma stored_state:
  assumes plain: "plain_path project" and r: "slash_free (rp_revision_id r)"
    and "stored_revision project r d" and "stored_pointer project p d"
    and "wf_runtime_plan_revision r" and names: "names_revision p r"
  shows "load_active_runtime_state c project d =
    Inr \<lparr>rst_pointer = p\<lparr>pt_previous_revision_id := maybe_text (opt_str (pt_previous_revision_id p))\<rparr>, rst_revision = r\<rparr>"
proof (subst active_state_iff [OF plain])
  show "slash_free (pt_active_revision_id (rst_pointer \<lparr>rst_pointer =
      p\<lparr>pt_previous_revision_id := maybe_text (opt_str (pt_previous_revision_id p))\<rparr>, rst_revision = r\<rparr>))"
    using r names by (simp add: names_revision_def)
qed (use assms app_paths [OF plain r] in \<open>simp_all add: stored_revision_def stored_pointer_def
      load_active_pointer_def load_runtime_revision_def load_yaml_mapping_def read_mapping_def yaml_value_def
      runtime_plan_revision_roundtrip pointer_read_back pointer_names_revision names_revision_def\<close>)

text \<open>The active state depends on two files.\<close>

lemma same_state:
  assumes "plain_path project" and st: "load_active_runtime_state c project d = Inr st"
    and ok: "slash_free (rp_revision_id (rst_revision st))"
    and "map_of (fs_files e) (active_pointer_path project) = map_of (fs_files d) (active_pointer_path project)"
    and "map_of (fs_files e) (revision_path project (rp_revision_id (rst_revision st)))
      = map_of (fs_files d) (revision_path project (rp_revision_id (rst_revision st)))"
  shows "load_active_runtime_state c project e = Inr st"
proof -
  note paths = app_paths [OF assms(1) ok]
  note ids = active_state_ids [OF st]
  have "load_active_pointer c (active_pointer_path project) e = load_active_pointer c (active_pointer_path project) d"
    "load_runtime_revision c (revision_path project (rp_revision_id (rst_revision st))) e
      = load_runtime_revision c (revision_path project (rp_revision_id (rst_revision st))) d"
    unfolding load_active_pointer_def load_runtime_revision_def load_yaml_mapping_def
    by (rule read_mapping_cong, use assms(4,5) paths in simp)+
  with st show ?thesis
    using ids ok by (simp add: active_state_iff [OF assms(1)])
qed

subsection \<open>The steps of a transaction\<close>

text \<open>The new revision is made from the plan.\<close>

definition revision_of_plan :: "application_plan \<Rightarrow> runtime_plan_revision \<Rightarrow> bool" where
  "revision_of_plan plan r \<longleftrightarrow> rp_revision_id r = ap_proposed_revision_id plan
     \<and> rb_prior_revision_id (rp_rollback_metadata r) = ap_source_revision_id plan
     \<and> rb_prior_revision_checksum (rp_rollback_metadata r) = ap_source_revision_checksum plan
     \<and> wf_runtime_plan_revision r \<and> sound_tasks (rp_task_graph r)"

definition run_area :: "path \<Rightarrow> application_plan \<Rightarrow> path set" where
  "run_area project plan = app_area project \<union> {revision_path project (ap_proposed_revision_id plan)}"

lemma ensures_save_revision:
  assumes "plain_path project" and "slash_free (rp_revision_id r)"
    and "revision_path project (rp_revision_id r) \<in> ps"
  shows "ensures (of_disk (only_changes ps d)) (on_disk (save_runtime_revision project r))
    (\<lambda>_. of_disk (\<lambda>e. only_changes ps d e \<and> stored_revision project r e)) E"
  using app_paths [OF assms(1,2)] assms(3)
  by (auto simp: ensures_def of_disk_def on_disk_def save_runtime_revision_def stored_revision_def only_changes_def)

lemma publish_ensures:
  assumes plain: "plain_path project" and plan: "slash_free (ap_proposed_revision_id (pp_plan p))"
    and t: "slash_free (tx_transaction_id t)"
  shows "ensures (of_disk (only_changes (run_area project (pp_plan p)) d))
    (publish_revision c env project p a t ids)
    (\<lambda>(r, f, u) w. of_disk (\<lambda>e. only_changes (run_area project (pp_plan p)) d e \<and> stored_revision project r e) w
        \<and> revision_of_plan (pp_plan p) r \<and> tx_transaction_id u = tx_transaction_id t)
    (of_disk (only_changes (run_area project (pp_plan p)) d))" (is "ensures ?P _ _ _")
proof -
  let ?A = "run_area project (pp_plan p)"
  have stable: "area_stable project (only_changes ?A d)"
    by (rule area_stable_changes) (auto simp: run_area_def)
  have tail: "ensures ?P
      (pbind (on_disk (save_runtime_revision project r)) (\<lambda>f.
       pbind (save_phase env project u ''revision_published'' (Some [path_text f]) [(''revision_path'', PStr (path_text f))])
         (\<lambda>v. pret (r, f, v))))
      (\<lambda>(r, f, u) w. of_disk (\<lambda>e. only_changes ?A d e \<and> stored_revision project r e) w
        \<and> revision_of_plan (pp_plan p) r \<and> tx_transaction_id u = tx_transaction_id t) ?P"
    if r: "revision_of_plan (pp_plan p) r" and u: "tx_transaction_id u = tx_transaction_id t" for r u
  proof (rule ensures_pbind)
    have rid: "slash_free (rp_revision_id r)" using plan r by (simp add: revision_of_plan_def)
    show "ensures ?P (on_disk (save_runtime_revision project r))
        (\<lambda>_. of_disk (\<lambda>e. only_changes ?A d e \<and> stored_revision project r e)) ?P"
      by (rule ensures_save_revision [OF plain rid]) (use r in \<open>simp add: run_area_def revision_of_plan_def\<close>)
    show "ensures (of_disk (\<lambda>e. only_changes ?A d e \<and> stored_revision project r e))
        (pbind (save_phase env project u ''revision_published'' (Some [path_text f]) [(''revision_path'', PStr (path_text f))])
         (\<lambda>v. pret (r, f, v)))
        (\<lambda>(r, f, u) w. of_disk (\<lambda>e. only_changes ?A d e \<and> stored_revision project r e) w
          \<and> revision_of_plan (pp_plan p) r \<and> tx_transaction_id u = tx_transaction_id t) ?P" for f
      by (rule guarded_ensures [OF guarded_phase [OF plain area_stable_conj [OF stable stored_stable(1) [OF plain rid]]]])
        (use r u t in \<open>auto simp: of_disk_def intro!: ensures_pret\<close>)
  qed
  show ?thesis
    unfolding publish_revision_def Let_def transaction_checksum_result
    by (intro guarded_ensures [OF guarded_failure [OF plain stable]] guarded_ensures [OF guarded_now]
        guarded_ensures [OF guarded_plift_eq] guarded_ensures [OF guarded_transaction [OF plain stable]]
        guarded_ensures [OF guarded_phase [OF plain stable]] tail)
      (use t in \<open>auto simp: revision_of_plan_def dest: built_revision\<close>)
qed

text \<open>The pointer was moved to the new revision.\<close>

definition switched :: "path \<Rightarrow> application_plan \<Rightarrow> disk \<Rightarrow> runtime_plan_revision \<Rightarrow> disk \<Rightarrow> bool" where
  "switched project plan d r e \<longleftrightarrow>
     only_changes (insert (active_pointer_path project) (run_area project plan)) d e
     \<and> (stored_revision project r e \<and> (\<exists>q. stored_pointer project q e \<and> names_revision q r))"

lemma switched_stable:
  assumes plain: "plain_path project" and r: "slash_free (rp_revision_id r)"
  shows "area_stable project (switched project plan d r)"
proof -
  have "area_stable project (\<lambda>e. stored_pointer project q e \<and> names_revision q r)" for q
    using stored_stable(2) [OF plain r] by (auto simp: area_stable_def)
  then have "area_stable project (\<lambda>e. \<exists>q. stored_pointer project q e \<and> names_revision q r)"
    unfolding area_stable_def by blast
  then show ?thesis
    unfolding switched_def
    by (intro area_stable_conj area_stable_changes stored_stable [OF plain r]) (auto simp: run_area_def)
qed

lemma ensures_save_pointer:
  assumes plain: "plain_path project" and r: "slash_free (rp_revision_id r)" and "names_revision q r"
  shows "ensures (of_disk (\<lambda>e. only_changes (run_area project plan) d e \<and> stored_revision project r e))
    (on_disk (save_active_pointer project q)) (\<lambda>_. of_disk (switched project plan d r)) E"
  using app_paths [OF plain r] assms(3)
  by (auto simp: ensures_def of_disk_def on_disk_def save_active_pointer_def switched_def stored_pointer_def
      stored_revision_def only_changes_def)

lemma update_pointer_ensures:
  assumes plain: "plain_path project" and r: "revision_of_plan plan r"
    and plan: "slash_free (ap_proposed_revision_id plan)" and t: "slash_free (tx_transaction_id t)"
  shows "ensures (of_disk (\<lambda>e. only_changes (run_area project plan) d e \<and> stored_revision project r e))
    (update_pointer c env project plan aid r t)
    (\<lambda>u w. of_disk (switched project plan d r) w \<and> tx_transaction_id u = tx_transaction_id t)
    (of_disk (\<lambda>e. only_changes (run_area project plan) d e \<or> switched project plan d r e))"
    (is "ensures ?P _ _ ?E")
proof -
  have rid: "slash_free (rp_revision_id r)" using r plan by (simp add: revision_of_plan_def)
  have "area_stable project (only_changes (run_area project plan) d)"
    by (rule area_stable_changes) (auto simp: run_area_def)
  note stable = area_stable_conj [OF this stored_stable(1) [OF plain rid]]
  have before: "\<And>s. ?P s \<Longrightarrow> ?E s" and after: "\<And>s. of_disk (switched project plan d r) s \<Longrightarrow> ?E s"
    by (auto simp: of_disk_def)
  show ?thesis
    unfolding update_pointer_def
    by (intro guarded_ensures [OF guarded_pread] guarded_ensures [OF guarded_plift_eq] before
        guarded_ensures [OF guarded_failure [OF plain stable t]] guarded_ensures [OF guarded_now]
        ensures_pbind [OF ensures_save_pointer [OF plain rid]]
        guarded_ensures [OF guarded_phase [OF plain switched_stable [OF plain rid] t]]
        guarded_ensures [OF guarded_failure [OF plain switched_stable [OF plain rid]]] after ensures_pret TrueI)
      (simp_all add: names_revision_def t)
qed

lemma guarded_commit:
  assumes plain: "plain_path project" and stable: "area_stable project P"
    and a: "slash_free (an_application_id a)" and t: "slash_free (tx_transaction_id t)"
  shows "guarded (of_disk P) (\<lambda>_. True) (commit_application c env project a plan request r t ids)"
proof -
  have step: "guarded (of_disk P) (\<lambda>_. True)
      (if b then pbind (transition_application c env project x ''resume_pending'' (Some request) m) (\<lambda>y.
         pbind (on_disk (save_application_record project y)) (\<lambda>_.
         pbind (record_audit c env project ''resume_eligible'' (Some y) (Some request) ''applied'' ''resume_pending''
           [(''resume_from_task_ids'', pstrs (re_resume_from_task_ids (an_resume y)))]) (\<lambda>_. pret y)))
       else pret x)" if "an_application_id x = an_application_id a" for b x m
    using a that
    by (intro guarded_if guarded_pbind [OF guarded_transition [OF plain stable]]
        guarded_pbind [OF guarded_application [OF plain stable]] guarded_pbind [OF guarded_audit [OF plain stable]]
        guarded_pret) simp_all
  show ?thesis
    unfolding commit_application_def Let_def
    by (intro guarded_pbind [OF guarded_transition [OF plain stable]] guarded_pbind [OF guarded_plift_eq]
        guarded_pbind [OF guarded_application [OF plain stable]] guarded_pbind [OF guarded_phase [OF plain stable]]
        guarded_pbind [OF guarded_audit [OF plain stable]] guarded_pbind [OF step] guarded_pret TrueI)
      (use a t in \<open>auto dest!: application_with_id split del: if_split\<close>)
qed

text \<open>The whole transaction.\<close>

lemma ensures_triple:
  "(\<And>a b c. ensures (\<lambda>w. P a b c w) (f a b c) Q E) \<Longrightarrow>
   ensures (\<lambda>w. case y of (a, b, c) \<Rightarrow> P a b c w) (case y of (a, b, c) \<Rightarrow> f a b c) Q E"
  by (cases y) auto

lemma ensures_pair: "(\<And>a b. ensures P (f a b) Q E) \<Longrightarrow> ensures P (case y of (a, b) \<Rightarrow> f a b) Q E"
  by (cases y) auto

lemma apply_plan_ensures:
  assumes plain: "plain_path project" and a: "slash_free (an_application_id (pp_application p))"
    and plan: "slash_free (ap_proposed_revision_id (pp_plan p))"
  shows "ensures (of_disk (only_changes (run_area project (pp_plan p)) d)) (apply_plan c env project p ids)
    (\<lambda>x w. \<exists>r. of_disk (switched project (pp_plan p) d r) w \<and> revision_of_plan (pp_plan p) r
       \<and> pr_active_revision_id x = Some (rp_revision_id r))
    (\<lambda>w. of_disk (only_changes (run_area project (pp_plan p)) d) w
       \<or> (\<exists>r. of_disk (switched project (pp_plan p) d r) w \<and> revision_of_plan (pp_plan p) r))"
    (is "ensures ?P _ ?Q ?E")
proof -
  have stable: "area_stable project (only_changes (run_area project (pp_plan p)) d)"
    by (rule area_stable_changes) (auto simp: run_area_def)
  have commit: "ensures (of_disk (switched project (pp_plan p) d r))
      (pbind (commit_application c env project b (pp_plan p) (pp_request p) r u ids) (\<lambda>application.
        pret \<lparr>pr_application = application, pr_plan = pp_plan p, pr_dry_run = False,
          pr_active_revision_id = Some (rp_revision_id r),
          pr_active_revision_checksum = Some (rp_revision_checksum r),
          pr_application_path = application_path project (an_application_id application),
          pr_plan_path = application_plan_path project (an_application_id application),
          pr_revision_path = Some f, pr_pointer_path = Some (active_pointer_path project),
          pr_audit_event_ids = ids\<rparr>)) ?Q ?E"
    if r: "revision_of_plan (pp_plan p) r" and b: "slash_free (an_application_id b)"
      and u: "slash_free (tx_transaction_id u)" for r b u f
  proof (rule guarded_ensures [OF guarded_commit [OF plain switched_stable [OF plain] b u]])
    show "slash_free (rp_revision_id r)" using r plan by (simp add: revision_of_plan_def)
  qed (use r in \<open>auto intro!: ensures_pret\<close>)
  have update: "ensures (of_disk (\<lambda>e. only_changes (run_area project (pp_plan p)) d e \<and> stored_revision project r e))
      (update_pointer c env project (pp_plan p) i r u)
      (\<lambda>v w. of_disk (switched project (pp_plan p) d r) w \<and> tx_transaction_id v = tx_transaction_id u) ?E"
    if "revision_of_plan (pp_plan p) r" and "slash_free (tx_transaction_id u)" for r u i
    by (rule ensures_weaken [OF update_pointer_ensures [OF plain that(1) plan that(2)]])
      (use that(1) in \<open>auto simp: of_disk_def\<close>)
  have publish: "ensures ?P (publish_revision c env project p b t ids)
      (\<lambda>y w. case y of (r, f, u) \<Rightarrow>
         of_disk (\<lambda>e. only_changes (run_area project (pp_plan p)) d e \<and> stored_revision project r e) w
         \<and> revision_of_plan (pp_plan p) r \<and> slash_free (tx_transaction_id u)) ?E"
    if "slash_free (tx_transaction_id t)" for b t
    by (rule ensures_weaken [OF publish_ensures [OF plain plan that]]) (use that in auto)
  show ?thesis
    unfolding apply_plan_def Let_def
    by (rule guarded_ensures [OF guarded_start [OF plain stable a]])
      (use a in \<open>auto intro!: ensures_pbind [OF publish] ensures_triple ensures_fact ensures_pbind [OF update] commit\<close>)
qed

subsection \<open>Before the transaction\<close>

lemma application_plan_fields:
  assumes "application_plan_from_dict d = Inr q"
  shows "ap_application_id q = fstr d ''application_id''" "ap_source_revision_id q = fstr d ''source_revision_id''"
    "ap_source_revision_checksum q = fstr d ''source_revision_checksum''"
    "ap_proposed_revision_id q = fstr d ''proposed_revision_id''"
  using assms by (auto simp: application_plan_from_dict_def)

text \<open>What a plan takes over from the state it was made in and from the factories.\<close>

definition prepared_from :: "application_service \<Rightarrow> runtime_state \<Rightarrow> prepared_application \<Rightarrow> bool" where
  "prepared_from env st p \<longleftrightarrow>
     (\<exists>k. an_application_id (pp_application p) = se_application_id env k)
     \<and> ap_application_id (pp_plan p) = an_application_id (pp_application p)
     \<and> (\<exists>k. ap_proposed_revision_id (pp_plan p) = se_revision_id env k)
     \<and> ap_source_revision_id (pp_plan p) = rp_revision_id (rst_revision st)
     \<and> ap_source_revision_checksum (pp_plan p) = rp_revision_checksum (rst_revision st)
     \<and> pp_state p = st"

lemma guarded_record:
  "guarded (of_disk P) (\<lambda>a. an_application_id a = i) (build_application_record env i q r el src prop diff active)"
  unfolding build_application_record_def Let_def
  by (intro guarded_pbind [OF guarded_plift_eq] guarded_pbind [OF guarded_now] guarded_pret) simp

lemma guarded_plan:
  "guarded (of_disk P)
     (\<lambda>x. ap_application_id x = an_application_id a \<and> ap_source_revision_id x = rid
        \<and> ap_source_revision_checksum x = chk \<and> ap_proposed_revision_id x = new)
     (build_application_plan c env a q r el new src prop diff rid chk dry)"
  unfolding build_application_plan_def Let_def
  by (intro guarded_pbind [OF guarded_plift_eq] guarded_pbind [OF guarded_now] guarded_plift)
    (simp add: application_plan_fields codec_simps)

lemma guarded_prepare:
  assumes "\<And>d. P d \<Longrightarrow> load_active_runtime_state c project d = Inr st"
  shows "guarded (of_disk P) (prepared_from env st) (prepare_application c env project q r approval)"
proof -
  have load: "guarded (of_disk P) (\<lambda>x. x = st) (pread (\<lambda>w. load_active_runtime_state c project (w_disk w)))"
    by (rule guarded_pread) (use assms in \<open>auto simp: of_disk_def\<close>)
  have scope: "guarded (of_disk P) (\<lambda>_. True)
      (case approval of Some a \<Rightarrow> if b then plift (f a) else pret () | None \<Rightarrow> pret ())" for b f
    by (cases approval) (auto intro: guarded_plift guarded_pret)
  show ?thesis
    unfolding prepare_application_def Let_def
    by (intro guarded_pbind [OF guarded_plift_eq] guarded_if guarded_plift guarded_pbind [OF load]
        guarded_pbind [OF scope] guarded_pbind [OF guarded_now] guarded_pbind [OF guarded_id_call]
        guarded_pbind [OF guarded_record] guarded_pbind [OF guarded_plan] guarded_pret)
      (auto simp: prepared_from_def dest!: application_with_id)
qed

subsection \<open>A preview\<close>

text \<open>
  A dry run changes nothing on the disk, whatever its outcome, and one that returns shows
  the plan of the present active revision.
\<close>

theorem preview_changes_nothing:
  assumes "plan_apply c env project request_id True w = (res, v)"
  shows "w_disk v = w_disk w \<and>
    (\<forall>x. res = Inr x \<longrightarrow> pr_dry_run x \<and>
       (\<exists>st. load_active_runtime_state c project (w_disk w) = Inr st
          \<and> pr_active_revision_id x = Some (rp_revision_id (rst_revision st))
          \<and> ap_source_revision_id (pr_plan x) = rp_revision_id (rst_revision st)))"
proof -
  let ?P = "of_disk (\<lambda>d. d = w_disk w)"
  let ?F = "\<lambda>x. pr_dry_run x \<and>
       (\<exists>st. load_active_runtime_state c project (w_disk w) = Inr st
          \<and> pr_active_revision_id x = Some (rp_revision_id (rst_revision st))
          \<and> ap_source_revision_id (pr_plan x) = rp_revision_id (rst_revision st))"
  have prepare: "guarded ?P (\<lambda>p. \<exists>st. load_active_runtime_state c project (w_disk w) = Inr st \<and> prepared_from env st p)
      (prepare_application c env project q r approval)" for q r approval
  proof (cases "load_active_runtime_state c project (w_disk w)")
    case (Inr st)
    then have "guarded ?P (prepared_from env st) (prepare_application c env project q r approval)"
      by (intro guarded_prepare) simp
    then show ?thesis by (rule guarded_weaken) (use Inr in blast)
  next
    case (Inl e)
    have load: "guarded ?P (\<lambda>x. False) (pread (\<lambda>w. load_active_runtime_state c project (w_disk w)))"
      by (rule guarded_pread) (use Inl in \<open>auto simp: of_disk_def\<close>)
    show ?thesis
      unfolding prepare_application_def Let_def
      by (intro guarded_pbind [OF guarded_plift_eq] guarded_if guarded_plift guarded_pbind [OF load]) auto
  qed
  have read: "guarded ?P (\<lambda>_. True) (pread f)" for f
    by (rule guarded_keeps) (rule keeps_pread)
  have "guarded ?P ?F (plan_apply c env project request_id True)"
    unfolding plan_apply_def preview_plan_apply_def Let_def
    by (auto intro!: guarded_pbind [OF read] guarded_case_prod guarded_pbind [OF prepare] guarded_pret
        simp: prepared_from_def)
  then show ?thesis
    using assms by (cases res) (auto simp: guarded_def of_disk_def dest: ensures_ok ensures_err)
qed

subsection \<open>The switch\<close>

lemma load_same_area:
  assumes "plain_path project" and "load_active_runtime_state c project d = Inr st"
    and ok: "slash_free (rp_revision_id (rst_revision st))"
    and "only_changes ps d e" and "active_pointer_path project \<notin> ps"
    and "revision_path project (rp_revision_id (rst_revision st)) \<notin> ps"
  shows "load_active_runtime_state c project e = Inr st"
  using assms(4-) app_paths [OF assms(1) ok]
  by (intro same_state [OF assms(1-3)]) (auto simp: only_changes_def)

lemma revision_path_eq:
  "plain_path project \<Longrightarrow> slash_free i \<Longrightarrow> slash_free j \<Longrightarrow> revision_path project i = revision_path project j \<longleftrightarrow> i = j"
  by (simp add: revision_path_def)

lemma plan_apply_ensures:
  assumes plain: "plain_path project"
    and ids: "\<And>k. slash_free (se_application_id env k)" "\<And>k. slash_free (se_revision_id env k)"
    and old: "load_active_runtime_state c project d = Inr st"
    and ok: "slash_free (rp_revision_id (rst_revision st))"
  shows "ensures (of_disk (only_changes (app_area project) d)) (plan_apply c env project request_id False)
    (\<lambda>x w. \<exists>p r. prepared_from env st p \<and> of_disk (switched project (pp_plan p) d r) w
        \<and> revision_of_plan (pp_plan p) r \<and> pr_active_revision_id x = Some (rp_revision_id r))
    (\<lambda>w. of_disk (only_changes (app_area project) d) w
       \<or> (\<exists>p. prepared_from env st p \<and> (of_disk (only_changes (run_area project (pp_plan p)) d) w
            \<or> (\<exists>r. of_disk (switched project (pp_plan p) d r) w \<and> revision_of_plan (pp_plan p) r))))"
    (is "ensures ?P _ ?Q ?E")
proof -
  have stable: "area_stable project (only_changes (app_area project) d)"
    by (rule area_stable_changes) simp
  have prepare: "guarded ?P (prepared_from env st) (prepare_application c env project q r approval)" for q r approval
  proof (rule guarded_prepare)
    fix e assume "only_changes (app_area project) d e"
    then show "load_active_runtime_state c project e = Inr st"
      by (rule load_same_area [OF plain old ok]) (use app_paths [OF plain ok] in simp_all)
  qed
  have apply_it: "ensures ?P (apply_plan c env project (p\<lparr>pp_application := a\<rparr>) audit) ?Q ?E"
    if p: "prepared_from env st p" and a: "an_application_id a = an_application_id (pp_application p)" for p a audit
  proof (rule ensures_weaken [OF apply_plan_ensures [OF plain, where d = d]])
    show "slash_free (an_application_id (pp_application (p\<lparr>pp_application := a\<rparr>)))"
      using p a ids by (auto simp: prepared_from_def)
    show "slash_free (ap_proposed_revision_id (pp_plan (p\<lparr>pp_application := a\<rparr>)))"
      using p ids by (auto simp: prepared_from_def)
    show "?P s \<Longrightarrow> of_disk (only_changes (run_area project (pp_plan (p\<lparr>pp_application := a\<rparr>))) d) s" for s
      by (auto simp: of_disk_def only_changes_def run_area_def)
  qed (use p in auto)
  have app: "slash_free (an_application_id (pp_application p))" if "prepared_from env st p" for p
    using that ids by (auto simp: prepared_from_def)
  show ?thesis
    unfolding plan_apply_def Let_def
    by (simp only: if_False, intro guarded_ensures [OF guarded_disk [OF keeps_dirs(1) [OF stable]]]
        guarded_ensures [OF guarded_keeps [OF keeps_loaders(2) [OF stable]]]
        guarded_ensures [OF guarded_keeps [OF keeps_loaders(3) [OF stable]]]
        guarded_ensures [OF prepare] guarded_ensures [OF guarded_application [OF plain stable]]
        guarded_ensures [OF guarded_application_plan [OF plain stable]]
        guarded_ensures [OF guarded_audit [OF plain stable]] guarded_ensures [OF guarded_transition [OF plain stable]]
        ensures_pair apply_it)
      (auto simp: app prepared_from_def)
qed

text \<open>
  C22: applying a response switches the runtime plan from one revision to the next in one step:
  whatever the outcome of the run and whichever hook stops it, the active state is afterwards
  either still the old one or a new revision with a sound task graph that names the old one as
  the one to roll back to; it is the new one when the run returns, and no file outside the
  application's own files, the new revision and the pointer has changed.
\<close>

theorem plan_apply_switches_atomically:
  assumes plain: "plain_path project"
    and ids: "\<And>k. slash_free (se_application_id env k)" "\<And>k. slash_free (se_revision_id env k)"
    and fresh: "\<And>k. se_revision_id env k \<noteq> rp_revision_id (rst_revision st)"
    and old: "load_active_runtime_state c project (w_disk w) = Inr st"
    and ok: "slash_free (rp_revision_id (rst_revision st))"
    and run: "plan_apply c env project request_id False w = (res, v)"
  shows "(load_active_runtime_state c project (w_disk v) = Inr st \<and> \<not> is_ok res
      \<or> (\<exists>st'. load_active_runtime_state c project (w_disk v) = Inr st'
          \<and> rb_prior_revision_id (rp_rollback_metadata (rst_revision st')) = rp_revision_id (rst_revision st)
          \<and> rb_prior_revision_checksum (rp_rollback_metadata (rst_revision st')) = rp_revision_checksum (rst_revision st)
          \<and> sound_tasks (rp_task_graph (rst_revision st'))
          \<and> (\<forall>x. res = Inr x \<longrightarrow> pr_active_revision_id x = Some (rp_revision_id (rst_revision st')))))
    \<and> (\<exists>k. only_changes (app_area project \<union> {active_pointer_path project, revision_path project (se_revision_id env k)})
          (w_disk w) (w_disk v))"
proof -
  let ?d = "w_disk w"
  note outcome = plan_apply_ensures [OF plain ids old ok]
  have start: "of_disk (only_changes (app_area project) ?d) w"
    by (simp add: of_disk_def only_changes_def)
  have new_path: "revision_path project (rp_revision_id (rst_revision st)) \<notin>
      app_area project \<union> {revision_path project (se_revision_id env k)}" for k
    using fresh [of k] app_paths [OF plain ok] revision_path_eq [OF plain ok ids(2)] by auto
  have pointer: "active_pointer_path project \<notin> app_area project \<union> {revision_path project (se_revision_id env k)}" for k
    using app_paths [OF plain ids(2) [of k]] by auto
  have before: ?thesis if "of_disk (only_changes (app_area project \<union> {revision_path project (se_revision_id env k)}) ?d) v"
    and "\<not> is_ok res" for k
    using that load_same_area [OF plain old ok _ pointer new_path, of k]
    by (auto simp: of_disk_def only_changes_def)
  have after: ?thesis if p: "prepared_from env st p" and sw: "of_disk (switched project (pp_plan p) ?d r) v"
    and r: "revision_of_plan (pp_plan p) r" and res: "\<And>x. res = Inr x \<Longrightarrow> pr_active_revision_id x = Some (rp_revision_id r)"
    for p r
  proof -
    obtain k where k: "ap_proposed_revision_id (pp_plan p) = se_revision_id env k"
      using p by (auto simp: prepared_from_def)
    with r ids(2) have rid: "slash_free (rp_revision_id r)" by (simp add: revision_of_plan_def)
    from sw obtain q where "stored_revision project r (w_disk v)" "stored_pointer project q (w_disk v)"
        "names_revision q r"
      and area: "only_changes (insert (active_pointer_path project) (run_area project (pp_plan p))) ?d (w_disk v)"
      by (auto simp: of_disk_def switched_def)
    with r have "\<exists>q. load_active_runtime_state c project (w_disk v) = Inr \<lparr>rst_pointer = q, rst_revision = r\<rparr>"
      using stored_state [OF plain rid, of "w_disk v" q c] by (auto simp: revision_of_plan_def)
    moreover have "insert (active_pointer_path project) (run_area project (pp_plan p)) =
        app_area project \<union> {active_pointer_path project, revision_path project (se_revision_id env k)}"
      using k by (auto simp: run_area_def)
    ultimately show ?thesis
      using r res p area by (force simp: revision_of_plan_def prepared_from_def)
  qed
  show ?thesis
  proof (cases res)
    case (Inl e)
    from ensures_err [OF outcome start run [unfolded Inl]] consider
        (none) "of_disk (only_changes (app_area project) ?d) v"
      | (stopped) p where "prepared_from env st p" "of_disk (only_changes (run_area project (pp_plan p)) ?d) v"
      | (moved) p r where "prepared_from env st p" "of_disk (switched project (pp_plan p) ?d r) v"
          "revision_of_plan (pp_plan p) r"
      by blast
    then show ?thesis
    proof cases
      case none
      then show ?thesis
        by (intro before [of 0]) (auto simp: Inl of_disk_def only_changes_def)
    next
      case stopped
      then obtain k where "of_disk (only_changes (app_area project \<union> {revision_path project (se_revision_id env k)}) ?d) v"
        by (auto simp: prepared_from_def run_area_def)
      then show ?thesis by (rule before) (simp add: Inl)
    next
      case moved
      then show ?thesis by (rule after) (simp add: Inl)
    qed
  next
    case (Inr x)
    from ensures_ok [OF outcome start run [unfolded Inr]] show ?thesis
      using after Inr by auto
  qed
qed

subsection \<open>A run\<close>

definition sample_yaml :: codecs where
  "sample_yaml = sample_codecs\<lparr>yaml_dump := \<lambda>_ _. ''y''\<rparr>"

definition sample_hooks :: application_transaction_hooks where
  "sample_hooks = \<lparr>hk_fail_on_plan_write = False, hk_fail_on_revision_write = False,
     hk_fail_on_revision_validation = False, hk_fail_on_publish = False, hk_fail_on_pointer_update = False,
     hk_fail_on_audit_write = False, hk_fail_on_status_update = False, hk_fail_after_pointer_update = False\<rparr>"

definition sample_service :: application_service where
  "sample_service = \<lparr>se_now = \<lambda>_. ''t'', se_application_id = \<lambda>_. ''app'', se_revision_id = \<lambda>_. ''r2'',
     se_lease_id = \<lambda>_. ''l'', se_attempt_id = \<lambda>_. ''x'', se_event_id = \<lambda>_. ''e'', se_hooks = sample_hooks\<rparr>"

definition sample_world :: world where
  "sample_world = \<lparr>w_disk = \<lparr>fs_files =
     [(request_path [''p''] ''CQ-1'' (Some ''approved''),
        Doc (PDict (request_to_dict (source_request\<lparr>rq_state := ''approved'', rq_prior_state := ''imported''\<rparr>)))),
      (imported_response_path [''p''] ''CQ-1'',
        Doc (PDict (response_to_dict (sample_response [] [(''writable_paths'', pstrs [''src/a'']),
          (''proposed_tasks'', PList [task_claim ''a1'' [] [''src/a'']])])))),
      (approval_record_path [''p''] ''CQ-1'',
        Doc (PDict [(''request_id'', PStr ''CQ-1''), (''normalized_response_checksum'', PStr []), (''approved'', PBool True)])),
      (active_pointer_path [''p''], Doc (PDict (active_revision_pointer_to_dict (rst_pointer source_state)))),
      (revision_path [''p''] ''r1'', Doc (PDict (runtime_plan_revision_to_dict (rst_revision source_state))))],
     fs_dirs = []\<rparr>, w_clock = 0, w_ids = 0\<rparr>"

lemma sample_state: "load_active_runtime_state sample_yaml [''p''] (w_disk sample_world) = Inr source_state"
  by code_simp

lemma sample_ids:
  "slash_free (se_application_id sample_service k)" "slash_free (se_revision_id sample_service k)"
  "se_revision_id sample_service k \<noteq> rp_revision_id (rst_revision source_state)"
  "slash_free (rp_revision_id (rst_revision source_state))"
  by (simp_all add: sample_service_def source_state_def source_revision_def)

theorem plan_apply_switches_atomically_witness:
  "\<exists>res v. plan_apply sample_yaml sample_service [''p''] ''CQ-1'' False sample_world = (res, v)
    \<and> (load_active_runtime_state sample_yaml [''p''] (w_disk v) = Inr source_state
      \<or> (\<exists>st. load_active_runtime_state sample_yaml [''p''] (w_disk v) = Inr st
           \<and> sound_tasks (rp_task_graph (rst_revision st))))"
proof -
  obtain res v where run: "plan_apply sample_yaml sample_service [''p''] ''CQ-1'' False sample_world = (res, v)"
    by fastforce
  from plan_apply_switches_atomically [OF _ sample_ids(1,2,3) sample_state sample_ids(4) run] run
  show ?thesis by auto
qed

theorem preview_changes_nothing_witness:
  "\<exists>res v. plan_apply sample_yaml sample_service [''p''] ''CQ-1'' True sample_world = (res, v)
    \<and> w_disk v = w_disk sample_world"
proof -
  obtain res v where run: "plan_apply sample_yaml sample_service [''p''] ''CQ-1'' True sample_world = (res, v)"
    by fastforce
  from preview_changes_nothing [OF run] run show ?thesis by auto
qed

end
