(* ===== verification/BatchPlanning.thy ===== *)
theory BatchPlanning
  imports BatchOps AppAtomicity
begin

text \<open>
  \<open>build_batch_orchestration_plan\<close> of \<open>cloud_batch/planning.py\<close>, which plans every item of a batch
  with the application service, and \<open>validate_path_overlap_for_items\<close> of \<open>graph.py\<close>, which asks
  the checks of an application. A plan is made for good (\<open>persist_item_plans\<close>) or as a preview
  that only reads; the theorems compare the two.
\<close>

subsection \<open>Writable paths of items\<close>

definition to_task_snapshot :: "string \<Rightarrow> string list \<Rightarrow> task_snapshot res" where
  "to_task_snapshot item_id writable_paths =
     rbind (rmap_list normalize_relative_path writable_paths) (\<lambda>paths.
     Inr \<lparr>ts_task_id = item_id, ts_title = item_id, ts_role = ''batch'', ts_depends_on = [], ts_requirement_ids = [],
       ts_required_context = [], ts_writable_paths = paths, ts_expected_outputs = [], ts_validation_steps = [],
       ts_token_estimate = None, ts_usable_input_tokens = None, ts_status = ''pending'', ts_source_task_id = None,
       ts_superseded_by = [], ts_history = []\<rparr>)"

definition validate_path_overlap_for_items :: "batch_item list \<Rightarrow> unit res" where
  "validate_path_overlap_for_items items =
     rbind (rmap_list (\<lambda>i. to_task_snapshot (bi_item_id i) (bi_writable_paths i)) items) validate_path_overlap"

subsection \<open>Reading for a preview\<close>

definition load_request_for_planning ::
    "codecs \<Rightarrow> path \<Rightarrow> bool \<Rightarrow> string \<Rightarrow> (world, cloud_queue_request) prog" where
  "load_request_for_planning c project persist_item_plans request_id =
     (if persist_item_plans then on_disk (pbind (show_cloud_queue_request c project request_id) (\<lambda>(r, p). pret r))
      else pread (\<lambda>w. load_request_preview c project request_id (w_disk w)))"

definition load_response_for_planning ::
    "codecs \<Rightarrow> path \<Rightarrow> bool \<Rightarrow> string \<Rightarrow> (world, cloud_queue_response option) prog" where
  "load_response_for_planning c project persist_item_plans request_id =
     (if persist_item_plans
      then on_disk (pbind (load_imported_response c project request_id) (\<lambda>r. pret (Some r)))
      else pread (\<lambda>w.
        if \<not> fs_exists (w_disk w) (imported_response_path project request_id) then Inr None
        else rbind (load_imported_response_preview c project request_id (w_disk w)) (\<lambda>r. Inr (Some r))))"

text \<open>One dependency: the first file of its name; an identifier that \<open>rglob\<close> would read as a pattern is outside the model.\<close>

definition dependency_resolved_on :: "codecs \<Rightarrow> path \<Rightarrow> string \<Rightarrow> disk \<Rightarrow> bool res" where
  "dependency_resolved_on c requests_root dependency_id d =
     (if set dependency_id \<inter> set ''*?[/'' \<noteq> {} then Inl (Exn OutsideModel ''identifier that is a pattern'')
      else case request_files_below requests_root (dependency_id @ ''.yaml'') d of
        [] \<Rightarrow> Inr False
      | p # _ \<Rightarrow> (case fs_file d p of
          None \<Rightarrow> Inl (Exn IsADirectoryError (path_text p))
        | Some content \<Rightarrow> rbind (yaml_value c content) (\<lambda>v. case v of
            PDict m \<Rightarrow> rbind (request_from_dict m) (\<lambda>r. Inr (rq_state r \<in> {''validated_safe'', ''approved''}))
          | _ \<Rightarrow> Inr False)))"

fun dependencies_resolved_on :: "codecs \<Rightarrow> path \<Rightarrow> string list \<Rightarrow> disk \<Rightarrow> bool res" where
  "dependencies_resolved_on c requests_root [] d = Inr True"
| "dependencies_resolved_on c requests_root (i # is) d =
     rbind (dependency_resolved_on c requests_root i d) (\<lambda>ok.
     if ok then dependencies_resolved_on c requests_root is d else Inr False)"

definition dependencies_resolved_for_planning ::
    "codecs \<Rightarrow> path \<Rightarrow> bool \<Rightarrow> cloud_queue_request \<Rightarrow> (world, bool) prog" where
  "dependencies_resolved_for_planning c project persist_item_plans request =
     (if persist_item_plans then on_disk (dependencies_resolved c project request)
      else pread (\<lambda>w. let root = qp_requests (queue_paths project) in
        if rq_dependencies request = [] then Inr True
        else if \<not> fs_exists (w_disk w) root then Inr False
        else dependencies_resolved_on c root (rq_dependencies request) (w_disk w)))"

subsection \<open>Planning an item\<close>

definition default_application_service_factory ::
    "application_service \<Rightarrow> batch_record \<Rightarrow> batch_item \<Rightarrow> application_service" where
  "default_application_service_factory base batch_record item =
     (let named = (\<lambda>stated kind. str_or stated (br_batch_id batch_record @ ''-'' @ bi_item_id item @ ''-'' @ kind)) in
      base\<lparr>se_application_id := \<lambda>_. named (bi_application_id item) ''application'',
        se_revision_id := \<lambda>_. named (bi_revision_id item) ''revision'',
        se_lease_id := \<lambda>_. named (bi_lease_id item) ''lease'',
        se_attempt_id := \<lambda>_. named [] ''attempt''\<rparr>)"

definition item_outcome :: "batch_item \<Rightarrow> string \<Rightarrow> string \<Rightarrow> item_result" where
  "item_outcome item outcome message =
     \<lparr>ires_item_id = bi_item_id item, ires_outcome = outcome, ires_message = message, ires_request_checksum = [],
      ires_response_checksum = [], ires_approval_checksum = [], ires_plan_checksum = [], ires_application_id = [],
      ires_revision_id = [], ires_lease_ids = [], ires_attempt_id = [], ires_details = []\<rparr>"

text \<open>The result of a planned item, from what \<open>plan_apply\<close> returned.\<close>

definition planned_outcome :: "batch_item \<Rightarrow> plan_apply_result \<Rightarrow> item_result" where
  "planned_outcome item planned =
     (let application = pr_application planned; plan = pr_plan planned in
      (item_outcome item ''planned'' ''application plan created'')\<lparr>
        ires_request_checksum := an_request_checksum application,
        ires_response_checksum := an_response_checksum application,
        ires_approval_checksum := (case an_approval_checksum application of None \<Rightarrow> [] | Some s \<Rightarrow> s),
        ires_plan_checksum := ap_plan_checksum plan, ires_application_id := an_application_id application,
        ires_revision_id := ap_proposed_revision_id plan,
        ires_details := [(''application_path'', PStr (path_text (pr_application_path planned))),
          (''plan_path'', PStr (path_text (pr_plan_path planned)))]\<rparr>)"

text \<open>What one round of the loop adds: a result, and the plan of the application if there is one.\<close>

type_synonym planned_item = "item_result \<times> plan_apply_result option"

definition plan_ready_item ::
    "codecs \<Rightarrow> (batch_item \<Rightarrow> application_service) \<Rightarrow> path \<Rightarrow> bool \<Rightarrow> batch_item \<Rightarrow> cloud_queue_request \<Rightarrow>
     cloud_queue_response \<Rightarrow> (world, planned_item) prog" where
  "plan_ready_item c factory project persist_item_plans item request response =
     (let stated = (\<lambda>outcome message. (item_outcome item outcome message)\<lparr>
            ires_request_checksum := rq_packet_checksum request, ires_response_checksum := rs_checksum response\<rparr>) in
      if rq_classification request = APPROVAL_REQUIRED \<and> rq_approval_checksum request = []
      then pret (stated ''blocked'' ''approval required before planning'', None)
      else if rq_state request \<in> {''validated_failed'', ''rejected'', ''canceled'', ''failed''}
      then pret (stated ''blocked'' (''request is not eligible: '' @ rq_state request), None)
      else if persist_item_plans then
        pbind (plan_apply c (factory item) project (rq_request_id request) True) (\<lambda>planned.
        pret (planned_outcome item planned, Some planned))
      else pret (stated ''planned'' ''dry-run plan preview only'', None))"

definition plan_item ::
    "codecs \<Rightarrow> (batch_item \<Rightarrow> application_service) \<Rightarrow> path \<Rightarrow> bool \<Rightarrow> batch_item \<Rightarrow> (world, planned_item) prog" where
  "plan_item c factory project persist_item_plans item =
     pbind (load_request_for_planning c project persist_item_plans (bi_request_id item)) (\<lambda>request.
     pbind (dependencies_resolved_for_planning c project persist_item_plans request) (\<lambda>resolved.
     let stopped = (\<lambda>outcome message. pret ((item_outcome item outcome message)\<lparr>
            ires_request_checksum := rq_packet_checksum request\<rparr>, None)) in
     if \<not> resolved then stopped ''blocked'' ''dependencies unresolved''
     else
       pbind (load_response_for_planning c project persist_item_plans (rq_request_id request)) (\<lambda>found.
       case found of
         None \<Rightarrow> stopped ''pending'' ''response not imported''
       | Some response \<Rightarrow> plan_ready_item c factory project persist_item_plans item request response)))"

subsection \<open>The plan of a batch\<close>

definition planned_graph :: "codecs \<Rightarrow> batch_record \<Rightarrow> batch_dependency_graph res" where
  "planned_graph c batch_record =
     (let items = br_items batch_record in
      rbind (batch_dependency_topological_order items) (\<lambda>order.
      Inr \<lparr>bg_schema_version = BATCH_SCHEMA_VERSION, bg_batch_id = br_batch_id batch_record,
        bg_node_ids = map bi_item_id items, bg_dependency_map = item_dict bi_dependencies items,
        bg_topological_order = order, bg_ready_set = batch_dependency_ready_set items [],
        bg_checksum = checksum_text c (yaml_dump c True (PList (map (PDict \<circ> batch_item_to_dict) items)))\<rparr>))"

definition planned_checksums ::
    "codecs \<Rightarrow> batch_record \<Rightarrow> batch_dependency_graph \<Rightarrow> execution_wave list \<Rightarrow> conflict_result \<Rightarrow> (string \<times> string) list" where
  "planned_checksums c batch_record graph waves conflict_result =
     [(''plan'', checksum_text c (yaml_dump c True (PDict
        [(''batch_id'', PStr (br_batch_id batch_record)),
         (''items'', PList (map (PDict \<circ> batch_item_to_dict) (br_items batch_record))),
         (''waves'', PList (map (PDict \<circ> execution_wave_to_dict) waves)),
         (''conflicts'', PList (map (PDict \<circ> conflict_edge_to_dict) (cf_conflicts conflict_result)))]))),
      (''dependency_graph'', bg_checksum graph)]"

record batch_planning_result =
  bp_batch_record :: batch_record
  bp_orchestration_plan :: orchestration_plan
  bp_application_records :: "application_record list"
  bp_application_plans :: "application_plan list"
  bp_blocked_item_ids :: "string list"
  bp_conflict_result :: conflict_result
  bp_item_results :: "item_result list"

definition blocked_of :: "planned_item list \<Rightarrow> string list" where
  "blocked_of planned = map (ires_item_id \<circ> fst) (filter (\<lambda>x. ires_outcome (fst x) \<noteq> ''planned'') planned)"

definition orchestration_plan_of ::
    "codecs \<Rightarrow> batch_record \<Rightarrow> bool \<Rightarrow> planned_item list \<Rightarrow> batch_dependency_graph \<Rightarrow> execution_wave list \<Rightarrow> string \<Rightarrow>
     orchestration_plan" where
  "orchestration_plan_of c batch_record persist_item_plans planned graph waves created_at =
     (let items = br_items batch_record; conflict_result = detect_batch_conflicts items in
      \<lparr>op_schema_version = BATCH_SCHEMA_VERSION, op_batch_id = br_batch_id batch_record,
       op_plan_id = ''batch-plan-'' @ br_batch_id batch_record, op_batch_type = br_batch_type batch_record,
       op_created_at = created_at, op_item_ids = br_item_ids batch_record, op_items = items,
       op_dependency_graph = graph, op_execution_policy = br_execution_policy batch_record,
       op_execution_waves = waves,
       op_conflict_graph = map conflict_edge_to_dict (cf_conflicts conflict_result),
       op_expected_revision_chain = filter (\<lambda>r. r \<noteq> []) (map bi_revision_id items),
       op_checksums = planned_checksums c batch_record graph waves conflict_result,
       op_progress = derive_batch_progress items, op_status = ''planned'', op_dry_run = \<not> persist_item_plans,
       op_details = [(''blocked_item_ids'', pstrs (blocked_of planned)),
         (''application_count'', PInt (int (length (filter (\<lambda>(_, p). p \<noteq> None) planned))))]\<rparr>)"

definition build_batch_orchestration_plan ::
    "codecs \<Rightarrow> (batch_item \<Rightarrow> application_service) \<Rightarrow> (nat \<Rightarrow> string) \<Rightarrow> path \<Rightarrow> batch_record \<Rightarrow> bool \<Rightarrow>
     (world, batch_planning_result) prog" where
  "build_batch_orchestration_plan c factory now project batch_record persist_item_plans =
     (let items = br_items batch_record; conflict_result = detect_batch_conflicts items in
      pbind (plift (validate_batch_dependency_graph items)) (\<lambda>_.
      if ep_max_concurrency (br_execution_policy batch_record) \<le> 0
      then plift (value_error ''Execution policy max_concurrency must be positive.'')
      else
        pbind (pfold (\<lambda>item planned. pbind (plan_item c factory project persist_item_plans item) (\<lambda>p.
                 pret (planned @ [p]))) (sort_key bi_request_id items) []) (\<lambda>planned.
        pbind (plift (planned_graph c batch_record)) (\<lambda>graph.
        pbind (plift (build_execution_waves c (br_batch_id batch_record) items)) (\<lambda>waves.
        pbind (\<lambda>w. (Inr (now (w_clock w)), w\<lparr>w_clock := Suc (w_clock w)\<rparr>)) (\<lambda>created_at.
        pret \<lparr>bp_batch_record = batch_record,
          bp_orchestration_plan = orchestration_plan_of c batch_record persist_item_plans planned graph waves created_at,
          bp_application_records = map pr_application (List.map_filter snd planned),
          bp_application_plans = map pr_plan (List.map_filter snd planned),
          bp_blocked_item_ids = blocked_of planned, bp_conflict_result = conflict_result,
          bp_item_results = map fst planned\<rparr>))))))"

subsection \<open>What planning leaves alone\<close>

text \<open>A property of disks that only depends on their files.\<close>

definition of_files :: "(disk \<Rightarrow> bool) \<Rightarrow> bool" where
  "of_files P \<longleftrightarrow> (\<forall>d e. P d \<and> fs_files e = fs_files d \<longrightarrow> P e)"

lemma of_files_ensure: "of_files P \<Longrightarrow> keeps P (pmodify (ensure_cloud_queue_dirs project))"
  by (rule keeps_pmodify) (auto simp: of_files_def)

lemma keeps_locate_files: "of_files P \<Longrightarrow> keeps P (locate_request c project i)"
  unfolding locate_request_def load_requests_def by (intro keeps_intros of_files_ensure)

lemma keeps_dependency_files: "of_files P \<Longrightarrow> keeps P (dependencies_loop c project is)"
  by (induction "is") (auto intro!: keeps_intros keeps_locate_files)

lemma keeps_preview: "keeps (of_disk P) (preview_plan_apply c env project i)"
  unfolding preview_plan_apply_def prepare_application_def build_application_record_def build_application_plan_def Let_def
  by (intro keeps_intros)

lemma keeps_planning_loads:
  assumes "of_files P"
  shows "keeps (of_disk P) (load_request_for_planning c project persist i)"
    "keeps (of_disk P) (load_response_for_planning c project persist i)"
    "keeps (of_disk P) (dependencies_resolved_for_planning c project persist q)"
  unfolding load_request_for_planning_def load_response_for_planning_def dependencies_resolved_for_planning_def
    show_cloud_queue_request_def load_imported_response_def dependencies_resolved_def Let_def
  by (intro keeps_intros keeps_locate_files keeps_dependency_files of_files_ensure assms)+

lemma keeps_preview_loads:
  "keeps (of_disk P) (load_request_for_planning c project False i)"
  "keeps (of_disk P) (load_response_for_planning c project False i)"
  "keeps (of_disk P) (dependencies_resolved_for_planning c project False q)"
  unfolding load_request_for_planning_def load_response_for_planning_def dependencies_resolved_for_planning_def Let_def
  by (simp_all add: keeps_pread)

lemma keeps_plan_ready: "keeps (of_disk P) (plan_ready_item c factory project persist item request response)"
  unfolding plan_ready_item_def plan_apply_def Let_def by (simp, intro conjI impI keeps_intros keeps_preview)

lemma keeps_plan_item:
  assumes "\<not> persist \<or> of_files P"
  shows "keeps (of_disk P) (plan_item c factory project persist item)"
proof -
  have "keeps (of_disk P) (load_request_for_planning c project persist i)"
    "keeps (of_disk P) (load_response_for_planning c project persist i)"
    "keeps (of_disk P) (dependencies_resolved_for_planning c project persist q)" for i q
    using assms keeps_planning_loads [of P] keeps_preview_loads [of P] by (cases persist; simp)+
  then show ?thesis
    unfolding plan_item_def Let_def by (intro keeps_intros keeps_plan_ready)
qed

lemma keeps_clock: "keeps (of_disk P) (\<lambda>w. (Inr (f w), w\<lparr>w_clock := k w\<rparr>))"
  by (simp add: keeps_def of_disk_def)

lemma keeps_batch_planning:
  assumes "\<not> persist \<or> of_files P"
  shows "keeps (of_disk P) (build_batch_orchestration_plan c factory now project batch persist)"
  unfolding build_batch_orchestration_plan_def Let_def
  by (intro keeps_intros keeps_plan_item [OF assms] keeps_clock)


subsection \<open>What a plan accounts for\<close>

text \<open>The response of an item is among the imported ones.\<close>

definition response_there :: "path \<Rightarrow> disk \<Rightarrow> batch_item \<Rightarrow> bool" where
  "response_there project d item \<longleftrightarrow> map_of (fs_files d) (imported_response_path project (strip (bi_request_id item))) \<noteq> None"

text \<open>What the result of an item says, on a disk with the given responses.\<close>

definition item_accounted :: "bool \<Rightarrow> bool \<Rightarrow> batch_item \<Rightarrow> planned_item \<Rightarrow> bool" where
  "item_accounted persist there item x \<longleftrightarrow> ires_item_id (fst x) = bi_item_id item
     \<and> ires_outcome (fst x) \<in> {''planned'', ''blocked'', ''pending''}
     \<and> (snd x \<noteq> None \<longleftrightarrow> persist \<and> ires_outcome (fst x) = ''planned'')
     \<and> (persist \<longrightarrow> normalize_request_id (bi_request_id item) = Inr (strip (bi_request_id item))
       \<and> ires_outcome (fst x) \<noteq> ''pending'' \<and> (there \<or> ires_message (fst x) = ''dependencies unresolved''))"

lemma normalized_id: "normalize_request_id i = Inr n \<Longrightarrow> n = strip i"
  by (auto simp: normalize_request_id_def Let_def split: if_splits)

lemma response_plain:
  assumes "plain_path project" and "normalize_request_id i = Inr n"
  shows "plain_path (imported_response_path project n)"
proof -
  have "plain_name (n @ ''.yaml'')" using assms(2) normalized_id_plain plain_name_file by blast
  then have "imported_response_path project n = qp_imports (queue_paths project) @ [n @ ''.yaml'']"
    by (simp add: imported_response_path_def)
  with \<open>plain_name (n @ ''.yaml'')\<close> assms(1) show ?thesis by (simp add: queue_paths_def plain_name_def)
qed

lemma guarded_request:
  assumes "of_files P"
  shows "guarded (of_disk P) (\<lambda>q. normalize_request_id i = Inr (strip i) \<and> rq_request_id q = strip i)
    (load_request_for_planning c project True i)"
proof -
  have loads: "guarded P (\<lambda>x. True) (load_requests c project)"
    unfolding load_requests_def by (rule guarded_keeps) (intro keeps_intros of_files_ensure assms)
  have "guarded P (\<lambda>x. normalize_request_id i = Inr (strip i) \<and> rq_request_id (fst x) = strip i) (locate_request c project i)"
    unfolding locate_request_def
    by (intro guarded_pbind [OF guarded_plift_eq] guarded_pbind [OF loads])
      (auto intro!: guarded_pret guarded_plift dest: normalized_id simp: find_Some_iff split: option.splits)
  then show ?thesis
    unfolding load_request_for_planning_def show_cloud_queue_request_def
    by (auto intro!: guarded_on_disk guarded_pbind guarded_pret)
qed

lemma guarded_response:
  assumes "of_files P" and "\<And>d. P d \<Longrightarrow> fs_files d = fs_files d0" and "plain_path (imported_response_path project i)"
  shows "guarded (of_disk P) (\<lambda>r. r \<noteq> None \<and> map_of (fs_files d0) (imported_response_path project i) \<noteq> None)
    (load_response_for_planning c project True i)"
proof -
  have "guarded P (\<lambda>r. map_of (fs_files d0) (imported_response_path project i) \<noteq> None) (load_imported_response c project i)"
    unfolding load_imported_response_def Let_def
    by (intro guarded_pbind [OF guarded_keeps [OF of_files_ensure [OF assms(1)]]] guarded_pread)
      (use assms(2,3) in \<open>auto split: option.splits\<close>)
  then show ?thesis
    unfolding load_response_for_planning_def by (auto intro!: guarded_on_disk guarded_pbind guarded_pret)
qed

lemma guarded_plan_item:
  assumes "persist \<Longrightarrow> of_files P \<and> (\<forall>d. P d \<longrightarrow> fs_files d = fs_files d0) \<and> plain_path project"
  shows "guarded (of_disk P) (item_accounted persist (response_there project d0 item) item)
    (plan_item c factory project persist item)"
proof (cases persist)
  case True
  with assms have P: "of_files P" "\<And>d. P d \<Longrightarrow> fs_files d = fs_files d0" "plain_path project" by auto
  let ?i = "bi_request_id item"
  have ready: "guarded (of_disk P) (item_accounted True True item) (plan_ready_item c factory project True item q r)"
    if "normalize_request_id ?i = Inr (strip ?i)" for q r
    unfolding plan_ready_item_def plan_apply_def Let_def
    by (simp, intro conjI impI guarded_pret guarded_pbind [OF guarded_keeps [OF keeps_preview]])
      (use that in \<open>simp_all add: item_accounted_def item_outcome_def planned_outcome_def Let_def\<close>)
  have resolved: "guarded (of_disk P) (\<lambda>_. True) (dependencies_resolved_for_planning c project True q)" for q
    by (rule guarded_keeps) (rule keeps_planning_loads [OF P(1)])
  have response: "guarded (of_disk P) (\<lambda>r. r \<noteq> None \<and> response_there project d0 item)
      (load_response_for_planning c project True (strip ?i))" if "normalize_request_id ?i = Inr (strip ?i)"
    unfolding response_there_def by (rule guarded_response [OF P(1,2) response_plain [OF P(3) that]])
  have "guarded (of_disk P) (item_accounted True (response_there project d0 item) item)
      (plan_item c factory project True item)"
    unfolding plan_item_def Let_def
    by (intro guarded_pbind [OF guarded_request [OF P(1)]] guarded_pbind [OF resolved] guarded_if)
      (auto intro!: guarded_pret guarded_pbind [OF response] ready simp: item_accounted_def item_outcome_def)
  with True show ?thesis by simp
next
  case False
  have ready: "guarded (of_disk P) (item_accounted False there item) (plan_ready_item c factory project False item q r)"
    for q r there
    unfolding plan_ready_item_def Let_def
    by (simp, intro conjI impI guarded_pret) (simp_all add: item_accounted_def item_outcome_def)
  have "guarded (of_disk P) (item_accounted False there item) (plan_item c factory project False item)" for there
    unfolding plan_item_def Let_def
    by (intro guarded_pbind [OF guarded_keeps [OF keeps_preview_loads(1)]]
        guarded_pbind [OF guarded_keeps [OF keeps_preview_loads(3)]]
        guarded_pbind [OF guarded_keeps [OF keeps_preview_loads(2)]] guarded_if)
      (auto intro!: guarded_pret ready simp: item_accounted_def item_outcome_def split: option.splits)
  with False show ?thesis by simp
qed

lemma guarded_collect:
  assumes "\<And>x. x \<in> set xs \<Longrightarrow> guarded P (F x) (f x)"
  shows "guarded P (\<lambda>ys. \<exists>zs. ys = acc @ zs \<and> list_all2 F xs zs)
    (pfold (\<lambda>x ys. pbind (f x) (\<lambda>y. pret (ys @ [y]))) xs acc)"
  using assms
proof (induction xs arbitrary: acc)
  case (Cons x xs)
  have first: "guarded P (\<lambda>ys. \<exists>y. ys = acc @ [y] \<and> F x y) (pbind (f x) (\<lambda>y. pret (acc @ [y])))"
    using Cons.prems by (auto intro!: guarded_pbind guarded_pret)
  have rest: "guarded P (\<lambda>ys. \<exists>zs. ys = acc @ zs \<and> list_all2 F (x # xs) zs)
      (pfold (\<lambda>x ys. pbind (f x) (\<lambda>y. pret (ys @ [y]))) xs (acc @ [y]))" if "F x y" for y
    by (rule guarded_weaken, rule Cons.IH) (use Cons.prems that in \<open>auto simp: list_all2_Cons1\<close>)
  show ?case unfolding pfold.simps by (rule guarded_pbind [OF first]) (use rest in blast)
qed (simp add: guarded_pret)

text \<open>The result of a batch is made of the results of its items.\<close>

definition collected :: "batch_record \<Rightarrow> (batch_item \<Rightarrow> planned_item \<Rightarrow> bool) \<Rightarrow> batch_planning_result \<Rightarrow> bool" where
  "collected batch F r \<longleftrightarrow> validate_batch_dependency_graph (br_items batch) = Inr ()
     \<and> (\<exists>planned. list_all2 F (sort_key bi_request_id (br_items batch)) planned \<and> bp_item_results r = map fst planned
       \<and> bp_blocked_item_ids r = blocked_of planned
       \<and> bp_application_plans r = map pr_plan (List.map_filter snd planned))"

lemma guarded_batch:
  assumes "\<And>item. item \<in> set (br_items batch) \<Longrightarrow> guarded (of_disk P) (F item) (plan_item c factory project persist item)"
  shows "guarded (of_disk P) (collected batch F) (build_batch_orchestration_plan c factory now project batch persist)"
proof -
  have fold: "guarded (of_disk P) (\<lambda>ys. \<exists>zs. ys = [] @ zs \<and> list_all2 F (sort_key bi_request_id (br_items batch)) zs)
      (pfold (\<lambda>x ys. pbind (plan_item c factory project persist x) (\<lambda>y. pret (ys @ [y])))
        (sort_key bi_request_id (br_items batch)) [])"
    by (rule guarded_collect) (simp add: assms)
  show ?thesis
    unfolding build_batch_orchestration_plan_def Let_def
    by (intro guarded_pbind [OF guarded_plift_eq] guarded_if guarded_plift guarded_pbind [OF fold]
        guarded_pbind [OF guarded_keeps [OF keeps_clock]] guarded_pret)
      (auto simp: collected_def)
qed


subsection \<open>A response that is missing\<close>

lemma load_first_id:
  "load_first_request c i files d = Inr (Some r) \<Longrightarrow> rq_request_id r = i"
  by (induction files) (auto simp: load_first_request_def split: if_splits)

lemma preview_request_plain:
  assumes "load_request_preview c project i d = Inr r" and "plain_path project"
  shows "rq_request_id r = strip i" and "plain_path (imported_response_path project (strip i))"
proof -
  from assms(1) have "CHR ''/'' \<notin> set (strip i)" "load_first_request c (strip i)
      (request_files_below (qp_requests (queue_paths project)) (strip i @ ''.yaml'') d) d = Inr (Some r)"
    by (auto simp: load_request_preview_def Let_def split: if_splits option.splits)
  then show "rq_request_id r = strip i" "plain_path (imported_response_path project (strip i))"
    using assms(2) by (simp_all add: load_first_id imported_response_path_def plain_name_file queue_paths_def plain_name_def)
qed

lemma preview_pending:
  assumes "load_request_preview c project (bi_request_id item) d = Inr request"
    and "rq_dependencies request = []" "\<not> fs_exists d (imported_response_path project (rq_request_id request))"
  shows "guarded (of_disk (\<lambda>e. e = d)) (\<lambda>x. ires_item_id (fst x) = bi_item_id item \<and> ires_outcome (fst x) = ''pending'')
    (plan_item c factory project False item)"
proof -
  have request: "guarded (of_disk (\<lambda>e. e = d)) (\<lambda>q. q = request)
      (load_request_for_planning c project False (bi_request_id item))"
    unfolding load_request_for_planning_def by (simp, rule guarded_pread) (use assms(1) in \<open>simp add: of_disk_def\<close>)
  have resolved: "guarded (of_disk (\<lambda>e. e = d)) (\<lambda>b. b) (dependencies_resolved_for_planning c project False request)"
    unfolding dependencies_resolved_for_planning_def Let_def by (simp add: assms(2), rule guarded_pread) simp
  have response: "guarded (of_disk (\<lambda>e. e = d)) (\<lambda>r. r = None)
      (load_response_for_planning c project False (rq_request_id request))"
    unfolding load_response_for_planning_def by (simp, rule guarded_pread) (use assms(3) in \<open>simp add: of_disk_def\<close>)
  show ?thesis
    unfolding plan_item_def Let_def
    by (rule guarded_pbind [OF request], simp, rule guarded_pbind [OF resolved], simp, rule guarded_pbind [OF response])
      (simp add: guarded_pret item_outcome_def)
qed

lemma collected_item:
  assumes "collected batch F r" and "item \<in> set (br_items batch)" and "\<And>x. F item x \<Longrightarrow> G (fst x)"
  shows "\<exists>x \<in> set (bp_item_results r). G x"
proof -
  from assms(1) obtain planned where all: "list_all2 F (sort_key bi_request_id (br_items batch)) planned"
    and r: "bp_item_results r = map fst planned" by (auto simp: collected_def)
  from assms(2) obtain k where "k < length (sort_key bi_request_id (br_items batch))"
    "sort_key bi_request_id (br_items batch) ! k = item" by (metis in_set_conv_nth set_sort)
  with all have "F item (planned ! k)" "k < length planned" by (auto simp: list_all2_conv_all_nth)
  then have "G (fst (planned ! k))" "fst (planned ! k) \<in> set (map fst planned)" using assms(3) by auto
  then show ?thesis unfolding r by blast
qed


subsection \<open>Plans of a batch\<close>

definition planned_sample :: "bool \<Rightarrow> world \<Rightarrow> batch_planning_result res" where
  "planned_sample persist w = fst (build_batch_orchestration_plan sample_yaml (\<lambda>_. sample_service) (\<lambda>_. ''t'') [''p'']
     (sample_batch [sample_item ''CQ-1'' []]) persist w)"

text \<open>The same disk without the response of the request.\<close>

definition unanswered_world :: world where
  "unanswered_world = sample_world\<lparr>w_disk := (w_disk sample_world)\<lparr>fs_files :=
     filter (\<lambda>(p, _). p \<noteq> imported_response_path [''p''] ''CQ-1'') (fs_files (w_disk sample_world))\<rparr>\<rparr>"

definition outcomes_of :: "batch_planning_result res \<Rightarrow> string list option" where
  "outcomes_of r = (case r of Inl e \<Rightarrow> None | Inr x \<Rightarrow> Some (map ires_outcome (bp_item_results x)))"

lemma sample_outcomes:
  "outcomes_of (planned_sample True sample_world) = Some [''planned'']"
  "outcomes_of (planned_sample False unanswered_world) = Some [''pending'']"
  "outcomes_of (planned_sample True unanswered_world) = None"
  by code_simp+

lemma outcomes_run:
  assumes "outcomes_of (planned_sample persist w) = Some ss"
  obtains r v where "build_batch_orchestration_plan sample_yaml (\<lambda>_. sample_service) (\<lambda>_. ''t'') [''p'']
      (sample_batch [sample_item ''CQ-1'' []]) persist w = (Inr r, v)" and "map ires_outcome (bp_item_results r) = ss"
  using assms that unfolding planned_sample_def outcomes_of_def
  by (cases "build_batch_orchestration_plan sample_yaml (\<lambda>_. sample_service) (\<lambda>_. ''t'') [''p'']
      (sample_batch [sample_item ''CQ-1'' []]) persist w") (auto split: sum.splits)




end
