(* ===== verification/RuntimeConfig.thy ===== *)
theory RuntimeConfig
  imports AppPublication
begin

text \<open>
  \<open>runtime_config.py\<close>: the runtime configuration of a project, \<open>.agentic/agent_runtime.yaml\<close>,
  loaded and validated. A validator returns the messages it appends to the list of errors.

  The subject of \<open>runtime_config_accepted_iff\<close> is the predicate \<open>valid_runtime_config\<close>, which
  states without messages what a validated configuration promises.
\<close>

subsection \<open>Constants\<close>

definition REQUIRED_AGENT_IDS :: "string list" where
  "REQUIRED_AGENT_IDS = [''research_agent'', ''planner_agent'', ''developer_agent'', ''test_agent'', ''docs_agent'',
     ''security_quality_agent'', ''local_reviewer_agent'', ''cloud_reviewer'']"

definition KNOWN_PROVIDER_TYPES :: "string list" where
  "KNOWN_PROVIDER_TYPES = [''codex'', ''local_model_optional'', ''manual_cloud_model'', ''future_api_cloud_model'']"

definition KNOWN_APPROVAL_MODES :: "string list" where
  "KNOWN_APPROVAL_MODES =
     [''read_only'', ''workspace_write_with_approval'', ''workspace_write_no_prompt'', ''manual_only'']"

definition KNOWN_FALLBACK_PROVIDERS :: "string list" where
  "KNOWN_FALLBACK_PROVIDERS = KNOWN_PROVIDER_TYPES @ [''human_owner'']"

definition RISKY_COMMAND_REQUIREMENTS :: "string list" where
  "RISKY_COMMAND_REQUIREMENTS = [''git push'', ''git merge'', ''git reset --hard'', ''deploy'', ''secret changes'']"

definition CODEX_RUNTIME_ALLOWED_COMMANDS :: "string list" where
  "CODEX_RUNTIME_ALLOWED_COMMANDS = [''codex'', ''codex.cmd'']"

definition CODEX_RUNTIME_WORKSPACE_WRITE_ARGS :: "string list" where
  "CODEX_RUNTIME_WORKSPACE_WRITE_ARGS = [''exec'', ''--sandbox'', ''workspace-write'', ''-'']"

definition CODEX_RUNTIME_DOCKER_DANGER_ARGS :: "string list" where
  "CODEX_RUNTIME_DOCKER_DANGER_ARGS = [''exec'', ''--sandbox'', ''danger-full-access'', ''-'']"

definition MAX_CODEX_RUNTIME_TIMEOUT_SECONDS :: int where
  "MAX_CODEX_RUNTIME_TIMEOUT_SECONDS = 7200"

subsection \<open>Loading\<close>

definition runtime_config_path :: "path \<Rightarrow> path" where
  "runtime_config_path project = project @ [''.agentic'', ''agent_runtime.yaml'']"

text \<open>\<open>yaml.safe_load\<close> of a text that is no YAML raises \<open>YAMLError\<close>.\<close>

definition load_runtime_config :: "codecs \<Rightarrow> path \<Rightarrow> disk \<Rightarrow> (path \<times> pydict) res" where
  "load_runtime_config c project d =
     (let p = runtime_config_path project in
      if \<not> fs_exists d p then not_found (''Runtime config does not exist: '' @ path_text p)
      else case fs_file d p of
        None \<Rightarrow> Inl (Exn OutsideModel ''IsADirectoryError'')
      | Some content \<Rightarrow> (case yaml_value c content of
          Inl e \<Rightarrow> if exn_class e = YAMLError
            then value_error (''Runtime config is not valid YAML: '' @ path_text p @ '': '' @ exn_msg e) else Inl e
        | Inr (PDict config) \<Rightarrow> Inr (p, config)
        | Inr v \<Rightarrow> value_error (''Runtime config must be a YAML mapping: '' @ path_text p)))"

definition load_project_default_base_ref :: "codecs \<Rightarrow> path \<Rightarrow> disk \<Rightarrow> string option res" where
  "load_project_default_base_ref c project d =
     (case load_runtime_config c project d of
        Inl e \<Rightarrow> if exn_class e = FileNotFoundError then Inr None else Inl e
      | Inr (p, config) \<Rightarrow> (case dget_or config ''default_base_ref'' PNone of
          PNone \<Rightarrow> Inr None
        | PStr s \<Rightarrow> if strip s \<noteq> [] then Inr (Some (strip s))
            else value_error ''default_base_ref must be a non-empty string.''
        | _ \<Rightarrow> value_error ''default_base_ref must be a non-empty string.''))"

definition resolve_project_base_ref :: "codecs \<Rightarrow> path \<Rightarrow> string option \<Rightarrow> disk \<Rightarrow> string res" where
  "resolve_project_base_ref c project explicit_base_ref d = (case explicit_base_ref of
     Some s \<Rightarrow> if strip s = [] then value_error ''base ref must be a non-empty string.'' else Inr (strip s)
   | None \<Rightarrow> rbind (load_project_default_base_ref c project d) (\<lambda>r.
       Inr (case r of Some s \<Rightarrow> s | None \<Rightarrow> ''origin/main'')))"

subsection \<open>Typed fields\<close>

definition nonempty_string :: "pyval \<Rightarrow> bool" where
  "nonempty_string v = (case v of PStr s \<Rightarrow> strip s \<noteq> [] | _ \<Rightarrow> False)"

definition mapping_value :: "pydict \<Rightarrow> string \<Rightarrow> string \<Rightarrow> pydict \<times> string list" where
  "mapping_value mapping key location = (case dget_or mapping key PNone of
     PDict m \<Rightarrow> (m, [])
   | _ \<Rightarrow> ([], [location @ ''.'' @ key @ '' must be a mapping.'']))"

fun str_items :: "pyval list \<Rightarrow> string list option" where
  "str_items [] = Some []"
| "str_items (PStr s # xs) = map_option (\<lambda>ys. s # ys) (str_items xs)"
| "str_items (x # xs) = None"

definition string_list_value :: "pydict \<Rightarrow> string \<Rightarrow> string \<Rightarrow> string list \<times> string list" where
  "string_list_value mapping key location =
     (let wrong = ([], [location @ ''.'' @ key @ '' must be a list of strings.'']) in
      case dget_or mapping key PNone of
        PList xs \<Rightarrow> (case str_items xs of Some ys \<Rightarrow> (ys, []) | None \<Rightarrow> wrong)
      | _ \<Rightarrow> wrong)"

definition config_string :: "pydict \<Rightarrow> string \<Rightarrow> string \<Rightarrow> string \<times> string list" where
  "config_string mapping key location =
     (case dget_or mapping key PNone of
        PStr s \<Rightarrow> if strip s \<noteq> [] then (strip s, [])
          else ([], [location @ ''.'' @ key @ '' must be a non-empty string.''])
      | _ \<Rightarrow> ([], [location @ ''.'' @ key @ '' must be a non-empty string.'']))"

text \<open>\<open>s.split()\<close>: the words between white space; \<open>word\<close> is the word being read, reversed.\<close>

fun split_words :: "string \<Rightarrow> string \<Rightarrow> string list" where
  "split_words word [] = (if word = [] then [] else [rev word])"
| "split_words word (c # s) =
     (if py_space c then (if word = [] then split_words [] s else rev word # split_words [] s)
      else split_words (c # word) s)"

definition normalize_text :: "string \<Rightarrow> string" where
  "normalize_text value = join '' '' (split_words [] (lower value))"

definition contains_command_pattern :: "string list \<Rightarrow> string \<Rightarrow> bool" where
  "contains_command_pattern commands required_pattern =
     list_ex (\<lambda>command. contains (normalize_text required_pattern) (normalize_text command)) commands"

subsection \<open>Sections\<close>

text \<open>The message when a non-empty \<open>value\<close> is not one of \<open>known\<close>.\<close>

definition one_of :: "string \<Rightarrow> string \<Rightarrow> string list \<Rightarrow> string list" where
  "one_of value location known =
     (if value \<noteq> [] \<and> value \<notin> set known
      then [location @ '' must be one of: '' @ join '', '' (sorted_set known) @ ''.''] else [])"

definition agent_errors :: "pydict \<Rightarrow> string \<Rightarrow> string list" where
  "agent_errors agents agent_id =
     (let location = ''agents.'' @ agent_id in
      case dget_or agents agent_id PNone of
        PDict agent_config \<Rightarrow>
          let (provider, e1) = config_string agent_config ''provider'' location;
              (model, e2) = config_string agent_config ''model'' location;
              (approval_mode, e3) = config_string agent_config ''approval_mode'' location;
              (fallback_provider, e4) = config_string agent_config ''fallback_provider'' location in
          e1 @ e2 @ e3 @ e4
            @ one_of provider (location @ ''.provider'') KNOWN_PROVIDER_TYPES
            @ one_of approval_mode (location @ ''.approval_mode'') KNOWN_APPROVAL_MODES
            @ one_of fallback_provider (location @ ''.fallback_provider'') KNOWN_FALLBACK_PROVIDERS
            @ (if agent_id = ''cloud_reviewer'' \<and> provider \<noteq> ''manual_cloud_model''
               then [''agents.cloud_reviewer.provider must be manual_cloud_model.''] else [])
      | _ \<Rightarrow> [location @ '' must exist and be a mapping.''])"

definition risky_command_errors :: "string list \<Rightarrow> string list \<Rightarrow> string \<Rightarrow> string list" where
  "risky_command_errors allowed_without_approval requires_human_approval label =
     (if \<not> contains_command_pattern requires_human_approval label
      then [''command_policy.requires_human_approval must include an entry covering '' @ quoted label @ ''.''] else [])
     @ (if contains_command_pattern allowed_without_approval label
        then [''command_policy.allowed_without_approval must not include risky command '' @ quoted label @ ''.'']
        else [])"

record codex_runtime_config =
  cx_enabled :: bool
  cx_command :: string
  cx_args :: "string list"
  cx_stdin_from_task_file :: bool
  cx_timeout_seconds :: int
  cx_docker_isolation_acknowledged :: bool

text \<open>
  The parser appends to the errors there are, and returns a configuration only when there are
  none at all.
\<close>

definition codex_command :: "pydict \<Rightarrow> string \<times> string list" where
  "codex_command section = (case dget_or section ''command'' PNone of
     PStr s \<Rightarrow>
       if strip s = [] then ([], [''codex_runtime.command must be a non-empty string.''])
       else (strip s, if strip s \<notin> set CODEX_RUNTIME_ALLOWED_COMMANDS
         then [''codex_runtime.command must be one of: '' @ join '', '' (sorted_set CODEX_RUNTIME_ALLOWED_COMMANDS) @ ''.'']
         else [])
   | _ \<Rightarrow> ([], [''codex_runtime.command must be a non-empty string.'']))"

definition codex_args :: "pydict \<Rightarrow> string list \<times> string list" where
  "codex_args section =
     (let wrong = ([], [''codex_runtime.args must be a list of strings.'']) in
      case dget_or section ''args'' PNone of
        PList xs \<Rightarrow> (case str_items xs of
            None \<Rightarrow> wrong
          | Some args \<Rightarrow> (args,
              if args = CODEX_RUNTIME_WORKSPACE_WRITE_ARGS \<or> args = CODEX_RUNTIME_DOCKER_DANGER_ARGS then []
              else [''codex_runtime.args must be exactly one of: '' @ join '' '' CODEX_RUNTIME_WORKSPACE_WRITE_ARGS
                 @ '' OR '' @ join '' '' CODEX_RUNTIME_DOCKER_DANGER_ARGS @ ''.'']))
      | _ \<Rightarrow> wrong)"

definition codex_timeout :: "pydict \<Rightarrow> int \<times> string list" where
  "codex_timeout section = (case dget_or section ''timeout_seconds'' PNone of
     PInt t \<Rightarrow> (t,
       if t \<le> 0 then [''codex_runtime.timeout_seconds must be greater than 0.'']
       else if t > MAX_CODEX_RUNTIME_TIMEOUT_SECONDS
       then [''codex_runtime.timeout_seconds must be less than or equal to ''
          @ int_dec MAX_CODEX_RUNTIME_TIMEOUT_SECONDS @ ''.''] else [])
   | _ \<Rightarrow> (0, [''codex_runtime.timeout_seconds must be an integer.'']))"

definition codex_isolation :: "pydict \<Rightarrow> string list \<Rightarrow> bool \<times> string list" where
  "codex_isolation section args = (case dget_or section ''docker_isolation_acknowledged'' (PBool False) of
     PBool b \<Rightarrow> (b,
       if args = CODEX_RUNTIME_DOCKER_DANGER_ARGS \<and> \<not> b
       then [''codex_runtime.args uses danger-full-access, which requires ''
          @ ''codex_runtime.docker_isolation_acknowledged: true.'']
       else if args = CODEX_RUNTIME_WORKSPACE_WRITE_ARGS \<and> b
       then [''codex_runtime.docker_isolation_acknowledged must be false unless ''
          @ ''codex_runtime.args is the Docker danger-full-access shape.''] else [])
   | _ \<Rightarrow> (False, [''codex_runtime.docker_isolation_acknowledged must be a boolean.'']))"

definition parse_codex_runtime_config ::
    "pyval \<Rightarrow> string list \<Rightarrow> codex_runtime_config option \<times> string list" where
  "parse_codex_runtime_config section errors = (case section of
     PNone \<Rightarrow> (None, errors)
   | PDict m \<Rightarrow>
       let (enabled, e1) = (case dget_or m ''enabled'' PNone of
              PBool b \<Rightarrow> (b, []) | _ \<Rightarrow> (False, [''codex_runtime.enabled must be a boolean.'']));
           (command, e2) = codex_command m;
           (args, e3) = codex_args m;
           e4 = (if dget_or m ''stdin_from_task_file'' PNone = PBool True then []
             else [''codex_runtime.stdin_from_task_file must be true.'']);
           (timeout_seconds, e5) = codex_timeout m;
           (acknowledged, e6) = codex_isolation m args;
           all_errors = errors @ e1 @ e2 @ e3 @ e4 @ e5 @ e6 in
       (if all_errors \<noteq> [] then None
        else Some \<lparr>cx_enabled = enabled, cx_command = command, cx_args = args, cx_stdin_from_task_file = True,
          cx_timeout_seconds = timeout_seconds, cx_docker_isolation_acknowledged = acknowledged\<rparr>, all_errors)
   | _ \<Rightarrow> (None, errors @ [''codex_runtime must be a mapping.'']))"

definition validate_local_execution_config :: "pyval \<Rightarrow> string list" where
  "validate_local_execution_config section = (case section of
     PNone \<Rightarrow> []
   | PDict m \<Rightarrow>
       (let g = dget_or m ''global_default_model'' PNone in
        if g \<noteq> PNone \<and> \<not> nonempty_string g
        then [''local_execution.global_default_model must be a non-empty string.''] else [])
       @ (case dget_or m ''role_defaults'' PNone of
            PNone \<Rightarrow> []
          | PDict roles \<Rightarrow> concat (map (\<lambda>(role, model).
              if strip role = [] then [''local_execution.role_defaults keys must be non-empty strings.'']
              else if \<not> nonempty_string model
              then [''local_execution.role_defaults.'' @ role @ '' must be a non-empty string.''] else []) roles)
          | _ \<Rightarrow> [''local_execution.role_defaults must be a mapping.''])
   | _ \<Rightarrow> [''local_execution must be a mapping.''])"

text \<open>A Boolean that must be true, and a value that must be the given one.\<close>

definition must_be_enabled :: "pydict \<Rightarrow> string \<Rightarrow> string list" where
  "must_be_enabled section location = (case dget_or section ''enabled'' PNone of
     PBool b \<Rightarrow> if b then [] else [location @ ''.enabled must be true.'']
   | _ \<Rightarrow> [location @ ''.enabled must be a boolean.''])"

definition must_be :: "pydict \<Rightarrow> string \<Rightarrow> pyval \<Rightarrow> string \<Rightarrow> string list" where
  "must_be section key wanted message = (if dget_or section key PNone = wanted then [] else [message])"

definition validate_cloud_escalation_config :: "pyval \<Rightarrow> string list" where
  "validate_cloud_escalation_config section = (case section of
     PNone \<Rightarrow> [''cloud_escalation must be configured.'']
   | PDict m \<Rightarrow>
       must_be_enabled m ''cloud_escalation''
       @ must_be m ''default_mode'' (PStr ''manual'') ''cloud_escalation.default_mode must be manual.''
       @ must_be m ''automated_provider_enabled'' (PBool False)
           ''cloud_escalation.automated_provider_enabled must be false.''
       @ must_be m ''provider'' (PStr ''none'') ''cloud_escalation.provider must be none.''
   | _ \<Rightarrow> [''cloud_escalation must be a mapping.''])"

definition validate_cloud_batch_config :: "pyval \<Rightarrow> string list" where
  "validate_cloud_batch_config section = (case section of
     PNone \<Rightarrow> [''cloud_batch must be configured.'']
   | PDict m \<Rightarrow>
       must_be_enabled m ''cloud_batch''
       @ must_be m ''default_mode'' (PStr ''manual'') ''cloud_batch.default_mode must be manual.''
       @ must_be m ''manual_cloud_only'' (PBool True) ''cloud_batch.manual_cloud_only must be true.''
       @ must_be m ''automatic_apply_enabled'' (PBool False) ''cloud_batch.automatic_apply_enabled must be false.''
       @ must_be m ''automatic_resume_enabled'' (PBool False) ''cloud_batch.automatic_resume_enabled must be false.''
   | _ \<Rightarrow> [''cloud_batch must be a mapping.''])"

subsection \<open>The configuration\<close>

definition runtime_config_errors :: "pydict \<Rightarrow> string list" where
  "runtime_config_errors config =
     (let (agents, e1) = mapping_value config ''agents'' ''runtime config'';
          e2 = concat (map (agent_errors agents) REQUIRED_AGENT_IDS);
          (command_policy, e3) = mapping_value config ''command_policy'' ''runtime config'';
          (allowed, e4) = string_list_value command_policy ''allowed_without_approval'' ''command_policy'';
          (required, e5) = string_list_value command_policy ''requires_human_approval'' ''command_policy'';
          e6 = concat (map (risky_command_errors allowed required) RISKY_COMMAND_REQUIREMENTS);
          errors = snd (parse_codex_runtime_config (dget_or config ''codex_runtime'' PNone)
            (e1 @ e2 @ e3 @ e4 @ e5 @ e6));
          base = dget_or config ''default_base_ref'' PNone in
      errors
      @ validate_local_execution_config (dget_or config ''local_execution'' PNone)
      @ validate_cloud_escalation_config (dget_or config ''cloud_escalation'' PNone)
      @ validate_cloud_batch_config (dget_or config ''cloud_batch'' PNone)
      @ (if base \<noteq> PNone \<and> \<not> nonempty_string base then [''default_base_ref must be a non-empty string.''] else []))"

definition error_list :: "string \<Rightarrow> string list \<Rightarrow> string" where
  "error_list title errors = title @ newline @ ''- '' @ join (newline @ ''- '') errors"

definition validate_runtime_config :: "codecs \<Rightarrow> path \<Rightarrow> disk \<Rightarrow> (path \<times> pydict) res" where
  "validate_runtime_config c project d =
     rbind (load_runtime_config c project d) (\<lambda>(config_path, config).
     let errors = runtime_config_errors config in
     if errors \<noteq> [] then value_error (error_list ''Runtime config validation failed:'' errors)
     else Inr (config_path, config))"

definition load_codex_runtime_config :: "codecs \<Rightarrow> path \<Rightarrow> disk \<Rightarrow> (path \<times> codex_runtime_config) res" where
  "load_codex_runtime_config c project d =
     rbind (load_runtime_config c project d) (\<lambda>(config_path, config).
     let section = dget_or config ''codex_runtime'' PNone; (parsed, errors) = parse_codex_runtime_config section [] in
     if section = PNone then value_error ''codex_runtime must be configured before invoking Codex.''
     else case parsed of
       None \<Rightarrow> value_error (error_list ''Codex runtime validation failed:'' errors)
     | Some cfg \<Rightarrow>
         if errors \<noteq> [] then value_error (error_list ''Codex runtime validation failed:'' errors)
         else if \<not> cx_enabled cfg then value_error ''codex_runtime.enabled must be true before invoking Codex.''
         else Inr (config_path, cfg))"

subsection \<open>What a validated configuration promises\<close>

text \<open>A key that holds a text with something in it, and one whose text is among the known ones.\<close>

definition text_there :: "pydict \<Rightarrow> string \<Rightarrow> bool" where
  "text_there m key \<longleftrightarrow> nonempty_string (dget_or m key PNone)"

definition text_among :: "pydict \<Rightarrow> string \<Rightarrow> string list \<Rightarrow> bool" where
  "text_among m key known \<longleftrightarrow> (\<exists>s. dget_or m key PNone = PStr s \<and> strip s \<noteq> [] \<and> strip s \<in> set known)"

definition valid_agent :: "pydict \<Rightarrow> string \<Rightarrow> bool" where
  "valid_agent agents i \<longleftrightarrow> (\<exists>m. dget_or agents i PNone = PDict m
     \<and> text_among m ''provider'' (if i = ''cloud_reviewer'' then [''manual_cloud_model''] else KNOWN_PROVIDER_TYPES)
     \<and> text_there m ''model'' \<and> text_among m ''approval_mode'' KNOWN_APPROVAL_MODES
     \<and> text_among m ''fallback_provider'' KNOWN_FALLBACK_PROVIDERS)"

definition covers :: "string list \<Rightarrow> string \<Rightarrow> bool" where
  "covers commands label \<longleftrightarrow> (\<exists>cmd \<in> set commands. contains (normalize_text label) (normalize_text cmd))"

definition valid_command_policy :: "pydict \<Rightarrow> bool" where
  "valid_command_policy m \<longleftrightarrow> (\<exists>allowed required.
     dget_or m ''allowed_without_approval'' PNone = pstrs allowed \<and> dget_or m ''requires_human_approval'' PNone = pstrs required
     \<and> (\<forall>label \<in> set RISKY_COMMAND_REQUIREMENTS. covers required label \<and> \<not> covers allowed label))"

definition valid_codex :: "pydict \<Rightarrow> bool" where
  "valid_codex m \<longleftrightarrow> (\<exists>enabled args t ack.
     dget_or m ''enabled'' PNone = PBool enabled \<and> text_among m ''command'' CODEX_RUNTIME_ALLOWED_COMMANDS
     \<and> dget_or m ''args'' PNone = pstrs args \<and> dget_or m ''stdin_from_task_file'' PNone = PBool True
     \<and> dget_or m ''timeout_seconds'' PNone = PInt t \<and> 0 < t \<and> t \<le> MAX_CODEX_RUNTIME_TIMEOUT_SECONDS
     \<and> dget_or m ''docker_isolation_acknowledged'' (PBool False) = PBool ack
     \<and> args = (if ack then CODEX_RUNTIME_DOCKER_DANGER_ARGS else CODEX_RUNTIME_WORKSPACE_WRITE_ARGS))"

definition valid_role_models :: "pydict \<Rightarrow> bool" where
  "valid_role_models m \<longleftrightarrow> dget_or m ''global_default_model'' PNone = PNone \<or> text_there m ''global_default_model''"

definition valid_local_execution :: "pydict \<Rightarrow> bool" where
  "valid_local_execution m \<longleftrightarrow> valid_role_models m \<and> (dget_or m ''role_defaults'' PNone = PNone
     \<or> (\<exists>roles. dget_or m ''role_defaults'' PNone = PDict roles
       \<and> (\<forall>(role, model) \<in> set roles. strip role \<noteq> [] \<and> nonempty_string model)))"

text \<open>Cloud work stays manual.\<close>

definition manual_escalation :: "pydict \<Rightarrow> bool" where
  "manual_escalation m \<longleftrightarrow> dget m ''enabled'' = Some (PBool True) \<and> dget m ''default_mode'' = Some (PStr ''manual'')
     \<and> dget m ''automated_provider_enabled'' = Some (PBool False) \<and> dget m ''provider'' = Some (PStr ''none'')"

definition manual_batch :: "pydict \<Rightarrow> bool" where
  "manual_batch m \<longleftrightarrow> dget m ''enabled'' = Some (PBool True) \<and> dget m ''default_mode'' = Some (PStr ''manual'')
     \<and> dget m ''manual_cloud_only'' = Some (PBool True) \<and> dget m ''automatic_apply_enabled'' = Some (PBool False)
     \<and> dget m ''automatic_resume_enabled'' = Some (PBool False)"

definition section_is :: "pydict \<Rightarrow> string \<Rightarrow> (pydict \<Rightarrow> bool) \<Rightarrow> bool" where
  "section_is config key P \<longleftrightarrow> (\<exists>m. dget_or config key PNone = PDict m \<and> P m)"

definition valid_runtime_config :: "pydict \<Rightarrow> bool" where
  "valid_runtime_config config \<longleftrightarrow>
     section_is config ''agents'' (\<lambda>agents. \<forall>i \<in> set REQUIRED_AGENT_IDS. valid_agent agents i)
     \<and> section_is config ''command_policy'' valid_command_policy
     \<and> (dget_or config ''codex_runtime'' PNone = PNone \<or> section_is config ''codex_runtime'' valid_codex)
     \<and> (dget_or config ''local_execution'' PNone = PNone \<or> section_is config ''local_execution'' valid_local_execution)
     \<and> section_is config ''cloud_escalation'' manual_escalation \<and> section_is config ''cloud_batch'' manual_batch
     \<and> (dget_or config ''default_base_ref'' PNone = PNone \<or> text_there config ''default_base_ref'')"

lemma dget_or_eq: "v \<noteq> dflt \<Longrightarrow> dget_or m k dflt = v \<longleftrightarrow> dget m k = Some v"
  by (auto simp: dget_or_def split: option.splits)

lemma str_items_iff: "str_items xs = Some ys \<longleftrightarrow> xs = map PStr ys"
  by (induction xs arbitrary: ys rule: str_items.induct) (auto simp: Cons_eq_map_conv)

lemma map_PStr_eq [simp]: "map PStr xs = map PStr ys \<longleftrightarrow> xs = ys"
  by (rule inj_map_eq_map) (simp add: inj_def)

lemma str_items_map [simp]: "str_items (map PStr ys) = Some ys"
  by (simp add: str_items_iff)

lemma config_string_ok:
  "snd (config_string m key l) = [] \<longleftrightarrow> text_there m key"
  "text_there m key \<Longrightarrow> dget_or m key PNone = PStr s \<Longrightarrow> config_string m key l = (strip s, [])"
  by (auto simp: config_string_def text_there_def nonempty_string_def split: pyval.splits)

lemma config_string_among:
  "snd (config_string m key l) = [] \<and> one_of (fst (config_string m key l)) k known = [] \<longleftrightarrow> text_among m key known"
  by (auto simp: config_string_def text_among_def one_of_def split: pyval.splits)

lemma agent_errors_iff: "agent_errors agents i = [] \<longleftrightarrow> valid_agent agents i"
proof (cases "dget_or agents i PNone")
  case (PDict m)
  let ?l = "''agents.'' @ i"
  have "agent_errors agents i = [] \<longleftrightarrow>
      (snd (config_string m ''provider'' ?l) = []
        \<and> one_of (fst (config_string m ''provider'' ?l)) (?l @ ''.provider'') KNOWN_PROVIDER_TYPES = [])
      \<and> snd (config_string m ''model'' ?l) = []
      \<and> (snd (config_string m ''approval_mode'' ?l) = []
        \<and> one_of (fst (config_string m ''approval_mode'' ?l)) (?l @ ''.approval_mode'') KNOWN_APPROVAL_MODES = [])
      \<and> (snd (config_string m ''fallback_provider'' ?l) = []
        \<and> one_of (fst (config_string m ''fallback_provider'' ?l)) (?l @ ''.fallback_provider'') KNOWN_FALLBACK_PROVIDERS = [])
      \<and> (i = ''cloud_reviewer'' \<longrightarrow> fst (config_string m ''provider'' ?l) = ''manual_cloud_model'')"
    by (auto simp: agent_errors_def Let_def PDict case_prod_beta)
  also have "\<dots> \<longleftrightarrow> text_among m ''provider'' KNOWN_PROVIDER_TYPES \<and> text_there m ''model''
      \<and> text_among m ''approval_mode'' KNOWN_APPROVAL_MODES \<and> text_among m ''fallback_provider'' KNOWN_FALLBACK_PROVIDERS
      \<and> (i = ''cloud_reviewer'' \<longrightarrow> fst (config_string m ''provider'' ?l) = ''manual_cloud_model'')"
    unfolding config_string_among by (simp only: config_string_ok(1))
  also have "\<dots> \<longleftrightarrow> valid_agent agents i"
    unfolding valid_agent_def PDict
    by (auto simp: text_among_def config_string_def KNOWN_PROVIDER_TYPES_def)
  finally show ?thesis .
qed (auto simp: agent_errors_def valid_agent_def Let_def)

lemma contains_command_pattern_iff: "contains_command_pattern commands label \<longleftrightarrow> covers commands label"
  by (auto simp: contains_command_pattern_def covers_def list_ex_iff)

lemma string_list_value_ok: "string_list_value m k l = (xs, []) \<longleftrightarrow> dget_or m k PNone = pstrs xs"
  by (auto simp: string_list_value_def Let_def str_items_iff split: pyval.splits option.splits)

lemma string_list_value_there: "snd (string_list_value m k l) = [] \<Longrightarrow> \<exists>xs. dget_or m k PNone = pstrs xs"
  using string_list_value_ok [of m k l] by (cases "string_list_value m k l") auto

lemma mapping_value_ok: "mapping_value m k l = (n, []) \<longleftrightarrow> dget_or m k PNone = PDict n"
  by (auto simp: mapping_value_def split: pyval.splits)

text \<open>The section of the command-line agent, and the ones about models and the cloud.\<close>

lemma codex_errors_iff:
  "snd (parse_codex_runtime_config (PDict m) errors) = [] \<longleftrightarrow> errors = [] \<and> valid_codex m"
proof -
  have command: "snd (codex_command m) = [] \<longleftrightarrow> text_among m ''command'' CODEX_RUNTIME_ALLOWED_COMMANDS"
    by (auto simp: codex_command_def text_among_def split: pyval.splits)
  have args: "snd (codex_args m) = [] \<longleftrightarrow> (\<exists>args. dget_or m ''args'' PNone = pstrs args
      \<and> (args = CODEX_RUNTIME_WORKSPACE_WRITE_ARGS \<or> args = CODEX_RUNTIME_DOCKER_DANGER_ARGS))"
    by (auto simp: codex_args_def Let_def str_items_iff split: pyval.splits option.splits)
  have args_value: "fst (codex_args m) = args" if "dget_or m ''args'' PNone = pstrs args" for args
    using that by (simp add: codex_args_def)
  have timeout: "snd (codex_timeout m) = [] \<longleftrightarrow> (\<exists>t. dget_or m ''timeout_seconds'' PNone = PInt t \<and> 0 < t
      \<and> t \<le> MAX_CODEX_RUNTIME_TIMEOUT_SECONDS)"
    by (auto simp: codex_timeout_def split: pyval.splits)
  have isolation: "snd (codex_isolation m args) = [] \<longleftrightarrow> (\<exists>ack.
      dget_or m ''docker_isolation_acknowledged'' (PBool False) = PBool ack
      \<and> args = (if ack then CODEX_RUNTIME_DOCKER_DANGER_ARGS else CODEX_RUNTIME_WORKSPACE_WRITE_ARGS))"
    if "args = CODEX_RUNTIME_WORKSPACE_WRITE_ARGS \<or> args = CODEX_RUNTIME_DOCKER_DANGER_ARGS" for args
    using that by (auto simp: codex_isolation_def CODEX_RUNTIME_WORKSPACE_WRITE_ARGS_def
        CODEX_RUNTIME_DOCKER_DANGER_ARGS_def split: pyval.splits)
  have "snd (parse_codex_runtime_config (PDict m) errors) = [] \<longleftrightarrow> errors = []
      \<and> (\<exists>b. dget_or m ''enabled'' PNone = PBool b) \<and> snd (codex_command m) = []
      \<and> (snd (codex_args m) = [] \<and> snd (codex_isolation m (fst (codex_args m))) = [])
      \<and> dget_or m ''stdin_from_task_file'' PNone = PBool True \<and> snd (codex_timeout m) = []"
    by (auto simp: parse_codex_runtime_config_def Let_def case_prod_beta split: pyval.splits)
  also have "snd (codex_args m) = [] \<and> snd (codex_isolation m (fst (codex_args m))) = [] \<longleftrightarrow> (\<exists>args ack.
      dget_or m ''args'' PNone = pstrs args \<and> dget_or m ''docker_isolation_acknowledged'' (PBool False) = PBool ack
      \<and> args = (if ack then CODEX_RUNTIME_DOCKER_DANGER_ARGS else CODEX_RUNTIME_WORKSPACE_WRITE_ARGS))"
    using args args_value isolation by (smt (verit, ccfv_threshold))
  finally show ?thesis unfolding command timeout valid_codex_def by auto
qed

lemma local_execution_iff:
  "validate_local_execution_config section = [] \<longleftrightarrow>
    section = PNone \<or> (\<exists>m. section = PDict m \<and> valid_local_execution m)"
  by (auto simp: validate_local_execution_config_def valid_local_execution_def valid_role_models_def text_there_def
      Let_def split: pyval.splits if_splits)

lemma must_be_enabled_iff: "must_be_enabled m l = [] \<longleftrightarrow> dget m ''enabled'' = Some (PBool True)"
  by (auto simp: must_be_enabled_def dget_or_def split: pyval.splits option.splits)

lemma escalation_iff:
  "validate_cloud_escalation_config section = [] \<longleftrightarrow> (\<exists>m. section = PDict m \<and> manual_escalation m)"
  by (auto simp: validate_cloud_escalation_config_def manual_escalation_def must_be_def dget_or_eq must_be_enabled_iff
      split: pyval.splits)

lemma batch_iff:
  "validate_cloud_batch_config section = [] \<longleftrightarrow> (\<exists>m. section = PDict m \<and> manual_batch m)"
  by (auto simp: validate_cloud_batch_config_def manual_batch_def must_be_def dget_or_eq must_be_enabled_iff
      split: pyval.splits)

lemma command_policy_iff:
  "(snd (string_list_value m ''allowed_without_approval'' l) = []
    \<and> snd (string_list_value m ''requires_human_approval'' l) = []
    \<and> concat (map (risky_command_errors (fst (string_list_value m ''allowed_without_approval'' l))
        (fst (string_list_value m ''requires_human_approval'' l))) RISKY_COMMAND_REQUIREMENTS) = [])
    \<longleftrightarrow> valid_command_policy m"
proof (cases "\<exists>a r. dget_or m ''allowed_without_approval'' PNone = pstrs a \<and> dget_or m ''requires_human_approval'' PNone = pstrs r")
  case True
  then obtain a r where lists: "dget_or m ''allowed_without_approval'' PNone = pstrs a"
    "dget_or m ''requires_human_approval'' PNone = pstrs r" by blast
  then have "string_list_value m ''allowed_without_approval'' l = (a, [])"
    "string_list_value m ''requires_human_approval'' l = (r, [])" by (simp_all add: string_list_value_ok)
  with lists show ?thesis
    by (auto simp: valid_command_policy_def risky_command_errors_def contains_command_pattern_iff)
next
  case False
  then have "snd (string_list_value m ''allowed_without_approval'' l) \<noteq> []
      \<or> snd (string_list_value m ''requires_human_approval'' l) \<noteq> []"
    using string_list_value_there by blast
  with False show ?thesis by (auto simp: valid_command_policy_def)
qed

lemma codex_section_iff:
  "snd (parse_codex_runtime_config section errors) = [] \<longleftrightarrow>
    errors = [] \<and> (section = PNone \<or> (\<exists>m. section = PDict m \<and> valid_codex m))"
  using codex_errors_iff by (cases "section") (auto simp: parse_codex_runtime_config_def)

lemma runtime_config_errors_iff: "runtime_config_errors config = [] \<longleftrightarrow> valid_runtime_config config"
proof -
  have mapping: "snd (mapping_value m k l) = [] \<longleftrightarrow> (\<exists>n. dget_or m k PNone = PDict n \<and> fst (mapping_value m k l) = n)"
    for m k l using mapping_value_ok [of m k l] by (metis prod.collapse prod.inject)
  let ?agents = "mapping_value config ''agents'' ''runtime config''"
  let ?policy = "mapping_value config ''command_policy'' ''runtime config''"
  have "runtime_config_errors config = [] \<longleftrightarrow>
      (snd ?agents = [] \<and> (\<forall>i \<in> set REQUIRED_AGENT_IDS. agent_errors (fst ?agents) i = []))
      \<and> (snd ?policy = [] \<and> valid_command_policy (fst ?policy))
      \<and> (dget_or config ''codex_runtime'' PNone = PNone \<or> section_is config ''codex_runtime'' valid_codex)
      \<and> validate_local_execution_config (dget_or config ''local_execution'' PNone) = []
      \<and> validate_cloud_escalation_config (dget_or config ''cloud_escalation'' PNone) = []
      \<and> validate_cloud_batch_config (dget_or config ''cloud_batch'' PNone) = []
      \<and> (dget_or config ''default_base_ref'' PNone = PNone \<or> text_there config ''default_base_ref'')"
    unfolding command_policy_iff [of _ "''command_policy''", symmetric] section_is_def text_there_def
    by (auto simp: runtime_config_errors_def Let_def case_prod_beta codex_section_iff)
  also have "\<dots> \<longleftrightarrow> valid_runtime_config config"
    unfolding valid_runtime_config_def section_is_def agent_errors_iff local_execution_iff escalation_iff batch_iff mapping
    by (intro conj_cong) (auto simp: mapping_value_def)
  finally show ?thesis .
qed

text \<open>
  C31: a runtime configuration is accepted exactly when the file loads as a mapping that promises
  what the work flow relies on: every agent has a known provider and approval mode and the cloud
  reviewer a manual one, each risky command needs approval and none is allowed without it, the
  command-line agent runs in one of two sandboxes (the open one only acknowledged), and cloud
  work stays manual, without automatic apply or resume.
\<close>

theorem runtime_config_accepted_iff:
  "validate_runtime_config c project d = Inr (p, config) \<longleftrightarrow>
    load_runtime_config c project d = Inr (p, config) \<and> valid_runtime_config config"
  unfolding runtime_config_errors_iff [symmetric]
  by (auto simp: validate_runtime_config_def Let_def)

text \<open>
  C32: the command-line agent is only ever started enabled, with one of its two commands, within
  the time limit, and outside the workspace sandbox only when that was acknowledged.
\<close>

theorem codex_runtime_confined:
  assumes "load_codex_runtime_config c project d = Inr (p, cfg)"
  shows "cx_enabled cfg \<and> cx_command cfg \<in> {''codex'', ''codex.cmd''} \<and> 0 < cx_timeout_seconds cfg
    \<and> cx_timeout_seconds cfg \<le> 7200
    \<and> cx_args cfg = [''exec'', ''--sandbox'',
        if cx_docker_isolation_acknowledged cfg then ''danger-full-access'' else ''workspace-write'', ''-'']"
proof -
  obtain config where config: "load_runtime_config c project d = Inr (p, config)"
    using assms
    by (auto simp: load_codex_runtime_config_def Let_def case_prod_beta split: option.splits if_splits)
  obtain parsed errors where run: "parse_codex_runtime_config (dget_or config ''codex_runtime'' PNone) [] = (parsed, errors)"
    by fastforce
  from assms have enabled: "cx_enabled cfg" "parsed = Some cfg" "errors = []"
    by (auto simp: load_codex_runtime_config_def config run Let_def split: option.splits if_splits)
  with run have parsed: "parse_codex_runtime_config (dget_or config ''codex_runtime'' PNone) [] = (Some cfg, [])" by simp
  from parsed obtain m where m: "dget_or config ''codex_runtime'' PNone = PDict m" and valid: "valid_codex m"
    using codex_section_iff [of "dget_or config ''codex_runtime'' PNone" "[]"]
    by (auto simp: parse_codex_runtime_config_def)
  have cfg: "cx_command cfg = fst (codex_command m)" "cx_args cfg = fst (codex_args m)"
    "cx_timeout_seconds cfg = fst (codex_timeout m)"
    "cx_docker_isolation_acknowledged cfg = fst (codex_isolation m (fst (codex_args m)))"
    using parsed by (auto simp: m parse_codex_runtime_config_def Let_def case_prod_beta split: if_splits)
  from valid obtain args t ack where valid: "text_among m ''command'' CODEX_RUNTIME_ALLOWED_COMMANDS"
    "dget_or m ''args'' PNone = pstrs args" "dget_or m ''timeout_seconds'' PNone = PInt t"
    "0 < t" "t \<le> MAX_CODEX_RUNTIME_TIMEOUT_SECONDS"
    "dget_or m ''docker_isolation_acknowledged'' (PBool False) = PBool ack"
    "args = (if ack then CODEX_RUNTIME_DOCKER_DANGER_ARGS else CODEX_RUNTIME_WORKSPACE_WRITE_ARGS)"
    unfolding valid_codex_def by blast
  have "cx_command cfg \<in> set CODEX_RUNTIME_ALLOWED_COMMANDS"
    using valid(1) by (auto simp: cfg text_among_def codex_command_def)
  moreover have "cx_timeout_seconds cfg = t" using valid(3) by (simp add: cfg codex_timeout_def)
  moreover have "cx_args cfg = args" using valid(2) by (simp add: cfg codex_args_def)
  moreover have "cx_docker_isolation_acknowledged cfg = ack" using valid(6) by (simp add: cfg codex_isolation_def)
  ultimately show ?thesis
    using enabled(1) valid(4,5,7)
    by (simp add: CODEX_RUNTIME_ALLOWED_COMMANDS_def MAX_CODEX_RUNTIME_TIMEOUT_SECONDS_def
        CODEX_RUNTIME_WORKSPACE_WRITE_ARGS_def CODEX_RUNTIME_DOCKER_DANGER_ARGS_def)
qed

subsection \<open>A configuration\<close>

definition sample_codex :: pydict where
  "sample_codex = [(''enabled'', PBool True), (''command'', PStr ''codex''),
     (''args'', pstrs CODEX_RUNTIME_DOCKER_DANGER_ARGS), (''stdin_from_task_file'', PBool True),
     (''timeout_seconds'', PInt 7200), (''docker_isolation_acknowledged'', PBool True)]"

definition sample_config_disk :: disk where
  "sample_config_disk = \<lparr>fs_files = [(runtime_config_path [''p''], Doc (PDict [(''codex_runtime'', PDict sample_codex)]))],
     fs_dirs = []\<rparr>"

lemma sample_codex_loads:
  "load_codex_runtime_config sample_codecs [''p''] sample_config_disk =
    Inr (runtime_config_path [''p''], \<lparr>cx_enabled = True, cx_command = ''codex'',
      cx_args = CODEX_RUNTIME_DOCKER_DANGER_ARGS, cx_stdin_from_task_file = True, cx_timeout_seconds = 7200,
      cx_docker_isolation_acknowledged = True\<rparr>)"
  by code_simp

theorem codex_runtime_confined_witness:
  "\<exists>p cfg. load_codex_runtime_config sample_codecs [''p''] sample_config_disk = Inr (p, cfg)
    \<and> cx_args cfg = [''exec'', ''--sandbox'', ''danger-full-access'', ''-''] \<and> cx_timeout_seconds cfg \<le> 7200"
  using codex_runtime_confined [OF sample_codex_loads] sample_codex_loads
  by (simp add: CODEX_RUNTIME_DOCKER_DANGER_ARGS_def)

end
