(* ===== verification/LocalModel.thy ===== *)
theory LocalModel
  imports AppService RuntimeConfig
begin

text \<open>
  \<open>local_model_runtime.py\<close>: the section of the runtime configuration about the local model, the
  call of the model and what is read from its response; the dry run and the run of a prompt file.

  The endpoint is a parameter: the \<open>k\<close>-th request of a run is answered by \<open>lx_post env k\<close>, which
  may raise. So are the environment variables, the clock and the measured durations. A
  temperature that is no whole number is outside the model.
\<close>

subsection \<open>Configuration\<close>

definition LOCAL_MODEL_PROVIDER :: string where
  "LOCAL_MODEL_PROVIDER = ''local_openai_compatible''"

record local_model_runtime_config =
  lm_enabled :: bool
  lm_provider :: string
  lm_base_url :: string
  lm_model :: string
  lm_timeout_seconds :: int
  lm_api_key_env :: "string option"
  lm_max_output_tokens :: "int option"
  lm_temperature :: "int option"

definition chat_completions_url :: "local_model_runtime_config \<Rightarrow> string" where
  "chat_completions_url config = rstrip_chars ''/'' (lm_base_url config) @ ''/chat/completions''"

definition optional_string :: "pydict \<Rightarrow> string \<Rightarrow> string option \<times> string list" where
  "optional_string mapping key =
     (let wrong = (None, [''local_model_runtime.'' @ key @ '' must be a non-empty string when provided.'']) in
      case dget_or mapping key PNone of
        PNone \<Rightarrow> (None, [])
      | PStr s \<Rightarrow> if strip s \<noteq> [] then (Some (strip s), []) else wrong
      | _ \<Rightarrow> wrong)"

definition optional_positive_int :: "pydict \<Rightarrow> string \<Rightarrow> int option \<times> string list" where
  "optional_positive_int mapping key =
     (let wrong = (None, [''local_model_runtime.'' @ key @ '' must be a positive integer when provided.'']) in
      case dget_or mapping key PNone of
        PNone \<Rightarrow> (None, [])
      | PInt i \<Rightarrow> if 0 < i then (Some i, []) else wrong
      | _ \<Rightarrow> wrong)"

definition optional_number :: "pydict \<Rightarrow> string \<Rightarrow> int option \<times> string list" where
  "optional_number mapping key = (case dget_or mapping key PNone of
     PNone \<Rightarrow> (None, [])
   | PInt i \<Rightarrow> (Some i, [])
   | _ \<Rightarrow> (None, [''local_model_runtime.'' @ key @ '' must be a number when provided.'']))"

definition parse_local_model_runtime_config :: "pyval \<Rightarrow> local_model_runtime_config option \<times> string list" where
  "parse_local_model_runtime_config section = (case section of
     PDict m \<Rightarrow>
       let text = (\<lambda>key. config_string m key ''local_model_runtime'');
           (provider, e1) = text ''provider''; (base_url, e2) = text ''base_url''; (model, e3) = text ''model'';
           (enabled, e4) = (case dget_or m ''enabled'' PNone of
              PBool b \<Rightarrow> (b, []) | _ \<Rightarrow> (False, [''local_model_runtime.enabled must be a boolean.'']));
           e5 = (if provider \<noteq> [] \<and> provider \<noteq> LOCAL_MODEL_PROVIDER
             then [''local_model_runtime.provider must be local_openai_compatible.''] else []);
           (timeout_seconds, e6) = (case dget_or m ''timeout_seconds'' PNone of
              PInt t \<Rightarrow> (t, if t \<le> 0 then [''local_model_runtime.timeout_seconds must be greater than 0.''] else [])
            | _ \<Rightarrow> (0, [''local_model_runtime.timeout_seconds must be an integer.'']));
           (api_key_env, e7) = optional_string m ''api_key_env'';
           (max_output_tokens, e8) = optional_positive_int m ''max_output_tokens'';
           (temperature, e9) = optional_number m ''temperature'';
           errors = e1 @ e2 @ e3 @ e4 @ e5 @ e6 @ e7 @ e8 @ e9 in
       (if errors \<noteq> [] then None
        else Some \<lparr>lm_enabled = enabled, lm_provider = provider, lm_base_url = base_url, lm_model = model,
          lm_timeout_seconds = timeout_seconds, lm_api_key_env = api_key_env,
          lm_max_output_tokens = max_output_tokens, lm_temperature = temperature\<rparr>, errors)
   | _ \<Rightarrow> (None, [''local_model_runtime must be a mapping.'']))"

text \<open>\<open>validate_local_model_runtime_config\<close>: the path, whether the section is there, the errors.\<close>

record local_model_validation_result =
  lv_config_path :: path
  lv_configured :: bool
  lv_errors :: "string list"

definition lv_passed :: "local_model_validation_result \<Rightarrow> bool" where
  "lv_passed r \<longleftrightarrow> lv_errors r = []"

definition validate_local_model_runtime_config ::
    "codecs \<Rightarrow> path \<Rightarrow> disk \<Rightarrow> local_model_validation_result res" where
  "validate_local_model_runtime_config c project d =
     rbind (load_runtime_config c project d) (\<lambda>(p, config).
     Inr (case dget_or config ''local_model_runtime'' PNone of
        PNone \<Rightarrow> \<lparr>lv_config_path = p, lv_configured = False, lv_errors = []\<rparr>
      | v \<Rightarrow> \<lparr>lv_config_path = p, lv_configured = True, lv_errors = snd (parse_local_model_runtime_config v)\<rparr>))"

definition format_local_model_validation_result :: "local_model_validation_result \<Rightarrow> string" where
  "format_local_model_validation_result r =
     (if lv_passed r \<and> lv_configured r then ''Local model runtime validation passed: '' @ path_text (lv_config_path r)
      else if lv_passed r
      then ''Local model runtime validation passed: no local_model_runtime section is ''
        @ ''configured in '' @ path_text (lv_config_path r)
      else join newline ([''Local model runtime validation failed.'', ''Config: '' @ path_text (lv_config_path r), [],
        ''Errors:''] @ map (\<lambda>e. ''  - '' @ e) (lv_errors r)))"

definition load_local_model_runtime_config ::
    "codecs \<Rightarrow> path \<Rightarrow> disk \<Rightarrow> (path \<times> local_model_runtime_config) res" where
  "load_local_model_runtime_config c project d =
     rbind (load_runtime_config c project d) (\<lambda>(p, config).
     case dget_or config ''local_model_runtime'' PNone of
       PNone \<Rightarrow> value_error ''local_model_runtime must be configured before calling a local model.''
     | v \<Rightarrow> (case parse_local_model_runtime_config v of
           (None, errors) \<Rightarrow> value_error (error_list ''Local model runtime validation failed:'' errors)
         | (Some parsed, errors) \<Rightarrow>
             if errors \<noteq> [] then value_error (error_list ''Local model runtime validation failed:'' errors)
             else if \<not> lm_enabled parsed
             then value_error ''local_model_runtime.enabled must be true before calling a local model.''
             else Inr (p, parsed)))"

subsection \<open>Calling the model\<close>

text \<open>The payload of a request: the model, the one message of the user and the optional limits.\<close>

record model_request =
  mq_model :: string
  mq_prompt :: string
  mq_max_tokens :: "int option"
  mq_temperature :: "int option"

record local_env =
  lx_now :: "nat \<Rightarrow> string"
  lx_duration :: "nat \<Rightarrow> pyval"
  lx_post :: "nat \<Rightarrow> string \<Rightarrow> model_request \<Rightarrow> (string \<times> string) list \<Rightarrow> int \<Rightarrow> pydict res"
  lx_environ :: "string \<Rightarrow> string option"

definition build_headers :: "local_env \<Rightarrow> local_model_runtime_config \<Rightarrow> (string \<times> string) list" where
  "build_headers env config =
     (''Content-Type'', ''application/json'')
     # (case lm_api_key_env config of
          None \<Rightarrow> []
        | Some name \<Rightarrow>
            if name = [] then []
            else (case lx_environ env name of
              None \<Rightarrow> []
            | Some key \<Rightarrow> if key = [] then [] else [(''Authorization'', ''Bearer '' @ key)]))"

definition call_local_model ::
    "local_env \<Rightarrow> local_model_runtime_config \<Rightarrow> string \<Rightarrow> string option \<Rightarrow> (world, pydict) prog" where
  "call_local_model env config prompt model =
     (let payload = \<lparr>mq_model = (case model of Some m \<Rightarrow> str_or m (lm_model config) | None \<Rightarrow> lm_model config),
            mq_prompt = prompt, mq_max_tokens = lm_max_output_tokens config, mq_temperature = lm_temperature config\<rparr> in
      (\<lambda>w. (lx_post env (w_ids w) (chat_completions_url config) payload (build_headers env config)
              (lm_timeout_seconds config), w\<lparr>w_ids := Suc (w_ids w)\<rparr>)))"

fun extract_text_from_content_parts :: "pyval list \<Rightarrow> string" where
  "extract_text_from_content_parts [] = []"
| "extract_text_from_content_parts (PDict part # parts) =
     (case dget_or part ''text'' PNone of
        PStr text \<Rightarrow>
          (if dget_or part ''type'' PNone \<in> {PNone, PStr ''text'', PStr ''output_text''} then text else [])
          @ extract_text_from_content_parts parts
      | _ \<Rightarrow> extract_text_from_content_parts parts)"
| "extract_text_from_content_parts (part # parts) = extract_text_from_content_parts parts"

definition extract_choice_text :: "pydict \<Rightarrow> string res" where
  "extract_choice_text first_choice =
     (let after = (case dget_or first_choice ''text'' PNone of
            PStr text \<Rightarrow> Inr text
          | _ \<Rightarrow> value_error ''Local model response choice must include message.content, text, or output_text.'') in
      case dget_or first_choice ''message'' PNone of
        PDict message \<Rightarrow> (case dget_or message ''content'' PNone of
            PStr content \<Rightarrow> Inr content
          | PList content \<Rightarrow> Inr (extract_text_from_content_parts content)
          | _ \<Rightarrow> after)
      | _ \<Rightarrow> after)"

definition extract_response_text :: "pydict \<Rightarrow> string res" where
  "extract_response_text response = (case dget_or response ''output_text'' PNone of
     PStr output_text \<Rightarrow> Inr output_text
   | _ \<Rightarrow> (case dget_or response ''choices'' PNone of
        PList (PDict first_choice # _) \<Rightarrow> extract_choice_text first_choice
      | PList (_ # _) \<Rightarrow> value_error ''Local model response choice must be a JSON object.''
      | _ \<Rightarrow> value_error ''Local model response must include output_text or at least one choice.''))"

definition extract_finish_reason :: "pydict \<Rightarrow> string option" where
  "extract_finish_reason response = (case dget_or response ''choices'' PNone of
     PList (PDict first_choice # _) \<Rightarrow> (case dget_or first_choice ''finish_reason'' PNone of
         PStr reason \<Rightarrow> Some reason | _ \<Rightarrow> None)
   | _ \<Rightarrow> None)"

subsection \<open>The dry run and the run of a prompt file\<close>

definition DEFAULT_DRY_RUN_PROMPT :: string where
  "DEFAULT_DRY_RUN_PROMPT = ''Reply with LOCAL_MODEL_OK only.''"

definition write_text :: "path \<Rightarrow> string \<Rightarrow> disk \<Rightarrow> disk" where
  "write_text p text d = fs_write p (Text text) (fs_mkdir (butlast p) d)"

definition dry_run_report :: "path \<Rightarrow> local_model_runtime_config \<Rightarrow> string \<Rightarrow> string" where
  "dry_run_report config_path config response_text = join newline
     [''# Local Model Dry Run Report'', [], ''- Status: PASS'', ''- Runtime config: '' @ path_text config_path,
      ''- Provider: '' @ lm_provider config, ''- Base URL: '' @ lm_base_url config, ''- Model: '' @ lm_model config,
      ''- Prompt content: not recorded'', ''- Secret values: not recorded'', [], ''## Response'', [], response_text, [],
      ''## Safety'', [],
      ''This dry run saved a report only. It did not edit source files, execute model ''
        @ ''output, commit, push, merge, deploy, call GitHub APIs, or call cloud models.'', []]"

record local_model_call_result =
  lr_config_path :: path
  lr_report_path :: "path option"
  lr_raw_response_path :: "path option"
  lr_response_text :: string
  lr_raw_response :: pydict

definition run_local_model_dry_run ::
    "codecs \<Rightarrow> local_env \<Rightarrow> path \<Rightarrow> string \<Rightarrow> (world, local_model_call_result) prog" where
  "run_local_model_dry_run c env project prompt =
     pbind (pread (\<lambda>w. load_local_model_runtime_config c project (w_disk w))) (\<lambda>(config_path, config).
     pbind (call_local_model env config prompt None) (\<lambda>response.
     pbind (plift (extract_response_text response)) (\<lambda>response_text.
     let report_path = project @ [''reports'', ''local_model_dry_run_report.md''] in
     pbind (on_disk (pmodify (write_text report_path (dry_run_report config_path config response_text)))) (\<lambda>_.
     pret \<lparr>lr_config_path = config_path, lr_report_path = Some report_path, lr_raw_response_path = None,
       lr_response_text = response_text, lr_raw_response = response\<rparr>))))"

definition raw_response_path_for_output :: "path \<Rightarrow> path" where
  "raw_response_path_for_output output_file =
     butlast output_file @ [name_stem (path_name output_file) @ ''_raw_response.json'']"

definition write_raw_response :: "path \<Rightarrow> pydict \<Rightarrow> disk \<Rightarrow> disk" where
  "write_raw_response p raw_response d = fs_write p (Doc (PDict raw_response)) (fs_mkdir (butlast p) d)"

definition run_local_agent_prompt ::
    "codecs \<Rightarrow> local_env \<Rightarrow> path \<Rightarrow> path \<Rightarrow> path \<Rightarrow> (world, local_model_call_result) prog" where
  "run_local_agent_prompt c env project prompt_file output_file =
     pbind (pread (\<lambda>w. load_local_model_runtime_config c project (w_disk w))) (\<lambda>(config_path, config).
     pbind (pread (\<lambda>w.
       if \<not> fs_exists (w_disk w) prompt_file then not_found (''Prompt file does not exist: '' @ path_text prompt_file)
       else case fs_file (w_disk w) prompt_file of
         None \<Rightarrow> Inl (Exn OutsideModel ''IsADirectoryError'')
       | Some content \<Rightarrow> Inr (content_bytes c content))) (\<lambda>prompt.
     pbind (call_local_model env config prompt None) (\<lambda>response.
     let raw_response_path = raw_response_path_for_output output_file in
     pbind (on_disk (pmodify (write_raw_response raw_response_path response))) (\<lambda>_.
     pbind (plift (extract_response_text response)) (\<lambda>response_text.
     if strip response_text = []
     then plift (value_error (''Local model returned an empty response. ''
        @ ''Raw response saved to: '' @ path_text raw_response_path))
     else
       pbind (on_disk (pmodify (write_text output_file response_text))) (\<lambda>_.
       pret \<lparr>lr_config_path = config_path, lr_report_path = Some output_file,
         lr_raw_response_path = Some raw_response_path, lr_response_text = response_text,
         lr_raw_response = response\<rparr>))))))"

end
