(* ===== verification/SubtaskGraph.thy ===== *)
theory SubtaskGraph
  imports BatchGraph AppModels
begin

text \<open>
  \<open>subtask_execution.py\<close>, first part: the sub-tasks of a story's blueprint, read from a mapping
  with all their checks, the order in which they are executed and the tasks that are ready.
\<close>

subsection \<open>Sub-tasks\<close>

definition VALID_OVERSIZED_TASK_POLICY :: string where
  "VALID_OVERSIZED_TASK_POLICY = ''reject_for_cloud_redecomposition''"

definition VALID_ROLES :: "string list" where
  "VALID_ROLES = [''research'', ''planner'', ''developer'', ''test'', ''documentation'', ''docs'',
     ''security_quality'', ''local_reviewer'']"

record required_context =
  rq_files :: "string list"
  rq_summaries :: "string list"
  rq_prior_task_outputs :: "string list"
  rq_architecture_decisions :: "string list"

record context_budget =
  cb_max_input_tokens :: int
  cb_reserved_output_tokens :: int
  cb_required_context_must_fit :: bool
  cb_allow_required_context_trimming :: bool
  cb_oversized_task_policy :: string

definition usable_input_tokens :: "context_budget \<Rightarrow> int" where
  "usable_input_tokens b = cb_max_input_tokens b - cb_reserved_output_tokens b"

record blueprint_subtask =
  bs_id :: string
  bs_title :: string
  bs_role :: string
  bs_depends_on :: "string list"
  bs_requirement_ids :: "string list"
  bs_required_context :: required_context
  bs_writable_paths :: "string list"
  bs_expected_outputs :: "string list"
  bs_validation :: "string list"
  bs_context_budget :: context_budget

subsection \<open>Typed fields\<close>

definition required_string :: "pydict \<Rightarrow> string \<Rightarrow> string \<Rightarrow> string res" where
  "required_string mapping key location =
     (case dget mapping key of
        Some (PStr s) \<Rightarrow>
          if strip s \<noteq> [] then Inr (strip s) else value_error (location @ ''.'' @ key @ '' must be a non-empty string.'')
      | _ \<Rightarrow> value_error (location @ ''.'' @ key @ '' must be a non-empty string.''))"

fun text_items :: "pyval list \<Rightarrow> string list option" where
  "text_items [] = Some []"
| "text_items (PStr s # xs) =
     (if strip s = [] then None else case text_items xs of None \<Rightarrow> None | Some ys \<Rightarrow> Some (strip s # ys))"
| "text_items (x # xs) = None"

definition string_list :: "pyval \<Rightarrow> string \<Rightarrow> string list res" where
  "string_list value location =
     (case value of
        PNone \<Rightarrow> Inr []
      | PList xs \<Rightarrow> (case text_items xs of
            Some ys \<Rightarrow> Inr ys
          | None \<Rightarrow> value_error (location @ '' must be a list of non-empty strings.''))
      | _ \<Rightarrow> value_error (location @ '' must be a list of non-empty strings.''))"

text \<open>\<open>string_list(mapping.get(key, []), location + "." + key)\<close>\<close>

definition string_list_at :: "pydict \<Rightarrow> string \<Rightarrow> string \<Rightarrow> string list res" where
  "string_list_at mapping key location = string_list (dget_or mapping key (PList [])) (location @ ''.'' @ key)"

definition positive_int :: "pyval \<Rightarrow> string \<Rightarrow> int res" where
  "positive_int value location = (case value of
     PInt i \<Rightarrow> if 0 < i then Inr i else value_error (location @ '' must be a positive integer.'')
   | _ \<Rightarrow> value_error (location @ '' must be a positive integer.''))"

definition nonnegative_int :: "pyval \<Rightarrow> string \<Rightarrow> int res" where
  "nonnegative_int value location = (case value of
     PInt i \<Rightarrow> if 0 \<le> i then Inr i else value_error (location @ '' must be a non-negative integer.'')
   | _ \<Rightarrow> value_error (location @ '' must be a non-negative integer.''))"

definition required_bool :: "pyval \<Rightarrow> string \<Rightarrow> bool res" where
  "required_bool value location = (case value of
     PBool b \<Rightarrow> Inr b | _ \<Rightarrow> value_error (location @ '' must be a boolean.''))"

subsection \<open>Parsing\<close>

definition parse_required_context :: "pyval \<Rightarrow> string \<Rightarrow> required_context res" where
  "parse_required_context value location = (case value of
     PDict m \<Rightarrow>
       rbind (string_list_at m ''files'' location) (\<lambda>files.
       rbind (string_list_at m ''summaries'' location) (\<lambda>summaries.
       rbind (string_list_at m ''prior_task_outputs'' location) (\<lambda>prior.
       rbind (string_list_at m ''architecture_decisions'' location) (\<lambda>decisions.
       Inr \<lparr>rq_files = files, rq_summaries = summaries, rq_prior_task_outputs = prior,
         rq_architecture_decisions = decisions\<rparr>))))
   | _ \<Rightarrow> value_error (location @ '' must be a mapping.''))"

definition validate_subtask_budget :: "context_budget \<Rightarrow> string \<Rightarrow> unit res" where
  "validate_subtask_budget budget location =
     (if usable_input_tokens budget \<le> 0
      then value_error (location @ '' must leave a positive usable input budget.'')
      else if \<not> cb_required_context_must_fit budget
      then value_error (location @ ''.required_context_must_fit must be true.'')
      else if cb_allow_required_context_trimming budget
      then value_error (location @ ''.allow_required_context_trimming must be false.'')
      else if cb_oversized_task_policy budget \<noteq> VALID_OVERSIZED_TASK_POLICY
      then value_error (location @ ''.oversized_task_policy must be '' @ VALID_OVERSIZED_TASK_POLICY @ ''.'')
      else Inr ())"

definition parse_context_budget :: "pyval \<Rightarrow> string \<Rightarrow> context_budget res" where
  "parse_context_budget value location = (case value of
     PDict m \<Rightarrow>
       rbind (positive_int (dget_or m ''max_input_tokens'' PNone) (location @ ''.max_input_tokens'')) (\<lambda>max_input.
       rbind (nonnegative_int (dget_or m ''reserved_output_tokens'' PNone) (location @ ''.reserved_output_tokens''))
         (\<lambda>reserved.
       rbind (required_bool (dget_or m ''required_context_must_fit'' PNone) (location @ ''.required_context_must_fit''))
         (\<lambda>must_fit.
       rbind (required_bool (dget_or m ''allow_required_context_trimming'' PNone)
                (location @ ''.allow_required_context_trimming'')) (\<lambda>trimming.
       rbind (required_string m ''oversized_task_policy'' location) (\<lambda>policy.
       let budget = \<lparr>cb_max_input_tokens = max_input, cb_reserved_output_tokens = reserved,
             cb_required_context_must_fit = must_fit, cb_allow_required_context_trimming = trimming,
             cb_oversized_task_policy = policy\<rparr> in
       rbind (validate_subtask_budget budget location) (\<lambda>_. Inr budget))))))
   | _ \<Rightarrow> value_error (location @ '' must be a mapping.''))"

text \<open>One item of the list: \<open>seen\<close> are the identifiers so far.\<close>

definition parse_subtask :: "nat \<Rightarrow> string list \<Rightarrow> pyval \<Rightarrow> blueprint_subtask res" where
  "parse_subtask index seen raw =
     (let location = ''subtasks['' @ nat_dec index @ '']'' in
      case raw of
        PDict m \<Rightarrow>
          rbind (required_string m ''id'' location) (\<lambda>task_id.
          if task_id \<in> set seen then value_error (''Duplicate sub-task id: '' @ task_id)
          else
            rbind (required_string m ''role'' location) (\<lambda>role.
            if role \<notin> set VALID_ROLES then value_error (''Unsupported sub-task role for '' @ task_id @ '': '' @ role)
            else
              let role = (if role = ''docs'' then ''documentation'' else role) in
              rbind (string_list_at m ''depends_on'' location) (\<lambda>depends_on.
              if task_id \<in> set depends_on then value_error (''Sub-task cannot depend on itself: '' @ task_id)
              else
                rbind (required_string m ''title'' location) (\<lambda>title.
                rbind (string_list_at m ''requirement_ids'' location) (\<lambda>requirement_ids.
                rbind (parse_required_context (dget_or m ''required_context'' PNone) (location @ ''.required_context''))
                  (\<lambda>required.
                rbind (string_list_at m ''writable_paths'' location) (\<lambda>writable_paths.
                rbind (string_list_at m ''expected_outputs'' location) (\<lambda>expected_outputs.
                rbind (string_list_at m ''validation'' location) (\<lambda>validation.
                rbind (parse_context_budget (dget_or m ''context_budget'' PNone) (location @ ''.context_budget''))
                  (\<lambda>budget.
                Inr \<lparr>bs_id = task_id, bs_title = title, bs_role = role, bs_depends_on = depends_on,
                  bs_requirement_ids = requirement_ids, bs_required_context = required,
                  bs_writable_paths = writable_paths, bs_expected_outputs = expected_outputs,
                  bs_validation = validation, bs_context_budget = budget\<rparr>)))))))))) 
      | _ \<Rightarrow> value_error (location @ '' must be a mapping.''))"

fun parse_subtasks :: "nat \<Rightarrow> string list \<Rightarrow> pyval list \<Rightarrow> blueprint_subtask list res" where
  "parse_subtasks index seen [] = Inr []"
| "parse_subtasks index seen (raw # raws) =
     rbind (parse_subtask index seen raw) (\<lambda>task.
     rbind (parse_subtasks (index + 1) (bs_id task # seen) raws) (\<lambda>tasks. Inr (task # tasks)))"

subsection \<open>The order of execution\<close>

text \<open>One task of a layer: \<open>remaining.remove\<close> raises for an identifier that is gone.\<close>

fun take_layer ::
    "blueprint_subtask list \<Rightarrow> string list \<Rightarrow> (string list \<times> string list) res" where
  "take_layer [] remaining = Inr ([], remaining)"
| "take_layer (task # tasks) remaining =
     (if bs_id task \<in> set remaining then
        rbind (take_layer tasks (filter (\<lambda>i. i \<noteq> bs_id task) remaining)) (\<lambda>(ids, left). Inr (bs_id task # ids, left))
      else Inl (Exn KeyError (repr_str (bs_id task))))"

definition ready_layer :: "blueprint_subtask list \<Rightarrow> string list \<Rightarrow> string list \<Rightarrow> blueprint_subtask list" where
  "ready_layer subtasks remaining completed =
     filter (\<lambda>t. bs_id t \<in> set remaining \<and> set (bs_depends_on t) \<subseteq> set completed) subtasks"

lemma take_layer_result:
  "take_layer ts remaining = Inr (ids, left) \<longleftrightarrow>
   ids = map bs_id ts \<and> distinct ids \<and> set ids \<subseteq> set remaining \<and> left = filter (\<lambda>i. i \<notin> set ids) remaining"
proof (induction ts arbitrary: remaining ids)
  case (Cons t ts)
  have "filter (\<lambda>i. i \<notin> A) (filter (\<lambda>i. i \<noteq> x) xs) = filter (\<lambda>i. i \<noteq> x \<and> i \<notin> A) xs" for A x and xs :: "string list"
    by (simp add: conj_commute)
  then show ?case by (cases ids) (auto simp: Cons.IH image_subset_iff image_iff, metis+)
qed auto

lemma take_layer_shorter:
  assumes "take_layer (t # ts) remaining = Inr (ids, left)"
  shows "length left < length remaining"
  using assms unfolding take_layer_result by (auto intro!: length_filter_less)

function order_layers ::
    "blueprint_subtask list \<Rightarrow> string list \<Rightarrow> string list \<Rightarrow> string list res" where
  "order_layers subtasks remaining completed =
     (if remaining = [] then Inr completed
      else case ready_layer subtasks remaining completed of
        [] \<Rightarrow> value_error (''Sub-task dependency cycle detected: '' @ join '', '' (sorted_set remaining))
      | t # ts \<Rightarrow> (case take_layer (t # ts) remaining of
          Inl e \<Rightarrow> Inl e
        | Inr (ids, left) \<Rightarrow> order_layers subtasks left (completed @ ids)))"
  by pat_completeness auto
termination
  by (relation "measure (\<lambda>(ts, remaining, c). length remaining)") (auto dest: take_layer_shorter simp del: take_layer.simps)

declare order_layers.simps [simp del]

lemma order_layers_Nil [simp]: "order_layers ts [] completed = Inr completed"
  by (simp add: order_layers.simps)

lemma order_layers_step:
  "remaining \<noteq> [] \<Longrightarrow> order_layers ts remaining completed = (case ready_layer ts remaining completed of
        [] \<Rightarrow> value_error (''Sub-task dependency cycle detected: '' @ join '', '' (sorted_set remaining))
      | t # l \<Rightarrow> (case take_layer (t # l) remaining of
          Inl e \<Rightarrow> Inl e
        | Inr (ids, left) \<Rightarrow> order_layers ts left (completed @ ids)))"
  by (simp add: order_layers.simps [of ts remaining completed])

definition subtask_dict :: "blueprint_subtask list \<Rightarrow> (string \<times> blueprint_subtask) list" where
  "subtask_dict subtasks = al_merge [] (map (\<lambda>t. (bs_id t, t)) subtasks)"

definition topological_subtasks :: "blueprint_subtask list \<Rightarrow> blueprint_subtask list res" where
  "topological_subtasks subtasks =
     rbind (order_layers subtasks (dedup (map bs_id subtasks)) []) (\<lambda>ids.
     Inr (map (\<lambda>i. the (map_of (subtask_dict subtasks) i)) ids))"

lemma topological_Nil [simp]: "topological_subtasks [] = Inr []"
  by (simp add: topological_subtasks_def dedup_def)

definition validate_subtask_graph :: "blueprint_subtask list \<Rightarrow> unit res" where
  "validate_subtask_graph subtasks =
     rbind (rfold (\<lambda>task _.
         let missing = filter (\<lambda>d. d \<notin> bs_id ` set subtasks) (bs_depends_on task) in
         if missing \<noteq> []
         then value_error (''Sub-task '' @ bs_id task @ '' has missing dependencies: '' @ join '', '' missing)
         else Inr ()) subtasks ()) (\<lambda>_.
     rbind (topological_subtasks subtasks) (\<lambda>_. Inr ()))"

definition parse_blueprint_subtasks :: "pydict option \<Rightarrow> blueprint_subtask list res" where
  "parse_blueprint_subtasks blueprint_story = (case blueprint_story of
     None \<Rightarrow> Inr []
   | Some story \<Rightarrow> (case dget_or story ''subtasks'' PNone of
        PNone \<Rightarrow> Inr []
      | PList raws \<Rightarrow>
          rbind (parse_subtasks 1 [] raws) (\<lambda>subtasks.
          rbind (validate_subtask_graph subtasks) (\<lambda>_. Inr subtasks))
      | _ \<Rightarrow> value_error ''blueprint subtasks must be a list.''))"

subsection \<open>Ready tasks\<close>

text \<open>\<open>task_states.get(i, {}).get(field)\<close>\<close>

definition state_field :: "pydict \<Rightarrow> string \<Rightarrow> string \<Rightarrow> pyval res" where
  "state_field task_states i field = (case dget_or task_states i (PDict []) of
     PDict m \<Rightarrow> Inr (dget_or m field PNone)
   | v \<Rightarrow> Inl (Exn AttributeError (quoted (type_name v) @ '' object has no attribute '' @ quoted ''get'')))"

fun all_completed :: "pydict \<Rightarrow> string list \<Rightarrow> bool res" where
  "all_completed task_states [] = Inr True"
| "all_completed task_states (i # is) =
     rbind (state_field task_states i ''status'') (\<lambda>s.
     if s = PStr ''completed'' then all_completed task_states is else Inr False)"

fun ready_of :: "pydict \<Rightarrow> blueprint_subtask list \<Rightarrow> blueprint_subtask list res" where
  "ready_of task_states [] = Inr []"
| "ready_of task_states (task # tasks) =
     rbind (state_field task_states (bs_id task) ''status'') (\<lambda>s.
     if s = PStr ''completed'' then ready_of task_states tasks
     else
       rbind (all_completed task_states (bs_depends_on task)) (\<lambda>b.
       rbind (ready_of task_states tasks) (\<lambda>rest. Inr (if b then task # rest else rest))))"

definition ready_subtasks :: "blueprint_subtask list \<Rightarrow> pydict \<Rightarrow> blueprint_subtask list res" where
  "ready_subtasks subtasks task_states = rbind (topological_subtasks subtasks) (ready_of task_states)"

subsection \<open>What the order promises\<close>

text \<open>Of a task list: what a task depends on, and when the list can be executed.\<close>

definition subtask_deps :: "blueprint_subtask list \<Rightarrow> string \<Rightarrow> string list" where
  "subtask_deps ts i = (case find (\<lambda>t. bs_id t = i) ts of None \<Rightarrow> [] | Some t \<Rightarrow> bs_depends_on t)"

definition executable :: "blueprint_subtask list \<Rightarrow> bool" where
  "executable ts \<longleftrightarrow> distinct (map bs_id ts) \<and> (\<forall>t \<in> set ts. set (bs_depends_on t) \<subseteq> bs_id ` set ts)
     \<and> acyclic (depends (subtask_deps ts))"

lemma subtask_deps_of:
  assumes "distinct (map bs_id ts)" and "t \<in> set ts"
  shows "subtask_deps ts (bs_id t) = bs_depends_on t"
proof -
  obtain u where u: "find (\<lambda>u. bs_id u = bs_id t) ts = Some u"
    using assms(2) by (cases "find (\<lambda>u. bs_id u = bs_id t) ts") (auto simp: find_None_iff)
  then have "u \<in> set ts" "bs_id u = bs_id t" by (auto simp: find_Some_iff)
  with assms have "u = t" by (auto dest: inj_onD simp: distinct_map)
  with u show ?thesis by (simp add: subtask_deps_def)
qed

lemma subtask_deps_none: "i \<notin> bs_id ` set ts \<Longrightarrow> subtask_deps ts i = []"
  by (auto simp: subtask_deps_def find_Some_iff split: option.splits)

lemma subtask_dict_of:
  assumes "distinct (map bs_id ts)" and "t \<in> set ts"
  shows "map_of (subtask_dict ts) (bs_id t) = Some t"
proof -
  have "map_of (map (\<lambda>t. (bs_id t, t)) ts) (bs_id t) = Some t"
    using assms by (intro map_of_is_SomeI) (auto simp: comp_def)
  moreover have "distinct (map fst (map (\<lambda>t. (bs_id t, t)) ts))" using assms(1) by (simp add: comp_def)
  ultimately show ?thesis unfolding subtask_dict_def by (simp add: al_merge_lookup)
qed

text \<open>The loop: what is done is in order, what is left is the rest.\<close>

definition layers_inv :: "blueprint_subtask list \<Rightarrow> string list \<Rightarrow> string list \<Rightarrow> bool" where
  "layers_inv ts remaining completed \<longleftrightarrow> distinct completed \<and> set remaining \<inter> set completed = {}
     \<and> set remaining \<union> set completed = bs_id ` set ts \<and> deps_first (subtask_deps ts) [] completed"

lemma ready_layer_taken:
  assumes "distinct (map bs_id ts)"
  shows "take_layer (ready_layer ts remaining completed) remaining =
    Inr (map bs_id (ready_layer ts remaining completed),
      filter (\<lambda>i. i \<notin> bs_id ` set (ready_layer ts remaining completed)) remaining)"
  using assms unfolding take_layer_result by (auto simp: ready_layer_def distinct_map_filter)

lemma deps_first_layer:
  assumes "deps_first e [] xs" and "\<And>y. y \<in> set ys \<Longrightarrow> set (e y) \<subseteq> set xs"
  shows "deps_first e [] (xs @ ys)"
proof -
  have "deps_first e seen ys" if "set xs \<subseteq> set seen" and "\<And>y. y \<in> set ys \<Longrightarrow> set (e y) \<subseteq> set xs" for seen
    using that
  proof (induction ys arbitrary: seen)
    case (Cons y ys)
    have "deps_first e (y # seen) ys" by (rule Cons.IH) (use Cons.prems in auto)
    with Cons.prems show ?case by (simp add: subset_trans [of _ "set xs"])
  qed simp
  with assms show ?thesis by (simp add: deps_first_append)
qed

lemma layers_inv_step:
  assumes ids: "distinct (map bs_id ts)" and inv: "layers_inv ts remaining completed"
    and l: "l = ready_layer ts remaining completed"
  shows "layers_inv ts (filter (\<lambda>i. i \<notin> bs_id ` set l) remaining) (completed @ map bs_id l)"
proof -
  have sub: "bs_id ` set l \<subseteq> set remaining" "distinct (map bs_id l)"
    using ids by (auto simp: l ready_layer_def distinct_map_filter)
  have "deps_first (subtask_deps ts) [] (completed @ map bs_id l)"
    by (rule deps_first_layer) (use inv ids in \<open>auto simp: layers_inv_def l ready_layer_def subtask_deps_of\<close>)
  with inv sub show ?thesis unfolding layers_inv_def by auto
qed

text \<open>As long as tasks are left, the acyclic dependencies leave a task that is ready.\<close>

lemma acyclic_minimal:
  assumes "acyclic (depends e)" and "finite R" and "R \<noteq> {}"
  obtains x where "x \<in> R" and "set (e x) \<inter> R = {}"
proof -
  have "finite (depends e \<inter> R \<times> R)" using assms(2) by auto
  moreover have "acyclic (depends e \<inter> R \<times> R)" by (rule acyclic_subset [OF assms(1)]) blast
  ultimately have wf: "wf ((depends e \<inter> R \<times> R)\<inverse>)" using finite_acyclic_wf_converse by blast
  obtain r where "r \<in> R" using assms(3) by blast
  then have "\<exists>x\<in>R. \<forall>y. (y, x) \<in> (depends e \<inter> R \<times> R)\<inverse> \<longrightarrow> y \<notin> R"
    by (rule wf [unfolded wf_eq_minimal, rule_format])
  then obtain x where x: "x \<in> R" "\<forall>y. (y, x) \<in> (depends e \<inter> R \<times> R)\<inverse> \<longrightarrow> y \<notin> R" by blast
  have "set (e x) \<inter> R = {}" using x unfolding depends_def by blast
  with x(1) show thesis by (rule that)
qed

lemma ready_layer_exists:
  assumes ok: "executable ts" and inv: "layers_inv ts remaining completed" and "remaining \<noteq> []"
  shows "ready_layer ts remaining completed \<noteq> []"
proof -
  obtain i where i: "i \<in> set remaining" "set (subtask_deps ts i) \<inter> set remaining = {}"
    using acyclic_minimal [of "subtask_deps ts" "set remaining"] ok assms(3) by (auto simp: executable_def)
  have "i \<in> bs_id ` set ts" using inv i(1) by (auto simp: layers_inv_def)
  then obtain t where t: "t \<in> set ts" "bs_id t = i" by blast
  with ok have deps: "subtask_deps ts i = bs_depends_on t" using subtask_deps_of by (auto simp: executable_def)
  with ok t inv i(2) have "set (bs_depends_on t) \<subseteq> set completed"
    by (fastforce simp: executable_def layers_inv_def)
  with t i(1) show ?thesis by (auto simp: ready_layer_def filter_empty_conv)
qed

lemma order_layers_complete:
  assumes ok: "executable ts" and inv: "layers_inv ts remaining completed"
  shows "\<exists>ids. order_layers ts remaining completed = Inr ids \<and> layers_inv ts [] ids"
  using ok inv
proof (induction ts remaining completed rule: order_layers.induct)
  case (1 ts remaining completed)
  show ?case
  proof (cases "remaining = []")
    case False
    obtain t l where l: "ready_layer ts remaining completed = t # l"
      using ready_layer_exists [OF "1.prems" False] by (cases "ready_layer ts remaining completed") auto
    let ?ids = "map bs_id (t # l)" and ?left = "filter (\<lambda>i. i \<notin> bs_id ` set (t # l)) remaining"
    have take: "take_layer (t # l) remaining = Inr (?ids, ?left)"
      using ready_layer_taken [of ts remaining completed] "1.prems"(1) by (simp add: l executable_def del: take_layer.simps)
    have "layers_inv ts ?left (completed @ ?ids)"
      by (rule layers_inv_step [OF _ "1.prems"(2) l [symmetric]]) (use "1.prems" in \<open>simp add: executable_def\<close>)
    from "1.IH" [OF False l take refl "1.prems"(1) this] show ?thesis
      using l take by (simp add: order_layers_step [OF False] del: take_layer.simps)
  qed (use 1 in simp)
qed

lemma order_layers_sound:
  "order_layers ts remaining completed = Inr ids \<Longrightarrow> distinct (map bs_id ts) \<Longrightarrow> layers_inv ts remaining completed \<Longrightarrow>
   layers_inv ts [] ids"
proof (induction ts remaining completed rule: order_layers.induct)
  case (1 ts remaining completed)
  show ?case
  proof (cases "remaining = []")
    case False
    with "1.prems"(1) obtain t l ids' left where l: "ready_layer ts remaining completed = t # l"
      and take: "take_layer (t # l) remaining = Inr (ids', left)"
      and rest: "order_layers ts left (completed @ ids') = Inr ids"
      by (auto simp: order_layers_step [OF False] value_error_def simp del: take_layer.simps split: list.splits sum.splits)
    have "layers_inv ts left (completed @ ids')"
      using layers_inv_step [OF "1.prems"(2,3) l [symmetric]] take ready_layer_taken [OF "1.prems"(2), of remaining completed]
      by (simp add: l del: take_layer.simps)
    then show ?thesis by (rule "1.IH" [OF False l take refl rest "1.prems"(2)])
  qed (use 1 in simp)
qed

lemma layers_inv_start: "layers_inv ts (dedup (map bs_id ts)) []"
  by (simp add: layers_inv_def)

lemma layers_inv_executable:
  assumes ids: "distinct (map bs_id ts)" and inv: "layers_inv ts [] is"
  shows "executable ts"
  unfolding executable_def
proof (intro conjI ballI ids)
  fix t assume t: "t \<in> set ts"
  then have "bs_id t \<in> set is" using inv by (auto simp: layers_inv_def)
  then have "set (subtask_deps ts (bs_id t)) \<subseteq> set is"
    using inv deps_first_closed unfolding layers_inv_def by blast
  with inv t ids show "set (bs_depends_on t) \<subseteq> bs_id ` set ts" by (simp add: layers_inv_def subtask_deps_of)
next
  show "acyclic (depends (subtask_deps ts))"
    by (rule deps_first_acyclic [of _ "is"]) (use inv subtask_deps_none in \<open>auto simp: layers_inv_def\<close>)
qed

lemma execution_order:
  assumes "distinct (map bs_id ts)"
  shows "(is_ok (topological_subtasks ts) \<longleftrightarrow>
      (\<forall>t \<in> set ts. set (bs_depends_on t) \<subseteq> bs_id ` set ts) \<and> acyclic (depends (subtask_deps ts)))
    \<and> (\<forall>order. topological_subtasks ts = Inr order \<longrightarrow>
      set order = set ts \<and> distinct order \<and> deps_first (subtask_deps ts) [] (map bs_id order))"
proof -
  have run: "layers_inv ts [] is" if "order_layers ts (dedup (map bs_id ts)) [] = Inr is" for "is"
    by (rule order_layers_sound [OF that assms layers_inv_start])
  have listed: "set order = set ts \<and> distinct order \<and> map bs_id order = is"
    if "layers_inv ts [] is" and order: "order = map (\<lambda>i. the (map_of (subtask_dict ts) i)) is" for order "is"
  proof -
    let ?of = "\<lambda>i. the (map_of (subtask_dict ts) i)"
    from that have "is": "distinct is" "set is = bs_id ` set ts" by (auto simp: layers_inv_def)
    have of: "?of (bs_id t) = t" if "t \<in> set ts" for t using subtask_dict_of [OF assms that] by simp
    have "map bs_id order = is" unfolding order map_map by (rule map_idI) (use "is" of in auto)
    moreover from this have "distinct order" using "is"(1) distinct_map by metis
    moreover have "set order = set ts" using "is" of by (auto simp: order image_iff)
    ultimately show ?thesis by blast
  qed
  have "is_ok (topological_subtasks ts) \<longleftrightarrow> executable ts"
    using order_layers_complete [OF _ layers_inv_start, of ts] layers_inv_executable [OF assms] run
    by (auto simp: topological_subtasks_def is_ok_iff)
  moreover have "set order = set ts \<and> distinct order \<and> deps_first (subtask_deps ts) [] (map bs_id order)"
    if "topological_subtasks ts = Inr order" for order
  proof -
    from that obtain "is" where "order_layers ts (dedup (map bs_id ts)) [] = Inr is"
      and o: "order = map (\<lambda>i. the (map_of (subtask_dict ts) i)) is"
      by (auto simp: topological_subtasks_def)
    from run [OF this(1)] listed [OF run [OF this(1)] o] show ?thesis by (simp add: layers_inv_def)
  qed
  ultimately show ?thesis using assms by (auto simp: executable_def)
qed

text \<open>An error of the order is the report of a cycle.\<close>

lemma order_layers_error:
  "order_layers ts remaining completed = Inl e \<Longrightarrow> distinct (map bs_id ts) \<Longrightarrow>
   \<exists>left. e = Exn ValueError (''Sub-task dependency cycle detected: '' @ join '', '' left)"
proof (induction ts remaining completed rule: order_layers.induct)
  case (1 ts remaining completed)
  show ?case
  proof (cases "ready_layer ts remaining completed")
    case Nil
    with "1.prems"(1) show ?thesis
      by (cases "remaining = []") (auto simp: order_layers_step value_error_def)
  next
    case (Cons t l)
    let ?ids = "map bs_id (t # l)" and ?left = "filter (\<lambda>i. i \<notin> bs_id ` set (t # l)) remaining"
    have take: "take_layer (t # l) remaining = Inr (?ids, ?left)"
      using ready_layer_taken [OF "1.prems"(2), of remaining completed] by (simp add: Cons del: take_layer.simps)
    show ?thesis
    proof (cases "remaining = []")
      case False
      with "1.prems"(1) Cons take have "order_layers ts ?left (completed @ ?ids) = Inl e"
        by (simp add: order_layers_step del: take_layer.simps)
      from "1.IH" [OF False Cons take refl this "1.prems"(2)] show ?thesis .
    qed (use "1.prems" in simp)
  qed
qed

lemma missing_dependency_fails:
  assumes "distinct (map bs_id ts)" and "t \<in> set ts" and "d \<in> set (bs_depends_on t)" and "d \<notin> bs_id ` set ts"
  shows "\<exists>left. topological_subtasks ts = Inl (Exn ValueError (''Sub-task dependency cycle detected: '' @ join '', '' left))"
proof -
  have "\<not> is_ok (topological_subtasks ts)" using execution_order [OF assms(1)] assms(2-4) by blast
  then obtain e where "topological_subtasks ts = Inl e" by (auto simp: not_is_ok_iff)
  moreover from this have "order_layers ts (dedup (map bs_id ts)) [] = Inl e"
    by (auto simp: topological_subtasks_def rbind_Inl_iff)
  ultimately show ?thesis using order_layers_error [OF _ assms(1)] by blast
qed

text \<open>
  C26: the sub-tasks of a story, of distinct identifiers, have an order of execution exactly when
  every task they depend on is among them and no dependency is circular; the order then lists
  every task once, each after the tasks it depends on.
\<close>

theorem execution_order_iff:
  assumes "distinct (map bs_id ts)"
  shows "(is_ok (topological_subtasks ts) \<longleftrightarrow>
      (\<forall>t \<in> set ts. set (bs_depends_on t) \<subseteq> bs_id ` set ts) \<and> acyclic (depends (subtask_deps ts)))
    \<and> (\<forall>order. topological_subtasks ts = Inr order \<longrightarrow>
      set order = set ts \<and> distinct order \<and> deps_first (subtask_deps ts) [] (map bs_id order))"
  using assms by (rule execution_order)

subsection \<open>What the parser promises\<close>

text \<open>A text the parser returns, and a sub-task of the right form.\<close>

definition clean_text :: "string \<Rightarrow> bool" where
  "clean_text s \<longleftrightarrow> s \<noteq> [] \<and> strip s = s"

definition well_formed_subtask :: "blueprint_subtask \<Rightarrow> bool" where
  "well_formed_subtask t \<longleftrightarrow>
     clean_text (bs_id t) \<and> clean_text (bs_title t) \<and> bs_role t \<in> set VALID_ROLES - {''docs''}
     \<and> bs_id t \<notin> set (bs_depends_on t)
     \<and> (\<forall>s \<in> set (bs_depends_on t @ bs_requirement_ids t @ bs_writable_paths t @ bs_expected_outputs t
          @ bs_validation t @ rq_files (bs_required_context t) @ rq_summaries (bs_required_context t)
          @ rq_prior_task_outputs (bs_required_context t) @ rq_architecture_decisions (bs_required_context t)).
          clean_text s)
     \<and> 0 < usable_input_tokens (bs_context_budget t) \<and> 0 \<le> cb_reserved_output_tokens (bs_context_budget t)
     \<and> cb_required_context_must_fit (bs_context_budget t)
     \<and> \<not> cb_allow_required_context_trimming (bs_context_budget t)
     \<and> cb_oversized_task_policy (bs_context_budget t) = VALID_OVERSIZED_TASK_POLICY"

lemma required_string_clean: "required_string m k l = Inr s \<Longrightarrow> clean_text s"
  by (auto simp: required_string_def clean_text_def strip_strip split: option.splits pyval.splits if_splits)

lemma text_items_clean: "text_items xs = Some ys \<Longrightarrow> s \<in> set ys \<Longrightarrow> clean_text s"
  by (induction xs arbitrary: ys rule: text_items.induct)
    (auto simp: clean_text_def strip_strip split: if_splits option.splits)

lemma string_list_clean: "string_list v l = Inr ys \<Longrightarrow> s \<in> set ys \<Longrightarrow> clean_text s"
  by (auto simp: string_list_def split: pyval.splits option.splits dest: text_items_clean)

lemma string_list_at_clean: "string_list_at m k l = Inr ys \<Longrightarrow> s \<in> set ys \<Longrightarrow> clean_text s"
  by (simp add: string_list_at_def string_list_clean)

lemma parsed_context:
  "parse_required_context v l = Inr r \<Longrightarrow> s \<in> set (rq_files r @ rq_summaries r @ rq_prior_task_outputs r
     @ rq_architecture_decisions r) \<Longrightarrow> clean_text s"
  by (auto simp: parse_required_context_def split: pyval.splits dest: string_list_at_clean)

lemma parsed_budget:
  assumes "parse_context_budget v l = Inr b"
  shows "0 < usable_input_tokens b" "0 \<le> cb_reserved_output_tokens b" "cb_required_context_must_fit b"
    "\<not> cb_allow_required_context_trimming b" "cb_oversized_task_policy b = VALID_OVERSIZED_TASK_POLICY"
  using assms by (auto simp: parse_context_budget_def validate_subtask_budget_def nonnegative_int_def Let_def
      split: pyval.splits if_splits)

lemma valid_role: "r \<in> set VALID_ROLES \<Longrightarrow> (if r = ''docs'' then ''documentation'' else r) \<in> set VALID_ROLES - {''docs''}"
  by (auto simp: VALID_ROLES_def)

lemma parsed_subtask:
  assumes "parse_subtask n seen v = Inr t"
  shows "well_formed_subtask t \<and> bs_id t \<notin> set seen"
proof -
  from assms obtain m role title i deps reqs ctx paths outs vals budget l where
      i: "required_string m ''id'' l = Inr i" "i \<notin> set seen" and title: "required_string m ''title'' l = Inr title"
    and role: "role \<in> set VALID_ROLES" and deps: "string_list_at m ''depends_on'' l = Inr deps" "i \<notin> set deps"
    and reqs: "string_list_at m ''requirement_ids'' l = Inr reqs"
    and ctx: "parse_required_context (dget_or m ''required_context'' PNone) (l @ ''.required_context'') = Inr ctx"
    and paths: "string_list_at m ''writable_paths'' l = Inr paths"
    and outs: "string_list_at m ''expected_outputs'' l = Inr outs"
    and vals: "string_list_at m ''validation'' l = Inr vals"
    and budget: "parse_context_budget (dget_or m ''context_budget'' PNone) (l @ ''.context_budget'') = Inr budget"
    and t: "t = \<lparr>bs_id = i, bs_title = title, bs_role = (if role = ''docs'' then ''documentation'' else role),
      bs_depends_on = deps, bs_requirement_ids = reqs, bs_required_context = ctx, bs_writable_paths = paths,
      bs_expected_outputs = outs, bs_validation = vals, bs_context_budget = budget\<rparr>"
    by (auto simp: parse_subtask_def Let_def split: pyval.splits if_split_asm)
  have clean: "clean_text s" if "s \<in> set (deps @ reqs @ paths @ outs @ vals @ rq_files ctx @ rq_summaries ctx
      @ rq_prior_task_outputs ctx @ rq_architecture_decisions ctx)" for s
    using that string_list_at_clean [OF deps(1)] string_list_at_clean [OF reqs] string_list_at_clean [OF paths]
      string_list_at_clean [OF outs] string_list_at_clean [OF vals] parsed_context [OF ctx]
    by auto
  show ?thesis
    unfolding well_formed_subtask_def t blueprint_subtask.simps
    using clean required_string_clean [OF i(1)] required_string_clean [OF title] valid_role [OF role] deps(2) i(2)
      parsed_budget [OF budget]
    by simp
qed

lemma parsed_subtasks:
  "parse_subtasks n seen vs = Inr ts \<Longrightarrow>
   distinct (map bs_id ts) \<and> set seen \<inter> bs_id ` set ts = {} \<and> (\<forall>t \<in> set ts. well_formed_subtask t)"
  by (induction n seen vs arbitrary: ts rule: parse_subtasks.induct) (fastforce dest: parsed_subtask)+

text \<open>
  C27: the sub-tasks that \<open>parse_blueprint_subtasks\<close> returns are well formed: identifiers are
  distinct, every text is non-empty and stripped, roles are known, the budget leaves tokens for
  the input and forbids trimming; and their dependencies have an order of execution.
\<close>

theorem parsed_subtasks_well_formed:
  assumes "parse_blueprint_subtasks story = Inr ts"
  shows "executable ts \<and> (\<forall>t \<in> set ts. well_formed_subtask t)"
proof -
  have "distinct (map bs_id ts) \<and> (\<forall>t \<in> set ts. well_formed_subtask t) \<and> is_ok (topological_subtasks ts)"
    using assms
    by (auto dest!: parsed_subtasks simp: parse_blueprint_subtasks_def validate_subtask_graph_def is_ok_iff
        split: option.splits pyval.splits)
  with execution_order [of ts] show ?thesis by (simp add: executable_def)
qed

subsection \<open>Some task is ready\<close>

definition is_completed :: "pydict \<Rightarrow> string \<Rightarrow> bool" where
  "is_completed states i \<longleftrightarrow> state_field states i ''status'' = Inr (PStr ''completed'')"

definition state_mappings :: "pydict \<Rightarrow> bool" where
  "state_mappings states \<longleftrightarrow> (\<forall>v \<in> snd ` set states. is_dict v)"

lemma state_field_ok: "state_mappings states \<Longrightarrow> \<exists>v. state_field states i f = Inr v"
  by (auto simp: state_field_def state_mappings_def dget_or_def dest!: map_of_SomeD split: option.splits pyval.splits)

lemma all_completed_ok:
  assumes "state_mappings states"
  shows "all_completed states is = Inr (\<forall>i \<in> set is. is_completed states i)"
proof (induction "is")
  case (Cons i "is")
  obtain v where "state_field states i ''status'' = Inr v" using state_field_ok [OF assms] by blast
  then show ?case by (auto simp: Cons.IH is_completed_def)
qed simp

lemma ready_of_ok:
  assumes "state_mappings states"
  shows "ready_of states ts =
    Inr (filter (\<lambda>t. \<not> is_completed states (bs_id t) \<and> (\<forall>d \<in> set (bs_depends_on t). is_completed states d)) ts)"
proof (induction ts)
  case (Cons t ts)
  obtain v where "state_field states (bs_id t) ''status'' = Inr v" using state_field_ok [OF assms] by blast
  then show ?case by (auto simp: Cons.IH is_completed_def all_completed_ok [OF assms])
qed simp

text \<open>
  C28: exactly the tasks that are not completed while the tasks they depend on are, are ready;
  and as long as a task of the story is left, some task is ready.
\<close>

theorem some_subtask_ready:
  assumes ok: "executable ts" and states: "state_mappings states"
  shows "\<exists>ready. ready_subtasks ts states = Inr ready
    \<and> set ready = {t \<in> set ts. \<not> is_completed states (bs_id t)
        \<and> (\<forall>d \<in> set (bs_depends_on t). is_completed states d)}
    \<and> (ready = [] \<longleftrightarrow> (\<forall>t \<in> set ts. is_completed states (bs_id t)))"
proof -
  from ok execution_order [of ts] obtain order where order: "topological_subtasks ts = Inr order"
    "set order = set ts" by (auto simp: executable_def is_ok_iff)
  let ?R = "{t \<in> set ts. \<not> is_completed states (bs_id t) \<and> (\<forall>d \<in> set (bs_depends_on t). is_completed states d)}"
  have "?R \<noteq> {}" if t: "t \<in> set ts" "\<not> is_completed states (bs_id t)" for t
  proof -
    let ?left = "{i \<in> bs_id ` set ts. \<not> is_completed states i}"
    have "finite ?left" "?left \<noteq> {}" using t by auto
    then obtain i where i: "i \<in> ?left" "set (subtask_deps ts i) \<inter> ?left = {}"
      using acyclic_minimal [of "subtask_deps ts" ?left] ok by (auto simp: executable_def)
    then obtain u where u: "u \<in> set ts" "bs_id u = i" by blast
    with ok have "subtask_deps ts i = bs_depends_on u" "set (bs_depends_on u) \<subseteq> bs_id ` set ts"
      using subtask_deps_of by (auto simp: executable_def)
    with i u have "u \<in> ?R" by auto
    then show ?thesis by blast
  qed
  then have left: "?R = {} \<longleftrightarrow> (\<forall>t \<in> set ts. is_completed states (bs_id t))" by blast
  define ready where "ready = filter (\<lambda>t. \<not> is_completed states (bs_id t)
    \<and> (\<forall>d \<in> set (bs_depends_on t). is_completed states d)) order"
  have "ready_subtasks ts states = Inr ready" "set ready = ?R"
    using order ready_of_ok [OF states, of order] by (auto simp: ready_subtasks_def ready_def)
  with left show ?thesis by (metis set_empty2)
qed

subsection \<open>Two tasks\<close>

text \<open>A test task that depends on a task listed after it, and the story they are parsed from.\<close>

definition sample_budget :: context_budget where
  "sample_budget = \<lparr>cb_max_input_tokens = 500, cb_reserved_output_tokens = 100, cb_required_context_must_fit = True,
     cb_allow_required_context_trimming = False, cb_oversized_task_policy = VALID_OVERSIZED_TASK_POLICY\<rparr>"

definition sample_subtask :: "string \<Rightarrow> string \<Rightarrow> string list \<Rightarrow> blueprint_subtask" where
  "sample_subtask i role deps =
     \<lparr>bs_id = i, bs_title = ''T'', bs_role = role, bs_depends_on = deps, bs_requirement_ids = [],
      bs_required_context = \<lparr>rq_files = [], rq_summaries = [], rq_prior_task_outputs = [],
        rq_architecture_decisions = []\<rparr>,
      bs_writable_paths = [''src''], bs_expected_outputs = [], bs_validation = [],
      bs_context_budget = sample_budget\<rparr>"

definition sample_tasks :: "blueprint_subtask list" where
  "sample_tasks = [sample_subtask ''b'' ''test'' [''a''], sample_subtask ''a'' ''documentation'' []]"

definition sample_raw_task :: "string \<Rightarrow> string \<Rightarrow> string list \<Rightarrow> pyval" where
  "sample_raw_task i role deps = PDict
     [(''id'', PStr i), (''title'', PStr '' T ''), (''role'', PStr role), (''depends_on'', pstrs deps),
      (''required_context'', PDict []), (''writable_paths'', pstrs [''src'']),
      (''context_budget'', PDict
        [(''max_input_tokens'', PInt 500), (''reserved_output_tokens'', PInt 100),
         (''required_context_must_fit'', PBool True), (''allow_required_context_trimming'', PBool False),
         (''oversized_task_policy'', PStr VALID_OVERSIZED_TASK_POLICY)])]"

definition sample_story :: pydict where
  "sample_story = [(''subtasks'', PList [sample_raw_task ''b'' ''test'' [''a''], sample_raw_task ''a'' ''docs'' []])]"

lemma sample_distinct: "distinct (map bs_id sample_tasks)"
  by code_simp

lemma sample_order: "topological_subtasks sample_tasks = Inr (rev sample_tasks)"
  by code_simp

lemma sample_parsed: "parse_blueprint_subtasks (Some sample_story) = Inr sample_tasks"
  by code_simp

theorem execution_order_iff_witness:
  "distinct (map bs_id sample_tasks) \<and> topological_subtasks sample_tasks = Inr (rev sample_tasks)
    \<and> acyclic (depends (subtask_deps sample_tasks))
    \<and> deps_first (subtask_deps sample_tasks) [] (map bs_id (rev sample_tasks))"
  using execution_order_iff [OF sample_distinct] sample_order sample_distinct by (simp add: is_ok_iff)

theorem parsed_subtasks_well_formed_witness:
  "parse_blueprint_subtasks (Some sample_story) = Inr sample_tasks \<and> executable sample_tasks
    \<and> well_formed_subtask (hd sample_tasks)"
  using parsed_subtasks_well_formed [OF sample_parsed] sample_parsed by (simp add: sample_tasks_def)

lemma sample_executable: "executable sample_tasks"
proof -
  have "\<forall>t \<in> set sample_tasks. set (bs_depends_on t) \<subseteq> bs_id ` set sample_tasks" by code_simp
  moreover have "acyclic (depends (subtask_deps sample_tasks))"
  proof -
    have "(j, i) \<in> measure (\<lambda>k. if k = ''b'' then 1 else 0)" if "(j, i) \<in> (depends (subtask_deps sample_tasks))\<inverse>" for i j
      using that by (auto simp: depends_def subtask_deps_def sample_tasks_def sample_subtask_def split: if_splits)
    then have "wf ((depends (subtask_deps sample_tasks))\<inverse>)" by (meson subrelI wf_measure wf_subset)
    then show ?thesis using wf_acyclic by fastforce
  qed
  ultimately show ?thesis using sample_distinct by (simp add: executable_def)
qed

theorem some_subtask_ready_witness:
  "executable sample_tasks \<and> state_mappings []
    \<and> (\<exists>ready. ready_subtasks sample_tasks [] = Inr ready \<and> ready \<noteq> [])"
proof -
  have states: "state_mappings []" by (simp add: state_mappings_def)
  have open_task: "\<exists>t \<in> set sample_tasks. \<not> is_completed [] (bs_id t)" by code_simp
  from some_subtask_ready [OF sample_executable states] open_task show ?thesis
    using sample_executable states by blast
qed

end
