(* ===== verification/SubtaskContext.thy ===== *)
theory SubtaskContext
  imports SubtaskGraph AppPublication
begin

text \<open>
  \<open>subtask_execution.py\<close>, second part: the prompt of a sub-task, put together from its sections,
  with \<open>glob.glob\<close>, and the estimate of its size.
\<close>

subsection \<open>Lines\<close>

text \<open>The boundaries of \<open>str.splitlines\<close> among the code points of the model.\<close>

definition line_break :: "char \<Rightarrow> bool" where
  "line_break c \<longleftrightarrow> of_char c \<in> {10, 11, 12, 13, 28, 29, 30, 133 :: nat}"

fun split_lines :: "string \<Rightarrow> string \<Rightarrow> string list" where
  "split_lines line [] = (if line = [] then [] else [rev line])"
| "split_lines line [c] = (if line_break c then [rev line] else [rev (c # line)])"
| "split_lines line (c # d # s) =
     (if c = CHR 0x0D \<and> d = CHR 0x0A then rev line # split_lines [] s
      else if line_break c then rev line # split_lines [] (d # s)
      else split_lines (c # line) (d # s))"

definition splitlines :: "string \<Rightarrow> string list" where
  "splitlines s = split_lines [] s"

text \<open>\<open>len(s.encode("utf-8"))\<close>\<close>

definition utf8_length :: "string \<Rightarrow> nat" where
  "utf8_length s = sum_list (map (\<lambda>c. if of_char c < (128 :: nat) then 1 else 2) s)"

definition estimate_input_tokens :: "string \<Rightarrow> nat" where
  "estimate_input_tokens prompt = (utf8_length prompt + 3) div 4 + length (splitlines prompt)"

subsection \<open>Files of a pattern\<close>

text \<open>
  \<open>glob.glob(pattern, recursive=True)\<close> for an absolute pattern, given as its parts: names that
  start with a dot match only a pattern that does, and \<open>**\<close> alone stands for any number of
  directories, none of which starts with a dot.
\<close>

definition has_magic :: "string \<Rightarrow> bool" where
  "has_magic s \<longleftrightarrow> list_ex (\<lambda>c. c \<in> {CHR ''*'', CHR ''?'', CHR ''[''}) s"

definition is_hidden :: "string \<Rightarrow> bool" where
  "is_hidden s \<longleftrightarrow> starts_with ''.'' s"

definition list_names :: "disk \<Rightarrow> bool \<Rightarrow> path \<Rightarrow> string list" where
  "list_names d dironly p = (if dironly then child_dirs d p else child_files d p @ child_dirs d p)"

text \<open>All paths below a directory, relative to it, through names without a leading dot.\<close>

definition below_visible :: "disk \<Rightarrow> bool \<Rightarrow> path \<Rightarrow> path list" where
  "below_visible d dironly p =
     filter (\<lambda>r. \<not> list_ex is_hidden r \<and> (dironly \<longrightarrow> fs_is_dir d (p @ r)))
       (dedup (concat (map (\<lambda>q. case below p q of None \<Rightarrow> [] | Some r \<Rightarrow> map (\<lambda>n. take n r) [1..<length r + 1])
          (map fst (fs_files d) @ fs_dirs d))))"

definition glob_in_dir :: "disk \<Rightarrow> bool \<Rightarrow> path \<Rightarrow> string \<Rightarrow> path list" where
  "glob_in_dir d dironly p base =
     (if base = ''**'' then [] # below_visible d dironly p
      else if has_magic base then
        map (\<lambda>n. [n]) (filter (\<lambda>n. (is_hidden base \<or> \<not> is_hidden n) \<and> fnmatchcase n base) (list_names d dironly p))
      else if fs_exists d (p @ [base]) then [[base]] else [])"

fun glob_parts :: "disk \<Rightarrow> bool \<Rightarrow> string list \<Rightarrow> path list" where
  "glob_parts d dironly [] = [[]]"
| "glob_parts d dironly (base # rdir) =
     (if \<not> list_ex has_magic (base # rdir)
      then (if fs_exists d (rev (base # rdir)) then [rev (base # rdir)] else [])
      else concat (map (\<lambda>p. map (\<lambda>r. p @ r) (glob_in_dir d dironly p base))
        (if list_ex has_magic rdir then glob_parts d True rdir else [rev rdir])))"

definition glob :: "disk \<Rightarrow> path \<Rightarrow> path list" where
  "glob d pattern = glob_parts d False (rev pattern)"

definition resolve_required_files :: "codecs \<Rightarrow> path \<Rightarrow> disk \<Rightarrow> string \<Rightarrow> pydict list res" where
  "resolve_required_files c project d file_pattern =
     (let normalized = replace_char (CHR 0x5C) (CHR ''/'') file_pattern in
      if is_absolute normalized \<or> ''..'' \<in> set (posix_parts normalized)
      then value_error (''Required context path must stay inside the project: '' @ file_pattern)
      else
        let paths = sort (glob d (join_path project normalized)) in
        if \<not> list_ex (\<lambda>ch. ch \<in> set file_pattern) [CHR ''*'', CHR ''?'', CHR ''['', CHR '']''] \<and> paths = []
        then not_found (''Required context file does not exist: '' @ file_pattern)
        else
          rmap_list (\<lambda>p. case below project p of
              None \<Rightarrow> value_error (quoted (path_text p) @ '' is not in the subpath of '' @ quoted (path_text project))
            | Some r \<Rightarrow> Inr [(''path'', PStr (if r = [] then ''.'' else join ''/'' r)),
                (''content'', PStr (case fs_file d p of Some content \<Rightarrow> content_bytes c content | None \<Rightarrow> []))])
            (filter (\<lambda>p. fs_file d p \<noteq> None) paths))"

subsection \<open>The sections\<close>

record context_section =
  cs_name :: string
  cs_provenance :: string
  cs_content :: string
  cs_mandatory :: bool

record assembled_context =
  as_task :: blueprint_subtask
  as_sections :: "context_section list"
  as_prompt :: string
  as_estimated_input_tokens :: nat
  as_usable_input_tokens :: int

definition fits :: "assembled_context \<Rightarrow> bool" where
  "fits a \<longleftrightarrow> int (as_estimated_input_tokens a) \<le> as_usable_input_tokens a"

definition MANDATORY_CONTEXT_SECTIONS :: "string list" where
  "MANDATORY_CONTEXT_SECTIONS =
     [''system_and_safety_instructions'', ''role_instructions'', ''story_goal'', ''applicable_requirements'',
      ''required_context'', ''writable_path_rules'', ''expected_output_contract'', ''validation_instructions'',
      ''response_contract'']"

definition role_filenames :: "(string \<times> string) list" where
  "role_filenames =
     [(''research'', ''research_agent.md''), (''planner'', ''planner_agent.md''),
      (''developer'', ''developer_agent.md''), (''test'', ''test_agent.md''),
      (''documentation'', ''docs_agent.md''), (''security_quality'', ''security_quality_agent.md''),
      (''local_reviewer'', ''local_reviewer_agent.md'')]"

definition role_instruction :: "codecs \<Rightarrow> disk \<Rightarrow> path \<Rightarrow> string \<Rightarrow> string res" where
  "role_instruction c d story_path role = (case map_of role_filenames role of
     None \<Rightarrow> Inr (''Role: '' @ role)
   | Some filename \<Rightarrow>
       let p = story_path @ [''instructions'', filename] in
       if \<not> fs_exists d p then Inr (''Instruction file not found for role: '' @ role)
       else case fs_file d p of
         Some content \<Rightarrow> Inr (strip (content_bytes c content))
       | None \<Rightarrow> Inl (Exn OutsideModel ''IsADirectoryError''))"

definition requirement_text :: "codecs \<Rightarrow> pydict \<Rightarrow> string list \<Rightarrow> string" where
  "requirement_text c blueprint_story requirement_ids =
     (case dget_or blueprint_story ''acceptance_criteria'' PNone of
        PList criteria \<Rightarrow>
          strip (yaml_dump c False (pstrs (filter
            (\<lambda>text. requirement_ids = [] \<or> list_ex (\<lambda>i. starts_with (i @ '':'') text) requirement_ids)
            (map py_str criteria))))
      | _ \<Rightarrow> ''[]'')"

definition prior_output :: "pydict \<Rightarrow> string \<Rightarrow> pyval res" where
  "prior_output tasks_state task_id = (case dget_or tasks_state task_id (PDict []) of
     PDict m \<Rightarrow> Inr (PDict
       [(''task_id'', PStr task_id), (''status'', dget_or m ''status'' (PStr ''unavailable'')),
        (''handoff_summary'', dget_or m ''handoff_summary'' (PDict [])), (''outputs'', dget_or m ''outputs'' (PList []))])
   | v \<Rightarrow> Inl (Exn AttributeError (quoted (type_name v) @ '' object has no attribute '' @ quoted ''get'')))"

definition required_context_text ::
    "codecs \<Rightarrow> path \<Rightarrow> disk \<Rightarrow> blueprint_subtask \<Rightarrow> pydict \<Rightarrow> string res" where
  "required_context_text c project d task state =
     (let required = bs_required_context task;
          tasks_state = (case dget_or state ''tasks'' PNone of PDict m \<Rightarrow> m | _ \<Rightarrow> []) in
      rbind (rmap_list (resolve_required_files c project d) (rq_files required)) (\<lambda>matches.
      rbind (rmap_list (prior_output tasks_state) (rq_prior_task_outputs required)) (\<lambda>outputs.
      Inr (strip (yaml_dump c False (PDict
        [(''summaries'', pstrs (rq_summaries required)),
         (''architecture_decisions'', pstrs (rq_architecture_decisions required)),
         (''files'', PList (map PDict (concat matches))), (''prior_task_outputs'', PList outputs)]))))))"

definition response_contract_text :: "blueprint_subtask \<Rightarrow> string" where
  "response_contract_text task = join newline
     [''Return YAML only. Do not include prose before or after the YAML document.'',
      ''You may return raw YAML or a single outer '' @ fence @ ''yaml fenced YAML document.'',
      ''The YAML must have exactly this shape:'', [], ''report: |'', ''  concise markdown summary for this task only'',
      ''files:'', ''  - path: relative/path/inside/allowed/writable/paths'', ''    content: |'',
      ''      full file content'', ''handoff_summary:'', ''  decisions:'', ''    - concise downstream decision'',
      ''  files_changed:'', ''    - relative/path/inside/allowed/writable/paths'', ''  outputs_produced:'',
      ''    - relative/path/inside/allowed/writable/paths'', ''  tests_run:'',
      ''    - optional validation command or evidence'', ''  unresolved_risks:'', ''    - optional remaining risk'',
      ''  available_to_dependents: true'', [], ''Rules:'', ''- Return files for this task only.'',
      ''- Use sandbox-relative POSIX paths only.'', ''- Do not use absolute paths.'',
      ''- Do not use parent-directory traversal such as ..'',
      ''- Every file entry must contain the complete final file contents.'',
      ''- Every file path must stay within the allowed writable paths for this task.'',
      ''- If no file should be written for this task, return files: [].'',
      ''- Keep the report focused on work completed for this task only.'',
      ''- The handoff_summary must be a YAML mapping with all listed fields.'',
      ''- Expected outputs for this task: '' @ (if bs_expected_outputs task \<noteq> []
         then join '', '' (bs_expected_outputs task) else ''none declared'') @ ''.'', []]"

definition format_subtask_prompt :: "string \<Rightarrow> blueprint_subtask \<Rightarrow> context_section list \<Rightarrow> string" where
  "format_subtask_prompt story_name task sections = join newline
     ([''# Context-Safe Local Sub-Task'', [], ''story: '' @ story_name, ''task_id: '' @ bs_id task,
       ''title: '' @ bs_title task, ''role: '' @ bs_role task, []]
      @ concat (map (\<lambda>s. [''## '' @ cs_name s, [], ''provenance: '' @ cs_provenance s, [], cs_content s, []]) sections))"

definition missing_mandatory_sections :: "string \<Rightarrow> string list" where
  "missing_mandatory_sections prompt = filter (\<lambda>s. \<not> contains (''## '' @ s) prompt) MANDATORY_CONTEXT_SECTIONS"

definition context_sections ::
    "codecs \<Rightarrow> path \<Rightarrow> path \<Rightarrow> disk \<Rightarrow> pydict \<Rightarrow> blueprint_subtask \<Rightarrow> pydict \<Rightarrow> context_section list res" where
  "context_sections c project story_path d blueprint_story task state =
     rbind (role_instruction c d story_path (bs_role task)) (\<lambda>instruction.
     rbind (required_context_text c project d task state) (\<lambda>required.
     let goal = strip (py_str (dget_or blueprint_story ''goal'' (PStr [])));
         section = (\<lambda>n p t. \<lparr>cs_name = n, cs_provenance = p, cs_content = t, cs_mandatory = True\<rparr>);
         dump = (\<lambda>xs. strip (yaml_dump c False (pstrs xs))) in
     Inr [section ''system_and_safety_instructions'' ''local execution policy'' (join newline
            [''Provider: local model only.'',
             ''Do not call cloud models, Codex, GitHub APIs, deployment tools, or shells.'',
             ''Do not redecompose cloud-authored tasks locally.'',
             ''Do not silently trim required instructions or required context.'']),
          section ''role_instructions'' (''role='' @ bs_role task) instruction,
          section ''story_goal'' ''blueprint story goal'' (if goal \<noteq> [] then goal else ''Not specified.''),
          section ''applicable_requirements'' ''blueprint acceptance criteria''
            (requirement_text c blueprint_story (bs_requirement_ids task)),
          section ''required_context'' ''blueprint required_context manifest'' required,
          section ''writable_path_rules'' ''blueprint writable_paths'' (dump (bs_writable_paths task)),
          section ''expected_output_contract'' ''blueprint expected_outputs'' (dump (bs_expected_outputs task)),
          section ''validation_instructions'' ''blueprint validation'' (dump (bs_validation task)),
          section ''response_contract'' ''shared local sub-task execution contract'' (response_contract_text task)]))"

definition assemble_subtask_context ::
    "codecs \<Rightarrow> path \<Rightarrow> path \<Rightarrow> disk \<Rightarrow> string \<Rightarrow> pydict \<Rightarrow> blueprint_subtask \<Rightarrow> pydict \<Rightarrow> assembled_context res" where
  "assemble_subtask_context c project story_path d story_name blueprint_story task state =
     rbind (context_sections c project story_path d blueprint_story task state) (\<lambda>sections.
     let prompt = format_subtask_prompt story_name task sections; missing = missing_mandatory_sections prompt in
     if missing \<noteq> [] then value_error (''Mandatory context sections missing: '' @ join '', '' missing)
     else Inr \<lparr>as_task = task, as_sections = sections, as_prompt = prompt,
       as_estimated_input_tokens = estimate_input_tokens prompt,
       as_usable_input_tokens = usable_input_tokens (bs_context_budget task)\<rparr>)"

subsection \<open>What the prompt holds\<close>

lemma contains_append: "contains p s \<Longrightarrow> contains p (s @ t)" "contains p t \<Longrightarrow> contains p (s @ t)"
  unfolding contains_iff by (metis append.assoc)+

lemma contains_join: "x \<in> set xs \<Longrightarrow> contains p x \<Longrightarrow> contains p (join sep xs)"
  by (induction sep xs rule: join.induct) (auto intro: contains_append)

lemma contains_self: "contains p p"
  unfolding contains_iff by (metis append_Nil append_Nil2)

lemma section_names:
  "context_sections c project story_path d blueprint_story task state = Inr sections \<Longrightarrow>
   map cs_name sections = MANDATORY_CONTEXT_SECTIONS"
  unfolding context_sections_def Let_def MANDATORY_CONTEXT_SECTIONS_def rbind_Inr_iff sum.inject
  by (elim exE conjE) (erule subst, simp only: list.map context_section.select_convs)

text \<open>
  C29: a prompt that is assembled holds every mandatory section, so that the check for missing
  sections never fails, and a prompt that fits has at most four bytes for each token of the
  input budget, its lines counted extra.
\<close>

theorem assembled_prompt_complete:
  assumes "context_sections c project story_path d blueprint_story task state = Inr sections"
  shows "\<exists>a. assemble_subtask_context c project story_path d story_name blueprint_story task state = Inr a
    \<and> (\<forall>s \<in> set MANDATORY_CONTEXT_SECTIONS. contains (''## '' @ s) (as_prompt a))
    \<and> (fits a \<longrightarrow> utf8_length (as_prompt a) + 4 * length (splitlines (as_prompt a))
        \<le> 4 * nat (usable_input_tokens (bs_context_budget task)))"
proof -
  let ?prompt = "format_subtask_prompt story_name task sections"
  have there: "contains (''## '' @ n) ?prompt" if "n \<in> set MANDATORY_CONTEXT_SECTIONS" for n
  proof -
    from that section_names [OF assms] obtain s where s: "s \<in> set sections" "cs_name s = n"
      by (metis (no_types, lifting) image_iff list.set_map)
    have "''## '' @ n \<in> set (concat (map (\<lambda>s. [''## '' @ cs_name s, [], ''provenance: '' @ cs_provenance s, [],
        cs_content s, []]) sections))"
      using s by auto
    then show ?thesis
      unfolding format_subtask_prompt_def by (intro contains_join [OF _ contains_self]) simp
  qed
  then have "missing_mandatory_sections ?prompt = []" by (simp add: missing_mandatory_sections_def filter_empty_conv)
  with assms there show ?thesis
    by (auto simp: assemble_subtask_context_def Let_def fits_def estimate_input_tokens_def)
qed


subsection \<open>A prompt\<close>

definition empty_disk :: disk where
  "empty_disk = \<lparr>fs_files = [], fs_dirs = []\<rparr>"

lemma sample_sections:
  "is_ok (context_sections sample_codecs [''p''] [''s''] empty_disk [] (sample_subtask ''a'' ''test'' []) [])"
proof -
  have "is_ok (role_instruction sample_codecs empty_disk [''s''] ''test'')" by code_simp
  moreover have "is_ok (required_context_text sample_codecs [''p''] empty_disk (sample_subtask ''a'' ''test'' []) [])"
    by (simp add: required_context_text_def sample_subtask_def Let_def)
  moreover have "bs_role (sample_subtask ''a'' ''test'' []) = ''test''" by (simp add: sample_subtask_def)
  ultimately show ?thesis unfolding context_sections_def is_ok_iff Let_def by auto
qed

theorem assembled_prompt_complete_witness:
  "\<exists>sections a. context_sections sample_codecs [''p''] [''s''] empty_disk [] (sample_subtask ''a'' ''test'' []) [] = Inr sections
    \<and> assemble_subtask_context sample_codecs [''p''] [''s''] empty_disk ''story'' [] (sample_subtask ''a'' ''test'' []) [] = Inr a
    \<and> contains ''## role_instructions'' (as_prompt a)"
proof -
  obtain sections where ok:
    "context_sections sample_codecs [''p''] [''s''] empty_disk [] (sample_subtask ''a'' ''test'' []) [] = Inr sections"
    using sample_sections unfolding is_ok_iff ..
  from assembled_prompt_complete [OF ok, of "''story''"] obtain a where a:
    "assemble_subtask_context sample_codecs [''p''] [''s''] empty_disk ''story'' [] (sample_subtask ''a'' ''test'' []) [] = Inr a"
    "\<forall>s \<in> set MANDATORY_CONTEXT_SECTIONS. contains (''## '' @ s) (as_prompt a)" by blast
  have "contains (''## '' @ ''role_instructions'') (as_prompt a)"
    by (rule a(2) [rule_format]) (simp add: MANDATORY_CONTEXT_SECTIONS_def)
  then have "contains ''## role_instructions'' (as_prompt a)" by (simp only: append.simps)
  with ok a(1) show ?thesis by blast
qed

definition sample_files :: disk where
  "sample_files = \<lparr>fs_files = [([''p'', ''src'', ''m.py''], Text ''x'')], fs_dirs = []\<rparr>"

lemma sample_required_files:
  "resolve_required_files sample_codecs [''p''] sample_files ''src/*.py'' =
    Inr [[(''path'', PStr ''src/m.py''), (''content'', PStr ''x'')]]"
  by code_simp


end
