(* ===== verification/AppRecovery.thy ===== *)
theory AppRecovery
  imports AppAtomicity
begin

text \<open>
  \<open>cloud_application/service.py\<close>, second part: the status of the applications, the roll-back
  of an application to the revision before it, and the recovery after an interrupted run; and
  \<open>formatting.py\<close>.
\<close>

subsection \<open>Status\<close>

record application_status_result =
  as_project_path :: path
  as_applications :: "application_record list"
  as_active_pointer :: "active_revision_pointer option"
  as_counts_by_state :: "(string \<times> nat) list"

definition applications_dir :: "path \<Rightarrow> path" where
  "applications_dir project = application_root_path project @ [''applications'']"

definition load_pointer_if_present :: "codecs \<Rightarrow> path \<Rightarrow> disk \<Rightarrow> active_revision_pointer option res" where
  "load_pointer_if_present c project d =
     (let p = runtime_active_pointer_path project in
      if \<not> fs_exists d p then Inr None
      else rbind (load_active_pointer c p d) (\<lambda>pointer. Inr (Some pointer)))"

definition current_revision_id :: "codecs \<Rightarrow> path \<Rightarrow> disk \<Rightarrow> string res" where
  "current_revision_id c project d =
     rbind (load_pointer_if_present c project d) (\<lambda>pointer. case pointer of
       Some p \<Rightarrow> Inr (pt_active_revision_id p)
     | None \<Rightarrow> not_found ''Active runtime pointer is missing.'')"

definition current_revision_checksum :: "codecs \<Rightarrow> path \<Rightarrow> disk \<Rightarrow> string res" where
  "current_revision_checksum c project d =
     rbind (load_pointer_if_present c project d) (\<lambda>pointer. case pointer of
       Some p \<Rightarrow> Inr (pt_active_revision_checksum p)
     | None \<Rightarrow> not_found ''Active runtime pointer is missing.'')"

definition response_writable_paths :: "cloud_queue_response \<Rightarrow> cloud_queue_request \<Rightarrow> string list" where
  "response_writable_paths response request =
     (case dget_or (rs_claims response) ''writable_paths'' (PList []) of
        PList (p # ps) \<Rightarrow> map py_str (p # ps)
      | _ \<Rightarrow> rq_writable_paths request)"

definition load_applications :: "codecs \<Rightarrow> path \<Rightarrow> disk \<Rightarrow> application_record list res" where
  "load_applications c project d =
     (if \<not> fs_exists d (applications_dir project) then Inr []
      else rmap_list (\<lambda>p. load_application_record c p d) (yaml_files (applications_dir project) d))"

definition application_status :: "codecs \<Rightarrow> path \<Rightarrow> (world, application_status_result) prog" where
  "application_status c project =
     pbind (on_disk (pmodify (ensure_cloud_application_dirs project))) (\<lambda>_.
     pbind (pread (\<lambda>w. load_applications c project (w_disk w))) (\<lambda>applications.
     pbind (pread (\<lambda>w. load_pointer_if_present c project (w_disk w))) (\<lambda>active_pointer.
     pret \<lparr>as_project_path = project, as_applications = applications, as_active_pointer = active_pointer,
       as_counts_by_state = counter (map an_status applications)\<rparr>)))"

definition application_show :: "codecs \<Rightarrow> path \<Rightarrow> string \<Rightarrow> (world, application_record) prog" where
  "application_show c project application_id =
     pread (\<lambda>w. load_application_record c (application_path project application_id) (w_disk w))"

text \<open>\<open>max(candidates, key=preference)\<close>: the first one no other is preferred to\<close>

definition preference :: "application_record \<Rightarrow> nat \<times> string \<times> string" where
  "preference r = ((if has_text (an_revision_id r) then 1 else 0), an_created_at r, an_application_id r)"

definition preferred :: "application_record \<Rightarrow> application_record list \<Rightarrow> application_record" where
  "preferred r rs = foldl (\<lambda>best r. if preference best < preference r then r else best) r rs"

definition load_application_for_request :: "codecs \<Rightarrow> path \<Rightarrow> string \<Rightarrow> disk \<Rightarrow> application_record res" where
  "load_application_for_request c project request_id d =
     rbind (rmap_list (\<lambda>p. load_application_record c p d) (yaml_files (applications_dir project) d)) (\<lambda>records.
     case filter (\<lambda>r. an_request_id r = request_id) records of
       [] \<Rightarrow> not_found (''No application record exists for request: '' @ request_id)
     | r # rs \<Rightarrow> Inr (preferred r rs))"

subsection \<open>The first revision\<close>

definition bootstrap_mappings :: "task_snapshot list \<Rightarrow> requirement_mapping list" where
  "bootstrap_mappings tasks =
     map (\<lambda>r. \<lparr>rm_requirement_id = r, rm_task_ids = map ts_task_id (take 1 tasks), rm_source = ''application''\<rparr>)
       (sorted_set (concat (map ts_requirement_ids tasks)))"

definition ensure_bootstrap_revision ::
    "codecs \<Rightarrow> application_service \<Rightarrow> path \<Rightarrow> task_snapshot list \<Rightarrow> (world, unit) prog" where
  "ensure_bootstrap_revision c env project tasks =
     pbind (pget (\<lambda>w. fs_exists (w_disk w) (runtime_active_pointer_path project)
              \<and> fs_exists (w_disk w) (revision_path project ''runtime-plan-r0''))) (\<lambda>there.
     if there then pret ()
     else
       pbind (now_call env) (\<lambda>created_at.
       pbind (now_call env) (\<lambda>rollback_created_at.
       pbind (plift (build_runtime_graph_revision c ''runtime-plan-r0'' None ''bootstrap'' created_at tasks
                (bootstrap_mappings tasks) [] [''bootstrap runtime plan'']
                \<lparr>rb_prior_revision_id = [], rb_prior_revision_checksum = [], rb_rollback_reason = ''bootstrap'',
                 rb_created_at = rollback_created_at, rb_application_id = ''bootstrap''\<rparr> [])) (\<lambda>revision.
       pbind (on_disk (save_runtime_revision project revision)) (\<lambda>_.
       pbind (now_call env) (\<lambda>now.
       pbind (on_disk (save_active_pointer project
         \<lparr>pt_schema_version = 1, pt_active_revision_id = rp_revision_id revision,
          pt_active_revision_checksum = rp_revision_checksum revision, pt_previous_revision_id = None,
          pt_update_timestamp = now, pt_application_id = ''bootstrap''\<rparr>)) (\<lambda>_. pret ())))))))"

subsection \<open>Rolling back\<close>

definition lease_with :: "execution_lease \<Rightarrow> pydict \<Rightarrow> execution_lease res" where
  "lease_with lease upd = execution_lease_from_dict (al_merge (execution_lease_to_dict lease) upd)"

definition held_by :: "runtime_plan_revision \<Rightarrow> execution_lease \<Rightarrow> bool" where
  "held_by revision lease \<longleftrightarrow>
     el_runtime_revision_id lease = rp_revision_id revision \<and> el_lease_state lease = ''active''"

definition expire_lease :: "path \<Rightarrow> runtime_plan_revision \<Rightarrow> execution_lease \<Rightarrow> (world, unit) prog" where
  "expire_lease project revision lease =
     (if held_by revision lease then
        pbind (plift (lease_with lease [(''lease_state'', PStr ''stale''),
                 (''failure_reason'', PStr ''rollback in progress'')])) (\<lambda>stale.
        pbind (on_disk (save_execution_lease project stale)) (\<lambda>_. pret ()))
      else pret ())"

definition expire_leases :: "path \<Rightarrow> runtime_plan_revision \<Rightarrow> execution_lease list \<Rightarrow> (world, unit) prog" where
  "expire_leases project revision leases = pfold (\<lambda>lease _. expire_lease project revision lease) leases ()"

text \<open>What \<open>rollback\<close> checks before it writes anything.\<close>

record rollback_target =
  rt_application :: application_record
  rt_revision :: runtime_plan_revision
  rt_prior_id :: string
  rt_prior :: runtime_plan_revision
  rt_leases :: "execution_lease list"

definition check_rollback :: "codecs \<Rightarrow> path \<Rightarrow> string \<Rightarrow> disk \<Rightarrow> rollback_target res" where
  "check_rollback c project application_id d =
     rbind (load_application_record c (application_path project application_id) d) (\<lambda>application.
     if an_status application \<notin> {''applied'', ''resumed'', ''resume_pending'', ''rollback_available'', ''rollback_failed''}
     then value_error ''Application is not eligible for rollback.''
     else if \<not> has_text (an_revision_id application)
     then value_error ''Application has no revision to roll back from.''
     else
       rbind (load_runtime_revision c (revision_path project (the (an_revision_id application))) d) (\<lambda>revision.
       if \<not> has_text (rp_parent_revision_id revision) then value_error ''No prior revision exists for rollback.''
       else
         let prior_revision_id = the (rp_parent_revision_id revision) in
         rbind (load_runtime_revision c (revision_path project prior_revision_id) d) (\<lambda>prior.
         rbind (load_active_pointer c (runtime_active_pointer_path project) d) (\<lambda>pointer.
         if pt_active_revision_id pointer \<noteq> rp_revision_id revision
         then value_error ''Current active revision does not match the application revision.''
         else if pt_active_revision_checksum pointer \<noteq> rp_revision_checksum revision
         then value_error ''Current active revision checksum does not match the application revision.''
         else if rp_revision_checksum prior \<noteq> rb_prior_revision_checksum (rp_rollback_metadata revision)
         then value_error ''Prior revision checksum does not match rollback metadata.''
         else
           rbind (load_execution_leases c project d) (\<lambda>leases.
           Inr \<lparr>rt_application = application, rt_revision = revision, rt_prior_id = prior_revision_id,
             rt_prior = prior, rt_leases = leases\<rparr>)))))"

definition transition_loaded ::
    "codecs \<Rightarrow> application_service \<Rightarrow> path \<Rightarrow> application_record \<Rightarrow> string \<Rightarrow> pydict \<Rightarrow> (world, application_record) prog" where
  "transition_loaded c env project application next_state details =
     pbind (svc_load_request c project (an_request_id application)) (\<lambda>request.
     transition_application c env project application next_state (Some request) details)"

definition begin_rollback ::
    "codecs \<Rightarrow> application_service \<Rightarrow> path \<Rightarrow> rollback_target \<Rightarrow> (world, application_record \<times> transaction_record) prog" where
  "begin_rollback c env project t =
     (let revision = rt_revision t; prior = rt_prior t; active = map el_lease_id (filter (held_by revision) (rt_leases t)) in
      pbind (now_call env) (\<lambda>created_at.
      pbind (now_call env) (\<lambda>updated_at.
      let transaction = create_transaction_record (''rollback-'' @ an_application_id (rt_application t))
            (an_application_id (rt_application t)) (rt_prior_id t) (rp_revision_checksum prior)
            (rp_revision_id prior) (rp_revision_checksum prior) (rp_revision_id revision) created_at updated_at
            [path_text (revision_path project (rp_revision_id revision))] ''restore prior pointer atomically''
            [(''active_lease_ids'', pstrs active), (''source_revision_checksum'', PStr (rp_revision_checksum revision)),
             (''proposed_revision_checksum'', PStr (rp_revision_checksum prior))] in
      pbind (on_disk (save_transaction_record project transaction)) (\<lambda>_.
      pbind (transition_loaded c env project (rt_application t) ''rolling_back''
               [(''transaction_id'', PStr (tx_transaction_id transaction))]) (\<lambda>application.
      pbind (on_disk (save_application_record project application)) (\<lambda>_.
      pbind (expire_leases project revision (rt_leases t)) (\<lambda>_.
      pret (application, transaction))))))))"

text \<open>The pointer is read again; when it has changed the roll-back is given up.\<close>

definition confirm_pointer ::
    "codecs \<Rightarrow> application_service \<Rightarrow> path \<Rightarrow> runtime_plan_revision \<Rightarrow> application_record \<Rightarrow> transaction_record \<Rightarrow>
     (world, unit) prog" where
  "confirm_pointer c env project revision application transaction =
     (let reason = (''reason'', PStr ''active pointer changed before rollback commit'') in
      pbind (pread (\<lambda>w. load_active_pointer c (runtime_active_pointer_path project) (w_disk w))) (\<lambda>current.
      if pt_active_revision_id current \<noteq> rp_revision_id revision
          \<or> pt_active_revision_checksum current \<noteq> rp_revision_checksum revision then
        pbind (save_phase env project transaction ''rollback_failed'' None [reason]) (\<lambda>_.
        pbind (transition_loaded c env project application ''rollback_failed'' [reason]) (\<lambda>application.
        pbind (on_disk (save_application_record project application)) (\<lambda>_.
        pbind (svc_load_request c project (an_request_id application)) (\<lambda>request.
        pbind (record_audit c env project ''rollback_failed'' (Some application) (Some request) ''rolling_back''
                 ''rollback_failed'' [reason, (''transaction_id'', PStr (tx_transaction_id transaction))]) (\<lambda>_.
        plift (value_error ''Active pointer changed before rollback commit.''))))))
      else pret ()))"

definition rollback ::
    "codecs \<Rightarrow> application_service \<Rightarrow> path \<Rightarrow> string \<Rightarrow> (world, application_record) prog" where
  "rollback c env project application_id =
     pbind (pread (\<lambda>w. check_rollback c project application_id (w_disk w))) (\<lambda>t.
     let revision = rt_revision t; prior = rt_prior t in
     pbind (begin_rollback c env project t) (\<lambda>(application, transaction).
     pbind (confirm_pointer c env project revision application transaction) (\<lambda>_.
     pbind (now_call env) (\<lambda>now.
     pbind (on_disk (save_active_pointer project
       \<lparr>pt_schema_version = 1, pt_active_revision_id = rp_revision_id prior,
        pt_active_revision_checksum = rp_revision_checksum prior,
        pt_previous_revision_id = Some (rp_revision_id revision), pt_update_timestamp = now,
        pt_application_id = an_application_id application\<rparr>)) (\<lambda>_.
     pbind (save_phase env project transaction ''rolled_back'' None
              [(''rolled_back_to'', PStr (rp_revision_id prior))]) (\<lambda>_.
     pbind (transition_loaded c env project application ''rolled_back''
              [(''rolled_back_to'', PStr (rp_revision_id prior))]) (\<lambda>rolled_back.
     pbind (plift (application_with rolled_back
       [(''active_revision_id'', PStr (rp_revision_id prior)), (''revision_id'', PStr (rp_revision_id prior)),
        (''revision_checksum'', PStr (rp_revision_checksum prior))])) (\<lambda>rolled_back.
     pbind (on_disk (save_application_record project rolled_back)) (\<lambda>_.
     pbind (svc_load_request c project (an_request_id application)) (\<lambda>request.
     pbind (record_audit c env project ''rollback'' (Some rolled_back) (Some request) ''rollback_available''
              ''rolled_back''
              [(''prior_revision_id'', PStr (rt_prior_id t)),
               (''active_lease_ids'', pstrs (map el_lease_id (filter (held_by revision) (rt_leases t))))]) (\<lambda>_.
     pret rolled_back)))))))))))"

subsection \<open>Recovery\<close>

record recovery_notes =
  rn_findings :: "string list"
  rn_actions :: "string list"
  rn_reconciled :: bool

record recovery_result =
  rc_project_path :: path
  rc_findings :: "string list"
  rc_recommended_actions :: "string list"
  rc_reconciled :: bool
  rc_active_pointer :: "active_revision_pointer option"
  rc_application_id :: "string option"
  rc_transaction_id :: "string option"

definition note_finding :: "string \<Rightarrow> string \<Rightarrow> recovery_notes \<Rightarrow> recovery_notes" where
  "note_finding finding action n =
     n\<lparr>rn_findings := rn_findings n @ [finding], rn_actions := rn_actions n @ [action]\<rparr>"

definition reconciled_by :: "string \<Rightarrow> string \<Rightarrow> recovery_notes \<Rightarrow> recovery_notes" where
  "reconciled_by finding action n = (note_finding finding action n)\<lparr>rn_reconciled := True\<rparr>"

text \<open>\<open>try: x = r except Exception: ...\<close>; an input outside the model stays outside.\<close>

definition caught :: "'a res \<Rightarrow> 'a option res" where
  "caught r = (case r of
     Inr x \<Rightarrow> Inr (Some x)
   | Inl e \<Rightarrow> if exn_class e = OutsideModel then Inl e else Inr None)"

definition read_transactions ::
    "codecs \<Rightarrow> path \<Rightarrow> disk \<Rightarrow> recovery_notes \<Rightarrow> (transaction_record list \<times> recovery_notes) res" where
  "read_transactions c project d notes =
     (if \<not> fs_exists d (transaction_root_path project) then Inr ([], notes)
      else
        rfold (\<lambda>p (transactions, notes).
          rbind (caught (load_transaction c project (name_stem (path_name p)) d)) (\<lambda>found. case found of
            Some t \<Rightarrow> Inr (transactions @ [t], notes)
          | None \<Rightarrow> Inr (transactions, note_finding (''corrupt transaction record: '' @ path_name p)
                      ''inspect transaction journal manually'' notes)))
          (yaml_files (transaction_root_path project) d) ([], notes))"

definition read_pointer ::
    "codecs \<Rightarrow> path \<Rightarrow> disk \<Rightarrow> recovery_notes \<Rightarrow> (active_revision_pointer option \<times> recovery_notes) res" where
  "read_pointer c project d notes =
     (let p = runtime_active_pointer_path project in
      if fs_exists d p then
        rbind (caught (load_active_pointer c p d)) (\<lambda>found. case found of
          Some pointer \<Rightarrow> Inr (Some pointer, notes)
        | None \<Rightarrow> Inr (None, note_finding ''corrupt active pointer'' ''replace pointer only after operator review'' notes))
      else Inr (None, note_finding ''missing active pointer'' ''select an active revision only after recovery review'' notes))"

definition recover_application ::
    "path \<Rightarrow> transaction_record list \<Rightarrow> application_record \<Rightarrow> recovery_notes \<Rightarrow> (world, recovery_notes) prog" where
  "recover_application project transactions application notes =
     (let i = an_application_id application in
      if an_status application = ''applying'' then
        (case find (\<lambda>t. tx_application_id t = i) transactions of
           Some t \<Rightarrow>
             if tx_phase t \<in> {''revision_written'', ''revision_validated''} then
               pbind (plift (application_with application [(''status'', PStr ''application_validation_failed'')])) (\<lambda>failed.
               pbind (on_disk (save_application_record project failed)) (\<lambda>_.
               pret (reconciled_by (''application recoverable after interrupted apply: '' @ i) (''re-run apply for '' @ i) notes)))
             else pret (note_finding (''application stuck in applying: '' @ i) (''reconcile application '' @ i) notes)
         | None \<Rightarrow> pret (note_finding (''application stuck in applying: '' @ i) (''reconcile application '' @ i) notes))
      else if an_status application = ''rolling_back'' then
        pret (note_finding (''application stuck in rolling_back: '' @ i) (''reconcile rollback for '' @ i) notes)
      else pret notes)"

definition recover_lease :: "path \<Rightarrow> execution_lease \<Rightarrow> recovery_notes \<Rightarrow> (world, recovery_notes) prog" where
  "recover_lease project lease notes =
     pbind (pget (\<lambda>w. fs_exists (w_disk w) (revision_path project (el_runtime_revision_id lease)))) (\<lambda>there.
     if el_runtime_revision_id lease \<noteq> [] \<and> \<not> there then
       pbind (on_disk (pmodify (fs_mkdir (butlast (quarantine_path project (el_lease_id lease)))))) (\<lambda>_.
       pbind (on_disk (pmodify (write_yaml (quarantine_path project (el_lease_id lease))
                (PDict (execution_lease_to_dict lease))))) (\<lambda>_.
       pret (reconciled_by (''stale lease: '' @ el_lease_id lease) (''quarantine lease '' @ el_lease_id lease) notes)))
     else pret notes)"

definition finish_pointer ::
    "application_service \<Rightarrow> path \<Rightarrow> active_revision_pointer \<Rightarrow> runtime_plan_revision \<Rightarrow> transaction_record \<Rightarrow>
     recovery_notes \<Rightarrow> (world, recovery_notes) prog" where
  "finish_pointer env project pointer revision t notes =
     (if pt_active_revision_id pointer \<noteq> rp_revision_id revision then
        pbind (now_call env) (\<lambda>now.
        pbind (on_disk (save_active_pointer project
          \<lparr>pt_schema_version = 1, pt_active_revision_id = rp_revision_id revision,
           pt_active_revision_checksum = rp_revision_checksum revision,
           pt_previous_revision_id = (if tx_source_revision_id t = [] then None else Some (tx_source_revision_id t)),
           pt_update_timestamp = now, pt_application_id = tx_application_id t\<rparr>)) (\<lambda>_.
        pret (reconciled_by (''reconciled published revision: '' @ rp_revision_id revision)
                (''complete pointer update for '' @ tx_application_id t) notes)))
      else pret notes)"

definition finish_status ::
    "path \<Rightarrow> application_record list \<Rightarrow> runtime_plan_revision \<Rightarrow> transaction_record \<Rightarrow> recovery_notes \<Rightarrow>
     (world, recovery_notes) prog" where
  "finish_status project applications revision t notes =
     (case find (\<lambda>a. an_application_id a = tx_application_id t) applications of
        Some app \<Rightarrow>
          if an_status app = ''applying'' then
            pbind (plift (application_with app
              [(''status'', PStr ''applied''), (''revision_id'', PStr (rp_revision_id revision)),
               (''revision_checksum'', PStr (rp_revision_checksum revision)),
               (''active_revision_id'', PStr (rp_revision_id revision))])) (\<lambda>applied.
            pbind (on_disk (save_application_record project applied)) (\<lambda>_.
            pret (reconciled_by (''reconciled stale application status: '' @ an_application_id app)
                    (''finalize application '' @ an_application_id app) notes)))
          else pret notes
      | None \<Rightarrow> pret notes)"

definition recover_transaction ::
    "codecs \<Rightarrow> application_service \<Rightarrow> path \<Rightarrow> application_record list \<Rightarrow> active_revision_pointer \<Rightarrow> transaction_record \<Rightarrow>
     recovery_notes \<Rightarrow> (world, recovery_notes) prog" where
  "recover_transaction c env project applications pointer t notes =
     (let revision_file = revision_path project (tx_proposed_revision_id t);
          plan_file = application_plan_path project (tx_application_id t) in
      if tx_phase t \<notin> {''revision_published'', ''pointer_updated''} then pret notes
      else
        pbind (pget (\<lambda>w. fs_exists (w_disk w) revision_file \<and> fs_exists (w_disk w) plan_file)) (\<lambda>there.
        if \<not> there then pret notes
        else
          pbind (pread (\<lambda>w. load_runtime_revision c revision_file (w_disk w))) (\<lambda>revision.
          pbind (pread (\<lambda>w. load_application_plan c plan_file (w_disk w))) (\<lambda>plan.
          let source_pointer_matches = (pt_active_revision_id pointer = tx_source_revision_id t
                \<and> pt_active_revision_checksum pointer = tx_source_revision_checksum t
                \<and> tx_expected_active_pointer t = pt_active_revision_id pointer);
              proposed_revision_matches = (rp_revision_checksum revision = tx_proposed_revision_checksum t);
              plan_checksum_matches = (ap_plan_checksum plan = fstr (tx_details t) ''plan_checksum'') in
          if tx_phase t = ''revision_published'' then
            (if \<not> (source_pointer_matches \<and> proposed_revision_matches \<and> plan_checksum_matches)
             then pret (note_finding (''stale published transaction: '' @ tx_transaction_id t)
                    (''inspect transaction '' @ tx_transaction_id t) notes)
             else finish_pointer env project pointer revision t notes)
          else
            (if \<not> (pt_active_revision_id pointer = rp_revision_id revision
                   \<and> pt_active_revision_checksum pointer = rp_revision_checksum revision
                   \<and> proposed_revision_matches \<and> plan_checksum_matches)
             then pret (note_finding (''stale pointer update transaction: '' @ tx_transaction_id t)
                    (''inspect transaction '' @ tx_transaction_id t) notes)
             else finish_status project applications revision t notes)))))"

definition recover :: "codecs \<Rightarrow> application_service \<Rightarrow> path \<Rightarrow> (world, recovery_result) prog" where
  "recover c env project =
     pbind (on_disk (pmodify (ensure_cloud_application_dirs project))) (\<lambda>_.
     pbind (pread (\<lambda>w. read_transactions c project (w_disk w)
       \<lparr>rn_findings = [], rn_actions = [], rn_reconciled = False\<rparr>)) (\<lambda>(transactions, notes).
     pbind (pread (\<lambda>w. read_pointer c project (w_disk w) notes)) (\<lambda>(pointer, notes).
     pbind (application_status c project) (\<lambda>status.
     pbind (pfold (recover_application project transactions) (as_applications status) notes) (\<lambda>notes.
     pbind (pread (\<lambda>w. load_execution_leases c project (w_disk w))) (\<lambda>leases.
     pbind (pfold (recover_lease project) leases notes) (\<lambda>notes.
     pbind (case pointer of
         Some p \<Rightarrow> pfold (recover_transaction c env project (as_applications status) p) transactions notes
       | None \<Rightarrow> pret notes) (\<lambda>notes.
     let findings = (if rn_findings notes = [] then [''no recovery actions needed''] else rn_findings notes);
         actions = (if rn_actions notes = [] then [''no action required''] else rn_actions notes) in
     pbind (on_disk (pmodify (write_yaml (application_recovery_path project) (PDict
       [(''project_path'', PStr (path_text project)), (''findings'', pstrs findings),
        (''recommended_actions'', pstrs actions), (''reconciled'', PBool (rn_reconciled notes))])))) (\<lambda>_.
     pbind (record_audit c env project ''recovery'' None None ''inspect'' ''inspect'' [(''findings'', pstrs findings)])
       (\<lambda>_.
     pret \<lparr>rc_project_path = project, rc_findings = findings, rc_recommended_actions = actions,
       rc_reconciled = rn_reconciled notes, rc_active_pointer = pointer, rc_application_id = None,
       rc_transaction_id = None\<rparr>))))))))))"

subsection \<open>Formatting\<close>

definition format_application_record :: "codecs \<Rightarrow> application_record \<Rightarrow> string" where
  "format_application_record c r = join newline
     [''Application: '' @ an_application_id r, ''Request: '' @ an_request_id r, ''Status: '' @ an_status r,
      ''Plan checksum: '' @ an_plan_checksum r,
      ''Revision: '' @ (if has_text (an_revision_id r) then the (an_revision_id r) else ''pending''),
      [], json_dumps c (PDict (application_record_to_dict r))]"

definition format_application_summary :: "codecs \<Rightarrow> application_status_result \<Rightarrow> string" where
  "format_application_summary c r = join newline
     ([''Application status:'', ''Total applications: '' @ nat_dec (length (as_applications r))]
      @ map (\<lambda>(state, count). ''- '' @ state @ '': '' @ nat_dec count) (sort (as_counts_by_state r))
      @ (case as_active_pointer r of None \<Rightarrow> []
         | Some p \<Rightarrow> [[], json_dumps c (PDict (active_revision_pointer_to_dict p))]))"

definition format_application_status :: "codecs \<Rightarrow> application_status_result \<Rightarrow> string" where
  "format_application_status = format_application_summary"

definition format_recovery_result :: "recovery_result \<Rightarrow> string" where
  "format_recovery_result r = join newline
     ([''Recovery inspection:'', ''Project: '' @ path_text (rc_project_path r),
       ''Reconciled: '' @ py_str (PBool (rc_reconciled r)), [], ''Findings:'']
      @ map (\<lambda>f. ''- '' @ f) (rc_findings r) @ [[], ''Recommended actions:'']
      @ map (\<lambda>a. ''- '' @ a) (rc_recommended_actions r))"

end
