(* ===== verification/AppResume.thy ===== *)
theory AppResume
  imports AppRecovery SubtaskGraph
begin

text \<open>
  \<open>cloud_application/service.py\<close>, third part, and \<open>resume.py\<close>: the ready tasks of the active
  revision are leased, executed and their results published.

  The execution itself, \<open>run_subtask_local_execution\<close> of \<open>local_execution.py\<close>, starts local
  models and test commands; here it is a parameter \<open>runner\<close>, a program that may do anything to
  the disk and may raise, and returns the three fields of its result that are read.
\<close>

subsection \<open>Sub-tasks of a revision\<close>

definition to_blueprint_subtask :: "task_snapshot \<Rightarrow> blueprint_subtask" where
  "to_blueprint_subtask task =
     \<lparr>bs_id = ts_task_id task, bs_title = ts_title task, bs_role = ts_role task,
      bs_depends_on = ts_depends_on task, bs_requirement_ids = ts_requirement_ids task,
      bs_required_context = \<lparr>rq_files = filter (\<lambda>f. f \<noteq> []) (ts_required_context task), rq_summaries = [],
        rq_prior_task_outputs = [], rq_architecture_decisions = []\<rparr>,
      bs_writable_paths = ts_writable_paths task, bs_expected_outputs = ts_expected_outputs task,
      bs_validation = ts_validation_steps task,
      bs_context_budget = \<lparr>cb_max_input_tokens = (case ts_usable_input_tokens task of None \<Rightarrow> 0 | Some n \<Rightarrow> n),
        cb_reserved_output_tokens = 0, cb_required_context_must_fit = True,
        cb_allow_required_context_trimming = False,
        cb_oversized_task_policy = VALID_OVERSIZED_TASK_POLICY\<rparr>\<rparr>"

record execution_result =
  xr_status :: string
  xr_state_path :: path
  xr_story_path :: path

type_synonym runner =
  "path \<Rightarrow> string \<Rightarrow> path \<Rightarrow> pydict \<Rightarrow> blueprint_subtask list \<Rightarrow> pydict \<Rightarrow> (world, execution_result) prog"

record runtime_resume_execution =
  rx_result :: execution_result
  rx_ready_task_ids :: "string list"
  rx_blocked_task_ids :: "string list"
  rx_completed_task_ids :: "string list"

definition with_status :: "string \<Rightarrow> runtime_plan_revision \<Rightarrow> string list" where
  "with_status s revision = map ts_task_id (filter (\<lambda>t. ts_status t = s) (rp_task_graph revision))"

definition select_subtasks :: "runtime_plan_revision \<Rightarrow> string list \<Rightarrow> blueprint_subtask list res" where
  "select_subtasks revision task_ids =
     (let by_id = al_merge [] (map (\<lambda>t. (ts_task_id t, to_blueprint_subtask t)) (rp_task_graph revision));
          missing = filter (\<lambda>i. i \<notin> fst ` set by_id) task_ids in
      if missing \<noteq> []
      then value_error (''Resume tasks are missing from the active revision: '' @ join '', '' missing)
      else Inr (map (\<lambda>i. the (map_of by_id i)) task_ids))"

definition run_runtime_revision_execution ::
    "runner \<Rightarrow> path \<Rightarrow> string \<Rightarrow> runtime_plan_revision \<Rightarrow> string list option \<Rightarrow> pydict \<Rightarrow>
     (world, runtime_resume_execution) prog" where
  "run_runtime_revision_execution runner project story_name revision task_ids initial_state =
     (let blueprint_story =
        [(''goal'', PStr (''Runtime execution for '' @ story_name)),
         (''acceptance_criteria'', pstrs (map rm_requirement_id (rp_requirement_mappings revision))),
         (''subtasks'', PList (map (\<lambda>t. PDict (task_snapshot_to_dict t)) (rp_task_graph revision)))] in
      pbind (plift (case task_ids of
          None \<Rightarrow> Inr (map to_blueprint_subtask (rp_task_graph revision))
        | Some ids \<Rightarrow> select_subtasks revision ids)) (\<lambda>subtasks.
      pbind (runner project story_name (join_path (project @ [''stories'']) story_name) blueprint_story subtasks
               initial_state) (\<lambda>result.
      pret \<lparr>rx_result = result, rx_ready_task_ids = with_status ''ready'' revision,
        rx_blocked_task_ids = with_status ''blocked'' revision,
        rx_completed_task_ids = with_status ''completed'' revision\<rparr>)))"

subsection \<open>Leases\<close>

definition create_lease ::
    "codecs \<Rightarrow> application_service \<Rightarrow> path \<Rightarrow> string \<Rightarrow> runtime_plan_revision \<Rightarrow> string \<Rightarrow> (world, execution_lease) prog" where
  "create_lease c env project task_id revision story_name =
     (let own = (case find (\<lambda>t. ts_task_id t = task_id) (rp_task_graph revision) of
              None \<Rightarrow> [] | Some t \<Rightarrow> ts_writable_paths t);
          lease_paths = (if story_name \<noteq> []
            then own @ [''stories/'' @ story_name @ ''/reports/local_execution/tasks/'' @ task_id @ ''/**''] else own) in
      pbind (id_call (se_lease_id env)) (\<lambda>lease_id.
      pbind (id_call (se_attempt_id env)) (\<lambda>attempt_id.
      pbind (now_call env) (\<lambda>start.
      let lease = \<lparr>el_schema_version = 1, el_lease_id = lease_id, el_task_id = task_id,
            el_execution_attempt_id = attempt_id, el_runtime_revision_id = rp_revision_id revision,
            el_runtime_revision_checksum = rp_revision_checksum revision, el_local_model = ''local-model'',
            el_writable_paths = dedup lease_paths, el_start_timestamp = start, el_lease_state = ''active'',
            el_expiry_timestamp = None, el_heartbeat_timestamp = None, el_completion_checksum = None,
            el_failure_reason = None\<rparr> in
      pbind (on_disk (save_execution_lease project lease)) (\<lambda>_.
      pbind (record_audit c env project ''lease_created'' None None ''resume_pending'' ''resume_pending''
               [(''lease_id'', PStr lease_id), (''task_id'', PStr task_id)]) (\<lambda>_.
      pret lease))))))"

definition create_leases ::
    "codecs \<Rightarrow> application_service \<Rightarrow> path \<Rightarrow> string list \<Rightarrow> runtime_plan_revision \<Rightarrow> string \<Rightarrow> (world, string list) prog" where
  "create_leases c env project task_ids revision story_name =
     pfold (\<lambda>task_id ids.
       pbind (create_lease c env project task_id revision story_name) (\<lambda>lease. pret (ids @ [el_lease_id lease])))
       task_ids []"

definition lease_for_task :: "codecs \<Rightarrow> path \<Rightarrow> string \<Rightarrow> string \<Rightarrow> disk \<Rightarrow> execution_lease res" where
  "lease_for_task c project revision_id task_id d =
     rbind (load_execution_leases c project d) (\<lambda>leases.
     case find (\<lambda>l. el_runtime_revision_id l = revision_id \<and> el_task_id l = task_id) leases of
       Some l \<Rightarrow> Inr l
     | None \<Rightarrow> not_found (''Lease not found for task: '' @ task_id))"

definition invalidate_resume_leases ::
    "codecs \<Rightarrow> path \<Rightarrow> string \<Rightarrow> string list \<Rightarrow> string \<Rightarrow> string \<Rightarrow> (world, unit) prog" where
  "invalidate_resume_leases c project revision_id lease_ids failure_reason lease_state =
     pbind (pread (\<lambda>w. load_execution_leases c project (w_disk w))) (\<lambda>leases.
     let lease_lookup = al_merge [] (map (\<lambda>l. (el_lease_id l, l)) leases) in
     pfold (\<lambda>lease_id _.
       case map_of lease_lookup lease_id of
         None \<Rightarrow> pret ()
       | Some lease \<Rightarrow>
           if el_runtime_revision_id lease \<noteq> revision_id then pret ()
           else
             pbind (plift (lease_with lease [(''lease_state'', PStr lease_state),
                      (''failure_reason'', PStr failure_reason)])) (\<lambda>updated.
             pbind (on_disk (save_execution_lease project updated)) (\<lambda>_. pret ())))
       lease_ids ())"

subsection \<open>Before the run\<close>

definition resolve_resume_tasks :: "runtime_plan_revision \<Rightarrow> string list \<Rightarrow> task_snapshot list res" where
  "resolve_resume_tasks revision task_ids =
     (let tasks_by_id = task_dict (rp_task_graph revision) in
      rmap_list (\<lambda>i. case map_of tasks_by_id i of
          None \<Rightarrow> value_error (''Resume task is missing from the active revision: '' @ i)
        | Some t \<Rightarrow>
            if ts_status t \<noteq> ''ready''
            then value_error (''Resume task is not eligible: '' @ i @ '' ('' @ ts_status t @ '')'')
            else Inr t) task_ids)"

definition build_resume_initial_state :: "runtime_plan_revision \<Rightarrow> pydict" where
  "build_resume_initial_state revision =
     [(''story'', PStr []), (''status'', PStr ''pending''), (''current_task'', PNone),
      (''completed_tasks'', pstrs (with_status ''completed'' revision)),
      (''blocked_tasks'', pstrs (with_status ''blocked'' revision)),
      (''cloud_redecomposition_required_tasks'', PList []),
      (''execution_order'', pstrs (map ts_task_id (rp_task_graph revision))),
      (''tasks'', PDict (al_merge [] (map (\<lambda>t. (ts_task_id t, PDict
         [(''task_id'', PStr (ts_task_id t)), (''title'', PStr (ts_title t)), (''role'', PStr (ts_role t)),
          (''dependencies'', pstrs (ts_depends_on t)), (''status'', PStr (ts_status t)), (''attempt'', PInt 0),
          (''outputs'', PList []), (''handoff_summary'', PDict [])])) (rp_task_graph revision)))),
      (''final_validation'', PDict [(''status'', PStr ''pending''), (''requirements_checked'', PList []),
         (''missing_requirements'', PList [])])]"

text \<open>What a resume works with once it has checked that it may start.\<close>

record resume_run =
  ru_request :: cloud_queue_request
  ru_application :: application_record
  ru_revision :: runtime_plan_revision
  ru_eligibility :: resume_eligibility
  ru_tasks :: "task_snapshot list"
  ru_lease_ids :: "string list"
  ru_state_path :: path

record resume_result =
  rz_project_path :: path
  rz_application_id :: string
  rz_revision_id :: string
  rz_revision_checksum :: string
  rz_task_ids :: "string list"
  rz_lease_ids :: "string list"
  rz_status :: string
  rz_reasons :: "string list"
  rz_resume_state_path :: "path option"
  rz_execution_status_path :: "path option"
  rz_execution_report_path :: "path option"

definition check_pointer :: "codecs \<Rightarrow> path \<Rightarrow> runtime_plan_revision \<Rightarrow> disk \<Rightarrow> unit res" where
  "check_pointer c project revision d =
     rbind (load_active_pointer c (runtime_active_pointer_path project) d) (\<lambda>pointer.
     validate_active_pointer pointer (rp_revision_id revision) (rp_revision_checksum revision))"

definition start_resume ::
    "codecs \<Rightarrow> application_service \<Rightarrow> path \<Rightarrow> string \<Rightarrow> (world, resume_run) prog" where
  "start_resume c env project request_id =
     pbind (svc_load_request c project request_id) (\<lambda>request.
     pbind (pread (\<lambda>w. load_application_for_request c project request_id (w_disk w))) (\<lambda>application.
     pbind (load_revision c project (case an_revision_id application of None \<Rightarrow> [] | Some i \<Rightarrow> i)) (\<lambda>revision.
     pbind (pread (\<lambda>w. check_pointer c project revision (w_disk w))) (\<lambda>_.
     let eligibility = an_resume application; task_ids = re_resume_from_task_ids eligibility in
     if \<not> re_eligible eligibility
     then plift (value_error (str_or (join ''; '' (re_reasons eligibility)) ''Resume is not eligible.''))
     else
       pbind (plift (resolve_resume_tasks revision task_ids)) (\<lambda>tasks.
       pbind (transition_application c env project application ''resuming'' (Some request)
                [(''revision_id'', PStr (rp_revision_id revision))]) (\<lambda>application.
       pbind (on_disk (save_application_record project application)) (\<lambda>_.
       pbind (create_leases c env project task_ids revision (rq_story request)) (\<lambda>lease_ids.
       let state_path = join_path (application_root_path project @ [''recovery''])
             (an_application_id application @ ''_resume.yaml'') in
       pbind (on_disk (pmodify (write_yaml state_path (PDict
         [(''application_id'', PStr (an_application_id application)), (''request_id'', PStr request_id),
          (''revision_id'', PStr (rp_revision_id revision)), (''status'', PStr ''resuming''),
          (''task_ids'', pstrs task_ids), (''lease_ids'', pstrs lease_ids)])))) (\<lambda>_.
       pbind (pread (\<lambda>w. check_pointer c project revision (w_disk w))) (\<lambda>_.
       pret \<lparr>ru_request = request, ru_application = application, ru_revision = revision,
         ru_eligibility = eligibility, ru_tasks = tasks, ru_lease_ids = lease_ids,
         ru_state_path = state_path\<rparr>))))))))))"

subsection \<open>A resume that fails\<close>

definition class_text :: "exn_class \<Rightarrow> string" where
  "class_text k = (case k of
     ValueError \<Rightarrow> ''ValueError'' | FileNotFoundError \<Rightarrow> ''FileNotFoundError'' | TypeError \<Rightarrow> ''TypeError''
   | AttributeError \<Rightarrow> ''AttributeError'' | KeyError \<Rightarrow> ''KeyError'' | RuntimeError \<Rightarrow> ''RuntimeError''
   | StopIteration \<Rightarrow> ''StopIteration'' | YAMLError \<Rightarrow> ''YAMLError'' | JSONDecodeError \<Rightarrow> ''JSONDecodeError''
   | PermissionError \<Rightarrow> ''PermissionError'' | FileExistsError \<Rightarrow> ''FileExistsError''
   | NotADirectoryError \<Rightarrow> ''NotADirectoryError'' | IsADirectoryError \<Rightarrow> ''IsADirectoryError''
   | ConnectionError \<Rightarrow> ''ConnectionError'' | TimeoutError \<Rightarrow> ''TimeoutError'' | OutsideModel \<Rightarrow> [])"

definition error_text :: "pyexn \<Rightarrow> string" where
  "error_text e = class_text (exn_class e) @ '': '' @ exn_msg e"

definition resume_outcome ::
    "path \<Rightarrow> resume_run \<Rightarrow> application_record \<Rightarrow> string \<Rightarrow> string list \<Rightarrow> path option \<Rightarrow> path option \<Rightarrow> resume_result" where
  "resume_outcome project u application status reasons status_path report_path =
     \<lparr>rz_project_path = project, rz_application_id = an_application_id application,
      rz_revision_id = rp_revision_id (ru_revision u), rz_revision_checksum = rp_revision_checksum (ru_revision u),
      rz_task_ids = re_resume_from_task_ids (ru_eligibility u), rz_lease_ids = ru_lease_ids u, rz_status = status,
      rz_reasons = reasons, rz_resume_state_path = Some (ru_state_path u), rz_execution_status_path = status_path,
      rz_execution_report_path = report_path\<rparr>"

text \<open>
  What every failing branch does: the leases are taken back, \<open>extra\<close> is run (the quarantine of a
  publication that was refused), the application becomes \<open>resume_failed\<close>.
\<close>

definition resume_failed ::
    "codecs \<Rightarrow> application_service \<Rightarrow> path \<Rightarrow> resume_run \<Rightarrow> string \<Rightarrow> string \<Rightarrow> (world, unit) prog \<Rightarrow> string \<Rightarrow> pydict \<Rightarrow>
     string \<Rightarrow> path option \<Rightarrow> (world, resume_result) prog" where
  "resume_failed c env project u failure_reason lease_state extra execution_status notes reason status_path =
     (let details = [(''lease_ids'', pstrs (ru_lease_ids u)), (''execution_status'', PStr execution_status)] in
      pbind (invalidate_resume_leases c project (rp_revision_id (ru_revision u)) (ru_lease_ids u) failure_reason
               lease_state) (\<lambda>_.
      pbind extra (\<lambda>_.
      pbind (transition_application c env project (ru_application u) ''resume_failed'' (Some (ru_request u)) details)
        (\<lambda>application.
      pbind (on_disk (save_application_record project application)) (\<lambda>_.
      pbind (record_audit c env project ''resume_failed'' (Some application) (Some (ru_request u)) ''resuming''
               ''resume_failed'' (details @ notes)) (\<lambda>_.
      pret (resume_outcome project u application ''resume_failed'' [reason] status_path None)))))))"

subsection \<open>Publishing the results\<close>

text \<open>\<open>str(task_state.get("validation_result", {}).get("status", ""))\<close>\<close>

definition validation_status :: "pydict \<Rightarrow> string res" where
  "validation_status task_state =
     (case dget_or task_state ''validation_result'' (PDict []) of
        PDict m \<Rightarrow> Inr (fstr m ''status'')
      | v \<Rightarrow> Inl (Exn AttributeError (quoted (type_name v) @ '' object has no attribute '' @ quoted ''get'')))"

definition tasks_of :: "pydict \<Rightarrow> pydict" where
  "tasks_of state = (case dget state ''tasks'' of Some (PDict m) \<Rightarrow> m | _ \<Rightarrow> [])"

definition completed_state :: "pydict \<Rightarrow> string \<Rightarrow> pydict option" where
  "completed_state task_states task_id =
     (case dget_or task_states task_id (PDict []) of
        PDict m \<Rightarrow> if dget m ''status'' = Some (PStr ''completed'') then Some m else None
      | _ \<Rightarrow> None)"

definition task_result_path :: "execution_result \<Rightarrow> string \<Rightarrow> path" where
  "task_result_path x task_id =
     join_path (xr_story_path x @ [''reports'', ''local_execution'', ''tasks'']) task_id @ [''execution.yaml'']"

definition relative_text :: "path \<Rightarrow> path \<Rightarrow> string res" where
  "relative_text project p = (case below project p of
     None \<Rightarrow> value_error (quoted (path_text p) @ '' is not in the subpath of '' @ quoted (path_text project))
   | Some r \<Rightarrow> Inr (if r = [] then ''.'' else join ''/'' r))"

definition read_bytes :: "codecs \<Rightarrow> path \<Rightarrow> disk \<Rightarrow> string res" where
  "read_bytes c p d = (case fs_file d p of
     None \<Rightarrow> not_found (path_text p) | Some content \<Rightarrow> Inr (content_bytes c content))"

definition make_publication ::
    "application_service \<Rightarrow> runtime_plan_revision \<Rightarrow> task_snapshot \<Rightarrow> execution_lease \<Rightarrow> string \<Rightarrow> string \<Rightarrow> string \<Rightarrow>
     (world, task_publication_record) prog" where
  "make_publication env revision task lease artifact checksum status =
     pbind (now_call env) (\<lambda>now.
     pret \<lparr>tp_schema_version = 1, tp_task_id = ts_task_id task, tp_lease_id = el_lease_id lease,
       tp_execution_attempt_id = el_execution_attempt_id lease, tp_revision_id = rp_revision_id revision,
       tp_revision_checksum = rp_revision_checksum revision, tp_result_artifact_path = artifact,
       tp_result_checksum = checksum, tp_validation_status = status, tp_publication_timestamp = now, tp_failure_reason = None\<rparr>)"

definition quarantine ::
    "path \<Rightarrow> execution_lease \<Rightarrow> task_publication_record \<Rightarrow> string \<Rightarrow> (world, unit) prog" where
  "quarantine project lease publication failure_reason =
     pbind (on_disk (pmodify (fs_mkdir (butlast (quarantine_path project (el_lease_id lease)))))) (\<lambda>_.
     on_disk (pmodify (write_yaml (quarantine_path project (el_lease_id lease)) (PDict (al_merge
       (task_publication_record_to_dict publication)
       [(''validation_status'', PStr ''quarantined''), (''failure_reason'', PStr failure_reason)])))))"

text \<open>
  One task: \<open>Inl\<close> is the early return of a failing branch, \<open>Inr\<close> the state with the task
  marked as published.
\<close>

definition publish_task ::
    "codecs \<Rightarrow> application_service \<Rightarrow> path \<Rightarrow> resume_run \<Rightarrow> execution_result \<Rightarrow> task_snapshot \<Rightarrow> pydict \<Rightarrow>
     (world, resume_result + pydict) prog" where
  "publish_task c env project u x task state =
     (let i = ts_task_id task; revision = ru_revision u; status_path = Some (xr_state_path x);
          fail = (\<lambda>reason lease_state status notes.
            pbind (resume_failed c env project u reason lease_state (pret ()) status notes reason status_path)
              (\<lambda>r. pret (Inl r))) in
      case completed_state (tasks_of state) i of
        None \<Rightarrow> fail (''task '' @ i @ '' did not complete'') ''cancelled'' ''partial_result'' [(''task_id'', PStr i)]
      | Some task_state \<Rightarrow>
          let p = task_result_path x i in
          pbind (pget (\<lambda>w. fs_exists (w_disk w) p)) (\<lambda>there.
          if \<not> there then fail (''missing result for '' @ i) ''failed'' ''missing_result'' [(''task_id'', PStr i)]
          else
            pbind (pread (\<lambda>w. read_bytes c p (w_disk w))) (\<lambda>bytes.
            pbind (pread (\<lambda>w. lease_for_task c project (rp_revision_id revision) i (w_disk w))) (\<lambda>lease.
            pbind (pread (\<lambda>w. load_active_pointer c (runtime_active_pointer_path project) (w_disk w))) (\<lambda>pointer.
            pbind (plift (relative_text project p)) (\<lambda>artifact.
            pbind (plift (validation_status task_state)) (\<lambda>status.
            pbind (make_publication env revision task lease artifact (checksum_bytes c bytes) status) (\<lambda>publication.
            pbind (pget (\<lambda>w. validate_publication_gate c project publication lease pointer revision task p bytes
                      (w_disk w))) (\<lambda>gate.
            case gate of
              Inl e \<Rightarrow>
                if exn_class e = OutsideModel then plift (Inl e)
                else
                  pbind (resume_failed c env project u (error_text e) ''stale''
                           (quarantine project lease publication (error_text e)) ''publication_failed''
                           [(''failure_reason'', PStr (error_text e))] (error_text e) status_path) (\<lambda>r. pret (Inl r))
            | Inr _ \<Rightarrow>
                pbind (on_disk (save_publication_record project publication)) (\<lambda>_.
                pbind (plift (lease_with lease [(''lease_state'', PStr ''completed''),
                         (''completion_checksum'', PStr (tp_result_checksum publication))])) (\<lambda>completed.
                pbind (on_disk (save_execution_lease project completed)) (\<lambda>_.
                pret (Inr (al_set ''tasks'' (PDict (al_set i
                  (PDict (al_set ''publication_status'' (PStr ''published'') task_state)) (tasks_of state))) state))))))))))))))"

fun publish_tasks ::
    "codecs \<Rightarrow> application_service \<Rightarrow> path \<Rightarrow> resume_run \<Rightarrow> execution_result \<Rightarrow> task_snapshot list \<Rightarrow> pydict \<Rightarrow>
     (world, resume_result + pydict) prog" where
  "publish_tasks c env project u x [] state = pret (Inr state)"
| "publish_tasks c env project u x (task # tasks) state =
     pbind (publish_task c env project u x task state) (\<lambda>outcome.
     case outcome of
       Inl r \<Rightarrow> pret (Inl r)
     | Inr state \<Rightarrow> publish_tasks c env project u x tasks state)"

definition finish_resume ::
    "codecs \<Rightarrow> application_service \<Rightarrow> path \<Rightarrow> resume_run \<Rightarrow> execution_result \<Rightarrow> pydict \<Rightarrow> (world, resume_result) prog" where
  "finish_resume c env project u x state =
     (let details = [(''lease_ids'', pstrs (ru_lease_ids u))]; revision = ru_revision u in
      pbind (on_disk (pmodify (write_yaml (xr_state_path x) (PDict state)))) (\<lambda>_.
      pbind (transition_application c env project (ru_application u) ''resumed'' (Some (ru_request u)) details)
        (\<lambda>application.
      pbind (plift (application_with application
        [(''revision_id'', PStr (rp_revision_id revision)), (''revision_checksum'', PStr (rp_revision_checksum revision)),
         (''active_revision_id'', PStr (rp_revision_id revision)),
         (''resume'', PDict (resume_eligibility_to_dict (ru_eligibility u)))])) (\<lambda>application.
      pbind (on_disk (save_application_record project application)) (\<lambda>_.
      pbind (record_audit c env project ''resume'' (Some application) (Some (ru_request u)) ''resuming'' ''resumed''
               details) (\<lambda>_.
      pret (resume_outcome project u application ''resumed'' (re_reasons (ru_eligibility u))
              (Some (xr_state_path x)) (Some (xr_state_path x)))))))))"

definition publish_results ::
    "codecs \<Rightarrow> application_service \<Rightarrow> path \<Rightarrow> resume_run \<Rightarrow> execution_result \<Rightarrow> (world, resume_result) prog" where
  "publish_results c env project u x =
     (let status_path = Some (xr_state_path x) in
      if xr_status x \<noteq> ''completed'' then
        resume_failed c env project u (''execution status '' @ xr_status x) ''cancelled'' (pret ()) (xr_status x) []
          (xr_status x) status_path
      else
        pbind (pread (\<lambda>w. case fs_file (w_disk w) (xr_state_path x) of
            None \<Rightarrow> not_found (path_text (xr_state_path x)) | Some content \<Rightarrow> yaml_value c content)) (\<lambda>v.
        case v of
          PDict state \<Rightarrow>
            pbind (publish_tasks c env project u x (ru_tasks u) state) (\<lambda>outcome.
            case outcome of
              Inl r \<Rightarrow> pret r
            | Inr state \<Rightarrow> finish_resume c env project u x state)
        | _ \<Rightarrow> resume_failed c env project u ''execution state was not a mapping'' ''failed'' (pret ())
                 ''invalid_state'' [] ''execution state invalid'' status_path))"

definition resume ::
    "codecs \<Rightarrow> application_service \<Rightarrow> runner \<Rightarrow> path \<Rightarrow> string \<Rightarrow> (world, resume_result) prog" where
  "resume c env runner project request_id =
     pbind (start_resume c env project request_id) (\<lambda>u.
     pbind (ptry
        (pbind (run_runtime_revision_execution runner project (rq_story (ru_request u)) (ru_revision u)
                  (Some (map ts_task_id (ru_tasks u))) (build_resume_initial_state (ru_revision u)))
           (\<lambda>x. pret (Inr (rx_result x))))
        (\<lambda>e. if exn_class e = OutsideModel then plift (Inl e) else pret (Inl e))) (\<lambda>execution.
     case execution of
       Inl e \<Rightarrow> resume_failed c env project u (error_text e) ''failed'' (pret ()) ''exception''
                  [(''failure_reason'', PStr (error_text e))] (error_text e) None
     | Inr x \<Rightarrow> publish_results c env project u x))"

definition format_resume_result :: "resume_result \<Rightarrow> string" where
  "format_resume_result r = join newline
     ([''Application: '' @ rz_application_id r, ''Revision: '' @ rz_revision_id r, ''Status: '' @ rz_status r,
       ''Task IDs: '' @ (if rz_task_ids r \<noteq> [] then join '', '' (rz_task_ids r) else ''none''),
       ''Lease IDs: '' @ (if rz_lease_ids r \<noteq> [] then join '', '' (rz_lease_ids r) else ''none'')]
      @ (if rz_reasons r \<noteq> [] then [''Reasons: '' @ join '', '' (rz_reasons r)] else []))"

end
