(* ===== verification/LocalExecution.thy ===== *)
theory LocalExecution
  imports LocalModel SubtaskContext AppResume
begin

text \<open>
  \<open>local_execution.py\<close>, first part: the models of the roles, the response of a model and the
  files it asks for, the state of an execution and the run of the sub-tasks of a story.

  A run keeps the state of the story (a mapping, written to \<open>state.yaml\<close> again and again), the
  audit of the task that is being executed and the paths it attempted; an exception leaves them as
  they are at that point, and the handlers read them. The audit in the state and the one that is
  updated are one object in the code; the model updates the state where the code assigns it,
  since no reader comes in between.
\<close>

subsection \<open>Roles and models\<close>

definition ROLE_TO_AGENT_ID :: "(string \<times> string) list" where
  "ROLE_TO_AGENT_ID =
     [(''research'', ''research_agent''), (''planner'', ''planner_agent''), (''developer'', ''developer_agent''),
      (''test'', ''test_agent''), (''documentation'', ''docs_agent''), (''docs'', ''docs_agent''),
      (''security_quality'', ''security_quality_agent''), (''local_reviewer'', ''local_reviewer_agent'')]"

definition AGENT_ID_TO_ROLE :: "(string \<times> string) list" where
  "AGENT_ID_TO_ROLE =
     [(''research_agent'', ''research''), (''planner_agent'', ''planner''), (''developer_agent'', ''developer''),
      (''test_agent'', ''test''), (''docs_agent'', ''documentation''), (''security_quality_agent'', ''security_quality''),
      (''local_reviewer_agent'', ''local_reviewer'')]"

definition lookup_or :: "(string \<times> string) list \<Rightarrow> string \<Rightarrow> string \<Rightarrow> string" where
  "lookup_or m k dflt = (case map_of m k of None \<Rightarrow> dflt | Some v \<Rightarrow> v)"

definition text_value :: "pydict \<Rightarrow> string \<Rightarrow> string \<Rightarrow> string" where
  "text_value mapping key dflt = (case dget_or mapping key PNone of PNone \<Rightarrow> dflt | v \<Rightarrow> py_str v)"

definition normalize_role_name :: "string \<Rightarrow> string res" where
  "normalize_role_name role =
     (let normalized = strip role;
          of_agent = (\<lambda>i. case map_of AGENT_ID_TO_ROLE i of Some r \<Rightarrow> Inr r | None \<Rightarrow> Inl (Exn KeyError (repr_str i))) in
      case map_of ROLE_TO_AGENT_ID normalized of
        Some agent_id \<Rightarrow> of_agent agent_id
      | None \<Rightarrow>
          if normalized \<in> fst ` set AGENT_ID_TO_ROLE then of_agent normalized
          else value_error (''Unsupported role: '' @ role))"

definition canonical_role :: "pydict \<Rightarrow> string res" where
  "canonical_role agent =
     (let role = text_value agent ''role'' [] in
      if role \<noteq> [] then normalize_role_name role
      else Inr (lookup_or AGENT_ID_TO_ROLE (text_value agent ''id'' []) (text_value agent ''id'' [])))"

record resolved_role_model =
  rr_role :: string
  rr_agent_id :: string
  rr_model :: "string option"
  rr_source :: string

text \<open>A text with something in it, stripped.\<close>

definition stripped :: "pyval \<Rightarrow> string option" where
  "stripped v = (case v of PStr s \<Rightarrow> if strip s \<noteq> [] then Some (strip s) else None | _ \<Rightarrow> None)"

definition resolve_role_model :: "codecs \<Rightarrow> path \<Rightarrow> pydict \<Rightarrow> disk \<Rightarrow> resolved_role_model res" where
  "resolve_role_model c project agent d =
     rbind (load_runtime_config c project d) (\<lambda>(_, runtime_config).
     rbind (canonical_role agent) (\<lambda>role_name.
     let agent_id = text_value agent ''id'' []; blueprint_model = strip (text_value agent ''model'' []);
         resolved = (\<lambda>model source. Inr \<lparr>rr_role = role_name, rr_agent_id = agent_id, rr_model = model, rr_source = source\<rparr>) in
     if blueprint_model \<noteq> [] then resolved (Some blueprint_model) ''blueprint override''
     else
       let (role_defaults, global_default) = (case dget_or runtime_config ''local_execution'' PNone of
             PDict m \<Rightarrow> (py_or (dget_or m ''role_defaults'' PNone) (PDict []), dget_or m ''global_default_model'' PNone)
           | _ \<Rightarrow> (PDict [], PNone));
           role_model = (case role_defaults of PDict m \<Rightarrow> stripped (dget_or m role_name PNone) | _ \<Rightarrow> None) in
       case role_model of
         Some m \<Rightarrow> resolved (Some m) ''runtime role default''
       | None \<Rightarrow> (case stripped global_default of
           Some m \<Rightarrow> resolved (Some m) ''global local-model default''
         | None \<Rightarrow> resolved None ''unresolved'')))"

definition resolve_subtask_model :: "codecs \<Rightarrow> path \<Rightarrow> blueprint_subtask \<Rightarrow> disk \<Rightarrow> resolved_role_model res" where
  "resolve_subtask_model c project task d =
     resolve_role_model c project
       [(''id'', PStr (lookup_or ROLE_TO_AGENT_ID (bs_role task) (bs_role task))), (''role'', PStr (bs_role task))] d"

subsection \<open>The tasks of a role\<close>

lemma rbind_cong [fundef_cong]:
  "r = r' \<Longrightarrow> (\<And>x. r' = Inr x \<Longrightarrow> f x = g x) \<Longrightarrow> rbind r f = rbind r' g"
  by (cases r') auto

text \<open>The tasks that are needed: those of the role, and what they depend on.\<close>

function needed_tasks :: "(string \<times> blueprint_subtask) list \<Rightarrow> string list \<Rightarrow> string list res" where
  "needed_tasks by_id needed =
     rbind (rmap_list (\<lambda>i. case map_of by_id i of
         None \<Rightarrow> Inl (Exn KeyError (repr_str i)) | Some t \<Rightarrow> Inr (bs_depends_on t)) needed) (\<lambda>deps.
     let new = filter (\<lambda>i. i \<notin> set needed) (dedup (concat deps)) in
     if new = [] then Inr needed else needed_tasks by_id (needed @ new))"
  by pat_completeness auto
termination
proof (relation "measure (\<lambda>(by_id, needed). card (\<Union> (set ` bs_depends_on ` snd ` set by_id) - set needed))")
  fix by_id :: "(string \<times> blueprint_subtask) list" and needed new deps
  assume deps: "rmap_list (\<lambda>i. case map_of by_id i of
      None \<Rightarrow> Inl (Exn KeyError (repr_str i)) | Some t \<Rightarrow> Inr (bs_depends_on t)) needed = Inr deps"
    and new: "new = filter (\<lambda>i. i \<notin> set needed) (dedup (concat deps))" "new \<noteq> []"
  let ?all = "\<Union> (set ` bs_depends_on ` snd ` set by_id)"
  have "set x \<subseteq> ?all" if x: "x \<in> set deps" for x
  proof -
    from x rmap_list_set [OF deps] obtain i where "(case map_of by_id i of
      None \<Rightarrow> Inl (Exn KeyError (repr_str i)) | Some t \<Rightarrow> Inr (bs_depends_on t)) = Inr x" by blast
    then obtain t where t: "map_of by_id i = Some t" "bs_depends_on t = x" by (auto split: option.splits)
    then have "t \<in> snd ` set by_id" by (force dest: map_of_SomeD)
    with t(2) show ?thesis by blast
  qed
  then have sub: "set new \<subseteq> ?all" using new(1) by auto
  moreover have "set new \<inter> set needed = {}" using new(1) by auto
  moreover from new(2) obtain x where "x \<in> set new" by fastforce
  ultimately have "x \<in> ?all - set needed" "x \<notin> ?all - set (needed @ new)" "?all - set (needed @ new) \<subseteq> ?all - set needed"
    by auto
  then have "?all - set (needed @ new) \<subset> ?all - set needed" by blast
  then have "card (?all - set (needed @ new)) < card (?all - set needed)" by (rule psubset_card_mono [rotated]) simp
  then show "((by_id, needed @ new), by_id, needed)
      \<in> measure (\<lambda>(by_id, needed). card (\<Union> (set ` bs_depends_on ` snd ` set by_id) - set needed))"
    by simp
qed simp

declare needed_tasks.simps [simp del]

definition selected_subtasks :: "blueprint_subtask list \<Rightarrow> string option \<Rightarrow> blueprint_subtask list res" where
  "selected_subtasks subtasks role = (case role of
     None \<Rightarrow> Inr subtasks
   | Some r \<Rightarrow>
       rbind (normalize_role_name r) (\<lambda>requested.
       let selected_ids = dedup (map bs_id (filter (\<lambda>t. bs_role t = requested) subtasks)) in
       if selected_ids \<noteq> []
       then rbind (needed_tasks (subtask_dict subtasks) selected_ids) (\<lambda>needed.
         Inr (filter (\<lambda>t. bs_id t \<in> set needed) subtasks))
       else value_error (''Role is not assigned to any sub-task: '' @ r @ ''. Available roles: ''
         @ join '', '' (sorted_set (map bs_role subtasks)))))"

subsection \<open>The response of a model\<close>

definition normalize_execution_response :: "string \<Rightarrow> string res" where
  "normalize_execution_response response_text =
     (let text = strip response_text; lines = splitlines text in
      case lines of
        [] \<Rightarrow> Inr text
      | first # rest \<Rightarrow>
          let opening_fence = strip first in
          if \<not> starts_with fence opening_fence then Inr text
          else if lower (strip (drop 3 opening_fence)) \<notin> {[], ''yaml'', ''yml''}
          then value_error (''Local execution response must be raw YAML or a single outer '' @ fence
            @ ''yaml fenced YAML document.'')
          else if rest = [] then value_error ''Local execution response fence is incomplete.''
          else if strip (last rest) \<noteq> fence
          then value_error ''Local execution response contained prose or extra content outside the outer YAML fence.''
          else Inr (strip (join newline (butlast rest))))"

text \<open>\<open>normalize_relative_path\<close>\<close>

definition response_path :: "string \<Rightarrow> string res" where
  "response_path text =
     (let normalized = replace_char (CHR 0x5C) (CHR ''/'') text in
      if is_absolute normalized \<or> ''..'' \<in> set (posix_parts normalized)
      then value_error (''Only relative project paths are allowed: '' @ text)
      else Inr (as_posix normalized))"

definition response_file :: "pyval \<Rightarrow> (string \<times> string) res" where
  "response_file entry = (case entry of
     PDict m \<Rightarrow> (case dget_or m ''path'' PNone of
         PStr path \<Rightarrow>
           if strip path = [] then value_error ''Each local execution file entry must include a non-empty path.''
           else (case dget_or m ''content'' PNone of
               PStr content \<Rightarrow> rbind (response_path path) (\<lambda>p. Inr (p, content))
             | _ \<Rightarrow> value_error ''Each local execution file entry must include string content.'')
       | _ \<Rightarrow> value_error ''Each local execution file entry must include a non-empty path.'')
   | _ \<Rightarrow> value_error ''Each local execution file entry must be a mapping.'')"

text \<open>The report and the files, each with its path and content.\<close>

definition parse_execution_mapping :: "pydict \<Rightarrow> (string \<times> (string \<times> string) list) res" where
  "parse_execution_mapping loaded =
     (if stripped (dget_or loaded ''report'' PNone) = None
      then value_error ''Local execution response must include a non-empty report field.''
      else rbind (case dget_or loaded ''files'' PNone of
            PNone \<Rightarrow> Inr []
          | PList files \<Rightarrow> rmap_list response_file files
          | _ \<Rightarrow> value_error ''Local execution response files field must be a list.'') (\<lambda>files.
        Inr (py_str (dget_or loaded ''report'' PNone), files)))"

definition parse_execution_response :: "codecs \<Rightarrow> string \<Rightarrow> (string \<times> (string \<times> string) list) res" where
  "parse_execution_response c response_text =
     rbind (normalize_execution_response response_text) (\<lambda>text.
     case yaml_load c text of
       Inl e \<Rightarrow> if exn_class e = YAMLError
         then value_error (''Local execution response was not valid YAML: '' @ exn_msg e) else Inl e
     | Inr (PDict loaded) \<Rightarrow> parse_execution_mapping loaded
     | Inr _ \<Rightarrow> value_error ''Local execution response must be a YAML mapping.'')"

record execution_response =
  er_report :: string
  er_files :: "(string \<times> string) list"
  er_handoff_summary :: pydict

definition handoff_mapping :: "pyval \<Rightarrow> pydict res" where
  "handoff_mapping loaded = (case loaded of
     PDict m \<Rightarrow> (case dget_or m ''handoff_summary'' PNone of
         PNone \<Rightarrow> Inr []
       | PDict h \<Rightarrow> Inr h
       | _ \<Rightarrow> value_error ''Local sub-task response handoff_summary field must be a mapping.'')
   | _ \<Rightarrow> Inr [])"

definition parse_subtask_execution_response :: "codecs \<Rightarrow> string \<Rightarrow> execution_response res" where
  "parse_subtask_execution_response c response_text =
     rbind (parse_execution_response c response_text) (\<lambda>(report, files).
     rbind (normalize_execution_response response_text) (\<lambda>text.
     rbind (yaml_load c text) (\<lambda>loaded.
     rbind (handoff_mapping loaded) (\<lambda>handoff_summary.
     Inr \<lparr>er_report = report, er_files = files, er_handoff_summary = handoff_summary\<rparr>))))"

subsection \<open>Files a response asks for\<close>

definition unauthorized_paths :: "string list \<Rightarrow> string list \<Rightarrow> string list" where
  "unauthorized_paths paths writable_paths =
     (if writable_paths = [] then paths
      else filter (\<lambda>p. \<not> list_ex (fnmatchcase p) writable_paths) paths)"

definition is_relative_to :: "path \<Rightarrow> path \<Rightarrow> bool" where
  "is_relative_to p parent \<longleftrightarrow> below parent p \<noteq> None"

fun existing_parent :: "disk \<Rightarrow> string list \<Rightarrow> path" where
  "existing_parent d [] = []"
| "existing_parent d (c # up) = (if fs_exists d (rev (c # up)) then rev (c # up) else existing_parent d up)"

definition validate_write_destination :: "path \<Rightarrow> path \<Rightarrow> disk \<Rightarrow> unit res" where
  "validate_write_destination project destination d =
     (if \<not> is_relative_to (lexical destination) project
      then Inl (Exn PermissionError (''Write destination escapes project root: '' @ path_text destination))
      else if \<not> is_relative_to (lexical (existing_parent d (rev destination))) project
      then Inl (Exn PermissionError (''Write destination parent escapes project root: '' @ path_text destination))
      else Inr ())"

text \<open>
  \<open>path.parent.mkdir(parents=True, exist_ok=True)\<close> and \<open>path.write_text\<close> raise where a file
  stands in the way of a directory, or a directory in the way of the file.
\<close>

definition write_file :: "path \<Rightarrow> string \<Rightarrow> (disk, unit) prog" where
  "write_file p text = (\<lambda>d.
     if fs_file d (butlast p) \<noteq> None then (Inl (Exn FileExistsError (path_text (butlast p))), d)
     else if list_ex (\<lambda>q. fs_file d q \<noteq> None) (parents p) then (Inl (Exn NotADirectoryError (path_text (butlast p))), d)
     else if fs_is_dir d (lexical p) then (Inl (Exn IsADirectoryError (path_text p)), fs_mkdir (butlast p) d)
     else (Inr (), write_text p text d))"

definition apply_execution_writes ::
    "path \<Rightarrow> (string \<times> string) list \<Rightarrow> (path \<times> string) option \<Rightarrow> (disk, path list) prog" where
  "apply_execution_writes project files report =
     (let planned = map (\<lambda>(p, content). (join_path project p, content)) files
            @ (case report of None \<Rightarrow> [] | Some r \<Rightarrow> [r]) in
      pbind (pread (\<lambda>d. rmap_list (\<lambda>(p, _). validate_write_destination (lexical project) p d) planned)) (\<lambda>_.
      pfold (\<lambda>(p, content) applied. pbind (write_file p content) (\<lambda>_. pret (applied @ [p]))) planned []))"

definition relative_to_project :: "path \<Rightarrow> path \<Rightarrow> string res" where
  "relative_to_project project p = (case below (lexical project) (lexical p) of
     None \<Rightarrow> value_error (quoted (path_text p) @ '' is not in the subpath of '' @ quoted (path_text project))
   | Some r \<Rightarrow> Inr (if r = [] then ''.'' else join ''/'' r))"

definition classify_value_error :: "string \<Rightarrow> string" where
  "classify_value_error text =
     (let message = lower text in
      if contains ''empty response'' message then ''empty_response''
      else if contains ''enabled must be true'' message then ''runtime_disabled''
      else if contains ''must be configured before calling a local model'' message
        \<or> contains ''runtime validation failed'' message \<or> contains ''request failed'' message
        \<or> contains ''response was not valid json'' message then ''configuration_error''
      else ''malformed_response'')"

end
