(* ===== verification/LocalRun.thy ===== *)
theory LocalRun
  imports LocalExecution
begin

text \<open>
  \<open>local_execution.py\<close>, second part: \<open>run_subtask_local_execution\<close>, which executes the sub-tasks of
  a story in the order of their dependencies and records every step in the state of the story.
\<close>

subsection \<open>The state of a run\<close>

record exec_run =
  xs_world :: world
  xs_state :: pydict
  xs_audit :: pydict
  xs_attempted :: "string list"

definition in_world :: "(world, 'a) prog \<Rightarrow> (exec_run, 'a) prog" where
  "in_world m = (\<lambda>s. case m (xs_world s) of (r, w) \<Rightarrow> (r, s\<lparr>xs_world := w\<rparr>))"

definition on_run_disk :: "(disk \<Rightarrow> disk) \<Rightarrow> (exec_run, unit) prog" where
  "on_run_disk f = in_world (on_disk (pmodify f))"

definition run_disk :: "exec_run \<Rightarrow> disk" where
  "run_disk s = w_disk (xs_world s)"

text \<open>\<open>state[key] = value\<close>, \<open>audit[key] = value\<close>\<close>

definition set_state :: "string \<Rightarrow> pyval \<Rightarrow> (exec_run, unit) prog" where
  "set_state key v = pmodify (\<lambda>s. s\<lparr>xs_state := al_set key v (xs_state s)\<rparr>)"

definition set_audit :: "string \<Rightarrow> pyval \<Rightarrow> (exec_run, unit) prog" where
  "set_audit key v = pmodify (\<lambda>s. s\<lparr>xs_audit := al_set key v (xs_audit s)\<rparr>)"

definition set_attempted :: "string list \<Rightarrow> (exec_run, unit) prog" where
  "set_attempted ps = pmodify (\<lambda>s. s\<lparr>xs_attempted := ps\<rparr>)"

definition set_all :: "(string \<Rightarrow> pyval \<Rightarrow> (exec_run, unit) prog) \<Rightarrow> (string \<times> pyval) list \<Rightarrow> (exec_run, unit) prog" where
  "set_all f kvs = pfold (\<lambda>(k, v) _. f k v) kvs ()"

text \<open>\<open>state.setdefault(key, {})[i] = audit\<close>\<close>

definition store_audit :: "string \<Rightarrow> string \<Rightarrow> (exec_run, unit) prog" where
  "store_audit key i = (\<lambda>s. case dget_or (xs_state s) key (PDict []) of
     PDict m \<Rightarrow> (Inr (), s\<lparr>xs_state := al_set key (PDict (al_set i (PDict (xs_audit s)) m)) (xs_state s)\<rparr>)
   | v \<Rightarrow> (type_error (quoted (type_name v) @ '' object does not support item assignment''), s))"

definition write_state :: "path \<Rightarrow> (exec_run, unit) prog" where
  "write_state state_path = (\<lambda>s. on_run_disk (fs_write state_path (Doc (PDict (xs_state s)))) s)"

definition write_audit :: "path \<Rightarrow> (exec_run, unit) prog" where
  "write_audit execution_yaml_path = (\<lambda>s. on_run_disk (fs_write execution_yaml_path (Doc (PDict (xs_audit s)))) s)"

text \<open>
  \<open>items = list(state.get(key, [])); if i not in items: items.append(i); state[key] = items\<close>,
  and the items without \<open>i\<close>.
\<close>

definition add_once :: "string \<Rightarrow> string \<Rightarrow> (exec_run, unit) prog" where
  "add_once key i =
     pbind (pread (\<lambda>s. py_iter (dget_or (xs_state s) key (PList [])))) (\<lambda>items.
     set_state key (PList (if PStr i \<in> set items then items else items @ [PStr i])))"

definition drop_item :: "string \<Rightarrow> string \<Rightarrow> (exec_run, unit) prog" where
  "drop_item key i =
     pbind (pread (\<lambda>s. py_iter (dget_or (xs_state s) key (PList [])))) (\<lambda>items.
     set_state key (PList (filter (\<lambda>v. v \<noteq> PStr i) items)))"

text \<open>A body, and what runs after it in any case; an exception of the latter replaces its result.\<close>

definition finally_do :: "('s, 'a) prog \<Rightarrow> ('s, unit) prog \<Rightarrow> ('s, 'a) prog" where
  "finally_do m f = (\<lambda>s. case m s of (r, t) \<Rightarrow> (case f t of (Inl e, u) \<Rightarrow> (Inl e, u) | (Inr _, u) \<Rightarrow> (r, u)))"

subsection \<open>The state of a story\<close>

definition initial_task_state :: "blueprint_subtask \<Rightarrow> pydict" where
  "initial_task_state task =
     [(''task_id'', PStr (bs_id task)), (''title'', PStr (bs_title task)), (''role'', PStr (bs_role task)),
      (''dependencies'', pstrs (bs_depends_on task)), (''status'', PStr ''pending''), (''attempt'', PInt 0),
      (''outputs'', PList []), (''handoff_summary'', PDict [])]"

definition setdefault :: "string \<Rightarrow> pyval \<Rightarrow> pydict \<Rightarrow> pydict" where
  "setdefault key v m = (if dget m key = None then al_set key v m else m)"

definition initialize_subtask_state :: "pydict \<Rightarrow> string \<Rightarrow> blueprint_subtask list \<Rightarrow> pydict res" where
  "initialize_subtask_state existing_state story ordered_tasks =
     (if existing_state \<noteq> [] then
        let state = setdefault ''tasks'' (PDict []) existing_state in
        case dget_or state ''tasks'' PNone of
          PDict m \<Rightarrow> Inr (al_set ''tasks'' (PDict (foldl (\<lambda>m t. setdefault (bs_id t) (PDict (initial_task_state t)) m)
            m ordered_tasks)) state)
        | v \<Rightarrow> if ordered_tasks = [] then Inr state
            else Inl (Exn AttributeError (quoted (type_name v) @ '' object has no attribute '' @ quoted ''setdefault''))
      else Inr
        [(''story'', PStr story), (''status'', PStr ''pending''), (''current_task'', PNone), (''completed_tasks'', PList []),
         (''blocked_tasks'', PList []), (''cloud_redecomposition_required_tasks'', PList []),
         (''execution_order'', pstrs (map bs_id ordered_tasks)),
         (''tasks'', PDict (al_merge [] (map (\<lambda>t. (bs_id t, PDict (initial_task_state t))) ordered_tasks))),
         (''final_validation'', PDict [(''status'', PStr ''pending''), (''requirements_checked'', PList []),
            (''missing_requirements'', PList [])])])"

definition load_execution_state :: "codecs \<Rightarrow> path \<Rightarrow> disk \<Rightarrow> pydict res" where
  "load_execution_state c state_path d =
     (if \<not> fs_exists d state_path then Inr []
      else case fs_file d state_path of
        None \<Rightarrow> Inl (Exn IsADirectoryError (path_text state_path))
      | Some content \<Rightarrow> rbind (yaml_value c content) (\<lambda>v. Inr (case v of PDict m \<Rightarrow> m | _ \<Rightarrow> [])))"

text \<open>\<open>state.get("tasks")\<close> as a mapping\<close>

definition tasks_of_state :: "pydict \<Rightarrow> pydict" where
  "tasks_of_state state = (case dget_or state ''tasks'' PNone of PDict m \<Rightarrow> m | _ \<Rightarrow> [])"

definition base_subtask_audit :: "blueprint_subtask \<Rightarrow> string option \<Rightarrow> string \<Rightarrow> int \<Rightarrow> pydict" where
  "base_subtask_audit task model model_source attempt =
     (let budget = bs_context_budget task in
      [(''task_id'', PStr (bs_id task)), (''title'', PStr (bs_title task)), (''role'', PStr (bs_role task)),
       (''provider'', PStr ''local''), (''model'', opt_str model), (''model_source'', PStr model_source),
       (''dependencies'', pstrs (bs_depends_on task)), (''requirement_ids'', pstrs (bs_requirement_ids task)),
       (''attempt'', PInt attempt), (''started_at'', PStr []), (''completed_at'', PStr []),
       (''duration_seconds'', PInt 0), (''prompt_hash'', PStr []), (''context_file'', PStr []),
       (''estimated_input_tokens'', PNone), (''usable_input_tokens'', PInt (usable_input_tokens budget)),
       (''reserved_output_tokens'', PInt (cb_reserved_output_tokens budget)),
       (''required_context_must_fit'', PBool (cb_required_context_must_fit budget)),
       (''allow_required_context_trimming'', PBool (cb_allow_required_context_trimming budget)),
       (''oversized_task_policy'', PStr (cb_oversized_task_policy budget)), (''finish_reason'', PNone),
       (''status'', PStr ''running''), (''failure_type'', PNone), (''blocking_reason'', PNone),
       (''outputs'', PList []), (''handoff_summary'', PDict []),
       (''validation_result'', PDict [(''status'', PStr ''pending''), (''checks'', pstrs (bs_validation task))])])"

subsection \<open>Outcomes of a task\<close>

fun first_blocking_dependency :: "pydict \<Rightarrow> string list \<Rightarrow> string option res" where
  "first_blocking_dependency task_states [] = Inr None"
| "first_blocking_dependency task_states (i # is) =
     rbind (state_field task_states i ''status'') (\<lambda>s.
     if s \<noteq> PStr ''completed'' then Inr (Some i) else first_blocking_dependency task_states is)"

text \<open>\<open>state.setdefault("tasks", {}).setdefault(task.id, initial_task_state(task))\<close>, as a mapping\<close>

definition task_entry :: "blueprint_subtask \<Rightarrow> (exec_run, pydict) prog" where
  "task_entry task = (\<lambda>s. case dget_or (xs_state s) ''tasks'' (PDict []) of
     PDict m \<Rightarrow>
       let m = setdefault (bs_id task) (PDict (initial_task_state task)) m in
       (case dget_or m (bs_id task) PNone of
          PDict t \<Rightarrow> Inr t
        | v \<Rightarrow> Inl (Exn AttributeError (quoted (type_name v) @ '' object has no attribute '' @ quoted ''get'')),
        s\<lparr>xs_state := al_set ''tasks'' (PDict m) (xs_state s)\<rparr>)
   | v \<Rightarrow> (Inl (Exn AttributeError (quoted (type_name v) @ '' object has no attribute '' @ quoted ''setdefault'')), s))"

definition update_task_entry :: "string \<Rightarrow> pydict \<Rightarrow> (exec_run, unit) prog" where
  "update_task_entry i entry = pmodify (\<lambda>s. s\<lparr>xs_state :=
     al_set ''tasks'' (PDict (al_set i (PDict entry) (tasks_of_state (xs_state s)))) (xs_state s)\<rparr>)"

definition block_subtask :: "path \<Rightarrow> blueprint_subtask \<Rightarrow> string \<Rightarrow> string \<Rightarrow> (exec_run, unit) prog" where
  "block_subtask state_path task failure_type summary =
     pbind (task_entry task) (\<lambda>entry.
     pbind (update_task_entry (bs_id task) (al_merge entry
       [(''status'', PStr ''blocked''), (''failure_type'', PStr failure_type), (''blocking_reason'', PStr summary),
        (''summary'', PStr summary)])) (\<lambda>_.
     pbind (add_once ''blocked_tasks'' (bs_id task)) (\<lambda>_.
     pbind (set_all set_state [(''status'', PStr ''blocked''), (''current_task'', PStr (bs_id task))]) (\<lambda>_.
     write_state state_path))))"

definition fail_subtask :: "path \<Rightarrow> blueprint_subtask \<Rightarrow> string \<Rightarrow> string \<Rightarrow> (exec_run, unit) prog" where
  "fail_subtask state_path task failure_type summary =
     pbind (set_all set_audit
       [(''status'', PStr (if failure_type \<noteq> ''file_boundary_violation'' then ''failed'' else ''blocked'')),
        (''failure_type'', PStr failure_type), (''summary'', PStr summary), (''blocking_reason'', PStr summary)]) (\<lambda>_.
     pbind (set_all set_state [(''status'', PStr ''blocked''), (''current_task'', PStr (bs_id task))]) (\<lambda>_.
     pbind (add_once ''blocked_tasks'' (bs_id task)) (\<lambda>_.
     pbind (store_audit ''tasks'' (bs_id task)) (\<lambda>_.
     write_state state_path))))"

definition mark_cloud_redecomposition_required :: "path \<Rightarrow> blueprint_subtask \<Rightarrow> (exec_run, unit) prog" where
  "mark_cloud_redecomposition_required state_path task =
     (let reason = ''Required context estimate exceeds usable input budget; cloud ''
            @ ''redecomposition is required before local execution.'' in
      pbind (set_all set_audit
        [(''status'', PStr ''cloud_redecomposition_required''), (''failure_type'', PStr ''context_over_budget''),
         (''blocking_reason'', PStr reason), (''summary'', PStr reason), (''local_agent_may_redecompose'', PBool False)]) (\<lambda>_.
      pbind (set_all set_state [(''status'', PStr ''blocked''), (''current_task'', PStr (bs_id task))]) (\<lambda>_.
      pbind (add_once ''blocked_tasks'' (bs_id task)) (\<lambda>_.
      pbind (add_once ''cloud_redecomposition_required_tasks'' (bs_id task)) (\<lambda>_.
      pbind (store_audit ''tasks'' (bs_id task)) (\<lambda>_.
      write_state state_path))))))"

definition complete_subtask :: "string \<Rightarrow> (exec_run, unit) prog" where
  "complete_subtask task_id =
     pbind (add_once ''completed_tasks'' task_id) (\<lambda>_.
     pbind (drop_item ''blocked_tasks'' task_id) (\<lambda>_.
     drop_item ''cloud_redecomposition_required_tasks'' task_id))"

definition normalized_handoff_summary :: "pydict \<Rightarrow> string list \<Rightarrow> pydict" where
  "normalized_handoff_summary handoff applied_paths =
     foldl (\<lambda>m (k, v). setdefault k v m) handoff
       [(''decisions'', PList []), (''files_changed'', pstrs applied_paths), (''outputs_produced'', pstrs applied_paths),
        (''tests_run'', PList []), (''unresolved_risks'', PList []), (''available_to_dependents'', PBool True)]"

definition completed_subtask_validation_result :: "blueprint_subtask \<Rightarrow> pydict \<Rightarrow> pydict" where
  "completed_subtask_validation_result task audit =
     (let handoff_ok = (case dget_or audit ''handoff_summary'' PNone of
            PDict h \<Rightarrow> list_all (\<lambda>k. dget h k \<noteq> None) [''decisions'', ''files_changed'', ''outputs_produced'', ''tests_run'',
              ''unresolved_risks'', ''available_to_dependents'']
          | _ \<Rightarrow> False);
          checks = [(truthy (dget_or audit ''context_sections'' PNone), ''context_sections_recorded''),
            (truthy (dget_or audit ''outputs'' PNone), ''outputs_recorded''), (handoff_ok, ''handoff_summary_recorded'')];
          missing = map snd (filter (\<lambda>(b, _). \<not> b) checks) in
      [(''status'', PStr (if missing = [] then ''passed'' else ''failed'')), (''checks'', pstrs (bs_validation task)),
       (''verified'', pstrs (map snd (filter fst checks)
          @ (if bs_validation task \<noteq> [] then [''declared_validation_checks_recorded''] else []))),
       (''missing'', pstrs missing)])"

definition audit_context :: "codecs \<Rightarrow> path \<Rightarrow> path \<Rightarrow> assembled_context \<Rightarrow> (exec_run, unit) prog" where
  "audit_context c project context_path assembled =
     pbind (on_run_disk (fs_write context_path (Text (as_prompt assembled)))) (\<lambda>_.
     pbind (plift (relative_to_project project context_path)) (\<lambda>context_file.
     set_all set_audit
       [(''context_file'', PStr context_file),
        (''context_sections'', PList (map (\<lambda>s. PDict [(''name'', PStr (cs_name s)), (''provenance'', PStr (cs_provenance s)),
           (''mandatory'', PBool (cs_mandatory s))]) (as_sections assembled))),
        (''estimated_input_tokens'', PInt (int (as_estimated_input_tokens assembled))),
        (''usable_input_tokens'', PInt (as_usable_input_tokens assembled)),
        (''prompt_hash'', PStr (sha256_hex c (as_prompt assembled)))]))"

subsection \<open>Executing a task\<close>

text \<open>The folder of a task; its identifier may be any text.\<close>

definition task_folder :: "path \<Rightarrow> string \<Rightarrow> path" where
  "task_folder execution_path i = join_path (execution_path @ [''tasks'']) i"

definition now_text :: "local_env \<Rightarrow> (exec_run, string) prog" where
  "now_text env = in_world (\<lambda>w. (Inr (lx_now env (w_clock w)), w\<lparr>w_clock := Suc (w_clock w)\<rparr>))"

text \<open>The response of the model, up to the files it asks for.\<close>

definition task_response ::
    "codecs \<Rightarrow> local_env \<Rightarrow> path \<Rightarrow> string option \<Rightarrow> string \<Rightarrow> path \<Rightarrow> (exec_run, string) prog" where
  "task_response c env project model prompt output_path =
     pbind (pread (\<lambda>s. load_local_model_runtime_config c project (run_disk s))) (\<lambda>(_, config).
     pbind (in_world (call_local_model env config prompt model)) (\<lambda>raw_response.
     pbind (plift (extract_response_text raw_response)) (\<lambda>response_text.
     pbind (on_run_disk (fs_write output_path (Text response_text))) (\<lambda>_.
     pbind (set_audit ''finish_reason'' (opt_str (extract_finish_reason raw_response))) (\<lambda>_.
     if strip response_text = [] then plift (value_error ''Local model returned an empty response.'')
     else pret response_text)))))"

definition unauthorized_error :: "string list \<Rightarrow> pyexn" where
  "unauthorized_error unauthorized = Exn PermissionError (''Unauthorized writes requested: '' @ join '', '' unauthorized)"

definition refuse_unauthorized :: "string list \<Rightarrow> string list \<Rightarrow> (exec_run, unit) prog" where
  "refuse_unauthorized attempted_paths writable_paths =
     (let unauthorized = unauthorized_paths attempted_paths writable_paths in
      if unauthorized \<noteq> [] then
        pbind (set_all set_audit [(''attempted_paths'', pstrs attempted_paths),
                 (''unauthorized_paths'', pstrs unauthorized)]) (\<lambda>_.
        plift (Inl (unauthorized_error unauthorized)))
      else pret ())"

definition apply_response ::
    "path \<Rightarrow> blueprint_subtask \<Rightarrow> execution_response \<Rightarrow> path \<Rightarrow> (exec_run, unit) prog" where
  "apply_response project task parsed output_path =
     pbind (in_world (on_disk (apply_execution_writes project (er_files parsed) None))) (\<lambda>applied_paths.
     pbind (set_all set_audit [(''status'', PStr ''completed''), (''failure_type'', PNone)]) (\<lambda>_.
     pbind (plift (rmap_list (relative_to_project project) (output_path # applied_paths))) (\<lambda>outputs.
     pbind (set_audit ''outputs'' (pstrs outputs)) (\<lambda>_.
     pbind (plift (rmap_list (relative_to_project project) applied_paths)) (\<lambda>applied.
     pbind (set_all set_audit [(''applied_paths'', pstrs applied),
       (''handoff_summary'', PDict (normalized_handoff_summary (er_handoff_summary parsed) applied))]) (\<lambda>_.
     pbind (pget xs_audit) (\<lambda>audit.
     pbind (set_audit ''validation_result'' (PDict (completed_subtask_validation_result task audit))) (\<lambda>_.
     complete_subtask (bs_id task)))))))))"

definition task_attempt ::
    "codecs \<Rightarrow> local_env \<Rightarrow> path \<Rightarrow> string \<Rightarrow> path \<Rightarrow> pydict \<Rightarrow> path \<Rightarrow> path \<Rightarrow> blueprint_subtask \<Rightarrow>
     resolved_role_model \<Rightarrow> (exec_run, unit) prog" where
  "task_attempt c env project story story_path blueprint_story state_path task_path task resolved =
     (if rr_model resolved = None then plift (value_error ''No local model could be resolved for this sub-task role.'')
      else
        pbind (pread (\<lambda>s. assemble_subtask_context c project story_path (run_disk s) story blueprint_story task
                 (xs_state s))) (\<lambda>assembled.
        pbind (audit_context c project (task_path @ [''context.md'']) assembled) (\<lambda>_.
        if \<not> fits assembled then
          pbind (mark_cloud_redecomposition_required state_path task) (\<lambda>_. write_audit (task_path @ [''execution.yaml'']))
        else
          pbind (task_response c env project (rr_model resolved) (as_prompt assembled) (task_path @ [''output.md'']))
            (\<lambda>response_text.
          pbind (plift (parse_subtask_execution_response c response_text)) (\<lambda>parsed.
          let attempted = map fst (er_files parsed) in
          pbind (set_attempted attempted) (\<lambda>_.
          pbind (refuse_unauthorized attempted (bs_writable_paths task)) (\<lambda>_.
          apply_response project task parsed (task_path @ [''output.md'']))))))))"

text \<open>The handlers of the attempt. A \<open>json.JSONDecodeError\<close> is a \<open>ValueError\<close>.\<close>

definition is_value_error :: "pyexn \<Rightarrow> bool" where
  "is_value_error e \<longleftrightarrow> exn_class e = ValueError \<or> exn_class e = JSONDecodeError"

definition task_failure :: "path \<Rightarrow> blueprint_subtask \<Rightarrow> pyexn \<Rightarrow> (exec_run, unit) prog" where
  "task_failure state_path task e =
     (if exn_class e = OutsideModel then plift (Inl e)
      else pbind (pget (\<lambda>s. (truthy (dget_or (xs_audit s) ''prompt_hash'' PNone), xs_attempted s))) (\<lambda>(prompted, attempted).
        if exn_class e = PermissionError then
          pbind (set_audit ''attempted_paths'' (pstrs attempted)) (\<lambda>_.
          fail_subtask state_path task ''file_boundary_violation'' (exn_msg e))
        else if is_value_error e then
          fail_subtask state_path task
            (if contains ''No local model could be resolved'' (exn_msg e) then ''unresolved_model''
             else if \<not> prompted then ''context_preparation_error'' else classify_value_error (exn_msg e)) (exn_msg e)
        else
          fail_subtask state_path task
            (if \<not> prompted then ''context_preparation_error'' else ''runtime_unavailable'') (error_text e)))"

definition close_task :: "local_env \<Rightarrow> path \<Rightarrow> path \<Rightarrow> blueprint_subtask \<Rightarrow> (exec_run, unit) prog" where
  "close_task env state_path task_path task =
     pbind (now_text env) (\<lambda>now.
     pbind (pget (\<lambda>s. lx_duration env (w_clock (xs_world s)))) (\<lambda>duration.
     pbind (set_all set_audit [(''completed_at'', PStr now), (''duration_seconds'', duration)]) (\<lambda>_.
     pbind (store_audit ''tasks'' (bs_id task)) (\<lambda>_.
     pbind (write_audit (task_path @ [''execution.yaml''])) (\<lambda>_.
     write_state state_path)))))"

definition execute_task ::
    "codecs \<Rightarrow> local_env \<Rightarrow> path \<Rightarrow> string \<Rightarrow> path \<Rightarrow> pydict \<Rightarrow> path \<Rightarrow> path \<Rightarrow> blueprint_subtask \<Rightarrow> pydict \<Rightarrow>
     (exec_run, unit) prog" where
  "execute_task c env project story story_path blueprint_story execution_path state_path task entry =
     pbind (pread (\<lambda>s. resolve_subtask_model c project task (run_disk s))) (\<lambda>resolved.
     pbind (plift (py_int (dget_or entry ''attempt'' (PInt 0)))) (\<lambda>attempt.
     let task_path = task_folder execution_path (bs_id task) in
     pbind (on_run_disk (fs_mkdir task_path)) (\<lambda>_.
     pbind (pmodify (\<lambda>s. s\<lparr>xs_audit := base_subtask_audit task (rr_model resolved) (rr_source resolved) (attempt + 1)\<rparr>)) (\<lambda>_.
     pbind (set_all set_state [(''status'', PStr ''running''), (''current_task'', PStr (bs_id task))]) (\<lambda>_.
     pbind (store_audit ''tasks'' (bs_id task)) (\<lambda>_.
     pbind (write_state state_path) (\<lambda>_.
     pbind (now_text env) (\<lambda>started_at.
     pbind (set_audit ''started_at'' (PStr started_at)) (\<lambda>_.
     pbind (set_attempted []) (\<lambda>_.
     finally_do
       (ptry (task_attempt c env project story story_path blueprint_story state_path task_path task resolved)
         (task_failure state_path task))
       (close_task env state_path task_path task)))))))))))"

definition run_task ::
    "codecs \<Rightarrow> local_env \<Rightarrow> path \<Rightarrow> string \<Rightarrow> path \<Rightarrow> pydict \<Rightarrow> path \<Rightarrow> path \<Rightarrow> bool \<Rightarrow> blueprint_subtask \<Rightarrow>
     (exec_run, unit) prog" where
  "run_task c env project story story_path blueprint_story execution_path state_path resuming task =
     pbind (task_entry task) (\<lambda>entry.
     let status = dget_or entry ''status'' PNone in
     if status = PStr ''completed'' then pret ()
     else if status = PStr ''cloud_redecomposition_required'' \<and> resuming then pret ()
     else
       pbind (pread (\<lambda>s. first_blocking_dependency (tasks_of_state (xs_state s)) (bs_depends_on task))) (\<lambda>blocked.
       case blocked of
         Some dependency \<Rightarrow>
           block_subtask state_path task ''blocked_by_dependency'' (''Dependency is not completed: '' @ dependency)
       | None \<Rightarrow>
           execute_task c env project story story_path blueprint_story execution_path state_path task entry))"

subsection \<open>The end of a run\<close>

definition nested_get :: "pydict \<Rightarrow> string \<Rightarrow> string \<Rightarrow> pyval \<Rightarrow> pyval res" where
  "nested_get task_states i field dflt = (case dget_or task_states i (PDict []) of
     PDict m \<Rightarrow> Inr (dget_or m field dflt)
   | v \<Rightarrow> Inl (Exn AttributeError (quoted (type_name v) @ '' object has no attribute '' @ quoted ''get'')))"

definition mapping_get :: "pyval \<Rightarrow> string \<Rightarrow> pyval res" where
  "mapping_get v field = (case v of
     PDict m \<Rightarrow> Inr (dget_or m field PNone)
   | _ \<Rightarrow> Inl (Exn AttributeError (quoted (type_name v) @ '' object has no attribute '' @ quoted ''get'')))"

text \<open>\<open>[x for x in xs if f(x)]\<close> where the test may raise.\<close>

fun rfilter :: "('a \<Rightarrow> bool res) \<Rightarrow> 'a list \<Rightarrow> 'a list res" where
  "rfilter f [] = Inr []"
| "rfilter f (x # xs) = rbind (f x) (\<lambda>b. rbind (rfilter f xs) (\<lambda>ys. Inr (if b then x # ys else ys)))"

definition requirement_ids :: "pydict \<Rightarrow> string list" where
  "requirement_ids blueprint_story = (case dget_or blueprint_story ''acceptance_criteria'' PNone of
     PList criteria \<Rightarrow> map (\<lambda>text. strip (takeWhile (\<lambda>ch. ch \<noteq> CHR '':'') text))
       (filter (\<lambda>text. CHR '':'' \<in> set text) (map py_str criteria))
   | _ \<Rightarrow> [])"

definition validate_story_requirements :: "blueprint_subtask list \<Rightarrow> pydict \<Rightarrow> pydict \<Rightarrow> pydict res" where
  "validate_story_requirements ordered_tasks blueprint_story state =
     (let required = requirement_ids blueprint_story;
          covered = sorted_set (concat (map bs_requirement_ids ordered_tasks));
          missing = filter (\<lambda>i. i \<notin> set covered) required;
          task_states = tasks_of_state state; ids = map bs_id ordered_tasks in
      rbind (rfilter (\<lambda>i. rbind (nested_get task_states i ''validation_result'' (PDict [])) (\<lambda>v.
        rbind (mapping_get v ''status'') (\<lambda>s. Inr (s \<noteq> PStr ''passed'')))) ids) (\<lambda>missing_validation.
      rbind (rfilter (\<lambda>i. rbind (nested_get task_states i ''outputs'' PNone) (\<lambda>v. Inr (\<not> truthy v))) ids)
        (\<lambda>missing_outputs.
      rbind (rfilter (\<lambda>i. rbind (nested_get task_states i ''handoff_summary'' (PDict [])) (\<lambda>v.
        Inr (case v of PDict h \<Rightarrow> dget h ''available_to_dependents'' = None | _ \<Rightarrow> True))) ids) (\<lambda>missing_handoffs.
      Inr
        [(''status'', PStr (if missing = [] \<and> missing_validation = [] \<and> missing_outputs = [] \<and> missing_handoffs = []
            then ''passed'' else ''failed'')),
         (''requirements_checked'', pstrs required), (''requirements_covered'', pstrs covered),
         (''missing_requirements'', pstrs missing), (''tasks_missing_validation'', pstrs missing_validation),
         (''tasks_missing_outputs'', pstrs missing_outputs), (''tasks_missing_handoffs'', pstrs missing_handoffs)]))))"

definition finalize_subtask_story_state :: "pydict \<Rightarrow> blueprint_subtask list \<Rightarrow> pydict \<Rightarrow> pydict res" where
  "finalize_subtask_story_state state ordered_tasks blueprint_story =
     (if truthy (dget_or state ''cloud_redecomposition_required_tasks'' PNone)
      then Inr (al_set ''status'' (PStr ''blocked'') state)
      else if truthy (dget_or state ''blocked_tasks'' PNone) then Inr (al_set ''status'' (PStr ''blocked'') state)
      else
        rbind (all_completed (tasks_of_state state) (map bs_id ordered_tasks)) (\<lambda>all_done.
        if all_done then
          rbind (validate_story_requirements ordered_tasks blueprint_story state) (\<lambda>final_validation.
          Inr (al_merge state
            [(''final_validation'', PDict final_validation),
             (''status'', PStr (if dget final_validation ''status'' = Some (PStr ''passed'') then ''completed'' else ''blocked'')),
             (''current_task'', PNone)]))
        else
          rbind (ready_subtasks ordered_tasks (tasks_of_state state)) (\<lambda>ready.
          Inr (al_set ''status'' (PStr (if ready \<noteq> [] then ''ready'' else ''pending'')) state))))"

record resolved_subtask_model =
  rm_task_id :: string
  rm_title :: string
  rm_role :: string
  rm_model :: "string option"
  rm_source :: string
  rm_estimated_input_tokens :: pyval
  rm_usable_input_tokens :: pyval
  rm_status :: string

record local_execution_result =
  le_story :: string
  le_story_path :: path
  le_status :: string
  le_state_path :: path
  le_roles :: "resolved_role_model list"
  le_subtasks :: "resolved_subtask_model list option"

definition result_subtask_models ::
    "codecs \<Rightarrow> path \<Rightarrow> blueprint_subtask list \<Rightarrow> pydict \<Rightarrow> disk \<Rightarrow> resolved_subtask_model list res" where
  "result_subtask_models c project ordered_tasks state d =
     rmap_list (\<lambda>task.
       rbind (resolve_subtask_model c project task d) (\<lambda>resolved.
       rbind (nested_get (tasks_of_state state) (bs_id task) ''estimated_input_tokens'' PNone) (\<lambda>estimate.
       rbind (nested_get (tasks_of_state state) (bs_id task) ''usable_input_tokens'' PNone) (\<lambda>limit.
       rbind (nested_get (tasks_of_state state) (bs_id task) ''status'' (PStr ''pending'')) (\<lambda>status.
       Inr \<lparr>rm_task_id = bs_id task, rm_title = bs_title task, rm_role = bs_role task, rm_model = rr_model resolved,
         rm_source = rr_source resolved, rm_estimated_input_tokens = estimate, rm_usable_input_tokens = limit,
         rm_status = py_str status\<rparr>))))) ordered_tasks"

subsection \<open>The run\<close>

text \<open>A task before the run: its model, and whether its prompt fits with the results so far left out.\<close>

definition preview_task ::
    "codecs \<Rightarrow> path \<Rightarrow> string \<Rightarrow> path \<Rightarrow> pydict \<Rightarrow> disk \<Rightarrow> blueprint_subtask \<Rightarrow> resolved_subtask_model res" where
  "preview_task c project story story_path blueprint_story d task =
     rbind (resolve_subtask_model c project task d) (\<lambda>resolved.
     rbind (case assemble_subtask_context c project story_path d story blueprint_story task [(''tasks'', PDict [])] of
         Inr a \<Rightarrow> Inr (PInt (int (as_estimated_input_tokens a)), PInt (as_usable_input_tokens a),
           if fits a \<and> rr_model resolved \<noteq> None then ''ready'' else ''blocked'')
       | Inl e \<Rightarrow> if exn_class e = FileNotFoundError \<or> is_value_error e
           then Inr (PNone, PInt (usable_input_tokens (bs_context_budget task)), ''blocked'') else Inl e)
       (\<lambda>(estimate, limit, status).
     Inr \<lparr>rm_task_id = bs_id task, rm_title = bs_title task, rm_role = bs_role task, rm_model = rr_model resolved,
       rm_source = rr_source resolved, rm_estimated_input_tokens = estimate, rm_usable_input_tokens = limit,
       rm_status = status\<rparr>))"

definition execution_folder :: "path \<Rightarrow> path" where
  "execution_folder story_path = story_path @ [''reports'', ''local_execution'']"

definition prepare_execution :: "path \<Rightarrow> disk \<Rightarrow> disk" where
  "prepare_execution execution_path d =
     (let e = fs_mkdir execution_path d in
      if fs_exists e (execution_path @ [''.gitkeep'']) then e
      else fs_write (execution_path @ [''.gitkeep'']) (Text []) e)"

text \<open>The tasks one after the other, from the initial state of the story.\<close>

definition run_tasks ::
    "codecs \<Rightarrow> local_env \<Rightarrow> path \<Rightarrow> string \<Rightarrow> path \<Rightarrow> pydict \<Rightarrow> path \<Rightarrow> path \<Rightarrow> bool \<Rightarrow> blueprint_subtask list \<Rightarrow>
     (exec_run, string \<times> resolved_subtask_model list) prog" where
  "run_tasks c env project story story_path blueprint_story execution_path state_path resuming ordered_tasks =
     pbind (write_state state_path) (\<lambda>_.
     pbind (pfold (\<lambda>task _. run_task c env project story story_path blueprint_story execution_path state_path resuming task)
              ordered_tasks ()) (\<lambda>_.
     pbind (pread (\<lambda>s. finalize_subtask_story_state (xs_state s) ordered_tasks blueprint_story)) (\<lambda>state.
     pbind (pmodify (\<lambda>s. s\<lparr>xs_state := state\<rparr>)) (\<lambda>_.
     pbind (write_state state_path) (\<lambda>_.
     pbind (pread (\<lambda>s. result_subtask_models c project ordered_tasks (xs_state s) (run_disk s))) (\<lambda>models.
     pret (py_str (dget_or state ''status'' PNone), models)))))))"

text \<open>A run inside a world: its state, audit and attempted paths are its own.\<close>

definition with_state :: "pydict \<Rightarrow> (exec_run, 'a) prog \<Rightarrow> (world, 'a) prog" where
  "with_state state m = (\<lambda>w.
     case m \<lparr>xs_world = w, xs_state = state, xs_audit = [], xs_attempted = []\<rparr> of (r, s) \<Rightarrow> (r, xs_world s))"

text \<open>The run proper: the state it starts from, and the tasks in their order.\<close>

definition existing_state :: "codecs \<Rightarrow> path \<Rightarrow> bool \<Rightarrow> pydict option \<Rightarrow> disk \<Rightarrow> pydict res" where
  "existing_state c state_path resuming initial_state d = (case initial_state of
     Some s \<Rightarrow> Inr s
   | None \<Rightarrow> if resuming then load_execution_state c state_path d else Inr [])"

definition run_ordered ::
    "codecs \<Rightarrow> local_env \<Rightarrow> path \<Rightarrow> string \<Rightarrow> path \<Rightarrow> pydict \<Rightarrow> path \<Rightarrow> bool \<Rightarrow> pydict option \<Rightarrow> blueprint_subtask list \<Rightarrow>
     (world, string \<times> resolved_subtask_model list) prog" where
  "run_ordered c env project story story_path blueprint_story execution_path resuming initial_state ordered_tasks =
     (let state_path = execution_path @ [''state.yaml''] in
      pbind (pread (\<lambda>w. existing_state c state_path resuming initial_state (w_disk w))) (\<lambda>existing.
      pbind (plift (initialize_subtask_state existing story ordered_tasks)) (\<lambda>state.
      with_state state (run_tasks c env project story story_path blueprint_story execution_path state_path resuming
        ordered_tasks))))"

definition run_subtask_local_execution ::
    "codecs \<Rightarrow> local_env \<Rightarrow> path \<Rightarrow> string \<Rightarrow> path \<Rightarrow> pydict \<Rightarrow> blueprint_subtask list \<Rightarrow> string option \<Rightarrow> bool \<Rightarrow> bool \<Rightarrow>
     pydict option \<Rightarrow> (world, local_execution_result) prog" where
  "run_subtask_local_execution c env project story story_path blueprint_story subtasks role resuming dry_run initial_state =
     (let execution_path = execution_folder story_path;
          result = (\<lambda>status models. \<lparr>le_story = story, le_story_path = story_path, le_status = status,
            le_state_path = execution_path @ [''state.yaml''], le_roles = [], le_subtasks = Some models\<rparr>) in
      pbind (on_disk (pmodify (prepare_execution execution_path))) (\<lambda>_.
      pbind (plift (rbind (selected_subtasks subtasks role) topological_subtasks)) (\<lambda>ordered_tasks.
      pbind (pread (\<lambda>w. rmap_list (preview_task c project story story_path blueprint_story (w_disk w)) ordered_tasks))
        (\<lambda>resolved_tasks.
      if dry_run then pret (result ''dry_run'' resolved_tasks)
      else
        pbind (run_ordered c env project story story_path blueprint_story execution_path resuming initial_state
                 ordered_tasks) (\<lambda>(status, models).
        pret (result status models))))))"

text \<open>The runner of a resumed application: \<open>run_runtime_revision_execution\<close> passes it the tasks to resuming.\<close>

definition local_runner :: "codecs \<Rightarrow> local_env \<Rightarrow> runner" where
  "local_runner c env project story story_path blueprint_story subtasks initial_state =
     pbind (run_subtask_local_execution c env project story story_path blueprint_story subtasks None True False
              (Some initial_state)) (\<lambda>r.
     pret \<lparr>xr_status = le_status r, xr_state_path = le_state_path r, xr_story_path = le_story_path r\<rparr>)"

text \<open>\<open>terminal_summary\<close>\<close>

definition token_text :: "pyval \<Rightarrow> string" where
  "token_text v = (case v of PNone \<Rightarrow> ''unknown'' | _ \<Rightarrow> py_str v)"

definition numbered :: "('a \<Rightarrow> string) \<Rightarrow> 'a list \<Rightarrow> string list" where
  "numbered f xs = map (\<lambda>(i, x). nat_dec i @ ''. '' @ f x) (zip [1..<length xs + 1] xs)"

definition execution_summary :: "local_execution_result \<Rightarrow> string" where
  "execution_summary r =
     (let model_text = (\<lambda>m. case m of None \<Rightarrow> ''UNRESOLVED'' | Some t \<Rightarrow> str_or t ''UNRESOLVED'') in
      join newline
        ([''Local execution for '' @ le_story r @ '':'', ''Status: '' @ le_status r, ''State: '' @ path_text (le_state_path r)]
         @ (case le_subtasks r of
              Some tasks \<Rightarrow> numbered (\<lambda>t. rm_task_id t @ '': '' @ rm_status t @ ''; role='' @ rm_role t @ ''; model=''
                @ model_text (rm_model t) @ '' ('' @ rm_source t @ ''); estimated_input_tokens=''
                @ token_text (rm_estimated_input_tokens t) @ ''; usable_input_tokens='' @ token_text (rm_usable_input_tokens t)) tasks
            | None \<Rightarrow> numbered (\<lambda>m. rr_role m @ '': '' @ model_text (rr_model m) @ '' ('' @ rr_source m @ '')'') (le_roles r))))"

end
