(* ===== verification/RoleContext.thy ===== *)
theory RoleContext
  imports LocalExecution
begin

text \<open>
  The agents of a story and the context packet of an agent: \<open>load_agent_plan\<close> and
  \<open>ordered_assigned_agents\<close> of \<open>prompt_pack.py\<close>, and \<open>role_context.py\<close>. A packet is put together from
  files of the story and of the project; the collection notes which files it included, which it
  skipped, and its warnings.

  \<open>EXCLUDED_STORY_CONTEXT_FOLDERS\<close> is a set of texts, which Python visits in an order that depends on
  the seed of its hash function; the order is a parameter of the model.
\<close>

subsection \<open>The agents of a story\<close>

definition missing_agent_plan_message :: "path \<Rightarrow> string" where
  "missing_agent_plan_message agent_plan_path =
     (let story = path_name (butlast agent_plan_path) in
      ''Required agent plan does not exist: '' @ path_text agent_plan_path @ ''.''
      @ (if story \<noteq> [] then '' Run '' @ code_quote (''agentic assign-agents --story '' @ story) @ '' and try again.'' else []))"

definition load_agent_plan :: "codecs \<Rightarrow> path \<Rightarrow> disk \<Rightarrow> pydict res" where
  "load_agent_plan c agent_plan_path d =
     (if \<not> fs_exists d agent_plan_path then not_found (missing_agent_plan_message agent_plan_path)
      else case fs_file d agent_plan_path of
        None \<Rightarrow> Inl (Exn IsADirectoryError (path_text agent_plan_path))
      | Some content \<Rightarrow> rbind (yaml_value c content) (\<lambda>v. case v of
          PDict m \<Rightarrow> Inr m | _ \<Rightarrow> value_error ''agent_plan.yaml must be a YAML mapping.''))"

definition agent_id_of :: "pydict \<Rightarrow> string" where
  "agent_id_of agent = text_value agent ''id'' []"

text \<open>The agents that the execution order names, then the others.\<close>

definition ordered_by :: "pyval list \<Rightarrow> pydict list \<Rightarrow> pydict list" where
  "ordered_by execution_order agents =
     (let by_id = al_merge [] (map (\<lambda>a. (agent_id_of a, a)) agents);
          named = concat (map (\<lambda>v. case v of
            PStr i \<Rightarrow> (case map_of by_id i of Some a \<Rightarrow> [a] | None \<Rightarrow> []) | _ \<Rightarrow> []) execution_order);
          ordered_ids = map agent_id_of named in
      named @ filter (\<lambda>a. agent_id_of a \<notin> set ordered_ids) agents)"

definition as_agent :: "pyval \<Rightarrow> pydict res" where
  "as_agent v = (case v of
     PDict m \<Rightarrow> Inr m | _ \<Rightarrow> value_error ''Each assigned agent in agent_plan.yaml must be a mapping.'')"

definition ordered_assigned_agents :: "pydict \<Rightarrow> pydict list res" where
  "ordered_assigned_agents agent_plan =
     (let missing = value_error ''agent_plan.yaml must include a non-empty 'assigned_agents' list.'' in
      case dget_or agent_plan ''assigned_agents'' PNone of
        PList assigned \<Rightarrow>
          if assigned = [] then missing
          else rbind (rmap_list as_agent assigned) (\<lambda>agents.
            Inr (case dget_or agent_plan ''execution_order'' PNone of
              PList order \<Rightarrow> ordered_by order agents
            | _ \<Rightarrow> agents))
      | _ \<Rightarrow> missing)"

definition select_agents :: "pydict list \<Rightarrow> string option \<Rightarrow> pydict list res" where
  "select_agents assigned_agents agent = (case agent of
     None \<Rightarrow> Inr assigned_agents
   | Some i \<Rightarrow> (case find (\<lambda>a. agent_id_of a = i) assigned_agents of
       Some a \<Rightarrow> Inr [a]
     | None \<Rightarrow> value_error (''Agent is not assigned to this story: '' @ i @ ''. Available agents: ''
         @ join '', '' (map agent_id_of assigned_agents))))"

subsection \<open>Texts\<close>

definition DEFAULT_ROLE_CONTEXT_TARGET_CHARACTERS :: nat where
  "DEFAULT_ROLE_CONTEXT_TARGET_CHARACTERS = 8000"

definition EXCLUDED_STORY_CONTEXT_FOLDERS :: "string set" where
  "EXCLUDED_STORY_CONTEXT_FOLDERS =
     {''cloud_review_packet'', ''local_agent_context'', ''local_agent_drafts'', ''remote_dev_validation''}"

definition format_bullets :: "string list \<Rightarrow> string" where
  "format_bullets items = (if items = [] then ''- None.'' else join newline (map (\<lambda>i. ''- '' @ i) items))"

definition shortened :: "string \<Rightarrow> nat \<Rightarrow> string" where
  "shortened text max_chars =
     rstrip (take max_chars text) @ newline @ newline @ ''[Truncated to '' @ nat_dec max_chars @ '' characters.]''"

definition limit_text :: "string \<Rightarrow> nat \<Rightarrow> string" where
  "limit_text text max_chars = (if length text \<le> max_chars then text else shortened text max_chars)"

definition fenced_block :: "path \<Rightarrow> string \<Rightarrow> string" where
  "fenced_block p content =
     (let suffix = lower (name_suffix (path_name p));
          language = (if suffix \<in> {''.yaml'', ''.yml''} then ''yaml'' else ''markdown'') in
      fence @ language @ newline @ rstrip content @ newline @ fence)"

text \<open>The sections of a markdown text: the lines below each second-level heading.\<close>

definition markdown_line :: "string \<Rightarrow> string \<times> (string \<times> string list) list \<Rightarrow> string \<times> (string \<times> string list) list" where
  "markdown_line line acc = (case acc of (current, sections) \<Rightarrow>
     if starts_with ''## '' line then
       let heading = strip (drop 3 line) in
       (heading, if map_of sections heading = None then al_set heading [] sections else sections)
     else (current, al_set current ((case map_of sections current of Some ls \<Rightarrow> ls | None \<Rightarrow> []) @ [line]) sections))"

definition parse_markdown_sections :: "string \<Rightarrow> (string \<times> string) list" where
  "parse_markdown_sections markdown =
     (case fold markdown_line (splitlines markdown) (''Preamble'', [(''Preamble'', [])]) of
       (_, sections) \<Rightarrow> map (\<lambda>(heading, ls). (heading, strip (join newline ls))) sections)"

definition section_text :: "(string \<times> string) list \<Rightarrow> string \<Rightarrow> string" where
  "section_text sections heading = (case map_of sections heading of Some t \<Rightarrow> t | None \<Rightarrow> ''Not provided.'')"

definition matching_lines :: "string \<Rightarrow> string list \<Rightarrow> string" where
  "matching_lines text needles =
     (let matches = filter (\<lambda>line. list_ex (\<lambda>n. contains (lower n) (lower line)) needles) (splitlines text) in
      if matches = [] then ''No docs-specific acceptance criteria found. Use the story goal and docs references.''
      else join newline matches)"

definition infer_dependencies :: "(string \<times> string) list \<Rightarrow> string" where
  "infer_dependencies story_sections =
     (let dependencies = filter (\<lambda>line. list_ex (\<lambda>t. contains t (lower line)) [''update'', ''add'', ''read'', ''write''])
            (splitlines (section_text story_sections ''Acceptance Criteria'')) in
      if dependencies \<noteq> [] then join newline dependencies else ''No explicit dependencies found.'')"

definition safety_checklist :: string where
  "safety_checklist = join newline
     [''- pytest passed or failures are explained.'', ''- Ruff passed or failures are explained.'',
      ''- artifact-policy passed.'', ''- public-readiness passed.'', ''- runtime-config validate passed.'',
      ''- Generated runtime artifacts are not tracked.'',
      ''- No cloud or local model calls were made by the context builder.'']"

definition docs_reference_list :: "path \<Rightarrow> disk \<Rightarrow> string" where
  "docs_reference_list project d = format_bullets (''README.md''
     # map (\<lambda>n. ''docs/'' @ n) (filter (\<lambda>n. fs_exists d (project @ [''docs'', n]))
         [''code_tour.md'', ''command_map.md'', ''role_context_builder.md'']))"

definition project_relative :: "path \<Rightarrow> path \<Rightarrow> string" where
  "project_relative project p = (case relative_to_project project p of Inr s \<Rightarrow> s | Inl _ \<Rightarrow> path_text p)"

definition file_text :: "codecs \<Rightarrow> path \<Rightarrow> disk \<Rightarrow> string res" where
  "file_text c p d = (case fs_file d p of
     Some content \<Rightarrow> Inr (content_bytes c content)
   | None \<Rightarrow> if fs_exists d p then Inl (Exn IsADirectoryError (path_text p)) else not_found (path_text p))"

definition read_optional_plain_text :: "codecs \<Rightarrow> path \<Rightarrow> string \<Rightarrow> disk \<Rightarrow> string res" where
  "read_optional_plain_text c p fallback d =
     (if \<not> fs_exists d p then Inr fallback else rbind (file_text c p d) (\<lambda>t. Inr (rstrip t)))"

subsection \<open>Collecting the sources of a packet\<close>

text \<open>What the collection has noted so far.\<close>

record context_notes =
  cn_included :: "string list"
  cn_skipped :: "string list"
  cn_warnings :: "string list"

definition include_file ::
    "codecs \<Rightarrow> path \<Rightarrow> disk \<Rightarrow> string \<Rightarrow> path \<Rightarrow> bool \<Rightarrow> nat option \<Rightarrow>
     (context_notes, (string \<times> string) option) prog" where
  "include_file c project d title p required max_chars =
     (let relative_path = project_relative project p in
      if \<not> fs_exists d p then
        pbind (pmodify (\<lambda>n. n\<lparr>cn_skipped := cn_skipped n @ [relative_path],
          cn_warnings := cn_warnings n
            @ (if required then [''Required context file is missing: '' @ relative_path] else [])\<rparr>)) (\<lambda>_. pret None)
      else
        pbind (plift (file_text c p d)) (\<lambda>content.
        pbind (pmodify (\<lambda>n. n\<lparr>cn_included := cn_included n @ [relative_path]\<rparr>)) (\<lambda>_.
        pret (Some (title, fenced_block p (case max_chars of None \<Rightarrow> content | Some k \<Rightarrow> limit_text content k))))))"

text \<open>A list of files, those that exist.\<close>

definition include_files ::
    "codecs \<Rightarrow> path \<Rightarrow> disk \<Rightarrow> (string \<times> path \<times> bool \<times> nat option) list \<Rightarrow>
     (context_notes, (string \<times> string) list) prog" where
  "include_files c project d specs =
     pfold (\<lambda>(title, p, required, max_chars) sections.
       pbind (include_file c project d title p required max_chars) (\<lambda>s.
       pret (sections @ (case s of None \<Rightarrow> [] | Some x \<Rightarrow> [x])))) specs []"

definition optional_sections ::
    "codecs \<Rightarrow> path \<Rightarrow> disk \<Rightarrow> (string \<times> path) list \<Rightarrow> nat \<Rightarrow> (context_notes, (string \<times> string) list) prog" where
  "optional_sections c project d file_specs max_chars =
     include_files c project d (map (\<lambda>(title, p). (title, p, False, Some max_chars)) file_specs)"

text \<open>The sections of each role that are plain texts, and the files it may use with their limit.\<close>

definition role_texts ::
    "codecs \<Rightarrow> path \<Rightarrow> path \<Rightarrow> string \<Rightarrow> disk \<Rightarrow> string \<Rightarrow> (string \<times> string) list \<Rightarrow> (string \<times> string) list res" where
  "role_texts c project story_path story d agent_id sections =
     (let goal = (''Story Goal'', section_text sections ''Goal'');
          acceptance = (\<lambda>k. (''Acceptance Criteria'', limit_text (section_text sections ''Acceptance Criteria'') k));
          boundary = (\<lambda>s. (''Role Boundary'', s)) in
      if agent_id = ''developer_agent'' then Inr
        [goal, acceptance 700, (''Not In Scope'', limit_text (section_text sections ''Not In Scope'') 500),
         (''Definition Of Done'', limit_text (section_text sections ''Definition of Done'') 500),
         boundary ''Do not write tests. Implement only the approved story scope.'']
      else if agent_id = ''test_agent'' then Inr
        [goal, acceptance 700,
         boundary (''Write independent tests; do not rewrite implementation except tiny '' @ ''test-enabling fixes.'')]
      else if agent_id = ''docs_agent'' then Inr
        [goal, (''Docs Acceptance Criteria'', matching_lines (section_text sections ''Acceptance Criteria'') [''doc'', ''README'']),
         (''Docs References'', docs_reference_list project d),
         boundary ''Update docs only and do not change implementation.'']
      else if agent_id = ''local_reviewer_agent'' then Inr
        [goal, acceptance 700, boundary ''Do not mark READY_FOR_REVIEW unless checks pass.'',
         (''Safety Checklist'', safety_checklist)]
      else if agent_id = ''security_quality_agent'' then Inr
        [goal, acceptance 700,
         (''Review Focus'', ''Focus on secrets, unsafe file access, merge/deploy risks, and generated artifacts.''),
         (''Artifact Policy Notes'', ''Generated review_bundle, cloud_review_packet, remote_dev_validation, ''
            @ ''local_agent_context, local_agent_drafts, raw model responses, and ''
            @ ''role_context packet files must remain untracked except .gitkeep.'')]
      else if agent_id = ''research_agent'' then Inr
        [goal, (''Why'', section_text sections ''Why This Matters''),
         (''Risks'', limit_text (section_text sections ''Not In Scope'') 700),
         (''Relevant Docs'', docs_reference_list project d),
         boundary ''Suggest scoped findings only; do not expand story scope.'']
      else if agent_id = ''planner_agent'' then
        rbind (read_optional_plain_text c (story_path @ [''status.yaml'']) ''No status.yaml found.'' d) (\<lambda>status. Inr
        [goal, acceptance 1000, (''Dependencies'', infer_dependencies sections), (''Current Story Status'', status),
         (''Planning Focus'', ''Create the implementation plan and sequencing for '' @ code_quote story @ ''.'')])
      else Inr [boundary ''Follow only the responsibilities assigned to this agent.''])"

definition role_files :: "path \<Rightarrow> path \<Rightarrow> string \<Rightarrow> (string \<times> path) list \<times> nat" where
  "role_files project story_path agent_id =
     (let report = (\<lambda>n. story_path @ [''reports'', n]) in
      if agent_id = ''developer_agent'' then
        ([(''Implementation Notes'', report ''planner_report.md''), (''Research Notes'', report ''research_report.md''),
          (''Story Runbook'', story_path @ [''story_runbook.md''])], 350)
      else if agent_id = ''test_agent'' then
        ([(''Test Plan And Layer Expectations'', story_path @ [''test_plan.yaml'']),
          (''Developer Report And Changed Behavior Summary'', report ''developer_report.md'')], 500)
      else if agent_id = ''local_reviewer_agent'' then
        ([(''Developer Report'', report ''developer_report.md''), (''Test Report'', report ''test_report.md''),
          (''Test Layer Result'', report ''test_layer_result.yaml''),
          (''Quality Gate Result'', report ''quality_gate_result.yaml''),
          (''Finalize Result'', report ''finalize_story_result.yaml''),
          (''Review Bundle Handoff'', story_path @ [''review_bundle'', ''handoff.md''])], 150)
      else if agent_id = ''security_quality_agent'' then
        ([(''Quality Gate Result'', report ''quality_gate_result.yaml''),
          (''Finalize Result'', report ''finalize_story_result.yaml''), (''Gitignore'', project @ [''.gitignore''])], 200)
      else ([], 0))"

definition role_specific_sections ::
    "codecs \<Rightarrow> path \<Rightarrow> path \<Rightarrow> string \<Rightarrow> pydict \<Rightarrow> disk \<Rightarrow> (string \<times> string) list \<Rightarrow>
     (context_notes, (string \<times> string) list) prog" where
  "role_specific_sections c project story_path story agent d story_sections =
     (let agent_id = text_value agent ''id'' ''unknown_agent''; (files, max_chars) = role_files project story_path agent_id in
      pbind (plift (role_texts c project story_path story d agent_id story_sections)) (\<lambda>texts.
      pbind (optional_sections c project d files max_chars) (\<lambda>sections.
      pret ([(''Role Responsibility'', text_value agent ''responsibility'' ''Use the story context for this role.''),
             (''Expected Output'', text_value agent ''expected_output'' ''Write the expected story report.'')]
            @ texts @ sections))))"

text \<open>The folders in the order they are visited in.\<close>

definition excluded_story_paths :: "string list \<Rightarrow> path \<Rightarrow> path \<Rightarrow> string \<Rightarrow> disk \<Rightarrow> string list" where
  "excluded_story_paths folder_order project story_path agent_id d =
     (let place = (\<lambda>n. if n \<in> {''cloud_review_packet'', ''remote_dev_validation''} then story_path @ [n]
            else story_path @ [''reports'', n]) in
      map (\<lambda>n. project_relative project (place n) @ ''/*'') (filter (\<lambda>n. fs_exists d (place n)) folder_order)
      @ (if agent_id = ''developer_agent'' \<and> fs_exists d (story_path @ [''review_bundle''])
         then [project_relative project (story_path @ [''review_bundle'']) @ ''/*''] else []))"

record context_sources =
  cs_shared_sections :: "(string \<times> string) list"
  cs_role_sections :: "(string \<times> string) list"
  cs_included_files :: "string list"
  cs_skipped_files :: "string list"
  cs_warnings :: "string list"

definition shared_files :: "path \<Rightarrow> path \<Rightarrow> pydict \<Rightarrow> path \<Rightarrow> (string \<times> path \<times> bool \<times> nat option) list" where
  "shared_files project story_path agent agent_plan_path =
     (let agent_id = text_value agent ''id'' ''unknown_agent'';
          instruction = text_value agent ''instruction_file'' (''instructions/'' @ agent_id @ ''.md'') in
      [(''Story File'', story_path @ [''story.md''], True, Some 600), (''Status'', story_path @ [''status.yaml''], False, None),
       (''Agent Plan'', agent_plan_path, True, Some 1000), (''Agent Instruction'', join_path story_path instruction, True, None),
       (''Safety Rules'', project @ [''.agentic'', ''rules.yaml''], False, Some 700),
       (''Runtime Guidance'', project @ [''.agentic'', ''agent_runtime.yaml''], False, Some 800)])"

definition collect_context_sources ::
    "codecs \<Rightarrow> string list \<Rightarrow> path \<Rightarrow> path \<Rightarrow> string \<Rightarrow> pydict \<Rightarrow> path \<Rightarrow> disk \<Rightarrow> context_sources res" where
  "collect_context_sources c folder_order project story_path story agent agent_plan_path d =
     (case pbind (include_files c project d (shared_files project story_path agent agent_plan_path)) (\<lambda>shared.
        pbind (plift (file_text c (story_path @ [''story.md'']) d)) (\<lambda>story_text.
        pbind (role_specific_sections c project story_path story agent d (parse_markdown_sections story_text)) (\<lambda>role.
        pret (shared, role)))) \<lparr>cn_included = [], cn_skipped = [], cn_warnings = []\<rparr> of
      (Inl e, n) \<Rightarrow> Inl e
    | (Inr (shared, role), n) \<Rightarrow> Inr
        \<lparr>cs_shared_sections = shared, cs_role_sections = role, cs_included_files = dedup (cn_included n),
         cs_skipped_files = dedup (cn_skipped n @ excluded_story_paths folder_order project story_path
           (text_value agent ''id'' ''unknown_agent'') d),
         cs_warnings = dedup (cn_warnings n)\<rparr>)"

subsection \<open>The text of a packet\<close>

text \<open>\<open>s.title()\<close>: the first letter of every run of letters is upper case, the others lower case.\<close>

definition is_letter :: "char \<Rightarrow> bool" where
  "is_letter ch \<longleftrightarrow> (let n = of_char ch :: nat in (65 \<le> n \<and> n \<le> 90) \<or> (97 \<le> n \<and> n \<le> 122)
     \<or> n \<in> {170, 181, 186} \<or> (192 \<le> n \<and> n \<noteq> 215 \<and> n \<noteq> 247))"

fun title_case :: "bool \<Rightarrow> string \<Rightarrow> string" where
  "title_case inside [] = []"
| "title_case inside (ch # s) =
     (if inside then [lower_char ch] else if of_char ch = (223 :: nat) then ''Ss'' else upper_char ch) @ title_case (is_letter ch) s"

definition format_named_sections :: "(string \<times> string) list \<Rightarrow> string list" where
  "format_named_sections sections =
     concat (map (\<lambda>(title, content). [''### '' @ title, [], str_or (rstrip content) ''Not provided.'', []]) sections)"

definition format_context_packet :: "string \<Rightarrow> pydict \<Rightarrow> context_sources \<Rightarrow> nat \<Rightarrow> string" where
  "format_context_packet story agent sources target_chars =
     (let agent_id = text_value agent ''id'' ''unknown_agent'';
          display_name = text_value agent ''display_name'' (title_case False (replace_char (CHR ''_'') (CHR '' '') agent_id)) in
      join newline
        ([''# '' @ display_name @ '' Context'', [], ''## Agent Identity'', [], ''- Agent ID: '' @ code_quote agent_id,
          ''- Display name: '' @ display_name, [], ''## Story'', [], code_quote story, [], ''## Role Responsibility'', [],
          text_value agent ''responsibility'' ''Use this packet for the assigned story role.'', [], ''## Shared Premise'', [],
          ''This packet is deterministic local context. It does not execute prompts, call local ''
            @ ''models, call cloud models, call GitHub APIs, commit, merge, or deploy.'',
          ''Target packet size: '' @ nat_dec target_chars @ '' characters.'', []]
         @ format_named_sections (cs_shared_sections sources)
         @ [''## Role-Specific Context'', []]
         @ format_named_sections (cs_role_sections sources)
         @ [''## Included Files'', [], format_bullets (cs_included_files sources), [], ''## Skipped Files'', [],
            format_bullets (cs_skipped_files sources), [], ''## Warnings'', [], format_bullets (cs_warnings sources), [],
            ''## Expected Output'', [], text_value agent ''expected_output'' ''Write the expected story report.'', [],
            ''## Safety Boundaries'', [], ''- Do not call cloud models.'', ''- Do not call local models.'',
            ''- Do not execute agent prompts.'',
            ''- Do not commit, merge, deploy, or call GitHub APIs from this context builder.'',
            ''- Do not track generated role_context packet files except '' @ code_quote ''.gitkeep'' @ ''.'', [],
            ''## Suggested Next Command Or Handoff Note'', [],
            ''Give this packet to '' @ code_quote agent_id @ '' with its prompt pack. The next local handoff ''
              @ ''is the agent's expected report path, not model or prompt execution.'', []]))"

subsection \<open>Building the packets\<close>

record role_context_packet =
  pk_agent_id :: string
  pk_path :: path
  pk_status :: string
  pk_character_count :: nat
  pk_included_files :: "string list"
  pk_skipped_files :: "string list"
  pk_warnings :: "string list"

text \<open>\<open>path.write_text\<close> where the directory may be missing.\<close>

definition write_existing :: "path \<Rightarrow> content \<Rightarrow> (disk, unit) prog" where
  "write_existing p content = (\<lambda>d.
     if \<not> fs_is_dir d (lexical (butlast p)) then (not_found (path_text p), d)
     else if fs_is_dir d (lexical p) then (Inl (Exn IsADirectoryError (path_text p)), d)
     else (Inr (), fs_write p content d))"

definition build_agent_context_packet ::
    "codecs \<Rightarrow> string list \<Rightarrow> path \<Rightarrow> path \<Rightarrow> string \<Rightarrow> path \<Rightarrow> path \<Rightarrow> bool \<Rightarrow> nat \<Rightarrow> pydict \<Rightarrow>
     (disk, role_context_packet) prog" where
  "build_agent_context_packet c folder_order project story_path story agent_plan_path role_context_path force target_chars agent =
     (let agent_id = text_value agent ''id'' ''unknown_agent'';
          packet_path = join_path role_context_path (agent_id @ ''_context.md'') in
      pbind (pget (\<lambda>d. fs_exists d packet_path)) (\<lambda>there.
      if there \<and> \<not> force then
        pbind (pread (file_text c packet_path)) (\<lambda>content.
        pret \<lparr>pk_agent_id = agent_id, pk_path = packet_path, pk_status = ''skipped_existing'',
          pk_character_count = length content, pk_included_files = [],
          pk_skipped_files = [project_relative project packet_path],
          pk_warnings = [''Context packet already exists and was not overwritten: '' @ path_text packet_path]\<rparr>)
      else
        pbind (pread (collect_context_sources c folder_order project story_path story agent agent_plan_path)) (\<lambda>sources.
        let content = format_context_packet story agent sources target_chars; size = length content in
        pbind (write_existing packet_path (Text content)) (\<lambda>_.
        pret \<lparr>pk_agent_id = agent_id, pk_path = packet_path, pk_status = ''written'', pk_character_count = size,
          pk_included_files = cs_included_files sources, pk_skipped_files = dedup (cs_skipped_files sources),
          pk_warnings = dedup (cs_warnings sources @ (if size > target_chars
            then [agent_id @ '' context is '' @ nat_dec size @ '' characters, above target '' @ nat_dec target_chars @ ''.'']
            else []))\<rparr>))))"

record role_context_result =
  rx_project_path :: path
  rx_story :: string
  rx_agents_built :: "string list"
  rx_target_characters :: nat
  rx_status :: string
  rx_context_packets :: "role_context_packet list"
  rx_warnings :: "string list"
  rx_failed_checks :: "string list"
  rx_result_path :: path
  rx_report_path :: path
  rx_role_context_path :: path

definition context_summary :: "role_context_result \<Rightarrow> string" where
  "context_summary r = join newline
     ([''Role context built for: '' @ rx_story r, ''Status: '' @ rx_status r,
       ''Agents built: '' @ (if rx_agents_built r = [] then ''none'' else join '', '' (rx_agents_built r)),
       ''Result: '' @ path_text (rx_result_path r), ''Report: '' @ path_text (rx_report_path r),
       ''Packet folder: '' @ path_text (rx_role_context_path r)]
      @ (if rx_warnings r = [] then [] else [[], ''Warnings:''] @ map (\<lambda>w. ''  - '' @ w) (rx_warnings r)))"

definition packet_to_dict :: "path \<Rightarrow> role_context_packet \<Rightarrow> pydict" where
  "packet_to_dict project p =
     [(''agent'', PStr (pk_agent_id p)), (''path'', PStr (project_relative project (pk_path p))),
      (''status'', PStr (pk_status p)), (''estimated_character_count'', PInt (int (pk_character_count p))),
      (''included_files'', pstrs (pk_included_files p)), (''skipped_files'', pstrs (pk_skipped_files p)),
      (''warnings'', pstrs (pk_warnings p))]"

definition role_context_result_value :: "role_context_result \<Rightarrow> pydict" where
  "role_context_result_value r =
     [(''story'', PStr (rx_story r)), (''agents_built'', pstrs (rx_agents_built r)),
      (''target_characters'', PInt (int (rx_target_characters r))), (''status'', PStr (rx_status r)),
      (''context_packets'', PList (map (PDict \<circ> packet_to_dict (rx_project_path r)) (rx_context_packets r))),
      (''warnings'', pstrs (rx_warnings r)), (''failed_checks'', pstrs (rx_failed_checks r)),
      (''safety_flags'', PDict (map (\<lambda>k. (k, PBool False))
         [''called_cloud_models'', ''called_local_models'', ''executed_agents'', ''committed_or_merged'', ''deployed'']))]"

definition format_role_context_report :: "role_context_result \<Rightarrow> string" where
  "format_role_context_report r = join newline
     ([''# Role Context Report'', [], ''- Story: '' @ code_quote (rx_story r), ''- Status: '' @ rx_status r,
       ''- Target characters: '' @ nat_dec (rx_target_characters r),
       ''- Agents built: '' @ (if rx_agents_built r = [] then ''none'' else join '', '' (rx_agents_built r)), [],
       ''## Context Packets'', []]
      @ concat (map (\<lambda>p. [''### '' @ pk_agent_id p, [], ''- Status: '' @ pk_status p,
          ''- Path: '' @ code_quote (project_relative (rx_project_path r) (pk_path p)),
          ''- Estimated characters: '' @ nat_dec (pk_character_count p),
          ''- Included files: '' @ nat_dec (length (pk_included_files p)),
          ''- Skipped files: '' @ nat_dec (length (pk_skipped_files p)), []]) (rx_context_packets r))
      @ [''## Warnings'', [], format_bullets (rx_warnings r), [], ''## Safety Flags'', [], ''- called_cloud_models: false'',
         ''- called_local_models: false'', ''- executed_agents: false'', ''- committed_or_merged: false'',
         ''- deployed: false'', []])"

definition touch :: "path \<Rightarrow> disk \<Rightarrow> disk" where
  "touch p d = (if fs_exists d p then d else fs_write p (Text []) d)"

definition role_context_result_of ::
    "path \<Rightarrow> path \<Rightarrow> string \<Rightarrow> nat \<Rightarrow> role_context_packet list \<Rightarrow> role_context_result" where
  "role_context_result_of project story_path story target_chars packets =
     (let warnings = concat (map pk_warnings packets) in
      \<lparr>rx_project_path = project, rx_story = story,
       rx_agents_built = map pk_agent_id (filter (\<lambda>p. pk_status p = ''written'') packets),
       rx_target_characters = target_chars,
       rx_status = (if warnings \<noteq> [] then ''CONTEXT_READY_WITH_WARNINGS'' else ''CONTEXT_READY''),
       rx_context_packets = packets, rx_warnings = dedup warnings, rx_failed_checks = [],
       rx_result_path = story_path @ [''reports'', ''role_context_result.yaml''],
       rx_report_path = story_path @ [''reports'', ''role_context_report.md''],
       rx_role_context_path = story_path @ [''reports'', ''role_context'']\<rparr>)"

definition build_role_context ::
    "codecs \<Rightarrow> string list \<Rightarrow> path \<Rightarrow> string \<Rightarrow> string option \<Rightarrow> bool \<Rightarrow> bool \<Rightarrow> int \<Rightarrow> (disk, role_context_result) prog" where
  "build_role_context c folder_order project story agent all_agents force target_chars =
     (let story_path = join_path (project @ [''stories'']) story; agent_plan_path = story_path @ [''agent_plan.yaml''];
          role_context_path = story_path @ [''reports'', ''role_context'']; size = nat target_chars in
      pbind (pget (\<lambda>d. fs_is_dir d (lexical story_path) \<and> fs_exists d story_path)) (\<lambda>there.
      if \<not> there then plift (not_found (''Story folder does not exist: '' @ path_text story_path))
      else if target_chars \<le> 0 then plift (value_error ''--target-chars must be greater than zero.'')
      else if (case agent of None \<Rightarrow> False | Some a \<Rightarrow> a \<noteq> []) \<and> all_agents
      then plift (value_error ''Use either --agent or --all, not both.'')
      else
        pbind (pread (\<lambda>d. rbind (load_agent_plan c agent_plan_path d) (\<lambda>plan.
          rbind (ordered_assigned_agents plan) (\<lambda>agents. select_agents agents agent)))) (\<lambda>selected_agents.
        pbind (pmodify (\<lambda>d. touch (role_context_path @ [''.gitkeep'']) (fs_mkdir role_context_path d))) (\<lambda>_.
        pbind (pfold (\<lambda>a packets. pbind (build_agent_context_packet c folder_order project story_path story agent_plan_path
                 role_context_path force size a) (\<lambda>p. pret (packets @ [p]))) selected_agents []) (\<lambda>packets.
        let r = role_context_result_of project story_path story size packets in
        pbind (write_existing (rx_result_path r) (Doc (PDict (role_context_result_value r)))) (\<lambda>_.
        pbind (write_existing (rx_report_path r) (Text (format_role_context_report r))) (\<lambda>_. pret r)))))))"

end
