(* ===== verification/LocalRole.thy ===== *)
theory LocalRole
  imports LocalRun RoleContext
begin

text \<open>
  \<open>story_blueprint.py\<close>, and the third part of \<open>local_execution.py\<close>: \<open>run_local_execution\<close>, which runs
  the sub-tasks of a story when its blueprint has any, and its roles one after the other otherwise.
\<close>

subsection \<open>The story in the blueprint\<close>

definition story_blueprint_refs :: "pydict \<Rightarrow> string list" where
  "story_blueprint_refs story =
     concat (map (\<lambda>key. case stripped (dget_or story key PNone) of Some s \<Rightarrow> [s] | None \<Rightarrow> []) [''slug'', ''story_id'', ''id''])"

text \<open>A YAML file as a value, where one that is no YAML counts as nothing.\<close>

definition lenient_yaml :: "codecs \<Rightarrow> path \<Rightarrow> disk \<Rightarrow> pyval res" where
  "lenient_yaml c p d = (case fs_file d p of
     None \<Rightarrow> Inl (Exn IsADirectoryError (path_text p))
   | Some content \<Rightarrow> (case yaml_value c content of
       Inl e \<Rightarrow> if exn_class e = YAMLError then Inr PNone else Inl e
     | Inr v \<Rightarrow> Inr v))"

definition story_refs :: "codecs \<Rightarrow> path \<Rightarrow> disk \<Rightarrow> string list res" where
  "story_refs c story_path d =
     (let status_path = story_path @ [''status.yaml''] in
      if \<not> fs_exists d status_path then Inr [path_name story_path]
      else rbind (lenient_yaml c status_path d) (\<lambda>loaded.
        Inr (path_name story_path # (case loaded of PDict m \<Rightarrow> story_blueprint_refs m | _ \<Rightarrow> []))))"

definition load_blueprint_story :: "codecs \<Rightarrow> path \<Rightarrow> path \<Rightarrow> disk \<Rightarrow> pydict option res" where
  "load_blueprint_story c project story_path d =
     (let blueprint_path = project @ [''blueprints'', ''blueprint.yaml''] in
      if \<not> fs_exists d blueprint_path then Inr None
      else rbind (lenient_yaml c blueprint_path d) (\<lambda>loaded.
        case loaded of
          PDict blueprint \<Rightarrow> (case dget_or blueprint ''stories'' PNone of
              PList stories \<Rightarrow>
                rbind (story_refs c story_path d) (\<lambda>refs.
                Inr (find (\<lambda>s. \<exists>r \<in> set (story_blueprint_refs s). r \<in> set refs) (dict_items stories)))
            | _ \<Rightarrow> Inr None)
        | _ \<Rightarrow> Inr None))"

subsection \<open>The state of the roles\<close>

definition selected_agents :: "codecs \<Rightarrow> path \<Rightarrow> string option \<Rightarrow> disk \<Rightarrow> pydict list res" where
  "selected_agents c story_path role d =
     rbind (load_agent_plan c (story_path @ [''agent_plan.yaml'']) d) (\<lambda>agent_plan.
     rbind (ordered_assigned_agents agent_plan) (\<lambda>ordered_agents.
     case role of
       None \<Rightarrow> Inr ordered_agents
     | Some r \<Rightarrow>
         rbind (normalize_role_name r) (\<lambda>requested.
         rbind (rmap_list canonical_role ordered_agents) (\<lambda>roles.
         let selected = map fst (filter (\<lambda>(_, n). n = requested) (zip ordered_agents roles)) in
         if selected \<noteq> [] then Inr selected
         else value_error (''Role is not assigned to this story: '' @ r @ ''. Available roles: '' @ join '', '' roles)))))"

definition initialize_state :: "pydict \<Rightarrow> string \<Rightarrow> pydict" where
  "initialize_state existing story =
     (if existing \<noteq> [] then existing
      else [(''story'', PStr story), (''status'', PStr ''running''), (''current_role'', PNone),
        (''completed_roles'', PList []), (''blocked_roles'', PList []), (''executions'', PDict [])])"

definition base_audit_metadata :: "string \<Rightarrow> string option \<Rightarrow> int \<Rightarrow> pydict" where
  "base_audit_metadata role model attempt =
     [(''role'', PStr role), (''provider'', PStr ''local''), (''model'', opt_str model), (''attempt'', PInt attempt),
      (''started_at'', PStr []), (''completed_at'', PStr []), (''duration_seconds'', PInt 0), (''prompt_hash'', PStr []),
      (''context_files'', PList []), (''estimated_input_tokens'', PNone), (''actual_input_tokens'', PNone),
      (''output_tokens'', PNone), (''finish_reason'', PNone), (''status'', PStr ''running''), (''failure_type'', PNone)]"

text \<open>\<open>state.get("executions", {}).get(role_name, {})\<close>\<close>

definition role_entry :: "pydict \<Rightarrow> string \<Rightarrow> pydict res" where
  "role_entry state role_name =
     (let no_get = (\<lambda>v. Inl (Exn AttributeError (quoted (type_name v) @ '' object has no attribute '' @ quoted ''get''))) in
      case dget_or state ''executions'' (PDict []) of
        PDict m \<Rightarrow> (case dget_or m role_name (PDict []) of PDict e \<Rightarrow> Inr e | v \<Rightarrow> no_get v)
      | v \<Rightarrow> no_get v)"

definition complete_role :: "string \<Rightarrow> (exec_run, unit) prog" where
  "complete_role role_name =
     pbind (add_once ''completed_roles'' role_name) (\<lambda>_. drop_item ''blocked_roles'' role_name)"

definition finalize_failure :: "path \<Rightarrow> string \<Rightarrow> string \<Rightarrow> string \<Rightarrow> (exec_run, unit) prog" where
  "finalize_failure state_path role_name failure_type summary =
     pbind (set_all set_audit
       [(''status'', PStr ''blocked''), (''failure_type'', PStr failure_type), (''summary'', PStr summary)]) (\<lambda>_.
     pbind (set_all set_state [(''status'', PStr ''blocked''), (''current_role'', PStr role_name)]) (\<lambda>_.
     pbind (add_once ''blocked_roles'' role_name) (\<lambda>_.
     pbind (store_audit ''executions'' role_name) (\<lambda>_.
     write_state state_path))))"

subsection \<open>Executing a role\<close>

definition build_local_execution_prompt ::
    "codecs \<Rightarrow> string \<Rightarrow> pydict \<Rightarrow> string \<Rightarrow> string list \<Rightarrow> path \<Rightarrow> disk \<Rightarrow> string res" where
  "build_local_execution_prompt c story agent model writable_paths context_file d =
     rbind (file_text c context_file d) (\<lambda>context.
     rbind (canonical_role agent) (\<lambda>role.
     Inr (join newline
       [''# Local Execution Task'', [], ''Story: '' @ story, ''Role: '' @ role,
        ''Agent ID: '' @ text_value agent ''id'' [], ''Resolved model: '' @ model,
        ''Responsibility: '' @ text_value agent ''responsibility'' [],
        ''Expected output: '' @ text_value agent ''expected_output'' [], [], ''Writable paths:'',
        (if writable_paths \<noteq> [] then join newline (map (\<lambda>p. ''- '' @ p) writable_paths) else ''- reports/**''), [],
        ''Return YAML only with this shape:'', [], ''report: |'', ''  markdown report content'', ''files:'',
        ''  - path: relative/path/to/file'', ''    content: |'', ''      full file content'', [], ''Rules:'',
        ''- Use relative project paths only.'', ''- Do not return files outside the writable paths.'',
        ''- If no source files should change, return an empty files list.'',
        ''- Keep the report focused on the work completed for this role.'', [], ''## Context Packet'', [], context, []])))"

definition expected_report_target :: "path \<Rightarrow> pydict \<Rightarrow> path option" where
  "expected_report_target story_path agent =
     (let expected_output = text_value agent ''expected_output'' [] in
      if expected_output = [] then None else Some (join_path story_path expected_output))"

definition effective_writable_paths :: "path \<Rightarrow> path \<Rightarrow> pydict \<Rightarrow> string list res" where
  "effective_writable_paths project story_path agent =
     (let stated = (case dget_or agent ''writable_paths'' PNone of
            PList xs \<Rightarrow> concat (map (\<lambda>v. case stripped v of Some s \<Rightarrow> [s] | None \<Rightarrow> []) xs) | _ \<Rightarrow> []);
          expected_output = text_value agent ''expected_output'' [] in
      if stated \<noteq> [] then Inr stated
      else if expected_output \<noteq> [] then
        rbind (response_path expected_output) (\<lambda>p.
        rbind (relative_to_project project (join_path story_path p)) (\<lambda>r. Inr [r]))
      else Inr [])"

definition role_context_file :: "path \<Rightarrow> string \<Rightarrow> path" where
  "role_context_file story_path agent_id =
     join_path (story_path @ [''reports'', ''role_context'']) (agent_id @ ''_context.md'')"

text \<open>The prompt of a role, with its context packet.\<close>

definition role_prompt ::
    "codecs \<Rightarrow> string list \<Rightarrow> path \<Rightarrow> string \<Rightarrow> path \<Rightarrow> pydict \<Rightarrow> resolved_role_model \<Rightarrow> string \<Rightarrow> (exec_run, string) prog" where
  "role_prompt c folder_order project story story_path agent resolved model =
     (let context_file = role_context_file story_path (rr_agent_id resolved) in
      pbind (in_world (on_disk (build_role_context c folder_order project story (Some (rr_agent_id resolved)) False False
        (int DEFAULT_ROLE_CONTEXT_TARGET_CHARACTERS)))) (\<lambda>_.
      pbind (plift (effective_writable_paths project story_path agent)) (\<lambda>writable_paths.
      pbind (pread (\<lambda>s. build_local_execution_prompt c story agent model writable_paths context_file (run_disk s)))
        (\<lambda>prompt.
      pbind (plift (relative_to_project project context_file)) (\<lambda>relative.
      pbind (set_all set_audit [(''context_files'', pstrs [relative]), (''prompt_hash'', PStr (sha256_hex c prompt))]) (\<lambda>_.
      pret prompt))))))"

text \<open>The files of the response and the report, when the role may write all of them.\<close>

definition apply_role_response ::
    "path \<Rightarrow> path \<Rightarrow> pydict \<Rightarrow> string \<Rightarrow> string \<Rightarrow> (string \<times> string) list \<Rightarrow> (exec_run, unit) prog" where
  "apply_role_response project story_path agent role_name report files =
     (let report_target = expected_report_target story_path agent in
      pbind (set_attempted (map fst files)) (\<lambda>_.
      pbind (plift (case report_target of None \<Rightarrow> Inr [] | Some p \<Rightarrow> rbind (relative_to_project project p) (\<lambda>r. Inr [r])))
        (\<lambda>target.
      let attempted = map fst files @ target in
      pbind (set_attempted attempted) (\<lambda>_.
      pbind (plift (effective_writable_paths project story_path agent)) (\<lambda>writable_paths.
      pbind (refuse_unauthorized attempted writable_paths) (\<lambda>_.
      pbind (in_world (on_disk (apply_execution_writes project files (map_option (\<lambda>p. (p, report)) report_target))))
        (\<lambda>applied_paths.
      pbind (set_all set_audit [(''status'', PStr ''completed''), (''failure_type'', PNone)]) (\<lambda>_.
      pbind (plift (rmap_list (relative_to_project project) applied_paths)) (\<lambda>applied.
      pbind (set_audit ''applied_paths'' (pstrs applied)) (\<lambda>_.
      complete_role role_name))))))))))"

definition role_attempt ::
    "codecs \<Rightarrow> local_env \<Rightarrow> string list \<Rightarrow> path \<Rightarrow> string \<Rightarrow> path \<Rightarrow> pydict \<Rightarrow> string \<Rightarrow> resolved_role_model \<Rightarrow> string \<Rightarrow>
     path \<Rightarrow> (exec_run, unit) prog" where
  "role_attempt c env folder_order project story story_path agent role_name resolved model output_path =
     pbind (role_prompt c folder_order project story story_path agent resolved model) (\<lambda>prompt.
     pbind (task_response c env project (Some model) prompt output_path) (\<lambda>response_text.
     pbind (plift (parse_execution_response c response_text)) (\<lambda>(report, files).
     apply_role_response project story_path agent role_name report files)))"

definition role_failure :: "path \<Rightarrow> path \<Rightarrow> string \<Rightarrow> pyexn \<Rightarrow> (exec_run, bool) prog" where
  "role_failure state_path execution_yaml_path role_name e =
     (if exn_class e = OutsideModel then plift (Inl e)
      else pbind (pget (\<lambda>s. (truthy (dget_or (xs_audit s) ''prompt_hash'' PNone), xs_attempted s))) (\<lambda>(prompted, attempted).
        pbind (if exn_class e = PermissionError then
            pbind (set_audit ''attempted_paths'' (pstrs attempted)) (\<lambda>_.
            finalize_failure state_path role_name ''file_boundary_violation'' (exn_msg e))
          else if is_value_error e then
            finalize_failure state_path role_name
              (if \<not> prompted then ''context_preparation_error'' else classify_value_error (exn_msg e)) (exn_msg e)
          else
            finalize_failure state_path role_name
              (if \<not> prompted then ''context_preparation_error'' else ''runtime_unavailable'') (error_text e)) (\<lambda>_.
        pbind (write_audit execution_yaml_path) (\<lambda>_. pret False))))"

definition close_role :: "local_env \<Rightarrow> path \<Rightarrow> path \<Rightarrow> string \<Rightarrow> (exec_run, unit) prog" where
  "close_role env state_path execution_yaml_path role_name =
     pbind (now_text env) (\<lambda>now.
     pbind (pget (\<lambda>s. lx_duration env (w_clock (xs_world s)))) (\<lambda>duration.
     pbind (set_all set_audit [(''completed_at'', PStr now), (''duration_seconds'', duration)]) (\<lambda>_.
     pbind (store_audit ''executions'' role_name) (\<lambda>_.
     pbind (write_audit execution_yaml_path) (\<lambda>_.
     write_state state_path)))))"

text \<open>A role that is to be executed; the result says whether the next role follows.\<close>

definition execute_role ::
    "codecs \<Rightarrow> local_env \<Rightarrow> string list \<Rightarrow> path \<Rightarrow> string \<Rightarrow> path \<Rightarrow> path \<Rightarrow> path \<Rightarrow> pydict \<Rightarrow> string \<Rightarrow>
     (exec_run, bool) prog" where
  "execute_role c env folder_order project story story_path execution_path state_path agent role_name =
     (let role_path = join_path execution_path role_name in
      pbind (pread (\<lambda>s. resolve_role_model c project agent (run_disk s))) (\<lambda>resolved.
      pbind (pread (\<lambda>s. rbind (role_entry (xs_state s) role_name) (\<lambda>e. py_int (dget_or e ''attempt'' (PInt 0))))) (\<lambda>attempt.
      pbind (on_run_disk (fs_mkdir role_path)) (\<lambda>_.
      pbind (pmodify (\<lambda>s. s\<lparr>xs_audit := base_audit_metadata role_name (rr_model resolved) (attempt + 1)\<rparr>)) (\<lambda>_.
      pbind (set_all set_state [(''status'', PStr ''running''), (''current_role'', PStr role_name)]) (\<lambda>_.
      pbind (store_audit ''executions'' role_name) (\<lambda>_.
      pbind (write_state state_path) (\<lambda>_.
      case rr_model resolved of
        None \<Rightarrow> pbind (finalize_failure state_path role_name ''unresolved_model''
            ''No local model could be resolved for this role.'') (\<lambda>_. pret False)
      | Some model \<Rightarrow>
          pbind (now_text env) (\<lambda>started_at.
          pbind (set_audit ''started_at'' (PStr started_at)) (\<lambda>_.
          pbind (set_attempted []) (\<lambda>_.
          finally_do
            (ptry (pbind (role_attempt c env folder_order project story story_path agent role_name resolved model
                (role_path @ [''output.md''])) (\<lambda>_. pret True))
              (role_failure state_path (role_path @ [''execution.yaml'']) role_name))
            (close_role env state_path (role_path @ [''execution.yaml'']) role_name))))))))))))"

fun run_roles ::
    "codecs \<Rightarrow> local_env \<Rightarrow> string list \<Rightarrow> path \<Rightarrow> string \<Rightarrow> path \<Rightarrow> path \<Rightarrow> path \<Rightarrow> pydict list \<Rightarrow> (exec_run, unit) prog" where
  "run_roles c env folder_order project story story_path execution_path state_path [] = pret ()"
| "run_roles c env folder_order project story story_path execution_path state_path (agent # agents) =
     pbind (plift (canonical_role agent)) (\<lambda>role_name.
     pbind (pread (\<lambda>s. role_entry (xs_state s) role_name)) (\<lambda>entry.
     pbind (if dget_or entry ''status'' PNone = PStr ''completed'' then pret True
       else execute_role c env folder_order project story story_path execution_path state_path agent role_name) (\<lambda>next_role.
     if next_role then run_roles c env folder_order project story story_path execution_path state_path agents else pret ())))"

subsection \<open>The run of a story\<close>

text \<open>\<open>len(v)\<close>\<close>

definition py_len :: "pyval \<Rightarrow> nat res" where
  "py_len v = (case v of
     PList xs \<Rightarrow> Inr (length xs) | PStr s \<Rightarrow> Inr (length s) | PDict m \<Rightarrow> Inr (length m)
   | _ \<Rightarrow> type_error (''object of type '' @ quoted (type_name v) @ '' has no len()''))"

definition finalize_roles :: "pydict \<Rightarrow> nat \<Rightarrow> pydict res" where
  "finalize_roles state n =
     (if truthy (dget_or state ''blocked_roles'' PNone) then Inr (al_set ''status'' (PStr ''blocked'') state)
      else rbind (py_len (dget_or state ''completed_roles'' (PList []))) (\<lambda>k.
        Inr (if k = n then al_merge state [(''status'', PStr ''completed''), (''current_role'', PNone)] else state)))"

definition run_agents ::
    "codecs \<Rightarrow> local_env \<Rightarrow> string list \<Rightarrow> path \<Rightarrow> string \<Rightarrow> path \<Rightarrow> path \<Rightarrow> path \<Rightarrow> pydict list \<Rightarrow> (exec_run, string) prog" where
  "run_agents c env folder_order project story story_path execution_path state_path ordered_agents =
     pbind (write_state state_path) (\<lambda>_.
     pbind (run_roles c env folder_order project story story_path execution_path state_path ordered_agents) (\<lambda>_.
     pbind (pread (\<lambda>s. finalize_roles (xs_state s) (length ordered_agents))) (\<lambda>state.
     pbind (pmodify (\<lambda>s. s\<lparr>xs_state := state\<rparr>)) (\<lambda>_.
     pbind (write_state state_path) (\<lambda>_.
     case dget state ''status'' of
       None \<Rightarrow> plift (Inl (Exn KeyError (repr_str ''status'')))
     | Some v \<Rightarrow> pret (py_str v))))))"

definition run_role_execution ::
    "codecs \<Rightarrow> local_env \<Rightarrow> string list \<Rightarrow> path \<Rightarrow> string \<Rightarrow> path \<Rightarrow> string option \<Rightarrow> bool \<Rightarrow> bool \<Rightarrow>
     (world, local_execution_result) prog" where
  "run_role_execution c env folder_order project story story_path role resuming dry_run =
     (let execution_path = execution_folder story_path; state_path = execution_path @ [''state.yaml''];
          result = (\<lambda>status roles. \<lparr>le_story = story, le_story_path = story_path, le_status = status,
            le_state_path = state_path, le_roles = roles, le_subtasks = None\<rparr>) in
      pbind (on_disk (pmodify (prepare_execution execution_path))) (\<lambda>_.
      pbind (pread (\<lambda>w. selected_agents c story_path role (w_disk w))) (\<lambda>ordered_agents.
      pbind (pread (\<lambda>w. rmap_list (\<lambda>a. resolve_role_model c project a (w_disk w)) ordered_agents)) (\<lambda>resolved_roles.
      if dry_run then pret (result ''dry_run'' resolved_roles)
      else
        pbind (pread (\<lambda>w. if resuming then load_execution_state c state_path (w_disk w) else Inr [])) (\<lambda>existing.
        pbind (with_state (initialize_state existing story)
                (run_agents c env folder_order project story story_path execution_path state_path ordered_agents)) (\<lambda>status.
        pret (result status resolved_roles)))))))"

definition run_local_execution ::
    "codecs \<Rightarrow> local_env \<Rightarrow> string list \<Rightarrow> path \<Rightarrow> string \<Rightarrow> string option \<Rightarrow> bool \<Rightarrow> bool \<Rightarrow>
     (world, local_execution_result) prog" where
  "run_local_execution c env folder_order project story role resuming dry_run =
     (let story_path = join_path (project @ [''stories'']) story in
      pbind (pget (\<lambda>w. fs_exists (w_disk w) story_path \<and> fs_is_dir (w_disk w) (lexical story_path))) (\<lambda>there.
      if \<not> there then plift (not_found (''Story folder does not exist: '' @ path_text story_path))
      else
        pbind (pread (\<lambda>w. load_blueprint_story c project story_path (w_disk w))) (\<lambda>blueprint_story.
        pbind (plift (parse_blueprint_subtasks blueprint_story)) (\<lambda>subtasks.
        if subtasks \<noteq> [] then
          run_subtask_local_execution c env project story story_path
            (case blueprint_story of None \<Rightarrow> [] | Some b \<Rightarrow> b) subtasks role resuming dry_run None
        else run_role_execution c env folder_order project story story_path role resuming dry_run))))"

end
