(* ===== verification/LocalRunFacts.thy ===== *)
theory LocalRunFacts
  imports LocalRun AppServiceFacts
begin

text \<open>
  What a run of the sub-tasks of a story changes on the disk: the files of its own execution and
  files that match the writable patterns of the tasks, as long as the identifiers of the tasks are
  plain names; and what an identifier that is an absolute path does.
\<close>

declare only_changes_refl [rule del]

subsection \<open>Files outside a set of paths\<close>

lemma changes_write: "lexical p \<in> A \<Longrightarrow> only_changes A d0 d \<Longrightarrow> only_changes A d0 (fs_write p v d)"
  by (auto simp: only_changes_def)

lemma changes_mkdir [simp]: "only_changes A d0 (fs_mkdir p d) = only_changes A d0 d"
  by (simp add: only_changes_def)

lemma changes_text: "lexical p \<in> A \<Longrightarrow> only_changes A d0 d \<Longrightarrow> only_changes A d0 (write_text p t d)"
  by (simp add: write_text_def changes_write)

lemma write_file_keeps: "lexical p \<in> A \<Longrightarrow> keeps (only_changes A d0) (write_file p text)"
  by (auto simp: keeps_def write_file_def changes_text)

lemma keeps_pfold_set:
  assumes "\<And>x a. x \<in> set xs \<Longrightarrow> keeps P (f x a)"
  shows "keeps P (pfold f xs a)"
  using assms by (induction xs arbitrary: a) (auto intro!: keeps_pret keeps_pbind)

text \<open>A plain path below a plain directory.\<close>

lemma apply_writes_keeps:
  assumes "plain_path project"
    and files: "\<And>p content. (p, content) \<in> set files \<Longrightarrow> \<not> is_absolute p \<and> ''..'' \<notin> set (posix_tail p) \<and> project @ posix_tail p \<in> A"
  shows "keeps (only_changes A d0) (apply_execution_writes project files None)"
proof -
  have "lexical (join_path project p) \<in> A" if "(p, content) \<in> set files" for p content
    using files [OF that] assms(1) by (simp add: join_path_def plain_path_def)
  then have step: "keeps (only_changes A d0) (pbind (write_file (fst x) (snd x)) (\<lambda>_. pret (applied @ [fst x])))"
    if "x \<in> set (map (\<lambda>(p, content). (join_path project p, content)) files)" for x applied
    using that by (auto intro!: keeps_pbind keeps_pret write_file_keeps)
  show ?thesis
    unfolding apply_execution_writes_def Let_def
    by (intro keeps_pbind keeps_pread keeps_pfold_set) (use step in \<open>simp add: case_prod_beta\<close>)
qed

subsection \<open>Programs of a run\<close>

definition of_run :: "(disk \<Rightarrow> bool) \<Rightarrow> exec_run \<Rightarrow> bool" where
  "of_run P s \<longleftrightarrow> P (run_disk s)"

lemma keeps_in_world: "keeps (of_disk P) m \<Longrightarrow> keeps (of_run P) (in_world m)"
  by (auto simp: keeps_def of_run_def run_disk_def in_world_def of_disk_def split: prod.splits)

lemma keeps_on_run_disk: "(\<And>d. P d \<Longrightarrow> P (f d)) \<Longrightarrow> keeps (of_run P) (on_run_disk f)"
  unfolding on_run_disk_def by (intro keeps_in_world keeps_on_disk keeps_pmodify)

lemma keeps_run_fields [keeps_intros]:
  "keeps (of_run P) (set_state k v)" "keeps (of_run P) (set_audit k v)" "keeps (of_run P) (set_attempted ps)"
  "keeps (of_run P) (pmodify (xs_state_update f))" "keeps (of_run P) (pmodify (xs_audit_update f))"
  "keeps (of_run P) (now_text env)" "keeps (of_run P) (store_audit k i)" "keeps (of_run P) (task_entry task)"
  "keeps (of_run P) (update_task_entry i e)" "keeps (of_run P) (in_world (call_local_model env cfg prompt model))"
  by (auto simp: keeps_def of_run_def run_disk_def set_state_def set_audit_def set_attempted_def now_text_def
      in_world_def store_audit_def task_entry_def update_task_entry_def call_local_model_def Let_def split: pyval.splits)

lemma keeps_set_all [keeps_intros]: "(\<And>k v. keeps P (f k v)) \<Longrightarrow> keeps P (set_all f kvs)"
  unfolding set_all_def by (intro keeps_pfold) (simp add: case_prod_beta)

lemma keeps_state_lists [keeps_intros]:
  "keeps (of_run P) (add_once k i)" "keeps (of_run P) (drop_item k i)" "keeps (of_run P) (complete_subtask i)"
  unfolding add_once_def drop_item_def complete_subtask_def by (intro keeps_intros)+

lemma keeps_writes [keeps_intros]:
  assumes "lexical p \<in> A"
  shows "keeps (of_run (only_changes A d0)) (write_state p)" "keeps (of_run (only_changes A d0)) (write_audit p)"
    "keeps (of_run (only_changes A d0)) (on_run_disk (fs_write p v))"
proof -
  have w: "keeps (of_run (only_changes A d0)) (on_run_disk (fs_write p v))" for v
    using assms by (intro keeps_on_run_disk changes_write)
  then show "keeps (of_run (only_changes A d0)) (on_run_disk (fs_write p v))" .
  show "keeps (of_run (only_changes A d0)) (write_state p)" "keeps (of_run (only_changes A d0)) (write_audit p)"
    using w unfolding keeps_def write_state_def write_audit_def by blast+
qed

lemma keeps_run_mkdir [keeps_intros]: "keeps (of_run (only_changes A d0)) (on_run_disk (fs_mkdir p))"
  by (intro keeps_on_run_disk) simp

lemma keeps_finally [keeps_intros]: "keeps P m \<Longrightarrow> keeps P f \<Longrightarrow> keeps P (finally_do m f)"
  unfolding keeps_def finally_do_def by (auto split: prod.splits sum.splits)

lemma keeps_outcomes [keeps_intros]:
  assumes "lexical state_path \<in> A"
  shows "keeps (of_run (only_changes A d0)) (block_subtask state_path task ft summary)"
    and "keeps (of_run (only_changes A d0)) (fail_subtask state_path task ft summary)"
    and "keeps (of_run (only_changes A d0)) (mark_cloud_redecomposition_required state_path task)"
proof -
  show "keeps (of_run (only_changes A d0)) (block_subtask state_path task ft summary)"
    unfolding block_subtask_def by (intro keeps_intros assms)
  show "keeps (of_run (only_changes A d0)) (fail_subtask state_path task ft summary)"
    unfolding fail_subtask_def by (intro keeps_intros assms)
  show "keeps (of_run (only_changes A d0)) (mark_cloud_redecomposition_required state_path task)"
    unfolding mark_cloud_redecomposition_required_def by (intro keeps_intros assms)
qed

lemma keeps_failure [keeps_intros]:
  assumes "lexical state_path \<in> A"
  shows "keeps (of_run (only_changes A d0)) (task_failure state_path task e)"
  unfolding task_failure_def by (intro keeps_intros assms)

subsection \<open>What a task may write\<close>

text \<open>The paths of the files a response may hold: relative, without double dots.\<close>

lemma as_posix_tail:
  assumes "\<not> is_absolute s" and "''..'' \<notin> set (posix_parts s)"
  shows "\<not> is_absolute (as_posix s) \<and> ''..'' \<notin> set (posix_tail (as_posix s))"
  using assms as_posix_relative_root [OF assms(1)] posix_tail_as_posix [OF assms(1)]
  by (simp add: is_absolute_def posix_parts_def)

lemma response_path_inside:
  "response_path t = Inr p \<Longrightarrow> \<not> is_absolute p \<and> ''..'' \<notin> set (posix_tail p)"
  using as_posix_tail by (auto simp: response_path_def Let_def split: if_splits)

lemma response_file_inside:
  "response_file v = Inr (p, content) \<Longrightarrow> \<not> is_absolute p \<and> ''..'' \<notin> set (posix_tail p)"
  using response_path_inside by (auto simp: response_file_def split: pyval.splits if_splits)

lemma parsed_files_inside:
  assumes "parse_execution_response c text = Inr (report, files)" and "(p, content) \<in> set files"
  shows "\<not> is_absolute p \<and> ''..'' \<notin> set (posix_tail p)"
proof -
  from assms(1) obtain t where t: "normalize_execution_response text = Inr t"
    by (auto simp: parse_execution_response_def)
  note run = assms(1) [unfolded parse_execution_response_def t rbind.simps]
  obtain loaded where "parse_execution_mapping loaded = Inr (report, files)"
  proof (cases "yaml_load c t")
    case (Inr v)
    then show ?thesis using run that by (cases v) simp_all
  qed (use run in \<open>simp split: if_splits\<close>)
  then consider "files = []" | xs where "rmap_list response_file xs = Inr files"
    by (cases "dget_or loaded ''files'' PNone")
      (simp_all add: parse_execution_mapping_def split: if_split_asm, blast)
  then show ?thesis
  proof cases
    case 2
    with assms(2) rmap_list_set [OF 2] response_file_inside show ?thesis by blast
  qed (use assms(2) in simp)
qed

lemma parsed_response_inside:
  assumes "parse_subtask_execution_response c text = Inr parsed" and "(p, content) \<in> set (er_files parsed)"
  shows "\<not> is_absolute p \<and> ''..'' \<notin> set (posix_tail p)"
proof -
  from assms(1) obtain report where "parse_execution_response c text = Inr (report, er_files parsed)"
    by (auto simp: parse_subtask_execution_response_def)
  with parsed_files_inside assms(2) show ?thesis by blast
qed

text \<open>The files of the execution of a story, and those a task of the list may write.\<close>

definition execution_area :: "path \<Rightarrow> path set" where
  "execution_area story_path = {p. \<exists>r. p = execution_folder story_path @ r}"

definition writable_area :: "path \<Rightarrow> blueprint_subtask list \<Rightarrow> path set" where
  "writable_area project tasks = {p. \<exists>t \<in> set tasks. \<exists>pat \<in> set (bs_writable_paths t). \<exists>s.
     p = project @ posix_tail s \<and> fnmatchcase s pat}"

lemma authorized_in_area:
  assumes "unauthorized_paths (map fst files) (bs_writable_paths task) = []" and "task \<in> set tasks"
    and "(p, content) \<in> set files"
  shows "project @ posix_tail p \<in> writable_area project tasks"
proof -
  from assms(1,3) have "\<exists>pat \<in> set (bs_writable_paths task). fnmatchcase p pat"
    by (force simp: unauthorized_paths_def filter_empty_conv list_ex_iff split: if_splits)
  with assms(2) show ?thesis by (auto simp: writable_area_def)
qed

lemma refuse_guards:
  "guarded (of_run P) (\<lambda>_. unauthorized_paths attempted writable = []) (refuse_unauthorized attempted writable)"
  unfolding refuse_unauthorized_def Let_def
  by (intro guarded_if guarded_pret guarded_pbind [OF guarded_keeps] guarded_plift keeps_intros) simp_all

lemma task_response_keeps:
  assumes "lexical output_path \<in> A"
  shows "keeps (of_run (only_changes A d0)) (task_response c env project model prompt output_path)"
  unfolding task_response_def by (intro keeps_intros assms)

lemma apply_response_keeps:
  assumes "plain_path project" and "writable_area project tasks \<subseteq> A" and "task \<in> set tasks"
    and "unauthorized_paths (map fst (er_files parsed)) (bs_writable_paths task) = []"
    and "parse_subtask_execution_response c text = Inr parsed"
  shows "keeps (of_run (only_changes A d0)) (apply_response project task parsed output_path)"
proof -
  have "keeps (only_changes A d0) (apply_execution_writes project (er_files parsed) None)"
    using assms authorized_in_area [OF assms(4,3)] parsed_response_inside [OF assms(5)]
    by (intro apply_writes_keeps) auto
  then have "keeps (of_run (only_changes A d0)) (in_world (on_disk (apply_execution_writes project (er_files parsed) None)))"
    by (intro keeps_in_world keeps_on_disk)
  then show ?thesis unfolding apply_response_def by (intro keeps_intros)
qed

lemma task_attempt_keeps:
  assumes "plain_path project" and "writable_area project tasks \<subseteq> A" and "task \<in> set tasks"
    and state: "lexical state_path \<in> A" and folder: "\<And>n. plain_name n \<Longrightarrow> lexical (task_path @ [n]) \<in> A"
  shows "keeps (of_run (only_changes A d0))
    (task_attempt c env project story story_path blueprint_story state_path task_path task resolved)"
proof -
  have files: "lexical (task_path @ [''context.md'']) \<in> A" "lexical (task_path @ [''output.md'']) \<in> A"
    "lexical (task_path @ [''execution.yaml'']) \<in> A"
    using folder by (simp_all add: plain_name_def)
  have applied: "keeps (of_run (only_changes A d0))
      (pbind (plift (parse_subtask_execution_response c t)) (\<lambda>parsed.
        let attempted = map fst (er_files parsed) in
        pbind (set_attempted attempted) (\<lambda>_.
        pbind (refuse_unauthorized attempted (bs_writable_paths task)) (\<lambda>_.
        apply_response project task parsed (task_path @ [''output.md''])))))" for t
    unfolding Let_def
    by (rule keeps_guarded, rule guarded_pbind [OF guarded_plift [where F = "\<lambda>p. parse_subtask_execution_response c t = Inr p"]],
        assumption, rule guarded_pbind [OF guarded_keeps [OF keeps_run_fields(3)]], rule guarded_pbind [OF refuse_guards],
        rule guarded_keeps, rule apply_response_keeps [OF assms(1-3)])
  show ?thesis
    unfolding task_attempt_def audit_context_def
    by (intro keeps_intros files state task_response_keeps applied)
qed

lemma execute_task_keeps:
  assumes "plain_path project" and "writable_area project tasks \<subseteq> A" and "task \<in> set tasks"
    and state: "lexical state_path \<in> A"
    and folder: "\<And>n. plain_name n \<Longrightarrow> lexical (task_folder execution_path (bs_id task) @ [n]) \<in> A"
  shows "keeps (of_run (only_changes A d0))
    (execute_task c env project story story_path blueprint_story execution_path state_path task entry)"
proof -
  have "lexical (task_folder execution_path (bs_id task) @ [''execution.yaml'']) \<in> A"
    using folder by (simp add: plain_name_def)
  then show ?thesis
    unfolding execute_task_def close_task_def Let_def
    by (intro keeps_intros state task_attempt_keeps [OF assms(1-3) state folder])
qed

lemma run_tasks_keeps:
  assumes "plain_path project" and "writable_area project tasks \<subseteq> A" and "set ordered \<subseteq> set tasks"
    and state: "lexical state_path \<in> A"
    and folder: "\<And>n t. plain_name n \<Longrightarrow> t \<in> set tasks \<Longrightarrow> lexical (task_folder execution_path (bs_id t) @ [n]) \<in> A"
  shows "keeps (of_run (only_changes A d0))
    (run_tasks c env project story story_path blueprint_story execution_path state_path resuming ordered)"
proof -
  have task: "keeps (of_run (only_changes A d0))
      (run_task c env project story story_path blueprint_story execution_path state_path resuming task)"
    if "task \<in> set ordered" for task
    unfolding run_task_def using that assms(3)
    by (intro keeps_intros state execute_task_keeps [OF assms(1,2)] folder) auto
  show ?thesis
    unfolding run_tasks_def by (intro keeps_intros keeps_pfold_set state task)
qed

text \<open>The whole run, on a disk: what comes before the tasks changes files of the execution only.\<close>

lemma with_state_keeps: "keeps (of_run P) m \<Longrightarrow> keeps (of_disk P) (with_state state m)"
  by (auto simp: keeps_def with_state_def of_run_def of_disk_def run_disk_def split: prod.splits)
    (metis exec_run.select_convs(1) snd_conv)

lemma selected_subset: "selected_subtasks tasks role = Inr selected \<Longrightarrow> set selected \<subseteq> set tasks"
  by (auto simp: selected_subtasks_def Let_def split: option.splits if_splits)

lemma topological_subset:
  assumes "topological_subtasks tasks = Inr ordered" and "distinct (map bs_id tasks)"
  shows "set ordered = set tasks"
  using execution_order [OF assms(2)] assms(1) by blast

lemma selected_ordered:
  assumes "selected_subtasks tasks role = Inr selected" and "topological_subtasks selected = Inr ordered"
    and "distinct (map bs_id tasks)"
  shows "set ordered = set selected" and "set ordered \<subseteq> set tasks"
proof -
  obtain P where "selected = filter P tasks"
    using assms(1) by (auto simp: selected_subtasks_def Let_def split: option.splits if_splits intro: that [of "\<lambda>_. True"])
  then show "set ordered = set selected" using topological_subset [OF assms(2)] assms(3) by (simp add: distinct_map_filter)
  with selected_subset [OF assms(1)] show "set ordered \<subseteq> set tasks" by simp
qed

lemma area_files:
  assumes "plain_path story_path"
  shows "lexical (execution_folder story_path @ [''state.yaml'']) \<in> execution_area story_path"
    and "lexical (execution_folder story_path @ [''.gitkeep'']) \<in> execution_area story_path"
    and "plain_name i \<Longrightarrow> plain_name n \<Longrightarrow>
      lexical (task_folder (execution_folder story_path) i @ [n]) \<in> execution_area story_path"
proof -
  show "lexical (execution_folder story_path @ [''state.yaml'']) \<in> execution_area story_path"
    "lexical (execution_folder story_path @ [''.gitkeep'']) \<in> execution_area story_path"
    using assms by (simp_all add: execution_area_def execution_folder_def)
  assume "plain_name i" "plain_name n"
  then have "plain_path (execution_folder story_path @ [''tasks'', i, n])"
    using assms by (simp add: execution_folder_def plain_name_def)
  with \<open>plain_name i\<close> show "lexical (task_folder (execution_folder story_path) i @ [n]) \<in> execution_area story_path"
    by (simp add: execution_area_def task_folder_def)
qed

lemma prepare_keeps:
  assumes "plain_path story_path" and "execution_area story_path \<subseteq> A" and "only_changes A d0 d"
  shows "only_changes A d0 (prepare_execution (execution_folder story_path) d)"
  using assms area_files(2) [OF assms(1)] by (auto simp: prepare_execution_def Let_def intro!: changes_write)

lemma local_execution_keeps:
  assumes "plain_path project" and story: "plain_path story_path" and ids: "\<And>t. t \<in> set tasks \<Longrightarrow> plain_name (bs_id t)"
    and distinct: "distinct (map bs_id tasks)"
  shows "keeps (of_disk (only_changes (execution_area story_path \<union> writable_area project tasks) d0))
    (run_subtask_local_execution c env project story story_path blueprint_story tasks role resuming dry_run initial_state)"
proof -
  let ?A = "execution_area story_path \<union> writable_area project tasks"
  have prepared: "keeps (of_disk (only_changes ?A d0)) (on_disk (pmodify (prepare_execution (execution_folder story_path))))"
    by (intro keeps_on_disk keeps_pmodify prepare_keeps [OF story]) simp_all
  have tasks: "keeps (of_disk (only_changes ?A d0)) (with_state state (run_tasks c env project story story_path
      blueprint_story (execution_folder story_path) (execution_folder story_path @ [''state.yaml'']) resuming ordered))"
    if "set ordered \<subseteq> set tasks" for state ordered
    by (intro with_state_keeps run_tasks_keeps [OF assms(1) _ that]) (use area_files [OF story] ids in auto)
  have ordered: "guarded (of_disk (only_changes ?A d0)) (\<lambda>ts. set ts \<subseteq> set tasks)
      (plift (rbind (selected_subtasks tasks role) topological_subtasks))"
    using selected_ordered(2) [OF _ _ distinct] by (intro guarded_plift) auto
  show ?thesis
    unfolding run_subtask_local_execution_def run_ordered_def Let_def
    by (rule keeps_pbind [OF prepared], rule keeps_guarded, rule guarded_pbind [OF ordered], rule guarded_keeps)
      (intro keeps_intros tasks; assumption)
qed

text \<open>
  C33: a run of the sub-tasks of a story, whatever the model answers and whether it returns or
  raises, changes only files of the execution folder of the story and files of the project that
  match a writable pattern of one of its tasks, provided the identifiers of the tasks are plain
  names.
\<close>

theorem subtask_run_confined:
  assumes "plain_path project" and "plain_path story_path" and "\<forall>t \<in> set tasks. plain_name (bs_id t)"
    and "distinct (map bs_id tasks)"
    and run: "run_subtask_local_execution c env project story story_path blueprint_story tasks role resuming dry_run
        initial_state w = (res, w')"
    and p: "plain_path p" "fs_file (w_disk w') p \<noteq> fs_file (w_disk w) p"
  shows "(\<exists>r. p = story_path @ [''reports'', ''local_execution''] @ r)
    \<or> (\<exists>t \<in> set tasks. \<exists>pattern \<in> set (bs_writable_paths t). \<exists>s. p = project @ posix_tail s \<and> fnmatchcase s pattern)"
proof -
  let ?A = "execution_area story_path \<union> writable_area project tasks"
  have "keeps (of_disk (only_changes ?A (w_disk w))) (run_subtask_local_execution c env project story story_path
      blueprint_story tasks role resuming dry_run initial_state)"
    using assms(1-4) by (intro local_execution_keeps) auto
  from keepsD [OF this run] have "only_changes ?A (w_disk w) (w_disk w')"
    by (simp add: of_disk_def only_changes_def)
  with p have "p \<in> ?A" by (auto simp: only_changes_def)
  then show ?thesis by (auto simp: execution_area_def execution_folder_def writable_area_def)
qed

end
