(* ===== verification/LocalRoleFacts.thy ===== *)
theory LocalRoleFacts
  imports LocalRole LocalRunFacts
begin

text \<open>
  The run of the roles of a story: what it changes on the disk, and what becomes of the state of a
  story whose roles are run one at a time.
\<close>

subsection \<open>Context packets\<close>

lemma keeps_notes [keeps_intros]: "keeps P (\<lambda>n. (r, n))"
  by (simp add: keeps_def)

lemma write_existing_keeps: "lexical p \<in> A \<Longrightarrow> keeps (only_changes A d0) (write_existing p v)"
  by (auto simp: keeps_def write_existing_def changes_write)

lemma plain_name_end: "CHR ''/'' \<notin> set s \<Longrightarrow> plain_name (s @ ''_context.md'')"
  by (simp add: plain_name_def Cons_eq_append_conv append_eq_Cons_conv)

text \<open>The files of the context packets of a story.\<close>

definition context_area :: "path \<Rightarrow> path set" where
  "context_area story_path = {p. \<exists>r. p = story_path @ [''reports'', ''role_context''] @ r}
     \<union> {story_path @ [''reports'', ''role_context_result.yaml''], story_path @ [''reports'', ''role_context_report.md'']}"

definition agent_named :: "string \<Rightarrow> pydict \<Rightarrow> bool" where
  "agent_named i agent \<longleftrightarrow> text_value agent ''id'' ''unknown_agent'' \<in> {i, ''unknown_agent''}"

lemma text_value_or: "text_value m k d \<in> {text_value m k e, d}"
  by (auto simp: text_value_def split: pyval.splits)

lemma select_agents_named: "select_agents agents (Some i) = Inr selected \<Longrightarrow> a \<in> set selected \<Longrightarrow> agent_named i a"
  using text_value_or [of a "''id''" "''unknown_agent''" "[]"]
  by (auto simp: select_agents_def agent_named_def agent_id_of_def find_Some_iff split: option.splits)

lemma packet_keeps:
  assumes "plain_path story_path" and "context_area story_path \<subseteq> A" and "slash_free i" and "agent_named i agent"
  shows "keeps (only_changes A d0) (build_agent_context_packet c order project story_path story plan
    (story_path @ [''reports'', ''role_context'']) force k agent)"
proof -
  have "slash_free (text_value agent ''id'' ''unknown_agent'')"
    using assms(3,4) by (auto simp: agent_named_def slash_free_def)
  then have "plain_name (text_value agent ''id'' ''unknown_agent'' @ ''_context.md'')"
    by (simp add: slash_free_def plain_name_end)
  then have "lexical (join_path (story_path @ [''reports'', ''role_context'']) (text_value agent ''id'' ''unknown_agent'' @ ''_context.md'')) \<in> A"
    using assms(1,2) by (auto simp: context_area_def plain_name_def)
  then show ?thesis
    unfolding build_agent_context_packet_def Let_def by (intro keeps_intros write_existing_keeps)
qed

lemma changes_touch: "lexical p \<in> A \<Longrightarrow> only_changes A d0 d \<Longrightarrow> only_changes A d0 (touch p d)"
  by (simp add: touch_def changes_write)

lemma role_context_keeps:
  assumes "plain_path project" and "plain_name story" and "context_area (project @ [''stories'', story]) \<subseteq> A" and "slash_free i"
  shows "keeps (only_changes A d0) (build_role_context c order project story (Some i) False force k)"
proof -
  let ?s = "project @ [''stories'', story]"
  have s: "join_path (project @ [''stories'']) story = ?s" using assms(2) by simp
  have plain: "plain_path ?s" using assms(1,2) by (simp add: plain_name_def)
  have files: "lexical (?s @ [''reports'', ''role_context'', ''.gitkeep'']) \<in> A"
    "lexical (?s @ [''reports'', ''role_context_result.yaml'']) \<in> A" "lexical (?s @ [''reports'', ''role_context_report.md'']) \<in> A"
    using assms(3) plain by (auto simp: context_area_def)
  have selected: "guarded (only_changes A d0) (\<lambda>agents. \<forall>a \<in> set agents. agent_named i a)
      (pread (\<lambda>d. rbind (load_agent_plan c (?s @ [''agent_plan.yaml'']) d) (\<lambda>plan.
          rbind (ordered_assigned_agents plan) (\<lambda>agents. select_agents agents (Some i)))))"
    by (rule guarded_pread) (auto dest: select_agents_named)
  have packets: "keeps (only_changes A d0) (pfold (\<lambda>a packets. pbind (build_agent_context_packet c order project ?s story
      (?s @ [''agent_plan.yaml'']) (?s @ [''reports'', ''role_context'']) force (nat k) a) (\<lambda>p. pret (packets @ [p]))) agents [])"
    if "\<forall>a \<in> set agents. agent_named i a" for agents
    using that by (intro keeps_pfold_set keeps_intros packet_keeps [OF plain assms(3,4)]) auto
  have build: "keeps (only_changes A d0) (pbind (pread (\<lambda>d. rbind (load_agent_plan c (?s @ [''agent_plan.yaml'']) d) (\<lambda>plan.
          rbind (ordered_assigned_agents plan) (\<lambda>agents. select_agents agents (Some i)))))
        (\<lambda>agents. pbind (pmodify (\<lambda>d. touch ((?s @ [''reports'', ''role_context'']) @ [''.gitkeep'']) (fs_mkdir (?s @ [''reports'', ''role_context'']) d)))
        (\<lambda>_. pbind (pfold (\<lambda>a packets. pbind (build_agent_context_packet c order project ?s story
      (?s @ [''agent_plan.yaml'']) (?s @ [''reports'', ''role_context'']) force (nat k) a) (\<lambda>p. pret (packets @ [p]))) agents [])
        (\<lambda>packets. let r = role_context_result_of project ?s story (nat k) packets in
        pbind (write_existing (rx_result_path r) (Doc (PDict (role_context_result_value r)))) (\<lambda>_.
        pbind (write_existing (rx_report_path r) (Text (format_role_context_report r))) (\<lambda>_. pret r))))))"
    by (rule keeps_guarded, rule guarded_pbind [OF selected], rule guarded_keeps, unfold Let_def)
      (intro keeps_intros packets keeps_pmodify changes_touch write_existing_keeps;
        simp add: files files [simplified] role_context_result_of_def Let_def)
  show ?thesis
    unfolding build_role_context_def Let_def s
    by (rule keeps_pbind [OF keeps_pget], intro keeps_if keeps_plift, rule build [unfolded Let_def])
qed

subsection \<open>What a role may write\<close>

text \<open>A path of the project that matches one of the patterns.\<close>

definition pattern_area :: "path \<Rightarrow> string list \<Rightarrow> path set" where
  "pattern_area project patterns =
     {p. \<exists>s. relative_to_project project p = Inr s \<and> (\<exists>pat \<in> set patterns. fnmatchcase s pat)}"

lemma lexical_idem [simp]: "lexical (lexical p) = lexical p"
  using plain_lexical [of p] by simp

lemma relative_lexical: "relative_to_project project (lexical p) = Inr s \<longleftrightarrow> relative_to_project project p = Inr s"
  by (auto simp: relative_to_project_def split: option.splits)

lemma response_path_normal:
  assumes "response_path t = Inr p" and "plain_path project"
  shows "relative_to_project project (join_path project p) = Inr p"
proof -
  let ?n = "replace_char (CHR 0x5C) (CHR ''/'') t"
  from assms(1) have n: "\<not> is_absolute ?n" "p = as_posix ?n" by (auto simp: response_path_def Let_def split: if_splits)
  have inside: "\<not> is_absolute p" "''..'' \<notin> set (posix_tail p)" using response_path_inside [OF assms(1)] by auto
  have tail: "posix_tail p = posix_tail ?n" by (simp only: n(2) posix_tail_as_posix [OF n(1)])
  have "p = (if posix_tail p = [] then ''.'' else join ''/'' (posix_tail p))"
    unfolding tail by (simp only: n(2) as_posix_relative [OF n(1)])
  moreover have "lexical (join_path project p) = project @ posix_tail p"
    using inside assms(2) by (simp add: join_path_def plain_path_def)
  ultimately show ?thesis using assms(2) by (simp add: relative_to_project_def)
qed

lemma parsed_files_normal:
  assumes "parse_execution_response c text = Inr (report, files)" and "(p, content) \<in> set files" and "plain_path project"
  shows "relative_to_project project (join_path project p) = Inr p"
proof -
  from assms(1) obtain t where t: "normalize_execution_response text = Inr t"
    by (auto simp: parse_execution_response_def)
  note run = assms(1) [unfolded parse_execution_response_def t rbind.simps]
  obtain loaded where "parse_execution_mapping loaded = Inr (report, files)"
  proof (cases "yaml_load c t")
    case (Inr v)
    then show ?thesis using run that by (cases v) simp_all
  qed (use run in \<open>simp split: if_splits\<close>)
  then consider "files = []" | xs where "rmap_list response_file xs = Inr files"
    by (cases "dget_or loaded ''files'' PNone")
      (simp_all add: parse_execution_mapping_def split: if_split_asm, blast)
  then show ?thesis
  proof cases
    case 2
    with assms(2) rmap_list_set [OF 2] obtain v where "response_file v = Inr (p, content)" by blast
    then obtain t where "response_path t = Inr p" by (auto simp: response_file_def split: pyval.splits if_splits)
    with response_path_normal assms(3) show ?thesis by blast
  qed (use assms(2) in simp)
qed

text \<open>Writes to planned files, each of which has to be in the area.\<close>

lemma apply_all_keeps:
  assumes "\<And>p content. (p, content) \<in> set files \<Longrightarrow> lexical (join_path project p) \<in> A"
    and "\<And>p r. report = Some (p, r) \<Longrightarrow> lexical p \<in> A"
  shows "keeps (only_changes A d0) (apply_execution_writes project files report)"
proof -
  have step: "keeps (only_changes A d0) (pbind (write_file (fst x) (snd x)) (\<lambda>_. pret (applied @ [fst x])))"
    if "x \<in> set (map (\<lambda>(p, content). (join_path project p, content)) files
          @ (case report of None \<Rightarrow> [] | Some r \<Rightarrow> [r]))" for x applied
    using that assms by (auto intro!: keeps_pbind keeps_pret write_file_keeps split: option.splits)
  show ?thesis
    unfolding apply_execution_writes_def Let_def
    by (intro keeps_pbind keeps_pread keeps_pfold_set) (use step in \<open>simp add: case_prod_beta\<close>)
qed

text \<open>The path of the report is below the project when it has a relative path.\<close>

lemma authorized_in_pattern:
  assumes "unauthorized_paths paths patterns = []" and "s \<in> set paths" and "relative_to_project project p = Inr s"
  shows "lexical p \<in> pattern_area project patterns"
proof -
  from assms(1,2) have "\<exists>pat \<in> set patterns. fnmatchcase s pat"
    by (force simp: unauthorized_paths_def filter_empty_conv list_ex_iff split: if_splits)
  with assms(3) show ?thesis by (auto simp: pattern_area_def relative_lexical)
qed

lemma apply_role_response_keeps:
  assumes "plain_path project"
    and pats: "\<And>pats. effective_writable_paths project story_path agent = Inr pats \<Longrightarrow> pattern_area project pats \<subseteq> A"
    and parsed: "parse_execution_response c text = Inr (report, files)"
  shows "keeps (of_run (only_changes A d0)) (apply_role_response project story_path agent role_name report files)"
proof -
  let ?target = "expected_report_target story_path agent"
  let ?targets = "case ?target of None \<Rightarrow> Inr [] | Some p \<Rightarrow> rbind (relative_to_project project p) (\<lambda>r. Inr [r])"
  have writes: "keeps (of_run (only_changes A d0)) (in_world (on_disk (apply_execution_writes project files
      (map_option (\<lambda>p. (p, report)) ?target))))"
    if "?targets = Inr target" "effective_writable_paths project story_path agent = Inr patterns"
      "unauthorized_paths (map fst files @ target) patterns = []" for target patterns
  proof (intro keeps_in_world keeps_on_disk apply_all_keeps)
    fix p content
    assume "(p, content) \<in> set files"
    then have "lexical (join_path project p) \<in> pattern_area project patterns"
      using parsed_files_normal [OF parsed _ assms(1)] by (intro authorized_in_pattern [OF that(3), of p]) force+
    with pats [OF that(2)] show "lexical (join_path project p) \<in> A" by blast
  next
    fix p r
    assume "map_option (\<lambda>p. (p, report)) ?target = Some (p, r)"
    with that(1) obtain s where "relative_to_project project p = Inr s" "target = [s]" by auto
    then have "lexical p \<in> pattern_area project patterns" by (intro authorized_in_pattern [OF that(3), of s]) auto
    with pats [OF that(2)] show "lexical p \<in> A" by blast
  qed
  show ?thesis
    unfolding apply_role_response_def Let_def
    by (rule keeps_guarded, rule guarded_pbind [OF guarded_keeps [OF keeps_run_fields(3)]],
        rule guarded_pbind [OF guarded_plift_eq], rule guarded_pbind [OF guarded_keeps [OF keeps_run_fields(3)]],
        rule guarded_pbind [OF guarded_plift_eq], rule guarded_pbind [OF refuse_guards], rule guarded_keeps,
        unfold complete_role_def, intro keeps_intros writes)
qed

lemma role_attempt_keeps:
  assumes "plain_path project" and "plain_name story" and "context_area (project @ [''stories'', story]) \<subseteq> A"
    and "slash_free (rr_agent_id resolved)" and "lexical output_path \<in> A"
    and pats: "\<And>pats. effective_writable_paths project story_path agent = Inr pats \<Longrightarrow> pattern_area project pats \<subseteq> A"
  shows "keeps (of_run (only_changes A d0))
    (role_attempt c env order project story story_path agent role_name resolved model output_path)"
proof -
  have prompt: "keeps (of_run (only_changes A d0)) (role_prompt c order project story story_path agent resolved model)"
    unfolding role_prompt_def Let_def
    by (intro keeps_intros keeps_in_world role_context_keeps assms(1-4))
  have applied: "keeps (of_run (only_changes A d0)) (pbind (plift (parse_execution_response c t)) (\<lambda>(report, files).
      apply_role_response project story_path agent role_name report files))" for t
    by (rule keeps_guarded, rule guarded_pbind [OF guarded_plift_eq], rule guarded_keeps)
      (auto intro!: apply_role_response_keeps [OF assms(1) pats])
  show ?thesis
    unfolding role_attempt_def by (intro keeps_intros prompt task_response_keeps assms(5) applied)
qed

lemma finalize_failure_keeps [keeps_intros]:
  assumes "lexical state_path \<in> A"
  shows "keeps (of_run (only_changes A d0)) (finalize_failure state_path role_name ft summary)"
  unfolding finalize_failure_def by (intro keeps_intros assms)

lemma resolved_agent:
  "resolve_role_model c project agent d = Inr r \<Longrightarrow> rr_agent_id r = text_value agent ''id'' []"
  by (auto simp: resolve_role_model_def Let_def split: if_splits prod.splits option.splits)

lemma execute_role_keeps:
  assumes "plain_path project" and "plain_name story" and "context_area (project @ [''stories'', story]) \<subseteq> A"
    and id: "slash_free (text_value agent ''id'' [])" and state: "lexical state_path \<in> A"
    and folder: "\<And>n. plain_name n \<Longrightarrow> lexical (join_path execution_path role_name @ [n]) \<in> A"
    and pats: "\<And>pats. effective_writable_paths project story_path agent = Inr pats \<Longrightarrow> pattern_area project pats \<subseteq> A"
  shows "keeps (of_run (only_changes A d0))
    (execute_role c env order project story story_path execution_path state_path agent role_name)"
proof -
  have files: "lexical (join_path execution_path role_name @ [''output.md'']) \<in> A"
    "lexical (join_path execution_path role_name @ [''execution.yaml'']) \<in> A"
    using folder by (simp_all add: plain_name_def)
  have resolved: "guarded (of_run (only_changes A d0)) (\<lambda>r. slash_free (rr_agent_id r))
      (pread (\<lambda>s. resolve_role_model c project agent (run_disk s)))"
    by (rule guarded_pread) (auto dest!: resolved_agent simp: id)
  show ?thesis
    unfolding execute_role_def Let_def role_failure_def close_role_def
    by (rule keeps_guarded, rule guarded_pbind [OF resolved], rule guarded_keeps)
      (intro keeps_intros keeps_finally state files role_attempt_keeps [OF assms(1-3) _ files(1) pats]; assumption)
qed

text \<open>The agents of a run, with identifiers and roles that are plain names.\<close>

definition plain_agent :: "pydict \<Rightarrow> bool" where
  "plain_agent agent \<longleftrightarrow> slash_free (text_value agent ''id'' [])
     \<and> (case canonical_role agent of Inr n \<Rightarrow> plain_name n | Inl _ \<Rightarrow> True)"

definition roles_area :: "path \<Rightarrow> path \<Rightarrow> pydict list \<Rightarrow> path set" where
  "roles_area project story_path agents = execution_area story_path \<union> context_area story_path
     \<union> {p. \<exists>a \<in> set agents. \<exists>pats. effective_writable_paths project story_path a = Inr pats \<and> p \<in> pattern_area project pats}"

lemma run_roles_keeps:
  assumes "plain_path project" and "plain_name story" and "roles_area project (project @ [''stories'', story]) agents \<subseteq> A"
    and "\<forall>a \<in> set agents. plain_agent a"
  shows "keeps (of_run (only_changes A d0)) (run_roles c env order project story (project @ [''stories'', story])
    (execution_folder (project @ [''stories'', story])) (execution_folder (project @ [''stories'', story]) @ [''state.yaml'']) agents)"
  using assms(3,4)
proof (induction agents)
  case (Cons agent agents)
  let ?s = "project @ [''stories'', story]" and ?e = "execution_folder (project @ [''stories'', story])"
  have s: "plain_path ?s" using assms(1,2) by (simp add: plain_name_def)
  have area: "execution_area ?s \<subseteq> A" "context_area ?s \<subseteq> A"
    "\<And>pats. effective_writable_paths project ?s agent = Inr pats \<Longrightarrow> pattern_area project pats \<subseteq> A"
    using Cons.prems(1) by (auto simp: roles_area_def)
  have role: "keeps (of_run (only_changes A d0)) (execute_role c env order project story ?s ?e (?e @ [''state.yaml'']) agent n)"
    if "canonical_role agent = Inr n" for n
  proof (intro execute_role_keeps assms(1,2) area(2,3); assumption?)
    show "slash_free (text_value agent ''id'' [])" using Cons.prems(2) by (simp add: plain_agent_def)
    show "lexical (?e @ [''state.yaml'']) \<in> A" using area_files(1) [OF s] area(1) by blast
    fix m :: string
    assume "plain_name m"
    moreover have "plain_name n" using Cons.prems(2) that by (simp add: plain_agent_def)
    ultimately have "lexical (join_path ?e n @ [m]) \<in> execution_area ?s"
      using s by (simp add: execution_area_def execution_folder_def plain_name_def)
    then show "lexical (join_path ?e n @ [m]) \<in> A" using area(1) by blast
  qed
  have rest: "keeps (of_run (only_changes A d0)) (run_roles c env order project story ?s ?e (?e @ [''state.yaml'']) agents)"
  proof (rule Cons.IH)
    have "roles_area project ?s agents \<subseteq> roles_area project ?s (agent # agents)" by (auto simp: roles_area_def)
    with Cons.prems(1) show "roles_area project ?s agents \<subseteq> A" by blast
  qed (use Cons.prems(2) in simp)
  show ?case
    unfolding run_roles.simps
    by (rule keeps_guarded, rule guarded_pbind [OF guarded_plift_eq], rule guarded_keeps)
      (intro keeps_intros role rest; assumption)
qed (simp add: keeps_intros)

lemma pbind_on_disk_pmodify: "pbind (on_disk (pmodify f)) k w = k () (w\<lparr>w_disk := f (w_disk w)\<rparr>)"
  by (simp add: on_disk_def pbind_def)

lemma pbind_pread_Inr: "f w = Inr x \<Longrightarrow> pbind (pread f) k w = k x w"
  by (simp add: pbind_def)


end
