(* ===== verification/LocalRunOrder.thy ===== *)
theory LocalRunOrder
  imports LocalRunFacts
begin

text \<open>
  What the state of a run records: a task is completed only after the tasks it depends on, however
  the execution of a task ends, and a story is completed only when all its tasks are.
\<close>

subsection \<open>The completed tasks of a state\<close>

definition done_in :: "pydict \<Rightarrow> string \<Rightarrow> bool" where
  "done_in state i \<longleftrightarrow> is_completed (tasks_of_state state) i"

definition of_done :: "((string \<Rightarrow> bool) \<Rightarrow> bool) \<Rightarrow> exec_run \<Rightarrow> bool" where
  "of_done Q s \<longleftrightarrow> Q (done_in (xs_state s))"

definition dependencies_done :: "blueprint_subtask list \<Rightarrow> (string \<Rightarrow> bool) \<Rightarrow> bool" where
  "dependencies_done ts D \<longleftrightarrow> (\<forall>u \<in> set ts. D (bs_id u) \<longrightarrow> (\<forall>d \<in> set (bs_depends_on u). D d))"

text \<open>The same while task \<open>i\<close> is being executed: whatever becomes of it, nothing has to be taken back.\<close>

definition open_task :: "blueprint_subtask list \<Rightarrow> blueprint_subtask \<Rightarrow> (string \<Rightarrow> bool) \<Rightarrow> bool" where
  "open_task ts t D \<longleftrightarrow>
     (\<forall>u \<in> set ts. bs_id u \<noteq> bs_id t \<and> D (bs_id u) \<longrightarrow> (\<forall>d \<in> set (bs_depends_on u). d \<noteq> bs_id t \<and> D d))
     \<and> (\<forall>d \<in> set (bs_depends_on t). d \<noteq> bs_id t \<and> D d)"

lemma open_task_closed:
  assumes "open_task ts t D" and "t \<in> set ts" and "distinct (map bs_id ts)"
  shows "dependencies_done ts D"
proof -
  have same: "u = t" if "u \<in> set ts" "bs_id u = bs_id t" for u
    using that assms(2,3) by (auto simp: distinct_map dest: inj_onD)
  show ?thesis
    unfolding dependencies_done_def
  proof (intro ballI impI)
    fix u d assume u: "u \<in> set ts" "D (bs_id u)" "d \<in> set (bs_depends_on u)"
    show "D d"
    proof (cases "bs_id u = bs_id t")
      case True
      with same u(1) have "u = t" by blast
      with u(3) assms(1) show ?thesis by (simp add: open_task_def)
    next
      case False
      with u assms(1) show ?thesis unfolding open_task_def by blast
    qed
  qed
qed

lemma open_taskI:
  assumes closed: "dependencies_done ts D" and "\<not> D (bs_id t)" and "\<forall>d \<in> set (bs_depends_on t). D d"
  shows "open_task ts t D"
proof -
  have "d \<noteq> bs_id t \<and> D d" if "u \<in> set ts" "D (bs_id u)" "d \<in> set (bs_depends_on u)" for u d
  proof -
    from closed that have "D d" unfolding dependencies_done_def by blast
    with assms(2) show ?thesis by blast
  qed
  then have "\<forall>u \<in> set ts. bs_id u \<noteq> bs_id t \<and> D (bs_id u) \<longrightarrow> (\<forall>d \<in> set (bs_depends_on u). d \<noteq> bs_id t \<and> D d)"
    by simp
  moreover have "\<forall>d \<in> set (bs_depends_on t). d \<noteq> bs_id t \<and> D d"
    using assms(2,3) by (simp add: Ball_def) metis
  ultimately show ?thesis unfolding open_task_def by (rule conjI)
qed

lemma open_task_upd:
  assumes op: "open_task ts t D"
  shows "open_task ts t (D(bs_id t := b))"
proof -
  have "d \<noteq> bs_id t \<and> (D(bs_id t := b)) d"
    if "u \<in> set ts" "bs_id u \<noteq> bs_id t \<and> (D(bs_id t := b)) (bs_id u)" "d \<in> set (bs_depends_on u)" for u d
  proof -
    from that(2) have "bs_id u \<noteq> bs_id t \<and> D (bs_id u)" by simp
    with op that(1,3) have "d \<noteq> bs_id t \<and> D d" unfolding open_task_def by blast
    then show ?thesis by simp
  qed
  moreover have "d \<noteq> bs_id t \<and> (D(bs_id t := b)) d" if "d \<in> set (bs_depends_on t)" for d
  proof -
    from op that have "d \<noteq> bs_id t \<and> D d" unfolding open_task_def by blast
    then show ?thesis by simp
  qed
  ultimately show ?thesis unfolding open_task_def by blast
qed

subsection \<open>Programs that leave the completed tasks alone\<close>

lemma done_other [simp]: "k \<noteq> ''tasks'' \<Longrightarrow> done_in (al_set k v st) = done_in st"
  by (simp add: fun_eq_iff done_in_def tasks_of_state_def dget_or_def)

lemma done_set_task:
  "done_in (al_set ''tasks'' (PDict (al_set i (PDict m) (tasks_of_state st))) st) =
   (done_in st)(i := (dget_or m ''status'' PNone = PStr ''completed''))"
  by (auto simp: fun_eq_iff done_in_def tasks_of_state_def dget_or_def is_completed_def state_field_def)

lemma tasks_of_mapping: "dget_or st ''tasks'' (PDict []) = PDict m \<Longrightarrow> tasks_of_state st = m"
  by (auto simp: tasks_of_state_def dget_or_def split: option.splits)

lemma keeps_done_world [keeps_intros]:
  "keeps (of_done Q) (in_world m)" "keeps (of_done Q) (on_run_disk f)" "keeps (of_done Q) (now_text env)"
  "keeps (of_done Q) (set_audit k v)" "keeps (of_done Q) (set_attempted ps)"
  "keeps (of_done Q) (pmodify (xs_audit_update g))" "keeps (of_done Q) (write_state p)" "keeps (of_done Q) (write_audit p)"
  by (auto simp: keeps_def of_done_def in_world_def on_run_disk_def now_text_def set_audit_def set_attempted_def
      write_state_def write_audit_def split: prod.splits)

lemma keeps_done_state:
  assumes "k \<noteq> ''tasks''"
  shows "keeps (of_done Q) (set_state k v)" and "keeps (of_done Q) (add_once k i)" and "keeps (of_done Q) (drop_item k i)"
proof -
  show set: "keeps (of_done Q) (set_state k v)" for v
    using assms by (auto simp: keeps_def of_done_def set_state_def)
  show "keeps (of_done Q) (add_once k i)" "keeps (of_done Q) (drop_item k i)"
    unfolding add_once_def drop_item_def by (intro keeps_pbind keeps_pread set)+
qed

lemma keeps_done_status: "keeps (of_done Q) (set_all set_state [(''status'', v), (''current_task'', w)])"
  unfolding set_all_def by (rule keeps_pfold_set) (auto intro: keeps_done_state)

lemma keeps_store_audit:
  assumes "\<And>D b. Q D \<Longrightarrow> Q (D(i := b))"
  shows "keeps (of_done Q) (store_audit ''tasks'' i)"
proof (rule keepsI)
  fix s r u assume Q: "of_done Q s" and run: "store_audit ''tasks'' i s = (r, u)"
  show "of_done Q u"
  proof (cases "\<exists>m. dget_or (xs_state s) ''tasks'' (PDict []) = PDict m")
    case True
    then obtain m where m: "dget_or (xs_state s) ''tasks'' (PDict []) = PDict m" by blast
    with run tasks_of_mapping [OF m] have "xs_state u =
        al_set ''tasks'' (PDict (al_set i (PDict (xs_audit s)) (tasks_of_state (xs_state s)))) (xs_state s)"
      by (auto simp: store_audit_def)
    with Q assms show ?thesis by (simp add: of_done_def done_set_task)
  next
    case False
    with run have "u = s" by (auto simp: store_audit_def split: pyval.splits)
    with Q show ?thesis by simp
  qed
qed

text \<open>What the entry of a task tells, and that asking for it changes nothing.\<close>

lemma task_entry_done:
  assumes "task_entry task s = (r, u)"
  shows "done_in (xs_state u) = done_in (xs_state s)"
    and "r = Inr entry \<Longrightarrow> done_in (xs_state u) (bs_id task) \<longleftrightarrow> dget_or entry ''status'' PNone = PStr ''completed''"
proof -
  have same: "is_completed (setdefault i (PDict (initial_task_state task)) m) = is_completed m" for i m
    by (auto simp: fun_eq_iff is_completed_def state_field_def setdefault_def dget_or_def initial_task_state_def)
  have tasks: "tasks_of_state (al_set ''tasks'' (PDict m) st) = m" for m st
    by (simp add: tasks_of_state_def)
  consider m where "dget_or (xs_state s) ''tasks'' (PDict []) = PDict m" | "u = s" "\<exists>e. r = Inl e"
    using assms by (auto simp: task_entry_def split: pyval.splits)
  then have "done_in (xs_state u) = done_in (xs_state s) \<and> (r = Inr entry \<longrightarrow>
      (done_in (xs_state u) (bs_id task) \<longleftrightarrow> dget_or entry ''status'' PNone = PStr ''completed''))"
  proof cases
    case 1
    let ?m = "setdefault (bs_id task) (PDict (initial_task_state task)) m"
    have u: "xs_state u = al_set ''tasks'' (PDict ?m) (xs_state s)"
      and r: "r = (case dget_or ?m (bs_id task) PNone of PDict t \<Rightarrow> Inr t
        | v \<Rightarrow> Inl (Exn AttributeError (quoted (type_name v) @ '' object has no attribute '' @ quoted ''get'')))"
      using assms 1 by (auto simp: task_entry_def Let_def)
    have "done_in (xs_state u) = done_in (xs_state s)"
      unfolding done_in_def u tasks tasks_of_mapping [OF 1] same ..
    moreover have "is_completed ?m (bs_id task) \<longleftrightarrow> dget_or entry ''status'' PNone = PStr ''completed''" if "r = Inr entry"
      using that r by (auto simp: is_completed_def state_field_def dget_or_def split: pyval.splits option.splits)
    ultimately show ?thesis unfolding done_in_def u tasks by simp
  qed auto
  then show "done_in (xs_state u) = done_in (xs_state s)"
    and "r = Inr entry \<Longrightarrow> done_in (xs_state u) (bs_id task) \<longleftrightarrow> dget_or entry ''status'' PNone = PStr ''completed''"
    by auto
qed

lemma keeps_task_entry [keeps_intros]: "keeps (of_done Q) (task_entry task)"
  using task_entry_done(1) unfolding of_done_def by (metis keepsI)

subsection \<open>Outcomes of a task\<close>

lemma keeps_done_lists [keeps_intros]:
  "keeps (of_done Q) (add_once ''blocked_tasks'' i)"
  "keeps (of_done Q) (add_once ''cloud_redecomposition_required_tasks'' i)"
  "keeps (of_done Q) (complete_subtask i)"
  unfolding complete_subtask_def by (intro keeps_pbind keeps_done_state; simp)+

lemma keeps_done_audits [keeps_intros]: "keeps (of_done Q) (set_all set_audit kvs)"
  by (intro keeps_set_all keeps_done_world)

lemma keeps_open_outcomes:
  fixes ts task
  defines "P \<equiv> of_done (open_task ts task)"
  shows "keeps P (store_audit ''tasks'' (bs_id task))" and "keeps P (fail_subtask state_path task ft summary)"
    and "keeps P (mark_cloud_redecomposition_required state_path task)"
proof -
  show store: "keeps P (store_audit ''tasks'' (bs_id task))"
    unfolding P_def by (intro keeps_store_audit open_task_upd)
  show "keeps P (fail_subtask state_path task ft summary)"
    using store unfolding fail_subtask_def P_def by (intro keeps_intros keeps_done_status)
  show "keeps P (mark_cloud_redecomposition_required state_path task)"
    using store unfolding mark_cloud_redecomposition_required_def P_def by (intro keeps_intros keeps_done_status)
qed

lemma execute_task_open:
  "keeps (of_done (open_task ts task))
    (execute_task c env project story story_path blueprint_story execution_path state_path task entry)"
proof -
  note rules = keeps_intros keeps_done_status keeps_open_outcomes
  have attempt: "keeps (of_done (open_task ts task))
      (task_attempt c env project story story_path blueprint_story state_path task_path task resolved)" for task_path resolved
    unfolding task_attempt_def audit_context_def task_response_def refuse_unauthorized_def apply_response_def Let_def
    by (intro rules)
  have failure: "keeps (of_done (open_task ts task)) (task_failure state_path task e)" for e
    unfolding task_failure_def by (intro rules)
  show ?thesis unfolding execute_task_def close_task_def Let_def by (intro rules attempt failure)
qed

lemma block_subtask_done:
  assumes "\<not> D (bs_id task)"
  shows "keeps (of_done (\<lambda>E. E = D)) (block_subtask state_path task ft summary)"
proof -
  have "keeps (of_done (\<lambda>E. E = D)) (update_task_entry (bs_id task) (al_merge entry
       [(''status'', PStr ''blocked''), (''failure_type'', PStr ft), (''blocking_reason'', PStr summary),
        (''summary'', PStr summary)]))" for entry
    using assms by (auto simp: keeps_def update_task_entry_def of_done_def done_set_task al_merge_def dget_or_def fun_eq_iff)
  then show ?thesis
    unfolding block_subtask_def by (intro keeps_pbind keeps_task_entry keeps_done_lists keeps_done_status keeps_done_world)
qed

lemma blocking_dependency:
  "first_blocking_dependency m deps = Inr None \<Longrightarrow> \<forall>d \<in> set deps. is_completed m d"
  by (induction m deps rule: first_blocking_dependency.induct) (auto simp: is_completed_def split: if_splits)

lemma run_task_done:
  assumes "t \<in> set ts" and "distinct (map bs_id ts)"
  shows "keeps (of_done (dependencies_done ts))
    (run_task c env project story story_path blueprint_story execution_path state_path resuming t)"
proof (rule keepsI)
  fix s r u
  assume inv: "of_done (dependencies_done ts) s"
    and run: "run_task c env project story story_path blueprint_story execution_path state_path resuming t s = (r, u)"
  obtain r1 s1 where entry: "task_entry t s = (r1, s1)" by fastforce
  from inv task_entry_done(1) [OF entry] have inv1: "of_done (dependencies_done ts) s1" by (simp add: of_done_def)
  show "of_done (dependencies_done ts) u"
  proof (cases r1)
    case (Inl e)
    with run entry inv1 show ?thesis by (simp add: run_task_def pbind_def)
  next
    case (Inr m)
    show ?thesis
    proof (cases "dget_or m ''status'' PNone = PStr ''completed'' \<or>
        dget_or m ''status'' PNone = PStr ''cloud_redecomposition_required'' \<and> resuming")
      case True
      with run entry Inr inv1 show ?thesis by (auto simp: run_task_def pbind_def Let_def split: if_splits)
    next
      case False
      then have not_done: "\<not> done_in (xs_state s1) (bs_id t)"
        using task_entry_done(2) [OF entry Inr] by simp
      let ?rest = "pbind (pread (\<lambda>s. first_blocking_dependency (tasks_of_state (xs_state s)) (bs_depends_on t))) (\<lambda>blocked.
        case blocked of
          Some d \<Rightarrow> block_subtask state_path t ''blocked_by_dependency'' (''Dependency is not completed: '' @ d)
        | None \<Rightarrow> execute_task c env project story story_path blueprint_story execution_path state_path t m)"
      have rest: "?rest s1 = (r, u)"
        using run False unfolding run_task_def pbind_Inr [where m = "task_entry t" and s = s, OF entry [unfolded Inr]] Let_def by (simp split: if_splits)
      show ?thesis
      proof (cases "first_blocking_dependency (tasks_of_state (xs_state s1)) (bs_depends_on t)")
        case (Inl e)
        with rest inv1 show ?thesis by (simp add: pbind_def)
      next
        case (Inr blocked)
        show ?thesis
        proof (cases blocked)
          case None
          with Inr blocking_dependency have "\<forall>d \<in> set (bs_depends_on t). done_in (xs_state s1) d"
            unfolding done_in_def by simp
          with inv1 not_done have "of_done (open_task ts t) s1" unfolding of_done_def by (intro open_taskI)
          moreover have "execute_task c env project story story_path blueprint_story execution_path state_path t m s1 = (r, u)"
            using rest Inr None by (simp add: pbind_def)
          ultimately have "of_done (open_task ts t) u" using keepsD [OF execute_task_open] by blast
          with assms show ?thesis unfolding of_done_def by (blast intro: open_task_closed)
        next
          case (Some d)
          have "block_subtask state_path t ''blocked_by_dependency'' (''Dependency is not completed: '' @ d) s1 = (r, u)"
            using rest Inr Some by (simp add: pbind_def)
          from keepsD [OF block_subtask_done [where D = "done_in (xs_state s1)", OF not_done] this] inv1 show ?thesis by (simp add: of_done_def)
        qed
      qed
    qed
  qed
qed

subsection \<open>The run\<close>

lemma all_completed_done: "all_completed m is = Inr True \<Longrightarrow> i \<in> set is \<Longrightarrow> is_completed m i"
  by (induction m "is" rule: all_completed.induct) (auto simp: is_completed_def split: if_splits)

lemma finalize_facts:
  assumes "finalize_subtask_story_state st ordered story = Inr st'"
  shows "done_in st' = done_in st
    \<and> (py_str (dget_or st' ''status'' PNone) = ''completed'' \<longrightarrow> (\<forall>t \<in> set ordered. done_in st (bs_id t)))"
proof -
  have status: "dget_or (al_set ''status'' v m) ''status'' PNone = v" for v m by (simp add: dget_or_def)
  consider v where "st' = al_set ''status'' (PStr v) st" "v \<noteq> ''completed''"
    | f v where "st' = al_merge st [(''final_validation'', f), (''status'', v), (''current_task'', PNone)]"
        "all_completed (tasks_of_state st) (map bs_id ordered) = Inr True"
    using assms by (auto simp: finalize_subtask_story_state_def split: if_splits)
  then show ?thesis
  proof cases
    case 1
    then show ?thesis by (simp add: status)
  next
    case 2
    then have "done_in st' = done_in st" by (simp add: al_merge_def)
    moreover have "\<forall>t \<in> set ordered. done_in st (bs_id t)"
      using all_completed_done [OF 2(2)] by (auto simp: done_in_def)
    ultimately show ?thesis by blast
  qed
qed

lemma write_state_file:
  assumes "write_state p s = (r, u)" and "plain_path p"
  shows "fs_file (run_disk u) p = Some (Doc (PDict (xs_state u))) \<and> xs_state u = xs_state s \<and> r = Inr ()"
  using assms by (auto simp: write_state_def on_run_disk_def in_world_def on_disk_def run_disk_def)

lemma run_tasks_records:
  assumes run: "run_tasks c env project story story_path blueprint_story execution_path state_path resuming ordered s =
      (Inr (status, models), u)"
    and inv: "of_done (dependencies_done ts) s" and ts: "set ordered \<subseteq> set ts" "distinct (map bs_id ts)"
    and state_path: "plain_path state_path"
  shows "fs_file (run_disk u) state_path = Some (Doc (PDict (xs_state u)))
    \<and> dependencies_done ts (done_in (xs_state u))
    \<and> (status = ''completed'' \<longrightarrow> (\<forall>t \<in> set ordered. done_in (xs_state u) (bs_id t)))"
proof -
  let ?loop = "pfold (\<lambda>task _. run_task c env project story story_path blueprint_story execution_path state_path resuming task)
      ordered ()"
  from run obtain s1 s2 s3 st where first: "write_state state_path s = (Inr (), s1)" and loop: "?loop s1 = (Inr (), s2)"
    and fin: "finalize_subtask_story_state (xs_state s2) ordered blueprint_story = Inr st"
    and last: "write_state state_path (s2\<lparr>xs_state := st\<rparr>) = (Inr (), s3)"
    and u: "u = s3" "status = py_str (dget_or st ''status'' PNone)"
    unfolding run_tasks_def by auto
  have inv1: "of_done (dependencies_done ts) s1" by (rule keepsD [OF keeps_done_world(7) first inv])
  have keep: "keeps (of_done (dependencies_done ts)) ?loop"
    by (rule keeps_pfold_set) (use ts run_task_done in blast)
  from keepsD [OF keep loop inv1] have s2: "dependencies_done ts (done_in (xs_state s2))" by (simp add: of_done_def)
  from write_state_file [OF last state_path]
  have "fs_file (run_disk u) state_path = Some (Doc (PDict (xs_state u)))" "xs_state u = st" by (simp_all add: u)
  with finalize_facts [OF fin] s2 show ?thesis by (simp add: u(2))
qed

lemma initialize_done:
  assumes "initialize_subtask_state existing story ordered = Inr st"
  shows "done_in st = done_in existing"
proof (cases "existing = []")
  case True
  have "is_completed (al_merge [] (map (\<lambda>t. (bs_id t, PDict (initial_task_state t))) ts)) i = False" for ts i
  proof -
    have "map_of (al_merge [] (map (\<lambda>t. (bs_id t, PDict (initial_task_state t))) ts)) i \<in>
        {None} \<union> {Some (PDict (initial_task_state t)) | t. True}"
    proof (induction ts rule: rev_induct)
      case (snoc t ts)
      then show ?case by (auto simp: al_merge_def)
    qed (simp add: al_merge_def)
    then show ?thesis
      by (auto simp: is_completed_def state_field_def dget_or_def initial_task_state_def)
  qed
  then show ?thesis
    using assms True
    by (auto simp: fun_eq_iff initialize_subtask_state_def done_in_def tasks_of_state_def dget_or_def is_completed_def
        state_field_def)
next
  case False
  have same: "is_completed (setdefault i (PDict (initial_task_state task)) m) = is_completed m" for i task m
    by (auto simp: fun_eq_iff is_completed_def state_field_def setdefault_def dget_or_def initial_task_state_def)
  have fold: "is_completed (foldl (\<lambda>m t. setdefault (bs_id t) (PDict (initial_task_state t)) m) m ts) = is_completed m" for m ts
    by (induction ts arbitrary: m) (simp_all add: same)
  have start: "tasks_of_state (setdefault ''tasks'' (PDict []) existing) = tasks_of_state existing"
    by (auto simp: setdefault_def tasks_of_state_def dget_or_def)
  show ?thesis
  proof (cases "dget_or (setdefault ''tasks'' (PDict []) existing) ''tasks'' PNone")
    case (PDict m)
    have "tasks_of_state existing = m" using start PDict by (simp add: tasks_of_state_def)
    moreover have "tasks_of_state st = foldl (\<lambda>m t. setdefault (bs_id t) (PDict (initial_task_state t)) m) m ordered"
      using assms False PDict by (auto simp: initialize_subtask_state_def Let_def tasks_of_state_def)
    ultimately show ?thesis by (simp add: fun_eq_iff done_in_def fold)
  qed (use assms False start in \<open>auto simp: initialize_subtask_state_def Let_def done_in_def fun_eq_iff split: if_splits\<close>)
qed

lemma run_ordered_records:
  assumes run: "run_ordered c env project story story_path blueprint_story execution_path resuming initial_state ordered w =
      (Inr (status, models), w')"
    and start: "\<forall>existing. existing_state c (execution_path @ [''state.yaml'']) resuming initial_state (w_disk w) = Inr existing
      \<longrightarrow> dependencies_done ts (done_in existing)"
    and ts: "set ordered \<subseteq> set ts" "distinct (map bs_id ts)" and path: "plain_path execution_path"
  shows "\<exists>state. fs_file (w_disk w') (execution_path @ [''state.yaml'']) = Some (Doc (PDict state))
    \<and> dependencies_done ts (done_in state) \<and> (status = ''completed'' \<longrightarrow> (\<forall>t \<in> set ordered. done_in state (bs_id t)))"
proof -
  let ?s = "execution_path @ [''state.yaml'']"
  from run obtain existing state where existing: "existing_state c ?s resuming initial_state (w_disk w) = Inr existing"
    and state: "initialize_subtask_state existing story ordered = Inr state"
    and tasks_run: "with_state state (run_tasks c env project story story_path blueprint_story execution_path ?s resuming
      ordered) w = (Inr (status, models), w')"
    unfolding run_ordered_def Let_def by auto
  from tasks_run obtain u where u: "run_tasks c env project story story_path blueprint_story execution_path ?s resuming ordered
      \<lparr>xs_world = w, xs_state = state, xs_audit = [], xs_attempted = []\<rparr> = (Inr (status, models), u)" "xs_world u = w'"
    by (auto simp: with_state_def split: prod.splits)
  have "dependencies_done ts (done_in state)" using initialize_done [OF state] start existing by simp
  then have "of_done (dependencies_done ts) \<lparr>xs_world = w, xs_state = state, xs_audit = [], xs_attempted = []\<rparr>"
    by (simp add: of_done_def)
  from run_tasks_records [OF u(1) this ts] path u(2) show ?thesis by (auto simp: run_disk_def)
qed

text \<open>
  C34: when a run of the sub-tasks returns, the state file of the story holds a state in which every
  completed task has all the tasks it depends on completed, provided that was so in the state the
  run started from; and a status of completed means that every task that was selected is.
\<close>

theorem completed_after_dependencies:
  assumes path: "plain_path story_path" and "distinct (map bs_id tasks)"
    and start: "\<forall>existing. existing_state c (execution_folder story_path @ [''state.yaml'']) resuming initial_state
        (prepare_execution (execution_folder story_path) (w_disk w)) = Inr existing
      \<longrightarrow> dependencies_done tasks (done_in existing)"
    and run: "run_subtask_local_execution c env project story story_path blueprint_story tasks role resuming False
        initial_state w = (Inr res, w')"
  shows "\<exists>state selected. fs_file (w_disk w') (le_state_path res) = Some (Doc (PDict state))
    \<and> dependencies_done tasks (done_in state) \<and> selected_subtasks tasks role = Inr selected
    \<and> (le_status res = ''completed'' \<longrightarrow> (\<forall>t \<in> set selected. done_in state (bs_id t)))"
proof -
  let ?e = "execution_folder story_path"
  from run obtain selected ordered status models where selected: "selected_subtasks tasks role = Inr selected"
      "topological_subtasks selected = Inr ordered"
    and run2: "run_ordered c env project story story_path blueprint_story ?e resuming initial_state ordered
      (w\<lparr>w_disk := prepare_execution ?e (w_disk w)\<rparr>) = (Inr (status, models), w')"
    and res: "le_status res = status" "le_state_path res = ?e @ [''state.yaml'']"
    unfolding run_subtask_local_execution_def Let_def by (auto simp: on_disk_def)
  have "plain_path ?e" using path by (simp add: execution_folder_def)
  from run_ordered_records [OF run2 _ selected_ordered(2) [OF selected assms(2)] assms(2) this] start
    selected_ordered(1) [OF selected assms(2)] selected(1) res
  show ?thesis by auto
qed

end
