(* ===== verification/AppRecoveryFacts.thy ===== *)
theory AppRecoveryFacts
  imports AppRecovery
begin

text \<open>
  What a roll-back and a recovery do to the active state, to the leases and to an application
  whose run was interrupted.
\<close>

subsection \<open>Leases\<close>

definition lease_area :: "path \<Rightarrow> path set" where
  "lease_area project = {lease_root_path project @ r | r. True}"

lemma lease_paths:
  assumes "plain_path project" and "slash_free i"
  shows "plain_path (execution_lease_path project i)" "execution_lease_path project i \<in> lease_area project"
    "execution_lease_path project i \<notin> app_area project"
    "execution_lease_path project i \<noteq> active_pointer_path project"
  using assms plain_name_parts [OF slash_free_file [OF assms(2)]]
  by (simp_all add: execution_lease_path_def lease_area_def app_area_def lease_root_path_def active_pointer_path_def
      application_root_path_def transaction_root_path_def runtime_plan_path_def)

lemma runtime_paths_no_lease:
  assumes "plain_path project" and "slash_free i"
  shows "revision_path project i \<notin> lease_area project" "active_pointer_path project \<notin> lease_area project"
  using assms by (simp_all add: revision_path_def lease_area_def lease_root_path_def active_pointer_path_def
      runtime_plan_path_def)

lemma lease_from_dict_wf: "execution_lease_from_dict d = Inr l \<Longrightarrow> wf_execution_lease l"
  by (auto simp: execution_lease_from_dict_def wf_execution_lease_def)

lemma lease_with_result:
  assumes "lease_with l [(''lease_state'', PStr s), (''failure_reason'', PStr reason)] = Inr k"
  shows "el_lease_id k = el_lease_id l" "el_lease_state k = s" "wf_execution_lease k"
    "el_task_id k = el_task_id l" "el_runtime_revision_id k = el_runtime_revision_id l"
  using assms unfolding lease_with_def
  by (auto intro: lease_from_dict_wf) (auto simp: execution_lease_from_dict_def codec_simps)

text \<open>The lease of an identifier is stored in a given state.\<close>

definition lease_in_state :: "path \<Rightarrow> string \<Rightarrow> string \<Rightarrow> disk \<Rightarrow> bool" where
  "lease_in_state project s i d \<longleftrightarrow>
     (\<exists>l. wf_execution_lease l \<and> el_lease_state l = s
        \<and> map_of (fs_files d) (execution_lease_path project i) = Some (Doc (PDict (execution_lease_to_dict l))))"

lemma lease_in_state_loads:
  assumes "lease_in_state project s i d" and "plain_path project" and "slash_free i"
  shows "\<exists>l. load_execution_lease c (execution_lease_path project i) d = Inr l \<and> el_lease_state l = s"
  using assms lease_paths(1) [OF assms(2,3)]
  by (auto simp: lease_in_state_def load_execution_lease_def load_yaml_mapping_def read_mapping_def yaml_value_def
      execution_lease_roundtrip)

lemma lease_in_state_stable:
  "plain_path project \<Longrightarrow> slash_free i \<Longrightarrow> area_stable project (lease_in_state project s i)"
  using lease_paths [of project i] by (auto simp: area_stable_def lease_in_state_def only_changes_def)

text \<open>A property no write to a lease changes.\<close>

definition lease_stable :: "path \<Rightarrow> (disk \<Rightarrow> bool) \<Rightarrow> bool" where
  "lease_stable project P \<longleftrightarrow> (\<forall>d e. P d \<and> only_changes (lease_area project) d e \<longrightarrow> P e)"

lemma lease_stable_changes: "lease_area project \<subseteq> ps \<Longrightarrow> lease_stable project (only_changes ps d)"
  unfolding lease_stable_def by (meson only_changes_trans order_refl sup.bounded_iff)

lemma keeps_lease:
  assumes "plain_path project" and "lease_stable project P" and "slash_free (el_lease_id l)"
  shows "keeps P (save_execution_lease project l)"
proof -
  note paths = lease_paths [OF assms(1,3)]
  have "P (write_yaml (execution_lease_path project (el_lease_id l)) (PDict (execution_lease_to_dict l))
      (ensure_cloud_application_dirs project d))" if "P d" for d
  proof -
    let ?e = "write_yaml (execution_lease_path project (el_lease_id l)) (PDict (execution_lease_to_dict l))
      (ensure_cloud_application_dirs project d)"
    have "only_changes (lease_area project) d ?e"
      by (rule only_changes_file [OF paths(1,2)]) (simp add: paths)
    with that assms(2) show ?thesis unfolding lease_stable_def by blast
  qed
  then show ?thesis by (simp add: keeps_def save_execution_lease_def)
qed

text \<open>Saving a lease in a state leaves the others that are in it.\<close>

lemma lease_saved:
  assumes "plain_path project" and "slash_free i" and "slash_free (el_lease_id l)"
    and "wf_execution_lease l" and "el_lease_state l = s"
    and "save_execution_lease project l d = (r, e)"
    and "i = el_lease_id l \<or> lease_in_state project s i d"
  shows "lease_in_state project s i e"
  using assms lease_paths(1) [OF assms(1,3)]
  by (auto simp: save_execution_lease_def lease_in_state_def)

subsection \<open>The steps of a roll-back\<close>

lemma guarded_transition_status:
  assumes plain: "plain_path project" and stable: "area_stable project P" and a: "slash_free (an_application_id a)"
  shows "guarded (of_disk P) (\<lambda>b. an_application_id b = an_application_id a \<and> an_status b = next)
    (transition_application c env project a next r m)"
proof -
  have status: "an_status b = s" if "application_with a ((''status'', PStr s) # upd) = Inr b"
    "''status'' \<notin> fst ` set upd" for b s upd
    using that by (auto simp: application_with_def application_record_from_dict_def dget_merge_other codec_simps)
  have step: "guarded (of_disk P) (\<lambda>b. an_application_id b = an_application_id a \<and> an_status b = next)
      (plift (application_with a [(''status'', PStr next), (''audit_event_ids'', pstrs (an_audit_event_ids a)),
        (''notes'', pstrs (an_notes a))]))"
    by (rule guarded_plift) (auto dest: application_with_id status)
  show ?thesis
    unfolding transition_application_def
    by (intro guarded_pbind [OF guarded_plift_eq] guarded_pbind [OF step] guarded_pbind [OF guarded_application [OF plain stable]]
        guarded_pbind [OF guarded_audit [OF plain stable]] guarded_pret) (use a in auto)
qed

lemma guarded_transition_loaded:
  assumes "plain_path project" and "area_stable project P" and "slash_free (an_application_id a)"
  shows "guarded (of_disk P) (\<lambda>b. an_application_id b = an_application_id a \<and> an_status b = next)
    (transition_loaded c env project a next m)"
  unfolding transition_loaded_def
  by (intro guarded_pbind [OF guarded_keeps [OF keeps_loaders(1) [OF assms(2)]]] guarded_transition_status [OF assms])

lemma expire_lease_keeps:
  assumes plain: "plain_path project" and stable: "lease_stable project P" and "slash_free (el_lease_id l)"
  shows "keeps (of_disk P) (expire_lease project r l)"
proof -
  have "guarded (of_disk P) (\<lambda>_. True) (expire_lease project r l)"
    unfolding expire_lease_def
    by (intro guarded_if guarded_pbind [OF guarded_plift_eq] guarded_pbind [OF guarded_disk [OF keeps_lease [OF plain stable]]]
        guarded_pret) (use assms(3) in \<open>auto dest: lease_with_result(1)\<close>)
  then show ?thesis by (rule keeps_guarded)
qed

lemma expire_keeps:
  assumes "plain_path project" and "lease_stable project P"
    and "\<And>l. l \<in> set leases \<Longrightarrow> slash_free (el_lease_id l)"
  shows "keeps (of_disk P) (expire_leases project r leases)"
  using assms(3) unfolding expire_leases_def
  by (induction leases) (auto intro!: keeps_pbind keeps_pret expire_lease_keeps [OF assms(1,2)])

text \<open>After it every lease that was held is stale.\<close>

lemma expire_lease_marks:
  assumes plain: "plain_path project" and l: "slash_free (el_lease_id l)" and i: "slash_free i"
    and run: "expire_lease project r l w = (Inr u, v)"
    and start: "(held_by r l \<and> i = el_lease_id l) \<or> lease_in_state project ''stale'' i (w_disk w)"
  shows "lease_in_state project ''stale'' i (w_disk v)"
proof (cases "held_by r l")
  case True
  with run obtain k d p where k: "lease_with l [(''lease_state'', PStr ''stale''),
      (''failure_reason'', PStr ''rollback in progress'')] = Inr k"
    and save: "save_execution_lease project k (w_disk w) = (Inr p, d)" and v: "v = w\<lparr>w_disk := d\<rparr>"
    by (auto simp: on_disk_def expire_lease_def split: prod.splits)
  note facts = lease_with_result [OF k]
  have "lease_in_state project ''stale'' i d"
    by (rule lease_saved [OF plain i _ facts(3,2) save]) (use start facts l in auto)
  then show ?thesis by (simp add: v)
qed (use run start in \<open>auto simp: expire_lease_def\<close>)

lemma expire_marks:
  assumes plain: "plain_path project" and "\<And>l. l \<in> set leases \<Longrightarrow> slash_free (el_lease_id l)"
    and i: "slash_free i" and "expire_leases project r leases w = (Inr u, v)"
    and "i \<in> el_lease_id ` set (filter (held_by r) leases) \<or> lease_in_state project ''stale'' i (w_disk w)"
  shows "lease_in_state project ''stale'' i (w_disk v)"
  using assms(2,4,5) unfolding expire_leases_def
proof (induction leases arbitrary: w)
  case (Cons l leases)
  from Cons.prems(2) obtain x where step: "expire_lease project r l w = (Inr (), x)"
    and rest: "pfold (\<lambda>lease _. expire_lease project r lease) leases () x = (Inr u, v)"
    by auto
  have "lease_in_state project ''stale'' i (w_disk x)"
    if "(held_by r l \<and> i = el_lease_id l) \<or> lease_in_state project ''stale'' i (w_disk w)"
    by (rule expire_lease_marks [OF plain _ i step that]) (simp add: Cons.prems(1))
  with Cons.prems(1,3) show ?case
    by (intro Cons.IH [OF _ rest]) (auto split: if_splits)
qed simp

subsection \<open>The roll-back\<close>

definition rollback_area :: "path \<Rightarrow> path set" where
  "rollback_area project = app_area project \<union> lease_area project"

lemma rollback_area_stable:
  "area_stable project (only_changes (rollback_area project) d)"
  "lease_stable project (only_changes (rollback_area project) d)"
  by (auto intro!: area_stable_changes lease_stable_changes simp: rollback_area_def)

definition held_ids :: "rollback_target \<Rightarrow> string set" where
  "held_ids t = el_lease_id ` set (filter (held_by (rt_revision t)) (rt_leases t))"

definition all_stale :: "path \<Rightarrow> string set \<Rightarrow> disk \<Rightarrow> bool" where
  "all_stale project ids d \<longleftrightarrow> (\<forall>i \<in> ids. lease_in_state project ''stale'' i d)"

lemma all_stale_stable:
  "plain_path project \<Longrightarrow> (\<And>i. i \<in> ids \<Longrightarrow> slash_free i) \<Longrightarrow> area_stable project (all_stale project ids)"
  using lease_in_state_stable [of project _ "''stale''"] unfolding area_stable_def all_stale_def by blast

lemma begin_rollback_guarded:
  assumes plain: "plain_path project" and a: "slash_free (an_application_id (rt_application t))"
    and leases: "\<And>l. l \<in> set (rt_leases t) \<Longrightarrow> slash_free (el_lease_id l)"
  shows "guarded (of_disk (only_changes (rollback_area project) d))
    (\<lambda>(b, u). an_application_id b = an_application_id (rt_application t) \<and> slash_free (tx_transaction_id u))
    (begin_rollback c env project t)"
proof -
  note stable = rollback_area_stable [of project d]
  show ?thesis
    unfolding begin_rollback_def Let_def
    by (intro guarded_pbind [OF guarded_now] guarded_pbind [OF guarded_transaction [OF plain stable(1)]]
        guarded_pbind [OF guarded_transition_loaded [OF plain stable(1)]]
        guarded_pbind [OF guarded_application [OF plain stable(1)]]
        guarded_pbind [OF guarded_keeps [OF expire_keeps [OF plain stable(2)]]] guarded_pret)
      (use a leases in \<open>simp_all add: create_transaction_record_def\<close>)
qed

lemma begin_rollback_stale:
  assumes plain: "plain_path project" and leases: "\<And>l. l \<in> set (rt_leases t) \<Longrightarrow> slash_free (el_lease_id l)"
    and run: "begin_rollback c env project t w = (Inr x, v)"
  shows "all_stale project (held_ids t) (w_disk v)"
  unfolding all_stale_def
proof
  fix i assume i: "i \<in> held_ids t"
  from run obtain s u where "expire_leases project (rt_revision t) (rt_leases t) s = (Inr u, v)"
    by (auto simp: begin_rollback_def Let_def)
  with i leases show "lease_in_state project ''stale'' i (w_disk v)"
    by (intro expire_marks [OF plain leases, of "rt_leases t" i "rt_revision t" s u v]) (auto simp: held_ids_def)
qed

lemma guarded_and:
  assumes "guarded P F m" and "\<And>s x t. m s = (Inr x, t) \<Longrightarrow> G t"
  shows "ensures P m (\<lambda>x t. (P t \<and> G t) \<and> F x) P"
proof -
  have "case m s of (Inl e, t) \<Rightarrow> P t | (Inr x, t) \<Rightarrow> (P t \<and> G t) \<and> F x" if "P s" for s
  proof (cases "m s")
    case (Pair r t)
    with that assms(1) assms(2) [of s _ t] show ?thesis
      by (cases r) (auto simp: guarded_def dest: ensures_ok ensures_err)
  qed
  then show ?thesis unfolding ensures_def by blast
qed

lemma confirm_guarded:
  assumes plain: "plain_path project" and stable: "area_stable project P"
    and a: "slash_free (an_application_id a)" and u: "slash_free (tx_transaction_id u)"
  shows "guarded (of_disk P) (\<lambda>_. True) (confirm_pointer c env project r a u)"
  unfolding confirm_pointer_def Let_def
  by (intro guarded_pbind [OF guarded_keeps [OF keeps_pread]] guarded_if guarded_pret TrueI
      guarded_pbind [OF guarded_phase [OF plain stable u]] guarded_pbind [OF guarded_transition_loaded [OF plain stable]]
      guarded_pbind [OF guarded_application [OF plain stable]] guarded_pbind [OF guarded_keeps [OF keeps_loaders(1) [OF stable]]]
      guarded_pbind [OF guarded_audit [OF plain stable]] guarded_plift)
    (use a in simp_all)

text \<open>The pointer names the prior revision and the leases are stale.\<close>

definition restored :: "path \<Rightarrow> rollback_target \<Rightarrow> disk \<Rightarrow> disk \<Rightarrow> bool" where
  "restored project t d e \<longleftrightarrow>
     only_changes (insert (active_pointer_path project) (rollback_area project)) d e
     \<and> (all_stale project (held_ids t) e \<and> (\<exists>q. stored_pointer project q e \<and> names_revision q (rt_prior t)))"

lemma restored_stable:
  assumes plain: "plain_path project" and leases: "\<And>l. l \<in> set (rt_leases t) \<Longrightarrow> slash_free (el_lease_id l)"
  shows "area_stable project (restored project t d)"
proof -
  have "area_stable project (\<lambda>e. \<exists>q. stored_pointer project q e \<and> names_revision q (rt_prior t))"
    using app_paths(11,12) [OF plain slash_free_Cons(1)]
    by (auto simp: area_stable_def stored_pointer_def only_changes_def)
  moreover have "area_stable project (all_stale project (held_ids t))"
    by (rule all_stale_stable [OF plain]) (use leases in \<open>auto simp: held_ids_def\<close>)
  moreover have "area_stable project (only_changes (insert (active_pointer_path project) (rollback_area project)) d)"
    by (rule area_stable_changes) (auto simp: rollback_area_def)
  ultimately show ?thesis
    unfolding restored_def by (intro area_stable_conj)
qed

lemma ensures_restore_pointer:
  assumes plain: "plain_path project" and q: "names_revision q (rt_prior t)"
    and leases: "\<And>l. l \<in> set (rt_leases t) \<Longrightarrow> slash_free (el_lease_id l)"
  shows "ensures (of_disk (\<lambda>e. only_changes (rollback_area project) d e \<and> all_stale project (held_ids t) e))
    (on_disk (save_active_pointer project q)) (\<lambda>_. of_disk (restored project t d)) E"
proof -
  note ptr = app_paths(11) [OF plain slash_free_Cons(1)]
  have "restored project t d (write_yaml (active_pointer_path project) (PDict (active_revision_pointer_to_dict q))
      (ensure_cloud_application_dirs project e))"
    if "only_changes (rollback_area project) d e" and stale: "all_stale project (held_ids t) e" for e
    using that(1) ptr q stale lease_paths(4) [OF plain leases]
    by (auto simp: restored_def all_stale_def held_ids_def lease_in_state_def stored_pointer_def only_changes_def)
  then show ?thesis
    by (simp add: ensures_def of_disk_def on_disk_def save_active_pointer_def)
qed

lemma ensures_pair_fact:
  "(\<And>a b. F a b \<Longrightarrow> ensures P (f a b) Q E) \<Longrightarrow>
   ensures (\<lambda>w. P w \<and> (case y of (a, b) \<Rightarrow> F a b)) (case y of (a, b) \<Rightarrow> f a b) Q E"
  by (cases y) (auto intro: ensures_fact)

lemma rollback_ensures:
  assumes plain: "plain_path project" and check: "check_rollback c project i d = Inr t"
    and a: "slash_free (an_application_id (rt_application t))"
    and leases: "\<And>l. l \<in> set (rt_leases t) \<Longrightarrow> slash_free (el_lease_id l)"
  shows "ensures (of_disk (\<lambda>e. e = d)) (rollback c env project i)
    (\<lambda>x w. of_disk (restored project t d) w \<and> an_status x = ''rolled_back'')
    (of_disk (\<lambda>e. only_changes (rollback_area project) d e \<or> restored project t d e))" (is "ensures _ _ ?Q ?E")
proof -
  let ?A = "only_changes (rollback_area project) d"
  have stale: "area_stable project (\<lambda>e. ?A e \<and> all_stale project (held_ids t) e)"
    by (intro area_stable_conj rollback_area_stable all_stale_stable [OF plain])
      (use leases in \<open>auto simp: held_ids_def\<close>)
  note fin = restored_stable [OF plain leases]
  have start: "ensures (of_disk (\<lambda>e. e = d)) (begin_rollback c env project t)
      (\<lambda>x w. of_disk (\<lambda>e. ?A e \<and> all_stale project (held_ids t) e) w
        \<and> (case x of (b, u) \<Rightarrow> slash_free (an_application_id b) \<and> slash_free (tx_transaction_id u))) ?E"
    by (rule ensures_weaken [OF guarded_and [OF begin_rollback_guarded [OF plain a leases, where d = d],
          where G = "of_disk (all_stale project (held_ids t))"]])
      (use a begin_rollback_stale [of project t c env] plain leases in \<open>auto simp: of_disk_def only_changes_refl\<close>)
  have read: "ensures (of_disk (\<lambda>e. e = d)) (pread (\<lambda>w. check_rollback c project i (w_disk w)))
      (\<lambda>x w. of_disk (\<lambda>e. e = d) w \<and> x = t) ?E"
    by (rule ensures_pread) (use check in \<open>auto simp: of_disk_def only_changes_refl\<close>)
  have rest: "ensures (of_disk (\<lambda>e. ?A e \<and> all_stale project (held_ids t) e))
      (pbind (confirm_pointer c env project (rt_revision t) b u) (\<lambda>_.
       pbind (now_call env) (\<lambda>now.
       pbind (on_disk (save_active_pointer project
         \<lparr>pt_schema_version = 1, pt_active_revision_id = rp_revision_id (rt_prior t),
          pt_active_revision_checksum = rp_revision_checksum (rt_prior t),
          pt_previous_revision_id = Some (rp_revision_id (rt_revision t)), pt_update_timestamp = now,
          pt_application_id = an_application_id b\<rparr>)) (\<lambda>_.
       pbind (save_phase env project u ''rolled_back'' None m) (\<lambda>_.
       pbind (transition_loaded c env project b ''rolled_back'' m) (\<lambda>rolled_back.
       pbind (plift (application_with rolled_back
         [(''active_revision_id'', PStr (rp_revision_id (rt_prior t))), (''revision_id'', PStr (rp_revision_id (rt_prior t))),
          (''revision_checksum'', PStr (rp_revision_checksum (rt_prior t)))])) (\<lambda>rolled_back.
       pbind (on_disk (save_application_record project rolled_back)) (\<lambda>_.
       pbind (svc_load_request c project (an_request_id b)) (\<lambda>request.
       pbind (record_audit c env project ''rollback'' (Some rolled_back) (Some request) ''rollback_available''
                ''rolled_back'' n) (\<lambda>_.
       pret rolled_back)))))))))) ?Q ?E"
    if b: "slash_free (an_application_id b)" and u: "slash_free (tx_transaction_id u)" for b u m n
    by (intro guarded_ensures [OF confirm_guarded [OF plain stale b u]] guarded_ensures [OF guarded_now]
        ensures_pbind [OF ensures_restore_pointer [OF plain _ leases]] guarded_ensures [OF guarded_phase [OF plain fin u]]
        guarded_ensures [OF guarded_transition_loaded [OF plain fin b]] guarded_ensures [OF guarded_plift_eq]
        guarded_ensures [OF guarded_application [OF plain fin]] guarded_ensures [OF guarded_keeps [OF keeps_loaders(1) [OF fin]]]
        guarded_ensures [OF guarded_audit [OF plain fin]] ensures_pret)
      (use b leases in \<open>auto simp: names_revision_def of_disk_def dest: application_with_id application_with_status\<close>)
  show ?thesis
    unfolding rollback_def Let_def
    by (rule ensures_pbind [OF read], rule ensures_fact, simp only:, rule ensures_pbind [OF start],
        rule ensures_pair_fact, rule rest) simp_all
qed

text \<open>What \<open>rollback\<close> has checked.\<close>

lemma check_rollback_facts:
  assumes "check_rollback c project i d = Inr t"
  shows "load_application_record c (application_path project i) d = Inr (rt_application t)"
    "load_runtime_revision c (revision_path project (the (an_revision_id (rt_application t)))) d = Inr (rt_revision t)"
    "rp_parent_revision_id (rt_revision t) \<noteq> None"
    "load_runtime_revision c (revision_path project (the (rp_parent_revision_id (rt_revision t)))) d = Inr (rt_prior t)"
    "\<exists>q. load_active_pointer c (active_pointer_path project) d = Inr q \<and> names_revision q (rt_revision t)"
    "rp_revision_checksum (rt_prior t) = rb_prior_revision_checksum (rp_rollback_metadata (rt_revision t))"
    "load_execution_leases c project d = Inr (rt_leases t)"
    "an_revision_id (rt_application t) \<noteq> None"
  using assms
  by (auto simp: check_rollback_def Let_def has_text_def names_revision_def runtime_active_pointer_path_def
      split: if_split_asm option.splits)

text \<open>
  C23: rolling an application back restores the revision before its own: whatever the outcome,
  the active state is afterwards still the old one or the parent of the active revision, whose
  checksum the revision had recorded; when the call returns it is the parent, the application
  is rolled back and every lease that was active for the revision is stale. The revision files
  themselves are never changed.
\<close>

theorem rollback_restores_parent:
  assumes plain: "plain_path project" and i: "slash_free i"
    and old: "load_active_runtime_state c project (w_disk w) = Inr st"
    and app: "\<And>a. load_application_record c (application_path project i) (w_disk w) = Inr a \<Longrightarrow>
                an_application_id a = i \<and> (\<forall>j. an_revision_id a = Some j \<longrightarrow> slash_free j)"
    and named: "\<And>j r. slash_free j \<Longrightarrow> load_runtime_revision c (revision_path project j) (w_disk w) = Inr r \<Longrightarrow>
                  rp_revision_id r = j \<and> (\<forall>k. rp_parent_revision_id r = Some k \<longrightarrow> slash_free k)"
    and leases: "\<And>ls. load_execution_leases c project (w_disk w) = Inr ls \<Longrightarrow>
                  \<forall>l \<in> set ls. slash_free (el_lease_id l)"
    and run: "rollback c env project i w = (res, v)"
  shows "(load_active_runtime_state c project (w_disk v) = Inr st \<and> \<not> is_ok res)
    \<or> (\<exists>pid st'. load_active_runtime_state c project (w_disk v) = Inr st'
         \<and> rp_parent_revision_id (rst_revision st) = Some pid
         \<and> load_runtime_revision c (revision_path project pid) (w_disk w) = Inr (rst_revision st')
         \<and> rp_revision_checksum (rst_revision st')
             = rb_prior_revision_checksum (rp_rollback_metadata (rst_revision st))
         \<and> (\<forall>a. res = Inr a \<longrightarrow> an_status a = ''rolled_back''
              \<and> (\<forall>ls. load_execution_leases c project (w_disk w) = Inr ls \<longrightarrow>
                   (\<forall>l \<in> set ls. held_by (rst_revision st) l \<longrightarrow>
                     (\<exists>k. load_execution_lease c (execution_lease_path project (el_lease_id l)) (w_disk v) = Inr k
                        \<and> el_lease_state k = ''stale'')))))"
proof (cases "check_rollback c project i (w_disk w)")
  case (Inl e)
  with run have "v = w" "\<not> is_ok res"
    by (auto simp: rollback_def pbind_def)
  with old show ?thesis by simp
next
  case (Inr t)
  let ?d = "w_disk w"
  note facts = check_rollback_facts [OF Inr]
  obtain pid where parent: "rp_parent_revision_id (rt_revision t) = Some pid" using facts(3) by blast
  note prior = facts(4) [unfolded parent option.sel]
  have aid: "slash_free (an_application_id (rt_application t))" using app [OF facts(1)] i by simp
  have rid: "slash_free (the (an_revision_id (rt_application t)))"
    "rp_revision_id (rt_revision t) = the (an_revision_id (rt_application t))"
    "rp_parent_revision_id (rt_revision t) = Some k \<Longrightarrow> slash_free k" for k
    using app [OF facts(1)] named [OF _ facts(2)] facts(8) by auto
  have held: "slash_free (el_lease_id l)" if "l \<in> set (rt_leases t)" for l
    using leases [OF facts(7)] that by blast
  note outcome = rollback_ensures [OF plain Inr aid held, where env = env]
  have start: "of_disk (\<lambda>e. e = ?d) w" by (simp add: of_disk_def)
  obtain q where pointer: "load_active_pointer c (active_pointer_path project) ?d = Inr q"
    and q: "names_revision q (rt_revision t)"
    using facts(5) by blast
  have act: "pt_active_revision_id (rst_pointer st) = rp_revision_id (rst_revision st)"
    using active_state_ids [OF old] by simp
  have current: "rt_revision t = rst_revision st" and ok: "slash_free (rp_revision_id (rst_revision st))"
  proof -
    from old have "load_active_pointer c (active_pointer_path project) ?d = Inr (rst_pointer st)"
      and r: "load_runtime_revision c (revision_path project (rp_revision_id (rst_revision st))) ?d = Inr (rst_revision st)"
      using act by (auto simp: load_active_runtime_state_def Let_def runtime_active_pointer_path_def split: if_splits)
    with pointer q act have same: "rp_revision_id (rt_revision t) = rp_revision_id (rst_revision st)"
      by (simp add: names_revision_def)
    with r rid facts(2) show "rt_revision t = rst_revision st" by simp
    show "slash_free (rp_revision_id (rst_revision st))" using rid same by simp
  qed
  have pid: "rp_revision_id (rt_prior t) = pid" "slash_free pid"
    using rid parent named [OF _ prior] by auto
  have outside: "revision_path project j \<notin> rollback_area project" "active_pointer_path project \<notin> rollback_area project"
    if "slash_free j" for j
    using that runtime_paths_no_lease [OF plain that] app_paths [OF plain that] by (auto simp: rollback_area_def)
  have before: "load_active_runtime_state c project (w_disk v) = Inr st"
    if "of_disk (only_changes (rollback_area project) ?d) v"
    using that load_same_area [OF plain old ok _ outside(2,1) [OF ok]] by (simp add: of_disk_def)
  have after: "\<exists>st'. load_active_runtime_state c project (w_disk v) = Inr st' \<and> rst_revision st' = rt_prior t"
    if "of_disk (restored project t ?d) v"
  proof -
    from that obtain q where area: "only_changes (insert (active_pointer_path project) (rollback_area project)) ?d (w_disk v)"
      and q: "stored_pointer project q (w_disk v)" "names_revision q (rt_prior t)"
      by (auto simp: of_disk_def restored_def)
    from area outside(1) [OF pid(2)] app_paths(9,11,13) [OF plain pid(2)]
    have "load_runtime_revision c (revision_path project pid) (w_disk v) = load_runtime_revision c (revision_path project pid) ?d"
      unfolding load_runtime_revision_def load_yaml_mapping_def
      by (intro read_mapping_cong) (auto simp: only_changes_def)
    with q prior pid app_paths(11) [OF plain pid(2)]
    have "load_active_runtime_state c project (w_disk v) = Inr \<lparr>rst_pointer =
        q\<lparr>pt_previous_revision_id := maybe_text (opt_str (pt_previous_revision_id q))\<rparr>, rst_revision = rt_prior t\<rparr>"
      by (subst active_state_iff [OF plain]) (simp_all add: stored_pointer_def load_active_pointer_def
          load_yaml_mapping_def read_mapping_def yaml_value_def pointer_read_back pointer_names_revision names_revision_def)
    then show ?thesis by simp
  qed
  have stale: "\<exists>k. load_execution_lease c (execution_lease_path project (el_lease_id l)) (w_disk v) = Inr k
      \<and> el_lease_state k = ''stale''"
    if "of_disk (restored project t ?d) v" "l \<in> set (rt_leases t)" "held_by (rst_revision st) l" for l
    by (rule lease_in_state_loads [OF _ plain held]) (use that current in \<open>auto simp: of_disk_def restored_def
        all_stale_def held_ids_def\<close>)
  show ?thesis
  proof (cases res)
    case (Inl e)
    from ensures_err [OF outcome start run [unfolded Inl]]
    have "of_disk (only_changes (rollback_area project) ?d) v \<or> of_disk (restored project t ?d) v"
      by (auto simp: of_disk_def)
    then show ?thesis
      using before after prior parent facts(6) current by (auto simp: Inl)
  next
    case (Inr a)
    from ensures_ok [OF outcome start run [unfolded Inr]] show ?thesis
      using after stale prior parent facts(6,7) current by (auto simp: Inr)
  qed
qed

subsection \<open>Recovery\<close>

lemma saved_phase:
  assumes "save_phase env project t phase paths details w = (Inr u, v)"
  shows "tx_phase u = phase \<and> tx_application_id u = tx_application_id t
    \<and> tx_details u = (if details = [] then tx_details t else details)"
  using assms unfolding save_phase_def save_transaction_phase_def transaction_phase_result
  by (auto simp: on_disk_def split: prod.splits sum.splits)

lemma injected_failure_passes: "injected_failure env project t hook reason m w = (Inr x, v) \<Longrightarrow> v = w"
  by (auto simp: injected_failure_def raise_error_def split: if_splits)

text \<open>The journal does not tell the checksum of the plan once the revision is written.\<close>

lemma publish_drops_checksum:
  assumes "publish_revision c env project p a t ids w = (Inr (r, f, u), v)"
  shows "tx_phase u = ''revision_published''" "fstr (tx_details u) ''plan_checksum'' = []"
  using assms by (auto simp: publish_revision_def Let_def fstr_or_def dget_or_def dest!: saved_phase)

lemma pointer_drops_checksum:
  assumes "update_pointer c env project plan i r t w = (Inr u, v)"
  shows "tx_phase u = ''pointer_updated''" "fstr (tx_details u) ''plan_checksum'' = []"
  using assms by (auto simp: update_pointer_def fstr_or_def dget_or_def dest!: saved_phase)

text \<open>
  C24: recovery never completes an interrupted application. The record of the transaction that
  \<open>plan_apply\<close> leaves in the journal when it has published the revision, or moved the pointer,
  has lost the checksum of the plan, since each phase replaces the details; with a stored plan
  that has a checksum, \<open>recover\<close> then neither moves the pointer nor completes the application:
  the disk stays as it is and nothing is reconciled.
\<close>

theorem interrupted_apply_is_not_recovered:
  assumes journal: "publish_revision c env project p a t ids w\<^sub>0 = (Inr (r, f, u), w\<^sub>1)
      \<or> update_pointer c env project plan i r t w\<^sub>0 = (Inr u, w\<^sub>1)"
    and plan: "\<And>q. load_application_plan c (application_plan_path project (tx_application_id u)) (w_disk w) = Inr q \<Longrightarrow>
      ap_plan_checksum q \<noteq> []"
    and run: "recover_transaction c env' project applications pointer u notes w = (res, v)"
  shows "v = w \<and> (\<forall>n. res = Inr n \<longrightarrow> rn_reconciled n = rn_reconciled notes)"
proof -
  from journal have "tx_phase u \<in> {''revision_published'', ''pointer_updated''}
      \<and> fstr (tx_details u) ''plan_checksum'' = []"
    by (elim disjE) (simp_all add: publish_drops_checksum pointer_drops_checksum)
  then show ?thesis
    using run plan unfolding recover_transaction_def Let_def
    by (auto simp: pbind_def note_finding_def split: sum.splits if_splits)
qed

text \<open>
  A pointer file that does not load, which \<open>recover\<close> means to report as a finding, makes it
  raise instead: the status of the applications reads the pointer once more, unguarded. No file
  has been changed by then, so not even the report of the recovery is written.
\<close>

theorem corrupt_pointer_stops_recovery:
  assumes plain: "plain_path project" and there: "fs_file (w_disk w) (active_pointer_path project) \<noteq> None"
    and corrupt: "load_active_pointer c (active_pointer_path project) (w_disk w) = Inl e"
    and run: "recover c env project w = (res, v)"
  shows "\<not> is_ok res \<and> fs_files (w_disk v) = fs_files (w_disk w)"
proof -
  let ?ensure = "ensure_cloud_application_dirs project"
  note path = app_paths(11) [OF plain slash_free_Cons(1)]
  have load: "load_pointer_if_present c project d = Inl e"
    if "fs_files d = fs_files (w_disk w)" for d
    using that there corrupt path
    by (simp add: load_pointer_if_present_def Let_def runtime_active_pointer_path_def load_active_pointer_def
        load_yaml_mapping_def read_mapping_def fs_exists_def)
  show ?thesis
    using run load unfolding recover_def application_status_def Let_def
    by (auto simp: pbind_def on_disk_def pmodify_def split: sum.splits prod.splits)
qed

subsection \<open>A run\<close>

definition applied_record :: application_record where
  "applied_record = \<lparr>an_schema_version = 1, an_application_id = ''app'', an_request_id = ''CQ-1'',
     an_request_checksum = [], an_response_checksum = [], an_approval_checksum = None, an_status = ''applied'',
     an_created_at = ''t'', an_source = \<lparr>so_request_type = [], so_response_classification = [],
       so_source_task_id = [], so_source_plan_revision = []\<rparr>,
     an_application = \<lparr>ao_operation_type = [], ao_affected_task_ids = [], ao_proposed_task_ids = [],
       ao_preserved_requirement_ids = [], ao_dependency_changes = [], ao_writable_paths = [],
       ao_expected_outputs = [], ao_validation_steps = []\<rparr>,
     an_safety = \<lparr>sf_canonical_blueprint_modified = False, sf_writable_paths_expanded = False,
       sf_requirements_removed = False, sf_external_services_added = False, sf_network_access_added = False,
       sf_deployment_added = False\<rparr>,
     an_resume = \<lparr>re_eligible = False, re_resume_from_task_ids = [], re_blocked_dependents = [],
       re_previously_completed_tasks = [], re_reasons = [], re_manual_holds = []\<rparr>,
     an_plan_checksum = [], an_revision_id = Some ''r2'', an_revision_checksum = None,
     an_active_revision_id = None, an_rollback_available = True, an_notes = [], an_audit_event_ids = []\<rparr>"

definition new_revision :: runtime_plan_revision where
  "new_revision = source_revision ''r2'' (Some ''r1'') []"

definition held_lease :: execution_lease where
  "held_lease = \<lparr>el_schema_version = 1, el_lease_id = ''l1'', el_task_id = ''a'', el_execution_attempt_id = ''x'',
     el_runtime_revision_id = ''r2'', el_runtime_revision_checksum = ''h'', el_local_model = ''local-model'',
     el_writable_paths = [], el_start_timestamp = ''t'', el_lease_state = ''active'', el_expiry_timestamp = None,
     el_heartbeat_timestamp = None, el_completion_checksum = None, el_failure_reason = None\<rparr>"

definition rollback_world :: world where
  "rollback_world = \<lparr>w_disk = \<lparr>fs_files =
     [(application_path [''p''] ''app'', Doc (PDict (application_record_to_dict applied_record))),
      (request_path [''p''] ''CQ-1'' (Some ''approved''),
        Doc (PDict (request_to_dict (source_request\<lparr>rq_state := ''approved'', rq_prior_state := ''imported''\<rparr>)))),
      (active_pointer_path [''p''], Doc (PDict (active_revision_pointer_to_dict (source_pointer ''r2'')))),
      (revision_path [''p''] ''r1'', Doc (PDict (runtime_plan_revision_to_dict (source_revision ''r1'' None [])))),
      (revision_path [''p''] ''r2'', Doc (PDict (runtime_plan_revision_to_dict new_revision))),
      (execution_lease_path [''p''] ''l1'', Doc (PDict (execution_lease_to_dict held_lease)))],
     fs_dirs = []\<rparr>, w_clock = 0, w_ids = 0\<rparr>"

definition new_state :: runtime_state where
  "new_state = \<lparr>rst_pointer = source_pointer ''r2'', rst_revision = new_revision\<rparr>"

lemma rollback_world_loads:
  "load_active_runtime_state sample_yaml [''p''] (w_disk rollback_world) = Inr new_state"
  "load_application_record sample_yaml (application_path [''p''] ''app'') (w_disk rollback_world) = Inr applied_record"
  "load_execution_leases sample_yaml [''p''] (w_disk rollback_world) = Inr [held_lease]"
  by code_simp+

lemma rollback_world_revisions:
  assumes "slash_free j"
    and "load_runtime_revision sample_yaml (revision_path [''p''] j) (w_disk rollback_world) = Inr r"
  shows "rp_revision_id r = j \<and> (\<forall>k. rp_parent_revision_id r = Some k \<longrightarrow> slash_free k)"
proof -
  have loaded: "load_runtime_revision sample_yaml (revision_path [''p''] ''r1'') (w_disk rollback_world)
      = Inr (source_revision ''r1'' None [])"
    "load_runtime_revision sample_yaml (revision_path [''p''] ''r2'') (w_disk rollback_world) = Inr new_revision"
    by code_simp+
  have "revision_path [''p''] j \<notin> {application_path [''p''] ''app'', request_path [''p''] ''CQ-1'' (Some ''approved''),
      active_pointer_path [''p''], execution_lease_path [''p''] ''l1''}"
    using assms(1) slash_free_file [OF assms(1), THEN join_plain]
    by (simp add: revision_path_def application_path_def request_path_def active_pointer_path_def
        execution_lease_path_def runtime_plan_path_def application_root_path_def lease_root_path_def queue_paths_def Let_def
        plain_name_def)
  with assms(2) have "revision_path [''p''] j \<in> {revision_path [''p''] ''r1'', revision_path [''p''] ''r2''}"
    using app_paths(9) [OF _ assms(1), of "[''p'']"]
    by (auto simp: load_runtime_revision_def load_yaml_mapping_def read_mapping_def rollback_world_def split: if_splits)
  then have "j = ''r1'' \<or> j = ''r2''"
    using assms(1) by (simp add: revision_path_eq)
  with assms(2) loaded show ?thesis by (auto simp: source_revision_def new_revision_def)
qed

theorem rollback_restores_parent_witness:
  "\<exists>res v. rollback sample_yaml sample_service [''p''] ''app'' rollback_world = (res, v)
    \<and> (load_active_runtime_state sample_yaml [''p''] (w_disk v) = Inr new_state \<and> \<not> is_ok res
      \<or> (\<exists>st. load_active_runtime_state sample_yaml [''p''] (w_disk v) = Inr st
           \<and> load_runtime_revision sample_yaml (revision_path [''p''] ''r1'') (w_disk rollback_world) = Inr (rst_revision st)))"
proof -
  obtain res v where run: "rollback sample_yaml sample_service [''p''] ''app'' rollback_world = (res, v)"
    by fastforce
  have app: "an_application_id a = ''app'' \<and> (\<forall>j. an_revision_id a = Some j \<longrightarrow> slash_free j)"
    if "load_application_record sample_yaml (application_path [''p''] ''app'') (w_disk rollback_world) = Inr a" for a
    using that by (auto simp only: rollback_world_loads sum.inject) (auto simp: applied_record_def)
  have leases: "\<forall>l \<in> set ls. slash_free (el_lease_id l)"
    if "load_execution_leases sample_yaml [''p''] (w_disk rollback_world) = Inr ls" for ls
    using that by (auto simp only: rollback_world_loads sum.inject) (simp add: held_lease_def)
  have parent: "rp_parent_revision_id (rst_revision new_state) = Some ''r1''"
    by (simp add: new_state_def new_revision_def source_revision_def)
  have plain: "plain_path [''p'']" "slash_free ''app''" by simp_all
  note rollback_restores_parent [OF plain rollback_world_loads(1) app rollback_world_revisions leases run]
  with run show ?thesis unfolding parent by blast
qed

text \<open>A run that was stopped after the pointer had been moved.\<close>

definition stranded_plan :: application_plan where
  "stranded_plan = projr (application_plan_from_dict [(''application_id'', PStr ''app''),
     (''source_revision_id'', PStr ''r1''), (''source_revision_checksum'', PStr ''h''), (''plan_checksum'', PStr ''c'')])"

definition stranded_transaction :: transaction_record where
  "stranded_transaction = create_transaction_record ''txn-app'' ''app'' ''r1'' ''h'' ''r2'' ''h'' ''r1'' ''t'' ''t'' []
     ''restore prior pointer if present'' [(''plan_checksum'', PStr ''c'')]"

definition stranded_world :: world where
  "stranded_world = \<lparr>w_disk = \<lparr>fs_files =
     [(active_pointer_path [''p''], Doc (PDict (active_revision_pointer_to_dict (source_pointer ''r1'')))),
      (revision_path [''p''] ''r2'', Doc (PDict (runtime_plan_revision_to_dict new_revision))),
      (application_plan_path [''p''] ''app'', Doc (PDict (application_plan_to_dict stranded_plan)))],
     fs_dirs = []\<rparr>, w_clock = 0, w_ids = 0\<rparr>"

lemma stranded_world_loads:
  "load_active_pointer sample_yaml (active_pointer_path [''p'']) (w_disk stranded_world) = Inr (source_pointer ''r1'')"
  "map_sum id ap_plan_checksum (load_application_plan sample_yaml (application_plan_path [''p''] ''app'')
     (w_disk stranded_world)) = Inr ''c''"
  "ap_source_revision_id stranded_plan = ''r1''" "ap_source_revision_checksum stranded_plan = ''h''"
  by code_simp+

lemma stranded_run:
  "\<exists>u v. update_pointer sample_yaml sample_service [''p''] stranded_plan ''app'' new_revision stranded_transaction
     stranded_world = (Inr u, v) \<and> tx_application_id u = ''app''"
  unfolding update_pointer_def save_phase_def save_transaction_phase_def transaction_phase_result
  using stranded_world_loads(1,3,4)
  by (simp add: pbind_def runtime_active_pointer_path_def validate_active_pointer_def injected_failure_def now_call_def
      on_disk_def save_active_pointer_def save_transaction_record_def sample_service_def sample_hooks_def
      source_pointer_def stranded_transaction_def create_transaction_record_def)

theorem interrupted_apply_is_not_recovered_witness:
  "\<exists>u w. update_pointer sample_yaml sample_service [''p''] stranded_plan ''app'' new_revision stranded_transaction
      stranded_world = (Inr u, w)
    \<and> snd (recover_transaction sample_yaml sample_service [''p''] [applied_record] (source_pointer ''r2'') u
        \<lparr>rn_findings = [], rn_actions = [], rn_reconciled = False\<rparr> stranded_world) = stranded_world"
proof -
  let ?n = "\<lparr>rn_findings = [], rn_actions = [], rn_reconciled = False\<rparr>"
  obtain u w where run: "update_pointer sample_yaml sample_service [''p''] stranded_plan ''app'' new_revision
      stranded_transaction stranded_world = (Inr u, w)" and u: "tx_application_id u = ''app''"
    using stranded_run by blast
  obtain res v where recover: "recover_transaction sample_yaml sample_service [''p''] [applied_record]
      (source_pointer ''r2'') u ?n stranded_world = (res, v)"
    by fastforce
  have "ap_plan_checksum q \<noteq> []" if "load_application_plan sample_yaml
      (application_plan_path [''p''] (tx_application_id u)) (w_disk stranded_world) = Inr q" for q
    using that stranded_world_loads(2) by (simp add: u)
  from interrupted_apply_is_not_recovered [OF disjI2 [OF run] this recover] run recover show ?thesis by auto
qed

definition corrupt_world :: world where
  "corrupt_world = \<lparr>w_disk = \<lparr>fs_files = [(active_pointer_path [''p''], Doc (PList []))], fs_dirs = []\<rparr>,
     w_clock = 0, w_ids = 0\<rparr>"

theorem corrupt_pointer_stops_recovery_witness:
  "\<exists>res v. recover sample_yaml sample_service [''p''] corrupt_world = (res, v) \<and> \<not> is_ok res
    \<and> fs_files (w_disk v) = fs_files (w_disk corrupt_world)"
proof -
  obtain res v where run: "recover sample_yaml sample_service [''p''] corrupt_world = (res, v)"
    by fastforce
  have there: "fs_file (w_disk corrupt_world) (active_pointer_path [''p'']) \<noteq> None"
    by (simp add: corrupt_world_def app_paths(11) [of _ "[]"])
  obtain e where "load_active_pointer sample_yaml (active_pointer_path [''p'']) (w_disk corrupt_world) = Inl e"
    by (simp add: corrupt_world_def app_paths(11) [of _ "[]"] load_active_pointer_def load_yaml_mapping_def
        read_mapping_def yaml_value_def value_error_def)
  from corrupt_pointer_stops_recovery [OF _ there this run] run show ?thesis by auto
qed

end
