(* ===== verification/AppResumeFacts.thy ===== *)
theory AppResumeFacts
  imports AppResume AppRecoveryFacts
begin

text \<open>
  What a resume publishes, and what it does to the leases when it fails.
\<close>

subsection \<open>Publication\<close>

lemma completed_lease:
  assumes "lease_with l [(''lease_state'', PStr ''completed''), (''completion_checksum'', PStr s)] = Inr k"
  shows "el_lease_id k = el_lease_id l" "el_lease_state k = ''completed''" "wf_execution_lease k"
    "el_completion_checksum k = maybe_text (PStr s)"
  using assms unfolding lease_with_def
  by (auto intro: lease_from_dict_wf) (auto simp: execution_lease_from_dict_def codec_simps)

lemma find_result: "find P xs = Some x \<Longrightarrow> x \<in> set xs \<and> P x"
  by (auto simp: find_Some_iff)


subsection \<open>A resume that fails\<close>

lemma merged_value: "map_of (al_merge d upd) k = Some v \<Longrightarrow> map_of d k = Some v \<or> (k, v) \<in> set upd"
  by (induction upd arbitrary: d) (force split: if_splits)+

lemma merged_key: "k \<in> fst ` set upd \<or> map_of d k \<noteq> None \<Longrightarrow> map_of (al_merge d upd) k \<noteq> None"
  by (induction upd arbitrary: d) auto

lemma invalidated_lease:
  assumes plain: "plain_path project" and ok: "slash_free i" "slash_free (el_lease_id l)"
    and run: "pbind (plift (lease_with l [(''lease_state'', PStr s), (''failure_reason'', PStr reason)])) (\<lambda>k.
      pbind (on_disk (save_execution_lease project k)) (\<lambda>_. pret ())) w = (Inr u, v)"
    and start: "i = el_lease_id l \<or> lease_in_state project s i (w_disk w)"
  shows "lease_in_state project s i (w_disk v)"
proof -
  from run obtain k d p where k: "lease_with l [(''lease_state'', PStr s), (''failure_reason'', PStr reason)] = Inr k"
    and save: "save_execution_lease project k (w_disk w) = (Inr p, d)" and v: "v = w\<lparr>w_disk := d\<rparr>"
    by (auto simp: on_disk_def split: prod.splits)
  note facts = lease_with_result [OF k]
  have "lease_in_state project s i d"
    by (rule lease_saved [OF plain ok(1) _ facts(3,2) save]) (use start facts ok in auto)
  then show ?thesis by (simp add: v)
qed

text \<open>
  A resume that fails takes back every lease it created, also those that an earlier task of
  the run has completed: their publication stays, but the lease says that it was cancelled,
  failed or stale, whatever its state was before.
\<close>

theorem failed_resume_overwrites_completed_leases:
  assumes plain: "plain_path project"
    and stored: "load_execution_leases c project (w_disk w) = Inr ls"
    and ids: "\<And>l. l \<in> set ls \<Longrightarrow> slash_free (el_lease_id l)"
    and lease: "l \<in> set ls" "el_lease_id l \<in> set lease_ids"
    and same: "\<And>k. k \<in> set ls \<Longrightarrow> el_lease_id k = el_lease_id l \<Longrightarrow> el_runtime_revision_id k = revision_id"
    and run: "invalidate_resume_leases c project revision_id lease_ids reason s w = (Inr (), v)"
  shows "\<exists>k. load_execution_lease c (execution_lease_path project (el_lease_id l)) (w_disk v) = Inr k
    \<and> el_lease_state k = s"
proof -
  define tbl where "tbl = al_merge [] (map (\<lambda>l. (el_lease_id l, l)) ls)"
  have tbl: "k \<in> set ls \<and> el_lease_id k = i" if "map_of tbl i = Some k" for i k
    using that unfolding tbl_def by (auto dest!: merged_value)
  have there: "map_of tbl (el_lease_id l) \<noteq> None"
    using lease(1) unfolding tbl_def by (intro merged_key) (auto simp: image_image)
  let ?step = "\<lambda>lease_id _. case map_of tbl lease_id of
         None \<Rightarrow> pret ()
       | Some lease \<Rightarrow>
           if el_runtime_revision_id lease \<noteq> revision_id then pret ()
           else
             pbind (plift (lease_with lease [(''lease_state'', PStr s), (''failure_reason'', PStr reason)])) (\<lambda>updated.
             pbind (on_disk (save_execution_lease project updated)) (\<lambda>_. pret ()))"
  have "lease_in_state project s (el_lease_id l) (w_disk v)"
    if "pfold ?step is () x = (Inr (), v)"
      and "el_lease_id l \<in> set is \<or> lease_in_state project s (el_lease_id l) (w_disk x)" for "is" x
    using that
  proof (induction "is" arbitrary: x)
    case (Cons i "is")
    from Cons.prems(1) obtain y where step: "?step i () x = (Inr (), y)" and rest: "pfold ?step is () y = (Inr (), v)"
      by auto
    have "lease_in_state project s (el_lease_id l) (w_disk y)"
      if "i = el_lease_id l \<or> lease_in_state project s (el_lease_id l) (w_disk x)"
    proof (cases "\<exists>k. map_of tbl i = Some k \<and> el_runtime_revision_id k = revision_id")
      case True
      then obtain k where k: "map_of tbl i = Some k" "el_runtime_revision_id k = revision_id" by blast
      note km = tbl [OF k(1)]
      show ?thesis
        by (rule invalidated_lease [OF plain ids [OF lease(1)], of k]) (use ids km k step that in auto)
    next
      case False
      moreover have "i \<noteq> el_lease_id l"
        using False there same tbl by auto
      ultimately show ?thesis
        using step that by (auto split: option.splits)
    qed
    with Cons.prems(2) show ?case by (intro Cons.IH [OF rest]) auto
  qed simp
  moreover have "pfold ?step lease_ids () w = (Inr (), v)"
    using run stored by (simp add: invalidate_resume_leases_def Let_def tbl_def pbind_def)
  ultimately have "lease_in_state project s (el_lease_id l) (w_disk v)" using lease(2) by blast
  then show ?thesis by (rule lease_in_state_loads [OF _ plain ids [OF lease(1)]])
qed

subsection \<open>A run\<close>

definition resumed_revision :: runtime_plan_revision where
  "resumed_revision = source_revision ''r2'' (Some ''r1'') [sample_task ''a'' [] [''src/a'']]"

definition resume_lease :: execution_lease where
  "resume_lease = held_lease\<lparr>el_writable_paths := [''src/a'', ''stories/s/reports/local_execution/tasks/a/**'']\<rparr>"

definition resume_world :: world where
  "resume_world = \<lparr>w_disk = \<lparr>fs_files =
     [(active_pointer_path [''p''], Doc (PDict (active_revision_pointer_to_dict (source_pointer ''r2'')))),
      ([''p'', ''stories'', ''s'', ''reports'', ''local_execution'', ''tasks'', ''a'', ''execution.yaml''], Text ''x''),
      (execution_lease_path [''p''] ''l1'', Doc (PDict (execution_lease_to_dict resume_lease)))],
     fs_dirs = []\<rparr>, w_clock = 0, w_ids = 0\<rparr>"

definition resumed_run :: resume_run where
  "resumed_run = \<lparr>ru_request = source_request, ru_application = applied_record, ru_revision = resumed_revision,
     ru_eligibility = an_resume applied_record, ru_tasks = rp_task_graph resumed_revision,
     ru_lease_ids = [''l1''], ru_state_path = []\<rparr>"

definition executed :: execution_result where
  "executed = \<lparr>xr_status = ''completed'', xr_state_path = [], xr_story_path = [''p'', ''stories'', ''s'']\<rparr>"

definition executed_state :: pydict where
  "executed_state = [(''tasks'', PDict [(''a'', PDict [(''status'', PStr ''completed''),
     (''validation_result'', PDict [(''status'', PStr ''passed'')])])])]"

lemma resume_world_loads:
  "load_execution_leases sample_yaml [''p''] (w_disk resume_world) = Inr [resume_lease]"
  "load_active_pointer sample_yaml (active_pointer_path [''p'']) (w_disk resume_world) = Inr (source_pointer ''r2'')"
  "read_bytes sample_yaml (task_result_path executed ''a'') (w_disk resume_world) = Inr ''x''"
  "fs_exists (w_disk resume_world) (task_result_path executed ''a'')"
  "is_ok (lease_with resume_lease [(''lease_state'', PStr ''completed''),
     (''completion_checksum'', PStr (checksum_bytes sample_yaml ''x''))])"
  "is_ok (lease_with resume_lease [(''lease_state'', PStr ''cancelled''), (''failure_reason'', PStr ''f'')])"
  by code_simp+

definition executed_task :: pydict where
  "executed_task = [(''status'', PStr ''completed''), (''validation_result'', PDict [(''status'', PStr ''passed'')])]"

definition resumed_publication :: task_publication_record where
  "resumed_publication =
     \<lparr>tp_schema_version = 1, tp_task_id = ''a'', tp_lease_id = ''l1'', tp_execution_attempt_id = ''x'',
      tp_revision_id = ''r2'', tp_revision_checksum = ''h'',
      tp_result_artifact_path = ''stories/s/reports/local_execution/tasks/a/execution.yaml'',
      tp_result_checksum = checksum_bytes sample_yaml ''x'', tp_validation_status = ''passed'',
      tp_publication_timestamp = ''t'', tp_failure_reason = None\<rparr>"

lemma resume_world_gate:
  "validate_publication_gate sample_yaml [''p''] resumed_publication resume_lease (source_pointer ''r2'')
     resumed_revision (sample_task ''a'' [] [''src/a'']) (task_result_path executed ''a'') ''x''
     (w_disk resume_world) = Inr ()"
  "lease_for_task sample_yaml [''p''] ''r2'' ''a'' (w_disk resume_world) = Inr resume_lease"
  "relative_text [''p''] (task_result_path executed ''a'')
     = Inr ''stories/s/reports/local_execution/tasks/a/execution.yaml''"
  "completed_state (tasks_of executed_state) ''a'' = Some executed_task"
  "validation_status executed_task = Inr ''passed''"
  by code_simp+

lemma resumed_publication_made:
  "make_publication sample_service resumed_revision (sample_task ''a'' [] [''src/a'']) resume_lease
     ''stories/s/reports/local_execution/tasks/a/execution.yaml'' (checksum_bytes sample_yaml ''x'') ''passed'' w =
   (Inr resumed_publication, w\<lparr>w_clock := w_clock w + 1\<rparr>)"
  by (simp add: make_publication_def now_call_def pbind_def resumed_publication_def sample_service_def
      resumed_revision_def source_revision_def sample_task_def resume_lease_def held_lease_def)

lemma published_run:
  "\<exists>s v. publish_task sample_yaml sample_service [''p''] resumed_run executed (sample_task ''a'' [] [''src/a''])
    executed_state resume_world = (Inr (Inr s), v)"
proof -
  obtain k where k: "lease_with resume_lease [(''lease_state'', PStr ''completed''),
     (''completion_checksum'', PStr (checksum_bytes sample_yaml ''x''))] = Inr k"
    using resume_world_loads(5) by (auto simp: is_ok_def split: sum.splits)
  have fields: "ts_task_id (sample_task ''a'' [] [''src/a'']) = ''a''" "ru_revision resumed_run = resumed_revision"
    "rp_revision_id resumed_revision = ''r2''" "tp_result_checksum resumed_publication = checksum_bytes sample_yaml ''x''"
    by (simp_all add: sample_task_def resumed_run_def resumed_revision_def source_revision_def resumed_publication_def)
  show ?thesis
    unfolding publish_task_def Let_def fields
    by (simp add: pbind_def resume_world_gate resume_world_loads resumed_publication_made fields k on_disk_def
        runtime_active_pointer_path_def save_publication_record_def save_task_publication_record_def
        save_execution_lease_def)
qed


definition published_world :: world where
  "published_world = resume_world\<lparr>w_disk := \<lparr>fs_files = [(execution_lease_path [''p''] ''l1'',
     Doc (PDict (execution_lease_to_dict (resume_lease\<lparr>el_lease_state := ''completed''\<rparr>))))], fs_dirs = []\<rparr>\<rparr>"

lemma published_world_loads:
  "load_execution_leases sample_yaml [''p''] (w_disk published_world) = Inr [resume_lease\<lparr>el_lease_state := ''completed''\<rparr>]"
  "is_ok (lease_with (resume_lease\<lparr>el_lease_state := ''completed''\<rparr>)
     [(''lease_state'', PStr ''cancelled''), (''failure_reason'', PStr ''f'')])"
  by code_simp+

lemma invalidated_run:
  "\<exists>v. invalidate_resume_leases sample_yaml [''p''] ''r2'' [''l1''] ''f'' ''cancelled'' published_world = (Inr (), v)"
proof -
  obtain k where "lease_with (resume_lease\<lparr>el_lease_state := ''completed''\<rparr>)
     [(''lease_state'', PStr ''cancelled''), (''failure_reason'', PStr ''f'')] = Inr k"
    using published_world_loads(2) by (auto simp: is_ok_def split: sum.splits)
  then show ?thesis
    by (simp add: invalidate_resume_leases_def Let_def pbind_def published_world_loads(1) resume_lease_def held_lease_def
        on_disk_def save_execution_lease_def)
qed

theorem failed_resume_overwrites_completed_leases_witness:
  "\<exists>v k. invalidate_resume_leases sample_yaml [''p''] ''r2'' [''l1''] ''f'' ''cancelled'' published_world = (Inr (), v)
    \<and> load_execution_lease sample_yaml (execution_lease_path [''p''] ''l1'') (w_disk v) = Inr k
    \<and> el_lease_state k = ''cancelled''"
proof -
  let ?l = "resume_lease\<lparr>el_lease_state := ''completed''\<rparr>"
  obtain v where run: "invalidate_resume_leases sample_yaml [''p''] ''r2'' [''l1''] ''f'' ''cancelled'' published_world
      = (Inr (), v)"
    using invalidated_run by blast
  have l: "el_lease_id ?l = ''l1''" "el_runtime_revision_id ?l = ''r2''"
    by (simp_all add: resume_lease_def held_lease_def)
  have "\<exists>k. load_execution_lease sample_yaml (execution_lease_path [''p''] (el_lease_id ?l)) (w_disk v) = Inr k
      \<and> el_lease_state k = ''cancelled''"
    by (rule failed_resume_overwrites_completed_leases [OF _ published_world_loads(1) _ _ _ _ run])
      (auto simp: l)
  with run show ?thesis unfolding l by blast
qed

end
