(* ===== verification/LocalRunCases.thy ===== *)
theory LocalRunCases
  imports LocalRunOrder AppResumeFacts
begin

text \<open>
  Runs of the sub-tasks and their environment: a key of the environment reaches the endpoint only,
  an identifier that is an absolute path leads out of the project, and a resume that runs ready
  tasks only cannot order them when they depend on tasks that are completed.
\<close>

subsection \<open>The key of the endpoint\<close>

text \<open>The answers of an endpoint that do not depend on the headers of the request.\<close>

definition ignores_headers :: "local_env \<Rightarrow> bool" where
  "ignores_headers env \<longleftrightarrow> (\<forall>k url q h h' t. lx_post env k url q h t = lx_post env k url q h' t)"

lemma call_ignores_environ:
  assumes "ignores_headers env"
  shows "call_local_model (env\<lparr>lx_environ := f\<rparr>) cfg prompt model = call_local_model env cfg prompt model"
proof -
  have "lx_post env k url q h t = lx_post env k url q h' t" for k url q h h' t
    using assms unfolding ignores_headers_def by blast
  then show ?thesis unfolding call_local_model_def Let_def by (intro ext) simp
qed


subsection \<open>Identifiers that are paths\<close>

lemma write_audit_run: "write_audit p s = (Inr (), s\<lparr>xs_world := (xs_world s)\<lparr>w_disk := fs_write p (Doc (PDict (xs_audit s))) (run_disk s)\<rparr>\<rparr>)"
  by (simp add: write_audit_def on_run_disk_def in_world_def on_disk_def run_disk_def)

lemma write_state_run: "write_state p s = (Inr (), s\<lparr>xs_world := (xs_world s)\<lparr>w_disk := fs_write p (Doc (PDict (xs_state s))) (run_disk s)\<rparr>\<rparr>)"
  by (simp add: write_state_def on_run_disk_def in_world_def on_disk_def run_disk_def)

lemma close_task_writes:
  assumes run: "close_task env state_path task_path task s = (Inr (), u)"
    and plain: "plain_path (task_path @ [''execution.yaml''])" "plain_path state_path"
    and other: "state_path \<noteq> task_path @ [''execution.yaml'']"
  shows "fs_file (run_disk u) (task_path @ [''execution.yaml'']) = Some (Doc (PDict (xs_audit u)))"
proof -
  from run obtain t where "write_audit (task_path @ [''execution.yaml'']) t
      = (Inr (), t\<lparr>xs_world := (xs_world t)\<lparr>w_disk := fs_write (task_path @ [''execution.yaml''])
          (Doc (PDict (xs_audit t))) (run_disk t)\<rparr>\<rparr>)"
    "write_state state_path (t\<lparr>xs_world := (xs_world t)\<lparr>w_disk := fs_write (task_path @ [''execution.yaml''])
          (Doc (PDict (xs_audit t))) (run_disk t)\<rparr>\<rparr>) = (Inr (), u)"
    unfolding close_task_def by (auto simp: write_audit_run)
  from this(2) have "u = t\<lparr>xs_world := (xs_world t)\<lparr>w_disk := fs_write state_path (Doc (PDict (xs_state t)))
      (fs_write (task_path @ [''execution.yaml'']) (Doc (PDict (xs_audit t))) (run_disk t))\<rparr>\<rparr>"
    by (simp add: write_state_run run_disk_def)
  then show ?thesis using plain other by (simp add: run_disk_def)
qed

text \<open>
  C36: the identifier of a task is used as the name of its folder unchecked: a task whose
  identifier is an absolute path has its audit written there, outside the story and the project,
  whatever becomes of the task.
\<close>

theorem task_identifier_escapes:
  assumes run: "execute_task c env project story story_path blueprint_story execution_path
      (execution_path @ [''state.yaml'']) task entry s = (Inr (), u)"
    and "is_absolute (bs_id task)" and "plain_path (posix_tail (bs_id task))" and "plain_path execution_path"
  shows "fs_file (run_disk u) (posix_tail (bs_id task) @ [''execution.yaml'']) = Some (Doc (PDict (xs_audit u)))"
proof -
  have folder: "task_folder execution_path (bs_id task) = posix_tail (bs_id task)"
    using assms(2) by (simp add: task_folder_def join_path_def)
  obtain m t where body: "finally_do m (close_task env (execution_path @ [''state.yaml'']) (posix_tail (bs_id task)) task) t
      = (Inr (), u)"
    using run unfolding execute_task_def Let_def folder by (auto elim!: pbind_InrE)
  then obtain v where "close_task env (execution_path @ [''state.yaml'']) (posix_tail (bs_id task)) task v = (Inr (), u)"
    unfolding finally_do_def by (auto split: prod.splits sum.splits)
  then show ?thesis by (rule close_task_writes) (use assms(3,4) in simp_all)
qed

subsection \<open>Resuming a task that depends on a completed one\<close>

lemma dependency_outside_selection:
  assumes "distinct (map bs_id tasks)" and "t \<in> set tasks" and "d \<in> set (bs_depends_on t)" and "d \<notin> bs_id ` set tasks"
  shows "\<exists>left w'. run_subtask_local_execution c env project story story_path blueprint_story tasks None resuming dry_run
      initial_state w = (Inl (Exn ValueError (''Sub-task dependency cycle detected: '' @ join '', '' left)), w')"
proof -
  obtain left where "topological_subtasks tasks = Inl (Exn ValueError (''Sub-task dependency cycle detected: '' @ join '', '' left))"
    using missing_dependency_fails [OF assms] by blast
  then show ?thesis
    by (auto simp: run_subtask_local_execution_def Let_def selected_subtasks_def on_disk_def pbind_def)
qed

lemma selected_of_revision:
  assumes distinct: "distinct (map ts_task_id (rp_task_graph revision))"
    and there: "set ids \<subseteq> ts_task_id ` set (rp_task_graph revision)"
  shows "\<exists>tasks. select_subtasks revision ids = Inr tasks \<and> map bs_id tasks = ids
    \<and> (\<forall>t \<in> set (rp_task_graph revision). ts_task_id t \<in> set ids \<longrightarrow> to_blueprint_subtask t \<in> set tasks)"
proof -
  let ?graph = "rp_task_graph revision"
  let ?by_id = "al_merge [] (map (\<lambda>t. (ts_task_id t, to_blueprint_subtask t)) ?graph)"
  have of_task: "map_of ?by_id (ts_task_id t) = Some (to_blueprint_subtask t)" if "t \<in> set ?graph" for t
  proof -
    have keys: "distinct (map fst (map (\<lambda>t. (ts_task_id t, to_blueprint_subtask t)) ?graph))"
      using distinct by (simp add: comp_def)
    moreover have "map_of (map (\<lambda>t. (ts_task_id t, to_blueprint_subtask t)) ?graph) (ts_task_id t) = Some (to_blueprint_subtask t)"
      using that keys by (intro map_of_is_SomeI) auto
    ultimately show ?thesis by (simp add: al_merge_lookup)
  qed
  then have "i \<in> fst ` set ?by_id" if "i \<in> set ids" for i
    using that there by (force simp: image_iff dest: map_of_SomeD)
  then have "select_subtasks revision ids = Inr (map (\<lambda>i. the (map_of ?by_id i)) ids)"
    by (auto simp: select_subtasks_def Let_def filter_empty_conv)
  moreover have "bs_id (the (map_of ?by_id i)) = i" if "i \<in> set ids" for i
    using that there of_task by (auto simp: to_blueprint_subtask_def)
  moreover have "to_blueprint_subtask t \<in> set (map (\<lambda>i. the (map_of ?by_id i)) ids)"
    if "t \<in> set ?graph" "ts_task_id t \<in> set ids" for t
    using of_task [OF that(1)] that(2) by (force simp: image_iff)
  ultimately show ?thesis
    by (intro exI [of _ "map (\<lambda>i. the (map_of ?by_id i)) ids"]) (simp add: map_idI)
qed

text \<open>
  C37: a resume runs the ready tasks of the active revision, and only these are handed to the
  execution. A ready task that depends on a completed task therefore has a dependency that the
  execution does not know: it raises with the report of a cycle and no task is run.
\<close>

theorem dependent_task_never_resumes:
  assumes "distinct (map ts_task_id (rp_task_graph revision))" and "distinct ids"
    and ready: "\<forall>i \<in> set ids. \<exists>t \<in> set (rp_task_graph revision). ts_task_id t = i \<and> ts_status t = ''ready''"
    and t: "t \<in> set (rp_task_graph revision)" "ts_task_id t \<in> set ids" "ts_task_id u \<in> set (ts_depends_on t)"
    and u: "u \<in> set (rp_task_graph revision)" "ts_status u = ''completed''"
  shows "\<exists>left. fst (run_runtime_revision_execution (local_runner c env) project story revision (Some ids) initial_state w)
    = Inl (Exn ValueError (''Sub-task dependency cycle detected: '' @ join '', '' left))"
proof -
  have "set ids \<subseteq> ts_task_id ` set (rp_task_graph revision)" using ready by auto
  from selected_of_revision [OF assms(1) this] obtain tasks where tasks: "select_subtasks revision ids = Inr tasks"
    "map bs_id tasks = ids" "to_blueprint_subtask t \<in> set tasks" using t(1,2) by blast
  have "ts_task_id u \<notin> set ids"
  proof
    assume "ts_task_id u \<in> set ids"
    with ready obtain v where "v \<in> set (rp_task_graph revision)" "ts_task_id v = ts_task_id u" "ts_status v = ''ready''" by metis
    moreover from assms(1) have "inj_on ts_task_id (set (rp_task_graph revision))" by (simp add: distinct_map)
    ultimately have "v = u" using u(1) by (simp add: inj_on_def)
    with \<open>ts_status v = ''ready''\<close> u(2) show False by simp
  qed
  then have "ts_task_id u \<notin> bs_id ` set tasks" using tasks(2) by (metis list.set_map)
  moreover have "ts_task_id u \<in> set (bs_depends_on (to_blueprint_subtask t))" using t(3) by (simp add: to_blueprint_subtask_def)
  moreover have "distinct (map bs_id tasks)" using tasks(2) assms(2) by simp
  ultimately obtain left w' where "run_subtask_local_execution c env project story
      (join_path (project @ [''stories'']) story)
      [(''goal'', PStr (''Runtime execution for '' @ story)),
       (''acceptance_criteria'', pstrs (map rm_requirement_id (rp_requirement_mappings revision))),
       (''subtasks'', PList (map (\<lambda>t. PDict (task_snapshot_to_dict t)) (rp_task_graph revision)))]
      tasks None True False (Some initial_state) w
      = (Inl (Exn ValueError (''Sub-task dependency cycle detected: '' @ join '', '' left)), w')"
    using dependency_outside_selection [OF _ tasks(3)] by blast
  then have "local_runner c env project story (join_path (project @ [''stories'']) story)
      [(''goal'', PStr (''Runtime execution for '' @ story)),
       (''acceptance_criteria'', pstrs (map rm_requirement_id (rp_requirement_mappings revision))),
       (''subtasks'', PList (map (\<lambda>t. PDict (task_snapshot_to_dict t)) (rp_task_graph revision)))]
      tasks initial_state w
      = (Inl (Exn ValueError (''Sub-task dependency cycle detected: '' @ join '', '' left)), w')"
    by (simp add: local_runner_def pbind_Inl)
  then have "run_runtime_revision_execution (local_runner c env) project story revision (Some ids) initial_state w
      = (Inl (Exn ValueError (''Sub-task dependency cycle detected: '' @ join '', '' left)), w')"
    by (simp add: run_runtime_revision_execution_def Let_def tasks(1) pbind_Inl)
  then show ?thesis by (intro exI [of _ left]) simp
qed

subsection \<open>A run\<close>

text \<open>
  A project with an empty configuration, so that no model is found, and a task that needs a file
  which is not there.
\<close>

definition sample_env :: local_env where
  "sample_env = \<lparr>lx_now = (\<lambda>_. ''t''), lx_duration = (\<lambda>_. PInt 0), lx_post = (\<lambda>_ _ _ _ _. Inr []), lx_environ = (\<lambda>_. None)\<rparr>"

definition unconfigured_world :: world where
  "unconfigured_world = \<lparr>w_disk = \<lparr>fs_files = [(runtime_config_path [''p''], Doc (PDict []))], fs_dirs = []\<rparr>,
     w_clock = 0, w_ids = 0\<rparr>"

definition blocked_task :: "string \<Rightarrow> blueprint_subtask" where
  "blocked_task i = (sample_subtask i ''test'' [])\<lparr>bs_required_context := \<lparr>rq_files = [''m.md''], rq_summaries = [],
     rq_prior_task_outputs = [], rq_architecture_decisions = []\<rparr>\<rparr>"

text \<open>A dry run: the folder of the execution is made, and the model of the task looked up.\<close>

definition dry_run_world :: "local_execution_result res \<times> world" where
  "dry_run_world = run_subtask_local_execution sample_codecs sample_env [''p''] ''s'' [''p'', ''s''] [] [blocked_task ''a''] None
     False True None unconfigured_world"

definition kept_path :: path where
  "kept_path = [''p'', ''s'', ''reports'', ''local_execution'', ''.gitkeep'']"

lemma dry_run_files:
  "fs_file (w_disk (snd dry_run_world)) kept_path \<noteq> None" "fs_file (w_disk unconfigured_world) kept_path = None"
proof -
  show none: "fs_file (w_disk unconfigured_world) kept_path = None" by code_simp
  have kept: "kept_path = execution_folder [''p'', ''s''] @ [''.gitkeep'']" "plain_path kept_path"
    by (simp_all add: kept_path_def execution_folder_def)
  have "fs_file (prepare_execution (execution_folder [''p'', ''s'']) (w_disk unconfigured_world)) kept_path \<noteq> None"
    by code_simp
  moreover have preads: "snd (pbind (pread f) (\<lambda>x. pret (g x)) w) = w" for f :: "world \<Rightarrow> 'a res" and g :: "'a \<Rightarrow> 'b" and w
    by (cases "f w") (simp_all add: pbind_def)
  ultimately show "fs_file (w_disk (snd dry_run_world)) kept_path \<noteq> None"
    by (cases "topological_subtasks [blocked_task ''a'']")
      (simp_all add: dry_run_world_def run_subtask_local_execution_def Let_def selected_subtasks_def on_disk_def pbind_Inr pbind_Inl preads)
qed

theorem subtask_run_confined_witness:
  "\<exists>res w'. run_subtask_local_execution sample_codecs sample_env [''p''] ''s'' [''p'', ''s''] [] [blocked_task ''a''] None
     False True None unconfigured_world = (res, w')
    \<and> fs_file (w_disk w') kept_path \<noteq> fs_file (w_disk unconfigured_world) kept_path
    \<and> ((\<exists>r. kept_path = [''p'', ''s''] @ [''reports'', ''local_execution''] @ r)
      \<or> (\<exists>t \<in> set [blocked_task ''a'']. \<exists>pattern \<in> set (bs_writable_paths t). \<exists>s.
          kept_path = [''p''] @ posix_tail s \<and> fnmatchcase s pattern))"
proof -
  obtain res w' where run: "run_subtask_local_execution sample_codecs sample_env [''p''] ''s'' [''p'', ''s''] []
      [blocked_task ''a''] None False True None unconfigured_world = (res, w')" by fastforce
  have there: "fs_file (w_disk w') kept_path \<noteq> fs_file (w_disk unconfigured_world) kept_path"
    using dry_run_files by (simp add: dry_run_world_def run)
  have "plain_path [''p'']" "plain_path [''p'', ''s'']" "\<forall>t \<in> set [blocked_task ''a'']. plain_name (bs_id t)"
    "distinct (map bs_id [blocked_task ''a''])" "plain_path kept_path"
    by (simp_all add: blocked_task_def sample_subtask_def plain_name_def kept_path_def)
  from subtask_run_confined [OF this(1-4) run this(5) there] run there show ?thesis by blast
qed


text \<open>A resumed state in which both tasks of a story are completed.\<close>

definition finished_state :: pydict where
  "finished_state = [(''tasks'', PDict [(''b'', PDict [(''status'', PStr ''completed'')]), (''a'', PDict [(''status'', PStr ''completed'')])])]"

definition finished_tasks :: "blueprint_subtask list" where
  "finished_tasks = [blocked_task ''a'', (blocked_task ''b'')\<lparr>bs_depends_on := [''a'']\<rparr>]"

lemma finished_parts:
  "rbind (selected_subtasks finished_tasks None) topological_subtasks = Inr finished_tasks"
  "is_ok (rmap_list (preview_task sample_codecs [''p''] ''s'' [''p'', ''s''] []
     (prepare_execution (execution_folder [''p'', ''s'']) (w_disk unconfigured_world))) finished_tasks)"
  "initialize_subtask_state finished_state ''s'' finished_tasks = Inr finished_state"
  by code_simp+

lemma finished_task_entry:
  "t \<in> set finished_tasks \<Longrightarrow> xs_state s = finished_state \<Longrightarrow>
   task_entry t s = (Inr [(''status'', PStr ''completed'')], s)"
  by (auto simp: task_entry_def finished_tasks_def finished_state_def blocked_task_def sample_subtask_def setdefault_def
      dget_or_def)

lemma unconfigured_model:
  assumes "map_of (fs_files d) (runtime_config_path [''p'']) = Some (Doc (PDict []))" and "t \<in> set finished_tasks"
  shows "is_ok (resolve_subtask_model sample_codecs [''p''] t d)"
proof -
  have "plain_path (runtime_config_path [''p''])" by (simp add: runtime_config_path_def)
  with assms(1) have load: "load_runtime_config sample_codecs [''p''] d = Inr (runtime_config_path [''p''], [])"
    by (simp add: load_runtime_config_def Let_def fs_exists_def yaml_value_def)
  have "bs_role t = ''test''" using assms(2) by (auto simp: finished_tasks_def blocked_task_def sample_subtask_def)
  moreover have "canonical_role [(''id'', PStr (lookup_or ROLE_TO_AGENT_ID ''test'' ''test'')), (''role'', PStr ''test'')]
      = Inr ''test''" by code_simp
  ultimately show ?thesis
    by (auto simp: resolve_subtask_model_def resolve_role_model_def load Let_def dget_or_def text_value_def stripped_def)
qed

lemma finished_final:
  "\<exists>st. finalize_subtask_story_state finished_state finished_tasks [] = Inr st \<and> tasks_of_state st = tasks_of_state finished_state"
proof -
  have "case finalize_subtask_story_state finished_state finished_tasks [] of
      Inr st \<Rightarrow> tasks_of_state st = tasks_of_state finished_state | Inl _ \<Rightarrow> False"
    by code_simp
  then show ?thesis by (auto split: sum.splits)
qed

lemma finished_models:
  assumes "map_of (fs_files d) (runtime_config_path [''p'']) = Some (Doc (PDict []))"
    and "tasks_of_state st = tasks_of_state finished_state"
  shows "is_ok (result_subtask_models sample_codecs [''p''] finished_tasks st d)"
  unfolding result_subtask_models_def
proof (rule rmap_list_ok)
  fix t assume t: "t \<in> set finished_tasks"
  have field: "nested_get (tasks_of_state finished_state) (bs_id t) k v
      = Inr (if k = ''status'' then PStr ''completed'' else v)" for k v
    using t by (auto simp: nested_get_def tasks_of_state_def finished_state_def finished_tasks_def blocked_task_def
        sample_subtask_def dget_or_def)
  from unconfigured_model [OF assms(1) t] show "is_ok (rbind (resolve_subtask_model sample_codecs [''p''] t d) (\<lambda>resolved.
       rbind (nested_get (tasks_of_state st) (bs_id t) ''estimated_input_tokens'' PNone) (\<lambda>estimate.
       rbind (nested_get (tasks_of_state st) (bs_id t) ''usable_input_tokens'' PNone) (\<lambda>limit.
       rbind (nested_get (tasks_of_state st) (bs_id t) ''status'' (PStr ''pending'')) (\<lambda>status.
       Inr \<lparr>rm_task_id = bs_id t, rm_title = bs_title t, rm_role = bs_role t, rm_model = rr_model resolved,
         rm_source = rr_source resolved, rm_estimated_input_tokens = estimate, rm_usable_input_tokens = limit,
         rm_status = py_str status\<rparr>)))))"
    unfolding assms(2) by (auto simp: is_ok_iff field)
qed

lemma finished_run:
  "is_ok (fst (run_subtask_local_execution sample_codecs sample_env [''p''] ''s'' [''p'', ''s''] [] finished_tasks None
     True False (Some finished_state) unconfigured_world))"
proof -
  let ?e = "execution_folder [''p'', ''s'']"
  let ?d = "prepare_execution ?e (w_disk unconfigured_world)"
  obtain st where st: "finalize_subtask_story_state finished_state finished_tasks [] = Inr st"
      "tasks_of_state st = tasks_of_state finished_state"
    using finished_final by blast
  obtain previews where previews: "rmap_list (preview_task sample_codecs [''p''] ''s'' [''p'', ''s''] [] ?d) finished_tasks = Inr previews"
    using finished_parts(2) by (auto simp: is_ok_iff)
  have task: "run_task sample_codecs sample_env [''p''] ''s'' [''p'', ''s''] [] ?e p True t s = (Inr (), s)"
    if "t \<in> set finished_tasks" "xs_state s = finished_state" for t s p
    using finished_task_entry [OF that] by (simp add: run_task_def Let_def pbind_Inr dget_or_def)
  have loop: "pfold (\<lambda>t _. run_task sample_codecs sample_env [''p''] ''s'' [''p'', ''s''] [] ?e p True t) ts () s = (Inr (), s)"
    if "set ts \<subseteq> set finished_tasks" "xs_state s = finished_state" for ts s p
    using that by (induction ts) (simp_all add: task pbind_Inr)
  have paths: "plain_path (?e @ [''state.yaml''])" "plain_path (?e @ [''.gitkeep''])"
    "runtime_config_path [''p''] \<noteq> ?e @ [''state.yaml'']" "runtime_config_path [''p''] \<noteq> ?e @ [''.gitkeep'']"
    by (simp_all add: execution_folder_def runtime_config_path_def)
  have config: "map_of (fs_files ?d) (runtime_config_path [''p'']) = Some (Doc (PDict []))"
    using paths by (simp add: prepare_execution_def Let_def unconfigured_world_def)
  have "map_of (fs_files (fs_write (?e @ [''state.yaml'']) (Doc (PDict st))
      (fs_write (?e @ [''state.yaml'']) (Doc (PDict finished_state)) ?d))) (runtime_config_path [''p'']) = Some (Doc (PDict []))"
    using config paths by simp
  from finished_models [OF this st(2)] obtain models where models: "result_subtask_models sample_codecs [''p''] finished_tasks st
      (fs_write (?e @ [''state.yaml'']) (Doc (PDict st)) (fs_write (?e @ [''state.yaml'']) (Doc (PDict finished_state)) ?d)) = Inr models"
    unfolding is_ok_iff by blast
  have run: "run_tasks sample_codecs sample_env [''p''] ''s'' [''p'', ''s''] [] ?e (?e @ [''state.yaml'']) True finished_tasks
      \<lparr>xs_world = unconfigured_world\<lparr>w_disk := ?d\<rparr>, xs_state = finished_state, xs_audit = [], xs_attempted = []\<rparr>
      = (Inr (py_str (dget_or st ''status'' PNone), models), u)"
    if u: "u = \<lparr>xs_world = unconfigured_world\<lparr>w_disk := fs_write (?e @ [''state.yaml'']) (Doc (PDict st))
        (fs_write (?e @ [''state.yaml'']) (Doc (PDict finished_state)) ?d)\<rparr>, xs_state = st, xs_audit = [], xs_attempted = []\<rparr>" for u
    unfolding run_tasks_def u by (simp add: pbind_def write_state_run run_disk_def loop st(1) models)
  have "run_ordered sample_codecs sample_env [''p''] ''s'' [''p'', ''s''] [] ?e True (Some finished_state) finished_tasks
      (unconfigured_world\<lparr>w_disk := ?d\<rparr>) = (Inr (py_str (dget_or st ''status'' PNone), models), xs_world u)"
    if u: "u = \<lparr>xs_world = unconfigured_world\<lparr>w_disk := fs_write (?e @ [''state.yaml'']) (Doc (PDict st))
        (fs_write (?e @ [''state.yaml'']) (Doc (PDict finished_state)) ?d)\<rparr>, xs_state = st, xs_audit = [], xs_attempted = []\<rparr>" for u
    by (simp add: run_ordered_def Let_def pbind_def existing_state_def finished_parts(3) with_state_def run [OF u])
  then show ?thesis
    by (simp add: run_subtask_local_execution_def Let_def on_disk_def pbind_def finished_parts(1) previews)
qed

theorem completed_after_dependencies_witness:
  "\<exists>res w' state. run_subtask_local_execution sample_codecs sample_env [''p''] ''s'' [''p'', ''s''] [] finished_tasks None
     True False (Some finished_state) unconfigured_world = (Inr res, w')
    \<and> fs_file (w_disk w') (le_state_path res) = Some (Doc (PDict state))
    \<and> dependencies_done finished_tasks (done_in state)"
proof -
  obtain res w' where run: "run_subtask_local_execution sample_codecs sample_env [''p''] ''s'' [''p'', ''s''] [] finished_tasks None
     True False (Some finished_state) unconfigured_world = (Inr res, w')"
    using finished_run by (auto simp: is_ok_iff prod_eq_iff)
  have "plain_path [''p'', ''s'']" by simp
  moreover have "distinct (map bs_id finished_tasks)" by code_simp
  moreover have "\<forall>existing. existing_state sample_codecs (execution_folder [''p'', ''s''] @ [''state.yaml'']) True
      (Some finished_state) (prepare_execution (execution_folder [''p'', ''s'']) (w_disk unconfigured_world)) = Inr existing
      \<longrightarrow> dependencies_done finished_tasks (done_in existing)"
    by (auto simp: existing_state_def dependencies_done_def finished_tasks_def blocked_task_def sample_subtask_def done_in_def
        tasks_of_state_def finished_state_def dget_or_def is_completed_def state_field_def)
  ultimately show ?thesis using completed_after_dependencies [OF _ _ _ run] run by blast
qed

text \<open>The same project, and a task with the identifier of a directory at the root; the parser accepts it.\<close>

definition escaping_run :: "unit res \<times> exec_run" where
  "escaping_run = execute_task sample_codecs sample_env [''p''] ''s'' [''p'', ''s''] [] [''p'', ''s'', ''e'']
     [''p'', ''s'', ''e'', ''state.yaml''] (blocked_task ''/etc'') []
     \<lparr>xs_world = unconfigured_world, xs_state = [], xs_audit = [], xs_attempted = []\<rparr>"

lemma escaping_model: "resolve_subtask_model sample_codecs [''p''] (blocked_task ''/etc'') (w_disk unconfigured_world) =
    Inr \<lparr>rr_role = ''test'', rr_agent_id = ''test_agent'', rr_model = None, rr_source = ''unresolved''\<rparr>"
  by code_simp

lemma escaping_run_returns: "is_ok (fst escaping_run)"
  by (simp add: escaping_run_def execute_task_def Let_def pbind_def run_disk_def escaping_model on_run_disk_def in_world_def
      on_disk_def set_all_def set_state_def set_audit_def set_attempted_def store_audit_def write_state_def write_audit_def
      now_text_def finally_do_def ptry_def task_attempt_def task_failure_def is_value_error_def fail_subtask_def
      add_once_def close_task_def value_error_def dget_or_def)

theorem task_identifier_escapes_witness:
  "\<exists>task u. parse_blueprint_subtasks (Some [(''subtasks'', PList [sample_raw_task ''/etc'' ''test'' []])]) = Inr [task]
    \<and> is_absolute (bs_id task)
    \<and> execute_task sample_codecs sample_env [''p''] ''s'' [''p'', ''s''] [] [''p'', ''s'', ''e'']
        ([''p'', ''s'', ''e''] @ [''state.yaml'']) (blocked_task (bs_id task)) []
        \<lparr>xs_world = unconfigured_world, xs_state = [], xs_audit = [], xs_attempted = []\<rparr> = (Inr (), u)
    \<and> fs_file (run_disk u) [''etc'', ''execution.yaml''] = Some (Doc (PDict (xs_audit u)))"
proof -
  have parsed: "parse_blueprint_subtasks (Some [(''subtasks'', PList [sample_raw_task ''/etc'' ''test'' []])])
      = Inr [sample_subtask ''/etc'' ''test'' []]"
    by code_simp
  obtain u where run: "execute_task sample_codecs sample_env [''p''] ''s'' [''p'', ''s''] [] [''p'', ''s'', ''e'']
      ([''p'', ''s'', ''e''] @ [''state.yaml'']) (blocked_task ''/etc'') []
      \<lparr>xs_world = unconfigured_world, xs_state = [], xs_audit = [], xs_attempted = []\<rparr> = (Inr (), u)"
    using escaping_run_returns by (auto simp: escaping_run_def is_ok_iff prod_eq_iff)
  have ids: "bs_id (sample_subtask ''/etc'' ''test'' []) = ''/etc''" "bs_id (blocked_task ''/etc'') = ''/etc''"
    by (simp_all add: sample_subtask_def blocked_task_def)
  have tail: "is_absolute ''/etc''" "posix_tail ''/etc'' = [''etc'']" by code_simp+
  have "plain_path (posix_tail (bs_id (blocked_task ''/etc'')))" "plain_path [''p'', ''s'', ''e'']"
    unfolding ids tail by simp_all
  from task_identifier_escapes [OF run _ this] parsed run show ?thesis
    unfolding ids tail(2) using tail(1) ids(1) by fastforce
qed

text \<open>A revision with a completed task and a ready one that depends on it.\<close>

definition dependent_revision :: runtime_plan_revision where
  "dependent_revision = source_revision ''r1'' None
     [(sample_task ''a'' [] [''x''])\<lparr>ts_status := ''completed''\<rparr>, sample_task ''b'' [''a''] [''y'']]"

theorem dependent_task_never_resumes_witness:
  "with_status ''ready'' dependent_revision = [''b'']
    \<and> (\<exists>left. fst (run_runtime_revision_execution (local_runner sample_codecs sample_env) [''p''] ''s'' dependent_revision
        (Some [''b'']) (build_resume_initial_state dependent_revision) unconfigured_world)
      = Inl (Exn ValueError (''Sub-task dependency cycle detected: '' @ join '', '' left)))"
proof -
  let ?a = "(sample_task ''a'' [] [''x''])\<lparr>ts_status := ''completed''\<rparr>" and ?b = "sample_task ''b'' [''a''] [''y'']"
  have graph: "rp_task_graph dependent_revision = [?a, ?b]" by (simp add: dependent_revision_def source_revision_def)
  have fields: "ts_task_id ?a = ''a''" "ts_task_id ?b = ''b''" "ts_depends_on ?b = [''a'']" "ts_status ?b = ''ready''"
    "ts_status ?a = ''completed''" by (simp_all add: sample_task_def)
  have "with_status ''ready'' dependent_revision = [''b'']" by (simp add: with_status_def graph fields)
  moreover have "\<exists>left. fst (run_runtime_revision_execution (local_runner sample_codecs sample_env) [''p''] ''s''
      dependent_revision (Some [''b'']) (build_resume_initial_state dependent_revision) unconfigured_world)
      = Inl (Exn ValueError (''Sub-task dependency cycle detected: '' @ join '', '' left))"
    by (rule dependent_task_never_resumes [of _ _ ?b ?a]) (simp_all add: graph fields)
  ultimately show ?thesis by blast
qed

end
