(* ===== verification/Spec2Isabelle.thy ===== *)
theory Spec2Isabelle
  imports QueueSystem BatchPlanning LocalRoleCases
begin

text \<open>
  A verification development for the work flow of the Python package \<open>agentic_dev\<close>
  (\<open>src/src/agentic_dev\<close>): a project sends work it cannot do locally to a cloud model by hand, takes
  the responses back, changes its runtime plan accordingly and executes the tasks of that plan with a
  local model. File names below are relative to that directory.

  \<^bold>\<open>The program and its parts.\<close>

  \<^item> \<^bold>\<open>Cloud queue\<close> (\<open>cloud_queue/\<close>). A request is a YAML file in the directory of its state. Commands
  generate requests, export packets for the operator, import the responses, classify them against
  what the request allows, and record the operator's decisions in an audit log.

  \<^item> \<^bold>\<open>Cloud batches\<close> (\<open>cloud_batch/\<close>). Requests are grouped into batches with dependencies, execution
  waves, locks, attempts, retry, cancellation and recovery. Planning a batch asks the application
  service for the plan of every item.

  \<^item> \<^bold>\<open>Cloud application\<close> (\<open>cloud_application/\<close>). A response that is eligible becomes a new revision of
  the runtime plan (a task graph). The active revision is switched by a pointer file inside a journalled
  transaction; roll-back, recovery, leases and the publication gate protect what follows. A resume hands
  the ready tasks of the active revision to the local execution.

  \<^item> \<^bold>\<open>Local execution\<close> (\<open>runtime_config.py\<close>, \<open>local_model_runtime.py\<close>, \<open>subtask_execution.py\<close>,
  \<open>local_execution.py\<close>). Reads and validates the runtime configuration, orders the sub-tasks of a story,
  assembles their prompts, asks the local model over HTTP, checks the paths of the files it returns
  against those the task may write, writes them, and records everything in the state of the story.

  They interact through the files of the project: the queue writes the requests and responses the
  application reads; the batch planner calls \<open>plan_apply\<close>; the resume calls the publication gate and the
  local execution. The model composes them in the same way.

  \<^bold>\<open>Theories\<close>, in the order of their imports.

  \<^item> Python. \<open>Prelude\<close>: exceptions as values (\<open>res\<close>), programs over a state (\<open>prog\<close>) with their rules
  (\<open>keeps\<close>, \<open>ensures\<close>, \<open>guarded\<close>), association lists, sorting. \<open>PyStrings\<close>, \<open>PyValue\<close>, \<open>PyPath\<close>: strings,
  the dynamically typed values that YAML and JSON hold, \<open>pathlib\<close>. \<open>FileStore\<close>: the disk, with the
  locales \<open>file_store\<close> and \<open>state_directories\<close>; \<open>DocStore\<close>: the locale \<open>document_store\<close> of records kept
  under their identifiers; \<open>Transitions\<close>: the locale \<open>transition_table\<close>. Each locale is interpreted on
  the code's own operations in the theory that models them.

  \<^item> Queue. \<open>QueueModels\<close> (\<open>models.py\<close>), \<open>QueueStateMachine\<close> (\<open>state_machine.py\<close>), \<open>QueueValidation\<close>
  (\<open>validation.py\<close>, \<open>redaction.py\<close>), \<open>QueueClassification\<close> (\<open>classification.py\<close>), \<open>QueueStore\<close>
  (\<open>persistence.py\<close>, \<open>approvals.py\<close>, \<open>imports.py\<close>, \<open>audit.py\<close>), \<open>QueueService\<close> (\<open>service.py\<close>),
  \<open>QueueImport\<close> (\<open>importers.py\<close>, \<open>adapters.py\<close>), \<open>QueueExport\<close> (\<open>context.py\<close>, \<open>export.py\<close>,
  \<open>formatting.py\<close>), \<open>QueueExportFacts\<close>, and \<open>QueueSystem\<close>, where the commands are the steps of a
  transition system over disks.

  \<^item> Batches. \<open>BatchStateMachine\<close>, \<open>BatchModels\<close> and \<open>BatchValidation\<close> (\<open>models.py\<close>), \<open>BatchGraph\<close>
  (\<open>graph.py\<close>), \<open>BatchScheduling\<close> (\<open>progress.py\<close>, \<open>conflicts.py\<close>, the waves of \<open>planning.py\<close>),
  \<open>BatchStore\<close> (\<open>persistence.py\<close>, \<open>audit.py\<close>, \<open>concurrency.py\<close>), \<open>BatchOps\<close> (\<open>retry.py\<close>,
  \<open>cancellation.py\<close>, \<open>recovery.py\<close>, \<open>formatting.py\<close>), \<open>BatchPlanning\<close> (the plan of a batch).

  \<^item> Applications. \<open>AppStateMachine\<close>, \<open>AppModels\<close>, \<open>AppValidation\<close>, \<open>AppGraph\<close>, \<open>AppStore\<close>
  (\<open>persistence.py\<close>, \<open>transactions.py\<close>, \<open>audit.py\<close>), \<open>AppPlanning\<close>, \<open>AppPublication\<close>, \<open>AppService\<close>,
  \<open>AppRecovery\<close> and \<open>AppResume\<close> (\<open>service.py\<close> in three parts, with \<open>resume.py\<close> and \<open>formatting.py\<close>);
  their theorems are in \<open>AppServiceFacts\<close>, \<open>AppAtomicity\<close>, \<open>AppRecoveryFacts\<close> and \<open>AppResumeFacts\<close>.

  \<^item> Execution. \<open>RuntimeConfig\<close>, \<open>LocalModel\<close>, \<open>SubtaskGraph\<close> and \<open>SubtaskContext\<close>
  (\<open>subtask_execution.py\<close>), \<open>LocalExecution\<close> and \<open>LocalRun\<close> (\<open>local_execution.py\<close>, with the role tables
  of \<open>agent_assignment.py\<close>); theorems in \<open>LocalRunFacts\<close>, \<open>LocalRunOrder\<close> and \<open>LocalRunCases\<close>.
  A story without sub-tasks: \<open>RoleContext\<close> (\<open>role_context.py\<close> and the agent plan of \<open>prompt_pack.py\<close>) and
  \<open>LocalRole\<close> (\<open>story_blueprint.py\<close>, the role loop of \<open>local_execution.py\<close>); theorems in
  \<open>LocalRoleFacts\<close> and \<open>LocalRoleCases\<close>.

  \<^bold>\<open>How the model corresponds to the code.\<close> A dataclass is a record whose fields carry a prefix of the
  class (\<open>rq_\<close> for \<open>CloudQueueRequest\<close>, \<open>bi_\<close> for \<open>BatchItem\<close>, \<open>ts_\<close> for \<open>TaskSnapshot\<close> and so on); a
  function keeps its name, without a leading underscore. A function that raises returns \<open>Inl (Exn class
  message)\<close>; one that changes files is a program over the disk, or over a \<open>world\<close> that also counts the
  calls of the clock and of the factories of identifiers; the run of a story works on an \<open>exec_run\<close>, which
  adds the state of the story, the audit of the current task and the paths it attempted. Dictionaries are
  association lists in insertion order; sets that are only iterated after sorting are sorted lists without
  duplicates. A path is the list of its parts; double dots are followed when a file is opened, as the
  operating system does.

  \<^bold>\<open>Parameters.\<close> What is not under \<open>src/\<close> is an argument: the YAML, JSON, SHA-256, UTF-8 and ZIP codecs
  (record \<open>codecs\<close>), the clock, the factories of identifiers, the endpoint of the model, the environment
  and the measured durations (\<open>call_env\<close>, \<open>application_service\<close>, \<open>local_env\<close>). Theorems hold for all of
  them unless a hypothesis says otherwise; a YAML file that the program wrote is a \<open>Doc\<close> and read back as
  the value that was written, any other text goes through the codec. \<open>redact_text\<close> (regular expressions
  over the texts of a packet) is a parameter as well, and so is the order in which Python visits the set
  of excluded folders (\<open>folder_order\<close>), which depends on the seed of its hash function.

  \<^bold>\<open>What the lemmas show.\<close> Per component: codecs give back what they wrote, each check accepts exactly
  what its specification says, the graph searches decide acyclicity and order dependencies first, saves
  keep what does not depend on their file. Across components: every disk the queue commands reach is
  consistent, decisions and imports are made as a whole or not at all; an apply switches the active
  revision in one step wherever it fails; a roll-back restores the parent; a result is only published
  through the gate; a run of sub-tasks writes only where its tasks may and completes tasks only after their
  dependencies, and a run of roles is confined in the same way; planning a batch changes no file. Where the code does something else than it says, a
  theorem states what it does.

  \<^bold>\<open>Fuel and termination.\<close> The depth-first searches of \<open>graph.py\<close> and \<open>validation.py\<close> and the worklist of
  the topological order run on fuel, one more than the number of nodes; lemmas of \<open>BatchGraph\<close> and
  \<open>AppValidation\<close> show that this is enough for every graph, so that no result depends on it. The Python
  recursion limit is not modelled. All other loops are structural recursions or functions with a
  termination proof.

  \<^bold>\<open>Not modelled.\<close> The command line (\<open>cli.py\<close>) parses arguments and prints. \<open>story_runner.py\<close>,
  \<open>workflow_run.py\<close>, \<open>codex_runtime.py\<close> and \<open>local_repair_loop.py\<close> drive subprocesses. \<open>review_state/\<close>,
  \<open>queue_management.py\<close>, the scans, the readiness reports and the story preparation collect and format
  files of a project that the modelled parts do not read. Of \<open>local_model_runtime.py\<close> the assembly of
  drafts is left out. Inside the modelled parts: symbolic
  links, file permissions and concurrent processes (a lock file is taken in one step), texts outside
  Latin-1 (a \<open>char\<close> is a code point below 256), floating point numbers other than as opaque values, and
  identifiers that \<open>glob\<close> would read as patterns; where the code could meet such a case the model answers
  with the exception class \<open>OutsideModel\<close>.
\<close>

end
